(* ===== verification/Prelude.thy ===== *)
theory Prelude
  imports Main "HOL-Library.State_Monad" "HOL-Library.AList" "HOL-Library.List_Lexorder"
    "HOL-Library.Char_ord" "HOL-Library.Word" "HOL-Library.Multiset"
begin

text \<open>
  The parts of the Rust language and standard library that the program uses and the components
  share: byte strings with ASCII case folding, \<^verbatim>\<open>HashMap\<close> as an association list (its order is
  any order, as the iteration order of a hash map is), \<^verbatim>\<open>saturating_sub\<close>, minima of iterators, and
  stateful code as a state monad with pre- and postconditions.

  A \<^verbatim>\<open>String\<close> is the list of its UTF-8 bytes. \<^verbatim>\<open>eq_ignore_ascii_case\<close> compares bytes
  and is modelled exactly; \<^verbatim>\<open>to_lowercase\<close> is modelled on ASCII text, where it folds the
  letters A to Z (bytes of other characters are kept).
\<close>

named_theorems hoare_intros "rules for pre- and postconditions of state monads"
named_theorems wf_intros "preservation of the components' well-formedness"

section \<open>Strings\<close>

definition ascii_lower :: "char \<Rightarrow> char" where
  "ascii_lower c = (let n = of_char c :: nat in if 65 \<le> n \<and> n \<le> 90 then char_of (n + 32) else c)"

definition to_lowercase :: "string \<Rightarrow> string" where
  "to_lowercase s = map ascii_lower s"

definition eq_ignore_ascii_case :: "string \<Rightarrow> string \<Rightarrow> bool" where
  "eq_ignore_ascii_case a b \<longleftrightarrow> map ascii_lower a = map ascii_lower b"

definition ascii_alphanumeric :: "char \<Rightarrow> bool" where
  "ascii_alphanumeric c \<longleftrightarrow> (let n = of_char c :: nat in
     48 \<le> n \<and> n \<le> 57 \<or> 65 \<le> n \<and> n \<le> 90 \<or> 97 \<le> n \<and> n \<le> 122)"

definition is_digit :: "char \<Rightarrow> bool" where
  "is_digit c \<longleftrightarrow> (let n = of_char c :: nat in 48 \<le> n \<and> n \<le> 57)"

text \<open>\<^verbatim>\<open>str::trim\<close> on ASCII text.\<close>

definition is_white :: "char \<Rightarrow> bool" where
  "is_white c \<longleftrightarrow> (let n = of_char c :: nat in 9 \<le> n \<and> n \<le> 13 \<or> n = 32)"

definition str_trim :: "string \<Rightarrow> string" where
  "str_trim s = rev (dropWhile is_white (rev (dropWhile is_white s)))"

lemma ascii_lower_idem [simp]: "ascii_lower (ascii_lower c) = ascii_lower c"
proof (cases "65 \<le> (of_char c :: nat) \<and> (of_char c :: nat) \<le> 90")
  case True
  then have "(of_char c + 32 :: nat) mod 256 = of_char c + 32"
    by (intro mod_less) simp
  with True show ?thesis
    by (simp add: ascii_lower_def)
next
  case False
  then show ?thesis by (auto simp: ascii_lower_def Let_def)
qed

lemma to_lowercase_idem [simp]: "to_lowercase (to_lowercase s) = to_lowercase s"
  by (simp add: to_lowercase_def)

lemma length_to_lowercase [simp]: "length (to_lowercase s) = length s"
  by (simp add: to_lowercase_def)

lemma eq_ignore_ascii_case_iff:
  "eq_ignore_ascii_case a b \<longleftrightarrow> to_lowercase a = to_lowercase b"
  by (simp add: eq_ignore_ascii_case_def to_lowercase_def)

lemma eq_ignore_ascii_case_refl [simp]: "eq_ignore_ascii_case a a"
  by (simp add: eq_ignore_ascii_case_def)

lemma eq_ignore_ascii_case_sym: "eq_ignore_ascii_case a b \<longleftrightarrow> eq_ignore_ascii_case b a"
  by (auto simp: eq_ignore_ascii_case_def)

lemma eq_ignore_ascii_case_trans:
  "eq_ignore_ascii_case a b \<Longrightarrow> eq_ignore_ascii_case b c \<Longrightarrow> eq_ignore_ascii_case a c"
  by (simp add: eq_ignore_ascii_case_def)

lemma eq_ignore_lowercase [simp]:
  "eq_ignore_ascii_case (to_lowercase a) b \<longleftrightarrow> eq_ignore_ascii_case a b"
  "eq_ignore_ascii_case a (to_lowercase b) \<longleftrightarrow> eq_ignore_ascii_case a b"
  by (simp_all add: eq_ignore_ascii_case_iff)

text \<open>\<^verbatim>\<open>str::split_once\<close>: the text before and after the first occurrence of a character.\<close>

fun split_once :: "char \<Rightarrow> string \<Rightarrow> (string \<times> string) option" where
  "split_once c [] = None"
| "split_once c (x # xs) =
     (if x = c then Some ([], xs) else map_option (\<lambda>(a, b). (x # a, b)) (split_once c xs))"

lemma split_once_append: "c \<notin> set a \<Longrightarrow> split_once c (a @ c # b) = Some (a, b)"
  by (induction a) auto

lemma split_once_None_iff: "split_once c s = None \<longleftrightarrow> c \<notin> set s"
  by (induction s) auto

lemma split_once_Some: "split_once c s = Some (a, b) \<Longrightarrow> s = a @ c # b \<and> c \<notin> set a"
  by (induction s arbitrary: a) (auto split: if_splits)

text \<open>\<^verbatim>\<open>[String]::join\<close>.\<close>

fun join :: "string \<Rightarrow> string list \<Rightarrow> string" where
  "join sep [] = []"
| "join sep [x] = x"
| "join sep (x # y # ys) = x @ sep @ join sep (y # ys)"

text \<open>\<^verbatim>\<open>str::contains\<close> of a pattern.\<close>

fun is_prefix_of :: "string \<Rightarrow> string \<Rightarrow> bool" where
  "is_prefix_of [] s = True"
| "is_prefix_of (x # xs) [] = False"
| "is_prefix_of (x # xs) (y # ys) = (x = y \<and> is_prefix_of xs ys)"

fun str_contains :: "string \<Rightarrow> string \<Rightarrow> bool" where
  "str_contains p [] = (p = [])"
| "str_contains p (x # xs) = (is_prefix_of p (x # xs) \<or> str_contains p xs)"

lemma is_prefix_of_append [simp]: "is_prefix_of p (p @ s)"
  by (induction p) auto

lemma str_contains_prefix [simp]: "str_contains p (p @ s)"
  by (cases "p @ s") (auto, metis is_prefix_of_append)

text \<open>\<^verbatim>\<open>str::split\<close> on a character.\<close>

fun split_on :: "char \<Rightarrow> string \<Rightarrow> string list" where
  "split_on c [] = [[]]"
| "split_on c (x # s) = (if x = c then [] # split_on c s
     else (case split_on c s of [] \<Rightarrow> [[x]] | l # ls \<Rightarrow> (x # l) # ls))"

lemma split_on_line: "c \<notin> set l \<Longrightarrow> split_on c (l @ c # s) = l # split_on c s"
  by (induction l) auto

lemma split_on_last: "c \<notin> set l \<Longrightarrow> split_on c l = [l]"
  by (induction l) auto

lemma split_on_join: "list_all (\<lambda>l. c \<notin> set l) ls \<Longrightarrow> ls \<noteq> [] \<Longrightarrow> split_on c (join [c] ls) = ls"
proof (induction ls)
  case (Cons l ls)
  then show ?case by (cases ls) (simp_all add: split_on_line split_on_last)
qed simp

text \<open>\<^verbatim>\<open>str::replace\<close> of a pattern that is not empty.\<close>

function replace_str :: "string \<Rightarrow> string \<Rightarrow> string \<Rightarrow> string" where
  "replace_str pat by [] = []"
| "replace_str pat by (c # s) =
     (if pat \<noteq> [] \<and> is_prefix_of pat (c # s) then by @ replace_str pat by (drop (length pat) (c # s))
      else c # replace_str pat by s)"
  by pat_completeness auto
termination by (relation "measure (\<lambda>(pat, by, s). length s)") auto

text \<open>\<^verbatim>\<open>Display\<close> of an unsigned integer.\<close>

fun nat_to_string :: "nat \<Rightarrow> string" where
  "nat_to_string n =
     (if n < 10 then [char_of (48 + n)] else nat_to_string (n div 10) @ [char_of (48 + n mod 10)])"

definition int_to_string :: "int \<Rightarrow> string" where
  "int_to_string n = (if n < 0 then CHR ''-'' # nat_to_string (nat (- n)) else nat_to_string (nat n))"

text \<open>\<^verbatim>\<open>str::parse::<u64>\<close>: an optional plus sign, then digits, in range.\<close>

definition parse_u64 :: "string \<Rightarrow> nat option" where
  "parse_u64 s =
     (let ds = (case s of c # cs \<Rightarrow> if c = CHR ''+'' then cs else s | [] \<Rightarrow> []);
          n = foldl (\<lambda>n c. 10 * n + (of_char c - 48)) 0 ds
      in if ds \<noteq> [] \<and> list_all is_digit ds \<and> n < 18446744073709551616 then Some n else None)"

definition parse_u32 :: "string \<Rightarrow> nat option" where
  "parse_u32 s = (case parse_u64 s of Some n \<Rightarrow> if n < 4294967296 then Some n else None | None \<Rightarrow> None)"

text \<open>\<^verbatim>\<open>str::split_whitespace\<close>.\<close>

function split_white :: "string \<Rightarrow> string list" where
  "split_white s = (let t = dropWhile is_white s in
     if t = [] then [] else takeWhile (\<lambda>c. \<not> is_white c) t # split_white (dropWhile (\<lambda>c. \<not> is_white c) t))"
  by pat_completeness auto
termination
proof (relation "measure length")
  fix s t :: string assume t: "t = dropWhile is_white s" "t \<noteq> []"
  then have "\<not> is_white (hd t)" by (simp add: hd_dropWhile)
  then have "length (dropWhile (\<lambda>c. \<not> is_white c) t) < length t"
    using t(2) by (cases t) (auto simp: le_imp_less_Suc length_dropWhile_le)
  also have "length t \<le> length s" using t(1) by (simp add: length_dropWhile_le)
  finally show "(dropWhile (\<lambda>c. \<not> is_white c) t, s) \<in> measure length" by simp
qed simp

declare split_white.simps [simp del]

definition ends_with :: "string \<Rightarrow> string \<Rightarrow> bool" where
  "ends_with s suf \<longleftrightarrow> is_prefix_of (rev suf) (rev s)"

declare nat_to_string.simps [simp del]

lemma nat_to_string_nonempty [simp]: "nat_to_string n \<noteq> []"
  by (subst nat_to_string.simps) simp

lemma digit_char: "n < 10 \<Longrightarrow> of_char (char_of (48 + n) :: char) = (48 + n :: nat)"
  by simp

lemma nat_to_string_digits: "list_all is_digit (nat_to_string n)"
proof (induction n rule: nat_to_string.induct)
  case (1 n)
  have d: "is_digit (char_of (48 + n mod 10))" "n < 10 \<Longrightarrow> is_digit (char_of (48 + n))"
    by (simp_all add: is_digit_def Let_def)
  show ?case using 1 d by (subst nat_to_string.simps) auto
qed

lemma digits_fold: "foldl (\<lambda>n c. 10 * n + (of_char c - 48)) 0 (nat_to_string n) = (n :: nat)"
proof (induction n rule: nat_to_string.induct)
  case (1 n)
  show ?case
  proof (cases "n < 10")
    case True
    then show ?thesis by (subst nat_to_string.simps) simp
  next
    case False
    then show ?thesis using 1 by (subst nat_to_string.simps) (simp add: digit_char)
  qed
qed

lemma nat_to_string_hd: "c \<notin> {c. is_digit c} \<Longrightarrow> c \<notin> set (nat_to_string n)"
  using nat_to_string_digits [of n] by (auto simp: list_all_iff)

lemma nat_to_string_inj [simp]: "nat_to_string m = nat_to_string n \<longleftrightarrow> m = n"
  using digits_fold by metis

section \<open>Iterators\<close>

text \<open>\<^verbatim>\<open>Iterator::position\<close>.\<close>

fun position :: "('a \<Rightarrow> bool) \<Rightarrow> 'a list \<Rightarrow> nat option" where
  "position P [] = None"
| "position P (x # xs) = (if P x then Some 0 else map_option Suc (position P xs))"

lemma position_None_iff: "position P xs = None \<longleftrightarrow> (\<forall>x \<in> set xs. \<not> P x)"
  by (induction xs) auto

lemma position_Some:
  "position P xs = Some i \<Longrightarrow> i < length xs \<and> P (xs ! i) \<and> (\<forall>j < i. \<not> P (xs ! j))"
proof (induction xs arbitrary: i)
  case (Cons x xs)
  show ?case
  proof (cases "P x")
    case False
    with Cons.prems obtain k where k: "position P xs = Some k" and i: "i = Suc k"
      by auto
    from Cons.IH [OF k] False i show ?thesis
      by (auto simp: less_Suc_eq_0_disj)
  qed (use Cons.prems in simp)
qed simp

lemma find_position: "List.find P xs = map_option (nth xs) (position P xs)"
  by (induction xs) (auto simp: option.map_comp o_def)

lemma find_Some: "List.find P xs = Some x \<Longrightarrow> x \<in> set xs \<and> P x"
  by (induction xs) (auto split: if_splits)

lemma find_None_iff: "List.find P xs = None \<longleftrightarrow> (\<forall>x \<in> set xs. \<not> P x)"
  by (induction xs) auto

text \<open>\<^verbatim>\<open>slice::get\<close>: no panic out of range.\<close>

definition get_at :: "'a list \<Rightarrow> nat \<Rightarrow> 'a option" where
  "get_at xs i = (if i < length xs then Some (xs ! i) else None)"

text \<open>\<^verbatim>\<open>iter.fold(init, usize::min)\<close>.\<close>

definition fold_min :: "nat \<Rightarrow> nat list \<Rightarrow> nat" where
  "fold_min m xs = fold min xs m"

lemma fold_min_Nil [simp]: "fold_min m [] = m"
  by (simp add: fold_min_def)

lemma fold_min_Cons [simp]: "fold_min m (x # xs) = min x (fold_min m xs)"
proof -
  have "fold min xs (min x m) = min x (fold min xs m)" for m :: nat
    by (induction xs arbitrary: m) (simp, metis fold_simps(2) min.left_commute)
  then show ?thesis by (simp add: fold_min_def)
qed

lemma fold_min_le: "fold_min m xs \<le> m"
  by (induction xs) auto

lemma fold_min_le_elem: "x \<in> set xs \<Longrightarrow> fold_min m xs \<le> x"
  by (induction xs) (auto simp: min.coboundedI2)

lemma fold_min_ge_iff: "k \<le> fold_min m xs \<longleftrightarrow> k \<le> m \<and> (\<forall>x \<in> set xs. k \<le> x)"
  by (induction xs) auto

lemma fold_min_pos_iff: "0 < fold_min m xs \<longleftrightarrow> 0 < m \<and> (\<forall>x \<in> set xs. 0 < x)"
  by (induction xs) auto

lemma count_list_distinct: "distinct xs \<Longrightarrow> count_list xs x = (if x \<in> set xs then 1 else 0)"
  by (induction xs) auto

section \<open>Hash maps\<close>

type_synonym ('k, 'v) hashmap = "('k \<times> 'v) list"

definition hm_ok :: "('k, 'v) hashmap \<Rightarrow> bool" where
  "hm_ok m \<longleftrightarrow> distinct (map fst m)"

abbreviation hm_get :: "('k, 'v) hashmap \<Rightarrow> 'k \<Rightarrow> 'v option" where
  "hm_get \<equiv> map_of"

abbreviation hm_insert :: "'k \<Rightarrow> 'v \<Rightarrow> ('k, 'v) hashmap \<Rightarrow> ('k, 'v) hashmap" where
  "hm_insert \<equiv> AList.update"

abbreviation hm_remove :: "'k \<Rightarrow> ('k, 'v) hashmap \<Rightarrow> ('k, 'v) hashmap" where
  "hm_remove \<equiv> AList.delete"

definition hm_contains :: "('k, 'v) hashmap \<Rightarrow> 'k \<Rightarrow> bool" where
  "hm_contains m k \<longleftrightarrow> map_of m k \<noteq> None"

text \<open>\<^verbatim>\<open>HashMap::retain\<close>.\<close>

definition hm_retain :: "('k \<Rightarrow> 'v \<Rightarrow> bool) \<Rightarrow> ('k, 'v) hashmap \<Rightarrow> ('k, 'v) hashmap" where
  "hm_retain P m = filter (\<lambda>(k, v). P k v) m"

lemma hm_get_insert [simp]: "map_of (AList.update k v m) = (map_of m)(k \<mapsto> v)"
  by (simp add: update_conv')

lemma hm_get_remove [simp]: "map_of (AList.delete k m) = (map_of m)(k := None)"
  by (simp add: delete_conv')

lemma hm_contains_iff: "hm_contains m k \<longleftrightarrow> k \<in> fst ` set m"
  by (simp add: hm_contains_def map_of_eq_None_iff)

lemma hm_ok_Nil [simp, wf_intros]: "hm_ok []"
  by (simp add: hm_ok_def)

lemma hm_ok_insert [simp, wf_intros]: "hm_ok m \<Longrightarrow> hm_ok (AList.update k v m)"
  by (simp add: hm_ok_def distinct_update)

lemma hm_ok_remove [simp, wf_intros]: "hm_ok m \<Longrightarrow> hm_ok (AList.delete k m)"
  by (simp add: hm_ok_def distinct_delete)

lemma distinct_map_fst_filter: "distinct (map fst m) \<Longrightarrow> distinct (map fst (filter P m))"
  by (induction m) (auto simp: image_iff)

lemma hm_ok_retain [simp, wf_intros]: "hm_ok m \<Longrightarrow> hm_ok (hm_retain P m)"
  by (simp add: hm_ok_def hm_retain_def distinct_map_fst_filter)

lemma length_hm_insert:
  "length (AList.update k v m) = (if hm_contains m k then length m else Suc (length m))"
  by (induction m) (auto simp: hm_contains_def)

lemma length_hm_insert_new: "\<not> hm_contains m k \<Longrightarrow> length (AList.update k v m) = Suc (length m)"
  by (induction m) (auto simp: hm_contains_def split: if_splits)

lemma length_hm_insert_le: "length (AList.update k v m) \<le> Suc (length m)"
  by (induction m) auto

lemma hm_insert_new: "\<not> hm_contains m k \<Longrightarrow> AList.update k v m = m @ [(k, v)]"
  by (induction m) (auto simp: hm_contains_def split: if_splits)

lemma hm_remove_absent: "\<not> hm_contains m k \<Longrightarrow> AList.delete k m = m"
  by (auto simp: hm_contains_iff AList.delete_eq filter_id_conv image_iff)

lemma length_hm_remove_le: "length (AList.delete k m) \<le> length m"
  by (simp add: AList.delete_eq)

lemma hm_get_retain:
  assumes "hm_ok m"
  shows "map_of (hm_retain P m) k = (case map_of m k of None \<Rightarrow> None | Some v \<Rightarrow> if P k v then Some v else None)"
  using assms
proof (induction m)
  case Nil
  then show ?case by (simp add: hm_retain_def)
next
  case (Cons kv m)
  obtain k' v' where kv: "kv = (k', v')" by (cases kv)
  from Cons.prems kv have ok: "hm_ok m" and new: "map_of m k' = None"
    by (auto simp: hm_ok_def map_of_eq_None_iff)
  from Cons.IH [OF ok] new show ?case
    by (auto simp: kv hm_retain_def split: option.splits)
qed

lemma hm_retain_subset: "set (hm_retain P m) \<subseteq> set m"
  by (auto simp: hm_retain_def)

text \<open>An entry updated through \<^verbatim>\<open>get_mut\<close>: nothing happens when the key is absent.\<close>

definition hm_modify :: "'k \<Rightarrow> ('v \<Rightarrow> 'v) \<Rightarrow> ('k, 'v) hashmap \<Rightarrow> ('k, 'v) hashmap" where
  "hm_modify k f m = map (\<lambda>(k', v). (k', if k' = k then f v else v)) m"

lemma map_fst_hm_modify [simp]: "map fst (hm_modify k f m) = map fst m"
  by (induction m) (auto simp: hm_modify_def)

lemma hm_ok_modify [simp, wf_intros]: "hm_ok (hm_modify k f m) \<longleftrightarrow> hm_ok m"
  by (simp add: hm_ok_def)

lemma hm_get_modify:
  "map_of (hm_modify k f m) k' = (if k' = k then map_option f (map_of m k') else map_of m k')"
  by (induction m) (auto simp: hm_modify_def)

lemma length_hm_modify [simp]: "length (hm_modify k f m) = length m"
  by (simp add: hm_modify_def)

end
