(* ===== verification/Labels.thy ===== *)
theory Labels
  imports Prelude
begin

text \<open>
  \<^verbatim>\<open>kuiper-agent-lib/src/labels.rs\<close>: how an agent maps a job's labels to one of its resources
  (\<open>select_mapping\<close>, \<open>mapping_for\<close>) and which label sets it advertises to the coordinator
  (\<open>capabilities\<close>).
\<close>

section \<open>Covering label sets\<close>

text \<open>
  The test the agents, the registry and the webhook filter share: every required label is present,
  compared without ASCII case.
\<close>

definition has_label :: "string list \<Rightarrow> string \<Rightarrow> bool" where
  "has_label ls l \<longleftrightarrow> list_ex (\<lambda>b. eq_ignore_ascii_case b l) ls"

lemma has_label_iff: "has_label ls l \<longleftrightarrow> (\<exists>b \<in> set ls. eq_ignore_ascii_case b l)"
  by (simp add: has_label_def list_ex_iff)

lemma has_label_lower: "has_label ls l \<longleftrightarrow> to_lowercase l \<in> to_lowercase ` set ls"
  by (auto simp: has_label_iff eq_ignore_ascii_case_iff image_iff) metis

lemma has_label_Nil [simp]: "\<not> has_label [] l"
  by (simp add: has_label_iff)

lemma has_label_Cons: "has_label (x # xs) l \<longleftrightarrow> eq_ignore_ascii_case x l \<or> has_label xs l"
  by (auto simp: has_label_iff)

lemma has_label_lower_arg [simp]: "has_label ls (to_lowercase l) \<longleftrightarrow> has_label ls l"
  by (simp add: has_label_iff)

lemma has_label_append [simp]: "has_label (xs @ ys) l \<longleftrightarrow> has_label xs l \<or> has_label ys l"
  by (auto simp: has_label_iff)

lemma has_label_map_lower [simp]: "has_label (map to_lowercase ls) l \<longleftrightarrow> has_label ls l"
  by (auto simp: has_label_iff)

lemma has_label_cong: "eq_ignore_ascii_case l l' \<Longrightarrow> has_label ls l \<longleftrightarrow> has_label ls l'"
  by (auto simp: has_label_iff eq_ignore_ascii_case_iff)

section \<open>Mappings\<close>

text \<open>The trait \<^verbatim>\<open>LabelMapping\<close>: what a rule answers to \<^verbatim>\<open>labels()\<close>, \<^verbatim>\<open>pool()\<close> and \<^verbatim>\<open>id()\<close>.\<close>

record label_mapping =
  lm_labels :: "string list"
  lm_pool :: "nat option"
  lm_id :: string

definition mapping_requests :: "string list \<Rightarrow> label_mapping \<Rightarrow> string list \<Rightarrow> bool" where
  "mapping_requests base mapping job_labels \<longleftrightarrow>
     list_ex (\<lambda>jl. \<not> has_label base jl \<and> has_label (lm_labels mapping) jl) job_labels"

definition mapping_covers :: "string list \<Rightarrow> label_mapping \<Rightarrow> string list \<Rightarrow> bool" where
  "mapping_covers base mapping job_labels \<longleftrightarrow>
     list_all (\<lambda>jl. has_label base jl \<or> has_label (lm_labels mapping) jl) job_labels"

definition select_mapping ::
    "string list \<Rightarrow> label_mapping list \<Rightarrow> string list \<Rightarrow> label_mapping option" where
  "select_mapping base mappings job_labels =
     List.find (\<lambda>mapping. if \<not> mapping_requests base mapping job_labels then False
                          else mapping_covers base mapping job_labels) mappings"

record capability =
  cap_labels :: "string list"
  cap_id :: string
  cap_pool :: "nat option"
  cap_is_default :: bool

text \<open>The inner loop of \<open>capabilities\<close>: append each label not present yet.\<close>

fun push_labels :: "string list \<Rightarrow> string list \<Rightarrow> string list" where
  "push_labels labels [] = labels"
| "push_labels labels (l # ls) =
     (let lower = to_lowercase l in
      if \<not> has_label labels lower then push_labels (labels @ [lower]) ls
      else push_labels labels ls)"

definition mapping_capability :: "string list \<Rightarrow> bool \<Rightarrow> label_mapping \<Rightarrow> capability" where
  "mapping_capability base explicit mapping =
     \<lparr>cap_labels = push_labels base (lm_labels mapping), cap_id = lm_id mapping,
      cap_pool = (if explicit then Some (case lm_pool mapping of None \<Rightarrow> 0 | Some p \<Rightarrow> p) else None),
      cap_is_default = False\<rparr>"

definition capabilities ::
    "string list \<Rightarrow> string \<Rightarrow> label_mapping list \<Rightarrow> capability list" where
  "capabilities base0 base_id mappings =
     (let base = map to_lowercase base0;
          explicit = list_ex (\<lambda>m. lm_pool m \<noteq> None) mappings
      in map (mapping_capability base explicit) mappings
         @ [\<lparr>cap_labels = base, cap_id = base_id,
             cap_pool = (if explicit then Some 0 else None), cap_is_default = True\<rparr>])"

definition mapping_for ::
    "string list \<Rightarrow> string \<Rightarrow> label_mapping list \<Rightarrow> string \<Rightarrow> string list \<Rightarrow> label_mapping option" where
  "mapping_for base base_id mappings set_id job_labels =
     (if set_id \<noteq> [] then
        (case List.find (\<lambda>m. lm_id m = set_id) mappings of
           Some mapping \<Rightarrow> Some mapping
         | None \<Rightarrow> if set_id = base_id then None
                    else select_mapping base mappings job_labels)
      else select_mapping base mappings job_labels)"

section \<open>Properties\<close>

lemma has_label_push_labels [simp]:
  "has_label (push_labels acc ls) l \<longleftrightarrow> has_label acc l \<or> has_label ls l"
proof (induction ls arbitrary: acc)
  case (Cons x ls)
  have "has_label acc l" if "has_label acc x" "eq_ignore_ascii_case x l"
    using that by (simp add: has_label_cong)
  then show ?case
    by (auto simp: Cons.IH has_label_Cons)
qed simp

lemma push_labels_prefix: "\<exists>zs. push_labels acc ls = acc @ zs"
proof (induction ls arbitrary: acc)
  case (Cons l ls)
  from Cons.IH [of "acc @ [to_lowercase l]"] Cons.IH [of acc] show ?case
    by (auto simp: Let_def)
qed simp

lemma push_labels_distinct:
  "distinct (map to_lowercase acc) \<Longrightarrow> distinct (map to_lowercase (push_labels acc ls))"
proof (induction ls arbitrary: acc)
  case (Cons l ls)
  then show ?case by (auto simp: Let_def has_label_lower)
qed simp

lemma push_labels_lower:
  "\<forall>l \<in> set acc. to_lowercase l = l \<Longrightarrow> \<forall>l \<in> set (push_labels acc ls). to_lowercase l = l"
proof (induction ls arbitrary: acc)
  case (Cons l ls)
  from Cons.prems have "\<forall>l \<in> set (acc @ [to_lowercase l]). to_lowercase l = l" by auto
  from Cons.IH [OF this] Cons.IH [OF Cons.prems] show ?case by (auto simp: Let_def)
qed simp

lemma mapping_covers_capability:
  "mapping_covers base m job \<longleftrightarrow>
     list_all (has_label (cap_labels (mapping_capability (map to_lowercase base) e m))) job"
  by (simp add: mapping_covers_def mapping_capability_def list_all_iff)

lemma select_mapping_Some:
  "select_mapping base ms job = Some m \<Longrightarrow>
     m \<in> set ms \<and> mapping_requests base m job \<and> mapping_covers base m job"
  by (auto simp: select_mapping_def dest!: find_Some split: if_splits)

lemma select_mapping_None:
  "select_mapping base ms job = None \<longleftrightarrow>
     (\<forall>m \<in> set ms. \<not> (mapping_requests base m job \<and> mapping_covers base m job))"
  by (auto simp: select_mapping_def find_None_iff)

end
