(* ===== verification/Forge.thy ===== *)
theory Forge
  imports Prelude "HOL-Library.Product_Lexorder"
begin

text \<open>
  \<^verbatim>\<open>kuiper-forge/src/forge.rs\<close> (and the runner scope of \<^verbatim>\<open>config.rs\<close>): the names of jobs
  across forges (\<open>job_key\<close>), what a forge answers, and the registry of the configured forges. A
  \<^verbatim>\<open>dyn Forge\<close> value is left as a type variable here: the registry only stores it.
\<close>

section \<open>Runner scopes\<close>

datatype runner_scope = Organization string | Repository string string | User string | Instance

definition is_github_scope :: "runner_scope \<Rightarrow> bool" where
  "is_github_scope s = (case s of Organization _ \<Rightarrow> True | Repository _ _ \<Rightarrow> True | _ \<Rightarrow> False)"

fun scope_to_url :: "runner_scope \<Rightarrow> string" where
  "scope_to_url (Organization name) = ''https://github.com/'' @ name"
| "scope_to_url (Repository own repo) = ''https://github.com/'' @ own @ ''/'' @ repo"
| "scope_to_url (User name) = ''https://github.com/'' @ name"
| "scope_to_url Instance = ''https://github.com''"

section \<open>Job keys\<close>

definition LEGACY_GITHUB_FORGE :: string where
  "LEGACY_GITHUB_FORGE = ''github''"

datatype job_key = JobKey (key_forge: string) (key_id: string)

definition key_to_string :: "job_key \<Rightarrow> string" where
  "key_to_string k = key_forge k @ '':'' @ key_id k"

text \<open>\<^verbatim>\<open>FromStr for JobKey\<close>: \<^verbatim>\<open>Inl\<close> is the error message.\<close>

definition parse_key :: "string \<Rightarrow> string + job_key" where
  "parse_key s =
     (case split_once (CHR '':'') s of
        Some (forge, i) \<Rightarrow>
          if forge \<noteq> [] \<and> i \<noteq> [] then Inr (JobKey forge i)
          else Inl (''invalid job key '' @ s)
      | None \<Rightarrow>
          if s \<noteq> [] then Inr (JobKey LEGACY_GITHUB_FORGE s) else Inl ''empty job key'')"

text \<open>The derived order: by forge, then by id.\<close>

instantiation job_key :: linorder
begin

definition less_eq_job_key :: "job_key \<Rightarrow> job_key \<Rightarrow> bool" where
  "less_eq_job_key a b \<longleftrightarrow> (key_forge a, key_id a) \<le> (key_forge b, key_id b)"

definition less_job_key :: "job_key \<Rightarrow> job_key \<Rightarrow> bool" where
  "less_job_key a b \<longleftrightarrow> (key_forge a, key_id a) < (key_forge b, key_id b)"

instance
  by standard
    (auto simp: less_eq_job_key_def less_job_key_def intro: job_key.expand dest: order.antisym)

end

section \<open>What a forge answers\<close>

datatype runner_kind = GitHub | Forgejo

fun kind_as_str :: "runner_kind \<Rightarrow> string" where
  "kind_as_str GitHub = ''github''"
| "kind_as_str Forgejo = ''forgejo''"

record queued_job =
  qj_id :: string
  qj_labels :: "string list"
  qj_runner_scope :: runner_scope
  qj_repository :: "string option"
  qj_created_at :: "int option"

record forgejo_launch =
  fl_instance_url :: string
  fl_uuid :: string
  fl_token :: string
  fl_handle :: string

datatype runner_launch = GitHubJit string | ForgejoRunner forgejo_launch

datatype idle_removal = Removed | Busy | NotRegistered

section \<open>The registry of forges\<close>

type_synonym 'f forge_registry = "(string \<times> 'f) list"

text \<open>The duplicate check of \<open>ForgeRegistry::new\<close>: entry \<open>i\<close> against the entries before it.\<close>

fun first_duplicate :: "string list \<Rightarrow> string list \<Rightarrow> string option" where
  "first_duplicate seen [] = None"
| "first_duplicate seen (name # names) =
     (if name \<in> set seen then Some name else first_duplicate (seen @ [name]) names)"

definition registry_new :: "(string \<times> 'f) list \<Rightarrow> string + 'f forge_registry" where
  "registry_new forges =
     (if forges = [] then Inl ''at least one forge must be configured''
      else case first_duplicate [] (map fst forges) of
             Some name \<Rightarrow> Inl (''forge name '' @ name @ '' is configured more than once'')
           | None \<Rightarrow> Inr forges)"

definition registry_single :: "string \<Rightarrow> 'f \<Rightarrow> 'f forge_registry" where
  "registry_single name forge = [(name, forge)]"

text \<open>\<^verbatim>\<open>self.forges[0]\<close>: a registry built by \<open>registry_new\<close> or \<open>registry_single\<close> is never empty.\<close>

definition default_name :: "'f forge_registry \<Rightarrow> string" where
  "default_name r = fst (hd r)"

definition default_forge :: "'f forge_registry \<Rightarrow> 'f" where
  "default_forge r = snd (hd r)"

definition registry_get :: "'f forge_registry \<Rightarrow> string \<Rightarrow> string + 'f" where
  "registry_get r name =
     (case List.find (\<lambda>(n, _). n = name) r of
        Some (_, f) \<Rightarrow> Inr f
      | None \<Rightarrow> Inl (''no forge named '' @ name @ '' is configured''))"

definition for_job :: "'f forge_registry \<Rightarrow> job_key \<Rightarrow> string + 'f" where
  "for_job r key = registry_get r (key_forge key)"

definition for_runner :: "'f forge_registry \<Rightarrow> string option \<Rightarrow> string + 'f" where
  "for_runner r forge =
     (case forge of Some name \<Rightarrow> registry_get r name | None \<Rightarrow> Inr (default_forge r))"

section \<open>Lemmas\<close>

lemma parse_key_to_string:
  "key_forge k \<noteq> [] \<Longrightarrow> CHR '':'' \<notin> set (key_forge k) \<Longrightarrow> key_id k \<noteq> [] \<Longrightarrow>
   parse_key (key_to_string k) = Inr k"
  by (simp add: parse_key_def key_to_string_def split_once_append)

lemma parse_key_wf:
  assumes "parse_key s = Inr k"
  shows "key_forge k \<noteq> [] \<and> CHR '':'' \<notin> set (key_forge k) \<and> key_id k \<noteq> []"
  using assms
  by (auto simp: parse_key_def LEGACY_GITHUB_FORGE_def dest!: split_once_Some
      split: option.splits if_splits)

lemma first_duplicate_None:
  "first_duplicate seen names = None \<longleftrightarrow> distinct names \<and> set seen \<inter> set names = {}"
  by (induction names arbitrary: seen) auto

lemma registry_new_ok_iff:
  "registry_new forges = Inr r \<longleftrightarrow> r = forges \<and> forges \<noteq> [] \<and> distinct (map fst forges)"
  using first_duplicate_None [of "[]" "map fst forges"]
  by (auto simp: registry_new_def split: option.splits)

lemma registry_get_map_of:
  "registry_get r name = (case map_of r name of Some f \<Rightarrow> Inr f
                          | None \<Rightarrow> Inl (''no forge named '' @ name @ '' is configured''))"
  by (induction r) (auto simp: registry_get_def split: option.splits)

lemma for_job_Inr_iff: "for_job r k = Inr f \<longleftrightarrow> map_of r (key_forge k) = Some f"
  by (simp add: for_job_def registry_get_map_of split: option.splits)

lemma for_job_Inl_iff: "(\<exists>e. for_job r k = Inl e) \<longleftrightarrow> key_forge k \<notin> fst ` set r"
  by (auto simp: for_job_def registry_get_map_of map_of_eq_None_iff split: option.splits)
    (metis map_of_eq_None_iff option.simps(3))+

end
