(* ===== verification/Slots.thy ===== *)
theory Slots
  imports Prelude
begin

text \<open>
  The contract of taking and giving back slots that two components promise: the agent's VM tracker
  (\<^verbatim>\<open>Tracker::reserve\<close> and \<^verbatim>\<open>untrack\<close>) and the coordinator's view of a connected agent
  (\<^verbatim>\<open>ConnectedAgent::reserve_slot\<close> and \<^verbatim>\<open>release_slot\<close>). A state counts slots in use
  against some limits; taking a slot never pushes a count over its limit, giving one back never
  raises a count, and neither changes a limit. Any sequence of the two then stays within the limits.
\<close>

datatype 'r slot_op = Take string 'r | Give string

locale slot_pool =
  fixes used :: "'s \<Rightarrow> 'l \<Rightarrow> nat"
    and cap :: "'s \<Rightarrow> 'l \<Rightarrow> nat"
    and req_ok :: "'r \<Rightarrow> bool"
    and take_slot :: "string \<Rightarrow> 'r \<Rightarrow> 's \<Rightarrow> bool \<times> 's"
    and give_slot :: "string \<Rightarrow> 's \<Rightarrow> 's"
    and inv :: "'s \<Rightarrow> bool"
  assumes take_inv: "inv s \<Longrightarrow> inv (snd (take_slot n r s))"
    and take_cap: "inv s \<Longrightarrow> cap (snd (take_slot n r s)) l = cap s l"
    and take_used: "inv s \<Longrightarrow> req_ok r \<Longrightarrow>
      used (snd (take_slot n r s)) l \<le> used s l \<or> used (snd (take_slot n r s)) l \<le> cap s l"
    and take_refused: "\<not> fst (take_slot n r s) \<Longrightarrow> snd (take_slot n r s) = s"
    and give_inv: "inv s \<Longrightarrow> inv (give_slot n s)"
    and give_cap: "inv s \<Longrightarrow> cap (give_slot n s) l = cap s l"
    and give_used: "inv s \<Longrightarrow> used (give_slot n s) l \<le> used s l"
begin

definition slot_step :: "'r slot_op \<Rightarrow> 's \<Rightarrow> 's" where
  "slot_step p s = (case p of Take n r \<Rightarrow> snd (take_slot n r s) | Give n \<Rightarrow> give_slot n s)"

definition op_ok :: "'r slot_op \<Rightarrow> bool" where
  "op_ok p = (case p of Take n r \<Rightarrow> req_ok r | Give n \<Rightarrow> True)"

definition within :: "'s \<Rightarrow> bool" where
  "within s \<longleftrightarrow> (\<forall>l. used s l \<le> cap s l)"

lemma step_inv: "inv s \<Longrightarrow> inv (slot_step p s)"
  by (cases p) (simp_all add: slot_step_def take_inv give_inv)

lemma step_cap: "inv s \<Longrightarrow> cap (slot_step p s) l = cap s l"
  by (cases p) (simp_all add: slot_step_def take_cap give_cap)

lemma step_within:
  assumes "inv s" and "op_ok p" and "within s"
  shows "within (slot_step p s)"
  unfolding within_def
proof
  fix l
  have "used (slot_step p s) l \<le> used s l \<or> used (slot_step p s) l \<le> cap s l"
    using assms take_used give_used
    by (cases p) (auto simp: slot_step_def op_ok_def)
  moreover have "used s l \<le> cap s l" using assms(3) by (simp add: within_def)
  ultimately show "used (slot_step p s) l \<le> cap (slot_step p s) l"
    using assms(1) by (auto simp: step_cap)
qed

lemma run_within:
  assumes "inv s" and "list_all op_ok ps" and "within s"
  shows "inv (fold slot_step ps s) \<and> within (fold slot_step ps s)
    \<and> (\<forall>l. cap (fold slot_step ps s) l = cap s l)"
  using assms
  by (induction ps arbitrary: s) (auto simp: step_inv step_within step_cap)

text \<open>Whatever a state starts from, a count that is over its limit can only sink.\<close>

lemma step_bound:
  assumes "inv s" and "op_ok p"
  shows "used (slot_step p s) l \<le> max (used s l) (cap s l)"
  using assms take_used [of s _ _ l] give_used [of s _ l]
  by (cases p) (auto simp: slot_step_def op_ok_def le_max_iff_disj)

lemma run_bound:
  assumes "inv s" and "list_all op_ok ps"
  shows "used (fold slot_step ps s) l \<le> max (used s l) (cap s l)"
  using assms
proof (induction ps arbitrary: s)
  case (Cons p ps)
  from Cons.prems have "used (fold slot_step ps (slot_step p s)) l
      \<le> max (used (slot_step p s) l) (cap (slot_step p s) l)"
    by (intro Cons.IH) (simp_all add: step_inv)
  moreover have "used (slot_step p s) l \<le> max (used s l) (cap s l)" using Cons.prems by (simp add: step_bound)
  ultimately show ?case using Cons.prems by (simp add: step_cap)
qed simp

end

end
