(* ===== verification/Tracker.thy ===== *)
theory Tracker
  imports Slots
begin

text \<open>
  \<^verbatim>\<open>kuiper-agent-lib/src/vm_agent/tracker.rs\<close>: the VMs an agent runs, by runner name, and how
  much of its limits they use. Every operation of the code runs under one lock, so each is one
  function from the tracker to the tracker. The watch channel of a tracked VM is a number: the
  tracker keeps what was sent on each closed channel, and a waiter reads it from there.
\<close>

section \<open>Data\<close>

datatype vm_state = Creating | Starting | Running | Configuring | RunnerActive | Destroying

fun state_as_str :: "vm_state \<Rightarrow> string" where
  "state_as_str Creating = ''creating''"
| "state_as_str Starting = ''starting''"
| "state_as_str Running = ''running''"
| "state_as_str Configuring = ''configuring''"
| "state_as_str RunnerActive = ''runner_active''"
| "state_as_str Destroying = ''destroying''"

record limit =
  lim_name :: string
  lim_max :: nat

type_synonym limit_names = "string list"
type_synonym usage_map = "(string, nat) hashmap"

datatype 'v claim = Untracked | Destroy 'v | Wait nat

datatype reserve_error = Capacity string | AlreadyRunning string

type_synonym destroy_outcome = "(string + unit) option"

record 'v tracked =
  tr_vm :: "'v option"
  tr_removed :: nat
  tr_vm_id :: string
  tr_state :: vm_state
  tr_ip :: "string option"
  tr_limits :: limit_names
  tr_created_at :: nat

record 'v tracker =
  tk_vms :: "(string, 'v tracked) hashmap"
  tk_limits :: "limit list"
  tk_changed :: nat \<comment> \<open>how often waiters for a change were notified\<close>
  tk_next_channel :: nat
  tk_closed :: "(nat, destroy_outcome) hashmap" \<comment> \<open>last value of each dropped channel\<close>

definition tracker_new :: "limit list \<Rightarrow> 'v tracker" where
  "tracker_new ls = \<lparr>tk_vms = [], tk_limits = ls, tk_changed = 0, tk_next_channel = 0, tk_closed = []\<rparr>"

definition tracker_notify :: "'v tracker \<Rightarrow> 'v tracker" where
  "tracker_notify t = t\<lparr>tk_changed := tk_changed t + 1\<rparr>"

section \<open>Counting\<close>

definition bump :: "string \<Rightarrow> usage_map \<Rightarrow> usage_map" where
  "bump name u = hm_insert name ((case hm_get u name of None \<Rightarrow> 0 | Some n \<Rightarrow> n) + 1) u"

definition usage :: "(string, 'v tracked) hashmap \<Rightarrow> usage_map" where
  "usage ts = fold bump (concat (map (\<lambda>(_, t). tr_limits t) ts)) []"

definition usage_count :: "usage_map \<Rightarrow> string \<Rightarrow> nat" where
  "usage_count u name = (case hm_get u name of None \<Rightarrow> 0 | Some n \<Rightarrow> n)"

definition limits_in :: "'v tracker \<Rightarrow> limit_names \<Rightarrow> limit list" where
  "limits_in t names = filter (\<lambda>l. lim_name l \<in> set names) (tk_limits t)"

text \<open>\<^verbatim>\<open>iter.min().unwrap_or(0)\<close>.\<close>

definition min_or_zero :: "nat list \<Rightarrow> nat" where
  "min_or_zero xs = (case xs of [] \<Rightarrow> 0 | y # ys \<Rightarrow> fold_min y ys)"

definition tracker_free :: "'v tracker \<Rightarrow> limit_names \<Rightarrow> usage_map \<Rightarrow> usage_map \<Rightarrow> nat" where
  "tracker_free t names own external =
     min_or_zero (map (\<lambda>l. lim_max l - (usage_count own (lim_name l) + usage_count external (lim_name l)))
                      (limits_in t names))"

definition tracker_summary :: "'v tracker \<Rightarrow> usage_map \<Rightarrow> usage_map \<Rightarrow> string" where
  "tracker_summary t own external =
     join '', '' (map (\<lambda>l.
       (let ext = usage_count external (lim_name l) in
        lim_name l @ '' '' @ nat_to_string (usage_count own (lim_name l) + ext) @ ''/''
        @ nat_to_string (lim_max l) @ '' ('' @ nat_to_string ext @ '' external)'')) (tk_limits t))"

definition tracker_max_vms :: "'v tracker \<Rightarrow> limit_names \<Rightarrow> nat" where
  "tracker_max_vms t names = min_or_zero (map lim_max (limits_in t names))"

definition free_slots :: "'v tracker \<Rightarrow> limit_names \<Rightarrow> usage_map \<Rightarrow> nat" where
  "free_slots t names external = tracker_free t names (usage (tk_vms t)) external"

record capacity_limit =
  cl_name :: string
  cl_max :: nat
  cl_external :: nat
  cl_active :: nat

definition capacity_limits :: "'v tracker \<Rightarrow> usage_map \<Rightarrow> capacity_limit list" where
  "capacity_limits t external =
     (let own = usage (tk_vms t) in
      map (\<lambda>l. \<lparr>cl_name = lim_name l, cl_max = lim_max l,
               cl_external = usage_count external (lim_name l),
               cl_active = usage_count own (lim_name l)\<rparr>) (tk_limits t))"

section \<open>Operations\<close>

definition reserve ::
    "nat \<Rightarrow> string \<Rightarrow> limit_names \<Rightarrow> usage_map \<Rightarrow> 'v tracker \<Rightarrow> (reserve_error + unit) \<times> 'v tracker" where
  "reserve now name names external t =
     (if hm_contains (tk_vms t) name then (Inl (AlreadyRunning name), t)
      else let own = usage (tk_vms t) in
        if tracker_free t names own external = 0 then (Inl (Capacity (tracker_summary t own external)), t)
        else (Inr (),
          tracker_notify (t\<lparr>tk_vms := hm_insert name
              \<lparr>tr_vm = None, tr_removed = tk_next_channel t, tr_vm_id = name, tr_state = Creating,
               tr_ip = None, tr_limits = names, tr_created_at = now\<rparr> (tk_vms t),
            tk_next_channel := tk_next_channel t + 1\<rparr>)))"

definition set_created ::
    "string \<Rightarrow> 'v \<Rightarrow> string \<Rightarrow> limit_names \<Rightarrow> 'v tracker \<Rightarrow> bool \<times> 'v tracker" where
  "set_created name vm vm_id names t =
     (case hm_get (tk_vms t) name of
        None \<Rightarrow> (False, t)
      | Some tracked \<Rightarrow>
          if tr_state tracked = Destroying then (False, t)
          else (True, tracker_notify (t\<lparr>tk_vms := hm_insert name
                  (tracked\<lparr>tr_vm := Some vm, tr_vm_id := vm_id, tr_limits := names\<rparr>) (tk_vms t)\<rparr>)))"

definition set_state :: "string \<Rightarrow> vm_state \<Rightarrow> 'v tracker \<Rightarrow> 'v tracker" where
  "set_state name st t =
     (case hm_get (tk_vms t) name of
        None \<Rightarrow> t
      | Some tracked \<Rightarrow>
          if tr_state tracked \<noteq> Destroying
          then tracker_notify (t\<lparr>tk_vms := hm_insert name (tracked\<lparr>tr_state := st\<rparr>) (tk_vms t)\<rparr>)
          else t)"

text \<open>Two lock sections: the address is recorded whatever the state, then the state is set.\<close>

definition set_ip :: "string \<Rightarrow> string \<Rightarrow> 'v tracker \<Rightarrow> 'v tracker" where
  "set_ip name ip t = t\<lparr>tk_vms := hm_modify name (\<lambda>tracked. tracked\<lparr>tr_ip := Some ip\<rparr>) (tk_vms t)\<rparr>"

definition set_running :: "string \<Rightarrow> string \<Rightarrow> 'v tracker \<Rightarrow> 'v tracker" where
  "set_running name ip t = set_state name Running (set_ip name ip t)"

definition claim_for_destroy :: "string \<Rightarrow> 'v tracker \<Rightarrow> 'v claim \<times> 'v tracker" where
  "claim_for_destroy name t =
     (case hm_get (tk_vms t) name of
        None \<Rightarrow> (Untracked, t)
      | Some tracked \<Rightarrow>
          if tr_state tracked = Destroying then (Wait (tr_removed tracked), t)
          else
            let t' = tracker_notify (t\<lparr>tk_vms := hm_insert name (tracked\<lparr>tr_state := Destroying\<rparr>) (tk_vms t)\<rparr>)
            in case tr_vm tracked of
                 Some vm \<Rightarrow> (Destroy vm, t')
               | None \<Rightarrow> (Wait (tr_removed tracked), t'))"

definition untrack :: "string \<Rightarrow> (string + unit) \<Rightarrow> 'v tracker \<Rightarrow> 'v tracker" where
  "untrack name res t =
     (case hm_get (tk_vms t) name of
        None \<Rightarrow> t
      | Some tracked \<Rightarrow>
          tracker_notify (t\<lparr>tk_vms := hm_remove name (tk_vms t),
                    tk_closed := hm_insert (tr_removed tracked) (Some res) (tk_closed t)\<rparr>))"

text \<open>
  \<^verbatim>\<open>Removal::wait\<close>, polled: \<^term>\<open>None\<close> while the channel is open, else how the destroy went.
\<close>

definition removal_poll :: "nat \<Rightarrow> 'v tracker \<Rightarrow> (string + unit) option" where
  "removal_poll ch t =
     (case hm_get (tk_closed t) ch of
        None \<Rightarrow> None
      | Some sent \<Rightarrow> Some (case sent of None \<Rightarrow> Inr () | Some res \<Rightarrow> res))"

text \<open>One check of the loop of \<^verbatim>\<open>torn_down\<close>: whether it returns now.\<close>

definition torn_down_now :: "string \<Rightarrow> 'v tracker \<Rightarrow> bool" where
  "torn_down_now name t \<longleftrightarrow>
     \<not> (case hm_get (tk_vms t) name of None \<Rightarrow> False | Some tracked \<Rightarrow> tr_state tracked \<noteq> Destroying)"

definition find_name :: "string \<Rightarrow> 'v tracker \<Rightarrow> string option" where
  "find_name i t =
     (if hm_contains (tk_vms t) i then Some i
      else map_option fst (List.find (\<lambda>(_, tracked). tr_vm_id tracked = i) (tk_vms t)))"

definition tracker_names :: "'v tracker \<Rightarrow> string list" where
  "tracker_names t = map fst (tk_vms t)"

definition older_than :: "nat \<Rightarrow> nat \<Rightarrow> 'v tracker \<Rightarrow> string list" where
  "older_than now max_age t =
     map fst (filter (\<lambda>(_, tracked). now - tr_created_at tracked > max_age) (tk_vms t))"

definition vm_count :: "'v tracker \<Rightarrow> nat" where
  "vm_count t = length (tk_vms t)"

record vm_info =
  vi_vm_id :: string
  vi_name :: string
  vi_state :: string
  vi_ip_address :: string

definition vm_infos :: "'v tracker \<Rightarrow> vm_info list" where
  "vm_infos t = map (\<lambda>(name, tracked).
     \<lparr>vi_vm_id = tr_vm_id tracked, vi_name = name, vi_state = state_as_str (tr_state tracked),
      vi_ip_address = (case tr_ip tracked of None \<Rightarrow> [] | Some ip \<Rightarrow> ip)\<rparr>) (tk_vms t)"

section \<open>Counting lemmas\<close>

lemma usage_count_bump: "usage_count (bump m u) n = usage_count u n + (if n = m then 1 else 0)"
  by (simp add: usage_count_def bump_def)

lemma usage_count_fold: "usage_count (fold bump xs u) n = usage_count u n + count_list xs n"
  by (induction xs arbitrary: u) (auto simp: usage_count_bump)

lemma usage_count_usage:
  "usage_count (usage ts) n = (\<Sum>(_, t) \<leftarrow> ts. count_list (tr_limits t) n)"
proof -
  have "count_list (concat (map (\<lambda>(_, t). tr_limits t) ts)) n
      = (\<Sum>(_, t) \<leftarrow> ts. count_list (tr_limits t) n)"
    by (induction ts) auto
  then show ?thesis
    by (simp add: usage_def usage_count_fold usage_count_def [of "[]"])
qed

lemma usage_insert_new:
  "\<not> hm_contains ts name \<Longrightarrow>
   usage_count (usage (hm_insert name t ts)) n = usage_count (usage ts) n + count_list (tr_limits t) n"
  by (simp add: usage_count_usage hm_insert_new)

lemma usage_remove_le: "usage_count (usage (hm_remove name ts)) n \<le> usage_count (usage ts) n"
  unfolding usage_count_usage by (induction ts) auto

lemma min_or_zero_pos_iff: "0 < min_or_zero xs \<longleftrightarrow> xs \<noteq> [] \<and> (\<forall>x \<in> set xs. 0 < x)"
  by (cases xs) (auto simp: min_or_zero_def fold_min_pos_iff)

lemma free_pos_iff:
  "0 < tracker_free t names own external \<longleftrightarrow>
     limits_in t names \<noteq> [] \<and>
     (\<forall>l \<in> set (limits_in t names).
        usage_count own (lim_name l) + usage_count external (lim_name l) < lim_max l)"
  by (auto simp: tracker_free_def min_or_zero_pos_iff)

lemma tracker_notify_simps [simp]:
  "tk_vms (tracker_notify t) = tk_vms t" "tk_limits (tracker_notify t) = tk_limits t"
  "tk_next_channel (tracker_notify t) = tk_next_channel t" "tk_closed (tracker_notify t) = tk_closed t"
  by (simp_all add: tracker_notify_def)

lemmas tracker_op_defs = reserve_def set_created_def set_state_def set_ip_def set_running_def
  claim_for_destroy_def untrack_def

section \<open>The tracker keeps its limits\<close>

definition limit_used :: "'v tracker \<Rightarrow> limit \<Rightarrow> nat" where
  "limit_used t l = (if l \<in> set (tk_limits t) then usage_count (usage (tk_vms t)) (lim_name l) else 0)"

definition limit_cap :: "usage_map \<Rightarrow> 'v tracker \<Rightarrow> limit \<Rightarrow> nat" where
  "limit_cap external t l = lim_max l - usage_count external (lim_name l)"

definition reserve_request :: "usage_map \<Rightarrow> string \<Rightarrow> nat \<times> limit_names \<Rightarrow> 'v tracker \<Rightarrow> bool \<times> 'v tracker" where
  "reserve_request external n r t =
     (case reserve (fst r) n (snd r) external t of
        (Inl _, t') \<Rightarrow> (False, t') | (Inr _, t') \<Rightarrow> (True, t'))"

lemma reserve_limits [simp]: "tk_limits (snd (reserve now n r external t)) = tk_limits t"
  by (simp add: reserve_def Let_def)

lemma reserve_request_snd: "snd (reserve_request e n r t) = snd (reserve (fst r) n (snd r) e t)"
  by (simp add: reserve_request_def split: prod.splits sum.splits)

lemma reserve_used:
  assumes "distinct r"
  shows "limit_used (snd (reserve now n r e t)) l \<le> limit_used t l
    \<or> limit_used (snd (reserve now n r e t)) l \<le> limit_cap e t l"
proof (cases "hm_contains (tk_vms t) n \<or> tracker_free t r (usage (tk_vms t)) e = 0")
  case True
  then show ?thesis by (auto simp: reserve_def Let_def)
next
  case False
  then have new: "\<not> hm_contains (tk_vms t) n"
    and free: "0 < tracker_free t r (usage (tk_vms t)) e" by auto
  show ?thesis
  proof (cases "l \<in> set (tk_limits t) \<and> lim_name l \<in> set r")
    case True
    with free have "usage_count (usage (tk_vms t)) (lim_name l) + usage_count e (lim_name l) < lim_max l"
      by (auto simp: free_pos_iff limits_in_def)
    moreover have "count_list r (lim_name l) = 1"
      using assms True by (simp add: count_list_distinct)
    ultimately show ?thesis
      using True new free
      by (auto simp: reserve_def Let_def limit_used_def limit_cap_def usage_insert_new)
  next
    case False
    then show ?thesis
      using new free
      by (auto simp: reserve_def Let_def limit_used_def usage_insert_new count_list_0_iff)
  qed
qed

lemma untrack_used: "limit_used (untrack n res t) l \<le> limit_used t l"
  by (auto simp: untrack_def limit_used_def usage_remove_le split: option.splits)

lemma untrack_limits [simp]: "tk_limits (untrack n res t) = tk_limits t"
  by (auto simp: untrack_def split: option.splits)

interpretation tracker_slots: slot_pool limit_used "limit_cap e" "\<lambda>r. distinct (snd r)"
  "reserve_request e" "\<lambda>n. untrack n (Inr ())" "\<lambda>_. True"
  for e :: usage_map
proof (unfold_locales, goal_cases)
  case (3 s r n l)
  then show ?case using reserve_used [of "snd r" "fst r" n e s l] by (simp add: reserve_request_snd)
next
  case (4 n r s)
  then show ?case
    by (auto simp: reserve_request_def reserve_def Let_def split: if_splits)
qed (simp_all add: limit_cap_def untrack_used)

section \<open>Runs of the tracker\<close>

text \<open>
  Any task may call any operation next: a run is any list of calls. \<open>wf\<close> says that the names are
  keys of a map and that every tracked VM has an open channel of its own.
\<close>

datatype 'v tracker_call =
    Reserve nat string limit_names usage_map
  | SetCreated string 'v string limit_names
  | SetState string vm_state
  | SetIp string string
  | Claim string
  | Untrack string "string + unit"

definition tracker_call :: "'v tracker_call \<Rightarrow> 'v tracker \<Rightarrow> 'v tracker" where
  "tracker_call c t = (case c of
     Reserve now n ls ext \<Rightarrow> snd (reserve now n ls ext t)
   | SetCreated n v i ls \<Rightarrow> snd (set_created n v i ls t)
   | SetState n st \<Rightarrow> set_state n st t
   | SetIp n ip \<Rightarrow> set_ip n ip t
   | Claim n \<Rightarrow> snd (claim_for_destroy n t)
   | Untrack n res \<Rightarrow> untrack n res t)"

definition tracker_run :: "'v tracker_call list \<Rightarrow> 'v tracker \<Rightarrow> 'v tracker" where
  "tracker_run cs t = fold tracker_call cs t"

definition is_untrack :: "string \<Rightarrow> 'v tracker_call \<Rightarrow> bool" where
  "is_untrack n c = (case c of Untrack m _ \<Rightarrow> m = n | _ \<Rightarrow> False)"

definition vm_of :: "'v tracker \<Rightarrow> string \<Rightarrow> 'v tracked option" where
  "vm_of t n = hm_get (tk_vms t) n"

definition channels_ok :: "'v tracker \<Rightarrow> bool" where
  "channels_ok t \<longleftrightarrow>
     (\<forall>n x. vm_of t n = Some x \<longrightarrow>
        tr_removed x < tk_next_channel t \<and> hm_get (tk_closed t) (tr_removed x) = None) \<and>
     (\<forall>n m x y. vm_of t n = Some x \<longrightarrow> vm_of t m = Some y \<longrightarrow> tr_removed x = tr_removed y \<longrightarrow> n = m) \<and>
     (\<forall>ch. hm_get (tk_closed t) ch \<noteq> None \<longrightarrow> ch < tk_next_channel t)"

definition tracker_wf :: "'v tracker \<Rightarrow> bool" where
  "tracker_wf t \<longleftrightarrow> hm_ok (tk_vms t) \<and> channels_ok t"

lemma tracker_new_wf: "tracker_wf (tracker_new ls)"
  by (simp add: tracker_wf_def channels_ok_def tracker_new_def vm_of_def)

lemma tracker_call_hm_ok: "hm_ok (tk_vms t) \<Longrightarrow> hm_ok (tk_vms (tracker_call c t))"
  by (cases c) (auto simp: tracker_call_def tracker_op_defs Let_def split: option.splits)

text \<open>What one call does to one tracked VM and to the channels.\<close>

lemma vm_of_call_other:
  assumes "vm_of t n = Some x" and "\<not> is_untrack n c"
  shows "\<exists>y. vm_of (tracker_call c t) n = Some y \<and> tr_removed y = tr_removed x
    \<and> (tr_state x = Destroying \<longrightarrow> tr_state y = Destroying)"
  using assms
  by (cases c)
    (auto simp: tracker_call_def tracker_op_defs Let_def vm_of_def is_untrack_def hm_contains_def
      hm_get_modify split: option.splits)

lemma vm_of_call_back:
  assumes "vm_of (tracker_call c t) n = Some y"
  shows "(\<exists>x. vm_of t n = Some x \<and> tr_removed y = tr_removed x \<and> \<not> is_untrack n c) \<or>
    (vm_of t n = None \<and> tr_removed y = tk_next_channel t
     \<and> tk_next_channel (tracker_call c t) = Suc (tk_next_channel t)
     \<and> tk_closed (tracker_call c t) = tk_closed t)"
  using assms
  by (cases c)
    (auto simp: tracker_call_def tracker_op_defs Let_def vm_of_def is_untrack_def hm_contains_def
      hm_get_modify split: option.splits if_splits)

lemma next_channel_mono: "tk_next_channel t \<le> tk_next_channel (tracker_call c t)"
  by (cases c) (auto simp: tracker_call_def tracker_op_defs Let_def split: option.splits)

lemma closed_call:
  "hm_get (tk_closed (tracker_call c t)) ch =
     (case c of Untrack n res \<Rightarrow>
        (case vm_of t n of Some x \<Rightarrow> if tr_removed x = ch then Some (Some res) else hm_get (tk_closed t) ch
         | None \<Rightarrow> hm_get (tk_closed t) ch)
      | _ \<Rightarrow> hm_get (tk_closed t) ch)"
  by (cases c) (auto simp: tracker_call_def tracker_op_defs Let_def vm_of_def split: option.splits)

lemma closed_call_cases:
  assumes "hm_get (tk_closed (tracker_call c t)) ch \<noteq> None"
  shows "hm_get (tk_closed t) ch \<noteq> None \<or>
    (\<exists>n x. is_untrack n c \<and> vm_of t n = Some x \<and> tr_removed x = ch)"
  using assms
  by (auto simp: closed_call is_untrack_def split: tracker_call.splits option.splits if_splits)

lemma channels_ok_call:
  assumes ok: "channels_ok t"
  shows "channels_ok (tracker_call c t)"
proof -
  let ?t = "tracker_call c t"
  have open_ch: "tr_removed y < tk_next_channel ?t \<and> hm_get (tk_closed ?t) (tr_removed y) = None"
    if y: "vm_of ?t n = Some y" for n y
    using vm_of_call_back [OF y]
  proof (elim disjE exE conjE)
    fix x assume x: "vm_of t n = Some x" "tr_removed y = tr_removed x" "\<not> is_untrack n c"
    from ok x(1) have "tr_removed x < tk_next_channel t" "hm_get (tk_closed t) (tr_removed x) = None"
      by (auto simp: channels_ok_def)
    moreover have "\<not> (is_untrack m c \<and> vm_of t m = Some z \<and> tr_removed z = tr_removed x)" for m z
      using ok x(1,3) unfolding channels_ok_def by metis
    ultimately have "hm_get (tk_closed ?t) (tr_removed x) = None"
      using closed_call_cases [of c t "tr_removed x"] by metis
    with \<open>tr_removed x < tk_next_channel t\<close> show ?thesis
      using x(2) next_channel_mono [of t c] by auto
  next
    assume "tr_removed y = tk_next_channel t" "tk_next_channel ?t = Suc (tk_next_channel t)"
      "tk_closed ?t = tk_closed t"
    then show ?thesis using ok by (auto simp: channels_ok_def)
  qed
  have inj: "n = m" if "vm_of ?t n = Some x" "vm_of ?t m = Some y" "tr_removed x = tr_removed y" for n m x y
  proof -
    have lt: "tr_removed z < tk_next_channel t" if "vm_of t k = Some z" for k z
      using ok that by (simp add: channels_ok_def)
    have same: "k = k'" if "vm_of t k = Some z" "vm_of t k' = Some z'" "tr_removed z = tr_removed z'" for k k' z z'
      using ok that unfolding channels_ok_def by blast
    have both_new: "n = m" if "vm_of t n = None" "vm_of t m = None"
      using that \<open>vm_of ?t n = Some x\<close> \<open>vm_of ?t m = Some y\<close>
      by (cases c) (auto simp: tracker_call_def tracker_op_defs Let_def vm_of_def hm_get_modify
          split: option.splits if_splits)
    from vm_of_call_back [OF that(1)] vm_of_call_back [OF that(2)] that(3) show ?thesis
      by (auto dest: lt same both_new)
  qed
  have "ch < tk_next_channel ?t" if "hm_get (tk_closed ?t) ch \<noteq> None" for ch
    using closed_call_cases [OF that] next_channel_mono [of t c] ok
    unfolding channels_ok_def by (metis less_le_trans)
  with open_ch inj show ?thesis unfolding channels_ok_def by blast
qed

lemma tracker_wf_call [wf_intros]: "tracker_wf t \<Longrightarrow> tracker_wf (tracker_call c t)"
  by (simp add: tracker_wf_def tracker_call_hm_ok channels_ok_call)

lemma tracker_wf_run [wf_intros]: "tracker_wf t \<Longrightarrow> tracker_wf (tracker_run cs t)"
  unfolding tracker_run_def by (induction cs arbitrary: t) (auto intro: wf_intros)

lemma run_keeps_claim:
  assumes "vm_of t n = Some x" and "tr_state x = Destroying" and "list_all (\<lambda>c. \<not> is_untrack n c) cs"
  shows "\<exists>y. vm_of (tracker_run cs t) n = Some y \<and> tr_removed y = tr_removed x \<and> tr_state y = Destroying"
  using assms
proof (induction cs arbitrary: t x)
  case (Cons c cs)
  from vm_of_call_other [of t n x c] Cons.prems obtain y where
    y: "vm_of (tracker_call c t) n = Some y" "tr_removed y = tr_removed x" "tr_state y = Destroying"
    by auto
  from Cons.IH [OF y(1,3)] Cons.prems(3) y(2) show ?case by (auto simp: tracker_run_def)
qed (simp add: tracker_run_def)

lemma claim_marks:
  assumes "claim_for_destroy n t = (cl, t')" and "cl \<noteq> Untracked"
  shows "\<exists>x y. vm_of t n = Some x \<and> vm_of t' n = Some y \<and> tr_removed y = tr_removed x
    \<and> tr_state y = Destroying \<and> (\<forall>ch. cl = Wait ch \<longrightarrow> ch = tr_removed x)"
  using assms
  by (auto simp: claim_for_destroy_def vm_of_def Let_def split: option.splits if_splits)

lemma destroying_claims:
  assumes "vm_of t n = Some x" and "tr_state x = Destroying"
  shows "claim_for_destroy n t = (Wait (tr_removed x), t)"
    and "set_created n v i ls t = (False, t)"
  using assms by (simp_all add: claim_for_destroy_def set_created_def vm_of_def)

lemma wf_open: "tracker_wf t \<Longrightarrow> vm_of t n = Some x \<Longrightarrow> removal_poll (tr_removed x) t = None"
  by (simp add: tracker_wf_def channels_ok_def removal_poll_def)

lemma closed_stays:
  assumes "tracker_wf t" and "hm_get (tk_closed t) ch = Some r"
  shows "hm_get (tk_closed (tracker_run cs t)) ch = Some r"
  using assms
proof (induction cs arbitrary: t)
  case (Cons c cs)
  have "\<not> (is_untrack n c \<and> vm_of t n = Some x \<and> tr_removed x = ch)" for n x
    using Cons.prems by (auto simp: tracker_wf_def channels_ok_def)
  then have "hm_get (tk_closed (tracker_call c t)) ch = Some r"
    using Cons.prems(2)
    by (auto simp: closed_call is_untrack_def split: tracker_call.splits option.splits)
  with Cons.IH [of "tracker_call c t"] Cons.prems(1) show ?case
    by (simp add: tracker_run_def tracker_wf_call)
qed (simp add: tracker_run_def)

section \<open>Properties\<close>

text \<open>C5: From an empty tracker, whatever slots are reserved and given back in whatever order, the
  agent's own VMs never push a limit past what the VMs it does not manage leave of it
  (\<open>Tracker::reserve\<close> checks and takes the slot under one lock).\<close>

theorem reservations_within_limits:
  assumes "list_all (\<lambda>p. case p of Take _ (_, ls) \<Rightarrow> distinct ls | Give _ \<Rightarrow> True) ps" and "l \<in> set lims"
  shows "usage_count (usage (tk_vms (fold (\<lambda>p t. case p of
             Take n (now, ls) \<Rightarrow> snd (reserve now n ls ext t) | Give n \<Rightarrow> untrack n (Inr ()) t) ps
           (tracker_new lims)))) (lim_name l)
         \<le> lim_max l - usage_count ext (lim_name l)"
proof -
  have step: "tracker_slots.slot_step ext = (\<lambda>p t. case p of
      Take n (now, ls) \<Rightarrow> snd (reserve now n ls ext t) | Give n \<Rightarrow> untrack n (Inr ()) t)"
    by (intro ext) (auto simp: tracker_slots.slot_step_def reserve_request_snd split: slot_op.splits)
  have "tracker_slots.op_ok = (\<lambda>p :: (nat \<times> limit_names) slot_op.
      case p of Take _ (_, ls) \<Rightarrow> distinct ls | Give _ \<Rightarrow> True)"
    by (intro ext) (auto simp: tracker_slots.op_ok_def split: slot_op.splits)
  with assms(1) have ok: "list_all tracker_slots.op_ok ps" by simp
  have lims: "tk_limits (fold (tracker_slots.slot_step ext) ps t) = tk_limits t" for t :: "'a tracker"
    by (induction ps arbitrary: t)
      (auto simp: tracker_slots.slot_step_def reserve_request_snd split: slot_op.splits)
  have "tracker_slots.within ext (tracker_new lims :: 'a tracker)"
    by (simp add: tracker_slots.within_def limit_used_def tracker_new_def usage_count_usage)
  from tracker_slots.run_within [OF TrueI ok this]
  have "limit_used (fold (tracker_slots.slot_step ext) ps (tracker_new lims :: 'a tracker)) l \<le> limit_cap ext (tracker_new lims :: 'a tracker) l"
    by (auto simp: tracker_slots.within_def)
  then show ?thesis
    using assms(2) lims by (simp add: limit_used_def limit_cap_def step tracker_new_def)
qed

theorem reservations_within_limits_witness:
  "usage_count (usage (tk_vms (fold (\<lambda>p t. case p of
             Take n (now, ls) \<Rightarrow> snd (reserve now n ls [(''total'', 1)] t) | Give n \<Rightarrow> untrack n (Inr ()) t)
           [Take ''a'' (0, [''total'']), Take ''b'' (0, [''total'']), Give ''a'', Take ''c'' (1, [''total''])]
           (tracker_new [\<lparr>lim_name = ''total'', lim_max = 2\<rparr>] :: nat tracker))))
       (lim_name \<lparr>lim_name = ''total'', lim_max = 2\<rparr>)
     \<le> lim_max \<lparr>lim_name = ''total'', lim_max = 2\<rparr>
        - usage_count [(''total'', 1)] (lim_name \<lparr>lim_name = ''total'', lim_max = 2\<rparr>)"
  by (rule reservations_within_limits) simp_all

text \<open>C6: Once a destroy has claimed a VM, every later claim of it waits and no create can take it
  over, until it is untracked: one party destroys it. A waiter stays blocked that long, then gets the
  outcome the destroyer reported, for good.\<close>

theorem one_destroyer_until_untracked:
  assumes "tracker_wf t" and "claim_for_destroy n t = (cl, t1)" and "cl \<noteq> Untracked"
    and "list_all (\<lambda>c. \<not> is_untrack n c) cs"
  shows "\<exists>ch. (\<forall>w. cl = Wait w \<longrightarrow> w = ch)
    \<and> claim_for_destroy n (tracker_run cs t1) = (Wait ch, tracker_run cs t1)
    \<and> set_created n v i ls (tracker_run cs t1) = (False, tracker_run cs t1)
    \<and> removal_poll ch (tracker_run cs t1) = None
    \<and> removal_poll ch (tracker_run cs' (untrack n res (tracker_run cs t1))) = Some res"
proof -
  from claim_marks [OF assms(2,3)] obtain x y where
    y: "vm_of t1 n = Some y" "tr_state y = Destroying" and ch: "\<forall>w. cl = Wait w \<longrightarrow> w = tr_removed y"
    by metis
  have "t1 = tracker_run [Claim n] t" using assms(2) by (simp add: tracker_run_def tracker_call_def)
  then have wf1: "tracker_wf (tracker_run cs t1)" using assms(1) by (simp add: wf_intros)
  from run_keeps_claim [OF y assms(4)] obtain z where
    z: "vm_of (tracker_run cs t1) n = Some z" "tr_removed z = tr_removed y" "tr_state z = Destroying"
    by blast
  let ?u = "untrack n res (tracker_run cs t1)"
  have "tracker_wf ?u"
    using tracker_wf_call [OF wf1, of "Untrack n res"] by (simp add: tracker_call_def)
  moreover have "hm_get (tk_closed ?u) (tr_removed y) = Some (Some res)"
    using z by (simp add: untrack_def vm_of_def)
  ultimately have "removal_poll (tr_removed y) (tracker_run cs' ?u) = Some res"
    by (simp add: removal_poll_def closed_stays)
  with destroying_claims [OF z(1,3)] wf_open [OF wf1 z(1)] z(2) ch show ?thesis by auto
qed

theorem one_destroyer_until_untracked_witness:
  "\<exists>ch. claim_for_destroy ''vm'' (tracker_run [SetState ''vm'' Running]
        (snd (claim_for_destroy ''vm'' (tracker_run [Reserve 0 ''vm'' [''total''] [], SetCreated ''vm'' (7::nat) ''107'' [''total'']]
          (tracker_new [\<lparr>lim_name = ''total'', lim_max = 1\<rparr>])))))
      = (Wait ch, tracker_run [SetState ''vm'' Running]
        (snd (claim_for_destroy ''vm'' (tracker_run [Reserve 0 ''vm'' [''total''] [], SetCreated ''vm'' 7 ''107'' [''total'']]
          (tracker_new [\<lparr>lim_name = ''total'', lim_max = 1\<rparr>])))))"
proof -
  let ?t = "tracker_run [Reserve 0 ''vm'' [''total''] [], SetCreated ''vm'' (7::nat) ''107'' [''total'']]
          (tracker_new [\<lparr>lim_name = ''total'', lim_max = 1\<rparr>])"
  have wf: "tracker_wf ?t" by (intro wf_intros tracker_new_wf)
  have cl: "fst (claim_for_destroy ''vm'' ?t) = Destroy 7"
    by (simp add: tracker_run_def tracker_call_def tracker_op_defs tracker_new_def Let_def hm_contains_def
        tracker_free_def limits_in_def min_or_zero_def usage_def usage_count_def tracker_notify_def)
  then have eq: "claim_for_destroy ''vm'' ?t = (Destroy 7, snd (claim_for_destroy ''vm'' ?t))"
    by (metis prod.collapse)
  show ?thesis
    using one_destroyer_until_untracked [OF wf eq, of "[SetState ''vm'' Running]" 7 "[]" "[]" "[]" "Inr ()"]
    by (simp add: is_untrack_def) metis
qed

end
