(* ===== verification/Proto.thy ===== *)
theory Proto
  imports Prelude
begin

text \<open>
  The messages of \<^verbatim>\<open>kuiper-agent-proto/proto/agent.proto\<close> that the coordinator and the agents
  exchange on their stream. Numbers that are \<^verbatim>\<open>uint32\<close> on the wire and only compared or added as
  \<^verbatim>\<open>usize\<close> are \<open>nat\<close>; a pool size is added up as \<^verbatim>\<open>u32\<close> and stays a 32-bit word.
\<close>

record capacity_limit_msg =
  clm_name :: string
  clm_max :: nat
  clm_external :: nat
  clm_active :: nat

record label_set_msg =
  ls_labels :: "string list"
  ls_limits :: "string list"
  ls_pool_size :: "32 word option"
  ls_id :: string
  ls_is_default :: bool

record vm_info_msg =
  vm_id :: string
  vm_name :: string

record agent_status =
  st_active_vms :: nat
  st_vms :: "vm_info_msg list"
  st_hostname :: string
  st_agent_type :: string
  st_labels :: "string list"
  st_max_vms :: nat
  st_label_sets :: "label_set_msg list"
  st_limits :: "capacity_limit_msg list"
  st_runner_kinds :: "string list"

record runner_timings =
  rt_steps_ms :: "(string \<times> nat) list"
  rt_failed_phase :: string
  rt_image :: string
  rt_install_source :: string

datatype runner_event_type = Unspecified | Started | Completed | Failed | Destroyed

text \<open>\<^verbatim>\<open>RunnerEventType::try_from(i32).unwrap_or(Unspecified)\<close>.\<close>

definition event_type_of :: "int \<Rightarrow> runner_event_type" where
  "event_type_of n =
     (if n = 1 then Started else if n = 2 then Completed else if n = 3 then Failed
      else if n = 4 then Destroyed else Unspecified)"

record runner_event =
  re_runner_name :: string
  re_vm_id :: string
  re_event_type :: int
  re_error :: string
  re_timings :: "runner_timings option"

record forgejo_runner =
  fr_instance_url :: string
  fr_uuid :: string
  fr_token :: string
  fr_handle :: string

record create_runner_command =
  cr_command_id :: string
  cr_vm_name :: string
  cr_registration_token :: string
  cr_labels :: "string list"
  cr_runner_scope_url :: string
  cr_jit_config :: string
  cr_label_set_id :: string
  cr_forgejo :: "forgejo_runner option"

datatype coordinator_payload = CreateRunner create_runner_command | DestroyRunner string string | Ping

record command_ack =
  ack_command_id :: string
  ack_accepted :: bool
  ack_error :: string

record command_result =
  res_command_id :: string
  res_success :: bool
  res_error :: string

text \<open>\<^verbatim>\<open>AgentMessage.payload\<close>: \<^term>\<open>None\<close> is a message without a payload.\<close>

datatype agent_payload =
    Status agent_status
  | Result command_result
  | Pong
  | Ack command_ack
  | RunnerEvent runner_event

type_synonym agent_message = "agent_payload option"

end
