(* ===== verification/Phase_Clock.thy ===== *)
theory Phase_Clock
  imports Proto
begin

text \<open>
  The clock of \<^verbatim>\<open>kuiper-agent-lib/src/vm_agent/mod.rs\<close> that splits a runner's time into steps
  for the coordinator's metrics. Each method takes the clock's mutex once, so each is one function;
  the time is read from \<^verbatim>\<open>Instant::now()\<close> and passed in, in milliseconds. Sums are kept as
  natural numbers: a \<^verbatim>\<open>u64\<close> of milliseconds does not wrap in the life of a runner.
\<close>

section \<open>The clock\<close>

definition phase_create :: string where "phase_create = ''create''"

definition phase_boot :: string where "phase_boot = ''boot''"

definition phase_install :: string where "phase_install = ''install''"

definition phase_setup :: string where "phase_setup = ''setup''"

definition phase_job :: string where "phase_job = ''job''"

definition phase_destroy :: string where "phase_destroy = ''destroy''"

lemmas phase_names = phase_create_def phase_boot_def phase_install_def phase_setup_def phase_job_def
  phase_destroy_def

datatype install_source = Hit | Filled | FromVm | FellBack

fun install_source_str :: "install_source \<Rightarrow> string" where
  "install_source_str Hit = ''hit''"
| "install_source_str Filled = ''filled''"
| "install_source_str FromVm = ''vm''"
| "install_source_str FellBack = ''fell_back''"

text \<open>Whether the runner is on the VM already, so that the VM has nothing to download.\<close>

definition source_installed :: "install_source \<Rightarrow> bool" where
  "source_installed s \<longleftrightarrow> s = Hit \<or> s = Filled"

record phase_clock =
  ck_timings :: runner_timings
  ck_step :: "string option"
  ck_since :: nat
  ck_failed :: bool

definition clock_new :: "nat \<Rightarrow> string \<Rightarrow> phase_clock" where
  "clock_new now img =
     \<lparr>ck_timings = \<lparr>rt_steps_ms = [], rt_failed_phase = [], rt_image = img, rt_install_source = []\<rparr>,
      ck_step = Some phase_create, ck_since = now, ck_failed = False\<rparr>"

text \<open>\<^verbatim>\<open>*map.entry(step).or_default() += ms\<close>.\<close>

definition add_ms :: "string \<Rightarrow> nat \<Rightarrow> (string \<times> nat) list \<Rightarrow> (string \<times> nat) list" where
  "add_ms st ms m = hm_insert st ((case hm_get m st of None \<Rightarrow> 0 | Some n \<Rightarrow> n) + ms) m"

definition clock_next :: "nat \<Rightarrow> string option \<Rightarrow> phase_clock \<Rightarrow> phase_clock" where
  "clock_next now nxt c =
     (let ms = now - ck_since c;
          tm = (case ck_step c of
                  Some st \<Rightarrow> if ck_failed c then ck_timings c
                             else (ck_timings c)\<lparr>rt_steps_ms := add_ms st ms (rt_steps_ms (ck_timings c))\<rparr>
                | None \<Rightarrow> ck_timings c)
      in \<lparr>ck_timings = tm, ck_step = nxt, ck_since = now, ck_failed = False\<rparr>)"

definition clock_skip :: "string \<Rightarrow> phase_clock \<Rightarrow> phase_clock" where
  "clock_skip st c = c\<lparr>ck_timings := (ck_timings c)\<lparr>rt_steps_ms := add_ms st 0 (rt_steps_ms (ck_timings c))\<rparr>\<rparr>"

definition clock_install_source :: "install_source \<Rightarrow> phase_clock \<Rightarrow> phase_clock" where
  "clock_install_source src c = c\<lparr>ck_timings := (ck_timings c)\<lparr>rt_install_source := install_source_str src\<rparr>\<rparr>"

definition clock_fail :: "phase_clock \<Rightarrow> phase_clock" where
  "clock_fail c =
     (let c' = c\<lparr>ck_failed := True\<rparr> in
      case ck_step c of
        None \<Rightarrow> c'
      | Some st \<Rightarrow>
          if rt_failed_phase (ck_timings c) = []
          then c'\<lparr>ck_timings := (ck_timings c)\<lparr>rt_steps_ms := hm_remove st (rt_steps_ms (ck_timings c)),
                                               rt_failed_phase := st\<rparr>\<rparr>
          else c')"

section \<open>Runs of the clock\<close>

datatype clock_call =
    NextStep nat "string option"
  | SkipStep string
  | InstalledFrom install_source
  | StepFailed

definition clock_call :: "clock_call \<Rightarrow> phase_clock \<Rightarrow> phase_clock" where
  "clock_call k c = (case k of
     NextStep now nxt \<Rightarrow> clock_next now nxt c
   | SkipStep st \<Rightarrow> clock_skip st c
   | InstalledFrom src \<Rightarrow> clock_install_source src c
   | StepFailed \<Rightarrow> clock_fail c)"

definition total_ms :: "phase_clock \<Rightarrow> nat" where
  "total_ms c = sum_list (map snd (rt_steps_ms (ck_timings c)))"

text \<open>The times a run reads the clock at.\<close>

definition call_times :: "clock_call list \<Rightarrow> nat list" where
  "call_times ks = concat (map (\<lambda>k. case k of NextStep now _ \<Rightarrow> [now] | _ \<Rightarrow> []) ks)"

lemma sum_add_ms: "sum_list (map snd (add_ms st ms m)) = sum_list (map snd m) + ms"
  by (induction m) (auto simp: add_ms_def)

lemma sum_remove_le: "sum_list (map snd (AList.delete st m)) \<le> sum_list (map snd (m :: (string \<times> nat) list))"
  by (induction m) auto

lemma clock_call_total:
  assumes "case k of NextStep now _ \<Rightarrow> ck_since c \<le> now | _ \<Rightarrow> True"
  shows "ck_since c \<le> ck_since (clock_call k c)
    \<and> total_ms (clock_call k c) \<le> total_ms c + (ck_since (clock_call k c) - ck_since c)"
  using assms
  by (cases k)
    (auto simp: clock_call_def clock_next_def clock_skip_def clock_install_source_def clock_fail_def
      total_ms_def Let_def sum_add_ms sum_remove_le split: option.splits)

lemma clock_run_total:
  assumes "sorted (ck_since c # call_times ks)"
  shows "ck_since c \<le> ck_since (fold clock_call ks c)
    \<and> total_ms (fold clock_call ks c) \<le> total_ms c + (ck_since (fold clock_call ks c) - ck_since c)"
  using assms
proof (induction ks arbitrary: c)
  case (Cons k ks)
  have k: "case k of NextStep now _ \<Rightarrow> ck_since c \<le> now | _ \<Rightarrow> True"
    using Cons.prems by (cases k) (auto simp: call_times_def)
  have "sorted (ck_since (clock_call k c) # call_times ks)"
    using Cons.prems
    by (cases k) (auto simp: call_times_def clock_call_def clock_next_def clock_skip_def Let_def
        clock_install_source_def clock_fail_def split: option.splits)
  from Cons.IH [OF this] clock_call_total [OF k] show ?case by auto
qed simp

lemma since_last:
  "ck_since (fold clock_call ks c) = (if call_times ks = [] then ck_since c else List.last (call_times ks))"
proof (induction ks arbitrary: c)
  case (Cons k ks)
  have "ck_since (clock_call k c) = (case k of NextStep now _ \<Rightarrow> now | _ \<Rightarrow> ck_since c)"
    by (cases k) (auto simp: clock_call_def clock_next_def clock_skip_def clock_install_source_def
        clock_fail_def Let_def split: option.splits)
  with Cons.IH [of "clock_call k c"] show ?case
    by (cases k) (auto simp: call_times_def)
qed (simp add: call_times_def)

lemma failed_phase_kept:
  assumes "rt_failed_phase (ck_timings c) \<noteq> []"
  shows "rt_failed_phase (ck_timings (fold clock_call ks c)) = rt_failed_phase (ck_timings c)"
  using assms
proof (induction ks arbitrary: c)
  case (Cons k ks)
  have "rt_failed_phase (ck_timings (clock_call k c)) = rt_failed_phase (ck_timings c)"
    using Cons.prems
    by (cases k) (auto simp: clock_call_def clock_next_def clock_skip_def clock_install_source_def
        clock_fail_def Let_def split: option.splits)
  with Cons.IH [of "clock_call k c"] Cons.prems show ?case by simp
qed simp

section \<open>Properties\<close>

text \<open>However a runner's steps are started, skipped, repeated and failed, the times reported for
  them add up to no more than the time since the runner was created, and the step that failed first
  stays the failed phase.\<close>

theorem step_times_within_run:
  assumes "sorted (start # call_times (ks @ later))"
  shows "total_ms (fold clock_call (ks @ later) (clock_new start img))
      \<le> List.last (start # call_times (ks @ later)) - start
    \<and> (rt_failed_phase (ck_timings (fold clock_call ks (clock_new start img))) \<noteq> [] \<longrightarrow>
       rt_failed_phase (ck_timings (fold clock_call (ks @ later) (clock_new start img)))
       = rt_failed_phase (ck_timings (fold clock_call ks (clock_new start img))))"
proof -
  have "sorted (ck_since (clock_new start img) # call_times (ks @ later))"
    using assms by (simp add: clock_new_def)
  from clock_run_total [OF this] since_last [of "ks @ later" "clock_new start img"]
  have "total_ms (fold clock_call (ks @ later) (clock_new start img))
      \<le> List.last (start # call_times (ks @ later)) - start"
    by (simp add: total_ms_def clock_new_def split: if_splits)
  then show ?thesis by (simp add: failed_phase_kept)
qed

theorem step_times_within_run_witness:
  "total_ms (fold clock_call ([NextStep 5 (Some ''boot''), StepFailed] @ [NextStep 9 (Some ''destroy''), StepFailed])
      (clock_new 2 ''img'')) \<le> List.last (2 # call_times ([NextStep 5 (Some ''boot''), StepFailed]
      @ [NextStep 9 (Some ''destroy''), StepFailed])) - 2
   \<and> rt_failed_phase (ck_timings (fold clock_call ([NextStep 5 (Some ''boot''), StepFailed]
      @ [NextStep 9 (Some ''destroy''), StepFailed]) (clock_new 2 ''img''))) = ''boot''"
proof -
  have "rt_failed_phase (ck_timings (fold clock_call [NextStep 5 (Some ''boot''), StepFailed] (clock_new 2 ''img'')))
      = ''boot''"
    by (simp add: clock_call_def clock_next_def clock_fail_def clock_new_def Let_def phase_names)
  then show ?thesis
    using step_times_within_run [of 2 "[NextStep 5 (Some ''boot''), StepFailed]"
        "[NextStep 9 (Some ''destroy''), StepFailed]" "''img''"]
    by (simp add: call_times_def)
qed

end
