(* ===== verification/Vm_Agent.thy ===== *)
theory Vm_Agent
  imports Tracker Phase_Clock Labels
begin

text \<open>
  The agent of \<^verbatim>\<open>kuiper-agent-lib/src/vm_agent/mod.rs\<close>: it takes commands, creates, runs and
  destroys VMs over the tracker, and reports how each runner ended. The backend (a trait the agents
  implement) is a parameter: what its synchronous methods say is a record, what its asynchronous
  methods answer comes with each step. A task runs without interruption between two waits (for the
  backend, for a VM's channel, or before it claims a VM); in between, any other task may run.
\<close>

section \<open>Backend\<close>

record 'v vm_backend =
  bk_labels :: "string list"
  bk_capabilities :: "capability list"
  bk_select_image :: "create_runner_command \<Rightarrow> string"
  bk_vm_id :: "'v \<Rightarrow> string"

text \<open>The calls a backend's \<^verbatim>\<open>run_job\<close> makes to its \<^verbatim>\<open>JobContext\<close>.\<close>

datatype job_call = RunnerStarted | JobStep string | SkipJobStep string | InstallSource install_source

text \<open>
  What the backend does when a task waits for it: the time it answers at, what \<^verbatim>\<open>image_limits\<close>
  and \<^verbatim>\<open>external_usage\<close> say, and the result of the call.
\<close>

record 'v backend_answer =
  ba_now :: nat
  ba_limits :: limit_names
  ba_external :: usage_map
  ba_create :: "string + 'v"
  ba_start :: "string + string"
  ba_job :: "job_call list \<times> (string + unit)"
  ba_destroy :: "string + unit"

section \<open>Tasks\<close>

text \<open>\<^verbatim>\<open>destroy(name)\<close>: about to claim the VM, waiting for the backend, waiting for whoever
  destroys the VM, or back with a result.\<close>

datatype 'v destroying = Claiming | Removing 'v | Awaiting nat | Returned "string + unit"

text \<open>\<^verbatim>\<open>lifecycle\<close>: waiting for \<^verbatim>\<open>create\<close>, for the destroy of a VM that was destroyed while it was
  created, for \<^verbatim>\<open>start\<close>, in \<^verbatim>\<open>run_job\<close>, or in the final destroy with the job's result.\<close>

datatype 'v stage =
    Cloning
  | Undoing 'v
  | Booting 'v
  | Working 'v "job_call list" "string + unit"
  | Tearing "string + unit" string "'v destroying"
  | Ended

record 'v lifecycle =
  lc_cmd :: create_runner_command
  lc_image :: string
  lc_clock :: phase_clock
  lc_stage :: "'v stage"

datatype 'v agent_task =
    Lifecycle "'v lifecycle"
  | Teardown string string "'v destroying"
  | TeardownUnknown string
  | Sweep "string list" "'v destroying"
  | TaskDone

record 'v vm_agent =
  va_backend :: "'v vm_backend"
  va_keep_failed :: bool
  va_tracker :: "'v tracker"
  va_tasks :: "'v agent_task list"
  va_sent :: "agent_payload list"
  va_serving :: bool
  va_exited :: bool

definition vm_agent_new :: "'v vm_backend \<Rightarrow> bool \<Rightarrow> limit list \<Rightarrow> 'v vm_agent" where
  "vm_agent_new b keep limits =
     \<lparr>va_backend = b, va_keep_failed = keep, va_tracker = tracker_new limits, va_tasks = [],
      va_sent = [], va_serving = True, va_exited = False\<rparr>"

definition agent_send :: "agent_payload \<Rightarrow> 'v vm_agent \<Rightarrow> 'v vm_agent" where
  "agent_send p s = s\<lparr>va_sent := va_sent s @ [p]\<rparr>"

definition agent_spawn :: "'v agent_task \<Rightarrow> 'v vm_agent \<Rightarrow> 'v vm_agent" where
  "agent_spawn k s = s\<lparr>va_tasks := va_tasks s @ [k]\<rparr>"

fun event_code :: "runner_event_type \<Rightarrow> int" where
  "event_code Unspecified = 0"
| "event_code Started = 1"
| "event_code Completed = 2"
| "event_code Failed = 3"
| "event_code Destroyed = 4"

definition runner_event_msg ::
    "string \<Rightarrow> string \<Rightarrow> runner_event_type \<Rightarrow> string \<Rightarrow> runner_timings option \<Rightarrow> agent_payload" where
  "runner_event_msg name i ev err tm = RunnerEvent
     \<lparr>re_runner_name = name, re_vm_id = i, re_event_type = event_code ev, re_error = err, re_timings = tm\<rparr>"

definition ack_msg :: "string \<Rightarrow> bool \<Rightarrow> string \<Rightarrow> agent_payload" where
  "ack_msg cid accepted err = Ack \<lparr>ack_command_id = cid, ack_accepted = accepted, ack_error = err\<rparr>"

section \<open>Commands\<close>

text \<open>\<^verbatim>\<open>Display\<close> of \<^verbatim>\<open>ReserveError\<close>.\<close>

fun reserve_error_str :: "reserve_error \<Rightarrow> string" where
  "reserve_error_str (Capacity s) = ''Capacity exceeded: '' @ s"
| "reserve_error_str (AlreadyRunning n) = ''VM already running: '' @ n"

definition serve_create ::
    "create_runner_command \<Rightarrow> 'v backend_answer \<Rightarrow> 'v vm_agent \<Rightarrow> 'v vm_agent" where
  "serve_create cmd a s =
     (let img = bk_select_image (va_backend s) cmd in
      case reserve (ba_now a) (cr_vm_name cmd) (ba_limits a) (ba_external a) (va_tracker s) of
        (Inl e, t) \<Rightarrow> agent_send (ack_msg (cr_command_id cmd) False (reserve_error_str e)) (s\<lparr>va_tracker := t\<rparr>)
      | (Inr _, t) \<Rightarrow>
          agent_spawn (Lifecycle \<lparr>lc_cmd = cmd, lc_image = img, lc_clock = clock_new (ba_now a) img,
                                  lc_stage = Cloning\<rparr>)
            (agent_send (ack_msg (cr_command_id cmd) True []) (s\<lparr>va_tracker := t\<rparr>)))"

definition serve_destroy :: "string \<Rightarrow> string \<Rightarrow> 'v vm_agent \<Rightarrow> 'v vm_agent" where
  "serve_destroy cid i s =
     agent_spawn (case find_name i (va_tracker s) of
         Some name \<Rightarrow> Teardown i name Claiming | None \<Rightarrow> TeardownUnknown i)
       (agent_send (ack_msg cid True []) s)"

text \<open>The stale VMs are destroyed one after the other, all VMs at shutdown in parallel.\<close>

definition cleanup_stale :: "nat \<Rightarrow> nat \<Rightarrow> 'v vm_agent \<Rightarrow> 'v vm_agent" where
  "cleanup_stale now max_age s = agent_spawn (Sweep (older_than now max_age (va_tracker s)) Claiming) s"

definition destroy_all :: "'v vm_agent \<Rightarrow> 'v vm_agent" where
  "destroy_all s = fold (\<lambda>name. agent_spawn (Sweep [name] Claiming)) (tracker_names (va_tracker s))
     (s\<lparr>va_serving := False\<rparr>)"

section \<open>Steps of the tasks\<close>

definition destroy_step ::
    "string \<Rightarrow> 'v backend_answer \<Rightarrow> 'v destroying \<Rightarrow> 'v tracker \<Rightarrow> ('v destroying \<times> 'v tracker) option" where
  "destroy_step name a d t = (case d of
     Claiming \<Rightarrow> (case claim_for_destroy name t of
         (Untracked, t') \<Rightarrow> Some (Returned (Inr ()), t')
       | (Wait ch, t') \<Rightarrow> Some (Awaiting ch, t')
       | (Destroy vm, t') \<Rightarrow> Some (Removing vm, t'))
   | Removing vm \<Rightarrow> Some (Returned (ba_destroy a), untrack name (ba_destroy a) t)
   | Awaiting ch \<Rightarrow> (case removal_poll ch t of None \<Rightarrow> None | Some r \<Rightarrow> Some (Returned r, t))
   | Returned r \<Rightarrow> None)"

text \<open>\<^verbatim>\<open>handle_create\<close> after the lifecycle: report, or leave the agent for debugging.\<close>

definition end_lifecycle ::
    "nat \<Rightarrow> 'v lifecycle \<Rightarrow> string + string \<Rightarrow> 'v vm_agent \<Rightarrow> 'v vm_agent" where
  "end_lifecycle i l res s =
     (let name = cr_vm_name (lc_cmd l); tm = Some (ck_timings (lc_clock l));
          s' = s\<lparr>va_tasks := (va_tasks s)[i := Lifecycle (l\<lparr>lc_stage := Ended\<rparr>)]\<rparr> in
      case res of
        Inr vid \<Rightarrow> agent_send (runner_event_msg name vid Completed [] tm) s'
      | Inl e \<Rightarrow>
          if va_keep_failed s then s'\<lparr>va_exited := True\<rparr>
          else agent_send (runner_event_msg name name Failed e tm) s')"

definition put_lifecycle :: "nat \<Rightarrow> 'v lifecycle \<Rightarrow> 'v vm_agent \<Rightarrow> 'v vm_agent" where
  "put_lifecycle i l s = s\<lparr>va_tasks := (va_tasks s)[i := Lifecycle l]\<rparr>"

text \<open>The end of \<^verbatim>\<open>start_and_run\<close>, by itself or because the VM was torn down.\<close>

definition end_run ::
    "nat \<Rightarrow> nat \<Rightarrow> 'v lifecycle \<Rightarrow> 'v \<Rightarrow> string + unit \<Rightarrow> 'v vm_agent \<Rightarrow> 'v vm_agent" where
  "end_run i now l vm res s =
     (let vid = bk_vm_id (va_backend s) vm;
          l1 = (if isl res then l\<lparr>lc_clock := clock_fail (lc_clock l)\<rparr> else l) in
      if isl res \<and> va_keep_failed s then end_lifecycle i l1 (Inl (projl res)) s
      else put_lifecycle i (l1\<lparr>lc_clock := clock_next now (Some phase_destroy) (lc_clock l1),
                               lc_stage := Tearing res vid Claiming\<rparr>) s)"

definition was_destroyed_creating :: "string \<Rightarrow> string" where
  "was_destroyed_creating name = ''VM '' @ name @ '' was destroyed while being created''"

definition was_destroyed_running :: "string \<Rightarrow> string \<Rightarrow> string" where
  "was_destroyed_running vid name =
     ''VM '' @ vid @ '' ('' @ name @ '') was destroyed while its runner was running''"

definition step_cloning :: "nat \<Rightarrow> 'v backend_answer \<Rightarrow> 'v lifecycle \<Rightarrow> 'v vm_agent \<Rightarrow> 'v vm_agent" where
  "step_cloning i a l s =
     (let name = cr_vm_name (lc_cmd l); failed = l\<lparr>lc_clock := clock_fail (lc_clock l)\<rparr> in
      case ba_create a of
        Inl e \<Rightarrow> end_lifecycle i failed (Inl e) (s\<lparr>va_tracker := untrack name (Inr ()) (va_tracker s)\<rparr>)
      | Inr vm \<Rightarrow>
          (case set_created name vm (bk_vm_id (va_backend s) vm) (ba_limits a) (va_tracker s) of
             (False, t) \<Rightarrow> put_lifecycle i (failed\<lparr>lc_stage := Undoing vm\<rparr>) (s\<lparr>va_tracker := t\<rparr>)
           | (True, t) \<Rightarrow>
               put_lifecycle i (l\<lparr>lc_clock := clock_next (ba_now a) (Some phase_boot) (lc_clock l),
                                  lc_stage := Booting vm\<rparr>)
                 (s\<lparr>va_tracker := set_state name Starting t\<rparr>)))"

definition step_undoing :: "nat \<Rightarrow> 'v backend_answer \<Rightarrow> 'v lifecycle \<Rightarrow> 'v vm_agent \<Rightarrow> 'v vm_agent" where
  "step_undoing i a l s =
     (let name = cr_vm_name (lc_cmd l) in
      end_lifecycle i l (Inl (case ba_destroy a of Inl e \<Rightarrow> e | Inr _ \<Rightarrow> was_destroyed_creating name))
        (s\<lparr>va_tracker := untrack name (ba_destroy a) (va_tracker s)\<rparr>))"

definition step_booting :: "nat \<Rightarrow> 'v backend_answer \<Rightarrow> 'v lifecycle \<Rightarrow> 'v \<Rightarrow> 'v vm_agent \<Rightarrow> 'v vm_agent" where
  "step_booting i a l vm s =
     (let name = cr_vm_name (lc_cmd l) in
      case ba_start a of
        Inl e \<Rightarrow> end_run i (ba_now a) l vm (Inl e) s
      | Inr ip \<Rightarrow>
          put_lifecycle i (l\<lparr>lc_clock := clock_next (ba_now a) (Some phase_setup) (lc_clock l),
                             lc_stage := Working vm (fst (ba_job a)) (snd (ba_job a))\<rparr>)
            (s\<lparr>va_tracker := set_state name Configuring (set_running name ip (va_tracker s))\<rparr>))"

text \<open>\<^verbatim>\<open>JobContext\<close>'s methods.\<close>

definition job_context ::
    "nat \<Rightarrow> nat \<Rightarrow> 'v lifecycle \<Rightarrow> string \<Rightarrow> job_call \<Rightarrow> 'v vm_agent \<Rightarrow> 'v vm_agent" where
  "job_context i now l vid c s =
     (let name = cr_vm_name (lc_cmd l) in
      case c of
        RunnerStarted \<Rightarrow>
          (let ck = clock_next now (Some phase_job) (lc_clock l) in
           agent_send (runner_event_msg name vid Started [] (Some (ck_timings ck)))
             (put_lifecycle i (l\<lparr>lc_clock := ck\<rparr>) (s\<lparr>va_tracker := set_state name RunnerActive (va_tracker s)\<rparr>)))
      | JobStep st \<Rightarrow> put_lifecycle i (l\<lparr>lc_clock := clock_next now (Some st) (lc_clock l)\<rparr>) s
      | SkipJobStep st \<Rightarrow> put_lifecycle i (l\<lparr>lc_clock := clock_skip st (lc_clock l)\<rparr>) s
      | InstallSource src \<Rightarrow> put_lifecycle i (l\<lparr>lc_clock := clock_install_source src (lc_clock l)\<rparr>) s)"

definition step_working ::
    "nat \<Rightarrow> 'v backend_answer \<Rightarrow> 'v lifecycle \<Rightarrow> 'v \<Rightarrow> job_call list \<Rightarrow> string + unit \<Rightarrow> 'v vm_agent \<Rightarrow> 'v vm_agent" where
  "step_working i a l vm cs res s = (case cs of
     [] \<Rightarrow> end_run i (ba_now a) l vm res s
   | c # cs' \<Rightarrow> job_context i (ba_now a) (l\<lparr>lc_stage := Working vm cs' res\<rparr>) (bk_vm_id (va_backend s) vm) c s)"

definition step_tearing ::
    "nat \<Rightarrow> 'v backend_answer \<Rightarrow> 'v lifecycle \<Rightarrow> string + unit \<Rightarrow> string \<Rightarrow> 'v destroying \<Rightarrow> 'v vm_agent \<Rightarrow> 'v vm_agent option" where
  "step_tearing i a l res vid d s = (case d of
     Returned r \<Rightarrow>
       (let ck = (if isl r then clock_fail (lc_clock l) else lc_clock l) in
        Some (end_lifecycle i (l\<lparr>lc_clock := clock_next (ba_now a) None ck\<rparr>)
          (case res of Inl e \<Rightarrow> Inl e | Inr _ \<Rightarrow> Inr vid) s))
   | _ \<Rightarrow> map_option (\<lambda>(d', t). put_lifecycle i (l\<lparr>lc_stage := Tearing res vid d'\<rparr>) (s\<lparr>va_tracker := t\<rparr>))
            (destroy_step (cr_vm_name (lc_cmd l)) a d (va_tracker s)))"

definition lifecycle_step :: "nat \<Rightarrow> 'v backend_answer \<Rightarrow> 'v lifecycle \<Rightarrow> 'v vm_agent \<Rightarrow> 'v vm_agent option" where
  "lifecycle_step i a l s = (case lc_stage l of
     Cloning \<Rightarrow> Some (step_cloning i a l s)
   | Undoing vm \<Rightarrow> Some (step_undoing i a l s)
   | Booting vm \<Rightarrow> Some (step_booting i a l vm s)
   | Working vm cs res \<Rightarrow> Some (step_working i a l vm cs res s)
   | Tearing res vid d \<Rightarrow> step_tearing i a l res vid d s
   | Ended \<Rightarrow> None)"

text \<open>\<^verbatim>\<open>tokio::select!\<close> in \<^verbatim>\<open>lifecycle\<close>: the VM was destroyed by someone else, \<^verbatim>\<open>start_and_run\<close> is dropped.\<close>

definition torn_down_step :: "nat \<Rightarrow> nat \<Rightarrow> 'v lifecycle \<Rightarrow> 'v vm_agent \<Rightarrow> 'v vm_agent option" where
  "torn_down_step i now l s =
     (let name = cr_vm_name (lc_cmd l);
          gone = (\<lambda>vm. if torn_down_now name (va_tracker s)
            then Some (end_run i now l vm (Inl (was_destroyed_running (bk_vm_id (va_backend s) vm) name)) s)
            else None) in
      case lc_stage l of Booting vm \<Rightarrow> gone vm | Working vm _ _ \<Rightarrow> gone vm | _ \<Rightarrow> None)"

text \<open>The end of \<^verbatim>\<open>handle_destroy\<close>.\<close>

definition end_teardown :: "nat \<Rightarrow> string \<Rightarrow> string \<Rightarrow> string + unit \<Rightarrow> 'v vm_agent \<Rightarrow> 'v vm_agent" where
  "end_teardown i vid name res s =
     agent_send (case res of
         Inr _ \<Rightarrow> runner_event_msg name vid Destroyed [] None
       | Inl e \<Rightarrow> runner_event_msg name vid Failed e None)
       (s\<lparr>va_tasks := (va_tasks s)[i := TaskDone]\<rparr>)"

definition task_step :: "nat \<Rightarrow> 'v backend_answer \<Rightarrow> 'v agent_task \<Rightarrow> 'v vm_agent \<Rightarrow> 'v vm_agent option" where
  "task_step i a k s =
     (let put = (\<lambda>k' t. s\<lparr>va_tasks := (va_tasks s)[i := k'], va_tracker := t\<rparr>) in
      case k of
        Lifecycle l \<Rightarrow> lifecycle_step i a l s
      | Teardown vid name d \<Rightarrow>
          (case d of
             Returned r \<Rightarrow> Some (end_teardown i vid name r s)
           | _ \<Rightarrow> map_option (\<lambda>(d', t). put (Teardown vid name d') t) (destroy_step name a d (va_tracker s)))
      | TeardownUnknown vid \<Rightarrow> Some (end_teardown i vid vid (ba_destroy a) s)
      | Sweep names d \<Rightarrow>
          (case names of
             [] \<Rightarrow> Some (put TaskDone (va_tracker s))
           | name # rest \<Rightarrow>
               (case d of
                  Returned r \<Rightarrow> Some (put (Sweep rest Claiming) (va_tracker s))
                | _ \<Rightarrow> map_option (\<lambda>(d', t). put (Sweep names d') t) (destroy_step name a d (va_tracker s))))
      | TaskDone \<Rightarrow> None)"

section \<open>The agent as a whole\<close>

datatype 'v agent_event =
    CreateCommand create_runner_command "'v backend_answer"
  | DestroyCommand string string
  | CleanupTick nat nat
  | ShutdownSignal
  | RunTask nat "'v backend_answer"
  | TornDown nat nat

definition agent_step :: "'v agent_event \<Rightarrow> 'v vm_agent \<Rightarrow> 'v vm_agent option" where
  "agent_step ev s =
     (if va_exited s then None else case ev of
        CreateCommand cmd a \<Rightarrow> if va_serving s then Some (serve_create cmd a s) else None
      | DestroyCommand cid i \<Rightarrow> if va_serving s then Some (serve_destroy cid i s) else None
      | CleanupTick now max_age \<Rightarrow> Some (cleanup_stale now max_age s)
      | ShutdownSignal \<Rightarrow> if va_serving s then Some (destroy_all s) else None
      | RunTask i a \<Rightarrow>
          (case get_at (va_tasks s) i of None \<Rightarrow> None | Some k \<Rightarrow> task_step i a k s)
      | TornDown i now \<Rightarrow>
          (case get_at (va_tasks s) i of
             Some (Lifecycle l) \<Rightarrow> torn_down_step i now l s
           | _ \<Rightarrow> None))"

inductive agent_reachable :: "'v vm_backend \<Rightarrow> bool \<Rightarrow> limit list \<Rightarrow> 'v vm_agent \<Rightarrow> bool" for b keep limits where
  agent_start: "agent_reachable b keep limits (vm_agent_new b keep limits)"
| agent_next: "agent_reachable b keep limits s \<Longrightarrow> agent_step ev s = Some s' \<Longrightarrow> agent_reachable b keep limits s'"

text \<open>\<^verbatim>\<open>VmAgent::status\<close>: what the agent reports of itself.\<close>

record agent_report = agent_status +
  ar_available_slots :: nat
  ar_vms :: "vm_info list"
  ar_agent_id :: string
  ar_version :: string

definition status_step ::
    "(string \<Rightarrow> limit_names) \<Rightarrow> usage_map \<Rightarrow> 'v tracker \<Rightarrow> capability \<Rightarrow> nat \<times> nat \<times> label_set_msg list
     \<Rightarrow> nat \<times> nat \<times> label_set_msg list" where
  "status_step limits_of external t c acc =
     (case acc of (slots, max_vms, sets) \<Rightarrow>
        let limits = limits_of (cap_id c) in
        (max slots (free_slots t limits external), max max_vms (tracker_max_vms t limits),
         sets @ [\<lparr>ls_labels = cap_labels c, ls_limits = limits, ls_pool_size = map_option of_nat (cap_pool c),
                  ls_id = cap_id c, ls_is_default = cap_is_default c\<rparr>]))"

definition agent_status_report ::
    "(string \<Rightarrow> limit_names) \<Rightarrow> usage_map \<Rightarrow> string option \<Rightarrow> string \<Rightarrow> string \<Rightarrow> string \<Rightarrow> 'v vm_agent \<Rightarrow> agent_report" where
  "agent_status_report limits_of external agent_id host kind version s =
     (let t = va_tracker s; b = va_backend s;
          (slots, max_vms, sets) = fold (status_step limits_of external t) (bk_capabilities b) (0, 0, []) in
      \<lparr>st_active_vms = vm_count t,
       st_vms = map (\<lambda>v. \<lparr>vm_id = vi_vm_id v, vm_name = vi_name v\<rparr>) (vm_infos t),
       st_hostname = host, st_agent_type = kind, st_labels = bk_labels b, st_max_vms = max_vms,
       st_label_sets = sets,
       st_limits = map (\<lambda>c. \<lparr>clm_name = cl_name c, clm_max = cl_max c, clm_external = cl_external c,
                             clm_active = cl_active c\<rparr>) (capacity_limits t external),
       st_runner_kinds = [''forgejo''], ar_available_slots = slots, ar_vms = vm_infos t,
       ar_agent_id = (case agent_id of None \<Rightarrow> [] | Some i \<Rightarrow> i), ar_version = version\<rparr>)"

end
