(* ===== verification/Vm_Agent_Facts.thy ===== *)
theory Vm_Agent_Facts
  imports Vm_Agent
begin

text \<open>
  The agent's tasks over the tracker: every tracked VM belongs to a task that will untrack it, every
  task that waits for a VM's channel waits for such a task, and every step of a task brings it closer
  to its end.
\<close>

section \<open>Who frees a VM\<close>

definition removing :: "'v destroying \<Rightarrow> bool" where
  "removing d = (case d of Removing _ \<Rightarrow> True | _ \<Rightarrow> False)"

definition claims :: "'v destroying \<Rightarrow> 'v tracked \<Rightarrow> bool" where
  "claims d x = (case d of
     Claiming \<Rightarrow> tr_vm x \<noteq> None \<and> tr_state x \<noteq> Destroying
   | Removing _ \<Rightarrow> tr_state x = Destroying
   | _ \<Rightarrow> False)"

text \<open>The task will untrack the VM, or claim it and then untrack it, unless another one does.\<close>

definition task_owns :: "'v agent_task \<Rightarrow> string \<Rightarrow> 'v tracked \<Rightarrow> bool" where
  "task_owns k n x = (case k of
     Lifecycle l \<Rightarrow> cr_vm_name (lc_cmd l) = n \<and> (case lc_stage l of
         Cloning \<Rightarrow> tr_vm x = None
       | Undoing _ \<Rightarrow> tr_vm x = None
       | Booting _ \<Rightarrow> tr_vm x \<noteq> None \<and> tr_state x \<noteq> Destroying
       | Working _ _ _ \<Rightarrow> tr_vm x \<noteq> None \<and> tr_state x \<noteq> Destroying
       | Tearing _ _ d \<Rightarrow> claims d x
       | Ended \<Rightarrow> False)
   | Teardown _ m d \<Rightarrow> m = n \<and> removing d \<and> claims d x
   | TeardownUnknown _ \<Rightarrow> False
   | Sweep ms d \<Rightarrow> ms \<noteq> [] \<and> hd ms = n \<and> removing d \<and> claims d x
   | TaskDone \<Rightarrow> False)"

definition awaited :: "'v agent_task \<Rightarrow> nat option" where
  "awaited k = (let ch = (\<lambda>d. case d of Awaiting c \<Rightarrow> Some c | _ \<Rightarrow> None) in case k of
     Lifecycle l \<Rightarrow> (case lc_stage l of Tearing _ _ d \<Rightarrow> ch d | _ \<Rightarrow> None)
   | Teardown _ _ d \<Rightarrow> ch d
   | TeardownUnknown _ \<Rightarrow> None
   | Sweep ms d \<Rightarrow> (if ms = [] then None else ch d)
   | TaskDone \<Rightarrow> None)"

definition finished :: "'v agent_task \<Rightarrow> bool" where
  "finished k = (case k of Lifecycle l \<Rightarrow> lc_stage l = Ended | TaskDone \<Rightarrow> True | _ \<Rightarrow> False)"


text \<open>Changes of a tracked VM that leave its owner in charge.\<close>

definition same_owner :: "'v tracked \<Rightarrow> 'v tracked \<Rightarrow> bool" where
  "same_owner x y \<longleftrightarrow> (tr_vm x = None \<longleftrightarrow> tr_vm y = None) \<and>
     (tr_state x = Destroying \<longleftrightarrow> tr_state y = Destroying) \<or>
     tr_vm x = None \<and> tr_vm y = None \<and> tr_state y = Destroying"

lemma same_owner_refl [simp]: "same_owner x x"
  by (simp add: same_owner_def)


definition channel_ok :: "'v tracker \<Rightarrow> nat \<Rightarrow> bool" where
  "channel_ok t ch \<longleftrightarrow> hm_get (tk_closed t) ch \<noteq> None \<or> (\<exists>n x. vm_of t n = Some x \<and> tr_removed x = ch)"



section \<open>How far a task is from its end\<close>

fun destroying_rank :: "'v destroying \<Rightarrow> nat" where
  "destroying_rank Claiming = 3"
| "destroying_rank (Removing _) = 2"
| "destroying_rank (Awaiting _) = 2"
| "destroying_rank (Returned _) = 1"

lemma destroying_rank_pos [simp]: "0 < destroying_rank d"
  by (cases d) simp_all

fun stage_rank :: "'v stage \<Rightarrow> nat \<times> nat" where
  "stage_rank Cloning = (7, 0)"
| "stage_rank (Booting _) = (6, 0)"
| "stage_rank (Working _ cs _) = (5, length cs)"
| "stage_rank (Tearing _ _ d) = (Suc (destroying_rank d), 0)"
| "stage_rank (Undoing _) = (1, 0)"
| "stage_rank Ended = (0, 0)"

fun task_rank :: "'v agent_task \<Rightarrow> nat \<times> nat" where
  "task_rank (Lifecycle l) = stage_rank (lc_stage l)"
| "task_rank (Teardown _ _ d) = (destroying_rank d, 0)"
| "task_rank (TeardownUnknown _) = (1, 0)"
| "task_rank (Sweep ms d) = (4 * length ms + destroying_rank d, 0)"
| "task_rank TaskDone = (0, 0)"

definition rank_less :: "((nat \<times> nat) \<times> (nat \<times> nat)) set" where
  "rank_less = less_than <*lex*> less_than"

lemma rank_less_iff: "((a, b), (c, d)) \<in> rank_less \<longleftrightarrow> a < c \<or> a = c \<and> b < d"
  by (simp add: rank_less_def)

lemma wf_rank_less: "wf rank_less" and trans_rank_less: "trans rank_less"
  by (auto simp: rank_less_def intro: trans_lex_prod)

section \<open>What one step of a task does\<close>

definition runs_to :: "'v tracker \<Rightarrow> 'v tracker \<Rightarrow> bool" where
  "runs_to t t' \<longleftrightarrow> (\<exists>cs. t' = tracker_run cs t)"

definition moves :: "'v tracker \<Rightarrow> 'v agent_task \<Rightarrow> 'v tracker \<Rightarrow> 'v agent_task \<Rightarrow> bool" where
  "moves t k t' k' \<longleftrightarrow>
     runs_to t t' \<and>
     (\<forall>ch. awaited k' = Some ch \<longrightarrow> channel_ok t' ch) \<and>
     (\<forall>n y. vm_of t' n = Some y \<longrightarrow> task_owns k' n y \<or>
        (\<exists>x. vm_of t n = Some x \<and> same_owner x y \<and> \<not> task_owns k n x))"

lemma runs_to_refl [simp]: "runs_to t t"
  unfolding runs_to_def by (rule exI [of _ "[]"]) (simp add: tracker_run_def)

lemma runs_to_trans: "runs_to t u \<Longrightarrow> runs_to u v \<Longrightarrow> runs_to t v"
  unfolding runs_to_def tracker_run_def by (metis fold_append o_apply)

lemma runs_to_call: "runs_to t (tracker_call c t)"
  unfolding runs_to_def by (rule exI [of _ "[c]"]) (simp add: tracker_run_def)

lemma runs_to_op [simp]:
  "runs_to t (snd (reserve now n ls e t))"
  "runs_to t (snd (set_created n v i ls t))"
  "runs_to t (set_state n st t)"
  "runs_to t (set_ip n ip t)"
  "runs_to t (snd (claim_for_destroy n t))"
  "runs_to t (untrack n r t)"
  using runs_to_call [of t "Reserve now n ls e"] runs_to_call [of t "SetCreated n v i ls"]
    runs_to_call [of t "SetState n st"] runs_to_call [of t "SetIp n ip"]
    runs_to_call [of t "Claim n"] runs_to_call [of t "Untrack n r"]
  by (simp_all add: tracker_call_def)

lemma vm_of_untrack [simp]: "vm_of (untrack n r t) m = (if m = n then None else vm_of t m)"
  by (auto simp: vm_of_def untrack_def split: option.splits)

lemma vm_of_set_state:
  "vm_of (set_state n st t) m =
     (case vm_of t m of None \<Rightarrow> None
      | Some x \<Rightarrow> if m = n \<and> tr_state x \<noteq> Destroying then Some (x\<lparr>tr_state := st\<rparr>) else Some x)"
  by (auto simp: vm_of_def set_state_def split: option.splits)

lemma vm_of_set_ip:
  "vm_of (set_ip n ip t) m =
     (case vm_of t m of None \<Rightarrow> None | Some x \<Rightarrow> if m = n then Some (x\<lparr>tr_ip := Some ip\<rparr>) else Some x)"
  by (auto simp: vm_of_def set_ip_def hm_get_modify split: option.splits)

lemma vm_of_set_created:
  assumes "set_created n v i ls t = (True, t')"
  shows "\<exists>x. vm_of t n = Some x \<and> tr_state x \<noteq> Destroying
    \<and> vm_of t' = (vm_of t)(n \<mapsto> x\<lparr>tr_vm := Some v, tr_vm_id := i, tr_limits := ls\<rparr>)"
  using assms by (auto simp: set_created_def vm_of_def fun_eq_iff split: option.splits if_splits)

text \<open>Operations that move a VM through the stages of its runner keep its owner.\<close>

definition same_kind :: "'v tracked \<Rightarrow> 'v tracked \<Rightarrow> bool" where
  "same_kind x y \<longleftrightarrow> (tr_vm x = None \<longleftrightarrow> tr_vm y = None) \<and> (tr_state x = Destroying \<longleftrightarrow> tr_state y = Destroying)"

lemma same_kind_refl [simp]: "same_kind x x"
  by (simp add: same_kind_def)

lemma same_kind_trans: "same_kind x y \<Longrightarrow> same_kind y z \<Longrightarrow> same_kind x z"
  by (auto simp: same_kind_def)

lemma same_kind_same_owner: "same_kind x y \<Longrightarrow> same_owner x y"
  by (simp add: same_kind_def same_owner_def)

lemma same_kind_owns: "same_kind x y \<Longrightarrow> task_owns k n y \<longleftrightarrow> task_owns k n x"
  by (auto simp: same_kind_def task_owns_def claims_def split: agent_task.splits stage.splits destroying.splits)

definition keeps_kind :: "'v tracker \<Rightarrow> 'v tracker \<Rightarrow> bool" where
  "keeps_kind t t' \<longleftrightarrow> (\<forall>n y. vm_of t' n = Some y \<longrightarrow> (\<exists>x. vm_of t n = Some x \<and> same_kind x y))"

lemma keeps_kind_refl [simp]: "keeps_kind t t"
  by (simp add: keeps_kind_def)

lemma keeps_kind_trans: "keeps_kind t u \<Longrightarrow> keeps_kind u v \<Longrightarrow> keeps_kind t v"
  unfolding keeps_kind_def by (meson same_kind_trans)

lemma keeps_kind_set_state: "st \<noteq> Destroying \<Longrightarrow> keeps_kind t (set_state n st t)"
  by (auto simp: keeps_kind_def vm_of_set_state same_kind_def split: option.splits if_splits)

lemma keeps_kind_set_ip: "keeps_kind t (set_ip n ip t)"
  by (auto simp: keeps_kind_def vm_of_set_ip same_kind_def split: option.splits if_splits)

lemma keeps_kind_configuring: "keeps_kind t (set_state n Configuring (set_running n ip t))"
  unfolding set_running_def
  by (intro keeps_kind_trans [OF keeps_kind_set_ip keeps_kind_trans [OF keeps_kind_set_state keeps_kind_set_state]])
    simp_all

lemma destroy_step_effect:
  assumes "destroy_step name a d t = Some (d', t')"
  shows "runs_to t t' \<and> destroying_rank d' < destroying_rank d
    \<and> (\<forall>ch. d' = Awaiting ch \<longrightarrow> channel_ok t' ch)
    \<and> (\<forall>n y. vm_of t' n = Some y \<longrightarrow> n = name \<and> removing d' \<and> claims d' y \<or>
        (\<exists>x. vm_of t n = Some x \<and> same_owner x y \<and> \<not> (n = name \<and> claims d x)))"
proof (cases d)
  case Claiming
  obtain cl t1 where cl: "claim_for_destroy name t = (cl, t1)" by (cases "claim_for_destroy name t")
  have t1: "runs_to t t1" using runs_to_op(5) [of t name] cl by simp
  show ?thesis
  proof (cases "vm_of t name")
    case None
    then have "cl = Untracked" "t1 = t" using cl by (auto simp: claim_for_destroy_def vm_of_def)
    then show ?thesis using assms cl None t1 Claiming
      by (auto simp: destroy_step_def claims_def)
  next
    case (Some x)
    have after: "vm_of t1 m = (if m = name then Some (x\<lparr>tr_state := Destroying\<rparr>) else vm_of t m)" for m
      using cl Some by (auto simp: claim_for_destroy_def vm_of_def Let_def split: option.splits if_splits)
    show ?thesis
    proof (cases "tr_state x = Destroying \<or> tr_vm x = None")
      case True
      then have "cl = Wait (tr_removed x)"
        using cl Some by (auto simp: claim_for_destroy_def vm_of_def Let_def split: option.splits if_splits)
      then have d': "d' = Awaiting (tr_removed x)" "t' = t1"
        using assms cl Claiming by (simp_all add: destroy_step_def)
      have "channel_ok t1 (tr_removed x)"
        unfolding channel_ok_def using after [of name] by fastforce
      moreover have "\<not> claims d x" using True Claiming by (auto simp: claims_def)
      moreover have "same_owner x (x\<lparr>tr_state := Destroying\<rparr>)" using True by (auto simp: same_owner_def)
      ultimately show ?thesis
        unfolding d' using t1 Claiming Some by (auto simp: after split: if_splits)
    next
      case False
      then obtain vm where "cl = Destroy vm"
        using cl Some by (auto simp: claim_for_destroy_def vm_of_def Let_def split: option.splits if_splits)
      then have d': "d' = Removing vm" "t' = t1"
        using assms cl Claiming by (simp_all add: destroy_step_def)
      then show ?thesis
        unfolding d' using t1 Claiming by (auto simp: after removing_def claims_def split: if_splits)
    qed
  qed
next
  case (Removing vm)
  then show ?thesis using assms
    by (auto simp: destroy_step_def split: if_splits intro: same_owner_refl)
next
  case (Awaiting ch)
  then show ?thesis using assms
    by (auto simp: destroy_step_def claims_def split: option.splits)
next
  case (Returned r)
  then show ?thesis using assms by (simp add: destroy_step_def)
qed

text \<open>A step of the task at \<open>i\<close>: it is replaced by one with less to do.\<close>

definition moved :: "nat \<Rightarrow> 'v agent_task \<Rightarrow> 'v vm_agent \<Rightarrow> 'v vm_agent \<Rightarrow> bool" where
  "moved i k s s' \<longleftrightarrow> (\<exists>k'. va_tasks s' = (va_tasks s)[i := k'] \<and> (task_rank k', task_rank k) \<in> rank_less \<and>
     (va_exited s' \<or> moves (va_tracker s) k (va_tracker s') k'))"

lemma movedI:
  assumes "va_tasks s' = (va_tasks s)[i := k']" and "(task_rank k', task_rank k) \<in> rank_less"
    and "moves (va_tracker s) k (va_tracker s') k'"
  shows "moved i k s s'"
  using assms unfolding moved_def by blast

lemma moves_kept:
  assumes "runs_to t t'" and "keeps_kind t t'" and "awaited k' = None"
    and "\<And>n x. task_owns k n x \<Longrightarrow> task_owns k' n x"
  shows "moves t k t' k'"
  using assms unfolding moves_def keeps_kind_def
  by (auto, metis same_kind_owns same_kind_same_owner)

lemma moves_untracked:
  assumes "awaited k' = None" and "\<And>n x. task_owns k n x \<Longrightarrow> n = name"
  shows "moves t k (untrack name r t) k'"
  using assms unfolding moves_def by (auto split: if_splits intro: same_owner_refl)

lemma end_lifecycle_fields [simp]:
  "va_tasks (end_lifecycle i l res s) = (va_tasks s)[i := Lifecycle (l\<lparr>lc_stage := Ended\<rparr>)]"
  "va_tracker (end_lifecycle i l res s) = va_tracker s"
  by (auto simp: end_lifecycle_def agent_send_def Let_def split: sum.splits)

lemma put_lifecycle_fields [simp]:
  "va_tasks (put_lifecycle i l s) = (va_tasks s)[i := Lifecycle l]"
  "va_tracker (put_lifecycle i l s) = va_tracker s"
  "va_sent (put_lifecycle i l s) = va_sent s"
  "va_exited (put_lifecycle i l s) = va_exited s"
  by (simp_all add: put_lifecycle_def)

lemma end_run_moved:
  assumes "\<And>n x. task_owns (Lifecycle l) n x \<Longrightarrow> cr_vm_name (lc_cmd l) = n \<and> claims Claiming x"
    and "((4, 0), stage_rank (lc_stage l)) \<in> rank_less"
    and "k = Lifecycle l"
  shows "moved i k s (end_run i now l vm res s)"
proof (cases "isl res \<and> va_keep_failed s")
  case True
  let ?l = "l\<lparr>lc_clock := clock_fail (lc_clock l)\<rparr>"
  have "end_run i now l vm res s = end_lifecycle i ?l (Inl (projl res)) s"
    using True by (simp add: end_run_def Let_def)
  moreover have "va_exited (end_lifecycle i ?l (Inl (projl res)) s)"
    using True by (simp add: end_lifecycle_def Let_def)
  moreover have "(task_rank (Lifecycle (?l\<lparr>lc_stage := Ended\<rparr>)), task_rank k) \<in> rank_less"
    using assms(2,3) by (cases "stage_rank (lc_stage l)") (auto simp: rank_less_iff)
  ultimately show ?thesis unfolding moved_def by (metis end_lifecycle_fields(1))
next
  case False
  define l' where "l' = (if isl res then l\<lparr>lc_clock := clock_fail (lc_clock l)\<rparr> else l)"
  define l2 where "l2 = l'\<lparr>lc_clock := clock_next now (Some phase_destroy) (lc_clock l'),
      lc_stage := Tearing res (bk_vm_id (va_backend s) vm) Claiming\<rparr>"
  have run: "end_run i now l vm res s = put_lifecycle i l2 s"
    using False by (auto simp: end_run_def Let_def l'_def l2_def)
  have l2: "lc_cmd l2 = lc_cmd l" "lc_stage l2 = Tearing res (bk_vm_id (va_backend s) vm) Claiming"
    by (simp_all add: l2_def l'_def)
  show ?thesis
  proof (rule movedI)
    show "va_tasks (end_run i now l vm res s) = (va_tasks s)[i := Lifecycle l2]"
      by (simp add: run)
    show "(task_rank (Lifecycle l2), task_rank k) \<in> rank_less" using assms(2,3) by (simp add: l2)
    show "moves (va_tracker s) k (va_tracker (end_run i now l vm res s)) (Lifecycle l2)"
      unfolding run put_lifecycle_fields assms(3)
    proof (rule moves_kept)
      show "task_owns (Lifecycle l2) n x" if "task_owns (Lifecycle l) n x" for n x
        using assms(1) [OF that] by (simp add: task_owns_def l2)
    qed (simp_all add: awaited_def l2)
  qed
qed

lemma owns_name: "task_owns (Lifecycle l) n x \<Longrightarrow> cr_vm_name (lc_cmd l) = n"
  by (simp add: task_owns_def)

lemma step_undoing_moved:
  assumes "lc_stage l = Undoing vm"
  shows "moved i (Lifecycle l) s (step_undoing i a l s)"
proof (rule movedI)
  show "va_tasks (step_undoing i a l s) = (va_tasks s)[i := Lifecycle (l\<lparr>lc_stage := Ended\<rparr>)]"
    by (simp add: step_undoing_def Let_def)
  show "moves (va_tracker s) (Lifecycle l) (va_tracker (step_undoing i a l s)) (Lifecycle (l\<lparr>lc_stage := Ended\<rparr>))"
    using moves_untracked [of "Lifecycle (l\<lparr>lc_stage := Ended\<rparr>)" "Lifecycle l"] owns_name
    by (fastforce simp: step_undoing_def Let_def awaited_def)
qed (simp add: assms rank_less_iff)

lemma step_cloning_moved:
  assumes st: "lc_stage l = Cloning"
  shows "moved i (Lifecycle l) s (step_cloning i a l s)"
proof (cases "ba_create a")
  case (Inl e)
  let ?l = "l\<lparr>lc_clock := clock_fail (lc_clock l), lc_stage := Ended\<rparr>"
  show ?thesis
  proof (rule movedI)
    show "va_tasks (step_cloning i a l s) = (va_tasks s)[i := Lifecycle ?l]"
      using Inl by (simp add: step_cloning_def Let_def)
    show "moves (va_tracker s) (Lifecycle l) (va_tracker (step_cloning i a l s)) (Lifecycle ?l)"
      using Inl moves_untracked [of "Lifecycle ?l" "Lifecycle l"] owns_name
      by (fastforce simp: step_cloning_def Let_def awaited_def)
  qed (simp add: st rank_less_iff)
next
  case (Inr vm)
  let ?n = "cr_vm_name (lc_cmd l)" and ?t = "va_tracker s" and ?vid = "bk_vm_id (va_backend s) vm"
  obtain ok t where sc: "set_created ?n vm ?vid (ba_limits a) ?t = (ok, t)"
    by (cases "set_created ?n vm ?vid (ba_limits a) ?t")
  have run: "runs_to ?t t" using runs_to_op(2) [of ?t ?n vm ?vid "ba_limits a"] sc by simp
  show ?thesis
  proof (cases ok)
    case False
    let ?l = "l\<lparr>lc_clock := clock_fail (lc_clock l), lc_stage := Undoing vm\<rparr>"
    have "t = ?t" using sc False by (auto simp: set_created_def split: option.splits if_splits)
    then have s': "step_cloning i a l s = put_lifecycle i ?l (s\<lparr>va_tracker := ?t\<rparr>)"
      using Inr sc False by (simp add: step_cloning_def Let_def)
    show ?thesis
    proof (rule movedI)
      show "moves ?t (Lifecycle l) (va_tracker (step_cloning i a l s)) (Lifecycle ?l)"
        unfolding s' put_lifecycle_fields
        by (rule moves_kept) (auto simp: awaited_def task_owns_def st)
    qed (simp_all add: s' st rank_less_iff)
  next
    case True
    let ?l = "l\<lparr>lc_clock := clock_next (ba_now a) (Some phase_boot) (lc_clock l), lc_stage := Booting vm\<rparr>"
    let ?u = "set_state ?n Starting t"
    have s': "step_cloning i a l s = put_lifecycle i ?l (s\<lparr>va_tracker := ?u\<rparr>)"
      using Inr sc True by (simp add: step_cloning_def Let_def)
    have "set_created ?n vm ?vid (ba_limits a) ?t = (True, t)" using sc True by simp
    from vm_of_set_created [OF this] obtain x where x: "tr_state x \<noteq> Destroying"
      "vm_of t = (vm_of ?t)(?n \<mapsto> x\<lparr>tr_vm := Some vm, tr_vm_id := ?vid, tr_limits := ba_limits a\<rparr>)"
      by blast
    have after: "vm_of ?u m = (if m = ?n then Some (x\<lparr>tr_vm := Some vm, tr_vm_id := ?vid,
        tr_limits := ba_limits a, tr_state := Starting\<rparr>) else vm_of ?t m)" for m
      using x by (auto simp: vm_of_set_state split: option.splits)
    have "moves ?t (Lifecycle l) ?u (Lifecycle ?l)"
      using runs_to_trans [OF run runs_to_op(3)]
      by (auto simp: moves_def awaited_def after task_owns_def intro: same_owner_refl split: if_splits)
    then show ?thesis
      by (intro movedI [of _ _ _ "Lifecycle ?l"]) (simp_all add: s' st rank_less_iff)
  qed
qed

lemma step_booting_moved:
  assumes st: "lc_stage l = Booting vm"
  shows "moved i (Lifecycle l) s (step_booting i a l vm s)"
proof (cases "ba_start a")
  case (Inl e)
  then show ?thesis
    by (auto simp: step_booting_def Let_def st task_owns_def claims_def rank_less_iff intro!: end_run_moved)
next
  case (Inr ip)
  let ?n = "cr_vm_name (lc_cmd l)" and ?t = "va_tracker s"
  let ?l = "l\<lparr>lc_clock := clock_next (ba_now a) (Some phase_setup) (lc_clock l),
      lc_stage := Working vm (fst (ba_job a)) (snd (ba_job a))\<rparr>"
  let ?u = "set_state ?n Configuring (set_running ?n ip ?t)"
  have s': "step_booting i a l vm s = put_lifecycle i ?l (s\<lparr>va_tracker := ?u\<rparr>)"
    using Inr by (simp add: step_booting_def Let_def)
  have "runs_to ?t ?u"
    unfolding set_running_def by (intro runs_to_trans [OF runs_to_op(4) runs_to_trans [OF runs_to_op(3) runs_to_op(3)]])
  then have "moves ?t (Lifecycle l) ?u (Lifecycle ?l)"
    by (rule moves_kept [OF _ keeps_kind_configuring]) (simp_all add: awaited_def task_owns_def st)
  then show ?thesis
    by (intro movedI [of _ _ _ "Lifecycle ?l"]) (simp_all add: s' st rank_less_iff)
qed

lemma step_working_moved:
  assumes st: "lc_stage l = Working vm cs res"
  shows "moved i (Lifecycle l) s (step_working i a l vm cs res s)"
proof (cases cs)
  case Nil
  then show ?thesis
    by (auto simp: step_working_def st task_owns_def claims_def rank_less_iff intro!: end_run_moved)
next
  case (Cons c cs')
  let ?s' = "step_working i a l vm cs res s"
  have kept: "moves (va_tracker s) (Lifecycle l) t (Lifecycle l')"
    if "runs_to (va_tracker s) t" "keeps_kind (va_tracker s) t" "lc_cmd l' = lc_cmd l"
      "lc_stage l' = Working vm cs' res" for t l'
    using that(1,2) by (rule moves_kept) (simp_all add: awaited_def task_owns_def st that)
  have "\<exists>l'. va_tasks ?s' = (va_tasks s)[i := Lifecycle l'] \<and> lc_cmd l' = lc_cmd l
      \<and> lc_stage l' = Working vm cs' res
      \<and> (va_tracker ?s' = va_tracker s \<or> va_tracker ?s' = set_state (cr_vm_name (lc_cmd l)) RunnerActive (va_tracker s))"
    by (cases c) (auto simp: step_working_def job_context_def Cons agent_send_def put_lifecycle_def Let_def
        intro: exI [of _ "l\<lparr>lc_stage := Working vm cs' res, lc_clock := _\<rparr>"])
  then obtain l' where l': "va_tasks ?s' = (va_tasks s)[i := Lifecycle l']" "lc_cmd l' = lc_cmd l"
      "lc_stage l' = Working vm cs' res" "runs_to (va_tracker s) (va_tracker ?s')"
      "keeps_kind (va_tracker s) (va_tracker ?s')"
    using keeps_kind_set_state [of RunnerActive] by fastforce
  from l'(1) show ?thesis
    by (rule movedI) (use kept [OF l'(4,5,2,3)] in \<open>simp_all add: l'(3) st Cons rank_less_iff\<close>)
qed

lemma destroying_step_moved:
  assumes "destroy_step name a d (va_tracker s) = Some (d', t')"
    and "s' = s\<lparr>va_tasks := (va_tasks s)[i := mk d'], va_tracker := t'\<rparr>"
    and "\<And>e. awaited (mk e) = (case e of Awaiting c \<Rightarrow> Some c | _ \<Rightarrow> None)"
    and "\<And>e n x. task_owns (mk e) n x \<Longrightarrow> name = n \<and> claims e x"
    and "\<And>e x. removing e \<Longrightarrow> claims e x \<Longrightarrow> task_owns (mk e) name x"
    and "(task_rank (mk d'), task_rank (mk d)) \<in> rank_less"
  shows "moved i (mk d) s s'"
proof (rule movedI)
  note eff = destroy_step_effect [OF assms(1)]
  show "moves (va_tracker s) (mk d) (va_tracker s') (mk d')"
    unfolding moves_def
  proof (intro conjI allI impI)
    show "channel_ok (va_tracker s') ch" if "awaited (mk d') = Some ch" for ch
      using that eff assms(2,3) by (cases d') auto
    show "task_owns (mk d') n y \<or> (\<exists>x. vm_of (va_tracker s) n = Some x \<and> same_owner x y \<and> \<not> task_owns (mk d) n x)"
      if y: "vm_of (va_tracker s') n = Some y" for n y
    proof -
      from y eff assms(2) have "n = name \<and> removing d' \<and> claims d' y \<or>
          (\<exists>x. vm_of (va_tracker s) n = Some x \<and> same_owner x y \<and> \<not> (n = name \<and> claims d x))"
        by simp
      then show ?thesis using assms(4) [of d n] assms(5) [of d' y] by metis
    qed
  qed (use eff assms(2) in simp)
qed (simp_all add: assms(2,6))

lemma step_tearing_moved:
  assumes st: "lc_stage l = Tearing res vid d" and step: "step_tearing i a l res vid d s = Some s'"
  shows "moved i (Lifecycle l) s s'"
proof (cases "\<exists>r. d = Returned r")
  case True
  then obtain ck where ck: "va_tasks s' = (va_tasks s)[i := Lifecycle (l\<lparr>lc_clock := ck, lc_stage := Ended\<rparr>)]"
      "va_tracker s' = va_tracker s"
    using step by (auto simp: step_tearing_def Let_def)
  from ck(1) show ?thesis
  proof (rule movedI)
    show "moves (va_tracker s) (Lifecycle l) (va_tracker s') (Lifecycle (l\<lparr>lc_clock := ck, lc_stage := Ended\<rparr>))"
      unfolding ck(2) using True
      by (intro moves_kept) (auto simp: awaited_def task_owns_def claims_def st)
  qed (use True in \<open>auto simp: st rank_less_iff\<close>)
next
  case False
  let ?mk = "\<lambda>d. Lifecycle (l\<lparr>lc_stage := Tearing res vid d\<rparr>)"
  from False step obtain d' t' where d: "destroy_step (cr_vm_name (lc_cmd l)) a d (va_tracker s) = Some (d', t')"
    and s': "s' = s\<lparr>va_tasks := (va_tasks s)[i := ?mk d'], va_tracker := t'\<rparr>"
    by (cases d) (auto simp: step_tearing_def put_lifecycle_def)
  have "l\<lparr>lc_stage := Tearing res vid d\<rparr> = l" using st by (cases l) simp
  moreover have "moved i (?mk d) s s'"
    using d s' destroy_step_effect [OF d]
    by (intro destroying_step_moved [OF d, where mk = ?mk])
      (auto simp: awaited_def task_owns_def rank_less_iff removing_def split: destroying.splits)
  ultimately show ?thesis by simp
qed

lemma lifecycle_step_moved:
  assumes "lifecycle_step i a l s = Some s'"
  shows "moved i (Lifecycle l) s s'"
  using assms
  by (auto simp: lifecycle_step_def step_cloning_moved step_undoing_moved step_booting_moved
      step_working_moved step_tearing_moved split: stage.splits)

lemma sweep_tail:
  "moved i (Sweep (m # ms) (Returned r)) s (s\<lparr>va_tasks := (va_tasks s)[i := Sweep ms Claiming]\<rparr>)"
  by (rule movedI [of _ _ _ "Sweep ms Claiming"], simp, simp add: rank_less_iff, rule moves_kept)
    (auto simp: awaited_def task_owns_def removing_def)

lemma sent_only_moved:
  fixes s s' :: "'v vm_agent"
  assumes "va_tasks s' = (va_tasks s)[i := TaskDone]" and "va_tracker s' = va_tracker s"
    and "(task_rank (TaskDone :: 'v agent_task), task_rank k) \<in> rank_less" and "\<And>n x. \<not> task_owns k n x"
  shows "moved i k s s'"
proof (rule movedI [OF assms(1,3)])
  show "moves (va_tracker s) k (va_tracker s') TaskDone"
    unfolding assms(2) by (rule moves_kept) (simp_all add: awaited_def assms(4))
qed

lemma end_teardown_fields [simp]:
  "va_tasks (end_teardown i vid name r s) = (va_tasks s)[i := TaskDone]"
  "va_tracker (end_teardown i vid name r s) = va_tracker s"
  by (simp_all add: end_teardown_def agent_send_def)

lemma teardown_moved:
  assumes "task_step i a (Teardown vid name d) s = Some s'"
  shows "moved i (Teardown vid name d) s s'"
proof (cases "\<exists>r. d = Returned r")
  case True
  then show ?thesis using assms
    by (auto simp: task_step_def rank_less_iff task_owns_def removing_def intro!: sent_only_moved)
next
  case False
  with assms obtain d' t' where d: "destroy_step name a d (va_tracker s) = Some (d', t')"
    and s': "s' = s\<lparr>va_tasks := (va_tasks s)[i := Teardown vid name d'], va_tracker := t'\<rparr>"
    by (cases d) (auto simp: task_step_def Let_def)
  show ?thesis
    using destroy_step_effect [OF d]
    by (intro destroying_step_moved [OF d, where mk = "Teardown vid name"])
      (auto simp: s' awaited_def task_owns_def rank_less_iff split: destroying.splits)
qed

lemma sweep_moved:
  assumes "task_step i a (Sweep ms d) s = Some s'"
  shows "moved i (Sweep ms d) s s'"
proof (cases ms)
  case Nil
  then show ?thesis using assms
    by (auto simp: task_step_def Let_def rank_less_iff task_owns_def intro!: sent_only_moved)
next
  case (Cons name rest)
  show ?thesis
  proof (cases "\<exists>r. d = Returned r")
    case True
    then show ?thesis using assms Cons sweep_tail [of i name rest _ s]
      by (auto simp: task_step_def Let_def)
  next
    case False
    with assms Cons obtain d' t' where d: "destroy_step name a d (va_tracker s) = Some (d', t')"
      and s': "s' = s\<lparr>va_tasks := (va_tasks s)[i := Sweep ms d'], va_tracker := t'\<rparr>"
      by (cases d) (auto simp: task_step_def Let_def)
    show ?thesis
      using destroy_step_effect [OF d] Cons
      by (intro destroying_step_moved [OF d, where mk = "Sweep ms"])
        (auto simp: s' awaited_def task_owns_def rank_less_iff split: destroying.splits)
  qed
qed

lemma task_step_moved:
  assumes "task_step i a k s = Some s'"
  shows "moved i k s s'"
proof (cases k)
  case (TeardownUnknown vid)
  then show ?thesis using assms
    by (auto simp: task_step_def rank_less_iff task_owns_def intro!: sent_only_moved)
qed (use assms teardown_moved sweep_moved lifecycle_step_moved in \<open>auto simp: task_step_def Let_def\<close>)

lemma torn_down_moved:
  assumes "torn_down_step i now l s = Some s'"
  shows "moved i (Lifecycle l) s s'"
proof -
  from assms obtain vm where st: "lc_stage l = Booting vm \<or> (\<exists>cs r. lc_stage l = Working vm cs r)"
    and s': "\<exists>e. s' = end_run i now l vm (Inl e) s"
    by (auto simp: torn_down_step_def Let_def split: stage.splits if_splits)
  from s' st show ?thesis
    by (auto intro!: end_run_moved simp: task_owns_def claims_def rank_less_iff)
qed

lemma agent_step_moved:
  assumes "agent_step (RunTask i a) s = Some s' \<or> agent_step (TornDown i now) s = Some s'"
  shows "i < length (va_tasks s) \<and> \<not> va_exited s \<and> moved i (va_tasks s ! i) s s'"
  using assms
proof
  assume "agent_step (RunTask i a) s = Some s'"
  then show ?thesis
    by (auto simp: agent_step_def get_at_def task_step_moved split: if_splits)
next
  assume "agent_step (TornDown i now) s = Some s'"
  then show ?thesis
    by (cases "va_tasks s ! i") (auto simp: agent_step_def get_at_def torn_down_moved split: if_splits)
qed

section \<open>The agent's invariant\<close>






lemma agent_spawn_tracker [simp]: "va_tracker (agent_spawn k s) = va_tracker s"
  by (simp add: agent_spawn_def)







lemma get_at_Some: "get_at xs i = Some x \<longleftrightarrow> i < length xs \<and> xs ! i = x"
  by (auto simp: get_at_def)



section \<open>Reports\<close>

definition ended :: "string \<Rightarrow> 'v agent_task \<Rightarrow> bool" where
  "ended n k = (case k of Lifecycle l \<Rightarrow> lc_stage l = Ended \<and> cr_vm_name (lc_cmd l) = n | _ \<Rightarrow> False)"

text \<open>How a lifecycle reports its end: completed or failed, with the runner's timings.\<close>

definition final_report :: "string \<Rightarrow> agent_payload \<Rightarrow> bool" where
  "final_report n p = (case p of
     RunnerEvent e \<Rightarrow> re_runner_name e = n \<and> re_timings e \<noteq> None
       \<and> event_type_of (re_event_type e) \<in> {Completed, Failed}
   | _ \<Rightarrow> False)"

lemma final_report_event [simp]:
  "final_report n (runner_event_msg m i ev err tm) \<longleftrightarrow> m = n \<and> tm \<noteq> None \<and> ev \<in> {Completed, Failed}"
  by (cases ev) (auto simp: final_report_def runner_event_msg_def event_type_of_def)

lemma final_report_ack [simp]: "\<not> final_report n (ack_msg cid ok err)"
  by (simp add: final_report_def ack_msg_def)

definition reports_ok :: "'v vm_agent \<Rightarrow> bool" where
  "reports_ok s \<longleftrightarrow> va_exited s \<or>
     (\<forall>n. length (filter (final_report n) (va_sent s)) = length (filter (ended n) (va_tasks s)))"

definition reported :: "nat \<Rightarrow> 'v vm_agent \<Rightarrow> 'v vm_agent \<Rightarrow> bool" where
  "reported i s s' \<longleftrightarrow> (\<exists>k' ps. va_tasks s' = (va_tasks s)[i := k'] \<and> va_sent s' = va_sent s @ ps \<and>
     (va_exited s' \<or> (\<forall>n. length (filter (final_report n) ps) = (if ended n k' then 1 else 0))))"

lemma reported_silent:
  assumes "va_tasks s' = (va_tasks s)[i := k']" and "va_sent s' = va_sent s" and "\<And>n. \<not> ended n k'"
  shows "reported i s s'"
  unfolding reported_def using assms by (intro exI [of _ k'] exI [of _ "[]"]) simp

lemma put_lifecycle_reported:
  assumes "lc_stage l \<noteq> Ended"
  shows "reported i s (put_lifecycle i l s)"
    and "reported i s (put_lifecycle i l (s\<lparr>va_tracker := t\<rparr>))"
  using assms by (auto intro!: reported_silent [of _ _ _ "Lifecycle l"] simp: ended_def)

lemma end_lifecycle_reported:
  "reported i s (end_lifecycle i l res s)" "reported i s (end_lifecycle i l res (s\<lparr>va_tracker := t\<rparr>))"
  unfolding reported_def
  by (rule exI [of _ "Lifecycle (l\<lparr>lc_stage := Ended\<rparr>)"],
      cases res, auto simp: end_lifecycle_def agent_send_def ended_def Let_def)+

lemma end_run_reported: "reported i s (end_run i now l vm res s)"
  by (auto simp: end_run_def Let_def intro!: end_lifecycle_reported put_lifecycle_reported)

lemma job_context_reported:
  assumes "lc_stage l \<noteq> Ended"
  shows "reported i s (job_context i now l vid c s)"
proof (cases c)
  case RunnerStarted
  show ?thesis
    unfolding reported_def using assms
    by (intro exI [of _ "Lifecycle (l\<lparr>lc_clock := clock_next now (Some phase_job) (lc_clock l)\<rparr>)"])
      (auto simp: RunnerStarted job_context_def agent_send_def put_lifecycle_def ended_def Let_def)
qed (use assms in \<open>auto simp: job_context_def Let_def intro!: put_lifecycle_reported\<close>)

lemma lifecycle_step_reported:
  assumes "lifecycle_step i a l s = Some s'"
  shows "reported i s s'"
  using assms
  by (auto simp: lifecycle_step_def step_cloning_def step_undoing_def step_booting_def step_working_def
      step_tearing_def Let_def split: stage.splits sum.splits prod.splits bool.splits list.splits
      destroying.splits
      intro!: end_lifecycle_reported put_lifecycle_reported end_run_reported job_context_reported)

lemma end_teardown_reported: "reported i s (end_teardown i vid name r s)"
  unfolding reported_def
  by (rule exI [of _ TaskDone], cases r) (auto simp: end_teardown_def agent_send_def ended_def)

lemma task_step_reported:
  assumes "task_step i a k s = Some s'"
  shows "reported i s s'"
  using assms
  by (cases k) (auto simp: task_step_def Let_def lifecycle_step_reported end_teardown_reported ended_def
      split: destroying.splits list.splits
      intro: reported_silent)

lemma length_filter_update:
  "i < length xs \<Longrightarrow> \<not> P (xs ! i) \<Longrightarrow>
   length (filter P (xs[i := y])) = length (filter P xs) + (if P y then 1 else 0)"
  by (induction xs arbitrary: i) (auto simp: nth_Cons split: nat.splits)

lemma reported_ok:
  assumes "reports_ok s" "\<not> va_exited s" and "i < length (va_tasks s)" and "\<And>n. \<not> ended n (va_tasks s ! i)"
    and "reported i s s'"
  shows "reports_ok s'"
  using assms(5) unfolding reported_def
proof (elim exE conjE)
  fix k' ps
  assume s': "va_tasks s' = (va_tasks s)[i := k']" "va_sent s' = va_sent s @ ps"
    "va_exited s' \<or> (\<forall>n. length (filter (final_report n) ps) = (if ended n k' then 1 else 0))"
  then show ?thesis
    using assms(1,2) length_filter_update [of i "va_tasks s" "ended _", OF assms(3) assms(4)]
    by (auto simp: reports_ok_def)
qed

lemma step_not_ended: "task_step i a k s = Some s' \<Longrightarrow> \<not> ended n k"
  by (auto simp: task_step_def lifecycle_step_def ended_def split: agent_task.splits stage.splits)

lemma serve_create_reports: "reports_ok s \<Longrightarrow> reports_ok (serve_create cmd a s)"
  by (auto simp: reports_ok_def serve_create_def agent_send_def agent_spawn_def ended_def Let_def
      split: prod.splits sum.splits)

lemma spawn_reports: "reports_ok s \<Longrightarrow> (\<And>n. \<not> ended n k) \<Longrightarrow> reports_ok (agent_spawn k s)"
  by (auto simp: reports_ok_def agent_spawn_def)

lemma spawn_all_reports:
  assumes "reports_ok s" and "\<And>x n. \<not> ended n (f x)"
  shows "reports_ok (fold (\<lambda>x. agent_spawn (f x)) xs s)"
  using assms(1) by (induction xs arbitrary: s) (auto simp: assms(2) spawn_reports)

lemma serve_destroy_reports: "reports_ok s \<Longrightarrow> reports_ok (serve_destroy cid i s)"
  unfolding serve_destroy_def
  by (rule spawn_reports) (auto simp: reports_ok_def agent_send_def ended_def split: option.splits)

lemma agent_step_reports:
  assumes "reports_ok s" and "agent_step ev s = Some s'"
  shows "reports_ok s'"
proof -
  have live: "\<not> va_exited s" using assms(2) by (simp add: agent_step_def split: if_splits)
  show ?thesis
  proof (cases ev)
    case (RunTask i a)
    with assms(2) live have "i < length (va_tasks s)" "task_step i a (va_tasks s ! i) s = Some s'"
      by (auto simp: agent_step_def get_at_Some split: option.splits)
    then show ?thesis using reported_ok [OF assms(1) live] task_step_reported step_not_ended by metis
  next
    case (TornDown i now)
    with assms(2) live obtain l where l: "i < length (va_tasks s)" "va_tasks s ! i = Lifecycle l"
        "torn_down_step i now l s = Some s'"
      by (auto simp: agent_step_def get_at_Some split: option.splits agent_task.splits)
    then have "reported i s s'" "lc_stage l \<noteq> Ended"
      by (auto simp: torn_down_step_def Let_def end_run_reported split: stage.splits if_splits)
    then show ?thesis using reported_ok [OF assms(1) live l(1)] l(2) by (auto simp: ended_def)
  next
    case ShutdownSignal
    with assms live show ?thesis
      by (auto simp: agent_step_def destroy_all_def split: if_splits intro!: spawn_all_reports)
        (auto simp: reports_ok_def ended_def)
  qed (use assms live in \<open>auto simp: agent_step_def serve_create_reports serve_destroy_reports cleanup_stale_def
      ended_def split: if_splits intro!: spawn_reports\<close>)
qed

lemma agent_reachable_reports: "agent_reachable b keep limits s \<Longrightarrow> reports_ok s"
proof (induction rule: agent_reachable.induct)
  case agent_start
  show ?case by (simp add: reports_ok_def vm_agent_new_def)
qed (rule agent_step_reports)

section \<open>Sample run\<close>

fun agent_run :: "'v agent_event list \<Rightarrow> 'v vm_agent \<Rightarrow> 'v vm_agent option" where
  "agent_run [] s = Some s"
| "agent_run (ev # evs) s = (case agent_step ev s of None \<Rightarrow> None | Some s' \<Rightarrow> agent_run evs s')"

lemma agent_run_reachable:
  "agent_reachable b keep limits s \<Longrightarrow> agent_run evs s = Some s' \<Longrightarrow> agent_reachable b keep limits s'"
  by (induction evs arbitrary: s) (auto split: option.splits intro: agent_next)

definition sample_backend :: "nat vm_backend" where
  "sample_backend = \<lparr>bk_labels = [''linux''], bk_capabilities = [], bk_select_image = (\<lambda>_. ''img''),
     bk_vm_id = nat_to_string\<rparr>"

definition sample_command :: create_runner_command where
  "sample_command = \<lparr>cr_command_id = ''c1'', cr_vm_name = ''vm'', cr_registration_token = ''tok'',
     cr_labels = [''linux''], cr_runner_scope_url = [], cr_jit_config = [], cr_label_set_id = [],
     cr_forgejo = None\<rparr>"

definition sample_answer :: "nat backend_answer" where
  "sample_answer = \<lparr>ba_now = 0, ba_limits = [''total''], ba_external = [], ba_create = Inr 7,
     ba_start = Inr ''10.0.0.7'', ba_job = ([RunnerStarted], Inr ()), ba_destroy = Inl ''busy''\<rparr>"

definition sample_start :: "nat vm_agent" where
  "sample_start = vm_agent_new sample_backend False [\<lparr>lim_name = ''total'', lim_max = 1\<rparr>]"

text \<open>A runner whose VM a command destroys while it boots: the backend fails to destroy it.\<close>

definition sample_events :: "nat agent_event list" where
  "sample_events = [CreateCommand sample_command sample_answer, RunTask 0 sample_answer,
     DestroyCommand ''c2'' ''vm'', RunTask 1 sample_answer, TornDown 0 5, RunTask 0 sample_answer,
     RunTask 1 sample_answer, RunTask 0 sample_answer, RunTask 1 sample_answer, RunTask 0 sample_answer]"

lemma sample_run:
  "case agent_run sample_events sample_start of None \<Rightarrow> False
   | Some s \<Rightarrow> \<not> va_exited s \<and> length (va_tasks s) = 2
     \<and> list_all finished (va_tasks s) \<and> length (va_sent s) = 4"
  by code_simp

lemma sample_state:
  "\<exists>s. agent_run sample_events sample_start = Some s \<and> agent_reachable sample_backend False
      [\<lparr>lim_name = ''total'', lim_max = 1\<rparr>] s \<and> \<not> va_exited s \<and> list_all finished (va_tasks s)"
proof (cases "agent_run sample_events sample_start")
  case None
  then show ?thesis using sample_run by simp
next
  case (Some s)
  with sample_run agent_run_reachable [OF agent_start Some [unfolded sample_start_def]] show ?thesis by simp
qed

section \<open>Properties\<close>






text \<open>C15: The agent's tasks end: there is no infinite sequence of task steps, whatever the backend
  answers and however the tasks interleave. The waits for other tasks' channels, the calls a job
  makes and the sweeps of a cleanup all come closer to their end with every step.\<close>

theorem agent_tasks_terminate:
  "wf {(s', s :: 'v vm_agent). \<exists>i a now. agent_step (RunTask i a) s = Some s' \<or> agent_step (TornDown i now) s = Some s'}"
proof (rule wf_subset)
  show "wf (inv_image (mult rank_less) (\<lambda>s :: 'v vm_agent. image_mset task_rank (mset (va_tasks s))))"
    by (intro wf_inv_image wf_mult wf_rank_less)
  have "(image_mset task_rank (mset (va_tasks s')), image_mset task_rank (mset (va_tasks s))) \<in> mult rank_less"
    if i: "i < length (va_tasks s)" and m: "moved i (va_tasks s ! i) s s'" for i and s s' :: "'v vm_agent"
  proof -
    from m obtain k' where k': "va_tasks s' = (va_tasks s)[i := k']"
      "(task_rank k', task_rank (va_tasks s ! i)) \<in> rank_less"
      unfolding moved_def by blast
    define M where "M = image_mset task_rank (mset (va_tasks s) - {#va_tasks s ! i#})"
    have "image_mset task_rank (mset (va_tasks s')) = M + {#task_rank k'#}"
      using i by (simp add: k'(1) mset_update M_def)
    moreover have "image_mset task_rank (mset (va_tasks s)) = M + {#task_rank (va_tasks s ! i)#}"
      using i by (simp add: M_def image_mset_Diff)
    moreover have "(M + {#task_rank k'#}, M + {#task_rank (va_tasks s ! i)#}) \<in> mult rank_less"
      using k'(2) by (intro one_step_implies_mult) auto
    ultimately show ?thesis by simp
  qed
  then show "{(s', s :: 'v vm_agent). \<exists>i a now. agent_step (RunTask i a) s = Some s' \<or> agent_step (TornDown i now) s = Some s'}
      \<subseteq> inv_image (mult rank_less) (\<lambda>s. image_mset task_rank (mset (va_tasks s)))"
    using agent_step_moved by fastforce
qed

text \<open>C16: As often as a create command's lifecycle has ended under a runner's name, the agent has sent
  one report that this runner completed or failed, with its timings; a running lifecycle has sent
  none.\<close>

theorem lifecycles_report_once:
  assumes "agent_reachable b keep limits s" and "\<not> va_exited s"
  shows "length (filter (final_report n) (va_sent s)) = length (filter (ended n) (va_tasks s))"
  using agent_reachable_reports [OF assms(1)] assms(2) by (simp add: reports_ok_def)

theorem lifecycles_report_once_witness:
  "case agent_run sample_events sample_start of None \<Rightarrow> False
   | Some s \<Rightarrow> length (filter (final_report ''vm'') (va_sent s)) = length (filter (ended ''vm'') (va_tasks s))"
proof -
  from sample_state obtain s where s: "agent_run sample_events sample_start = Some s"
    "agent_reachable sample_backend False [\<lparr>lim_name = ''total'', lim_max = 1\<rparr>] s" "\<not> va_exited s" by blast
  from lifecycles_report_once [OF s(2,3)] s(1) show ?thesis by simp
qed

lemma status_fold:
  "fold (status_step lim e t) cs (m, k, sets) =
     (fold max (map (\<lambda>c. free_slots t (lim (cap_id c)) e) cs) m,
      fold max (map (\<lambda>c. tracker_max_vms t (lim (cap_id c))) cs) k,
      sets @ map (\<lambda>c. \<lparr>ls_labels = cap_labels c, ls_limits = lim (cap_id c),
        ls_pool_size = map_option of_nat (cap_pool c), ls_id = cap_id c, ls_is_default = cap_is_default c\<rparr>) cs)"
  by (induction cs arbitrary: m k sets) (simp_all add: status_step_def Let_def max.commute)

lemma fold_max_eq_0_iff: "fold max xs m = 0 \<longleftrightarrow> m = 0 \<and> (\<forall>x \<in> set xs. x = (0::nat))"
  by (induction xs arbitrary: m) (auto simp: max_def)

lemma fold_max_mono:
  "m \<le> k \<Longrightarrow> (\<And>x. x \<in> set xs \<Longrightarrow> f x \<le> g x) \<Longrightarrow> fold max (map f xs) m \<le> fold max (map g xs) (k :: nat)"
proof (induction xs arbitrary: m k)
  case (Cons x xs)
  have "max (f x) m \<le> max (g x) k" using Cons.prems by (intro max.mono) simp_all
  from Cons.IH [OF this] Cons.prems(2) show ?case by simp
qed simp

lemma min_or_zero_mono:
  "(\<And>x. x \<in> set xs \<Longrightarrow> f x \<le> g x) \<Longrightarrow> min_or_zero (map f xs) \<le> min_or_zero (map g xs)"
proof (cases xs)
  case (Cons y ys)
  moreover assume "\<And>x. x \<in> set xs \<Longrightarrow> f x \<le> g x"
  moreover have "fold_min (f y) (map f zs) \<le> fold_min (g y) (map g zs)"
    if "f y \<le> g y" "\<And>x. x \<in> set zs \<Longrightarrow> f x \<le> g x" for zs
    using that by (induction zs) (auto simp: min_le_iff_disj)
  ultimately show ?thesis by (simp add: min_or_zero_def)
qed (simp add: min_or_zero_def)

lemma free_le_max: "free_slots t names e \<le> tracker_max_vms t names"
  unfolding free_slots_def tracker_free_def tracker_max_vms_def by (rule min_or_zero_mono) simp

lemma reserve_refused_iff:
  "\<not> hm_contains (tk_vms t) name \<Longrightarrow> isl (fst (reserve now name ls e t)) \<longleftrightarrow> free_slots t ls e = 0"
  by (simp add: reserve_def free_slots_def Let_def)

text \<open>The slots an agent's status reports as available are none exactly when the agent would refuse a
  new runner for every one of its images, and never more than the maximum it reports.\<close>

theorem status_slots_reservable:
  assumes "\<not> hm_contains (tk_vms (va_tracker s)) name"
  shows "(ar_available_slots (agent_status_report lim e aid host kind version s) = 0 \<longleftrightarrow>
      list_all (\<lambda>c. isl (fst (reserve now name (lim (cap_id c)) e (va_tracker s)))) (bk_capabilities (va_backend s)))
    \<and> ar_available_slots (agent_status_report lim e aid host kind version s)
      \<le> st_max_vms (agent_status_report lim e aid host kind version s)"
  by (simp add: agent_status_report_def Let_def status_fold fold_max_eq_0_iff reserve_refused_iff [OF assms]
      list_all_iff fold_max_mono free_le_max)

theorem status_slots_reservable_witness:
  "ar_available_slots (agent_status_report (\<lambda>_. [''total'']) [] None ''h'' ''tart'' ''1'' sample_start)
      \<le> st_max_vms (agent_status_report (\<lambda>_. [''total'']) [] None ''h'' ''tart'' ''1'' sample_start)"
proof -
  have "\<not> hm_contains (tk_vms (va_tracker sample_start)) ''vm''"
    by (simp add: sample_start_def vm_agent_new_def tracker_new_def hm_contains_def)
  from status_slots_reservable [OF this] show ?thesis by blast
qed

end
