(* ===== verification/Auth_Store.thy ===== *)
theory Auth_Store
  imports Prelude
begin

text \<open>
  Registration tokens and registered agents of \<^verbatim>\<open>kuiper-forge/src/auth.rs\<close>, with the statements of
  \<^verbatim>\<open>sql.rs\<close> on their two tables. A time is a number, ordered as the RFC 3339 text the statements
  compare; a JSON column is the value it encodes. Each operation runs one statement, which succeeds or
  fails as its flag says. Signing a certificate is a parameter.
\<close>

section \<open>Tables\<close>

record reg_token =
  tok_token :: string
  tok_expires_at :: nat
  tok_created_by :: string
  tok_created_at :: nat

record registered_agent =
  ra_agent_id :: string
  ra_hostname :: string
  ra_agent_type :: string
  ra_labels :: "string list"
  ra_max_vms :: int
  ra_serial_number :: string
  ra_created_at :: nat
  ra_expires_at :: nat
  ra_revoked :: bool
  ra_agent_version :: "string option"
  ra_unavailable_at :: "nat option"

text \<open>A row of \<^verbatim>\<open>registered_agents\<close> also has the time of its revocation.\<close>

record agent_row = registered_agent +
  ra_revoked_at :: "nat option"

record auth_db =
  au_tokens :: "(string, reg_token) hashmap"
  au_agents :: "(string, agent_row) hashmap"

type_synonym 'a auth_result = "string + 'a"

section \<open>Tokens\<close>

definition store_token :: "bool \<Rightarrow> reg_token \<Rightarrow> auth_db \<Rightarrow> unit auth_result \<times> auth_db" where
  "store_token ok t db =
     (if ok then (Inr (), db\<lparr>au_tokens := hm_insert (tok_token t) t (au_tokens db)\<rparr>)
      else (Inl ''Failed to store registration token'', db))"

text \<open>\<^verbatim>\<open>DELETE ... RETURNING\<close>: finding the token and removing it are one statement.\<close>

definition consume_token :: "bool \<Rightarrow> string \<Rightarrow> auth_db \<Rightarrow> reg_token option auth_result \<times> auth_db" where
  "consume_token ok tok db =
     (if ok then (Inr (hm_get (au_tokens db) tok), db\<lparr>au_tokens := hm_remove tok (au_tokens db)\<rparr>)
      else (Inl ''database error'', db))"

definition get_token :: "bool \<Rightarrow> string \<Rightarrow> auth_db \<Rightarrow> reg_token option" where
  "get_token ok tok db = (if ok then hm_get (au_tokens db) tok else None)"

definition list_tokens :: "bool \<Rightarrow> auth_db \<Rightarrow> reg_token list" where
  "list_tokens ok db = (if ok then map snd (au_tokens db) else [])"

definition delete_token :: "bool \<Rightarrow> string \<Rightarrow> auth_db \<Rightarrow> bool auth_result \<times> auth_db" where
  "delete_token ok tok db =
     (if ok then (Inr (hm_contains (au_tokens db) tok), db\<lparr>au_tokens := hm_remove tok (au_tokens db)\<rparr>)
      else (Inl ''database error'', db))"

definition cleanup_expired_tokens :: "bool \<Rightarrow> nat \<Rightarrow> auth_db \<Rightarrow> nat \<times> auth_db" where
  "cleanup_expired_tokens ok now db =
     (if ok then
        (let kept = hm_retain (\<lambda>_ t. \<not> tok_expires_at t < now) (au_tokens db) in
         (length (au_tokens db) - length kept, db\<lparr>au_tokens := kept\<rparr>))
      else (0, db))"

section \<open>Agents\<close>

text \<open>\<^verbatim>\<open>ON CONFLICT DO UPDATE\<close> keeps the columns it does not name.\<close>

definition store_agent :: "bool \<Rightarrow> registered_agent \<Rightarrow> auth_db \<Rightarrow> unit auth_result \<times> auth_db" where
  "store_agent ok a db =
     (if ok then
        (let old = hm_get (au_agents db) (ra_agent_id a) in
         (Inr (), db\<lparr>au_agents := hm_insert (ra_agent_id a)
            \<lparr>ra_agent_id = ra_agent_id a, ra_hostname = ra_hostname a, ra_agent_type = ra_agent_type a,
             ra_labels = ra_labels a, ra_max_vms = ra_max_vms a, ra_serial_number = ra_serial_number a,
             ra_created_at = ra_created_at a, ra_expires_at = ra_expires_at a, ra_revoked = ra_revoked a,
             ra_agent_version = (case old of None \<Rightarrow> None | Some r \<Rightarrow> ra_agent_version r),
             ra_unavailable_at = (case old of None \<Rightarrow> None | Some r \<Rightarrow> ra_unavailable_at r),
             ra_revoked_at = (case old of None \<Rightarrow> None | Some r \<Rightarrow> ra_revoked_at r)\<rparr> (au_agents db)\<rparr>))
      else (Inl ''Failed to store agent'', db))"

definition update_agent_metadata ::
    "bool \<Rightarrow> string \<Rightarrow> string list \<Rightarrow> nat \<Rightarrow> string option \<Rightarrow> auth_db \<Rightarrow> unit auth_result \<times> auth_db" where
  "update_agent_metadata ok aid labels max_vms version db =
     (if ok then (Inr (), db\<lparr>au_agents := hm_modify aid (\<lambda>r. r\<lparr>ra_labels := labels,
            ra_max_vms := int max_vms, ra_agent_version := version\<rparr>) (au_agents db)\<rparr>)
      else (Inl ''database error'', db))"

text \<open>The column is read as an \<^verbatim>\<open>i32\<close>, so a larger value is an error; a negative one is no \<^verbatim>\<open>u32\<close>.\<close>

definition parse_max_vms :: "int \<Rightarrow> nat option" where
  "parse_max_vms n = (if - 2147483648 \<le> n \<and> n < 2147483648 \<and> 0 \<le> n then Some (nat n) else None)"

definition readable :: "agent_row \<Rightarrow> bool" where
  "readable r \<longleftrightarrow> parse_max_vms (ra_max_vms r) \<noteq> None"

definition get_agent :: "bool \<Rightarrow> string \<Rightarrow> auth_db \<Rightarrow> agent_row option" where
  "get_agent ok aid db =
     (if ok then case hm_get (au_agents db) aid of None \<Rightarrow> None | Some r \<Rightarrow> if readable r then Some r else None
      else None)"

definition list_registered :: "bool \<Rightarrow> auth_db \<Rightarrow> agent_row list" where
  "list_registered ok db =
     (if ok then filter readable (rev (sort_key ra_created_at (map snd (au_agents db)))) else [])"

definition set_agent_unavailable :: "bool \<Rightarrow> nat \<Rightarrow> string \<Rightarrow> bool \<Rightarrow> auth_db \<Rightarrow> bool auth_result \<times> auth_db" where
  "set_agent_unavailable ok now aid unavailable db =
     (if ok then (Inr (hm_contains (au_agents db) aid),
          db\<lparr>au_agents := hm_modify aid (\<lambda>r. r\<lparr>ra_unavailable_at := (if unavailable then Some now else None)\<rparr>)
                (au_agents db)\<rparr>)
      else (Inl ''database error'', db))"

definition revoke_agent :: "bool \<Rightarrow> nat \<Rightarrow> string \<Rightarrow> auth_db \<Rightarrow> bool auth_result \<times> auth_db" where
  "revoke_agent ok now aid db =
     (if ok then (Inr (hm_contains (au_agents db) aid),
          db\<lparr>au_agents := hm_modify aid (\<lambda>r. r\<lparr>ra_revoked := True, ra_revoked_at := Some now\<rparr>) (au_agents db)\<rparr>)
      else (Inl ''database error'', db))"

definition cleanup_revoked_agents :: "bool \<Rightarrow> nat \<Rightarrow> nat \<Rightarrow> auth_db \<Rightarrow> nat \<times> auth_db" where
  "cleanup_revoked_agents ok now retention db =
     (if ok then
        (let kept = hm_retain (\<lambda>_ r. \<not> (ra_revoked r \<and>
               (case ra_revoked_at r of None \<Rightarrow> False | Some at \<Rightarrow> at < now - retention))) (au_agents db) in
         (length (au_agents db) - length kept, db\<lparr>au_agents := kept\<rparr>))
      else (0, db))"

definition is_agent_valid :: "bool \<Rightarrow> nat \<Rightarrow> string \<Rightarrow> auth_db \<Rightarrow> bool" where
  "is_agent_valid ok now aid db \<longleftrightarrow> ok \<and>
     (case hm_get (au_agents db) aid of None \<Rightarrow> False | Some r \<Rightarrow> \<not> ra_revoked r \<and> now < ra_expires_at r)"

section \<open>Registration\<close>

record agent_certificate =
  ac_agent_id :: string
  ac_labels :: "string list"
  ac_cert_pem :: string
  ac_key_pem :: string
  ac_expires_at :: nat
  ac_serial_number :: string

text \<open>\<^verbatim>\<open>create_registration_token\<close>, given the random part of the token.\<close>

definition create_registration_token ::
    "bool \<Rightarrow> nat \<Rightarrow> string \<Rightarrow> nat \<Rightarrow> string \<Rightarrow> auth_db \<Rightarrow> reg_token auth_result \<times> auth_db" where
  "create_registration_token ok now random ttl created_by db =
     (let t = \<lparr>tok_token = ''reg_'' @ random, tok_expires_at = now + ttl, tok_created_by = created_by,
               tok_created_at = now\<rparr> in
      case store_token ok t db of
        (Inl e, db') \<Rightarrow> (Inl e, db')
      | (Inr _, db') \<Rightarrow> (Inr t, db'))"

definition year_seconds :: nat where
  "year_seconds = 365 * 86400"

text \<open>\<^verbatim>\<open>sanitize_hostname\<close> and the random suffix are in the agent's id the caller passes. \<open>sign\<close> makes the
  key and the certificate of the agent: certificate, key and serial number, or an error.\<close>

definition exchange_token ::
    "(string \<Rightarrow> string + string \<times> string \<times> string) \<Rightarrow> bool \<Rightarrow> bool \<Rightarrow> nat \<Rightarrow> string \<Rightarrow> string \<Rightarrow> string \<Rightarrow> string
     \<Rightarrow> auth_db \<Rightarrow> agent_certificate auth_result \<times> auth_db" where
  "exchange_token sign ok ok' now tok aid hostname agent_type db =
     (case consume_token ok tok db of
        (Inl e, db1) \<Rightarrow> (Inl e, db1)
      | (Inr None, db1) \<Rightarrow> (Inl ''Invalid or already used registration token'', db1)
      | (Inr (Some t), db1) \<Rightarrow>
          if tok_expires_at t < now then (Inl ''Registration token has expired'', db1)
          else case sign aid of
            Inl e \<Rightarrow> (Inl e, db1)
          | Inr (cert, key, serial) \<Rightarrow>
              (case store_agent ok' \<lparr>ra_agent_id = aid, ra_hostname = hostname, ra_agent_type = agent_type,
                     ra_labels = [], ra_max_vms = 0, ra_serial_number = serial, ra_created_at = now,
                     ra_expires_at = now + year_seconds, ra_revoked = False, ra_agent_version = None,
                     ra_unavailable_at = None\<rparr> db1 of
                 (Inl e, db2) \<Rightarrow> (Inl e, db2)
               | (Inr _, db2) \<Rightarrow>
                   (Inr \<lparr>ac_agent_id = aid, ac_labels = [], ac_cert_pem = cert, ac_key_pem = key,
                         ac_expires_at = now + year_seconds, ac_serial_number = serial\<rparr>, db2)))"

section \<open>Runs of the store\<close>

text \<open>What requests, agents, admins and cleanups do to the tables, in any order.\<close>

datatype auth_call =
    NewToken bool nat string nat string
  | Exchange bool bool nat string string string string
  | DeleteToken bool string
  | ExpireTokens bool nat
  | SyncAgent bool string "string list" nat "string option"
  | MarkUnavailable bool nat string bool
  | Revoke bool nat string
  | PurgeRevoked bool nat nat

definition auth_call :: "(string \<Rightarrow> string + string \<times> string \<times> string) \<Rightarrow> auth_call \<Rightarrow> auth_db \<Rightarrow> auth_db" where
  "auth_call sign c db = (case c of
     NewToken ok now r ttl who \<Rightarrow> snd (create_registration_token ok now r ttl who db)
   | Exchange ok ok' now tok aid host kind \<Rightarrow> snd (exchange_token sign ok ok' now tok aid host kind db)
   | DeleteToken ok tok \<Rightarrow> snd (delete_token ok tok db)
   | ExpireTokens ok now \<Rightarrow> snd (cleanup_expired_tokens ok now db)
   | SyncAgent ok aid ls n v \<Rightarrow> snd (update_agent_metadata ok aid ls n v db)
   | MarkUnavailable ok now aid u \<Rightarrow> snd (set_agent_unavailable ok now aid u db)
   | Revoke ok now aid \<Rightarrow> snd (revoke_agent ok now aid db)
   | PurgeRevoked ok now ret \<Rightarrow> snd (cleanup_revoked_agents ok now ret db))"

text \<open>Whether a call hands out a certificate for a token.\<close>

definition admits :: "(string \<Rightarrow> string + string \<times> string \<times> string) \<Rightarrow> string \<Rightarrow> auth_call \<Rightarrow> auth_db \<Rightarrow> bool" where
  "admits sign tok c db = (case c of
     Exchange ok ok' now tok' aid host kind \<Rightarrow>
       tok' = tok \<and> \<not> isl (fst (exchange_token sign ok ok' now tok' aid host kind db))
   | _ \<Rightarrow> False)"

fun admissions :: "(string \<Rightarrow> string + string \<times> string \<times> string) \<Rightarrow> string \<Rightarrow> auth_call list \<Rightarrow> auth_db \<Rightarrow> nat" where
  "admissions sign tok [] db = 0"
| "admissions sign tok (c # cs) db =
     (if admits sign tok c db then 1 else 0) + admissions sign tok cs (auth_call sign c db)"

definition makes_token :: "string \<Rightarrow> auth_call \<Rightarrow> bool" where
  "makes_token tok c = (case c of NewToken _ _ r _ _ \<Rightarrow> ''reg_'' @ r = tok | _ \<Rightarrow> False)"

definition enrolls :: "string \<Rightarrow> auth_call \<Rightarrow> bool" where
  "enrolls aid c = (case c of Exchange _ _ _ _ aid' _ _ \<Rightarrow> aid' = aid | _ \<Rightarrow> False)"

lemmas auth_op_defs = store_token_def consume_token_def delete_token_def cleanup_expired_tokens_def
  store_agent_def update_agent_metadata_def set_agent_unavailable_def revoke_agent_def
  cleanup_revoked_agents_def create_registration_token_def exchange_token_def

lemma exchange_tokens:
  "au_tokens (snd (exchange_token sign ok ok' now tok aid host kind db))
     = (if ok then hm_remove tok (au_tokens db) else au_tokens db)"
  by (auto simp: exchange_token_def consume_token_def store_agent_def Let_def
      split: option.splits sum.splits prod.splits)

lemma exchange_admits:
  "\<not> isl (fst (exchange_token sign ok ok' now tok aid host kind db)) \<Longrightarrow>
   ok \<and> (\<exists>t. hm_get (au_tokens db) tok = Some t \<and> now \<le> tok_expires_at t)"
  by (auto simp: exchange_token_def consume_token_def split: option.splits if_splits)

lemma exchange_refused:
  "hm_get (au_tokens db) tok = None \<Longrightarrow> isl (fst (exchange_token sign ok ok' now tok aid host kind db))"
  using exchange_admits by fastforce

lemma hm_retain_None: "hm_get m k = None \<Longrightarrow> hm_get (hm_retain P m) k = None"
  by (auto simp: map_of_eq_None_iff hm_retain_def)

lemma token_stays_used:
  assumes "hm_get (au_tokens db) tok = None" and "\<not> makes_token tok c"
  shows "hm_get (au_tokens (auth_call sign c db)) tok = None \<and> \<not> admits sign tok c db"
  using assms
  by (cases c) (auto simp: auth_call_def admits_def makes_token_def exchange_tokens hm_retain_None Let_def
      create_registration_token_def store_token_def delete_token_def cleanup_expired_tokens_def
      update_agent_metadata_def set_agent_unavailable_def revoke_agent_def cleanup_revoked_agents_def
      exchange_refused)

lemma token_used_up:
  assumes "admits sign tok c db"
  shows "hm_get (au_tokens (auth_call sign c db)) tok = None"
  using assms
  by (cases c) (auto simp: admits_def auth_call_def exchange_tokens dest: exchange_admits)

lemma no_admissions_when_used:
  "hm_get (au_tokens db) tok = None \<Longrightarrow> list_all (\<lambda>c. \<not> makes_token tok c) cs \<Longrightarrow> admissions sign tok cs db = 0"
  by (induction cs arbitrary: db) (auto simp: token_stays_used)

lemma admissions_le_1:
  "list_all (\<lambda>c. \<not> makes_token tok c) cs \<Longrightarrow> admissions sign tok cs db \<le> 1"
  by (induction cs arbitrary: db) (auto simp: no_admissions_when_used token_used_up)

text \<open>A revoked agent has no valid row.\<close>

definition shut_out :: "string \<Rightarrow> auth_db \<Rightarrow> bool" where
  "shut_out aid db \<longleftrightarrow> (case hm_get (au_agents db) aid of None \<Rightarrow> True | Some r \<Rightarrow> ra_revoked r)"

definition agents_ok :: "auth_db \<Rightarrow> bool" where
  "agents_ok db \<longleftrightarrow> hm_ok (au_agents db)"

lemma exchange_agents:
  "au_agents (snd (exchange_token sign ok ok' now tok aid host kind db)) = au_agents db \<or>
   (\<exists>r. au_agents (snd (exchange_token sign ok ok' now tok aid host kind db)) = hm_insert aid r (au_agents db))"
  by (auto simp: exchange_token_def consume_token_def store_agent_def Let_def
      split: option.splits sum.splits prod.splits)

lemma auth_call_agents_ok: "agents_ok db \<Longrightarrow> agents_ok (auth_call sign c db)"
proof (cases c)
  case (Exchange ok ok' now tok aid host kind)
  assume "agents_ok db"
  then show ?thesis
    using exchange_agents [of sign ok ok' now tok aid host kind db] Exchange
    by (auto simp: agents_ok_def auth_call_def)
qed (auto simp: agents_ok_def auth_call_def create_registration_token_def store_token_def delete_token_def
    cleanup_expired_tokens_def update_agent_metadata_def set_agent_unavailable_def revoke_agent_def
    cleanup_revoked_agents_def Let_def)

lemma shut_out_call:
  assumes "shut_out aid db" and "agents_ok db" and "\<not> enrolls aid c"
  shows "shut_out aid (auth_call sign c db)"
proof (cases c)
  case (Exchange ok ok' now tok aid' host kind)
  then show ?thesis
    using exchange_agents [of sign ok ok' now tok aid' host kind db] assms(1,3)
    by (auto simp: shut_out_def auth_call_def enrolls_def)
qed (use assms(1,2) in \<open>auto simp: shut_out_def agents_ok_def auth_call_def create_registration_token_def store_token_def
    delete_token_def cleanup_expired_tokens_def update_agent_metadata_def set_agent_unavailable_def revoke_agent_def
    cleanup_revoked_agents_def hm_get_modify hm_get_retain Let_def split: option.splits\<close>)

lemma shut_out_run:
  assumes "shut_out aid db" and "agents_ok db" and "list_all (\<lambda>c. \<not> enrolls aid c) cs"
  shows "shut_out aid (fold (auth_call sign) cs db)"
  using assms by (induction cs arbitrary: db) (auto simp: shut_out_call auth_call_agents_ok)

lemma revoke_shuts_out: "shut_out aid (snd (revoke_agent True now aid db))"
  by (auto simp: shut_out_def revoke_agent_def hm_get_modify split: option.splits)

section \<open>Properties\<close>

text \<open>Unless the same token is made again, at most one exchange of it hands out a certificate, whatever
  other calls run before, after or between, and an exchange that does so finds the token stored and not
  expired.\<close>

theorem token_admits_once:
  assumes "list_all (\<lambda>c. \<not> makes_token tok c) cs"
  shows "admissions sign tok cs db \<le> 1 \<and>
    (admits sign tok (Exchange ok ok' now tok aid host kind) db \<longrightarrow>
      (\<exists>t. hm_get (au_tokens db) tok = Some t \<and> now \<le> tok_expires_at t))"
  using admissions_le_1 [OF assms]
  by (auto simp: admits_def dest: exchange_admits)

definition sample_sign :: "string \<Rightarrow> string + string \<times> string \<times> string" where
  "sample_sign aid = Inr (''cert'', ''key'', aid)"

definition sample_auth :: auth_db where
  "sample_auth = snd (create_registration_token True 10 ''abc'' 60 ''admin'' \<lparr>au_tokens = [], au_agents = []\<rparr>)"

lemmas sample_eval = sample_auth_def sample_sign_def auth_call_def admits_def auth_op_defs
  is_agent_valid_def year_seconds_def Let_def

theorem token_admits_once_witness:
  "admissions sample_sign ''reg_abc'' [Exchange True True 20 ''reg_abc'' ''agent_1'' ''h'' ''tart'',
     Exchange True True 21 ''reg_abc'' ''agent_2'' ''h'' ''tart''] sample_auth \<le> 1
   \<and> admissions sample_sign ''reg_abc'' [Exchange True True 20 ''reg_abc'' ''agent_1'' ''h'' ''tart''] sample_auth = 1"
proof
  show "admissions sample_sign ''reg_abc'' [Exchange True True 20 ''reg_abc'' ''agent_1'' ''h'' ''tart'',
      Exchange True True 21 ''reg_abc'' ''agent_2'' ''h'' ''tart''] sample_auth \<le> 1"
    using token_admits_once [of "''reg_abc''" "[Exchange True True 20 ''reg_abc'' ''agent_1'' ''h'' ''tart'',
      Exchange True True 21 ''reg_abc'' ''agent_2'' ''h'' ''tart'']" sample_sign sample_auth]
    by (simp add: makes_token_def)
qed (simp add: sample_eval)

text \<open>Once an agent is revoked it is never valid again, whatever the agent, admins, cleanups and other
  agents' registrations write in between: a status update keeps the revocation, and a purge only
  removes the row. Only a certificate issued under the same id would admit it.\<close>

theorem revoked_agent_stays_out:
  assumes "agents_ok db" and "list_all (\<lambda>c. \<not> enrolls aid c) cs"
  shows "\<not> is_agent_valid ok t aid (fold (auth_call sign) cs (snd (revoke_agent True now aid db)))"
proof -
  have "agents_ok (snd (revoke_agent True now aid db))"
    using assms(1) by (simp add: agents_ok_def revoke_agent_def)
  from shut_out_run [OF revoke_shuts_out this assms(2), of sign] show ?thesis
    by (auto simp: shut_out_def is_agent_valid_def split: option.splits)
qed

theorem revoked_agent_stays_out_witness:
  "\<not> is_agent_valid True 40 ''agent_1'' (fold (auth_call sample_sign) [SyncAgent True ''agent_1'' [''linux''] 2 None]
      (snd (revoke_agent True 30 ''agent_1''
        (auth_call sample_sign (Exchange True True 20 ''reg_abc'' ''agent_1'' ''h'' ''tart'') sample_auth))))
   \<and> is_agent_valid True 29 ''agent_1''
        (auth_call sample_sign (Exchange True True 20 ''reg_abc'' ''agent_1'' ''h'' ''tart'') sample_auth)"
proof
  let ?db = "auth_call sample_sign (Exchange True True 20 ''reg_abc'' ''agent_1'' ''h'' ''tart'') sample_auth"
  have "agents_ok ?db"
    by (rule auth_call_agents_ok) (simp add: sample_auth_def agents_ok_def create_registration_token_def store_token_def Let_def)
  then show "\<not> is_agent_valid True 40 ''agent_1'' (fold (auth_call sample_sign)
      [SyncAgent True ''agent_1'' [''linux''] 2 None] (snd (revoke_agent True 30 ''agent_1'' ?db)))"
    by (rule revoked_agent_stays_out) (simp add: enrolls_def)
qed (simp add: sample_eval)

end
