(* ===== verification/Store.thy ===== *)
theory Store
  imports Forge
begin

text \<open>
  The database of the coordinator and the monad its asynchronous functions run in. Everything the
  code asks of the outside (a query, a clock, a fresh id, a forge) is answered by the environment,
  an argument of the model, at the index of the question: a query fails when \<open>db_up\<close> is false
  there, and then changes nothing. Tables are hash maps from the primary key to the row. A column of
  JSON text holds the value it encodes, and a time is a number of milliseconds.

  A function is a \<open>state\<close> of \<^verbatim>\<open>HOL-Library.State_Monad\<close>; \<open>keeps I m\<close> says that
  \<open>m\<close> preserves \<open>I\<close>, and its rules follow the structure of the code.
\<close>

section \<open>Stateful code\<close>

abbreviation ret :: "'a \<Rightarrow> ('s, 'a) state" where
  "ret \<equiv> State_Monad.return"

text \<open>A computation that can fail: the question mark operator.\<close>

definition try_bind ::
    "('s, 'e + 'a) state \<Rightarrow> ('a \<Rightarrow> ('s, 'e + 'b) state) \<Rightarrow> ('s, 'e + 'b) state" where
  "try_bind m f = m \<bind> (\<lambda>r. case r of Inl e \<Rightarrow> ret (Inl e) | Inr a \<Rightarrow> f a)"

definition fail_with :: "'e \<Rightarrow> ('s, 'e + 'a) state" where
  "fail_with e = ret (Inl e)"

definition give :: "'a \<Rightarrow> ('s, 'e + 'a) state" where
  "give a = ret (Inr a)"

abbreviation modify :: "('s \<Rightarrow> 's) \<Rightarrow> ('s, unit) state" where
  "modify \<equiv> State_Monad.update"

definition gets :: "('s \<Rightarrow> 'a) \<Rightarrow> ('s, 'a) state" where
  "gets f = State (\<lambda>s. (f s, s))"

text \<open>A \<^verbatim>\<open>for\<close> loop over a list, and one whose body answers whether to go on (\<^verbatim>\<open>break\<close> is false).\<close>

fun for_each :: "'a list \<Rightarrow> ('a \<Rightarrow> ('s, unit) state) \<Rightarrow> ('s, unit) state" where
  "for_each [] f = ret ()"
| "for_each (x # xs) f = f x \<bind> (\<lambda>_. for_each xs f)"

fun for_while :: "'a list \<Rightarrow> ('a \<Rightarrow> ('s, bool) state) \<Rightarrow> ('s, unit) state" where
  "for_while [] f = ret ()"
| "for_while (x # xs) f = f x \<bind> (\<lambda>go. if go then for_while xs f else ret ())"

definition exec :: "('s, 'a) state \<Rightarrow> 's \<Rightarrow> 's" where
  "exec m s = snd (run_state m s)"

definition result :: "('s, 'a) state \<Rightarrow> 's \<Rightarrow> 'a" where
  "result m s = fst (run_state m s)"

lemma run_gets [simp]: "run_state (gets f) s = (f s, s)"
  by (simp add: gets_def)

lemma run_modify [simp]: "run_state (modify f) s = ((), f s)"
  by (simp add: State_Monad.update_def State_Monad.get_def State_Monad.set_def State_Monad.bind_def
      State_Monad.run_state_return split: prod.split)

lemma run_bind [simp]:
  "run_state (m \<bind> f) s = (case run_state m s of (a, s') \<Rightarrow> run_state (f a) s')"
  by (simp add: State_Monad.bind_def)

lemma exec_ret [simp]: "exec (ret x) s = s"
  and exec_gets [simp]: "exec (gets f) s = s"
  and exec_modify [simp]: "exec (modify g) s = g s"
  and result_ret [simp]: "result (ret x) s = x"
  and result_gets [simp]: "result (gets f) s = f s"
  by (simp_all add: exec_def result_def)

lemma exec_bind [simp]: "exec (m \<bind> f) s = exec (f (result m s)) (exec m s)"
  and result_bind [simp]: "result (m \<bind> f) s = result (f (result m s)) (exec m s)"
  by (simp_all add: exec_def result_def split: prod.split)

section \<open>Preservation\<close>

definition hoare :: "('s \<Rightarrow> bool) \<Rightarrow> ('s, 'a) state \<Rightarrow> ('a \<Rightarrow> 's \<Rightarrow> bool) \<Rightarrow> bool" where
  "hoare P m Q \<longleftrightarrow> (\<forall>s. P s \<longrightarrow> Q (result m s) (exec m s))"

definition keeps :: "('s \<Rightarrow> bool) \<Rightarrow> ('s, 'a) state \<Rightarrow> bool" where
  "keeps I m \<longleftrightarrow> (\<forall>s. I s \<longrightarrow> I (exec m s))"

lemma hoareD: "hoare P m Q \<Longrightarrow> P s \<Longrightarrow> Q (result m s) (exec m s)"
  by (simp add: hoare_def)

lemma keepsD: "keeps I m \<Longrightarrow> I s \<Longrightarrow> I (exec m s)"
  by (simp add: keeps_def)

lemma hoare_ret: "(\<And>s. P s \<Longrightarrow> Q x s) \<Longrightarrow> hoare P (ret x) Q"
  by (simp add: hoare_def)

lemma hoare_bind: "hoare P m R \<Longrightarrow> (\<And>x. hoare (R x) (f x) Q) \<Longrightarrow> hoare P (m \<bind> f) Q"
  by (simp add: hoare_def)

lemma hoare_gets: "(\<And>s. P s \<Longrightarrow> Q (f s) s) \<Longrightarrow> hoare P (gets f) Q"
  by (simp add: hoare_def)

lemma hoare_modify: "(\<And>s. P s \<Longrightarrow> Q () (f s)) \<Longrightarrow> hoare P (modify f) Q"
  by (simp add: hoare_def)

lemma hoare_weaken: "hoare P' m Q' \<Longrightarrow> (\<And>s. P s \<Longrightarrow> P' s) \<Longrightarrow> (\<And>x s. Q' x s \<Longrightarrow> Q x s) \<Longrightarrow> hoare P m Q"
  by (simp add: hoare_def)

lemma keeps_ret [hoare_intros]: "keeps I (ret x)"
  by (simp add: keeps_def)

lemma keeps_gets [hoare_intros]: "keeps I (gets f)"
  by (simp add: keeps_def)

lemma keeps_bind [hoare_intros]: "keeps I m \<Longrightarrow> (\<And>x. keeps I (f x)) \<Longrightarrow> keeps I (m \<bind> f)"
  by (simp add: keeps_def)

lemma keeps_modify: "(\<And>s. I s \<Longrightarrow> I (f s)) \<Longrightarrow> keeps I (modify f)"
  by (simp add: keeps_def)

lemma keeps_if [hoare_intros]: "(b \<Longrightarrow> keeps I m) \<Longrightarrow> (\<not> b \<Longrightarrow> keeps I n) \<Longrightarrow> keeps I (if b then m else n)"
  by simp

lemma keeps_option [hoare_intros]:
  "(x = None \<Longrightarrow> keeps I m) \<Longrightarrow> (\<And>y. x = Some y \<Longrightarrow> keeps I (f y)) \<Longrightarrow>
   keeps I (case x of None \<Rightarrow> m | Some y \<Rightarrow> f y)"
  by (cases x) auto

lemma keeps_sum [hoare_intros]:
  "(\<And>y. x = Inl y \<Longrightarrow> keeps I (f y)) \<Longrightarrow> (\<And>y. x = Inr y \<Longrightarrow> keeps I (g y)) \<Longrightarrow>
   keeps I (case x of Inl y \<Rightarrow> f y | Inr y \<Rightarrow> g y)"
  by (cases x) auto

lemma keeps_prod [hoare_intros]:
  "(\<And>y z. x = (y, z) \<Longrightarrow> keeps I (f y z)) \<Longrightarrow> keeps I (case x of (y, z) \<Rightarrow> f y z)"
  by (cases x) auto

lemma keeps_for_each [hoare_intros]: "(\<And>x. x \<in> set xs \<Longrightarrow> keeps I (f x)) \<Longrightarrow> keeps I (for_each xs f)"
  by (induction xs) (auto intro!: keeps_ret keeps_bind)

lemma keeps_for_while [hoare_intros]: "(\<And>x. x \<in> set xs \<Longrightarrow> keeps I (f x)) \<Longrightarrow> keeps I (for_while xs f)"
  by (induction xs) (auto intro!: keeps_ret keeps_bind keeps_if)

lemma keeps_let [hoare_intros]: "keeps I (f x) \<Longrightarrow> keeps I (let y = x in f y)"
  by (simp add: Let_def)

lemma keeps_conj: "keeps I m \<Longrightarrow> keeps J m \<Longrightarrow> keeps (\<lambda>s. I s \<and> J s) m"
  by (simp add: keeps_def)

lemma hoare_keeps: "keeps I m \<longleftrightarrow> hoare I m (\<lambda>_. I)"
  by (simp add: hoare_def keeps_def)

section \<open>The environment\<close>

text \<open>
  What a forge client answers to the \<open>n\<close>-th question: the trait \<^verbatim>\<open>Forge\<close>, whose
  implementations talk to GitHub or Forgejo.
\<close>

record forge_api =
  fa_kind :: runner_kind
  fa_job_status :: "nat \<Rightarrow> string \<Rightarrow> string \<Rightarrow> string + string option"
  fa_create_job_runner :: "nat \<Rightarrow> runner_scope \<Rightarrow> string \<Rightarrow> string list \<Rightarrow> nat \<Rightarrow> string \<Rightarrow> string + runner_launch"
  fa_registration_token :: "nat \<Rightarrow> runner_scope \<Rightarrow> string + string"
  fa_remove_runner :: "nat \<Rightarrow> runner_scope \<Rightarrow> string \<Rightarrow> string + unit"
  fa_remove_idle_runner :: "nat \<Rightarrow> runner_scope \<Rightarrow> string \<Rightarrow> string + idle_removal"
  fa_list_queued_jobs :: "nat \<Rightarrow> string + queued_job list"
  fa_scope_url :: "runner_scope \<Rightarrow> string"

record env =
  db_up :: "nat \<Rightarrow> bool"
  instant :: "nat \<Rightarrow> nat"
  utc_now :: "nat \<Rightarrow> int"
  fresh_uuid :: "nat \<Rightarrow> string"

section \<open>Tables\<close>

record pending_row =
  pr_job_labels :: "string list"
  pr_agent_labels :: "string list"
  pr_runner_scope :: runner_scope
  pr_runner_group :: "string option"
  pr_created_at :: int
  pr_retry_count :: int
  pr_repository :: "string option"
  pr_job_name :: "string option"
  pr_workflow_name :: "string option"
  pr_failed_agents :: "string list option"

record runner_row =
  rr_agent_id :: string
  rr_vm_name :: string
  rr_runner_scope :: runner_scope
  rr_created_at :: int
  rr_job_id :: "string option"
  rr_job_name :: "string option"
  rr_repository :: "string option"
  rr_workflow_name :: "string option"
  rr_pool :: "string option"
  rr_forge :: "string option"

record runner_run =
  ru_agent_id :: string
  ru_hostname :: string
  ru_agent_type :: string
  ru_forge :: "string option"
  ru_job_id :: "string option"
  ru_repository :: "string option"
  ru_workflow_name :: "string option"
  ru_job_name :: "string option"
  ru_pool :: "string option"
  ru_labels :: "string list"
  ru_requested_at :: int
  ru_acked_at :: "int option"
  ru_started_at :: "int option"
  ru_job_started_at :: "int option"
  ru_finished_at :: "int option"
  ru_outcome :: "string option"
  ru_error :: "string option"
  ru_image :: "string option"
  ru_failed_phase :: "string option"
  ru_install_source :: "string option"
  ru_steps :: "(string, int) hashmap"

record job_run =
  jr_forge :: string
  jr_repository :: "string option"
  jr_workflow_name :: "string option"
  jr_job_name :: "string option"
  jr_labels :: "string list"
  jr_queued_at :: int
  jr_seen_at :: int
  jr_first_runner_at :: "int option"
  jr_started_at :: "int option"
  jr_completed_at :: "int option"
  jr_conclusion :: "string option"
  jr_runner_name :: "string option"
  jr_attempts :: nat
  jr_outcome :: "string option"

record failure_row =
  fw_agent_id :: string
  fw_occurred_at :: int
  fw_kind :: string
  fw_runner_name :: "string option"
  fw_job_id :: "string option"
  fw_message :: string

record store =
  st_tick :: nat
  st_pending :: "(string, pending_row) hashmap"
  st_runners :: "(string, runner_row) hashmap"
  st_runs :: "(string, runner_run) hashmap"
  st_jobs :: "(string, job_run) hashmap"
  st_failures :: "(string, failure_row) hashmap"
  st_missing_since :: "(string, nat) hashmap" \<comment> \<open>in memory, see \<open>Runner_State\<close>\<close>

text \<open>\<^verbatim>\<open>INSERT ... ON CONFLICT DO NOTHING\<close>.\<close>

definition insert_ignore :: "'k \<Rightarrow> 'r \<Rightarrow> ('k, 'r) hashmap \<Rightarrow> ('k, 'r) hashmap" where
  "insert_ignore k r t = (if hm_contains t k then t else hm_insert k r t)"

definition ask :: "(nat \<Rightarrow> 'a) \<Rightarrow> ('z store_scheme, 'a) state" where
  "ask f = State (\<lambda>s. (f (st_tick s), s\<lparr>st_tick := st_tick s + 1\<rparr>))"

definition query :: "env \<Rightarrow> ('z store_scheme \<Rightarrow> 'a \<times> 'z store_scheme) \<Rightarrow> ('z store_scheme, 'a option) state" where
  "query env f = State (\<lambda>s.
     let s' = s\<lparr>st_tick := st_tick s + 1\<rparr> in
     if db_up env (st_tick s) then (case f s' of (a, s'') \<Rightarrow> (Some a, s'')) else (None, s'))"

lemma run_ask [simp]:
  "result (ask f) s = f (st_tick s)" "exec (ask f) s = s\<lparr>st_tick := st_tick s + 1\<rparr>"
  by (simp_all add: ask_def result_def exec_def)

lemma run_query:
  "result (query env f) s = (if db_up env (st_tick s) then Some (fst (f (s\<lparr>st_tick := st_tick s + 1\<rparr>))) else None)"
  "exec (query env f) s = (if db_up env (st_tick s) then snd (f (s\<lparr>st_tick := st_tick s + 1\<rparr>))
     else s\<lparr>st_tick := st_tick s + 1\<rparr>)"
  by (simp_all add: query_def result_def exec_def Let_def split: prod.split)

lemma keeps_ask: "(\<And>s n. I s \<Longrightarrow> I (s\<lparr>st_tick := n\<rparr>)) \<Longrightarrow> keeps I (ask f)"
  by (simp add: keeps_def)

lemma keeps_query:
  "(\<And>s n. I s \<Longrightarrow> I (s\<lparr>st_tick := n\<rparr>)) \<Longrightarrow> (\<And>s. I s \<Longrightarrow> I (snd (f s))) \<Longrightarrow> keeps I (query env f)"
  by (simp add: keeps_def run_query)

lemma insert_ignore_get:
  "hm_get (insert_ignore k r t) k' =
     (if k' = k then Some (case hm_get t k of None \<Rightarrow> r | Some r' \<Rightarrow> r') else hm_get t k')"
  by (auto simp: insert_ignore_def hm_contains_def)

lemma hm_ok_insert_ignore [simp, wf_intros]: "hm_ok t \<Longrightarrow> hm_ok (insert_ignore k r t)"
  by (simp add: insert_ignore_def)

end
