(* ===== verification/Agent_Connection.thy ===== *)
theory Agent_Connection
  imports Store
begin

text \<open>
  \<^verbatim>\<open>kuiper-agent-lib/src/connector.rs\<close>, \<^verbatim>\<open>certs.rs\<close> and \<^verbatim>\<open>error.rs\<close>: how an agent connects to the
  coordinator with the certificate it stores, and registers for one with a token. The files of the
  certificate store are the state; a read or write of one may fail, by the flag of its tick. The metadata
  file holds the values its JSON encodes. The channel of \<^verbatim>\<open>tonic\<close> is a parameter: whether it dials, and
  what the coordinator answers to a registration.
\<close>

section \<open>Errors\<close>

datatype grpc_code = Unauthenticated | PermissionDenied | OtherCode nat

datatype agent_error =
    ErrIo
  | ErrTransport
  | ErrStatus grpc_code
  | ErrJson
  | ErrNoCredentials string
  | ErrAuthFailed string
  | ErrCertificate string
  | ErrRegistrationFailed string
  | ErrConnection string
  | ErrConnectionLost
  | ErrChannelSend

fun is_auth_error :: "agent_error \<Rightarrow> bool" where
  "is_auth_error (ErrAuthFailed _) = True"
| "is_auth_error (ErrStatus code) = (code = Unauthenticated \<or> code = PermissionDenied)"
| "is_auth_error _ = False"

section \<open>The certificate store\<close>

record cert_store =
  ck_tick :: nat
  ck_cert :: "string option"
  ck_key :: "string option"
  ck_ca :: "string option"
  ck_mode :: "string option"
  ck_meta :: "(string \<times> string option) option"

text \<open>A file operation: it happens when the flag of its tick is set, and is an I/O error otherwise.\<close>

definition file_op :: "(nat \<Rightarrow> bool) \<Rightarrow> (cert_store \<Rightarrow> (agent_error + 'a) \<times> cert_store) \<Rightarrow> (cert_store, agent_error + 'a) state" where
  "file_op io f = State (\<lambda>s. let s' = s\<lparr>ck_tick := ck_tick s + 1\<rparr>
     in if io (ck_tick s) then f s' else (Inl ErrIo, s'))"

definition read_file :: "(nat \<Rightarrow> bool) \<Rightarrow> (cert_store \<Rightarrow> string option) \<Rightarrow> (cert_store, agent_error + string) state" where
  "read_file io file = file_op io (\<lambda>s. (case file s of None \<Rightarrow> Inl ErrIo | Some text \<Rightarrow> Inr text, s))"

definition write_file :: "(nat \<Rightarrow> bool) \<Rightarrow> (cert_store \<Rightarrow> cert_store) \<Rightarrow> (cert_store, agent_error + unit) state" where
  "write_file io f = file_op io (\<lambda>s. (Inr (), f s))"

definition file_exists :: "(cert_store \<Rightarrow> 'a option) \<Rightarrow> (cert_store, bool) state" where
  "file_exists file = State (\<lambda>s. (file s \<noteq> None, s))"

definition load_server_trust_mode :: "(nat \<Rightarrow> bool) \<Rightarrow> (cert_store, agent_error + string option) state" where
  "load_server_trust_mode io = do {
     there \<leftarrow> file_exists ck_mode;
     if \<not> there then give None
     else try_bind (read_file io ck_mode) (\<lambda>mode.
       let trimmed = str_trim mode in give (if trimmed = [] then None else Some trimmed)) }"

definition load_server_ca_pem :: "(nat \<Rightarrow> bool) \<Rightarrow> (cert_store, agent_error + string option) state" where
  "load_server_ca_pem io = do {
     there \<leftarrow> file_exists ck_ca;
     if \<not> there then give None
     else try_bind (read_file io ck_ca) (\<lambda>ca.
       let trimmed = str_trim ca in give (if trimmed = [] then None else Some trimmed)) }"

definition has_certificates :: "(nat \<Rightarrow> bool) \<Rightarrow> (cert_store, bool) state" where
  "has_certificates io = do {
     cert \<leftarrow> file_exists ck_cert;
     key \<leftarrow> file_exists ck_key;
     if \<not> cert \<or> \<not> key then ret False
     else do {
       mode \<leftarrow> load_server_trust_mode io;
       case mode of
         Inr (Some m) \<Rightarrow> if m = ''ca'' then file_exists ck_ca else ret True
       | _ \<Rightarrow> file_exists ck_ca } }"

definition has_client_identity :: "(cert_store, bool) state" where
  "has_client_identity = do {
     cert \<leftarrow> file_exists ck_cert;
     key \<leftarrow> file_exists ck_key;
     ret (cert \<and> key) }"

definition load_identity_pem :: "(nat \<Rightarrow> bool) \<Rightarrow> (cert_store, agent_error + string \<times> string) state" where
  "load_identity_pem io =
     try_bind (read_file io ck_cert) (\<lambda>cert. try_bind (read_file io ck_key) (\<lambda>key. give (cert, key)))"

text \<open>\<^verbatim>\<open>save\<close>: the directory, the certificate, the key and the metadata, each of which may fail and ends it.\<close>

definition save_certs :: "(nat \<Rightarrow> bool) \<Rightarrow> string \<Rightarrow> string \<Rightarrow> string \<Rightarrow> (cert_store, agent_error + unit) state" where
  "save_certs io cert key agent_id =
     try_bind (write_file io id) (\<lambda>_.
     try_bind (write_file io (\<lambda>s. s\<lparr>ck_cert := Some cert\<rparr>)) (\<lambda>_.
     try_bind (write_file io (\<lambda>s. s\<lparr>ck_key := Some key\<rparr>)) (\<lambda>_.
     write_file io (\<lambda>s. s\<lparr>ck_meta := Some (agent_id, None)\<rparr>))))"

definition save_with_expiry ::
    "(nat \<Rightarrow> bool) \<Rightarrow> string \<Rightarrow> string \<Rightarrow> string \<Rightarrow> string \<Rightarrow> (cert_store, agent_error + unit) state" where
  "save_with_expiry io cert key agent_id expires_at =
     try_bind (save_certs io cert key agent_id) (\<lambda>_.
     write_file io (\<lambda>s. s\<lparr>ck_meta := Some (agent_id, Some expires_at)\<rparr>))"

definition save_ca :: "(nat \<Rightarrow> bool) \<Rightarrow> string \<Rightarrow> (cert_store, agent_error + unit) state" where
  "save_ca io ca = try_bind (write_file io id) (\<lambda>_. write_file io (\<lambda>s. s\<lparr>ck_ca := Some ca\<rparr>))"

definition save_server_trust_mode :: "(nat \<Rightarrow> bool) \<Rightarrow> string \<Rightarrow> (cert_store, agent_error + unit) state" where
  "save_server_trust_mode io mode =
     try_bind (write_file io id) (\<lambda>_. write_file io (\<lambda>s. s\<lparr>ck_mode := Some (str_trim mode)\<rparr>))"

text \<open>\<^verbatim>\<open>clear\<close>: a file that can't be removed stays, and that is no error.\<close>

definition remove_file :: "(nat \<Rightarrow> bool) \<Rightarrow> (cert_store \<Rightarrow> cert_store) \<Rightarrow> (cert_store, unit) state" where
  "remove_file io f = do { write_file io f; ret () }"

definition clear_certs :: "(nat \<Rightarrow> bool) \<Rightarrow> (cert_store, agent_error + unit) state" where
  "clear_certs io = do {
     remove_file io (\<lambda>s. s\<lparr>ck_cert := None\<rparr>);
     remove_file io (\<lambda>s. s\<lparr>ck_key := None\<rparr>);
     remove_file io (\<lambda>s. s\<lparr>ck_meta := None\<rparr>);
     give () }"

definition get_agent_id :: "(nat \<Rightarrow> bool) \<Rightarrow> (cert_store, string option) state" where
  "get_agent_id io = do {
     r \<leftarrow> file_op io (\<lambda>s. (case ck_meta s of None \<Rightarrow> Inl ErrIo | Some m \<Rightarrow> Inr m, s));
     ret (case r of Inl _ \<Rightarrow> None | Inr m \<Rightarrow> Some (fst m)) }"

section \<open>Connecting\<close>

record agent_config =
  ac_coordinator_url :: string
  ac_coordinator_hostname :: string
  ac_registration_token :: "string option"
  ac_agent_type :: string

record tls_config =
  tl_domain_name :: string
  tl_native_roots :: bool
  tl_ca :: "string option"
  tl_identity :: "(string \<times> string) option"

record register_request =
  rq_registration_token :: string
  rq_hostname :: string
  rq_agent_type :: string

record register_response =
  rs_agent_id :: string
  rs_client_cert_pem :: string
  rs_client_key_pem :: string
  rs_expires_at :: string
  rs_server_ca_pem :: string
  rs_server_trust_mode :: string

text \<open>What is not the agent's: the host's name, whether the URL parses, whether TLS and the dial at a tick
  succeed (both are transport errors), and the answer of the registration service, an error by its text.\<close>

record agent_net =
  net_hostname :: string
  net_url_error :: "string \<Rightarrow> string option"
  net_dial :: "nat \<Rightarrow> tls_config \<Rightarrow> bool"
  net_register :: "nat \<Rightarrow> register_request \<Rightarrow> string + register_response"

definition build_tls_config ::
    "string \<Rightarrow> string option \<Rightarrow> (string \<times> string) option \<Rightarrow> string \<Rightarrow> agent_error + tls_config" where
  "build_tls_config trust_mode server_ca_pem identity hostname =
     (let tls = \<lparr>tl_domain_name = hostname, tl_native_roots = False, tl_ca = None, tl_identity = identity\<rparr>
      in if trust_mode = ''ca''
         then (case server_ca_pem of
             None \<Rightarrow> Inl (ErrNoCredentials ''Missing server CA certificate. Register using a bundle token to establish trust.'')
           | Some ca \<Rightarrow> Inr (tls\<lparr>tl_ca := Some ca\<rparr>))
         else if trust_mode = ''chain'' then Inr (tls\<lparr>tl_native_roots := True, tl_ca := server_ca_pem\<rparr>)
         else Inl (ErrCertificate (''Invalid server trust mode: '' @ trust_mode)))"

definition now_tick :: "(cert_store, nat) state" where
  "now_tick = State (\<lambda>s. (ck_tick s, s\<lparr>ck_tick := ck_tick s + 1\<rparr>))"

text \<open>A channel is the TLS configuration it was dialled with.\<close>

definition connect_channel ::
    "(nat \<Rightarrow> bool) \<Rightarrow> agent_net \<Rightarrow> agent_config \<Rightarrow> (string \<times> string) option \<Rightarrow> (cert_store, agent_error + tls_config) state" where
  "connect_channel io net cfg identity =
     try_bind (load_server_trust_mode io) (\<lambda>mode.
     try_bind (load_server_ca_pem io) (\<lambda>ca.
       (case build_tls_config (case mode of None \<Rightarrow> ''ca'' | Some m \<Rightarrow> m) ca identity (ac_coordinator_hostname cfg) of
          Inl e \<Rightarrow> fail_with e
        | Inr tls \<Rightarrow>
            (case net_url_error net (ac_coordinator_url cfg) of
               Some e \<Rightarrow> fail_with (ErrCertificate (''Invalid URL: '' @ e))
             | None \<Rightarrow> do {
                 t \<leftarrow> now_tick;
                 if net_dial net t tls then give tls else fail_with ErrTransport }))))"

definition connect_with_mtls ::
    "(nat \<Rightarrow> bool) \<Rightarrow> agent_net \<Rightarrow> agent_config \<Rightarrow> (cert_store, agent_error + tls_config) state" where
  "connect_with_mtls io net cfg =
     try_bind (load_identity_pem io) (\<lambda>identity. connect_channel io net cfg (Some identity))"

definition register_and_connect ::
    "(nat \<Rightarrow> bool) \<Rightarrow> agent_net \<Rightarrow> agent_config \<Rightarrow> string \<Rightarrow> (cert_store, agent_error + tls_config) state" where
  "register_and_connect io net cfg token =
     try_bind (connect_channel io net cfg None) (\<lambda>_.
       do {
         t \<leftarrow> now_tick;
         (case net_register net t \<lparr>rq_registration_token = token, rq_hostname = net_hostname net,
                                   rq_agent_type = ac_agent_type cfg\<rparr> of
            Inl e \<Rightarrow> fail_with (ErrRegistrationFailed e)
          | Inr r \<Rightarrow>
              try_bind (save_server_trust_mode io
                  (if rs_server_trust_mode r \<noteq> [] then rs_server_trust_mode r else ''ca'')) (\<lambda>_.
              try_bind (if rs_server_ca_pem r \<noteq> [] then save_ca io (rs_server_ca_pem r) else give ()) (\<lambda>_.
              try_bind (save_with_expiry io (rs_client_cert_pem r) (rs_client_key_pem r) (rs_agent_id r) (rs_expires_at r)) (\<lambda>_.
              connect_with_mtls io net cfg)))) })"

definition connect_agent ::
    "(nat \<Rightarrow> bool) \<Rightarrow> agent_net \<Rightarrow> agent_config \<Rightarrow> (cert_store, agent_error + tls_config) state" where
  "connect_agent io net cfg =
     (let with_token = (case ac_registration_token cfg of
          None \<Rightarrow> fail_with (ErrNoCredentials
            ''No stored certificate and no registration token provided. Run: coordinator token create --url https://...'')
        | Some token \<Rightarrow> register_and_connect io net cfg token)
      in do {
        stored \<leftarrow> has_certificates io;
        if stored
        then do {
          r \<leftarrow> connect_with_mtls io net cfg;
          (case r of
             Inr client \<Rightarrow> give client
           | Inl e \<Rightarrow> if is_auth_error e then try_bind (clear_certs io) (\<lambda>_. with_token) else fail_with e) }
        else with_token })"

definition register_agent ::
    "(nat \<Rightarrow> bool) \<Rightarrow> agent_net \<Rightarrow> agent_config \<Rightarrow> (cert_store, agent_error + tls_config) state" where
  "register_agent io net cfg = (case ac_registration_token cfg of
     None \<Rightarrow> fail_with (ErrNoCredentials ''No registration token provided for registration'')
   | Some token \<Rightarrow> register_and_connect io net cfg token)"

section \<open>Lemmas\<close>

text \<open>The files, without the clock.\<close>

definition cert_files ::
    "cert_store \<Rightarrow> string option \<times> string option \<times> string option \<times> string option \<times> (string \<times> string option) option" where
  "cert_files s = (ck_cert s, ck_key s, ck_ca s, ck_mode s, ck_meta s)"

lemma run_try_bind [simp]:
  "exec (try_bind m f) s = (case result m s of Inl e \<Rightarrow> exec m s | Inr a \<Rightarrow> exec (f a) (exec m s))"
  "result (try_bind m f) s = (case result m s of Inl e \<Rightarrow> Inl e | Inr a \<Rightarrow> result (f a) (exec m s))"
  by (simp_all add: try_bind_def split: sum.split)

lemma run_cert_basics [simp]:
  "exec (fail_with e) s = s" "result (fail_with e) s = Inl e"
  "exec (give a) s = s" "result (give a) s = Inr a"
  "exec (file_exists file) s = s" "result (file_exists file) s = (file s \<noteq> None)"
  "exec now_tick s = s\<lparr>ck_tick := ck_tick s + 1\<rparr>" "result now_tick s = ck_tick s"
  by (simp_all add: fail_with_def give_def file_exists_def now_tick_def exec_def result_def)

lemma run_write_file:
  "exec (write_file io f) s = (if io (ck_tick s) then f (s\<lparr>ck_tick := ck_tick s + 1\<rparr>) else s\<lparr>ck_tick := ck_tick s + 1\<rparr>)"
  "result (write_file io f) s = (if io (ck_tick s) then Inr () else Inl ErrIo)"
  by (simp_all add: write_file_def file_op_def exec_def result_def Let_def)

lemma run_read_file:
  "exec (read_file io file) s = s\<lparr>ck_tick := ck_tick s + 1\<rparr>"
  "result (read_file io file) s =
     (if io (ck_tick s) then case file (s\<lparr>ck_tick := ck_tick s + 1\<rparr>) of None \<Rightarrow> Inl ErrIo | Some text \<Rightarrow> Inr text
      else Inl ErrIo)"
  by (simp_all add: read_file_def file_op_def exec_def result_def Let_def)

lemma cert_files_tick [simp]: "cert_files (s\<lparr>ck_tick := n\<rparr>) = cert_files s"
  by (simp add: cert_files_def)

text \<open>An operation that only reads leaves the files, and its errors are no authentication errors.\<close>

definition reads_only :: "(cert_store, agent_error + 'a) state \<Rightarrow> bool" where
  "reads_only m \<longleftrightarrow> (\<forall>s. cert_files (exec m s) = cert_files s \<and> (\<forall>e. result m s = Inl e \<longrightarrow> \<not> is_auth_error e))"

named_theorems reads_only_intros "operations that only read the certificate store"

lemma reads_only_try_bind [reads_only_intros]:
  "reads_only m \<Longrightarrow> (\<And>a. reads_only (f a)) \<Longrightarrow> reads_only (try_bind m f)"
  by (auto simp: reads_only_def split: sum.split sum.split_asm)

lemma reads_only_give [reads_only_intros]: "reads_only (give a)"
  by (simp add: reads_only_def)

lemma reads_only_read_file [reads_only_intros]: "reads_only (read_file io file)"
  by (auto simp: reads_only_def run_read_file split: if_splits option.splits)

lemma reads_only_if [reads_only_intros]: "reads_only m \<Longrightarrow> reads_only n \<Longrightarrow> reads_only (if b then m else n)"
  by simp

lemma reads_only_exists [reads_only_intros]:
  "(\<And>b. reads_only (f b)) \<Longrightarrow> reads_only (file_exists file \<bind> f)"
  by (simp add: reads_only_def)

lemma reads_only_trust_mode [reads_only_intros]: "reads_only (load_server_trust_mode io)"
  unfolding load_server_trust_mode_def Let_def by (intro reads_only_intros)

lemma reads_only_ca_pem [reads_only_intros]: "reads_only (load_server_ca_pem io)"
  unfolding load_server_ca_pem_def Let_def by (intro reads_only_intros)

lemma reads_only_identity [reads_only_intros]: "reads_only (load_identity_pem io)"
  unfolding load_identity_pem_def by (intro reads_only_intros)

lemma build_tls_config_error: "build_tls_config mode ca identity host = Inl e \<Longrightarrow> \<not> is_auth_error e"
  by (auto simp: build_tls_config_def Let_def split: if_splits option.splits)

lemma reads_only_channel [reads_only_intros]: "reads_only (connect_channel io net cfg identity)"
  unfolding connect_channel_def
  by (intro reads_only_intros)
     (auto simp: reads_only_def dest: build_tls_config_error split: sum.split option.split if_splits)

lemma reads_only_mtls [reads_only_intros]: "reads_only (connect_with_mtls io net cfg)"
  unfolding connect_with_mtls_def by (intro reads_only_intros)

lemma has_certificates_reads [simp]: "cert_files (exec (has_certificates io) s) = cert_files s"
proof -
  have "cert_files (exec (load_server_trust_mode io) s) = cert_files s"
    using reads_only_trust_mode by (simp add: reads_only_def)
  then show ?thesis by (simp add: has_certificates_def split: sum.split option.split)
qed

text \<open>Registering writes files only once the coordinator answered.\<close>

lemma register_refused_keeps:
  assumes "\<And>t rq. \<exists>e. net_register net t rq = Inl e"
  shows "cert_files (exec (register_and_connect io net cfg token) s) = cert_files s"
proof -
  have "cert_files (exec (connect_channel io net cfg None) s) = cert_files s"
    using reads_only_channel by (simp add: reads_only_def)
  moreover obtain e where "net_register net (ck_tick (exec (connect_channel io net cfg None) s))
      \<lparr>rq_registration_token = token, rq_hostname = net_hostname net, rq_agent_type = ac_agent_type cfg\<rparr> = Inl e"
    using assms by blast
  ultimately show ?thesis by (simp add: register_and_connect_def split: sum.split)
qed

section \<open>Properties\<close>

text \<open>C20: An agent that has a certificate never replaces it when it connects, whatever the coordinator says to
  it: no error of a connection is one \<^verbatim>\<open>is_auth_error\<close> accepts, since a revoked certificate is refused by
  the answer to the stream, which comes after connecting. It keeps its files, and does not register with its
  token.\<close>

theorem rejected_certificate_kept:
  assumes "result (has_certificates io) s"
  shows "cert_files (exec (connect_agent io net cfg) s) = cert_files s
    \<and> result (connect_agent io net cfg) s = result (connect_with_mtls io net cfg) (exec (has_certificates io) s)"
proof -
  let ?s = "exec (has_certificates io) s"
  have "cert_files (exec (connect_with_mtls io net cfg) ?s) = cert_files s"
    and "\<And>e. result (connect_with_mtls io net cfg) ?s = Inl e \<Longrightarrow> \<not> is_auth_error e"
    using reads_only_mtls [of io net cfg] by (simp_all add: reads_only_def)
  then show ?thesis using assms by (auto simp: connect_agent_def Let_def split: sum.split)
qed

text \<open>A registration that the coordinator refuses leaves the files as they are.\<close>

theorem refused_registration_keeps_files:
  assumes "\<And>t rq. \<exists>e. net_register net t rq = Inl e"
  shows "cert_files (exec (register_agent io net cfg) s) = cert_files s"
  using register_refused_keeps [OF assms] by (simp add: register_agent_def split: option.split)

lemma run_save_files:
  "result (save_server_trust_mode io mode) s = Inr () \<Longrightarrow>
     cert_files (exec (save_server_trust_mode io mode) s) = (ck_cert s, ck_key s, ck_ca s, Some (str_trim mode), ck_meta s)"
  "result (save_ca io ca) s = Inr () \<Longrightarrow>
     cert_files (exec (save_ca io ca) s) = (ck_cert s, ck_key s, Some ca, ck_mode s, ck_meta s)"
  "result (save_with_expiry io cert key agent_id expires) s = Inr () \<Longrightarrow>
     cert_files (exec (save_with_expiry io cert key agent_id expires) s)
       = (Some cert, Some key, ck_ca s, ck_mode s, Some (agent_id, Some expires))"
  by (auto simp: save_server_trust_mode_def save_ca_def save_with_expiry_def save_certs_def run_write_file cert_files_def
      split: if_splits)

lemma channel_identity:
  "result (connect_channel io net cfg identity) s = Inr tls \<Longrightarrow> tl_identity tls = identity"
  by (auto simp: connect_channel_def build_tls_config_def Let_def split: sum.splits option.splits if_splits)

lemma mtls_identity:
  "result (connect_with_mtls io net cfg) s = Inr tls \<Longrightarrow> tl_identity tls = (case (ck_cert s, ck_key s) of
     (Some c, Some k) \<Rightarrow> Some (c, k) | _ \<Rightarrow> None)"
  by (auto simp: connect_with_mtls_def load_identity_pem_def run_read_file dest!: channel_identity
      split: sum.splits option.splits if_splits)

text \<open>A registration that succeeds stores exactly what the coordinator issued for its token, and the agent
  then speaks under it: its certificate, key, agent id and expiry, the trust mode, and the CA if one was
  sent.\<close>

theorem registration_stores_issued:
  assumes "result (register_agent io net cfg) s = Inr tls"
  shows "\<exists>t token r. ac_registration_token cfg = Some token
     \<and> net_register net t \<lparr>rq_registration_token = token, rq_hostname = net_hostname net,
                           rq_agent_type = ac_agent_type cfg\<rparr> = Inr r
     \<and> cert_files (exec (register_agent io net cfg) s) =
         (Some (rs_client_cert_pem r), Some (rs_client_key_pem r),
          if rs_server_ca_pem r \<noteq> [] then Some (rs_server_ca_pem r) else ck_ca s,
          Some (if rs_server_trust_mode r \<noteq> [] then str_trim (rs_server_trust_mode r) else ''ca''),
          Some (rs_agent_id r, Some (rs_expires_at r)))
     \<and> tl_identity tls = Some (rs_client_cert_pem r, rs_client_key_pem r)"
proof -
  obtain token where tok: "ac_registration_token cfg = Some token"
    and res: "result (register_and_connect io net cfg token) s = Inr tls"
    using assms by (auto simp: register_agent_def split: option.splits)
  define s1 where "s1 = exec (connect_channel io net cfg None) s"
  define s2 where "s2 = s1\<lparr>ck_tick := ck_tick s1 + 1\<rparr>"
  have f1: "cert_files s2 = cert_files s" using reads_only_channel by (simp add: reads_only_def s1_def s2_def)
  let ?rq = "\<lparr>rq_registration_token = token, rq_hostname = net_hostname net, rq_agent_type = ac_agent_type cfg\<rparr>"
  obtain r where r: "net_register net (ck_tick s1) ?rq = Inr r"
    using res by (auto simp: register_and_connect_def s1_def split: sum.splits)
  define mode where "mode = (if rs_server_trust_mode r \<noteq> [] then rs_server_trust_mode r else ''ca'')"
  define s3 where "s3 = exec (save_server_trust_mode io mode) s2"
  define put_ca where "put_ca = (if rs_server_ca_pem r \<noteq> [] then save_ca io (rs_server_ca_pem r) else give ())"
  define s4 where "s4 = exec put_ca s3"
  define put where "put = save_with_expiry io (rs_client_cert_pem r) (rs_client_key_pem r) (rs_agent_id r) (rs_expires_at r)"
  define s5 where "s5 = exec put s4"
  have ok: "result (save_server_trust_mode io mode) s2 = Inr ()" "result put_ca s3 = Inr ()" "result put s4 = Inr ()"
    "result (connect_with_mtls io net cfg) s5 = Inr tls"
    and ex: "exec (register_and_connect io net cfg token) s = exec (connect_with_mtls io net cfg) s5"
    using res r
    by (auto simp: register_and_connect_def s1_def [symmetric] s2_def mode_def [symmetric] put_ca_def [symmetric]
        put_def [symmetric] s3_def s4_def s5_def split: sum.splits)
  have "cert_files s3 = (ck_cert s2, ck_key s2, ck_ca s2, Some (str_trim mode), ck_meta s2)"
    using run_save_files(1) [OF ok(1)] by (simp add: s3_def)
  moreover have "cert_files s4 = (ck_cert s3, ck_key s3,
      if rs_server_ca_pem r \<noteq> [] then Some (rs_server_ca_pem r) else ck_ca s3, ck_mode s3, ck_meta s3)"
    using ok(2) run_save_files(2) [of io "rs_server_ca_pem r" s3]
    by (cases "rs_server_ca_pem r = []") (simp_all add: s4_def put_ca_def cert_files_def)
  moreover have "cert_files s5 = (Some (rs_client_cert_pem r), Some (rs_client_key_pem r), ck_ca s4, ck_mode s4,
      Some (rs_agent_id r, Some (rs_expires_at r)))"
    using run_save_files(3) [OF ok(3) [unfolded put_def]] by (simp add: s5_def put_def)
  ultimately have files: "cert_files s5 = (Some (rs_client_cert_pem r), Some (rs_client_key_pem r),
      if rs_server_ca_pem r \<noteq> [] then Some (rs_server_ca_pem r) else ck_ca s, Some (str_trim mode),
      Some (rs_agent_id r, Some (rs_expires_at r)))"
    using f1 by (simp add: cert_files_def)
  have "cert_files (exec (connect_with_mtls io net cfg) s5) = cert_files s5"
    using reads_only_mtls by (simp add: reads_only_def)
  moreover have "tl_identity tls = Some (rs_client_cert_pem r, rs_client_key_pem r)"
    using mtls_identity [OF ok(4)] files by (simp add: cert_files_def)
  moreover have "str_trim mode = (if rs_server_trust_mode r \<noteq> [] then str_trim (rs_server_trust_mode r) else ''ca'')"
    by (simp add: mode_def str_trim_def is_white_def)
  moreover have "register_agent io net cfg = register_and_connect io net cfg token"
    by (simp add: register_agent_def tok)
  ultimately show ?thesis using tok r files ex by auto
qed

definition sample_agent_certs :: cert_store where
  "sample_agent_certs = \<lparr>ck_tick = 0, ck_cert = Some ''cert'', ck_key = Some ''key'', ck_ca = Some ''pem'', ck_mode = None,
     ck_meta = Some (''agent_1'', None)\<rparr>"

theorem rejected_certificate_kept_witness:
  "ck_cert (exec (connect_agent (\<lambda>_. True)
      \<lparr>net_hostname = ''h'', net_url_error = \<lambda>_. None, net_dial = \<lambda>_ _. False, net_register = \<lambda>_ _. Inl ''refused''\<rparr>
      \<lparr>ac_coordinator_url = ''u'', ac_coordinator_hostname = ''c'', ac_registration_token = Some ''reg_abc'',
       ac_agent_type = ''tart''\<rparr>) sample_agent_certs) = Some ''cert''"
proof -
  have "result (has_certificates (\<lambda>_. True)) sample_agent_certs"
    by (simp add: has_certificates_def load_server_trust_mode_def sample_agent_certs_def)
  from rejected_certificate_kept [OF this] show ?thesis
    by (simp add: cert_files_def sample_agent_certs_def)
qed

end
