(* ===== verification/Connected_Agent.thy ===== *)
theory Connected_Agent
  imports Labels Forge Proto Slots
begin

text \<open>
  The part of \<^verbatim>\<open>kuiper-forge/src/agent_registry.rs\<close> about one connected agent: its limits, which
  label set a job is created from, how many slots are left for it, and the reservations that keep
  commands in flight from overbooking it. Instants are numbers passed as \<open>now\<close>.
\<close>

section \<open>Agent types\<close>

text \<open>\<^verbatim>\<open>FromStr for AgentType\<close>.\<close>

definition agent_type_char :: "char \<Rightarrow> bool" where
  "agent_type_char c \<longleftrightarrow> (let n = of_char c :: nat in 97 \<le> n \<and> n \<le> 122 \<or> 48 \<le> n \<and> n \<le> 57 \<or> c = CHR ''-'')"

definition parse_agent_type :: "string \<Rightarrow> string + string" where
  "parse_agent_type s =
     (let name = to_lowercase s in
      if name \<noteq> [] \<and> length name \<le> 32 \<and> list_all agent_type_char name then Inr name
      else Inl (''Invalid agent type '' @ s @ '': up to 32 letters, digits and '' @ [CHR ''-'']))"

section \<open>Limits and capacity\<close>

record vm_limit =
  vl_name :: string
  vl_max :: nat
  vl_external :: nat
  vl_active :: nat

definition vm_limit_from :: "capacity_limit_msg \<Rightarrow> vm_limit" where
  "vm_limit_from l = \<lparr>vl_name = clm_name l, vl_max = clm_max l, vl_external = clm_external l,
                      vl_active = clm_active l\<rparr>"

record agent_capacity =
  ac_limits :: "vm_limit list"
  ac_label_set_limits :: "string list list"
  ac_label_set_pools :: "32 word option list"
  ac_label_set_ids :: "string list"
  ac_default_set :: "nat option"
  ac_runner_kinds :: "string list"

definition agent_capacity_from :: "agent_status \<Rightarrow> agent_capacity" where
  "agent_capacity_from status =
     \<lparr>ac_limits = map vm_limit_from (st_limits status),
      ac_label_set_limits = map ls_limits (st_label_sets status),
      ac_label_set_pools = map ls_pool_size (st_label_sets status),
      ac_label_set_ids = map ls_id (st_label_sets status),
      ac_default_set = position ls_is_default (st_label_sets status),
      ac_runner_kinds = st_runner_kinds status\<rparr>"

record reservation =
  rv_limits :: "string list"
  rv_at :: nat

definition set_covers :: "string list \<Rightarrow> string list \<Rightarrow> bool" where
  "set_covers set_labels required = list_all (has_label set_labels) required"

record connected_agent =
  agent_id :: string
  agent_type :: string
  hostname :: string
  max_vms :: nat
  active_vms :: nat
  limits :: "vm_limit list"
  label_set_limits :: "string list list"
  label_set_pools :: "32 word option list"
  label_set_ids :: "string list"
  default_set :: "nat option"
  runner_kinds :: "string list"
  reservations :: "(string, reservation) hashmap"
  labels :: "string list"
  label_sets :: "string list list"
  command_tx :: nat \<comment> \<open>the connection whose stream receives the commands\<close>
  pending_commands :: "(string, nat) hashmap" \<comment> \<open>command id to the waiter of its response\<close>
  last_seen :: nat
  unavailable :: bool

definition agent_new ::
    "nat \<Rightarrow> string \<Rightarrow> string \<Rightarrow> string \<Rightarrow> nat \<Rightarrow> nat \<Rightarrow> string list \<Rightarrow> string list list \<Rightarrow> nat \<Rightarrow> connected_agent" where
  "agent_new now aid atype host mx act ls lsets tx =
     \<lparr>agent_id = aid, agent_type = atype, hostname = host, max_vms = mx, active_vms = act,
      limits = [], label_set_limits = [], label_set_pools = [], label_set_ids = [],
      default_set = None, runner_kinds = [], reservations = [], labels = ls, label_sets = lsets,
      command_tx = tx, pending_commands = [], last_seen = now, unavailable = False\<rparr>"

definition display_label_sets :: "connected_agent \<Rightarrow> string list list" where
  "display_label_sets a =
     (if length (label_sets a) \<le> 1 then label_sets a
      else map snd (filter (\<lambda>(i, _). Some i \<noteq> default_set a) (enumerate 0 (label_sets a))))"

definition limits_per_set :: "connected_agent \<Rightarrow> bool" where
  "limits_per_set a = list_ex (\<lambda>l. l \<noteq> []) (label_set_limits a)"

definition limit_active :: "connected_agent \<Rightarrow> vm_limit \<Rightarrow> nat" where
  "limit_active a l = (if limits_per_set a then vl_active l else active_vms a)"

definition asks_for_extra :: "connected_agent \<Rightarrow> string list \<Rightarrow> string list \<Rightarrow> bool" where
  "asks_for_extra a job set_labels =
     list_ex (\<lambda>l. list_ex (\<lambda>j. eq_ignore_ascii_case j l) job)
       (filter (\<lambda>l. \<not> list_ex (\<lambda>b. eq_ignore_ascii_case b l) (labels a)) set_labels)"

definition selected_by_labels :: "connected_agent \<Rightarrow> string list \<Rightarrow> nat option" where
  "selected_by_labels a job =
     (case default_set a of
        None \<Rightarrow> None
      | Some d \<Rightarrow>
          (case position (\<lambda>(i, s). i \<noteq> d \<and> asks_for_extra a job s \<and> set_covers s job)
                  (enumerate 0 (label_sets a)) of
             Some i \<Rightarrow> Some i
           | None \<Rightarrow>
               (case get_at (label_sets a) d of
                  Some s \<Rightarrow> if set_covers s job then Some d else None
                | None \<Rightarrow> None)))"

definition selected_set :: "connected_agent \<Rightarrow> string list \<Rightarrow> string \<Rightarrow> nat option" where
  "selected_set a job set_id =
     (case (if set_id \<noteq> [] then position (\<lambda>i. i = set_id) (label_set_ids a) else None) of
        Some i \<Rightarrow> Some i
      | None \<Rightarrow> selected_by_labels a job)"

definition limit_names_for :: "connected_agent \<Rightarrow> string list \<Rightarrow> string \<Rightarrow> string list option" where
  "limit_names_for a job set_id =
     (if limits_per_set a then
        Some (case selected_set a job set_id of
                Some i \<Rightarrow> (case get_at (label_set_limits a) i of Some names \<Rightarrow> names | None \<Rightarrow> [])
              | None \<Rightarrow> concat (map snd (filter (\<lambda>(s, _). set_covers s job)
                          (zip (label_sets a) (label_set_limits a)))))
      else None)"

definition limits_for :: "connected_agent \<Rightarrow> string list \<Rightarrow> string \<Rightarrow> vm_limit list" where
  "limits_for a job set_id =
     filter (\<lambda>l. case limit_names_for a job set_id of None \<Rightarrow> True | Some names \<Rightarrow> vl_name l \<in> set names)
       (limits a)"

definition reserved_slots :: "connected_agent \<Rightarrow> nat" where
  "reserved_slots a = length (reservations a)"

definition limit_reserved :: "connected_agent \<Rightarrow> vm_limit \<Rightarrow> nat" where
  "limit_reserved a l =
     (if \<not> limits_per_set a then reserved_slots a
      else length (filter (\<lambda>(_, r). vl_name l \<in> set (rv_limits r)) (reservations a)))"

definition effective_max :: "connected_agent \<Rightarrow> nat" where
  "effective_max a =
     fold_min (max_vms a)
       (map (\<lambda>l. vl_max l - vl_external l)
          (filter (\<lambda>l. \<not> limits_per_set a \<or> list_all (\<lambda>names. vl_name l \<in> set names) (label_set_limits a))
             (limits a)))"

definition ceiling_for :: "connected_agent \<Rightarrow> string list \<Rightarrow> nat" where
  "ceiling_for a job = fold_min (max_vms a) (map (\<lambda>l. vl_max l - vl_external l) (limits_for a job []))"

definition has_explicit_pools :: "connected_agent \<Rightarrow> bool" where
  "has_explicit_pools a = list_ex (\<lambda>p. p \<noteq> None) (label_set_pools a)"

definition runs :: "connected_agent \<Rightarrow> runner_kind \<Rightarrow> bool" where
  "runs a kind \<longleftrightarrow> kind = GitHub \<or> list_ex (\<lambda>k. eq_ignore_ascii_case k (kind_as_str kind)) (runner_kinds a)"

definition normalize_labels :: "string list \<Rightarrow> string list" where
  "normalize_labels ls = sort (map to_lowercase ls)"

definition in_legacy_pool :: "connected_agent \<Rightarrow> string list \<Rightarrow> bool" where
  "in_legacy_pool a pool_labels \<longleftrightarrow> \<not> has_explicit_pools a \<and> normalize_labels (labels a) = pool_labels"

definition available_capacity :: "connected_agent \<Rightarrow> string list \<Rightarrow> string \<Rightarrow> nat" where
  "available_capacity a job set_id =
     (if unavailable a then 0
      else fold_min (max_vms a - (active_vms a + reserved_slots a))
             (map (\<lambda>l. vl_max l - (vl_external l + limit_active a l + limit_reserved a l))
                (limits_for a job set_id)))"

definition has_capacity :: "connected_agent \<Rightarrow> string list \<Rightarrow> string \<Rightarrow> bool" where
  "has_capacity a job set_id \<longleftrightarrow> available_capacity a job set_id > 0"

definition reserve_slot ::
    "nat \<Rightarrow> string list \<Rightarrow> string \<Rightarrow> string \<Rightarrow> connected_agent \<Rightarrow> bool \<times> connected_agent" where
  "reserve_slot now job set_id runner_name a =
     (if \<not> has_capacity a job set_id then (False, a)
      else
        let ls = (if limits_per_set a then map vl_name (limits_for a job set_id) else [])
        in (True, a\<lparr>reservations := hm_insert runner_name \<lparr>rv_limits = ls, rv_at = now\<rparr> (reservations a)\<rparr>))"

definition release_slot :: "string \<Rightarrow> connected_agent \<Rightarrow> connected_agent" where
  "release_slot runner_name a = a\<lparr>reservations := hm_remove runner_name (reservations a)\<rparr>"

definition matches_labels :: "connected_agent \<Rightarrow> string list \<Rightarrow> bool" where
  "matches_labels a required =
     (if label_sets a \<noteq> [] then list_ex (\<lambda>s. set_covers s required) (label_sets a)
      else set_covers (labels a) required)"

definition touch :: "nat \<Rightarrow> connected_agent \<Rightarrow> connected_agent" where
  "touch now a = a\<lparr>last_seen := now\<rparr>"

definition is_stale :: "nat \<Rightarrow> nat \<Rightarrow> connected_agent \<Rightarrow> bool" where
  "is_stale now timeout a \<longleftrightarrow> now - last_seen a > timeout"


section \<open>Free slots and reservations\<close>

lemma available_capacity_pos_iff:
  "0 < available_capacity a job sid \<longleftrightarrow>
     \<not> unavailable a \<and> active_vms a + reserved_slots a < max_vms a \<and>
     (\<forall>l \<in> set (limits_for a job sid).
        vl_external l + limit_active a l + limit_reserved a l < vl_max l)"
  by (auto simp: available_capacity_def fold_min_pos_iff)

lemma limits_for_same_name:
  "l \<in> set (limits a) \<Longrightarrow> vl_name l \<in> vl_name ` set (limits_for a job sid) \<Longrightarrow> l \<in> set (limits_for a job sid)"
  by (auto simp: limits_for_def split: option.splits)

lemma limits_for_subset: "set (limits_for a job sid) \<subseteq> set (limits a)"
  by (auto simp: limits_for_def)

lemma limits_for_all: "\<not> limits_per_set a \<Longrightarrow> limits_for a job sid = limits a"
  by (simp add: limits_for_def limit_names_for_def)

lemma filter_update_le:
  "length (filter P (AList.update k v m)) \<le> (if P (k, v) then Suc (length (filter P m)) else length (filter P m))"
  by (induction m) auto

lemma filter_update_Suc: "length (filter P (AList.update k v m)) \<le> Suc (length (filter P m))"
  using filter_update_le [of P k v m] by (simp split: if_splits)

lemma filter_delete_le: "length (filter P (AList.delete k m)) \<le> length (filter P m)"
  by (induction m) auto

text \<open>
  What is in use against a limit of the agent: \<^term>\<open>None\<close> is the count of all its VMs, the others
  are its named limits. A reservation counts as a slot in use.
\<close>

definition agent_used :: "connected_agent \<Rightarrow> vm_limit option \<Rightarrow> nat" where
  "agent_used a l =
     (case l of None \<Rightarrow> active_vms a + reserved_slots a
      | Some l \<Rightarrow> if l \<in> set (limits a) then vl_external l + limit_active a l + limit_reserved a l else 0)"

definition agent_cap :: "connected_agent \<Rightarrow> vm_limit option \<Rightarrow> nat" where
  "agent_cap a l = (case l of None \<Rightarrow> max_vms a | Some l \<Rightarrow> vl_max l)"

definition agent_take :: "string \<Rightarrow> nat \<times> string list \<times> string \<Rightarrow> connected_agent \<Rightarrow> bool \<times> connected_agent" where
  "agent_take n r a = reserve_slot (fst r) (fst (snd r)) (snd (snd r)) n a"

lemma agent_upd_simps [simp]:
  "limits_per_set (a\<lparr>reservations := r\<rparr>) = limits_per_set a"
  "limit_active (a\<lparr>reservations := r\<rparr>) = limit_active a"
  by (simp_all add: limits_per_set_def limit_active_def fun_eq_iff)

lemma reserve_slot_used:
  "agent_used (snd (reserve_slot now job sid n a)) l \<le> agent_used a l
   \<or> agent_used (snd (reserve_slot now job sid n a)) l \<le> agent_cap a l"
proof (cases "has_capacity a job sid")
  case False
  then show ?thesis by (simp add: reserve_slot_def)
next
  case True
  let ?a = "snd (reserve_slot now job sid n a)"
  from True have cap: "0 < available_capacity a job sid" by (simp add: has_capacity_def)
  show ?thesis
  proof (cases l)
    case None
    have "active_vms ?a = active_vms a" "reserved_slots ?a \<le> Suc (reserved_slots a)"
      using True by (auto simp: reserve_slot_def Let_def reserved_slots_def length_hm_insert_le)
    with cap None show ?thesis
      by (simp add: agent_used_def agent_cap_def available_capacity_pos_iff)
  next
    case (Some lim)
    have room: "vl_external lim + limit_active a lim + limit_reserved a lim < vl_max lim"
      if "lim \<in> set (limits_for a job sid)"
      using cap that by (simp add: available_capacity_pos_iff)
    have "limit_reserved ?a lim \<le> Suc (limit_reserved a lim)"
      using True
      by (simp add: reserve_slot_def Let_def limit_reserved_def reserved_slots_def length_hm_insert_le
          filter_update_Suc)
    moreover have "limit_reserved ?a lim \<le> limit_reserved a lim"
      if "lim \<in> set (limits a)" "lim \<notin> set (limits_for a job sid)"
    proof -
      from that have "limits_per_set a" using limits_for_all by metis
      moreover have "vl_name lim \<notin> vl_name ` set (limits_for a job sid)"
        using limits_for_same_name that by metis
      ultimately show ?thesis
        using True filter_update_le [of "\<lambda>(_, r). vl_name lim \<in> set (rv_limits r)" n
            "\<lparr>rv_limits = map vl_name (limits_for a job sid), rv_at = now\<rparr>" "reservations a"]
        by (auto simp: reserve_slot_def Let_def limit_reserved_def)
    qed
    moreover have "limit_active ?a lim = limit_active a lim" "limits ?a = limits a"
      using True by (simp_all add: reserve_slot_def Let_def)
    ultimately show ?thesis
      using room Some
      by (cases "lim \<in> set (limits_for a job sid)"; cases "lim \<in> set (limits a)")
        (simp_all add: agent_used_def agent_cap_def)
  qed
qed

lemma release_slot_used: "agent_used (release_slot n a) l \<le> agent_used a l"
  using filter_delete_le [of "\<lambda>(_, r). vl_name (the l) \<in> set (rv_limits r)" n "reservations a"]
    length_hm_remove_le [of n "reservations a"]
  by (auto simp: agent_used_def release_slot_def reserved_slots_def limit_reserved_def
      split: option.splits)

interpretation agent_slots: slot_pool agent_used agent_cap "\<lambda>_. True" agent_take release_slot "\<lambda>_. True"
proof (unfold_locales, goal_cases)
  case (2 s n r l)
  then show ?case by (simp add: agent_take_def reserve_slot_def Let_def agent_cap_def split: option.splits)
next
  case (3 s r n l)
  show ?case using reserve_slot_used by (simp add: agent_take_def)
next
  case (4 n r s)
  then show ?case by (simp add: agent_take_def reserve_slot_def Let_def split: if_splits)
next
  case (6 s n l)
  show ?case by (simp add: agent_cap_def release_slot_def split: option.splits)
qed (simp_all add: release_slot_used)

end
