(* ===== verification/Registration.thy ===== *)
theory Registration
  imports Auth_Store Agent_Connection Connected_Agent
begin

text \<open>
  The registration service of \<^verbatim>\<open>kuiper-forge/src/server.rs\<close> over the store of \<^verbatim>\<open>auth.rs\<close>, the trust it
  hands out (\<^verbatim>\<open>tls.rs\<close>), the id an agent gets, and what an agent of \<open>Agent_Connection\<close> that
  registers with it ends up with. Hostnames are lists of the code points up to U+00FF, one character each. Reading
  a certificate's common name and formatting a time are parameters.
\<close>

section \<open>Agent ids\<close>

text \<open>\<^verbatim>\<open>char::is_alphanumeric\<close> for the code points up to U+00FF: the letters and, of the signs of
  Latin 1, the superscript digits and fractions, which are numeric, and the ordinals and the micro sign, which are
  letters.\<close>

definition is_alphanumeric :: "char \<Rightarrow> bool" where
  "is_alphanumeric c \<longleftrightarrow> (let n = of_char c :: nat in
     ascii_alphanumeric c \<or> n \<in> {0xAA, 0xB2, 0xB3, 0xB5, 0xB9, 0xBA, 0xBC, 0xBD, 0xBE}
     \<or> 0xC0 \<le> n \<and> n \<noteq> 0xD7 \<and> n \<noteq> 0xF7)"

definition latin1_lower :: "char \<Rightarrow> char" where
  "latin1_lower c = (let n = of_char c :: nat in
     if 65 \<le> n \<and> n \<le> 90 \<or> 0xC0 \<le> n \<and> n \<le> 0xDE \<and> n \<noteq> 0xD7 then char_of (n + 32) else c)"

definition sanitize_hostname :: "string \<Rightarrow> string" where
  "sanitize_hostname host =
     map latin1_lower (map (\<lambda>c. if is_alphanumeric c \<or> c = CHR ''-'' then c else CHR ''-'') host)"

definition new_agent_id :: "string \<Rightarrow> string \<Rightarrow> string \<Rightarrow> string" where
  "new_agent_id kind host random = ''agent_'' @ kind @ ''_'' @ sanitize_hostname host @ ''_'' @ random"

text \<open>The alternative name of the certificate is an \<^verbatim>\<open>Ia5String\<close>: \<^verbatim>\<open>try_into().unwrap()\<close> panics on an id that
  is not ASCII. A panic ends the request like an error would.\<close>

definition is_ascii :: "char \<Rightarrow> bool" where
  "is_ascii c \<longleftrightarrow> (of_char c :: nat) < 128"

definition sign_agent ::
    "(string \<Rightarrow> string + string \<times> string \<times> string) \<Rightarrow> string \<Rightarrow> string + string \<times> string \<times> string" where
  "sign_agent sign aid = (if list_all is_ascii aid then sign aid else Inl ''panicked'')"

section \<open>The registration service\<close>

datatype trust_mode = TrustCa | TrustChain

record server_trust =
  sr_ca_pem :: "string option"
  sr_mode :: trust_mode

record tls_files =
  tf_ca_cert :: string
  tf_server_ca_cert :: "string option"
  tf_mode :: trust_mode
  tf_native_roots :: bool

definition read_pem :: "(string \<Rightarrow> string option) \<Rightarrow> string \<Rightarrow> string + string" where
  "read_pem files path = (case files path of
     None \<Rightarrow> Inl ''Failed to read server CA cert''
   | Some text \<Rightarrow> let trimmed = str_trim text in if trimmed = [] then Inl (''Empty PEM file: '' @ path) else Inr trimmed)"

definition build_server_trust :: "(string \<Rightarrow> string option) \<Rightarrow> tls_files \<Rightarrow> string + server_trust" where
  "build_server_trust files tls =
     (let path = (case tf_server_ca_cert tls of None \<Rightarrow> tf_ca_cert tls | Some p \<Rightarrow> p);
          pem = (if tf_mode tls = TrustChain \<and> tf_native_roots tls then Inr None
                 else map_sum id Some (read_pem files path))
      in case pem of
           Inl e \<Rightarrow> Inl e
         | Inr ca \<Rightarrow> Inr \<lparr>sr_ca_pem = ca, sr_mode = tf_mode tls\<rparr>)"

text \<open>What a registration needs from outside: the clock, the random suffix, whether the two statements reach the
  database.\<close>

record reg_env =
  rv_now :: nat
  rv_random :: string
  rv_consumes :: bool
  rv_stores :: bool

definition register_rpc ::
    "(string \<Rightarrow> string + string \<times> string \<times> string) \<Rightarrow> (nat \<Rightarrow> string) \<Rightarrow> server_trust \<Rightarrow> reg_env \<Rightarrow> register_request
     \<Rightarrow> auth_db \<Rightarrow> (string + register_response) \<times> auth_db" where
  "register_rpc sign rfc3339 trust v rq db = (case parse_agent_type (rq_agent_type rq) of
     Inl e \<Rightarrow> (Inl e, db)
   | Inr kind \<Rightarrow>
       (case exchange_token (sign_agent sign) (rv_consumes v) (rv_stores v) (rv_now v) (rq_registration_token rq)
               (new_agent_id kind (rq_hostname rq) (rv_random v)) (rq_hostname rq) kind db of
          (Inl e, db') \<Rightarrow> (Inl (''Registration failed: '' @ e), db')
        | (Inr c, db') \<Rightarrow>
            (Inr \<lparr>rs_agent_id = ac_agent_id c, rs_client_cert_pem = ac_cert_pem c, rs_client_key_pem = ac_key_pem c,
                  rs_expires_at = rfc3339 (ac_expires_at c),
                  rs_server_ca_pem = (case sr_ca_pem trust of None \<Rightarrow> [] | Some pem \<Rightarrow> pem),
                  rs_server_trust_mode = (case sr_mode trust of TrustCa \<Rightarrow> ''ca'' | TrustChain \<Rightarrow> ''chain'')\<rparr>, db')))"

section \<open>Who calls\<close>

text \<open>What a request carries: the peer certificates of \<^verbatim>\<open>TlsConnectInfo\<close>, if the extension is there, or those
  of the webhook mode. \<open>cn\<close> reads the common name of a certificate, or fails to parse it.\<close>

record peer_info =
  pe_tls :: "string list option option"
  pe_custom :: "string list option"

definition extract_agent_id :: "(string \<Rightarrow> string + string option) \<Rightarrow> peer_info \<Rightarrow> string + string" where
  "extract_agent_id cn peer =
     (let no_cert = ''No client certificate presented - mTLS required for agent service'';
          der = (case pe_tls peer of
              Some None \<Rightarrow> Inl no_cert
            | Some (Some []) \<Rightarrow> Inl ''Empty client certificate chain''
            | Some (Some (c # _)) \<Rightarrow> Inr c
            | None \<Rightarrow> (case pe_custom peer of
                Some [] \<Rightarrow> Inl no_cert
              | Some (c # _) \<Rightarrow> Inr c
              | None \<Rightarrow> Inl ''No TLS connection info - TLS required''))
      in case der of
           Inl e \<Rightarrow> Inl e
         | Inr c \<Rightarrow> (case cn c of
             Inl e \<Rightarrow> Inl (''Invalid client certificate: '' @ e)
           | Inr None \<Rightarrow> Inl ''No CN in client certificate''
           | Inr (Some name) \<Rightarrow> Inr name))"

section \<open>Lemmas\<close>

lemma exchange_Inr:
  assumes "exchange_token sign ok ok' now tok aid host kind db = (Inr c, db')"
  shows "ac_agent_id c = aid \<and> (\<exists>cert key serial. sign aid = Inr (cert, key, serial)
      \<and> ac_cert_pem c = cert \<and> ac_key_pem c = key)
    \<and> (\<exists>t. hm_get (au_tokens db) tok = Some t \<and> now \<le> tok_expires_at t) \<and> hm_get (au_tokens db') tok = None
    \<and> is_agent_valid True now aid db'"
  using assms
  by (auto simp: exchange_token_def consume_token_def store_agent_def is_agent_valid_def year_seconds_def Let_def
      split: if_splits option.splits sum.splits prod.splits)


section \<open>Properties\<close>

text \<open>C18: An agent whose registration succeeds holds an identity that the coordinator accepts: the agent id on
  its disk is the one in the coordinator's table, valid right after, its certificate and key are the ones signed
  for that id, and the token it spent is gone.\<close>

theorem registered_agent_is_accepted:
  assumes "result (register_agent io net cfg) s = Inr tls"
    and "\<And>t rq. net_register net t rq = fst (register_rpc sign rfc3339 trust (v t) rq (db t))"
  shows "\<exists>t rq aid exp cert key serial. ck_meta (exec (register_agent io net cfg) s) = Some (aid, Some exp)
    \<and> is_agent_valid True (rv_now (v t)) aid (snd (register_rpc sign rfc3339 trust (v t) rq (db t)))
    \<and> sign aid = Inr (cert, key, serial) \<and> tl_identity tls = Some (cert, key)
    \<and> ac_registration_token cfg = Some (rq_registration_token rq)
    \<and> hm_get (au_tokens (snd (register_rpc sign rfc3339 trust (v t) rq (db t)))) (rq_registration_token rq) = None"
proof -
  obtain t token r where tok: "ac_registration_token cfg = Some token"
    and ans: "net_register net t \<lparr>rq_registration_token = token, rq_hostname = net_hostname net,
                           rq_agent_type = ac_agent_type cfg\<rparr> = Inr r" (is "net_register net t ?rq = _")
    and files: "ck_meta (exec (register_agent io net cfg) s) = Some (rs_agent_id r, Some (rs_expires_at r))"
    and ident: "tl_identity tls = Some (rs_client_cert_pem r, rs_client_key_pem r)"
    using registration_stores_issued [OF assms(1)] by (auto simp: cert_files_def)
  have "fst (register_rpc sign rfc3339 trust (v t) ?rq (db t)) = Inr r" using ans assms(2) by simp
  then obtain kind c db' where ex: "exchange_token (sign_agent sign) (rv_consumes (v t)) (rv_stores (v t)) (rv_now (v t)) token
      (new_agent_id kind (net_hostname net) (rv_random (v t))) (net_hostname net) kind (db t) = (Inr c, db')"
    and r: "rs_agent_id r = ac_agent_id c" "rs_client_cert_pem r = ac_cert_pem c" "rs_client_key_pem r = ac_key_pem c"
    and db': "snd (register_rpc sign rfc3339 trust (v t) ?rq (db t)) = db'"
    by (auto simp: register_rpc_def split: sum.splits prod.splits)
  show ?thesis
    using exchange_Inr [OF ex] tok files ident r db'
    by (intro exI [of _ t] exI [of _ ?rq]) (auto simp: sign_agent_def split: if_splits)
qed


lemma latin1_lower_alnum: "ascii_alphanumeric c \<Longrightarrow> ascii_alphanumeric (latin1_lower c)"
  by (auto simp: ascii_alphanumeric_def latin1_lower_def Let_def)

lemma alphanumeric_ascii: "is_ascii c \<Longrightarrow> is_alphanumeric c \<longleftrightarrow> ascii_alphanumeric c"
  unfolding is_alphanumeric_def is_ascii_def Let_def by auto

lemma sanitize_char:
  assumes "is_ascii c"
  shows "ascii_alphanumeric (latin1_lower (if is_alphanumeric c \<or> c = CHR ''-'' then c else CHR ''-''))
    \<or> latin1_lower (if is_alphanumeric c \<or> c = CHR ''-'' then c else CHR ''-'') = CHR ''-''"
proof -
  have "latin1_lower (CHR ''-'') = CHR ''-''" by (simp add: latin1_lower_def)
  then show ?thesis using alphanumeric_ascii [OF assms] latin1_lower_alnum by auto
qed

text \<open>An agent id of a plain hostname is ASCII letters, digits, '-' and '_'.\<close>

theorem ascii_hostname_id:
  assumes "list_all is_ascii host" and "parse_agent_type s = Inr kind" and "list_all ascii_alphanumeric random"
  shows "list_all (\<lambda>c. ascii_alphanumeric c \<or> c = CHR ''-'' \<or> c = CHR ''_'') (new_agent_id kind host random)"
proof -
  have "list_all agent_type_char kind" using assms(2) by (auto simp: parse_agent_type_def Let_def split: if_splits)
  then have "list_all (\<lambda>c. ascii_alphanumeric c \<or> c = CHR ''-'') kind"
    by (auto simp: list_all_iff agent_type_char_def ascii_alphanumeric_def Let_def)
  moreover have "list_all (\<lambda>c. ascii_alphanumeric c \<or> c = CHR ''-'') (sanitize_hostname host)"
    using assms(1) sanitize_char by (simp add: sanitize_hostname_def list_all_iff)
  ultimately show ?thesis
    using assms(3) by (auto simp: new_agent_id_def list_all_iff ascii_alphanumeric_def)
qed

definition sample_reg_env :: reg_env where
  "sample_reg_env = \<lparr>rv_now = 20, rv_random = ''Ab1'', rv_consumes = True, rv_stores = True\<rparr>"

definition sample_trust :: server_trust where
  "sample_trust = \<lparr>sr_ca_pem = Some ''pem'', sr_mode = TrustCa\<rparr>"


text \<open>An agent with no certificate yet, on a host whose coordinator is the sample store.\<close>

definition sample_net :: agent_net where
  "sample_net = \<lparr>net_hostname = ''h'', net_url_error = \<lambda>_. None, net_dial = \<lambda>_ _. True,
     net_register = \<lambda>_ rq. fst (register_rpc sample_sign (\<lambda>_. ''x'') sample_trust sample_reg_env rq sample_auth)\<rparr>"

definition sample_config :: agent_config where
  "sample_config = \<lparr>ac_coordinator_url = ''u'', ac_coordinator_hostname = ''c'',
     ac_registration_token = Some ''reg_abc'', ac_agent_type = ''tart''\<rparr>"

definition sample_certs :: cert_store where
  "sample_certs = \<lparr>ck_tick = 0, ck_cert = None, ck_key = None, ck_ca = Some ''pem'', ck_mode = None, ck_meta = None\<rparr>"

lemma sample_registers:
  "\<exists>tls. result (register_agent (\<lambda>_. True) sample_net sample_config) sample_certs = Inr tls"
proof -
  have "parse_agent_type ''tart'' = Inr ''tart''"
    by (simp add: parse_agent_type_def to_lowercase_def ascii_lower_def agent_type_char_def)
  moreover have "list_all is_ascii (new_agent_id ''tart'' ''h'' ''Ab1'')"
    by (simp add: new_agent_id_def sanitize_hostname_def is_alphanumeric_def ascii_alphanumeric_def latin1_lower_def is_ascii_def)
  ultimately have "\<exists>r. fst (register_rpc sample_sign (\<lambda>_. ''x'') sample_trust sample_reg_env
      \<lparr>rq_registration_token = ''reg_abc'', rq_hostname = ''h'', rq_agent_type = ''tart''\<rparr> sample_auth) = Inr r
      \<and> rs_server_trust_mode r = ''ca'' \<and> rs_server_ca_pem r = ''pem''"
    by (simp add: register_rpc_def sample_reg_env_def sample_eval sign_agent_def sample_trust_def)
  then obtain r where r: "fst (register_rpc sample_sign (\<lambda>_. ''x'') sample_trust sample_reg_env
      \<lparr>rq_registration_token = ''reg_abc'', rq_hostname = ''h'', rq_agent_type = ''tart''\<rparr> sample_auth) = Inr r"
    "rs_server_trust_mode r = ''ca''" "rs_server_ca_pem r = ''pem''" by blast
  have trim: "str_trim ''pem'' = ''pem''" "str_trim ''ca'' = ''ca''" by (simp_all add: str_trim_def is_white_def)
  show ?thesis
    by (simp add: register_agent_def register_and_connect_def connect_channel_def load_server_trust_mode_def
        load_server_ca_pem_def run_read_file run_write_file build_tls_config_def Let_def trim sample_net_def sample_config_def
        sample_certs_def r save_server_trust_mode_def save_ca_def save_with_expiry_def save_certs_def
        connect_with_mtls_def load_identity_pem_def)
qed

theorem registered_agent_is_accepted_witness:
  "\<exists>rq aid exp. ck_meta (exec (register_agent (\<lambda>_. True) sample_net sample_config) sample_certs) = Some (aid, Some exp)
    \<and> is_agent_valid True 20 aid (snd (register_rpc sample_sign (\<lambda>_. ''x'') sample_trust sample_reg_env rq sample_auth))"
proof -
  obtain tls where tls: "result (register_agent (\<lambda>_. True) sample_net sample_config) sample_certs = Inr tls"
    using sample_registers by blast
  have "net_register sample_net t rq = fst (register_rpc sample_sign (\<lambda>_. ''x'') sample_trust sample_reg_env rq sample_auth)" for t rq
    by (simp add: sample_net_def)
  from registered_agent_is_accepted [where v = "\<lambda>_. sample_reg_env" and db = "\<lambda>_. sample_auth", OF tls this]
  show ?thesis by (auto simp: sample_reg_env_def)
qed

end
