(* ===== verification/Agent_Session.thy ===== *)
theory Agent_Session
  imports Proto
begin

text \<open>
  \<^verbatim>\<open>kuiper-agent-lib/src/runtime.rs\<close>: the driver between an agent and the coordinator. Events the agent
  sends and commands it receives go through bounded channels, a stream session forwards them while it
  lasts, and the driver reconnects with a backoff. One step is one channel operation, one message of the
  stream, or one end of a connection attempt or session, in any order; a \<^verbatim>\<open>send().await\<close> that waits for
  room is the message that is being sent. The last fields of the state are a log: what went through.
\<close>

section \<open>The driver\<close>

definition CHANNEL_CAPACITY :: nat where "CHANNEL_CAPACITY = 32"

datatype runner_command = CreateRunnerCmd create_runner_command | DestroyRunnerCmd string string

record driver =
  dv_connected :: bool
  dv_stopped :: bool
  dv_closed :: bool
  dv_status :: agent_status
  dv_events :: "agent_payload list"
  dv_sending :: "agent_payload list"
  dv_out :: "agent_payload list"
  dv_command :: "runner_command option"
  dv_commands :: "runner_command list"
  dv_delay :: nat
  dv_emitted :: "agent_payload list"
  dv_wire :: "agent_payload list"
  dv_fate :: "(agent_payload \<times> bool) list"
  dv_ends :: nat
  dv_received :: "runner_command list"
  dv_taken :: "runner_command list"

definition start_driver :: "nat \<Rightarrow> agent_status \<Rightarrow> driver" where
  "start_driver initial status =
     \<lparr>dv_connected = False, dv_stopped = False, dv_closed = False, dv_status = status, dv_events = [],
      dv_sending = [], dv_out = [], dv_command = None, dv_commands = [], dv_delay = initial, dv_emitted = [],
      dv_wire = [], dv_fate = [], dv_ends = 0, dv_received = [], dv_taken = []\<rparr>"

text \<open>The agent's own messages, \<^verbatim>\<open>command_ack\<close> and \<^verbatim>\<open>runner_event\<close>.\<close>

fun is_event :: "agent_payload \<Rightarrow> bool" where
  "is_event (Ack _) = True"
| "is_event (RunnerEvent _) = True"
| "is_event _ = False"

section \<open>Steps\<close>

datatype driver_step =
    AgentSends agent_payload
  | AgentTakes
  | AgentSets agent_status
  | AgentCloses
  | ConnectFails
  | Connects
  | TakesEvent
  | SendDone
  | PushesStatus
  | StreamSends
  | StreamBrings "coordinator_payload option"
  | CommandDone
  | SessionEnds

text \<open>\<^verbatim>\<open>EventSender::send\<close>.\<close>

definition agent_sends :: "agent_payload \<Rightarrow> driver \<Rightarrow> driver option" where
  "agent_sends m d =
     (if is_event m \<and> \<not> dv_closed d \<and> \<not> dv_stopped d \<and> length (dv_events d) < CHANNEL_CAPACITY
      then Some (d\<lparr>dv_events := dv_events d @ [m], dv_emitted := dv_emitted d @ [m]\<rparr>) else None)"

definition agent_takes :: "driver \<Rightarrow> driver option" where
  "agent_takes d = (case dv_commands d of
     [] \<Rightarrow> None
   | c # cs \<Rightarrow> if dv_closed d then None else Some (d\<lparr>dv_commands := cs, dv_taken := dv_taken d @ [c]\<rparr>))"

text \<open>What \<^verbatim>\<open>run\<close> does after a failed connect or an ended session.\<close>

definition reconnect :: "nat \<Rightarrow> driver \<Rightarrow> driver" where
  "reconnect max_delay d =
     (if dv_closed d then d\<lparr>dv_stopped := True\<rparr> else d\<lparr>dv_delay := min (dv_delay d * 2) max_delay\<rparr>)"

definition connect_fails :: "nat \<Rightarrow> driver \<Rightarrow> driver option" where
  "connect_fails max_delay d =
     (if \<not> dv_connected d \<and> \<not> dv_stopped d then Some (reconnect max_delay d) else None)"

text \<open>A connect that succeeds, and \<^verbatim>\<open>run_session\<close> up to its loop: the status is the first message.\<close>

definition connects :: "nat \<Rightarrow> driver \<Rightarrow> driver option" where
  "connects initial d =
     (if \<not> dv_connected d \<and> \<not> dv_stopped d
      then Some (d\<lparr>dv_connected := True, dv_delay := initial, dv_out := [Status (dv_status d)], dv_sending := []\<rparr>)
      else None)"

text \<open>The loop of \<^verbatim>\<open>run_session\<close> waits in its \<^verbatim>\<open>select\<close> when nothing is being sent.\<close>

definition in_select :: "driver \<Rightarrow> bool" where
  "in_select d \<longleftrightarrow> dv_connected d \<and> dv_sending d = [] \<and> dv_command d = None"

definition takes_event :: "driver \<Rightarrow> driver option" where
  "takes_event d = (case dv_events d of
     [] \<Rightarrow> None
   | m # ms \<Rightarrow> if in_select d then Some (d\<lparr>dv_events := ms, dv_sending := [m]\<rparr>) else None)"

text \<open>A send on the session's channel is done. After its pong, a ping's answer goes on with the status.\<close>

definition send_done :: "driver \<Rightarrow> driver option" where
  "send_done d = (case dv_sending d of
     [] \<Rightarrow> None
   | m # _ \<Rightarrow>
       if dv_connected d \<and> length (dv_out d) < CHANNEL_CAPACITY
       then Some (d\<lparr>dv_out := dv_out d @ [m], dv_sending := (if m = Pong then [Status (dv_status d)] else [])\<rparr>)
       else None)"

text \<open>\<^verbatim>\<open>push_status\<close>, on a change or its timer.\<close>

definition pushes_status :: "driver \<Rightarrow> driver option" where
  "pushes_status d =
     (if dv_connected d \<and> length (dv_out d) < CHANNEL_CAPACITY
      then Some (d\<lparr>dv_out := dv_out d @ [Status (dv_status d)]\<rparr>) else None)"

text \<open>The stream takes a message from the session's channel and delivers it.\<close>

definition stream_sends :: "driver \<Rightarrow> driver option" where
  "stream_sends d = (case dv_out d of
     [] \<Rightarrow> None
   | m # ms \<Rightarrow>
       if dv_connected d
       then Some (d\<lparr>dv_out := ms, dv_wire := dv_wire d @ [m],
                    dv_fate := dv_fate d @ (if is_event m then [(m, True)] else [])\<rparr>)
       else None)"

text \<open>\<^verbatim>\<open>handle_inbound\<close>.\<close>

definition handle_inbound :: "coordinator_payload option \<Rightarrow> driver \<Rightarrow> driver" where
  "handle_inbound msg d = (case msg of
     None \<Rightarrow> d
   | Some Ping \<Rightarrow> d\<lparr>dv_sending := [Pong]\<rparr>
   | Some (CreateRunner cmd) \<Rightarrow>
       d\<lparr>dv_command := Some (CreateRunnerCmd cmd), dv_received := dv_received d @ [CreateRunnerCmd cmd]\<rparr>
   | Some (DestroyRunner cid vm) \<Rightarrow>
       d\<lparr>dv_command := Some (DestroyRunnerCmd cid vm), dv_received := dv_received d @ [DestroyRunnerCmd cid vm]\<rparr>)"

definition stream_brings :: "coordinator_payload option \<Rightarrow> driver \<Rightarrow> driver option" where
  "stream_brings msg d = (if in_select d then Some (handle_inbound msg d) else None)"

definition command_done :: "driver \<Rightarrow> driver option" where
  "command_done d = (case dv_command d of
     None \<Rightarrow> None
   | Some c \<Rightarrow>
       if length (dv_commands d) < CHANNEL_CAPACITY \<and> \<not> dv_closed d
       then Some (d\<lparr>dv_command := None, dv_commands := dv_commands d @ [c]\<rparr>) else None)"

text \<open>The session ends: the stream closed or failed, or the agent dropped its side. A command that waits for room
  keeps the loop from noticing, unless the agent is gone. The session's channel goes with it.\<close>

definition session_ends :: "nat \<Rightarrow> driver \<Rightarrow> driver option" where
  "session_ends max_delay d =
     (if dv_connected d \<and> (dv_command d = None \<or> dv_closed d)
      then Some (reconnect max_delay
        (d\<lparr>dv_connected := False, dv_command := None, dv_out := [], dv_sending := [],
           dv_fate := dv_fate d @ map (\<lambda>m. (m, False)) (filter is_event (dv_out d @ dv_sending d)),
           dv_ends := dv_ends d + 1\<rparr>))
      else None)"

fun driver_do :: "nat \<Rightarrow> nat \<Rightarrow> driver_step \<Rightarrow> driver \<Rightarrow> driver option" where
  "driver_do initial mx (AgentSends m) d = agent_sends m d"
| "driver_do initial mx AgentTakes d = agent_takes d"
| "driver_do initial mx (AgentSets st) d = Some (d\<lparr>dv_status := st\<rparr>)"
| "driver_do initial mx AgentCloses d = Some (d\<lparr>dv_closed := True\<rparr>)"
| "driver_do initial mx ConnectFails d = connect_fails mx d"
| "driver_do initial mx Connects d = connects initial d"
| "driver_do initial mx TakesEvent d = takes_event d"
| "driver_do initial mx SendDone d = send_done d"
| "driver_do initial mx PushesStatus d = pushes_status d"
| "driver_do initial mx StreamSends d = stream_sends d"
| "driver_do initial mx (StreamBrings msg) d = stream_brings msg d"
| "driver_do initial mx CommandDone d = command_done d"
| "driver_do initial mx SessionEnds d = session_ends mx d"

inductive driver_reach :: "nat \<Rightarrow> nat \<Rightarrow> driver \<Rightarrow> bool" for initial mx :: nat where
  start: "driver_reach initial mx (start_driver initial status)"
| step: "\<lbrakk>driver_reach initial mx d; driver_do initial mx st d = Some d'\<rbrakk> \<Longrightarrow> driver_reach initial mx d'"

section \<open>The invariant\<close>

lemmas driver_defs = agent_sends_def agent_takes_def connect_fails_def connects_def takes_event_def send_done_def
  pushes_status_def stream_sends_def stream_brings_def handle_inbound_def command_done_def session_ends_def
  reconnect_def in_select_def

text \<open>Events that left the agent and are still on their way to the stream, in order.\<close>

definition events_waiting :: "driver \<Rightarrow> agent_payload list" where
  "events_waiting d = filter is_event (dv_out d @ dv_sending d) @ dv_events d"

definition commands_waiting :: "driver \<Rightarrow> runner_command list" where
  "commands_waiting d = dv_commands d @ (case dv_command d of None \<Rightarrow> [] | Some c \<Rightarrow> [c])"

definition session_channels_ok :: "driver \<Rightarrow> bool" where
  "session_channels_ok d \<longleftrightarrow>
     length (dv_events d) \<le> CHANNEL_CAPACITY \<and> length (dv_out d) \<le> CHANNEL_CAPACITY
   \<and> length (dv_commands d) \<le> CHANNEL_CAPACITY \<and> length (dv_sending d) \<le> 1
   \<and> (\<forall>m \<in> set (dv_events d). is_event m)
   \<and> (\<not> dv_connected d \<longrightarrow> dv_out d = [] \<and> dv_sending d = [] \<and> dv_command d = None)"

definition events_ok :: "driver \<Rightarrow> bool" where
  "events_ok d \<longleftrightarrow>
     dv_emitted d = map fst (dv_fate d) @ events_waiting d
   \<and> filter is_event (dv_wire d) = map fst (filter snd (dv_fate d))"

definition losses_ok :: "driver \<Rightarrow> bool" where
  "losses_ok d \<longleftrightarrow> length (filter (\<lambda>f. \<not> snd f) (dv_fate d)) \<le> (CHANNEL_CAPACITY + 1) * dv_ends d"

definition commands_ok :: "driver \<Rightarrow> bool" where
  "commands_ok d \<longleftrightarrow> dv_closed d \<or> dv_received d = dv_taken d @ commands_waiting d"

definition delay_ok :: "nat \<Rightarrow> nat \<Rightarrow> driver \<Rightarrow> bool" where
  "delay_ok initial mx d \<longleftrightarrow> min initial mx \<le> dv_delay d \<and> dv_delay d \<le> max initial mx"

lemmas driver_splits = if_splits list.splits option.splits coordinator_payload.splits

lemma session_channels_ok_step:
  assumes "session_channels_ok d" and "driver_do initial mx st d = Some d'"
  shows "session_channels_ok d'"
  using assms(2)
  by (cases st; insert assms(1); auto simp: session_channels_ok_def driver_defs CHANNEL_CAPACITY_def split: driver_splits)

lemma out_events_bound:
  "session_channels_ok d \<Longrightarrow> length (filter is_event (dv_out d @ dv_sending d)) \<le> CHANNEL_CAPACITY + 1"
  using length_filter_le [of is_event "dv_out d @ dv_sending d"] by (simp add: session_channels_ok_def)

lemma filter_lost [simp]:
  "filter snd (map (\<lambda>m. (m, False)) ms) = []" "filter (\<lambda>f. \<not> snd f) (map (\<lambda>m. (m, False)) ms) = map (\<lambda>m. (m, False)) ms"
  by (induction ms) simp_all

lemma events_ok_step:
  assumes "session_channels_ok d" and "events_ok d" and "driver_do initial mx st d = Some d'"
  shows "events_ok d'"
proof -
  have len: "dv_sending d = m # ms \<Longrightarrow> ms = []" for m ms using assms(1) by (simp add: session_channels_ok_def)
  show ?thesis
  proof (cases st)
    case TakesEvent
    then show ?thesis using assms
      by (auto simp: events_ok_def events_waiting_def session_channels_ok_def takes_event_def in_select_def split: driver_splits)
  next
    case SendDone
    then show ?thesis using assms len
      by (auto simp: events_ok_def events_waiting_def send_done_def split: driver_splits)
  next
    case SessionEnds
    then show ?thesis using assms
      by (auto simp: events_ok_def events_waiting_def session_ends_def reconnect_def comp_def split: if_splits)
  next
    case (StreamBrings msg)
    then show ?thesis using assms
      by (auto simp: events_ok_def events_waiting_def stream_brings_def handle_inbound_def in_select_def split: driver_splits)
  next
    case Connects
    then show ?thesis using assms
      by (auto simp: events_ok_def events_waiting_def connects_def session_channels_ok_def split: if_splits)
  qed (use assms in \<open>auto simp: events_ok_def events_waiting_def agent_sends_def agent_takes_def connect_fails_def
      reconnect_def pushes_status_def stream_sends_def command_done_def split: driver_splits\<close>)
qed

lemma losses_ok_step:
  assumes "session_channels_ok d" and "losses_ok d" and "driver_do initial mx st d = Some d'"
  shows "losses_ok d'"
proof (cases st)
  case SessionEnds
  then show ?thesis
    using assms out_events_bound [OF assms(1)]
    by (auto simp: losses_ok_def session_ends_def reconnect_def split: if_splits)
qed (use assms in \<open>auto simp: losses_ok_def agent_sends_def agent_takes_def connect_fails_def connects_def takes_event_def
      send_done_def stream_brings_def handle_inbound_def
      reconnect_def pushes_status_def stream_sends_def command_done_def split: driver_splits\<close>)

lemma commands_ok_step:
  assumes "session_channels_ok d" and "commands_ok d" and "driver_do initial mx st d = Some d'"
  shows "commands_ok d'"
  using assms(3)
  by (cases st; insert assms(1,2);
      auto simp: session_channels_ok_def commands_ok_def commands_waiting_def driver_defs split: driver_splits)

lemma delay_ok_step:
  assumes "delay_ok initial mx d" and "driver_do initial mx st d = Some d'"
  shows "delay_ok initial mx d'"
  using assms(2)
  by (cases st; insert assms(1); auto simp: delay_ok_def driver_defs split: driver_splits)

lemma driver_reach_ok:
  "driver_reach initial mx d \<Longrightarrow> session_channels_ok d \<and> events_ok d \<and> losses_ok d \<and> commands_ok d \<and> delay_ok initial mx d"
proof (induction rule: driver_reach.induct)
  case (start status)
  then show ?case
    by (simp add: start_driver_def session_channels_ok_def events_ok_def events_waiting_def losses_ok_def commands_ok_def
        commands_waiting_def delay_ok_def)
next
  case (step d st d')
  then show ?case
    by (blast intro: session_channels_ok_step events_ok_step losses_ok_step commands_ok_step delay_ok_step)
qed

lemma session_end_run:
  "\<exists>d. driver_reach 1 60 d \<and> dv_emitted d = [RunnerEvent ev] \<and> \<not> dv_closed d \<and> dv_wire d = [] \<and> events_waiting d = []
     \<and> dv_ends d = 1"
proof -
  obtain st :: agent_status where True by blast
  define d0 where "d0 = start_driver 1 st"
  obtain d1 where d1: "connects 1 d0 = Some d1" by (simp add: connects_def d0_def start_driver_def)
  obtain d2 where d2: "agent_sends (RunnerEvent ev) d1 = Some d2"
    using d1 by (auto simp: connects_def agent_sends_def d0_def start_driver_def CHANNEL_CAPACITY_def)
  obtain d3 where d3: "takes_event d2 = Some d3"
    using d1 d2 by (auto simp: connects_def agent_sends_def takes_event_def in_select_def d0_def start_driver_def CHANNEL_CAPACITY_def)
  obtain d4 where d4: "session_ends 60 d3 = Some d4"
    using d1 d2 d3 by (auto simp: driver_defs d0_def start_driver_def CHANNEL_CAPACITY_def)
  have "driver_reach 1 60 d0" unfolding d0_def by (rule driver_reach.start)
  then have "driver_reach 1 60 d1" by (rule driver_reach.step [where st = Connects]) (simp only: driver_do.simps d1)
  then have "driver_reach 1 60 d2"
    by (rule driver_reach.step [where st = "AgentSends (RunnerEvent ev)"]) (simp only: driver_do.simps d2)
  then have "driver_reach 1 60 d3" by (rule driver_reach.step [where st = TakesEvent]) (simp only: driver_do.simps d3)
  then have "driver_reach 1 60 d4" by (rule driver_reach.step [where st = SessionEnds]) (simp only: driver_do.simps d4)
  moreover have "dv_emitted d4 = [RunnerEvent ev] \<and> \<not> dv_closed d4 \<and> dv_wire d4 = [] \<and> events_waiting d4 = []
      \<and> dv_ends d4 = 1"
    using d1 d2 d3 d4 by (auto simp: driver_defs d0_def start_driver_def CHANNEL_CAPACITY_def events_waiting_def)
  ultimately show ?thesis by blast
qed

section \<open>Properties\<close>




text \<open>Until the agent drops its connection, it takes the coordinator's commands once each and in the order the
  stream brought them, across sessions; at most 33 wait for it.\<close>

theorem commands_taken_in_order:
  assumes "driver_reach initial mx d" and "\<not> dv_closed d"
  shows "dv_received d = dv_taken d @ commands_waiting d \<and> length (commands_waiting d) \<le> 33"
  using driver_reach_ok [OF assms(1)] assms(2)
  by (auto simp: session_channels_ok_def commands_ok_def commands_waiting_def CHANNEL_CAPACITY_def split: option.splits)

text \<open>An event that has left the event channel when its session ends is gone: it is neither delivered nor sent
  again.\<close>

theorem session_end_loses_event:
  "\<exists>d. driver_reach 1 60 d \<and> dv_emitted d = [RunnerEvent ev] \<and> \<not> dv_closed d \<and> dv_wire d = [] \<and> events_waiting d = []"
  using session_end_run by blast

end
