(* ===== verification/Admin_Auth.thy ===== *)
theory Admin_Auth
  imports Prelude
begin

text \<open>
  Admin users, their sessions and API tokens: \<^verbatim>\<open>kuiper-forge/src/admin/auth.rs\<close>,
  \<^verbatim>\<open>admin/api_tokens.rs\<close>, the handlers of \<^verbatim>\<open>admin/user_routes.rs\<close> and \<^verbatim>\<open>admin/api_token_routes.rs\<close>
  and the login of \<^verbatim>\<open>admin/routes.rs\<close>. Password hashing and SHA-256 are parameters. Of the statements
  an operation runs, the \<open>i\<close>-th succeeds when \<open>q i\<close>; a time is a number.
\<close>

section \<open>Tables\<close>

record admin_user =
  ad_username :: string
  ad_password_hash :: string
  ad_user_created :: nat
  ad_last_login :: "nat option"

record admin_session =
  as_session_id :: string
  as_username :: string
  as_created_at :: nat
  as_expires_at :: nat
  as_ip_address :: "string option"
  as_user_agent :: "string option"

record api_token =
  at_id :: string
  at_name :: string
  at_token_prefix :: string
  at_created_by :: string
  at_created_at :: nat
  at_last_used_at :: "nat option"

text \<open>The row of a token has its hash, which is unique.\<close>

record api_token_row = api_token +
  at_token_hash :: string

record admin_db =
  ad_users :: "(string, admin_user) hashmap"
  ad_sessions :: "(string, admin_session) hashmap"
  ad_tokens :: "(string, api_token_row) hashmap"

section \<open>Users\<close>

definition create_user :: "(nat \<Rightarrow> bool) \<Rightarrow> nat \<Rightarrow> string \<Rightarrow> string + string \<Rightarrow> admin_db \<Rightarrow> (string + unit) \<times> admin_db" where
  "create_user q now name hashed db = (case hashed of
     Inl e \<Rightarrow> (Inl (''Failed to hash password: '' @ e), db)
   | Inr h \<Rightarrow>
       if q 0 \<and> \<not> hm_contains (ad_users db) name
       then (Inr (), db\<lparr>ad_users := hm_insert name
              \<lparr>ad_username = name, ad_password_hash = h, ad_user_created = now, ad_last_login = None\<rparr> (ad_users db)\<rparr>)
       else (Inl ''Failed to create admin user'', db))"

definition get_user :: "(nat \<Rightarrow> bool) \<Rightarrow> string \<Rightarrow> admin_db \<Rightarrow> string + admin_user option" where
  "get_user q name db = (if q 0 then Inr (hm_get (ad_users db) name) else Inl ''Failed to query admin user'')"

definition list_users :: "(nat \<Rightarrow> bool) \<Rightarrow> admin_db \<Rightarrow> string + admin_user list" where
  "list_users q db =
     (if q 0 then Inr (sort_key ad_username (map snd (ad_users db))) else Inl ''Failed to list admin users'')"

definition update_password :: "(nat \<Rightarrow> bool) \<Rightarrow> string \<Rightarrow> string + string \<Rightarrow> admin_db \<Rightarrow> (string + unit) \<times> admin_db" where
  "update_password q name hashed db = (case hashed of
     Inl e \<Rightarrow> (Inl (''Failed to hash password: '' @ e), db)
   | Inr h \<Rightarrow>
       if \<not> q 0 then (Inl ''Failed to update password'', db)
       else if hm_contains (ad_users db) name
       then (Inr (), db\<lparr>ad_users := hm_modify name (\<lambda>u. u\<lparr>ad_password_hash := h\<rparr>) (ad_users db)\<rparr>)
       else (Inl (''User not found: '' @ name), db))"

definition sessions_without :: "string \<Rightarrow> (string, admin_session) hashmap \<Rightarrow> (string, admin_session) hashmap" where
  "sessions_without name ss = hm_retain (\<lambda>_ s. as_username s \<noteq> name) ss"

datatype delete_error = LastAdmin | DeleteFailed string

text \<open>One transaction: begin, delete the sessions, delete the user, count, commit; an error rolls it back.\<close>

definition delete_user :: "(nat \<Rightarrow> bool) \<Rightarrow> string \<Rightarrow> admin_db \<Rightarrow> (delete_error + unit) \<times> admin_db" where
  "delete_user q name db =
     (if \<not> q 0 then (Inl (DeleteFailed ''Failed to begin transaction''), db)
      else if \<not> q 1 then (Inl (DeleteFailed ''Failed to delete user sessions''), db)
      else if \<not> q 2 then (Inl (DeleteFailed ''Failed to delete admin user''), db)
      else if \<not> hm_contains (ad_users db) name then (Inl (DeleteFailed (''User not found: '' @ name)), db)
      else if \<not> q 3 then (Inl (DeleteFailed ''Failed to count admin users''), db)
      else let users = hm_remove name (ad_users db) in
        if length users = 0 then (Inl LastAdmin, db)
        else if \<not> q 4 then (Inl (DeleteFailed ''Failed to commit user delete''), db)
        else (Inr (), db\<lparr>ad_users := users, ad_sessions := sessions_without name (ad_sessions db)\<rparr>))"

section \<open>Sessions\<close>

text \<open>\<^verbatim>\<open>authenticate\<close> up to the password check, and from the insert of the session on.\<close>

definition check_password ::
    "(string \<Rightarrow> string \<Rightarrow> bool) \<Rightarrow> (nat \<Rightarrow> bool) \<Rightarrow> string \<Rightarrow> string \<Rightarrow> admin_db \<Rightarrow> string + bool" where
  "check_password verify q name password db = (case get_user q name db of
     Inl e \<Rightarrow> Inl e
   | Inr None \<Rightarrow> Inr False
   | Inr (Some u) \<Rightarrow> Inr (verify password (ad_password_hash u)))"

definition open_session ::
    "(nat \<Rightarrow> bool) \<Rightarrow> nat \<Rightarrow> nat \<Rightarrow> string \<Rightarrow> string \<Rightarrow> string option \<Rightarrow> string option \<Rightarrow> admin_db \<Rightarrow> (string + string) \<times> admin_db" where
  "open_session q now timeout sid name ip ua db =
     (if \<not> q 1 \<or> hm_contains (ad_sessions db) sid then (Inl ''Failed to create session'', db)
      else let db1 = db\<lparr>ad_sessions := hm_insert sid
             \<lparr>as_session_id = sid, as_username = name, as_created_at = now, as_expires_at = now + timeout,
              as_ip_address = ip, as_user_agent = ua\<rparr> (ad_sessions db)\<rparr> in
        (Inr sid, if q 2 then db1\<lparr>ad_users := hm_modify name (\<lambda>u. u\<lparr>ad_last_login := Some now\<rparr>) (ad_users db1)\<rparr> else db1))"

definition authenticate ::
    "(string \<Rightarrow> string \<Rightarrow> bool) \<Rightarrow> (nat \<Rightarrow> bool) \<Rightarrow> nat \<Rightarrow> nat \<Rightarrow> string \<Rightarrow> string \<Rightarrow> string \<Rightarrow> string option \<Rightarrow> string option
     \<Rightarrow> admin_db \<Rightarrow> (string + string option) \<times> admin_db" where
  "authenticate verify q now timeout sid name password ip ua db =
     (case check_password verify q name password db of
        Inl e \<Rightarrow> (Inl e, db)
      | Inr False \<Rightarrow> (Inr None, db)
      | Inr True \<Rightarrow>
          (case open_session q now timeout sid name ip ua db of
             (Inl e, db') \<Rightarrow> (Inl e, db')
           | (Inr i, db') \<Rightarrow> (Inr (Some i), db')))"

definition delete_session :: "bool \<Rightarrow> string \<Rightarrow> admin_db \<Rightarrow> (string + unit) \<times> admin_db" where
  "delete_session ok sid db =
     (if ok then (Inr (), db\<lparr>ad_sessions := hm_remove sid (ad_sessions db)\<rparr>)
      else (Inl ''Failed to delete session'', db))"

definition validate_session ::
    "(nat \<Rightarrow> bool) \<Rightarrow> nat \<Rightarrow> string \<Rightarrow> admin_db \<Rightarrow> (string + admin_session option) \<times> admin_db" where
  "validate_session q now sid db =
     (if \<not> q 0 then (Inl ''Failed to query session'', db)
      else case hm_get (ad_sessions db) sid of
        None \<Rightarrow> (Inr None, db)
      | Some s \<Rightarrow>
          if as_expires_at s < now then (Inr None, snd (delete_session (q 1) sid db))
          else (Inr (Some s), db))"

definition delete_user_sessions ::
    "bool \<Rightarrow> string \<Rightarrow> string option \<Rightarrow> admin_db \<Rightarrow> (string + unit) \<times> admin_db" where
  "delete_user_sessions ok name keep db =
     (if \<not> ok then (Inl ''Failed to delete user sessions'', db)
      else (Inr (), db\<lparr>ad_sessions := (case keep of
          Some k \<Rightarrow> hm_retain (\<lambda>i s. \<not> (as_username s = name \<and> i \<noteq> k)) (ad_sessions db)
        | None \<Rightarrow> sessions_without name (ad_sessions db))\<rparr>))"

definition cleanup_expired_sessions :: "bool \<Rightarrow> nat \<Rightarrow> admin_db \<Rightarrow> (string + nat) \<times> admin_db" where
  "cleanup_expired_sessions ok now db =
     (if ok then
        (let kept = hm_retain (\<lambda>_ s. \<not> as_expires_at s < now) (ad_sessions db) in
         (Inr (length (ad_sessions db) - length kept), db\<lparr>ad_sessions := kept\<rparr>))
      else (Inl ''Failed to delete expired sessions'', db))"

section \<open>API tokens\<close>

definition TOKEN_PREFIX :: string where "TOKEN_PREFIX = ''kfapi_''"

definition DISPLAY_CHARS :: nat where "DISPLAY_CHARS = 6"

text \<open>Given the random secret, the new id and the hash function.\<close>

definition create_token ::
    "(string \<Rightarrow> string) \<Rightarrow> bool \<Rightarrow> nat \<Rightarrow> string \<Rightarrow> string \<Rightarrow> string \<Rightarrow> string \<Rightarrow> admin_db
     \<Rightarrow> (string + string \<times> api_token_row) \<times> admin_db" where
  "create_token hash ok now secret i name created_by db =
     (let token = TOKEN_PREFIX @ secret;
          r = \<lparr>at_id = i, at_name = name, at_token_prefix = take (length TOKEN_PREFIX + DISPLAY_CHARS) token,
               at_created_by = created_by, at_created_at = now, at_last_used_at = None, at_token_hash = hash token\<rparr> in
      if ok \<and> \<not> hm_contains (ad_tokens db) i \<and> list_all (\<lambda>(_, x). at_token_hash x \<noteq> hash token) (ad_tokens db)
      then (Inr (token, r), db\<lparr>ad_tokens := hm_insert i r (ad_tokens db)\<rparr>)
      else (Inl ''Failed to create API token'', db))"

definition list_api_tokens :: "bool \<Rightarrow> admin_db \<Rightarrow> string + api_token_row list" where
  "list_api_tokens ok db =
     (if ok then Inr (rev (sort_key at_created_at (map snd (ad_tokens db)))) else Inl ''Failed to list API tokens'')"

definition delete_api_token :: "bool \<Rightarrow> string \<Rightarrow> admin_db \<Rightarrow> (string + bool) \<times> admin_db" where
  "delete_api_token ok i db =
     (if ok then (Inr (hm_contains (ad_tokens db) i), db\<lparr>ad_tokens := hm_remove i (ad_tokens db)\<rparr>)
      else (Inl ''Failed to delete API token'', db))"

definition validate_token ::
    "(string \<Rightarrow> string) \<Rightarrow> (nat \<Rightarrow> bool) \<Rightarrow> nat \<Rightarrow> string \<Rightarrow> admin_db \<Rightarrow> (string + api_token_row option) \<times> admin_db" where
  "validate_token hash q now token db =
     (if \<not> is_prefix_of TOKEN_PREFIX token then (Inr None, db)
      else if \<not> q 0 then (Inl ''Failed to query API token'', db)
      else case List.find (\<lambda>(_, r). at_token_hash r = hash token) (ad_tokens db) of
        None \<Rightarrow> (Inr None, db)
      | Some (_, r) \<Rightarrow>
          (Inr (Some r), if q 1 then db\<lparr>ad_tokens := hm_modify (at_id r) (\<lambda>x. x\<lparr>at_last_used_at := Some now\<rparr>) (ad_tokens db)\<rparr>
                         else db))"

section \<open>Handlers\<close>

text \<open>What a handler answers: a redirect, the users page or the tokens page with a message, an error page,
  the login page, or the start of a session.\<close>

datatype admin_answer =
    RedirectTo string
  | UsersPage "admin_user list" "string option" "string option"
  | TokensPage "api_token_row list" "string option" "string option"
  | ErrorPage string
  | LoginPage string
  | LoggedIn string

definition check_auth :: "(nat \<Rightarrow> bool) \<Rightarrow> nat \<Rightarrow> string option \<Rightarrow> admin_db \<Rightarrow> admin_session option \<times> admin_db" where
  "check_auth q now cookie db = (case cookie of
     None \<Rightarrow> (None, db)
   | Some sid \<Rightarrow> (case validate_session q now sid db of
       (Inl e, db') \<Rightarrow> (None, db') | (Inr s, db') \<Rightarrow> (s, db')))"

definition login_submit ::
    "(string \<Rightarrow> string \<Rightarrow> bool) \<Rightarrow> (nat \<Rightarrow> bool) \<Rightarrow> nat \<Rightarrow> nat \<Rightarrow> string \<Rightarrow> string \<Rightarrow> string \<Rightarrow> admin_db \<Rightarrow> admin_answer \<times> admin_db" where
  "login_submit verify q now timeout sid name password db =
     (case authenticate verify q now timeout sid name password None None db of
        (Inl e, db') \<Rightarrow> (LoginPage ''An error occurred. Please try again.'', db')
      | (Inr None, db') \<Rightarrow> (LoginPage ''Invalid username or password'', db')
      | (Inr (Some i), db') \<Rightarrow> (LoggedIn i, db'))"

definition logout :: "(nat \<Rightarrow> bool) \<Rightarrow> bool \<Rightarrow> nat \<Rightarrow> string option \<Rightarrow> admin_db \<Rightarrow> admin_answer \<times> admin_db" where
  "logout q ok now cookie db = (case check_auth q now cookie db of
     (None, db') \<Rightarrow> (RedirectTo ''/admin/login'', db')
   | (Some s, db') \<Rightarrow> (RedirectTo ''/admin/login'', snd (delete_session ok (as_session_id s) db')))"

definition render_users :: "(nat \<Rightarrow> bool) \<Rightarrow> string option \<Rightarrow> string option \<Rightarrow> admin_db \<Rightarrow> admin_answer" where
  "render_users q note err db = (case list_users q db of
     Inl e \<Rightarrow> ErrorPage ''Failed to list users'' | Inr us \<Rightarrow> UsersPage us note err)"

definition check_new_password :: "string \<Rightarrow> string \<Rightarrow> string option" where
  "check_new_password password confirm =
     (if password = [] then Some ''Password cannot be empty''
      else if password \<noteq> confirm then Some ''Passwords do not match'' else None)"

definition valid_username :: "string \<Rightarrow> bool" where
  "valid_username name \<longleftrightarrow> name \<noteq> [] \<and> length name \<le> 64 \<and>
     list_all (\<lambda>c. ascii_alphanumeric c \<or> c \<in> set ''._-@'') name"

text \<open>The statements of a handler come after those of its session check: they count from 2.\<close>

definition later :: "nat \<Rightarrow> (nat \<Rightarrow> bool) \<Rightarrow> nat \<Rightarrow> bool" where
  "later n q i = q (n + i)"

definition user_create ::
    "(string \<Rightarrow> string + string) \<Rightarrow> (nat \<Rightarrow> bool) \<Rightarrow> nat \<Rightarrow> string option \<Rightarrow> string \<Rightarrow> string \<Rightarrow> string \<Rightarrow> admin_db \<Rightarrow> admin_answer \<times> admin_db" where
  "user_create hasher q now cookie username password confirm db =
     (case check_auth q now cookie db of
        (None, db1) \<Rightarrow> (RedirectTo ''/admin/login'', db1)
      | (Some s, db1) \<Rightarrow>
          (let name = str_trim username;
               problem = (if \<not> valid_username name then Some ''Username must be 1-64 characters: letters, digits, . _ - @''
                          else check_new_password password confirm) in
           case problem of
             Some p \<Rightarrow> (render_users (later 2 q) None (Some p) db1, db1)
           | None \<Rightarrow>
               (case get_user (later 2 q) name db1 of
                  Inl e \<Rightarrow> (render_users (later 4 q) None (Some ''Failed to create user'') db1, db1)
                | Inr (Some u) \<Rightarrow> (render_users (later 4 q) None (Some (''User '' @ name @ '' already exists'')) db1, db1)
                | Inr None \<Rightarrow>
                    (case create_user (later 3 q) now name (hasher password) db1 of
                       (Inr _, db2) \<Rightarrow> (render_users (later 4 q) (Some (''User '' @ name @ '' created'')) None db2, db2)
                     | (Inl e, db2) \<Rightarrow> (render_users (later 4 q) None (Some ''Failed to create user'') db2, db2)))))"

definition user_set_password ::
    "(string \<Rightarrow> string + string) \<Rightarrow> (nat \<Rightarrow> bool) \<Rightarrow> nat \<Rightarrow> string option \<Rightarrow> string \<Rightarrow> string \<Rightarrow> string \<Rightarrow> admin_db \<Rightarrow> admin_answer \<times> admin_db" where
  "user_set_password hasher q now cookie username password confirm db =
     (case check_auth q now cookie db of
        (None, db1) \<Rightarrow> (RedirectTo ''/admin/login'', db1)
      | (Some s, db1) \<Rightarrow>
          (case check_new_password password confirm of
             Some p \<Rightarrow> (render_users (later 2 q) None (Some p) db1, db1)
           | None \<Rightarrow>
               (case update_password (later 2 q) username (hasher password) db1 of
                  (Inl e, db2) \<Rightarrow> (render_users (later 4 q) None (Some ''Failed to update password'') db2, db2)
                | (Inr _, db2) \<Rightarrow>
                    (let keep = (if username = as_username s then Some (as_session_id s) else None);
                         db3 = snd (delete_user_sessions (q 3) username keep db2) in
                     (render_users (later 4 q) (Some (''Password updated for '' @ username)) None db3, db3)))))"

definition user_delete ::
    "(nat \<Rightarrow> bool) \<Rightarrow> nat \<Rightarrow> string option \<Rightarrow> string \<Rightarrow> admin_db \<Rightarrow> admin_answer \<times> admin_db" where
  "user_delete q now cookie username db =
     (case check_auth q now cookie db of
        (None, db1) \<Rightarrow> (RedirectTo ''/admin/login'', db1)
      | (Some s, db1) \<Rightarrow>
          if username = as_username s
          then (render_users (later 2 q) None (Some ''You cannot delete your own account'') db1, db1)
          else (case delete_user (later 2 q) username db1 of
             (Inr _, db2) \<Rightarrow> (render_users (later 7 q) (Some (''User '' @ username @ '' deleted'')) None db2, db2)
           | (Inl LastAdmin, db2) \<Rightarrow> (render_users (later 7 q) None (Some ''Cannot delete the last admin user'') db2, db2)
           | (Inl (DeleteFailed e), db2) \<Rightarrow> (render_users (later 7 q) None (Some ''Failed to delete user'') db2, db2)))"

definition render_api_tokens :: "bool \<Rightarrow> string option \<Rightarrow> string option \<Rightarrow> admin_db \<Rightarrow> admin_answer" where
  "render_api_tokens ok new_token err db = (case list_api_tokens ok db of
     Inl e \<Rightarrow> ErrorPage ''Failed to list API tokens'' | Inr ts \<Rightarrow> TokensPage ts new_token err)"

definition api_token_create ::
    "(string \<Rightarrow> string) \<Rightarrow> (nat \<Rightarrow> bool) \<Rightarrow> nat \<Rightarrow> string option \<Rightarrow> string \<Rightarrow> string \<Rightarrow> string \<Rightarrow> admin_db \<Rightarrow> admin_answer \<times> admin_db" where
  "api_token_create hash q now cookie secret i form_name db =
     (case check_auth q now cookie db of
        (None, db1) \<Rightarrow> (RedirectTo ''/admin/login'', db1)
      | (Some s, db1) \<Rightarrow>
          (let name = str_trim form_name in
           if name = [] \<or> 100 < length name
           then (render_api_tokens (q 3) None (Some ''Name must be 1-100 characters'') db1, db1)
           else case create_token hash (q 2) now secret i name (as_username s) db1 of
             (Inr (token, r), db2) \<Rightarrow> (render_api_tokens (q 3) (Some token) None db2, db2)
           | (Inl e, db2) \<Rightarrow> (render_api_tokens (q 3) None (Some ''Failed to create token'') db2, db2)))"

definition api_token_delete ::
    "(nat \<Rightarrow> bool) \<Rightarrow> nat \<Rightarrow> string option \<Rightarrow> string \<Rightarrow> admin_db \<Rightarrow> admin_answer \<times> admin_db" where
  "api_token_delete q now cookie i db =
     (case check_auth q now cookie db of
        (None, db1) \<Rightarrow> (RedirectTo ''/admin/login'', db1)
      | (Some s, db1) \<Rightarrow>
          (case delete_api_token (q 2) i db1 of
             (Inl e, db2) \<Rightarrow> (render_api_tokens (q 3) None (Some ''Failed to delete token'') db2, db2)
           | (Inr _, db2) \<Rightarrow> (RedirectTo ''/admin/api-tokens'', db2)))"

section \<open>The admin interface as a whole\<close>

text \<open>
  Requests in any order. A login is two steps, because hashing the password takes long and other
  requests run between its statements: the password check leaves the user's name among the logins
  under way, and the session is opened later.
\<close>

record admin_state =
  an_db :: admin_db
  an_logins :: "string list"

datatype admin_step =
    LoginCheck "nat \<Rightarrow> bool" string string
  | LoginOpen "nat \<Rightarrow> bool" nat nat nat string
  | Logout "nat \<Rightarrow> bool" bool nat "string option"
  | CreateUser "nat \<Rightarrow> bool" nat "string option" string string string
  | SetPassword "nat \<Rightarrow> bool" nat "string option" string string string
  | DeleteUser "nat \<Rightarrow> bool" nat "string option" string
  | CreateToken "nat \<Rightarrow> bool" nat "string option" string string string
  | DeleteToken "nat \<Rightarrow> bool" nat "string option" string
  | UseToken "nat \<Rightarrow> bool" nat string
  | ViewPage "nat \<Rightarrow> bool" nat "string option"
  | CleanupSessions bool nat

definition admin_step ::
    "(string \<Rightarrow> string + string) \<Rightarrow> (string \<Rightarrow> string \<Rightarrow> bool) \<Rightarrow> (string \<Rightarrow> string) \<Rightarrow> admin_step \<Rightarrow> admin_state \<Rightarrow> admin_state" where
  "admin_step hasher verify hash st s =
     (let on_db = (\<lambda>f. s\<lparr>an_db := f (an_db s)\<rparr>) in case st of
        LoginCheck q name password \<Rightarrow>
          (case check_password verify q name password (an_db s) of
             Inr True \<Rightarrow> s\<lparr>an_logins := an_logins s @ [name]\<rparr> | _ \<Rightarrow> s)
      | LoginOpen q now timeout n sid \<Rightarrow>
          (case get_at (an_logins s) n of
             None \<Rightarrow> s
           | Some name \<Rightarrow> s\<lparr>an_db := snd (open_session q now timeout sid name None None (an_db s)),
                              an_logins := take n (an_logins s) @ drop (Suc n) (an_logins s)\<rparr>)
      | Logout q ok now cookie \<Rightarrow> on_db (\<lambda>db. snd (logout q ok now cookie db))
      | CreateUser q now cookie name pw conf \<Rightarrow> on_db (\<lambda>db. snd (user_create hasher q now cookie name pw conf db))
      | SetPassword q now cookie name pw conf \<Rightarrow> on_db (\<lambda>db. snd (user_set_password hasher q now cookie name pw conf db))
      | DeleteUser q now cookie name \<Rightarrow> on_db (\<lambda>db. snd (user_delete q now cookie name db))
      | CreateToken q now cookie secret i name \<Rightarrow> on_db (\<lambda>db. snd (api_token_create hash q now cookie secret i name db))
      | DeleteToken q now cookie i \<Rightarrow> on_db (\<lambda>db. snd (api_token_delete q now cookie i db))
      | UseToken q now token \<Rightarrow> on_db (\<lambda>db. snd (validate_token hash q now token db))
      | ViewPage q now cookie \<Rightarrow> on_db (\<lambda>db. snd (check_auth q now cookie db))
      | CleanupSessions ok now \<Rightarrow> on_db (\<lambda>db. snd (cleanup_expired_sessions ok now db)))"

end
