(* ===== verification/Admin_Facts.thy ===== *)
theory Admin_Facts
  imports Admin_Auth
begin

text \<open>
  What the admin interface keeps: an admin remains, a changed password ends the user's sessions, an API
  token is valid until it is deleted, and a login under way outlives the deletion of its user.
\<close>

section \<open>Well-formed tables\<close>

definition tokens_ok :: "admin_db \<Rightarrow> bool" where
  "tokens_ok db \<longleftrightarrow> hm_ok (ad_tokens db) \<and> (\<forall>(i, r) \<in> set (ad_tokens db). at_id r = i)
     \<and> distinct (map (\<lambda>(_, r). at_token_hash r) (ad_tokens db))"

lemma hm_modify_eq_Nil [simp]: "hm_modify k f m = [] \<longleftrightarrow> m = []"
  by (simp add: hm_modify_def)

lemma update_neq_Nil [simp]: "AList.update k v m \<noteq> []"
  by (cases m) auto

text \<open>What an operation leaves of the tables it does not write.\<close>

lemma check_auth_tables [simp]:
  "ad_users (snd (check_auth q now c db)) = ad_users db"
  "ad_tokens (snd (check_auth q now c db)) = ad_tokens db"
  by (auto simp: check_auth_def validate_session_def delete_session_def split: option.splits)

lemma check_auth_Pair:
  assumes "check_auth q now c db = (r, db')"
  shows "ad_users db' = ad_users db \<and> ad_tokens db' = ad_tokens db
    \<and> set (ad_sessions db') \<subseteq> set (ad_sessions db)"
  using assms
  by (auto simp: check_auth_def validate_session_def delete_session_def AList.delete_eq
      split: option.splits if_splits)

section \<open>The users\<close>

lemma open_session_users:
  "ad_users db \<noteq> [] \<Longrightarrow> ad_users (snd (open_session q now t sid name ip ua db)) \<noteq> []"
  by (auto simp: open_session_def Let_def)

lemma user_create_users:
  "ad_users db \<noteq> [] \<Longrightarrow> ad_users (snd (user_create hasher q now c name pw conf db)) \<noteq> []"
  by (auto simp: user_create_def create_user_def Let_def split: prod.splits option.splits sum.splits
      dest!: check_auth_Pair)

lemma user_set_password_users:
  "ad_users db \<noteq> [] \<Longrightarrow> ad_users (snd (user_set_password hasher q now c name pw conf db)) \<noteq> []"
  by (auto simp: user_set_password_def update_password_def delete_user_sessions_def Let_def
      split: prod.splits option.splits sum.splits if_splits dest!: check_auth_Pair)

lemma user_delete_users:
  "ad_users db \<noteq> [] \<Longrightarrow> ad_users (snd (user_delete q now c name db)) \<noteq> []"
  by (auto simp: user_delete_def delete_user_def Let_def split: prod.splits option.splits sum.splits
      delete_error.splits if_splits dest!: check_auth_Pair)

lemma admin_step_keeps_users:
  assumes "ad_users (an_db s) \<noteq> []"
  shows "ad_users (an_db (admin_step hasher verify hash st s)) \<noteq> []"
proof (cases st)
  case (Logout q ok now c)
  then show ?thesis using assms
    by (auto simp: admin_step_def logout_def delete_session_def split: prod.splits option.splits dest!: check_auth_Pair)
next
  case (CreateToken q now c secret i name)
  then show ?thesis using assms
    by (auto simp: admin_step_def api_token_create_def create_token_def Let_def
        split: prod.splits option.splits sum.splits if_splits dest!: check_auth_Pair)
next
  case (DeleteToken q now c i)
  then show ?thesis using assms
    by (auto simp: admin_step_def api_token_delete_def delete_api_token_def
        split: prod.splits option.splits sum.splits if_splits dest!: check_auth_Pair)
qed (use assms in \<open>auto simp: admin_step_def validate_token_def cleanup_expired_sessions_def Let_def
    open_session_users user_create_users user_set_password_users user_delete_users
    split: sum.splits bool.splits option.splits\<close>)

section \<open>The sessions\<close>

text \<open>No session of the user but the kept one, and no login of theirs under way.\<close>

definition signed_out :: "string \<Rightarrow> string option \<Rightarrow> admin_state \<Rightarrow> bool" where
  "signed_out name keep s \<longleftrightarrow> name \<notin> set (an_logins s) \<and>
     (\<forall>(i, x) \<in> set (ad_sessions (an_db s)). as_username x = name \<longrightarrow> Some i = keep)"

definition signs_in :: "string \<Rightarrow> admin_step \<Rightarrow> bool" where
  "signs_in name st = (case st of LoginCheck _ n _ \<Rightarrow> n = name | _ \<Rightarrow> False)"

lemma step_sessions:
  "(case st of LoginOpen _ _ _ _ _ \<Rightarrow> True | _ \<Rightarrow>
     set (ad_sessions (an_db (admin_step hasher verify hash st s))) \<subseteq> set (ad_sessions (an_db s)))"
proof (cases st)
  case (CreateUser q now c name pw conf)
  then show ?thesis
    by (auto simp: admin_step_def user_create_def create_user_def Let_def split: prod.splits option.splits sum.splits
      if_splits dest!: check_auth_Pair)
next
  case (SetPassword q now c name pw conf)
  then show ?thesis
    by (auto simp: admin_step_def user_set_password_def update_password_def delete_user_sessions_def sessions_without_def hm_retain_def
        Let_def split: prod.splits option.splits sum.splits if_splits dest!: check_auth_Pair)
next
  case (DeleteUser q now c name)
  then show ?thesis
    by (auto simp: admin_step_def user_delete_def delete_user_def sessions_without_def hm_retain_def Let_def
        split: prod.splits option.splits sum.splits delete_error.splits if_splits
        dest!: check_auth_Pair)
next
  case (Logout q ok now c)
  then show ?thesis
    by (auto simp: admin_step_def logout_def delete_session_def AList.delete_eq split: prod.splits option.splits
        dest!: check_auth_Pair)
next
  case (CreateToken q now c secret i name)
  then show ?thesis
    by (auto simp: admin_step_def api_token_create_def create_token_def Let_def
        split: prod.splits option.splits sum.splits if_splits dest!: check_auth_Pair)
next
  case (DeleteToken q now c i)
  then show ?thesis
    by (auto simp: admin_step_def api_token_delete_def delete_api_token_def
        split: prod.splits option.splits sum.splits if_splits dest!: check_auth_Pair)
next
  case (ViewPage q now c)
  then show ?thesis
    using check_auth_Pair [OF surjective_pairing, of q now c "an_db s"] by (simp add: admin_step_def)
qed (auto simp: admin_step_def validate_token_def cleanup_expired_sessions_def hm_retain_def Let_def
    split: sum.splits bool.splits option.splits)

lemma step_logins:
  "set (an_logins (admin_step hasher verify hash st s)) \<subseteq> set (an_logins s) \<union>
     (case st of LoginCheck _ n _ \<Rightarrow> {n} | _ \<Rightarrow> {})"
  by (cases st) (auto simp: admin_step_def split: sum.splits bool.splits option.splits dest: in_set_takeD in_set_dropD)

lemma open_session_sessions:
  "set (ad_sessions (snd (open_session q now t sid name ip ua db)))
     \<subseteq> insert (sid, \<lparr>as_session_id = sid, as_username = name, as_created_at = now, as_expires_at = now + t,
        as_ip_address = ip, as_user_agent = ua\<rparr>) (set (ad_sessions db))"
  by (auto simp: open_session_def Let_def hm_insert_new)

lemma signed_out_step:
  assumes "signed_out name keep s" and "\<not> signs_in name st"
  shows "signed_out name keep (admin_step hasher verify hash st s)"
proof -
  have "name \<notin> set (an_logins (admin_step hasher verify hash st s))"
    using step_logins [where st = st and s = s and hasher = hasher and verify = verify and hash = hash] assms
    by (auto simp: signed_out_def signs_in_def split: admin_step.splits)
  moreover have "as_username x = name \<longrightarrow> Some i = keep"
    if "(i, x) \<in> set (ad_sessions (an_db (admin_step hasher verify hash st s)))" for i x
  proof (cases "\<exists>q now t n sid. st = LoginOpen q now t n sid")
    case True
    then obtain q now t n sid where st: "st = LoginOpen q now t n sid" by blast
    show ?thesis
    proof (cases "get_at (an_logins s) n")
      case None
      with st that assms(1) show ?thesis by (auto simp: admin_step_def signed_out_def)
    next
      case (Some m)
      then have "m \<noteq> name" using assms(1) by (auto simp: signed_out_def get_at_def split: if_splits)
      with Some st that assms(1) set_mp [OF open_session_sessions, of "(i, x)" q now t sid m None None "an_db s"]
      show ?thesis by (auto simp: admin_step_def signed_out_def)
    qed
  next
    case False
    then have "set (ad_sessions (an_db (admin_step hasher verify hash st s))) \<subseteq> set (ad_sessions (an_db s))"
      using step_sessions [where st = st and s = s and hasher = hasher and verify = verify and hash = hash] by (cases st) auto
    with that assms(1) show ?thesis by (auto simp: signed_out_def)
  qed
  ultimately show ?thesis by (auto simp: signed_out_def)
qed

lemma signed_out_run:
  assumes "signed_out name keep s" and "list_all (\<lambda>st. \<not> signs_in name st) sts"
  shows "signed_out name keep (fold (admin_step hasher verify hash) sts s)"
  using assms by (induction sts arbitrary: s) (auto simp: signed_out_step)

lemma validate_finds: "fst (validate_session q t sid db) = Inr (Some x) \<Longrightarrow> (sid, x) \<in> set (ad_sessions db)"
  by (auto simp: validate_session_def split: if_splits option.splits dest: map_of_SomeD)

lemma set_password_signs_out:
  assumes "check_auth q now cookie (an_db s) = (Some se, dba)" and "check_new_password pw conf = None"
    and "hasher pw = Inr h" and "hm_contains (ad_users (an_db s)) name" and "q 2" and "q 3"
    and "name \<notin> set (an_logins s)"
  shows "signed_out name (if name = as_username se then Some (as_session_id se) else None)
     (admin_step hasher verify hash (SetPassword q now cookie name pw conf) s)"
  using assms check_auth_Pair [OF assms(1)]
  by (auto simp: signed_out_def admin_step_def user_set_password_def update_password_def delete_user_sessions_def
      sessions_without_def hm_retain_def later_def Let_def)

section \<open>The API tokens\<close>

lemma find_hash:
  assumes "distinct (map (\<lambda>(_, r). at_token_hash r) m)" and "(i, r) \<in> set m"
  shows "List.find (\<lambda>(_, x). at_token_hash x = at_token_hash r) m = Some (i, r)"
  using assms
proof (induction m)
  case (Cons p m)
  then show ?case by (cases p) (auto intro: rev_image_eqI)
qed simp

lemma find_no_hash:
  "(List.find (\<lambda>(_, x). at_token_hash x = h) m = None) = (h \<notin> (\<lambda>(_, r). at_token_hash r) ` set m)"
  by (auto simp: find_None_iff image_iff)

text \<open>The tokens of the tables: id, hash, name and creator, which no operation but a delete changes.\<close>

definition token_view :: "admin_db \<Rightarrow> (string \<times> string \<times> string \<times> string) list" where
  "token_view db = map (\<lambda>(i, r). (at_id r, at_token_hash r, at_name r, at_created_by r)) (ad_tokens db)"

definition has_token :: "api_token_row \<Rightarrow> admin_db \<Rightarrow> bool" where
  "has_token r db \<longleftrightarrow> tokens_ok db \<and> (\<exists>x. (at_id r, x) \<in> set (ad_tokens db) \<and> at_token_hash x = at_token_hash r
     \<and> at_id x = at_id r \<and> at_name x = at_name r \<and> at_created_by x = at_created_by r)"

definition deletes_token :: "string \<Rightarrow> admin_step \<Rightarrow> bool" where
  "deletes_token i st = (case st of DeleteToken _ _ _ j \<Rightarrow> j = i | _ \<Rightarrow> False)"

lemma tokens_ok_modify:
  assumes "tokens_ok db"
  shows "tokens_ok (db\<lparr>ad_tokens := hm_modify i (\<lambda>x. x\<lparr>at_last_used_at := t\<rparr>) (ad_tokens db)\<rparr>)"
proof -
  have "map (\<lambda>(_, r). at_token_hash r) (hm_modify i (\<lambda>x. x\<lparr>at_last_used_at := t\<rparr>) m)
      = map (\<lambda>(_, r). at_token_hash r) m" for m :: "(string, api_token_row) hashmap"
    by (induction m) (auto simp: hm_modify_def)
  then show ?thesis using assms by (auto simp: tokens_ok_def) (auto simp: hm_modify_def)
qed

lemma has_token_modify:
  "has_token r db \<Longrightarrow> has_token r (db\<lparr>ad_tokens := hm_modify i (\<lambda>x. x\<lparr>at_last_used_at := t\<rparr>) (ad_tokens db)\<rparr>)"
  unfolding has_token_def by (auto simp: tokens_ok_modify) (force simp: hm_modify_def)

lemma has_token_same: "ad_tokens db' = ad_tokens db \<Longrightarrow> has_token r db' = has_token r db"
  by (simp add: has_token_def tokens_ok_def)

lemma has_token_create:
  assumes "create_token hash ok now secret i name who db = (Inr (tok, r'), db')" and "tokens_ok db"
  shows "has_token r' db' \<and> (has_token r db \<longrightarrow> has_token r db')"
  using assms by (auto simp: create_token_def has_token_def tokens_ok_def hm_insert_new list_all_iff hm_ok_def
      hm_contains_iff Let_def split: if_splits) fastforce+

lemma has_token_remove:
  assumes "has_token r db" and "at_id r \<noteq> i"
  shows "has_token r (db\<lparr>ad_tokens := hm_remove i (ad_tokens db)\<rparr>)"
  using assms
  by (auto simp: has_token_def tokens_ok_def AList.delete_eq hm_ok_def distinct_map_filter distinct_map_fst_filter)

text \<open>Only the requests about tokens write the tokens.\<close>

definition about_tokens :: "admin_step \<Rightarrow> bool" where
  "about_tokens st = (case st of CreateToken _ _ _ _ _ _ \<Rightarrow> True | DeleteToken _ _ _ _ \<Rightarrow> True
     | UseToken _ _ _ \<Rightarrow> True | _ \<Rightarrow> False)"

lemma user_handler_tokens:
  "ad_tokens (snd (user_create hasher q now c name pw conf db)) = ad_tokens db"
  "ad_tokens (snd (user_set_password hasher q now c name pw conf db)) = ad_tokens db"
  "ad_tokens (snd (user_delete q now c name db)) = ad_tokens db"
  "ad_tokens (snd (logout q ok now c db)) = ad_tokens db"
  "ad_tokens (snd (open_session q now t sid name ip ua db)) = ad_tokens db"
  "ad_tokens (snd (cleanup_expired_sessions ok now db)) = ad_tokens db"
proof -
  show "ad_tokens (snd (user_create hasher q now c name pw conf db)) = ad_tokens db"
    by (auto simp: user_create_def create_user_def Let_def split: prod.splits option.splits sum.splits
        dest!: check_auth_Pair)
  show "ad_tokens (snd (user_set_password hasher q now c name pw conf db)) = ad_tokens db"
    by (auto simp: user_set_password_def update_password_def delete_user_sessions_def Let_def
        split: prod.splits option.splits sum.splits dest!: check_auth_Pair)
  show "ad_tokens (snd (user_delete q now c name db)) = ad_tokens db"
    by (auto simp: user_delete_def delete_user_def Let_def split: prod.splits option.splits sum.splits
        delete_error.splits if_splits dest!: check_auth_Pair)
  show "ad_tokens (snd (logout q ok now c db)) = ad_tokens db"
    by (auto simp: logout_def delete_session_def split: prod.splits option.splits dest!: check_auth_Pair)
qed (simp_all add: open_session_def cleanup_expired_sessions_def Let_def)

lemma step_tokens:
  "\<not> about_tokens st \<Longrightarrow> ad_tokens (an_db (admin_step hasher verify hash st s)) = ad_tokens (an_db s)"
  by (cases st) (auto simp: about_tokens_def admin_step_def user_handler_tokens split: sum.splits bool.splits option.splits)

lemma has_token_step:
  assumes "has_token r (an_db s)" and "\<not> deletes_token (at_id r) st"
  shows "has_token r (an_db (admin_step hasher verify hash st s))"
proof -
  have same: "\<lbrakk>ad_tokens db' = ad_tokens (an_db s)\<rbrakk> \<Longrightarrow> has_token r db'" for db'
    using assms(1) has_token_same by blast
  show ?thesis
  proof (cases st)
    case (CreateToken q now c secret i name)
    obtain se db1 where ca: "check_auth q now c (an_db s) = (se, db1)" by (cases "check_auth q now c (an_db s)")
    have db1: "has_token r db1" using same check_auth_Pair [OF ca] by simp
    show ?thesis
    proof (cases se)
      case None
      then show ?thesis using ca db1 CreateToken by (simp add: admin_step_def api_token_create_def)
    next
      case (Some x)
      obtain res db2 where ct: "create_token hash (q 2) now secret i (str_trim name) (as_username x) db1 = (res, db2)"
        by (cases "create_token hash (q 2) now secret i (str_trim name) (as_username x) db1")
      have "has_token r db2"
      proof (cases res)
        case (Inl e)
        then have "db2 = db1" using ct by (auto simp: create_token_def Let_def split: if_splits)
        then show ?thesis using db1 by simp
      next
        case (Inr p)
        then show ?thesis using ct db1 has_token_create [of hash "q 2" now secret i "str_trim name" "as_username x" db1
            "fst p" "snd p" db2 r] by (simp add: has_token_def)
      qed
      then show ?thesis using ca ct db1 Some CreateToken
        by (auto simp: admin_step_def api_token_create_def Let_def split: sum.splits)
    qed
  next
    case (DeleteToken q now c i)
    obtain se db1 where ca: "check_auth q now c (an_db s) = (se, db1)" by (cases "check_auth q now c (an_db s)")
    have "has_token r db1" using same check_auth_Pair [OF ca] by simp
    moreover have "at_id r \<noteq> i" using DeleteToken assms(2) by (simp add: deletes_token_def)
    ultimately show ?thesis
      using ca DeleteToken has_token_remove [of r db1 i]
      by (auto simp: admin_step_def api_token_delete_def delete_api_token_def split: option.splits)
  next
    case (UseToken q now token)
    then show ?thesis
      using assms(1) has_token_modify [of r "an_db s"]
      by (auto simp: admin_step_def validate_token_def split: option.splits)
  qed (use same step_tokens [where st = st and s = s and hasher = hasher and verify = verify and hash = hash] in
      \<open>simp_all add: about_tokens_def\<close>)
qed

lemma has_token_run:
  assumes "has_token r (an_db s)" and "list_all (\<lambda>st. \<not> deletes_token (at_id r) st) sts"
  shows "has_token r (an_db (fold (admin_step hasher verify hash) sts s))"
  using assms by (induction sts arbitrary: s) (auto simp: has_token_step)

lemma has_token_validates:
  assumes "has_token r db" and "at_token_hash r = hash tok" and "is_prefix_of TOKEN_PREFIX tok" and "q 0"
  shows "\<exists>x. fst (validate_token hash q t tok db) = Inr (Some x) \<and> at_id x = at_id r \<and> at_name x = at_name r
    \<and> at_created_by x = at_created_by r"
proof -
  from assms(1) obtain x where x: "(at_id r, x) \<in> set (ad_tokens db)" "at_token_hash x = at_token_hash r"
    "at_id x = at_id r" "at_name x = at_name r" "at_created_by x = at_created_by r"
    "distinct (map (\<lambda>(_, r). at_token_hash r) (ad_tokens db))"
    unfolding has_token_def tokens_ok_def by blast
  from find_hash [OF x(6,1)] x(2) assms(2) have
    "List.find (\<lambda>(_, y). at_token_hash y = hash tok) (ad_tokens db) = Some (at_id r, x)" by simp
  then show ?thesis using assms(3,4) x by (simp add: validate_token_def)
qed

section \<open>Properties\<close>

text \<open>C21: Once there is an admin user there always is one, whatever requests are made and whichever of
  their statements fail: deleting the last one is rolled back.\<close>

theorem an_admin_remains:
  assumes "ad_users (an_db s) \<noteq> []"
  shows "ad_users (an_db (fold (admin_step hasher verify hash) sts s)) \<noteq> []"
  using assms by (induction sts arbitrary: s) (simp_all add: admin_step_keeps_users)

definition sample_admins :: admin_db where
  "sample_admins = \<lparr>ad_users = [(''ann'', \<lparr>ad_username = ''ann'', ad_password_hash = ''h1'', ad_user_created = 0, ad_last_login = None\<rparr>),
      (''bob'', \<lparr>ad_username = ''bob'', ad_password_hash = ''h2'', ad_user_created = 0, ad_last_login = None\<rparr>)],
     ad_sessions = [(''s1'', \<lparr>as_session_id = ''s1'', as_username = ''ann'', as_created_at = 0, as_expires_at = 100,
        as_ip_address = None, as_user_agent = None\<rparr>)],
     ad_tokens = []\<rparr>"

definition sample_state_of :: "string list \<Rightarrow> admin_state" where
  "sample_state_of logins = \<lparr>an_db = sample_admins, an_logins = logins\<rparr>"

theorem an_admin_remains_witness:
  "ad_users (an_db (fold (admin_step Inr (\<lambda>p h. p = h) (\<lambda>x. x))
     [DeleteUser (\<lambda>_. True) 5 (Some ''s1'') ''bob'', DeleteUser (\<lambda>_. True) 6 (Some ''s1'') ''ann'']
     (sample_state_of []))) \<noteq> []"
  by (rule an_admin_remains) (simp add: sample_state_of_def sample_admins_def)

text \<open>When an admin sets a user's password, no session of that user but the admin's own is valid any
  more until the user logs in again, unless a login of the user was under way.\<close>

theorem set_password_ends_sessions:
  assumes "check_auth q now cookie (an_db s) = (Some se, dba)" and "check_new_password pw conf = None"
    and "hasher pw = Inr h" and "hm_contains (ad_users (an_db s)) name" and "q 2" and "q 3"
    and "name \<notin> set (an_logins s)" and "list_all (\<lambda>st. \<not> signs_in name st) sts"
    and "fst (validate_session q' t sid (an_db (fold (admin_step hasher verify hash)
           (SetPassword q now cookie name pw conf # sts) s))) = Inr (Some x)"
    and "as_username x = name"
  shows "name = as_username se \<and> sid = as_session_id se"
proof -
  let ?s = "admin_step hasher verify hash (SetPassword q now cookie name pw conf) s"
  have "signed_out name (if name = as_username se then Some (as_session_id se) else None) ?s"
    by (rule set_password_signs_out) (fact assms)+
  from signed_out_run [OF this assms(8)]
  have "signed_out name (if name = as_username se then Some (as_session_id se) else None)
      (fold (admin_step hasher verify hash) sts ?s)" .
  moreover from validate_finds [OF assms(9)] have
    "(sid, x) \<in> set (ad_sessions (an_db (fold (admin_step hasher verify hash) sts ?s)))" by simp
  ultimately show ?thesis using assms(10) by (auto simp: signed_out_def split: if_splits)
qed

theorem set_password_ends_sessions_witness:
  "''ann'' = as_username (snd (hd (ad_sessions sample_admins))) \<and> ''s1'' = as_session_id (snd (hd (ad_sessions sample_admins)))"
proof (rule set_password_ends_sessions [where s = "sample_state_of []" and q = "\<lambda>_. True" and now = 5
      and cookie = "Some ''s1''" and pw = "''p''" and conf = "''p''" and hasher = Inr and h = "''p''" and sts = "[]"
      and dba = sample_admins and t = 6 and q' = "\<lambda>_. True" and verify = "\<lambda>p h. p = h" and hash = "\<lambda>x. x"])
  show "fst (validate_session (\<lambda>_. True) 6 ''s1'' (an_db (fold (admin_step Inr (\<lambda>p h. p = h) (\<lambda>x. x))
      [SetPassword (\<lambda>_. True) 5 (Some ''s1'') ''ann'' ''p'' ''p''] (sample_state_of []))))
    = Inr (Some (snd (hd (ad_sessions sample_admins))))"
    by (simp add: admin_step_def user_set_password_def check_auth_def validate_session_def update_password_def
        delete_user_sessions_def hm_retain_def check_new_password_def sample_state_of_def sample_admins_def later_def
        hm_contains_def Let_def)
qed (simp_all add: check_auth_def validate_session_def check_new_password_def sample_state_of_def sample_admins_def
    hm_contains_def)

text \<open>C23: A login whose password check ran before its user was deleted still opens a session, which is valid
  for the whole session timeout although the user no longer exists.\<close>

theorem deleted_admin_gets_session:
  assumes "get_at (an_logins s) n = Some name"
    and "check_auth (\<lambda>_. True) now cookie (an_db s) = (Some se, dba)" and "name \<noteq> as_username se"
    and "fst (delete_user (\<lambda>_. True) name dba) = Inr ()" and "\<not> hm_contains (ad_sessions (an_db s)) sid"
    and "t \<le> now' + timeout"
    and "s' = fold (admin_step hasher verify hash)
           [DeleteUser (\<lambda>_. True) now cookie name, LoginOpen (\<lambda>_. True) now' timeout n sid] s"
  shows "\<not> hm_contains (ad_users (an_db s')) name \<and>
    (\<exists>x. fst (check_auth (\<lambda>_. True) t (Some sid) (an_db s')) = Some x \<and> as_username x = name)"
proof -
  obtain db2 where del: "delete_user (\<lambda>_. True) name dba = (Inr (), db2)"
    using assms(4) by (cases "delete_user (\<lambda>_. True) name dba") auto
  then have db2: "ad_users db2 = hm_remove name (ad_users dba)" "ad_sessions db2 = sessions_without name (ad_sessions dba)"
    by (auto simp: delete_user_def Let_def split: if_splits)
  have "sid \<notin> fst ` set (ad_sessions db2)"
    using check_auth_Pair [OF assms(2)] assms(5) db2(2) by (auto simp: hm_contains_iff sessions_without_def hm_retain_def)
  then have fresh: "\<not> hm_contains (ad_sessions db2) sid" by (simp add: hm_contains_iff)
  have later_True [simp]: "later k (\<lambda>_. True) = (\<lambda>_. True)" for k by (simp add: later_def fun_eq_iff)
  have "an_db s' = snd (open_session (\<lambda>_. True) now' timeout sid name None None db2)"
    using assms(1-3) del by (simp add: assms(7) admin_step_def user_delete_def)
  then show ?thesis
    using fresh db2 assms(6)
    by (auto simp: open_session_def check_auth_def validate_session_def hm_contains_def hm_get_modify Let_def)
qed

theorem deleted_admin_gets_session_witness:
  "\<not> hm_contains (ad_users (an_db (fold (admin_step Inr (\<lambda>p h. p = h) (\<lambda>x. x))
       [DeleteUser (\<lambda>_. True) 5 (Some ''s1'') ''bob'', LoginOpen (\<lambda>_. True) 6 50 0 ''s2''] (sample_state_of [''bob''])))) ''bob'' \<and>
   (\<exists>x. fst (check_auth (\<lambda>_. True) 40 (Some ''s2'') (an_db (fold (admin_step Inr (\<lambda>p h. p = h) (\<lambda>x. x))
       [DeleteUser (\<lambda>_. True) 5 (Some ''s1'') ''bob'', LoginOpen (\<lambda>_. True) 6 50 0 ''s2''] (sample_state_of [''bob''])))) = Some x
     \<and> as_username x = ''bob'')"
  by (rule deleted_admin_gets_session [where se = "snd (hd (ad_sessions sample_admins))" and dba = sample_admins,
        OF _ _ _ _ _ _ refl])
    (simp_all add: get_at_def check_auth_def validate_session_def delete_user_def sample_state_of_def sample_admins_def
      hm_contains_def Let_def)

text \<open>C22: A new API token is valid under its id, name and creator through any later requests until it is
  deleted, and is not valid right after.\<close>

theorem api_token_until_deleted:
  assumes "create_token hash ok now secret i name who db = (Inr (tok, r), db1)" and "tokens_ok db"
    and "list_all (\<lambda>st. \<not> deletes_token i st) sts" and "q 0"
    and "s = fold (admin_step hasher verify hash) sts \<lparr>an_db = db1, an_logins = logins\<rparr>"
  shows "(\<exists>x. fst (validate_token hash q t tok (an_db s)) = Inr (Some x) \<and> at_id x = i \<and> at_name x = name
      \<and> at_created_by x = who)
    \<and> fst (validate_token hash q t tok (snd (delete_api_token True i (an_db s)))) = Inr None"
proof -
  from assms(1) have r: "at_id r = i" "at_name r = name" "at_created_by r = who" "at_token_hash r = hash tok"
    "is_prefix_of TOKEN_PREFIX tok"
    by (auto simp: create_token_def Let_def split: if_splits)
  have "has_token r (an_db s)"
    unfolding assms(5) using has_token_create [OF assms(1,2)] assms(3) r(1) by (intro has_token_run) simp_all
  then obtain x where x: "(i, x) \<in> set (ad_tokens (an_db s))" "at_token_hash x = hash tok"
    and ok: "tokens_ok (an_db s)" and has: "has_token r (an_db s)"
    using r by (auto simp: has_token_def)
  have "at_token_hash y \<noteq> hash tok" if y: "(j, y) \<in> set (ad_tokens (an_db s))" "j \<noteq> i" for j y
  proof
    assume "at_token_hash y = hash tok"
    with find_hash [of "ad_tokens (an_db s)" j y] find_hash [of "ad_tokens (an_db s)" i x] ok x y show False
      by (simp add: tokens_ok_def)
  qed
  then have "fst (validate_token hash q t tok (snd (delete_api_token True i (an_db s)))) = Inr None"
    using r(5) assms(4) by (auto simp: validate_token_def delete_api_token_def AList.delete_eq split: option.splits
        dest!: find_Some)
  moreover have "\<exists>x. fst (validate_token hash q t tok (an_db s)) = Inr (Some x) \<and> at_id x = at_id r \<and> at_name x = at_name r
      \<and> at_created_by x = at_created_by r"
    by (rule has_token_validates) (fact has r assms(4))+
  ultimately show ?thesis using r by simp
qed

theorem api_token_until_deleted_witness:
  "fst (validate_token (\<lambda>x. x) (\<lambda>_. True) 9 ''kfapi_xyz'' (snd (delete_api_token True ''id1''
     (snd (create_token (\<lambda>x. x) True 3 ''xyz'' ''id1'' ''ci'' ''ann'' sample_admins))))) = Inr None"
proof -
  let ?r = "\<lparr>at_id = ''id1'', at_name = ''ci'', at_token_prefix = ''kfapi_xyz'', at_created_by = ''ann'', at_created_at = 3,
      at_last_used_at = None, at_token_hash = ''kfapi_xyz''\<rparr>"
  have create: "create_token (\<lambda>x. x) True 3 ''xyz'' ''id1'' ''ci'' ''ann'' sample_admins
      = (Inr (''kfapi_xyz'', ?r), sample_admins\<lparr>ad_tokens := [(''id1'', ?r)]\<rparr>)"
    by (simp add: create_token_def TOKEN_PREFIX_def DISPLAY_CHARS_def sample_admins_def hm_contains_def Let_def)
  have "tokens_ok sample_admins" by (simp add: tokens_ok_def sample_admins_def)
  from api_token_until_deleted [OF create this, of "[]" "\<lambda>_. True" _ Inr "\<lambda>p h. p = h" "[]" 9]
  show ?thesis by (simp add: create)
qed

end
