(* ===== verification/Log_Upload.thy ===== *)
theory Log_Upload
  imports Prelude
begin

text \<open>
  \<^verbatim>\<open>kuiper-agent-lib/src/log_upload.rs\<close>: the buffer that keeps an agent's log lines until the
  coordinator has them, and the loop that uploads them. The methods of the capture take its lock, so
  each is one function. A message is the list of its UTF-8 bytes; how \<^verbatim>\<open>tracing\<close> formats a field is
  the text of the field.
\<close>

section \<open>The buffer\<close>





record log_record =
  lr_timestamp :: int
  lr_level :: string
  lr_target :: string
  lr_message :: string
  lr_seq :: nat

record log_batch =
  bt_records :: "log_record list"
  bt_dropped :: nat

record log_buffer =
  lb_records :: "log_record list"
  lb_dropped :: nat
  lb_next_seq :: nat
  lb_enabled :: bool
  lb_notified :: bool









section \<open>The layer that feeds it\<close>






text \<open>A byte starts a character unless it continues one.\<close>

definition char_boundary :: "string \<Rightarrow> nat \<Rightarrow> bool" where
  "char_boundary s i \<longleftrightarrow> i = 0 \<or> i = length s \<or>
     i < length s \<and> \<not> (let n = of_char (s ! i) :: nat in 128 \<le> n \<and> n < 192)"

fun cut_back :: "string \<Rightarrow> nat \<Rightarrow> nat" where
  "cut_back s 0 = 0"
| "cut_back s (Suc n) = (if char_boundary s (Suc n) then Suc n else cut_back s n)"

text \<open>A blank, an ellipsis in UTF-8 and \<^verbatim>\<open>[truncated]\<close>.\<close>

definition truncation_mark :: string where
  "truncation_mark = CHR '' '' # map char_of [226, 128, 166 :: nat] @ ''[truncated]''"

definition truncate_at_char_boundary :: "string \<Rightarrow> nat \<Rightarrow> string" where
  "truncate_at_char_boundary s mx = (if length s \<le> mx then s else take (cut_back s mx) s @ truncation_mark)"


section \<open>The upload loop\<close>

text \<open>
  The uploader is off, waiting for the timer or a full batch, or has a batch in flight (with whether
  more lines were waiting behind it). Besides it the state counts what became of the lines: those the
  coordinator acknowledged, those it was told were dropped, and those given up.
\<close>

datatype upload_phase = NoSession | Idle | InFlight log_batch bool

record uploader =
  up_buffer :: log_buffer
  up_phase :: upload_phase
  up_delivered :: "log_record list"
  up_reported :: nat
  up_given_up :: nat

datatype upload_answer = Accepted | Unimplemented | Refused | Unavailable









section \<open>The buffer's contract\<close>







section \<open>What becomes of every line\<close>

definition in_flight :: "uploader \<Rightarrow> log_record list \<times> nat" where
  "in_flight u = (case up_phase u of InFlight bt _ \<Rightarrow> (bt_records bt, bt_dropped bt) | _ \<Rightarrow> ([], 0))"






lemma in_flight_buffer [simp]: "in_flight (u\<lparr>up_buffer := b\<rparr>) = in_flight u"
  by (simp add: in_flight_def)












lemma cut_back_le: "cut_back s n \<le> n"
  by (induction n) auto

lemma truncate_bound: "length (truncate_at_char_boundary s mx) \<le> mx + length truncation_mark"
  using cut_back_le [of s mx] by (simp add: truncate_at_char_boundary_def)

section \<open>Properties\<close>


end
