(* ===== verification/Agent_Logs.thy ===== *)
theory Agent_Logs
  imports Log_Upload "HOL-Library.Product_Lexorder"
begin

text \<open>
  \<^verbatim>\<open>kuiper-forge/src/agent_logs.rs\<close> and the \<^verbatim>\<open>UploadLogs\<close> handler of \<^verbatim>\<open>server.rs\<close>: the log lines the
  coordinator keeps of its agents, their paging and pruning. Rows of \<^verbatim>\<open>agent_logs\<close> are a list in the
  order of insertion. A timestamp counts microseconds.
\<close>

section \<open>Levels and rows\<close>

definition STORE_MAX_BATCH :: nat where "STORE_MAX_BATCH = 2000"

definition STORE_MAX_MESSAGE_BYTES :: nat where "STORE_MAX_MESSAGE_BYTES = 16 * 1024"

definition MAX_TARGET_BYTES :: nat where "MAX_TARGET_BYTES = 256"

definition RETENTION_MICROS :: int where "RETENTION_MICROS = 7 * 86400 * 1000000"

definition MAX_LINES_PER_AGENT :: nat where "MAX_LINES_PER_AGENT = 100000"

datatype log_level = LevelError | LevelWarn | LevelInfo | LevelDebug | LevelTrace

fun level_number :: "log_level \<Rightarrow> int" where
  "level_number LevelError = 1"
| "level_number LevelWarn = 2"
| "level_number LevelInfo = 3"
| "level_number LevelDebug = 4"
| "level_number LevelTrace = 5"

definition ascii_upper :: "char \<Rightarrow> char" where
  "ascii_upper c = (let n = of_char c :: nat in if 97 \<le> n \<and> n \<le> 122 then char_of (n - 32) else c)"

definition level_parse :: "string \<Rightarrow> log_level option" where
  "level_parse s = (let u = map ascii_upper s in
     if u = ''ERROR'' then Some LevelError
     else if u = ''WARN'' then Some LevelWarn
     else if u = ''INFO'' then Some LevelInfo
     else if u = ''DEBUG'' then Some LevelDebug
     else if u = ''TRACE'' then Some LevelTrace else None)"

definition level_of_number :: "int \<Rightarrow> log_level" where
  "level_of_number n = (if n = 1 then LevelError else if n = 2 then LevelWarn else if n = 3 then LevelInfo
     else if n = 4 then LevelDebug else LevelTrace)"

fun level_str :: "log_level \<Rightarrow> string" where
  "level_str LevelError = ''ERROR''"
| "level_str LevelWarn = ''WARN''"
| "level_str LevelInfo = ''INFO''"
| "level_str LevelDebug = ''DEBUG''"
| "level_str LevelTrace = ''TRACE''"

record log_row =
  lo_agent_id :: string
  lo_ts :: int
  lo_seq :: int
  lo_level :: int
  lo_target :: string
  lo_message :: string

definition store_truncated :: "string \<Rightarrow> nat \<Rightarrow> string" where
  "store_truncated s mx = truncate_at_char_boundary s mx"

text \<open>A sequence number is a \<^verbatim>\<open>u64\<close> cast to \<^verbatim>\<open>i64\<close>: it counts an agent's lines and stays far below
  the sign bit.\<close>

definition dropped_row :: "string \<Rightarrow> int \<Rightarrow> log_record list \<Rightarrow> nat \<Rightarrow> log_row" where
  "dropped_row aid now rs n =
     \<lparr>lo_agent_id = aid, lo_ts = (case rs of [] \<Rightarrow> now | r # _ \<Rightarrow> lr_timestamp r - 1), lo_seq = 0,
      lo_level = level_number LevelWarn, lo_target = ''kuiper_forge'',
      lo_message = ''agent dropped '' @ nat_to_string n @ '' log line(s) because its upload buffer was full''\<rparr>"

definition record_row :: "string \<Rightarrow> log_record \<Rightarrow> log_row" where
  "record_row aid r =
     \<lparr>lo_agent_id = aid, lo_ts = lr_timestamp r, lo_seq = int (lr_seq r),
      lo_level = level_number (case level_parse (lr_level r) of None \<Rightarrow> LevelInfo | Some l \<Rightarrow> l),
      lo_target = store_truncated (lr_target r) MAX_TARGET_BYTES,
      lo_message = store_truncated (lr_message r) STORE_MAX_MESSAGE_BYTES\<rparr>"

definition insert_batch ::
    "bool \<Rightarrow> int \<Rightarrow> string \<Rightarrow> log_record list \<Rightarrow> nat \<Rightarrow> log_row list \<Rightarrow> (string + unit) \<times> log_row list" where
  "insert_batch ok now aid rs n db =
     (let rows = (if 0 < n then [dropped_row aid now rs n] else []) @ map (record_row aid) rs in
      if rows = [] then (Inr (), db)
      else if ok then (Inr (), db @ rows) else (Inl ''Failed to insert agent logs'', db))"

text \<open>The handler: who the certificate names, whether the agent is valid, then the batch.\<close>

definition upload_logs ::
    "string option \<Rightarrow> (string \<Rightarrow> bool) \<Rightarrow> bool \<Rightarrow> bool \<Rightarrow> int \<Rightarrow> log_batch \<Rightarrow> log_row list \<Rightarrow> (string + unit) \<times> log_row list" where
  "upload_logs cert valid has_store ok now bt db = (case cert of
     None \<Rightarrow> (Inl ''unauthenticated'', db)
   | Some aid \<Rightarrow>
       if \<not> valid aid then (Inl ''unauthenticated'', db)
       else if STORE_MAX_BATCH < length (bt_records bt) then (Inl ''invalid_argument'', db)
       else if has_store then
         (case insert_batch ok now aid (bt_records bt) (bt_dropped bt) db of
            (Inl e, db') \<Rightarrow> (Inl ''unavailable'', db') | (Inr _, db') \<Rightarrow> (Inr (), db'))
       else (Inr (), db))"

section \<open>Reading pages\<close>

definition digits_value :: "string \<Rightarrow> nat option" where
  "digits_value ds = (if ds \<noteq> [] \<and> list_all is_digit ds
     then Some (foldl (\<lambda>n c. 10 * n + (of_char c - 48)) 0 ds) else None)"

text \<open>\<^verbatim>\<open>str::parse::<i64>\<close>.\<close>

definition parse_i64 :: "string \<Rightarrow> int option" where
  "parse_i64 s = (let neg = (s \<noteq> [] \<and> hd s = CHR ''-'');
                      ds = (if s \<noteq> [] \<and> (hd s = CHR ''-'' \<or> hd s = CHR ''+'') then tl s else s) in
     case digits_value ds of
       None \<Rightarrow> None
     | Some n \<Rightarrow> let v = (if neg then - int n else int n) in
         if - 9223372036854775808 \<le> v \<and> v < 9223372036854775808 then Some v else None)"

definition I64_TOP :: int where "I64_TOP = 9223372036854775807"

definition parse_cursor :: "string \<Rightarrow> (int \<times> int) option" where
  "parse_cursor s = (case split_once CHR ''_'' s of
     None \<Rightarrow> None
   | Some (a, b) \<Rightarrow> (case parse_i64 a of
       None \<Rightarrow> None
     | Some ts \<Rightarrow> (case parse_i64 b of None \<Rightarrow> None | Some sq \<Rightarrow> Some (ts, sq))))"

record log_line =
  ll_ts :: int
  ll_level :: log_level
  ll_target :: string
  ll_message :: string
  ll_cursor :: string

definition line_of_row :: "log_row \<Rightarrow> log_line" where
  "line_of_row r =
     \<lparr>ll_ts = lo_ts r, ll_level = level_of_number (lo_level r), ll_target = lo_target r, ll_message = lo_message r,
      ll_cursor = int_to_string (lo_ts r) @ ''_'' @ int_to_string (lo_seq r)\<rparr>"

definition row_key :: "log_row \<Rightarrow> int \<times> int" where
  "row_key r = (lo_ts r, lo_seq r)"

text \<open>\<^verbatim>\<open>ORDER BY ts DESC, seq DESC\<close>.\<close>

definition newest_first :: "log_row list \<Rightarrow> log_row list" where
  "newest_first rows = rev (sort_key row_key rows)"

definition select_rows :: "string \<Rightarrow> int \<Rightarrow> int \<times> int \<Rightarrow> log_row list \<Rightarrow> log_row list" where
  "select_rows aid lvl before db = newest_first (filter (\<lambda>r. lo_agent_id r = aid \<and> lo_level r \<le> lvl \<and>
     (lo_ts r < fst before \<or> lo_ts r = fst before \<and> lo_seq r < snd before)) db)"

definition recent_rows :: "string \<Rightarrow> log_level \<Rightarrow> string option \<Rightarrow> nat \<Rightarrow> log_row list \<Rightarrow> log_row list" where
  "recent_rows aid min_level before n db =
     take n (select_rows aid (level_number min_level)
       (case before of None \<Rightarrow> (I64_TOP, I64_TOP)
        | Some c \<Rightarrow> (case parse_cursor c of None \<Rightarrow> (I64_TOP, I64_TOP) | Some k \<Rightarrow> k)) db)"

definition recent_lines ::
    "bool \<Rightarrow> string \<Rightarrow> log_level \<Rightarrow> string option \<Rightarrow> nat \<Rightarrow> log_row list \<Rightarrow> string + log_line list" where
  "recent_lines ok aid min_level before n db =
     (if ok then Inr (map line_of_row (recent_rows aid min_level before n db)) else Inl ''Failed to query agent logs'')"

section \<open>Pruning\<close>

definition prune_agent :: "nat \<Rightarrow> string \<Rightarrow> log_row list \<Rightarrow> log_row list" where
  "prune_agent mx aid db =
     (case get_at (newest_first (filter (\<lambda>r. lo_agent_id r = aid) db)) mx of
        None \<Rightarrow> db
      | Some c \<Rightarrow> filter (\<lambda>r. \<not> (lo_agent_id r = aid \<and>
            (lo_ts r < lo_ts c \<or> lo_ts r = lo_ts c \<and> lo_seq r \<le> lo_seq c))) db)"

text \<open>The loop stops at the first statement that fails; what it removed so far stays removed.\<close>

fun prune_agents :: "(nat \<Rightarrow> bool) \<Rightarrow> nat \<Rightarrow> nat \<Rightarrow> string list \<Rightarrow> log_row list \<Rightarrow> (string + unit) \<times> log_row list" where
  "prune_agents q i mx [] db = (Inr (), db)"
| "prune_agents q i mx (aid # aids) db =
     (if \<not> q i then (Inl ''Failed to find agent log cutoff'', db)
      else if mx < length (filter (\<lambda>r. lo_agent_id r = aid) db) \<and> \<not> q (Suc i) then (Inl ''Failed to trim agent logs'', db)
      else prune_agents q (i + 2) mx aids (prune_agent mx aid db))"

definition prune_with_cap :: "(nat \<Rightarrow> bool) \<Rightarrow> nat \<Rightarrow> int \<Rightarrow> log_row list \<Rightarrow> (string + nat) \<times> log_row list" where
  "prune_with_cap q mx now db =
     (if \<not> q 0 then (Inl ''Failed to prune old agent logs'', db)
      else let db1 = filter (\<lambda>r. \<not> lo_ts r < now - RETENTION_MICROS) db in
        if \<not> q 1 then (Inl ''Failed to list agents with logs'', db1)
        else case prune_agents q 2 mx (remdups (map lo_agent_id db1)) db1 of
          (Inl e, db2) \<Rightarrow> (Inl e, db2)
        | (Inr _, db2) \<Rightarrow> (Inr (length db - length db2), db2))"

definition prune_logs :: "(nat \<Rightarrow> bool) \<Rightarrow> int \<Rightarrow> log_row list \<Rightarrow> (string + nat) \<times> log_row list" where
  "prune_logs q now db = prune_with_cap q MAX_LINES_PER_AGENT now db"

section \<open>Cursors\<close>

lemma digits_value_nat: "digits_value (nat_to_string n) = Some n"
  by (simp add: digits_value_def nat_to_string_digits digits_fold)

definition i64_range :: "int \<Rightarrow> bool" where
  "i64_range v \<longleftrightarrow> - 9223372036854775808 \<le> v \<and> v < 9223372036854775808"

lemma sign_not_digit: "\<not> is_digit CHR ''-''" "\<not> is_digit CHR ''+''" "\<not> is_digit CHR ''_''"
  by (simp_all add: is_digit_def)

lemma parse_int_to_string: "i64_range v \<Longrightarrow> parse_i64 (int_to_string v) = Some v"
proof -
  assume v: "i64_range v"
  have hd: "hd (nat_to_string n) \<noteq> CHR ''-''" "hd (nat_to_string n) \<noteq> CHR ''+''" for n
    using nat_to_string_digits [of n] sign_not_digit by (cases "nat_to_string n"; auto)+
  show ?thesis
    using v hd by (auto simp: parse_i64_def int_to_string_def digits_value_nat i64_range_def Let_def)
qed

lemma underscore_free: "CHR ''_'' \<notin> set (int_to_string v)"
  using nat_to_string_hd sign_not_digit by (auto simp: int_to_string_def)

text \<open>The cursor of a line names its key.\<close>

lemma parse_cursor_line:
  assumes "i64_range (lo_ts r)" and "i64_range (lo_seq r)"
  shows "parse_cursor (ll_cursor (line_of_row r)) = Some (row_key r)"
  using assms split_once_append [OF underscore_free, of "lo_ts r" "int_to_string (lo_seq r)"]
  by (simp add: parse_cursor_def line_of_row_def row_key_def parse_int_to_string)

section \<open>Pages\<close>

definition before_key :: "int \<times> int \<Rightarrow> log_row \<Rightarrow> bool" where
  "before_key k r \<longleftrightarrow> lo_ts r < fst k \<or> lo_ts r = fst k \<and> lo_seq r < snd k"

lemma before_key_less: "before_key k r \<longleftrightarrow> row_key r < k"
  by (cases k) (auto simp: before_key_def row_key_def less_prod_def)

definition agent_rows :: "string \<Rightarrow> int \<Rightarrow> log_row list \<Rightarrow> log_row list" where
  "agent_rows aid lvl db = filter (\<lambda>r. lo_agent_id r = aid \<and> lo_level r \<le> lvl) db"

lemma select_rows_eq: "select_rows aid lvl k db = newest_first (filter (before_key k) (agent_rows aid lvl db))"
  by (simp add: select_rows_def agent_rows_def before_key_def filter_filter conj_ac)

lemma newest_first_filter: "newest_first (filter P rows) = filter P (newest_first rows)"
  by (simp add: newest_first_def filter_sort rev_filter [symmetric])

lemma newest_first_sorted: "sorted_wrt (\<lambda>a b. row_key a \<ge> row_key b) (newest_first rows)"
  unfolding newest_first_def by (simp add: sorted_wrt_rev) (metis sorted_map sorted_sort_key)

lemma newest_first_set [simp]: "set (newest_first rows) = set rows"
  by (simp add: newest_first_def)

lemma newest_first_strict:
  assumes "distinct (map row_key rows)"
  shows "sorted_wrt (\<lambda>a b. row_key a > row_key b) (newest_first rows)"
proof -
  have "distinct (map row_key (newest_first rows))"
    using assms by (simp add: newest_first_def rev_map [symmetric] distinct_map)
  then have "sorted_wrt (\<lambda>a b. row_key a \<noteq> row_key b) (newest_first rows)"
    by (simp add: distinct_conv_nth sorted_wrt_iff_nth_less)
  with newest_first_sorted [of rows] show ?thesis
    unfolding sorted_wrt_iff_nth_less by (metis order_le_less)
qed

text \<open>In a strictly descending list, the elements below the \<open>n\<close>-th are those after it.\<close>

lemma filter_below_nth:
  assumes "sorted_wrt (\<lambda>a b. f a > (f b :: 'k :: linorder)) xs" and "n < length xs"
  shows "filter (\<lambda>x. f x < f (xs ! n)) xs = drop (Suc n) xs"
  using assms
proof (induction xs arbitrary: n)
  case (Cons x xs)
  show ?case
  proof (cases n)
    case 0
    with Cons.prems have "\<forall>y \<in> set xs. f y < f x" by simp
    with 0 show ?thesis by (simp add: filter_id_conv)
  next
    case (Suc m)
    with Cons.prems have "f (xs ! m) < f x" by simp
    then have "\<not> f x < f (xs ! m)" by simp
    with Suc Cons.prems Cons.IH [of m] show ?thesis by simp
  qed
qed simp

lemma top_selects_all:
  assumes "\<And>r. r \<in> set db \<Longrightarrow> lo_ts r < I64_TOP"
  shows "select_rows aid lvl (I64_TOP, I64_TOP) db = newest_first (agent_rows aid lvl db)"
  unfolding select_rows_eq
  by (subst filter_True) (auto simp: before_key_def agent_rows_def dest: assms)

section \<open>Keeping the cap\<close>

lemma rows_after_nth:
  assumes "sorted_wrt (\<lambda>a b. f a \<ge> (f b :: 'k :: linorder)) xs" and "n < length xs"
  shows "length (filter (\<lambda>x. f x > f (xs ! n)) xs) \<le> n"
  using assms
proof (induction xs arbitrary: n)
  case (Cons x xs)
  show ?case
  proof (cases n)
    case 0
    with Cons.prems have "\<forall>y \<in> set xs. \<not> f x < f y" by (auto simp: not_less)
    with 0 show ?thesis by (simp add: filter_empty_conv)
  next
    case (Suc m)
    with Cons.prems Cons.IH [of m] show ?thesis by simp
  qed
qed simp

definition rows_of :: "string \<Rightarrow> log_row list \<Rightarrow> log_row list" where
  "rows_of aid db = filter (\<lambda>r. lo_agent_id r = aid) db"

lemma newest_first_length [simp]: "length (newest_first rows) = length rows"
  by (simp add: newest_first_def)

lemma length_filter_newest: "length (filter P (newest_first rows)) = length (filter P rows)"
proof -
  have "length (filter P (newest_first rows)) = length (newest_first (filter P rows))"
    by (simp only: newest_first_filter)
  then show ?thesis by simp
qed

lemma prune_agent_cap: "length (rows_of aid (prune_agent mx aid db)) \<le> mx"
proof (cases "mx < length (rows_of aid db)")
  case True
  let ?rows = "newest_first (rows_of aid db)"
  let ?c = "?rows ! mx"
  have c: "prune_agent mx aid db = filter (\<lambda>r. \<not> (lo_agent_id r = aid \<and> row_key r \<le> row_key ?c)) db"
    using True by (auto simp: prune_agent_def get_at_def rows_of_def row_key_def less_eq_prod_def intro!: filter_cong)
  have "rows_of aid (prune_agent mx aid db) = filter (\<lambda>r. row_key r > row_key ?c) (rows_of aid db)"
    by (auto simp: c rows_of_def not_le intro!: filter_cong)
  then have "length (rows_of aid (prune_agent mx aid db)) = length (filter (\<lambda>r. row_key r > row_key ?c) ?rows)"
    by (simp add: length_filter_newest)
  also have "\<dots> \<le> mx" using True by (intro rows_after_nth newest_first_sorted) simp
  finally show ?thesis .
next
  case False
  then show ?thesis by (simp add: prune_agent_def get_at_def rows_of_def)
qed

lemma prune_agent_other: "aid \<noteq> b \<Longrightarrow> rows_of b (prune_agent mx aid db) = rows_of b db"
  by (auto simp: prune_agent_def rows_of_def split: option.splits intro!: filter_cong)

lemma prune_agent_subset: "set (prune_agent mx aid db) \<subseteq> set db"
  by (auto simp: prune_agent_def split: option.splits)

lemma prune_agents_length: "prune_agents q i mx aids db = (Inr (), db') \<Longrightarrow> length db' \<le> length db"
proof (induction q i mx aids db rule: prune_agents.induct)
  case (2 q i mx aid aids db)
  have "length (prune_agent mx aid db) \<le> length db"
    by (auto simp: prune_agent_def split: option.splits)
  with 2 show ?case by (auto split: if_splits)
qed simp

lemma prune_agents_cap:
  assumes "prune_agents q i mx aids db = (Inr (), db')"
  shows "(\<forall>a \<in> set aids. length (rows_of a db') \<le> mx) \<and> (\<forall>b. length (rows_of b db') \<le> length (rows_of b db))
    \<and> set db' \<subseteq> set db"
  using assms
proof (induction q i mx aids db rule: prune_agents.induct)
  case (2 q i mx aid aids db)
  from 2(2) have run: "prune_agents q (i + 2) mx aids (prune_agent mx aid db) = (Inr (), db')"
    and ok: "q i" "\<not> (mx < length (filter (\<lambda>r. lo_agent_id r = aid) db) \<and> \<not> q (Suc i))"
    by (auto split: if_splits)
  note IH = 2(1) [OF _ ok(2) run, simplified, OF ok(1)]
  have "length (rows_of b (prune_agent mx aid db)) \<le> length (rows_of b db)" for b
  proof (cases "b = aid")
    case True
    then show ?thesis
      by (cases "mx < length (rows_of aid db)")
        (use prune_agent_cap [of aid mx db] in \<open>auto simp: prune_agent_def get_at_def rows_of_def\<close>)
  qed (simp add: prune_agent_other)
  moreover have "length (rows_of aid db') \<le> mx"
    using IH prune_agent_cap [of aid mx db] le_trans by blast
  ultimately show ?case using IH prune_agent_subset [of mx aid db] by (auto intro: le_trans)
qed simp

section \<open>Properties\<close>

text \<open>Paging through an agent's log shows every line once and in order: the page after the cursor of
  the \<open>n\<close>-th newest line is the next stretch of the whole list, as long as no two lines of the agent
  share time and number.\<close>

theorem next_page_continues:
  assumes "distinct (map row_key (rows_of aid db))"
    and "list_all (\<lambda>r. i64_range (lo_ts r) \<and> i64_range (lo_seq r) \<and> lo_ts r < I64_TOP) db"
    and "n < length (recent_rows aid lvl None (length db) db)"
    and "cursor = ll_cursor (map line_of_row (recent_rows aid lvl None (length db) db) ! n)"
  shows "recent_rows aid lvl (Some cursor) m db = take m (drop (Suc n) (recent_rows aid lvl None (length db) db))"
proof -
  let ?rows = "newest_first (agent_rows aid (level_number lvl) db)"
  have all: "recent_rows aid lvl None (length db) db = ?rows"
    using assms(2) by (simp add: recent_rows_def top_selects_all list_all_iff agent_rows_def)
  have "agent_rows aid (level_number lvl) db = filter (\<lambda>r. lo_level r \<le> level_number lvl) (rows_of aid db)"
    by (simp add: agent_rows_def rows_of_def conj_commute)
  with assms(1) have "distinct (map row_key (agent_rows aid (level_number lvl) db))"
    by (simp add: distinct_map_filter)
  then have sorted: "sorted_wrt (\<lambda>a b. row_key a > row_key b) ?rows" by (rule newest_first_strict)
  have "?rows ! n \<in> set db"
    using nth_mem [OF assms(3)] unfolding all by (auto simp: agent_rows_def)
  with assms(2-4) all have cur: "parse_cursor cursor = Some (row_key (?rows ! n))"
    by (auto simp: list_all_iff parse_cursor_line)
  have "select_rows aid (level_number lvl) (row_key (?rows ! n)) db = filter (\<lambda>r. row_key r < row_key (?rows ! n)) ?rows"
    unfolding select_rows_eq newest_first_filter by (rule filter_cong) (simp_all add: before_key_less)
  also have "\<dots> = drop (Suc n) ?rows" using assms(3) unfolding all by (rule filter_below_nth [OF sorted])
  finally show ?thesis unfolding all by (simp add: recent_rows_def cur)
qed

definition sample_row :: "int \<Rightarrow> int \<Rightarrow> string \<Rightarrow> log_row" where
  "sample_row ts sq msg = \<lparr>lo_agent_id = ''a1'', lo_ts = ts, lo_seq = sq, lo_level = 3, lo_target = ''t'', lo_message = msg\<rparr>"

definition sample_log :: "log_row list" where
  "sample_log = [sample_row 5 0 ''x'', sample_row 5 1 ''y'', sample_row 7 2 ''z'']"

theorem next_page_continues_witness:
  "map lo_message (recent_rows ''a1'' LevelTrace (Some ''7_2'') 2 sample_log) = [''y'', ''x'']"
proof -
  have rows: "recent_rows ''a1'' LevelTrace None (length sample_log) sample_log = rev sample_log"
    by code_simp
  have "recent_rows ''a1'' LevelTrace (Some ''7_2'') 2 sample_log
      = take 2 (drop (Suc 0) (recent_rows ''a1'' LevelTrace None (length sample_log) sample_log))"
  proof (rule next_page_continues)
    show "distinct (map row_key (rows_of ''a1'' sample_log))" by code_simp
    show "list_all (\<lambda>r. i64_range (lo_ts r) \<and> i64_range (lo_seq r) \<and> lo_ts r < I64_TOP) sample_log" by code_simp
    show "0 < length (recent_rows ''a1'' LevelTrace None (length sample_log) sample_log)" by code_simp
    show "''7_2'' = ll_cursor (map line_of_row (recent_rows ''a1'' LevelTrace None (length sample_log) sample_log) ! 0)"
      by code_simp
  qed
  then show ?thesis unfolding rows by simp code_simp
qed

text \<open>After a prune that succeeds every agent has at most as many lines as the cap, no line is past
  the retention, and no line is new.\<close>

theorem prune_keeps_cap:
  assumes "prune_with_cap q mx now db = (Inr removed, db')"
  shows "(\<forall>aid. length (rows_of aid db') \<le> mx) \<and> set db' \<subseteq> {r \<in> set db. now - RETENTION_MICROS \<le> lo_ts r}
    \<and> removed + length db' = length db"
proof -
  let ?db = "filter (\<lambda>r. \<not> lo_ts r < now - RETENTION_MICROS) db"
  from assms obtain run: "prune_agents q 2 mx (remdups (map lo_agent_id ?db)) ?db = (Inr (), db')"
    and removed: "removed = length db - length db'"
    by (auto simp: prune_with_cap_def Let_def split: if_splits prod.splits sum.splits)
  note cap = prune_agents_cap [OF run]
  have "length (rows_of aid db') \<le> mx" for aid
  proof (cases "aid \<in> set (map lo_agent_id ?db)")
    case False
    then have "rows_of aid ?db = []" by (auto simp: rows_of_def filter_empty_conv)
    then have "length (rows_of aid db') \<le> 0" using cap by (metis list.size(3))
    then show ?thesis by simp
  qed (use cap in auto)
  moreover have "length db' \<le> length db" using prune_agents_length [OF run] le_trans length_filter_le by blast
  ultimately show ?thesis using cap removed by auto
qed

end
