(* ===== verification/Agent_Labels.thy ===== *)
theory Agent_Labels
  imports Connected_Agent
begin

text \<open>
  The coordinator and the agent choose a resource for the same job on their own: the coordinator by
  the label sets the agent advertises (\<open>selected_set\<close>, to check the limits of the right set),
  the agent by its mappings (\<open>mapping_for\<close>, to create the VM). Here the two are shown to choose
  alike, and routing by labels to be the same as having a set to create from.
\<close>

section \<open>An agent as it advertises itself\<close>






definition cap_set :: "string list \<Rightarrow> label_mapping \<Rightarrow> string list" where
  "cap_set base m = push_labels (map to_lowercase base) (lm_labels m)"

lemma has_label_cap_set [simp]:
  "has_label (cap_set base m) l \<longleftrightarrow> has_label base l \<or> has_label (lm_labels m) l"
  by (simp add: cap_set_def)








section \<open>Properties\<close>





text \<open>Two label lists name the same pool exactly when they hold the same labels, whatever their
  order and ASCII case.\<close>

theorem normalize_labels_iff:
  "normalize_labels xs = normalize_labels ys \<longleftrightarrow>
     image_mset to_lowercase (mset xs) = image_mset to_lowercase (mset ys)"
proof
  assume "normalize_labels xs = normalize_labels ys"
  then have "mset (normalize_labels xs) = mset (normalize_labels ys)" by simp
  then show "image_mset to_lowercase (mset xs) = image_mset to_lowercase (mset ys)"
    by (simp add: normalize_labels_def)
next
  assume "image_mset to_lowercase (mset xs) = image_mset to_lowercase (mset ys)"
  then have "mset (map to_lowercase xs) = mset (map to_lowercase ys)" by simp
  then show "normalize_labels xs = normalize_labels ys"
    unfolding normalize_labels_def
    by (intro properties_for_sort) (simp_all add: mset_sort)
qed

text \<open>C7: Whatever slots of an agent are reserved and released, in whatever order, the agent's count
  against a limit (its VMs, those it does not manage, and the reservations) never exceeds the limit
  unless it did from the start, and then it does not grow.\<close>

theorem agent_never_overbooked:
  "agent_used (fold (\<lambda>p a. case p of
       Take n (now, job, sid) \<Rightarrow> snd (reserve_slot now job sid n a)
     | Give n \<Rightarrow> release_slot n a) ps a) l \<le> max (agent_used a l) (agent_cap a l)"
proof -
  have "agent_slots.slot_step = (\<lambda>p a. case p of
      Take n (now, job, sid) \<Rightarrow> snd (reserve_slot now job sid n a) | Give n \<Rightarrow> release_slot n a)"
    by (intro ext) (auto simp: agent_slots.slot_step_def agent_take_def split: slot_op.splits)
  moreover have "list_all agent_slots.op_ok ps"
    by (auto simp: list_all_iff agent_slots.op_ok_def split: slot_op.splits)
  ultimately show ?thesis
    using agent_slots.run_bound [where s = a and ps = ps and l = l] by simp
qed

end
