(* ===== verification/Agent_Registry.thy ===== *)
theory Agent_Registry
  imports Agent_Labels
begin

text \<open>
  \<^verbatim>\<open>AgentRegistry\<close> of \<^verbatim>\<open>kuiper-forge/src/agent_registry.rs\<close>: the connected agents, when the
  others dropped, and which are marked unavailable. Each operation takes the locks it needs once, so
  it is one function from the registry to the registry. A connection is a number: it is the
  \<open>command_tx\<close> of the entry, and \<open>rg_streams\<close> holds the connections whose stream still
  reads commands. A waiter of a command's response is a number too, and \<open>rg_results\<close> holds what
  it got: a message, or \<^term>\<open>None\<close> when its sender was dropped.
\<close>

section \<open>State\<close>

record registry =
  rg_agents :: "(string, connected_agent) hashmap"
  rg_disconnects :: "(string, nat) hashmap"
  rg_unavailable :: "string set"
  rg_detached :: "connected_agent list" \<comment> \<open>replaced entries that waiting commands still hold\<close>
  rg_streams :: "nat set"
  rg_sent :: "(nat \<times> coordinator_payload) list"
  rg_next_waiter :: nat
  rg_results :: "(nat, agent_message option) hashmap"

definition empty_registry :: registry where
  "empty_registry = \<lparr>rg_agents = [], rg_disconnects = [], rg_unavailable = {}, rg_detached = [],
     rg_streams = {}, rg_sent = [], rg_next_waiter = 0, rg_results = []\<rparr>"

definition registry_agent :: "string \<Rightarrow> registry \<Rightarrow> connected_agent option" where
  "registry_agent aid rg = hm_get (rg_agents rg) aid"

text \<open>\<^verbatim>\<open>if let Some(agent) = self.get(id) { agent.write()... }\<close>.\<close>

definition modify_agent :: "string \<Rightarrow> (connected_agent \<Rightarrow> connected_agent) \<Rightarrow> registry \<Rightarrow> registry" where
  "modify_agent aid f rg = rg\<lparr>rg_agents := hm_modify aid f (rg_agents rg)\<rparr>"

section \<open>Connections\<close>

text \<open>
  A replaced entry lives on while a waiting \<open>send_command\<close> holds it; without one, its command
  sender is dropped with it.
\<close>

definition detach :: "connected_agent option \<Rightarrow> connected_agent list \<Rightarrow> connected_agent list" where
  "detach old ds = (case old of None \<Rightarrow> ds | Some a \<Rightarrow> if pending_commands a = [] then ds else a # ds)"

definition register ::
    "nat \<Rightarrow> string \<Rightarrow> string \<Rightarrow> string \<Rightarrow> nat \<Rightarrow> nat \<Rightarrow> string list \<Rightarrow> string list list \<Rightarrow> nat
     \<Rightarrow> registry \<Rightarrow> registry" where
  "register now aid atype host mx act ls lsets tx rg =
     (let agent = agent_new now aid atype host mx act ls lsets tx;
          unav = aid \<in> rg_unavailable rg
      in rg\<lparr>rg_agents := hm_insert aid (agent\<lparr>unavailable := unav\<rparr>) (rg_agents rg),
            rg_detached := detach (hm_get (rg_agents rg) aid) (rg_detached rg),
            rg_disconnects := hm_remove aid (rg_disconnects rg),
            rg_streams := insert tx (rg_streams rg)\<rparr>)"

definition close_waiters ::
    "(string, nat) hashmap \<Rightarrow> (nat, agent_message option) hashmap \<Rightarrow> (nat, agent_message option) hashmap" where
  "close_waiters pending results = fold (\<lambda>(_, w) r. hm_insert w None r) pending results"

definition unregister :: "nat \<Rightarrow> string \<Rightarrow> registry \<Rightarrow> nat \<times> registry" where
  "unregister now aid rg =
     (let entry = hm_get (rg_agents rg) aid;
          rg' = rg\<lparr>rg_disconnects := hm_insert aid now (rg_disconnects rg),
                   rg_agents := hm_remove aid (rg_agents rg)\<rparr>
      in (now, case entry of
                 None \<Rightarrow> rg'
               | Some a \<Rightarrow> rg'\<lparr>rg_results := close_waiters (pending_commands a) (rg_results rg)\<rparr>))"

definition claim_failover :: "string \<Rightarrow> nat \<Rightarrow> registry \<Rightarrow> bool \<times> registry" where
  "claim_failover aid stamp rg =
     (if hm_contains (rg_agents rg) aid \<or> hm_get (rg_disconnects rg) aid \<noteq> Some stamp then (False, rg)
      else (True, rg\<lparr>rg_disconnects := hm_remove aid (rg_disconnects rg)\<rparr>))"

text \<open>A stream's command receiver ends when no entry holds its sender any more.\<close>

definition sender_alive :: "registry \<Rightarrow> nat \<Rightarrow> bool" where
  "sender_alive rg tx \<longleftrightarrow>
     list_ex (\<lambda>(_, a). command_tx a = tx) (rg_agents rg) \<or> list_ex (\<lambda>a. command_tx a = tx) (rg_detached rg)"

text \<open>\<open>close_stream\<close>: the stream task ended and its receiver is gone.\<close>

definition close_stream :: "nat \<Rightarrow> registry \<Rightarrow> registry" where
  "close_stream tx rg = rg\<lparr>rg_streams := rg_streams rg - {tx}\<rparr>"

section \<open>Selecting an agent\<close>

type_synonym candidate = "bool \<times> nat \<times> nat \<times> string"

definition candidate_key :: "candidate \<Rightarrow> bool \<times> int \<times> nat \<times> string" where
  "candidate_key c = (case c of (avoided, free, in_use, aid) \<Rightarrow> (avoided, - int free, in_use, aid))"

definition candidates ::
    "string list \<Rightarrow> string list \<Rightarrow> (connected_agent \<Rightarrow> bool) \<Rightarrow> registry \<Rightarrow> candidate list" where
  "candidates ls avoid incl rg =
     map (\<lambda>(aid, a). (aid \<in> set avoid, available_capacity a ls [], active_vms a + reserved_slots a, aid))
       (filter (\<lambda>(_, a). incl a \<and> has_capacity a ls [] \<and> matches_labels a ls) (rg_agents rg))"

definition select_agent_where ::
    "string list \<Rightarrow> string list \<Rightarrow> (connected_agent \<Rightarrow> bool) \<Rightarrow> registry \<Rightarrow> string option" where
  "select_agent_where ls avoid incl rg =
     (case sort_key candidate_key (candidates ls avoid incl rg) of
        [] \<Rightarrow> None
      | (_, _, _, aid) # _ \<Rightarrow> Some aid)"

definition select_agent :: "string list \<Rightarrow> string list \<Rightarrow> registry \<Rightarrow> string option" where
  "select_agent ls avoid rg = select_agent_where ls avoid (\<lambda>_. True) rg"

definition find_available_agent :: "string list \<Rightarrow> registry \<Rightarrow> string option" where
  "find_available_agent ls rg = select_agent ls [] rg"

definition select_agent_for_kind ::
    "string list \<Rightarrow> string list \<Rightarrow> runner_kind \<Rightarrow> registry \<Rightarrow> string option" where
  "select_agent_for_kind ls avoid kind rg = select_agent_where ls avoid (\<lambda>a. runs a kind) rg"

definition select_legacy_pool_agent :: "string list \<Rightarrow> registry \<Rightarrow> string option" where
  "select_legacy_pool_agent pool_labels rg =
     select_agent_where pool_labels [] (\<lambda>a. in_legacy_pool a pool_labels) rg"

definition find_agents_by_labels :: "string list \<Rightarrow> registry \<Rightarrow> string list" where
  "find_agents_by_labels ls rg = map fst (filter (\<lambda>(_, a). matches_labels a ls) (rg_agents rg))"

definition total_capacity :: "string list \<Rightarrow> registry \<Rightarrow> nat" where
  "total_capacity ls rg =
     sum_list (map (\<lambda>(_, a). if matches_labels a ls then available_capacity a ls [] else 0) (rg_agents rg))"

definition legacy_pool_capacity :: "string list \<Rightarrow> registry \<Rightarrow> nat" where
  "legacy_pool_capacity pool_labels rg =
     sum_list (map (\<lambda>(_, a). if in_legacy_pool a pool_labels then available_capacity a pool_labels [] else 0)
                (rg_agents rg))"

definition registry_agent_capacity :: "string \<Rightarrow> string list \<Rightarrow> string \<Rightarrow> registry \<Rightarrow> nat" where
  "registry_agent_capacity aid ls set_id rg =
     (case registry_agent aid rg of Some a \<Rightarrow> available_capacity a ls set_id | None \<Rightarrow> 0)"

section \<open>Commands and responses\<close>

definition register_pending_command :: "string \<Rightarrow> nat \<Rightarrow> connected_agent \<Rightarrow> connected_agent" where
  "register_pending_command cid w a = a\<lparr>pending_commands := hm_insert cid w (pending_commands a)\<rparr>"

text \<open>The first half of \<open>send_command\<close>, up to waiting: the waiter, or the error it returns.\<close>

definition send_command ::
    "string \<Rightarrow> coordinator_payload \<Rightarrow> string \<Rightarrow> registry \<Rightarrow> (string + nat) \<times> registry" where
  "send_command aid command cid rg =
     (case registry_agent aid rg of
        None \<Rightarrow> (Inl (''Agent not found: '' @ aid), rg)
      | Some a \<Rightarrow>
          (let w = rg_next_waiter rg;
               rg1 = (modify_agent aid (register_pending_command cid w) rg)
                       \<lparr>rg_next_waiter := w + 1,
                        rg_results := (case hm_get (pending_commands a) cid of
                            None \<Rightarrow> rg_results rg | Some old \<Rightarrow> hm_insert old None (rg_results rg))\<rparr>
           in if command_tx a \<in> rg_streams rg
              then (Inr w, rg1\<lparr>rg_sent := rg_sent rg @ [(command_tx a, command)]\<rparr>)
              else (Inl ''Failed to send command to agent'', rg1)))"

text \<open>
  The second half: what the waiter returns once it has a result, or times out (\<open>poll_command\<close>
  is \<^term>\<open>None\<close> while it waits). On a timeout the command is forgotten on the entry the sender
  got, found again by its connection.
\<close>

definition poll_command :: "nat \<Rightarrow> registry \<Rightarrow> (string + agent_message) option" where
  "poll_command w rg =
     (case hm_get (rg_results rg) w of
        None \<Rightarrow> None
      | Some None \<Rightarrow> Some (Inl ''Command response channel closed'')
      | Some (Some response) \<Rightarrow> Some (Inr response))"

definition forget_command :: "nat \<Rightarrow> string \<Rightarrow> connected_agent \<Rightarrow> connected_agent" where
  "forget_command tx cid a =
     (if command_tx a = tx then a\<lparr>pending_commands := hm_remove cid (pending_commands a)\<rparr> else a)"

definition timeout_command :: "nat \<Rightarrow> string \<Rightarrow> string \<Rightarrow> registry \<Rightarrow> (string + agent_message) \<times> registry" where
  "timeout_command tx aid cid rg =
     (Inl ''Command timed out'',
      (modify_agent aid (forget_command tx cid) rg)
        \<lparr>rg_detached := filter (\<lambda>a. pending_commands a \<noteq> []) (map (forget_command tx cid) (rg_detached rg))\<rparr>)"

definition send_no_reply :: "string \<Rightarrow> coordinator_payload \<Rightarrow> registry \<Rightarrow> (string + unit) \<times> registry" where
  "send_no_reply aid command rg =
     (case registry_agent aid rg of
        None \<Rightarrow> (Inl (''Agent not found: '' @ aid), rg)
      | Some a \<Rightarrow>
          if command_tx a \<in> rg_streams rg
          then (Inr (), rg\<lparr>rg_sent := rg_sent rg @ [(command_tx a, command)]\<rparr>)
          else (Inl ''Failed to send command to agent'', rg))"

text \<open>\<open>complete_command\<close>: the waiter the response goes to, and the entry without it.\<close>

definition complete_command :: "string \<Rightarrow> connected_agent \<Rightarrow> nat option \<times> connected_agent" where
  "complete_command cid a =
     (case hm_get (pending_commands a) cid of
        Some w \<Rightarrow> (Some w, a\<lparr>pending_commands := hm_remove cid (pending_commands a)\<rparr>)
      | None \<Rightarrow> (None, a))"

definition handle_response :: "string \<Rightarrow> string \<Rightarrow> agent_message \<Rightarrow> registry \<Rightarrow> registry" where
  "handle_response aid cid response rg =
     (case registry_agent aid rg of
        None \<Rightarrow> rg
      | Some a \<Rightarrow>
          (case complete_command cid a of
             (None, _) \<Rightarrow> rg
           | (Some w, a') \<Rightarrow>
               (modify_agent aid (\<lambda>_. a') rg)\<lparr>rg_results := hm_insert w (Some response) (rg_results rg)\<rparr>))"

section \<open>Status and reservations\<close>

definition update_status ::
    "nat \<Rightarrow> string \<Rightarrow> nat \<Rightarrow> nat \<Rightarrow> string list \<Rightarrow> string list list \<Rightarrow> registry \<Rightarrow> registry" where
  "update_status now aid act mx ls lsets rg =
     modify_agent aid (\<lambda>a. touch now (a\<lparr>active_vms := act, max_vms := mx, labels := ls, label_sets := lsets\<rparr>)) rg"

definition settle_reservations :: "string \<Rightarrow> string list \<Rightarrow> registry \<Rightarrow> registry" where
  "settle_reservations aid vm_names rg =
     modify_agent aid (\<lambda>a. a\<lparr>reservations := hm_retain (\<lambda>n _. n \<notin> set vm_names) (reservations a)\<rparr>) rg"

definition set_capacity :: "string \<Rightarrow> agent_capacity \<Rightarrow> registry \<Rightarrow> registry" where
  "set_capacity aid c rg =
     modify_agent aid (\<lambda>a. a\<lparr>limits := ac_limits c, label_set_limits := ac_label_set_limits c,
       label_set_pools := ac_label_set_pools c, label_set_ids := ac_label_set_ids c,
       default_set := ac_default_set c, runner_kinds := ac_runner_kinds c\<rparr>) rg"

definition registry_touch :: "nat \<Rightarrow> string \<Rightarrow> registry \<Rightarrow> registry" where
  "registry_touch now aid rg = modify_agent aid (touch now) rg"

definition set_unavailable :: "string \<Rightarrow> bool \<Rightarrow> registry \<Rightarrow> registry" where
  "set_unavailable aid b rg =
     (modify_agent aid (\<lambda>a. a\<lparr>unavailable := b\<rparr>) rg)
       \<lparr>rg_unavailable := (if b then insert aid (rg_unavailable rg) else rg_unavailable rg - {aid})\<rparr>"

definition is_unavailable :: "string \<Rightarrow> registry \<Rightarrow> bool" where
  "is_unavailable aid rg \<longleftrightarrow> aid \<in> rg_unavailable rg"

definition registry_reserve_slot ::
    "nat \<Rightarrow> string \<Rightarrow> string list \<Rightarrow> string \<Rightarrow> string \<Rightarrow> registry \<Rightarrow> bool \<times> registry" where
  "registry_reserve_slot now aid ls set_id runner_name rg =
     (case registry_agent aid rg of
        None \<Rightarrow> (False, rg)
      | Some a \<Rightarrow>
          (case reserve_slot now ls set_id runner_name a of
             (reserved, a') \<Rightarrow> (reserved, modify_agent aid (\<lambda>_. a') rg)))"

definition registry_release_slot :: "string \<Rightarrow> string \<Rightarrow> registry \<Rightarrow> registry" where
  "registry_release_slot aid runner_name rg = modify_agent aid (release_slot runner_name) rg"

definition drop_stale_reservations :: "nat \<Rightarrow> string list \<Rightarrow> nat \<Rightarrow> connected_agent \<Rightarrow> connected_agent" where
  "drop_stale_reservations now db_runners min_age a =
     (let stale = map fst (filter (\<lambda>(name, r). now - rv_at r \<ge> min_age \<and> name \<notin> set db_runners) (reservations a))
      in a\<lparr>reservations := fold hm_remove stale (reservations a)\<rparr>)"

definition reconcile_reservations :: "nat \<Rightarrow> string \<Rightarrow> string list \<Rightarrow> nat \<Rightarrow> registry \<Rightarrow> registry" where
  "reconcile_reservations now aid db_runners min_age rg =
     modify_agent aid (drop_stale_reservations now db_runners min_age) rg"

definition agent_count :: "registry \<Rightarrow> nat" where
  "agent_count rg = length (rg_agents rg)"

definition remove_stale :: "nat \<Rightarrow> nat \<Rightarrow> registry \<Rightarrow> string list \<times> registry" where
  "remove_stale now timeout rg =
     (let to_remove = map fst (filter (\<lambda>(_, a). is_stale now timeout a) (rg_agents rg))
      in (to_remove, fold (\<lambda>aid rg. snd (unregister now aid rg)) to_remove rg))"

section \<open>Pools\<close>

record pool_definition =
  pd_labels :: "string list"
  pd_target :: "32 word"
  pd_agent :: "string option"
  pd_label_set_id :: string

definition pool_key :: "pool_definition \<Rightarrow> string" where
  "pool_key p =
     (let ls = join '','' (pd_labels p) in
      if pd_label_set_id p = [] then ls else ls @ ''@'' @ pd_label_set_id p)"

definition explicit_pools_of :: "connected_agent \<Rightarrow> pool_definition list" where
  "explicit_pools_of a =
     concat (map (\<lambda>(i, s).
       (let target = (case get_at (label_set_pools a) i of Some (Some p) \<Rightarrow> p | _ \<Rightarrow> 0) in
        if target > 0
        then [\<lparr>pd_labels = normalize_labels s, pd_target = target, pd_agent = Some (agent_id a),
               pd_label_set_id = (case get_at (label_set_ids a) i of Some x \<Rightarrow> x | None \<Rightarrow> [])\<rparr>]
        else [])) (enumerate 0 (label_sets a)))"

definition add_legacy :: "connected_agent \<Rightarrow> (string list, 32 word) hashmap \<Rightarrow> (string list, 32 word) hashmap" where
  "add_legacy a m =
     (let k = normalize_labels (labels a) in
      hm_insert k ((case hm_get m k of None \<Rightarrow> 0 | Some n \<Rightarrow> n) + of_nat (ceiling_for a (labels a))) m)"

definition collect_pools ::
    "connected_agent list \<Rightarrow> (string list, 32 word) hashmap \<times> pool_definition list" where
  "collect_pools as = fold (\<lambda>a (legacy, explicit).
       if unavailable a then (legacy, explicit)
       else if has_explicit_pools a then (legacy, explicit @ explicit_pools_of a)
       else (add_legacy a legacy, explicit)) as ([], [])"

definition get_pool_definitions :: "registry \<Rightarrow> pool_definition list" where
  "get_pool_definitions rg =
     (case collect_pools (map snd (rg_agents rg)) of (legacy, explicit) \<Rightarrow>
        map (\<lambda>(ls, n). \<lparr>pd_labels = ls, pd_target = n, pd_agent = None, pd_label_set_id = []\<rparr>) legacy
        @ explicit)"

section \<open>Listing\<close>

record agent_info =
  ai_agent_id :: string
  ai_agent_type :: string
  ai_hostname :: string
  ai_labels :: "string list"
  ai_label_sets :: "string list list"
  ai_display_label_sets :: "string list list"
  ai_max_vms :: nat
  ai_active_vms :: nat
  ai_limits :: "vm_limit list"
  ai_explicit_pools :: bool
  ai_last_seen_secs :: nat
  ai_unavailable :: bool

text \<open>Instants count milliseconds here, so \<^verbatim>\<open>as_secs()\<close> divides.\<close>

definition agent_info_of :: "nat \<Rightarrow> connected_agent \<Rightarrow> agent_info" where
  "agent_info_of now a =
     \<lparr>ai_agent_id = agent_id a, ai_agent_type = agent_type a, ai_hostname = hostname a,
      ai_labels = labels a, ai_label_sets = label_sets a, ai_display_label_sets = display_label_sets a,
      ai_max_vms = max_vms a, ai_active_vms = active_vms a,
      ai_limits = map (\<lambda>l. l\<lparr>vl_active := limit_active a l\<rparr>) (limits a),
      ai_explicit_pools = has_explicit_pools a, ai_last_seen_secs = (now - last_seen a) div 1000,
      ai_unavailable = unavailable a\<rparr>"

definition list_agents :: "nat \<Rightarrow> registry \<Rightarrow> agent_info list" where
  "list_agents now rg = map (\<lambda>(_, a). agent_info_of now a) (rg_agents rg)"

definition is_online :: "agent_info \<Rightarrow> bool" where
  "is_online i \<longleftrightarrow> ai_last_seen_secs i < 60"

definition status_display :: "agent_info \<Rightarrow> string" where
  "status_display i =
     (if is_online i then ''online''
      else if ai_last_seen_secs i < 3600
           then ''offline ('' @ nat_to_string (ai_last_seen_secs i div 60) @ ''m)''
      else ''offline ('' @ nat_to_string (ai_last_seen_secs i div 3600) @ ''h)'')"

end
