(* ===== verification/Registry_Facts.thy ===== *)
theory Registry_Facts
  imports Agent_Registry
begin

text \<open>
  What \<open>Agent_Registry\<close> guarantees over every sequence of its operations: the invariant that
  ties the three maps together, the agent a job is routed to, failover of a dropped agent's runners,
  and the pool targets.
\<close>

section \<open>Sequences of operations\<close>

datatype reg_op =
    Register nat string string string nat nat "string list" "string list list" nat
  | Unregister nat string
  | ClaimFailover string nat
  | SetUnavailable string bool
  | ReserveSlot nat string "string list" string string
  | ReleaseSlot string string
  | UpdateStatus nat string nat nat "string list" "string list list"
  | Settle string "string list"
  | SetCapacity string agent_capacity
  | Touch nat string
  | Send string coordinator_payload string
  | SendNoReply string coordinator_payload
  | Response string string agent_message
  | TimeoutCommand nat string string
  | Reconcile nat string "string list" nat
  | RemoveStale nat nat
  | CloseStream nat

fun reg_apply :: "reg_op \<Rightarrow> registry \<Rightarrow> registry" where
  "reg_apply (Register now aid ty host mx act ls lsets tx) rg = register now aid ty host mx act ls lsets tx rg"
| "reg_apply (Unregister now aid) rg = snd (unregister now aid rg)"
| "reg_apply (ClaimFailover aid stamp) rg = snd (claim_failover aid stamp rg)"
| "reg_apply (SetUnavailable aid b) rg = set_unavailable aid b rg"
| "reg_apply (ReserveSlot now aid ls sid n) rg = snd (registry_reserve_slot now aid ls sid n rg)"
| "reg_apply (ReleaseSlot aid n) rg = registry_release_slot aid n rg"
| "reg_apply (UpdateStatus now aid act mx ls lsets) rg = update_status now aid act mx ls lsets rg"
| "reg_apply (Settle aid ns) rg = settle_reservations aid ns rg"
| "reg_apply (SetCapacity aid c) rg = set_capacity aid c rg"
| "reg_apply (Touch now aid) rg = registry_touch now aid rg"
| "reg_apply (Send aid p cid) rg = snd (send_command aid p cid rg)"
| "reg_apply (SendNoReply aid p) rg = snd (send_no_reply aid p rg)"
| "reg_apply (Response aid cid m) rg = handle_response aid cid m rg"
| "reg_apply (TimeoutCommand tx aid cid) rg = snd (timeout_command tx aid cid rg)"
| "reg_apply (Reconcile now aid ns age) rg = reconcile_reservations now aid ns age rg"
| "reg_apply (RemoveStale now t) rg = snd (remove_stale now t rg)"
| "reg_apply (CloseStream tx) rg = close_stream tx rg"

inductive reg_reachable :: "registry \<Rightarrow> bool" where
  reg_init: "reg_reachable empty_registry"
| reg_next: "reg_reachable rg \<Longrightarrow> reg_reachable (reg_apply p rg)"

section \<open>The invariant\<close>

definition reg_inv :: "registry \<Rightarrow> bool" where
  "reg_inv rg \<longleftrightarrow> hm_ok (rg_agents rg) \<and> hm_ok (rg_disconnects rg)
     \<and> (\<forall>aid a. hm_get (rg_agents rg) aid = Some a \<longrightarrow>
          hm_get (rg_disconnects rg) aid = None \<and> agent_id a = aid
          \<and> (unavailable a \<longleftrightarrow> aid \<in> rg_unavailable rg))"

lemma modify_agent_simps [simp]:
  "rg_disconnects (modify_agent aid f rg) = rg_disconnects rg"
  "rg_unavailable (modify_agent aid f rg) = rg_unavailable rg"
  "rg_detached (modify_agent aid f rg) = rg_detached rg"
  "rg_streams (modify_agent aid f rg) = rg_streams rg"
  "rg_sent (modify_agent aid f rg) = rg_sent rg"
  "rg_results (modify_agent aid f rg) = rg_results rg"
  by (simp_all add: modify_agent_def)

lemma registry_agent_modify:
  "registry_agent k (modify_agent aid f rg) =
     (if k = aid then map_option f (registry_agent k rg) else registry_agent k rg)"
  by (simp add: registry_agent_def modify_agent_def hm_get_modify)

lemma reg_inv_modify [wf_intros]:
  assumes "reg_inv rg"
    and "\<And>a. registry_agent aid rg = Some a \<Longrightarrow> agent_id (f a) = agent_id a \<and> unavailable (f a) = unavailable a"
  shows "reg_inv (modify_agent aid f rg)"
  using assms by (auto simp: reg_inv_def modify_agent_def hm_get_modify registry_agent_def split: if_splits)

lemma reg_inv_cong:
  assumes "reg_inv rg" and "rg_agents rg' = rg_agents rg" and "rg_disconnects rg' = rg_disconnects rg"
    and "rg_unavailable rg' = rg_unavailable rg"
  shows "reg_inv rg'"
  using assms by (simp add: reg_inv_def)

lemma reg_inv_empty [simp]: "reg_inv empty_registry"
  by (simp add: reg_inv_def empty_registry_def)

lemma reg_inv_register [wf_intros]: "reg_inv rg \<Longrightarrow> reg_inv (register now aid ty host mx act ls lsets tx rg)"
  by (auto simp: reg_inv_def register_def Let_def agent_new_def)

lemma reg_inv_unregister [wf_intros]: "reg_inv rg \<Longrightarrow> reg_inv (snd (unregister now aid rg))"
  by (auto simp: reg_inv_def unregister_def Let_def split: option.splits)

lemma reg_inv_claim [wf_intros]: "reg_inv rg \<Longrightarrow> reg_inv (snd (claim_failover aid stamp rg))"
  by (auto simp: reg_inv_def claim_failover_def)

lemma reg_inv_set_unavailable [wf_intros]: "reg_inv rg \<Longrightarrow> reg_inv (set_unavailable aid b rg)"
  by (auto simp: reg_inv_def set_unavailable_def modify_agent_def hm_get_modify split: if_splits)

lemma reserve_slot_identity [simp]:
  "agent_id (snd (reserve_slot now ls sid n a)) = agent_id a"
  "unavailable (snd (reserve_slot now ls sid n a)) = unavailable a"
  by (simp_all add: reserve_slot_def Let_def)

lemma reg_inv_reserve [wf_intros]: "reg_inv rg \<Longrightarrow> reg_inv (snd (registry_reserve_slot now aid ls sid n rg))"
  by (auto simp: registry_reserve_slot_def split: option.split prod.split intro!: reg_inv_modify)
    (metis reserve_slot_identity snd_conv)+

lemma reg_inv_send [wf_intros]: "reg_inv rg \<Longrightarrow> reg_inv (snd (send_command aid p cid rg))"
  by (auto simp: send_command_def Let_def register_pending_command_def split: option.split
      intro!: reg_inv_cong [OF reg_inv_modify [of rg aid "register_pending_command cid (rg_next_waiter rg)"]])

lemma reg_inv_no_reply [wf_intros]: "reg_inv rg \<Longrightarrow> reg_inv (snd (send_no_reply aid p rg))"
  by (auto simp: send_no_reply_def split: option.split intro: reg_inv_cong)

lemma reg_inv_response [wf_intros]:
  assumes "reg_inv rg"
  shows "reg_inv (handle_response aid cid m rg)"
proof (cases "registry_agent aid rg")
  case (Some a)
  have "reg_inv (modify_agent aid (\<lambda>_. snd (complete_command cid a)) rg)"
    using assms Some by (intro reg_inv_modify) (auto simp: complete_command_def split: option.split)
  with assms Some show ?thesis
    by (auto simp: handle_response_def complete_command_def split: option.split intro: reg_inv_cong)
qed (use assms in \<open>simp add: handle_response_def\<close>)

lemma reg_inv_timeout [wf_intros]:
  assumes "reg_inv rg"
  shows "reg_inv (snd (timeout_command tx aid cid rg))"
proof -
  have "reg_inv (modify_agent aid (forget_command tx cid) rg)"
    using assms by (intro reg_inv_modify) (auto simp: forget_command_def)
  then show ?thesis by (auto simp: timeout_command_def intro: reg_inv_cong)
qed

lemma reg_inv_fold_unregister: "reg_inv rg \<Longrightarrow> reg_inv (fold (\<lambda>aid rg. snd (unregister now aid rg)) ids rg)"
  by (induction ids arbitrary: rg) (auto simp: reg_inv_unregister)

lemma reg_inv_apply: "reg_inv rg \<Longrightarrow> reg_inv (reg_apply p rg)"
  by (cases p)
    (auto simp: registry_release_slot_def release_slot_def update_status_def touch_def
      settle_reservations_def set_capacity_def registry_touch_def reconcile_reservations_def
      drop_stale_reservations_def remove_stale_def Let_def close_stream_def reg_inv_fold_unregister
      intro!: wf_intros intro: reg_inv_cong)

lemma reg_reachable_inv: "reg_reachable rg \<Longrightarrow> reg_inv rg"
  by (induction rule: reg_reachable.induct) (auto simp: reg_inv_apply)


section \<open>Selecting an agent\<close>

definition eligible :: "string list \<Rightarrow> (connected_agent \<Rightarrow> bool) \<Rightarrow> connected_agent \<Rightarrow> bool" where
  "eligible ls incl a \<longleftrightarrow> incl a \<and> has_capacity a ls [] \<and> matches_labels a ls"

definition load_key :: "string list \<Rightarrow> string list \<Rightarrow> string \<Rightarrow> connected_agent \<Rightarrow> bool \<times> int \<times> nat \<times> string" where
  "load_key ls avoid aid a =
     (aid \<in> set avoid, - int (available_capacity a ls []), active_vms a + reserved_slots a, aid)"

lemma candidates_iff:
  "c \<in> set (candidates ls avoid incl rg) \<longleftrightarrow>
     (\<exists>aid a. (aid, a) \<in> set (rg_agents rg) \<and> eligible ls incl a
        \<and> c = (aid \<in> set avoid, available_capacity a ls [], active_vms a + reserved_slots a, aid))"
  by (force simp: candidates_def eligible_def)

lemma sort_key_hd:
  assumes "sort_key f xs = x # ys"
  shows "x \<in> set xs \<and> (\<forall>y \<in> set xs. f x \<le> f y)"
proof -
  have "sorted (map f (x # ys))" by (metis assms sorted_sort_key)
  moreover have "set xs = set (x # ys)" by (metis assms set_sort)
  ultimately show ?thesis by auto
qed

lemma hm_get_iff_mem: "hm_ok m \<Longrightarrow> hm_get m k = Some v \<longleftrightarrow> (k, v) \<in> set m"
  by (simp add: hm_ok_def)

lemma select_agent_iff:
  assumes ok: "hm_ok (rg_agents rg)"
  shows "select_agent_where ls avoid incl rg = Some aid \<longleftrightarrow>
    (\<exists>a. registry_agent aid rg = Some a \<and> eligible ls incl a \<and>
       (\<forall>aid' a'. registry_agent aid' rg = Some a' \<and> eligible ls incl a' \<longrightarrow>
          load_key ls avoid aid a \<le> load_key ls avoid aid' a'))"
    (is "?L = ?R")
proof
  have key: "candidate_key (aid \<in> set avoid, available_capacity a ls [], active_vms a + reserved_slots a, aid)
      = load_key ls avoid aid a" for aid a
    by (simp add: candidate_key_def load_key_def)
  have mem: "registry_agent k rg = Some a \<longleftrightarrow> (k, a) \<in> set (rg_agents rg)" for k a
    using ok by (simp add: registry_agent_def hm_get_iff_mem)
  {
    assume ?L
    then obtain c cs where s: "sort_key candidate_key (candidates ls avoid incl rg) = c # cs"
      and c: "snd (snd (snd c)) = aid"
      by (auto simp: select_agent_where_def split: list.splits prod.splits)
    from sort_key_hd [OF s] obtain a where a: "(aid, a) \<in> set (rg_agents rg)" "eligible ls incl a"
      and k: "candidate_key c = load_key ls avoid aid a"
      using c by (auto simp: candidates_iff key)
    have "load_key ls avoid aid a \<le> load_key ls avoid k' a'"
      if "(k', a') \<in> set (rg_agents rg)" "eligible ls incl a'" for k' a'
    proof -
      let ?d = "(k' \<in> set avoid, available_capacity a' ls [], active_vms a' + reserved_slots a', k')"
      have "?d \<in> set (candidates ls avoid incl rg)" using that by (auto simp: candidates_iff)
      with sort_key_hd [OF s] have "candidate_key c \<le> candidate_key ?d" by blast
      then show ?thesis by (simp only: key k)
    qed
    with a show ?R by (auto simp: mem)
  }
  {
    assume ?R
    then obtain a where a: "(aid, a) \<in> set (rg_agents rg)" "eligible ls incl a"
      and least: "\<And>k' a'. (k', a') \<in> set (rg_agents rg) \<Longrightarrow> eligible ls incl a' \<Longrightarrow>
        load_key ls avoid aid a \<le> load_key ls avoid k' a'"
      by (auto simp: mem)
    then have "candidates ls avoid incl rg \<noteq> []"
      using candidates_iff [of _ ls avoid incl rg] by (metis empty_iff empty_set)
    then have "sort_key candidate_key (candidates ls avoid incl rg) \<noteq> []"
      by (metis set_empty set_sort)
    then obtain c cs where s: "sort_key candidate_key (candidates ls avoid incl rg) = c # cs"
      by (meson neq_Nil_conv)
    from sort_key_hd [OF s] obtain k' a' where c: "(k', a') \<in> set (rg_agents rg)" "eligible ls incl a'"
        "c = (k' \<in> set avoid, available_capacity a' ls [], active_vms a' + reserved_slots a', k')"
      by (auto simp: candidates_iff)
    have "(aid \<in> set avoid, available_capacity a ls [], active_vms a + reserved_slots a, aid)
        \<in> set (candidates ls avoid incl rg)" using a by (auto simp: candidates_iff)
    with sort_key_hd [OF s] have "load_key ls avoid k' a' \<le> load_key ls avoid aid a"
      using c(3) by (metis key)
    with least [OF c(1,2)] have "k' = aid" by (auto simp: load_key_def)
    then show ?L by (simp add: select_agent_where_def s c(3))
  }
qed

lemma select_agent_None_iff:
  assumes "hm_ok (rg_agents rg)"
  shows "select_agent_where ls avoid incl rg = None \<longleftrightarrow>
    (\<forall>aid a. registry_agent aid rg = Some a \<longrightarrow> \<not> eligible ls incl a)"
proof -
  have "select_agent_where ls avoid incl rg = None \<longleftrightarrow> candidates ls avoid incl rg = []"
    by (auto simp: select_agent_where_def split: list.splits prod.splits)
      (metis list.simps(3) set_empty set_sort)+
  also have "\<dots> \<longleftrightarrow> (\<forall>(aid, a) \<in> set (rg_agents rg). \<not> eligible ls incl a)"
    by (auto simp: candidates_def eligible_def filter_empty_conv)
  finally show ?thesis
    using assms by (auto simp: registry_agent_def hm_get_iff_mem)
qed

section \<open>Dropped agents\<close>

lemma disconnects_kept:
  "rg_disconnects (set_unavailable aid b rg) = rg_disconnects rg"
  "rg_disconnects (snd (registry_reserve_slot now aid ls sid n rg)) = rg_disconnects rg"
  "rg_disconnects (registry_release_slot aid n rg) = rg_disconnects rg"
  "rg_disconnects (update_status now aid act mx ls lsets rg) = rg_disconnects rg"
  "rg_disconnects (settle_reservations aid ns rg) = rg_disconnects rg"
  "rg_disconnects (set_capacity aid c rg) = rg_disconnects rg"
  "rg_disconnects (registry_touch now aid rg) = rg_disconnects rg"
  "rg_disconnects (snd (send_command aid pl cid rg)) = rg_disconnects rg"
  "rg_disconnects (snd (send_no_reply aid pl rg)) = rg_disconnects rg"
  "rg_disconnects (handle_response aid cid m rg) = rg_disconnects rg"
  "rg_disconnects (snd (timeout_command tx aid cid rg)) = rg_disconnects rg"
  "rg_disconnects (reconcile_reservations now aid ns age rg) = rg_disconnects rg"
  "rg_disconnects (close_stream tx rg) = rg_disconnects rg"
  by (simp_all add: set_unavailable_def registry_reserve_slot_def registry_release_slot_def
      update_status_def settle_reservations_def set_capacity_def registry_touch_def send_command_def
      Let_def send_no_reply_def handle_response_def timeout_command_def reconcile_reservations_def
      close_stream_def split: option.split prod.split)

lemma disconnects_register:
  "rg_disconnects (register now aid ty host mx act ls lsets tx rg) = hm_remove aid (rg_disconnects rg)"
  by (simp add: register_def Let_def)

lemma disconnects_unregister:
  "rg_disconnects (snd (unregister now aid rg)) = hm_insert aid now (rg_disconnects rg)"
  by (simp add: unregister_def Let_def split: option.split)

lemma disconnects_claim:
  "hm_get (rg_disconnects (snd (claim_failover aid stamp rg))) k = Some s \<Longrightarrow>
   hm_get (rg_disconnects rg) k = Some s"
  by (simp add: claim_failover_def split: if_splits)

lemma disconnects_remove_stale:
  "hm_get (rg_disconnects (snd (remove_stale now t rg))) aid = Some stamp \<Longrightarrow>
   hm_get (rg_disconnects rg) aid = Some stamp \<or> now = stamp"
proof -
  have "hm_get (rg_disconnects (fold (\<lambda>aid rg. snd (unregister now aid rg)) ids rg)) aid = Some stamp \<Longrightarrow>
      hm_get (rg_disconnects rg) aid = Some stamp \<or> now = stamp" for ids
    by (induction ids arbitrary: rg) (fastforce simp: disconnects_unregister split: if_splits)+
  then show "hm_get (rg_disconnects (snd (remove_stale now t rg))) aid = Some stamp \<Longrightarrow>
      hm_get (rg_disconnects rg) aid = Some stamp \<or> now = stamp"
    by (simp add: remove_stale_def Let_def)
qed

lemma disconnects_apply:
  assumes "hm_get (rg_disconnects (reg_apply p rg)) aid = Some stamp"
  shows "hm_get (rg_disconnects rg) aid = Some stamp \<or> (\<exists>now. p = Unregister now aid \<and> now = stamp)
    \<or> (\<exists>now t. p = RemoveStale now t \<and> now = stamp)"
  using assms
  by (cases p)
    (auto simp: disconnects_kept disconnects_register disconnects_unregister
      dest: disconnects_claim disconnects_remove_stale split: if_splits)

definition drops_at :: "nat \<Rightarrow> string \<Rightarrow> reg_op \<Rightarrow> bool" where
  "drops_at stamp aid p = (case p of Unregister now k \<Rightarrow> now = stamp \<and> k = aid
     | RemoveStale now _ \<Rightarrow> now = stamp | _ \<Rightarrow> False)"

lemma stamp_gone_stays:
  assumes "list_all (\<lambda>p. \<not> drops_at stamp aid p) ps" and "hm_get (rg_disconnects rg) aid \<noteq> Some stamp"
  shows "hm_get (rg_disconnects (fold reg_apply ps rg)) aid \<noteq> Some stamp"
  using assms
proof (induction ps arbitrary: rg)
  case (Cons p ps)
  have "hm_get (rg_disconnects (reg_apply p rg)) aid \<noteq> Some stamp"
    using disconnects_apply [of p rg aid stamp] Cons.prems by (auto simp: drops_at_def)
  with Cons show ?case by simp
qed simp


section \<open>Pools\<close>

definition legacy_members :: "string list \<Rightarrow> connected_agent list \<Rightarrow> connected_agent list" where
  "legacy_members ls as =
     filter (\<lambda>a. \<not> unavailable a \<and> \<not> has_explicit_pools a \<and> normalize_labels (labels a) = ls) as"

definition legacy_target :: "string list \<Rightarrow> connected_agent list \<Rightarrow> 32 word" where
  "legacy_target ls as = of_nat (\<Sum>a \<leftarrow> legacy_members ls as. ceiling_for a (labels a))"

lemma collect_pools_snoc:
  "collect_pools (as @ [a]) =
     (case collect_pools as of (legacy, explicit) \<Rightarrow>
        if unavailable a then (legacy, explicit)
        else if has_explicit_pools a then (legacy, explicit @ explicit_pools_of a)
        else (add_legacy a legacy, explicit))"
  by (simp add: collect_pools_def)

lemma collect_pools_legacy:
  "hm_ok (fst (collect_pools as)) \<and>
   hm_get (fst (collect_pools as)) ls =
     (if legacy_members ls as = [] then None else Some (legacy_target ls as))"
proof (induction as rule: rev_induct)
  case Nil
  then show ?case by (simp add: collect_pools_def legacy_members_def)
next
  case (snoc a as)
  obtain legacy explicit where c: "collect_pools as = (legacy, explicit)" by (cases "collect_pools as")
  from snoc c show ?case
    by (auto simp: collect_pools_snoc add_legacy_def Let_def legacy_members_def legacy_target_def)
qed

lemma collect_pools_explicit:
  "snd (collect_pools as) =
     concat (map explicit_pools_of (filter (\<lambda>a. \<not> unavailable a \<and> has_explicit_pools a) as))"
proof (induction as rule: rev_induct)
  case (snoc a as)
  then show ?case by (cases "collect_pools as") (simp add: collect_pools_snoc)
qed (simp add: collect_pools_def)

lemma explicit_pools_of_iff:
  "p \<in> set (explicit_pools_of a) \<longleftrightarrow>
     (\<exists>i < length (label_sets a). \<exists>n. get_at (label_set_pools a) i = Some (Some n) \<and> n > 0
        \<and> p = \<lparr>pd_labels = normalize_labels (label_sets a ! i), pd_target = n, pd_agent = Some (agent_id a),
               pd_label_set_id = (case get_at (label_set_ids a) i of Some x \<Rightarrow> x | None \<Rightarrow> [])\<rparr>)"
proof -
  let ?pool = "\<lambda>i s n. \<lparr>pd_labels = normalize_labels s, pd_target = n, pd_agent = Some (agent_id a),
      pd_label_set_id = (case get_at (label_set_ids a) i of Some x \<Rightarrow> x | None \<Rightarrow> [])\<rparr>"
  let ?target = "\<lambda>i. case get_at (label_set_pools a) i of Some (Some p) \<Rightarrow> p | _ \<Rightarrow> (0 :: 32 word)"
  have target: "?target i > 0 \<longleftrightarrow> (\<exists>n. get_at (label_set_pools a) i = Some (Some n) \<and> n > 0 \<and> n = ?target i)" for i
    by (auto split: option.splits)
  have "p \<in> set (explicit_pools_of a) \<longleftrightarrow>
      (\<exists>i < length (label_sets a). ?target i > 0 \<and> p = ?pool i (label_sets a ! i) (?target i))"
    unfolding explicit_pools_of_def Let_def by (force simp: in_set_enumerate_eq)
  also have "\<dots> \<longleftrightarrow> (\<exists>i < length (label_sets a). \<exists>n. get_at (label_set_pools a) i = Some (Some n) \<and> n > 0
      \<and> p = ?pool i (label_sets a ! i) n)"
    unfolding target by fastforce
  finally show ?thesis .
qed

section \<open>Properties\<close>

lemma drop_claims:
  assumes "list_all (\<lambda>q. \<not> drops_at stamp aid q) qs"
    and "hm_get (rg_disconnects rg) aid \<noteq> Some stamp"
  shows "\<not> fst (claim_failover aid stamp (fold reg_apply qs rg))"
  using stamp_gone_stays [OF assms] by (simp add: claim_failover_def)

text \<open>C4: In every state the registry reaches, a job goes to the agent with the smallest load among
  the connected ones that fit it: agents that already failed the job last, then most free slots, then
  fewest in use, then the id. The order in which the hash map lists the agents plays no part.\<close>

theorem select_agent_least_loaded:
  assumes "reg_reachable rg"
  shows "select_agent_where ls avoid incl rg = Some aid \<longleftrightarrow>
    (\<exists>a. registry_agent aid rg = Some a \<and> incl a \<and> has_capacity a ls [] \<and> matches_labels a ls \<and>
       (\<forall>aid' a'. registry_agent aid' rg = Some a' \<and> incl a' \<and> has_capacity a' ls [] \<and> matches_labels a' ls \<longrightarrow>
          (aid \<in> set avoid, - int (available_capacity a ls []), active_vms a + reserved_slots a, aid)
          \<le> (aid' \<in> set avoid, - int (available_capacity a' ls []), active_vms a' + reserved_slots a', aid')))"
  using select_agent_iff [of rg ls avoid incl aid] reg_reachable_inv [OF assms]
  by (simp add: reg_inv_def eligible_def load_key_def)

definition two_agents :: registry where
  "two_agents = fold reg_apply
     [Register 0 ''a'' ''tart'' ''host-a'' 2 1 [''linux''] [] 0,
      Register 0 ''b'' ''tart'' ''host-b'' 2 0 [''linux''] [] 1] empty_registry"

lemma reachable_fold: "reg_reachable rg \<Longrightarrow> reg_reachable (fold reg_apply ps rg)"
  by (induction ps arbitrary: rg) (auto intro: reg_reachable.intros)

lemma two_agents_reachable: "reg_reachable two_agents"
  unfolding two_agents_def by (intro reachable_fold reg_init)

theorem select_agent_least_loaded_witness:
  "select_agent_where [''linux''] [''b''] (\<lambda>_. True) two_agents = Some ''a'' \<longleftrightarrow>
    (\<exists>a. registry_agent ''a'' two_agents = Some a \<and> True \<and> has_capacity a [''linux''] []
       \<and> matches_labels a [''linux''] \<and>
       (\<forall>aid' a'. registry_agent aid' two_agents = Some a' \<and> True \<and> has_capacity a' [''linux''] []
            \<and> matches_labels a' [''linux''] \<longrightarrow>
          (''a'' \<in> set [''b''], - int (available_capacity a [''linux''] []), active_vms a + reserved_slots a, ''a'')
          \<le> (aid' \<in> set [''b''], - int (available_capacity a' [''linux''] []), active_vms a' + reserved_slots a', aid')))"
  by (rule select_agent_least_loaded [OF two_agents_reachable])

text \<open>An agent an admin marked unavailable is never picked for a new runner, also after it
  reconnected: registering keeps the mark, and every entry's flag agrees with the set of marked ids.\<close>

theorem unavailable_never_selected:
  assumes "reg_reachable rg" and "select_agent_where ls avoid incl rg = Some aid"
  shows "\<not> is_unavailable aid rg
    \<and> (\<forall>now ty host mx act ls' lsets tx ls'' avoid' incl' ps.
         select_agent_where ls'' avoid' incl'
           (register now aid ty host mx act ls' lsets tx (set_unavailable aid True rg)) \<noteq> Some aid)"
proof -
  have unav: "\<not> is_unavailable aid s" if s: "reg_inv s" "select_agent_where l av p s = Some aid" for s l av p
  proof -
    from select_agent_iff s obtain a where "registry_agent aid s = Some a" "eligible l p a"
      by (metis reg_inv_def)
    with s(1) show ?thesis
      by (auto simp: reg_inv_def registry_agent_def eligible_def has_capacity_def available_capacity_def
          is_unavailable_def)
  qed
  have "reg_inv rg" using assms(1) by (rule reg_reachable_inv)
  have "reg_inv (register now aid ty host mx act ls' lsets tx (set_unavailable aid True rg))"
    "is_unavailable aid (register now aid ty host mx act ls' lsets tx (set_unavailable aid True rg))"
    for now ty host mx act ls' lsets tx
    using \<open>reg_inv rg\<close>
    by (auto intro!: reg_inv_register reg_inv_set_unavailable)
      (simp add: register_def Let_def set_unavailable_def is_unavailable_def)
  with unav show ?thesis using \<open>reg_inv rg\<close> assms(2) by blast
qed

theorem unavailable_never_selected_witness:
  "\<not> is_unavailable ''b'' two_agents"
proof -
  have "select_agent_where [''linux''] [] (\<lambda>_. True) two_agents = Some ''b''"
    by (simp add: two_agents_def select_agent_where_def candidates_def register_def Let_def agent_new_def
        empty_registry_def candidate_key_def has_capacity_def available_capacity_def limits_for_def
        matches_labels_def set_covers_def has_label_def reserved_slots_def)
  from unavailable_never_selected [OF two_agents_reachable this] show ?thesis by blast
qed

text \<open>A disconnect is failed over at most once and only while the agent stayed away: when a claim of
  a disconnect succeeds, the agent has not registered since and nobody claimed that disconnect before,
  and every later claim of it is refused. (Later disconnects carry a later instant.)\<close>

theorem failover_claimed_once:
  assumes "list_all (\<lambda>p. \<not> drops_at stamp aid p) (ps @ qs)"
    and "claim_failover aid stamp (fold reg_apply ps (snd (unregister stamp aid rg))) = (True, rg')"
  shows "registry_agent aid (fold reg_apply ps (snd (unregister stamp aid rg))) = None
    \<and> (\<forall>now ty host mx act ls lsets tx. Register now aid ty host mx act ls lsets tx \<notin> set ps)
    \<and> (\<forall>us vs. ps = us @ ClaimFailover aid stamp # vs \<longrightarrow>
         \<not> fst (claim_failover aid stamp (fold reg_apply us (snd (unregister stamp aid rg)))))
    \<and> \<not> fst (claim_failover aid stamp (fold reg_apply qs rg'))"
proof (intro conjI allI impI notI)
  let ?s = "snd (unregister stamp aid rg)"
  from assms(2) have st: "hm_get (rg_disconnects (fold reg_apply ps ?s)) aid = Some stamp"
    and none: "\<not> hm_contains (rg_agents (fold reg_apply ps ?s)) aid"
    and rg': "rg' = (fold reg_apply ps ?s)\<lparr>rg_disconnects := hm_remove aid (rg_disconnects (fold reg_apply ps ?s))\<rparr>"
    by (auto simp: claim_failover_def split: if_splits)
  have gone: False
    if ps: "ps = us @ p # vs" and p: "hm_get (rg_disconnects (reg_apply p (fold reg_apply us ?s))) aid \<noteq> Some stamp"
    for us p vs
    using stamp_gone_stays [OF _ p, of vs] st assms(1) ps by simp
  show "registry_agent aid (fold reg_apply ps ?s) = None"
    using none by (simp add: registry_agent_def hm_contains_def)
  show False if "Register now aid ty host mx act ls lsets tx \<in> set ps" for now ty host mx act ls lsets tx
  proof -
    from split_list [OF that] obtain us vs where
      "ps = us @ Register now aid ty host mx act ls lsets tx # vs" by blast
    then show False by (rule gone) (simp add: disconnects_register)
  qed
  show False if "ps = us @ ClaimFailover aid stamp # vs"
    and "fst (claim_failover aid stamp (fold reg_apply us ?s))" for us vs
    using that(2) by (intro gone [OF that(1)]) (auto simp: claim_failover_def split: if_splits)
  show False if "fst (claim_failover aid stamp (fold reg_apply qs rg'))"
    using that drop_claims [of stamp aid qs rg'] assms(1) by (simp add: rg')
qed

theorem failover_claimed_once_witness:
  "registry_agent ''a'' (fold reg_apply [Touch 6 ''b''] (snd (unregister 5 ''a'' two_agents))) = None"
proof -
  have "fst (claim_failover ''a'' 5 (fold reg_apply [Touch 6 ''b''] (snd (unregister 5 ''a'' two_agents))))"
    by (simp add: claim_failover_def disconnects_kept disconnects_unregister registry_touch_def
        modify_agent_def hm_contains_def hm_get_modify unregister_def Let_def split: option.split)
  then have "claim_failover ''a'' 5 (fold reg_apply [Touch 6 ''b''] (snd (unregister 5 ''a'' two_agents)))
      = (True, snd (claim_failover ''a'' 5 (fold reg_apply [Touch 6 ''b''] (snd (unregister 5 ''a'' two_agents)))))"
    by (metis prod.collapse)
  from failover_claimed_once [OF _ this, of "[]"] show ?thesis by (simp add: drops_at_def)
qed

text \<open>The pools are those of the available agents: an agent with explicit pools gets one per label
  set with a positive size, and the others share one pool per normalized base label set, whose target
  is the sum of what their limits allow for those labels, in 32 bits.\<close>

theorem pool_definitions_spec:
  "p \<in> set (get_pool_definitions rg) \<longleftrightarrow>
     (pd_agent p = None \<and> pd_label_set_id p = []
        \<and> legacy_members (pd_labels p) (map snd (rg_agents rg)) \<noteq> []
        \<and> pd_target p = legacy_target (pd_labels p) (map snd (rg_agents rg)))
   \<or> (\<exists>a \<in> snd ` set (rg_agents rg). \<not> unavailable a \<and> has_explicit_pools a
        \<and> (\<exists>i < length (label_sets a). \<exists>n. get_at (label_set_pools a) i = Some (Some n) \<and> n > 0
             \<and> p = \<lparr>pd_labels = normalize_labels (label_sets a ! i), pd_target = n,
                    pd_agent = Some (agent_id a),
                    pd_label_set_id = (case get_at (label_set_ids a) i of Some x \<Rightarrow> x | None \<Rightarrow> [])\<rparr>))"
proof -
  let ?as = "map snd (rg_agents rg)"
  obtain legacy explicit where c: "collect_pools ?as = (legacy, explicit)" by (cases "collect_pools ?as")
  have mem: "(ls, n) \<in> set legacy \<longleftrightarrow> legacy_members ls ?as \<noteq> [] \<and> n = legacy_target ls ?as" for ls n
    using collect_pools_legacy [of ?as ls] hm_get_iff_mem [of legacy ls n] c by (auto split: if_splits)
  have "p \<in> (\<lambda>(ls, n). \<lparr>pd_labels = ls, pd_target = n, pd_agent = None, pd_label_set_id = []\<rparr>) ` set legacy
      \<longleftrightarrow> pd_agent p = None \<and> pd_label_set_id p = [] \<and> (pd_labels p, pd_target p) \<in> set legacy"
    by (cases p) (force simp: image_iff)
  then show ?thesis
    using collect_pools_explicit [of ?as] c
    by (auto simp: get_pool_definitions_def mem explicit_pools_of_iff)
qed

end
