(* ===== verification/Run_History.thy ===== *)
theory Run_History
  imports Store Proto
begin

text \<open>
  \<^verbatim>\<open>kuiper-forge/src/metrics/mod.rs\<close> with the statements of \<^verbatim>\<open>metrics/sql.rs\<close>, and
  \<^verbatim>\<open>agent_failures.rs\<close>: when each runner and job reached each step and how it ended, and the
  newest failures of each agent. Writes are best effort: a failed one is logged and changes nothing.
\<close>

section \<open>Outcomes\<close>

datatype run_outcome = RunCompleted | RunFailed | RunLost | RunRejected | RunCommandFailed
  | RunIdled | RunDrained | RunDestroyed

fun run_outcome_str :: "run_outcome \<Rightarrow> string" where
  "run_outcome_str RunCompleted = ''completed''"
| "run_outcome_str RunFailed = ''failed''"
| "run_outcome_str RunLost = ''lost''"
| "run_outcome_str RunRejected = ''rejected''"
| "run_outcome_str RunCommandFailed = ''command_failed''"
| "run_outcome_str RunIdled = ''idled''"
| "run_outcome_str RunDrained = ''drained''"
| "run_outcome_str RunDestroyed = ''destroyed''"

datatype job_outcome = Ran | Abandoned | Gone

fun job_outcome_str :: "job_outcome \<Rightarrow> string" where
  "job_outcome_str Ran = ''ran''"
| "job_outcome_str Abandoned = ''abandoned''"
| "job_outcome_str Gone = ''gone''"

datatype failure_kind = RunnerFailed | RunnerLost | CommandRejected | CommandFailed

fun failure_kind_str :: "failure_kind \<Rightarrow> string" where
  "failure_kind_str RunnerFailed = ''runner_failed''"
| "failure_kind_str RunnerLost = ''runner_lost''"
| "failure_kind_str CommandRejected = ''command_rejected''"
| "failure_kind_str CommandFailed = ''command_failed''"

definition failure_label :: "string \<Rightarrow> string" where
  "failure_label kind =
     (if kind = ''runner_failed'' then ''Runner failed''
      else if kind = ''runner_lost'' then ''Runner lost''
      else if kind = ''command_rejected'' then ''Rejected''
      else if kind = ''command_failed'' then ''Command failed'' else ''Other'')"

section \<open>Rows\<close>

text \<open>\<^verbatim>\<open>COALESCE(a, b)\<close>.\<close>

definition coalesce :: "'a option \<Rightarrow> 'a option \<Rightarrow> 'a option" where
  "coalesce a b = (case a of None \<Rightarrow> b | Some _ \<Rightarrow> a)"

record new_runner =
  nr_runner_name :: string
  nr_agent_id :: string
  nr_hostname :: string
  nr_agent_type :: string
  nr_forge :: "string option"
  nr_job_id :: "job_key option"
  nr_repository :: "string option"
  nr_workflow_name :: "string option"
  nr_job_name :: "string option"
  nr_pool :: "string option"
  nr_labels :: "string list"

record new_job =
  nj_job_id :: job_key
  nj_repository :: "string option"
  nj_workflow_name :: "string option"
  nj_job_name :: "string option"
  nj_labels :: "string list"
  nj_queued_at :: "int option"

definition new_runner_run :: "int \<Rightarrow> new_runner \<Rightarrow> runner_run" where
  "new_runner_run now r =
     \<lparr>ru_agent_id = nr_agent_id r, ru_hostname = nr_hostname r, ru_agent_type = nr_agent_type r,
      ru_forge = nr_forge r, ru_job_id = map_option key_to_string (nr_job_id r),
      ru_repository = nr_repository r, ru_workflow_name = nr_workflow_name r, ru_job_name = nr_job_name r,
      ru_pool = nr_pool r, ru_labels = nr_labels r, ru_requested_at = now, ru_acked_at = None,
      ru_started_at = None, ru_job_started_at = None, ru_finished_at = None, ru_outcome = None,
      ru_error = None, ru_image = None, ru_failed_phase = None, ru_install_source = None, ru_steps = []\<rparr>"

definition new_job_run :: "int \<Rightarrow> new_job \<Rightarrow> job_run" where
  "new_job_run seen j =
     \<lparr>jr_forge = key_forge (nj_job_id j), jr_repository = nj_repository j,
      jr_workflow_name = nj_workflow_name j, jr_job_name = nj_job_name j, jr_labels = nj_labels j,
      jr_queued_at = (case nj_queued_at j of None \<Rightarrow> seen | Some t \<Rightarrow> min t seen), jr_seen_at = seen,
      jr_first_runner_at = None, jr_started_at = None, jr_completed_at = None, jr_conclusion = None,
      jr_runner_name = None, jr_attempts = 0, jr_outcome = None\<rparr>"

text \<open>The \<^verbatim>\<open>UPDATE\<close> statements, as changes of the row they match.\<close>

definition set_acked :: "int \<Rightarrow> runner_run \<Rightarrow> runner_run" where
  "set_acked at r = (if ru_acked_at r = None then r\<lparr>ru_acked_at := Some at\<rparr> else r)"

definition set_started :: "int \<Rightarrow> runner_run \<Rightarrow> runner_run" where
  "set_started at r = (if ru_started_at r = None then r\<lparr>ru_started_at := Some at\<rparr> else r)"

definition set_job_started_at :: "int \<Rightarrow> runner_run \<Rightarrow> runner_run" where
  "set_job_started_at at r = (if ru_job_started_at r = None then r\<lparr>ru_job_started_at := Some at\<rparr> else r)"

definition finish_run :: "int \<Rightarrow> string \<Rightarrow> string option \<Rightarrow> runner_run \<Rightarrow> runner_run" where
  "finish_run at outcome err r =
     (if ru_finished_at r = None
      then r\<lparr>ru_finished_at := Some at, ru_outcome := Some outcome, ru_error := err\<rparr> else r)"

definition I64_MAX :: int where
  "I64_MAX = 9223372036854775807"

definition non_empty :: "string \<Rightarrow> string option" where
  "non_empty s = (if s \<noteq> [] then Some s else None)"

definition merge_timings :: "runner_timings \<Rightarrow> runner_run \<Rightarrow> runner_run" where
  "merge_timings t r =
     r\<lparr>ru_image := coalesce (non_empty (rt_image t)) (ru_image r),
       ru_failed_phase := coalesce (non_empty (rt_failed_phase t)) (ru_failed_phase r),
       ru_install_source := coalesce (non_empty (rt_install_source t)) (ru_install_source r),
       ru_steps := fold (\<lambda>(step, ms) m. hm_insert step (min (int ms) I64_MAX) m) (rt_steps_ms t) (ru_steps r)\<rparr>"

definition count_attempt :: "int \<Rightarrow> job_run \<Rightarrow> job_run" where
  "count_attempt now j =
     j\<lparr>jr_attempts := jr_attempts j + 1, jr_first_runner_at := coalesce (jr_first_runner_at j) (Some now)\<rparr>"

definition start_job :: "int \<Rightarrow> string option \<Rightarrow> job_run \<Rightarrow> job_run" where
  "start_job at runner j =
     j\<lparr>jr_started_at := coalesce (jr_started_at j) (Some at),
       jr_runner_name := coalesce (jr_runner_name j) runner,
       jr_outcome := (if jr_outcome j = Some ''cancelled'' then jr_outcome j else Some ''ran'')\<rparr>"

definition complete_job :: "int \<Rightarrow> string option \<Rightarrow> string \<Rightarrow> job_run \<Rightarrow> job_run" where
  "complete_job at conclusion outcome j =
     j\<lparr>jr_completed_at := coalesce (jr_completed_at j) (Some at),
       jr_conclusion := coalesce conclusion (jr_conclusion j),
       jr_outcome := (if outcome = ''cancelled'' then Some ''cancelled''
                      else coalesce (jr_outcome j) (Some outcome))\<rparr>"

definition end_job :: "string \<Rightarrow> job_run \<Rightarrow> job_run" where
  "end_job outcome j =
     j\<lparr>jr_outcome := (if outcome = ''ran'' \<and> jr_outcome j \<noteq> Some ''cancelled'' then Some ''ran''
                      else coalesce (jr_outcome j) (Some outcome))\<rparr>"

section \<open>The store of the history\<close>

definition update_run ::
    "env \<Rightarrow> string \<Rightarrow> (runner_run \<Rightarrow> runner_run) \<Rightarrow> ('z store_scheme, unit) state" where
  "update_run env name f =
     do { query env (\<lambda>s. ((), s\<lparr>st_runs := hm_modify name f (st_runs s)\<rparr>)); ret () }"

definition update_job ::
    "env \<Rightarrow> job_key \<Rightarrow> (job_run \<Rightarrow> job_run) \<Rightarrow> ('z store_scheme, unit) state" where
  "update_job env key f =
     do { query env (\<lambda>s. ((), s\<lparr>st_jobs := hm_modify (key_to_string key) f (st_jobs s)\<rparr>)); ret () }"

definition runner_requested :: "env \<Rightarrow> new_runner \<Rightarrow> ('z store_scheme, unit) state" where
  "runner_requested env r = do {
     now \<leftarrow> ask (utc_now env);
     query env (\<lambda>s. ((), s\<lparr>st_runs := insert_ignore (nr_runner_name r) (new_runner_run now r) (st_runs s)\<rparr>));
     ret () }"

definition runner_acked :: "env \<Rightarrow> string \<Rightarrow> ('z store_scheme, unit) state" where
  "runner_acked env name = do { now \<leftarrow> ask (utc_now env); update_run env name (set_acked now) }"

definition runner_started :: "env \<Rightarrow> string \<Rightarrow> ('z store_scheme, unit) state" where
  "runner_started env name = do { now \<leftarrow> ask (utc_now env); update_run env name (set_started now) }"

definition runner_job_started :: "env \<Rightarrow> string \<Rightarrow> int \<Rightarrow> ('z store_scheme, unit) state" where
  "runner_job_started env name at = update_run env name (set_job_started_at at)"

definition runner_finished :: "env \<Rightarrow> string \<Rightarrow> run_outcome \<Rightarrow> string \<Rightarrow> ('z store_scheme, unit) state" where
  "runner_finished env name outcome err = do {
     now \<leftarrow> ask (utc_now env);
     update_run env name (finish_run now (run_outcome_str outcome) (non_empty err)) }"

definition record_timings :: "env \<Rightarrow> string \<Rightarrow> runner_timings \<Rightarrow> ('z store_scheme, unit) state" where
  "record_timings env name t = update_run env name (merge_timings t)"

definition job_seen :: "env \<Rightarrow> new_job \<Rightarrow> ('z store_scheme, unit) state" where
  "job_seen env j = do {
     seen \<leftarrow> ask (utc_now env);
     query env (\<lambda>s. ((), s\<lparr>st_jobs := insert_ignore (key_to_string (nj_job_id j)) (new_job_run seen j) (st_jobs s)\<rparr>));
     ret () }"

definition job_runner_created :: "env \<Rightarrow> job_key \<Rightarrow> ('z store_scheme, unit) state" where
  "job_runner_created env key = do { now \<leftarrow> ask (utc_now env); update_job env key (count_attempt now) }"

definition job_started :: "env \<Rightarrow> job_key \<Rightarrow> string option \<Rightarrow> int \<Rightarrow> ('z store_scheme, unit) state" where
  "job_started env key runner at = update_job env key (start_job at runner)"

definition job_completed :: "env \<Rightarrow> job_key \<Rightarrow> string option \<Rightarrow> int \<Rightarrow> ('z store_scheme, unit) state" where
  "job_completed env key conclusion at =
     (let outcome = (if conclusion = Some ''cancelled'' then ''cancelled'' else job_outcome_str Ran)
      in update_job env key (complete_job at conclusion outcome))"

definition job_ended :: "env \<Rightarrow> job_key \<Rightarrow> job_outcome \<Rightarrow> ('z store_scheme, unit) state" where
  "job_ended env key outcome = update_job env key (end_job (job_outcome_str outcome))"

text \<open>\<^verbatim>\<open>prune\<close>: \<^term>\<open>None\<close> is a database error, which leaves out what comes after it.\<close>

definition prune :: "env \<Rightarrow> int \<Rightarrow> ('z store_scheme, nat option) state" where
  "prune env retention = do {
     now \<leftarrow> ask (utc_now env);
     let cutoff = now - retention;
     runs \<leftarrow> query env (\<lambda>s. (length (filter (\<lambda>(_, r). ru_requested_at r < cutoff) (st_runs s)),
         s\<lparr>st_runs := hm_retain (\<lambda>_ r. \<not> ru_requested_at r < cutoff) (st_runs s)\<rparr>));
     case runs of
       None \<Rightarrow> ret None
     | Some n \<Rightarrow> do {
         jobs \<leftarrow> query env (\<lambda>s. (length (filter (\<lambda>(_, j). jr_seen_at j < cutoff) (st_jobs s)),
             s\<lparr>st_jobs := hm_retain (\<lambda>_ j. \<not> jr_seen_at j < cutoff) (st_jobs s)\<rparr>));
         ret (map_option (\<lambda>m. n + m) jobs) } }"

section \<open>Failures of agents\<close>

definition MAX_PER_AGENT :: nat where
  "MAX_PER_AGENT = 100"

text \<open>
  \<^verbatim>\<open>SELECT ... WHERE agent_id = ? ORDER BY occurred_at DESC LIMIT ?\<close>. The timestamps are
  stored with a fixed width, so the order of the texts is the order of the times.
\<close>

definition newest_failures ::
    "string \<Rightarrow> nat \<Rightarrow> (string, failure_row) hashmap \<Rightarrow> (string \<times> failure_row) list" where
  "newest_failures aid n t =
     take n (sort_key (\<lambda>(_, f). - fw_occurred_at f) (filter (\<lambda>(_, f). fw_agent_id f = aid) t))"

definition prune_failures :: "string \<Rightarrow> nat \<Rightarrow> (string, failure_row) hashmap \<Rightarrow> (string, failure_row) hashmap" where
  "prune_failures aid n t =
     (let kept = map fst (newest_failures aid n t) in
      hm_retain (\<lambda>i f. \<not> (fw_agent_id f = aid \<and> i \<notin> set kept)) t)"

definition record_failure ::
    "env \<Rightarrow> string \<Rightarrow> failure_kind \<Rightarrow> string option \<Rightarrow> job_key option \<Rightarrow> string \<Rightarrow> ('z store_scheme, unit) state" where
  "record_failure env aid kind runner job message = do {
     now \<leftarrow> ask (utc_now env);
     i \<leftarrow> ask (fresh_uuid env);
     inserted \<leftarrow> query env (\<lambda>s. ((), s\<lparr>st_failures := insert_ignore i
        \<lparr>fw_agent_id = aid, fw_occurred_at = now, fw_kind = failure_kind_str kind, fw_runner_name = runner,
         fw_job_id = map_option key_to_string job, fw_message = message\<rparr> (st_failures s)\<rparr>));
     case inserted of
       None \<Rightarrow> ret ()
     | Some _ \<Rightarrow> do {
         query env (\<lambda>s. ((), s\<lparr>st_failures := prune_failures aid MAX_PER_AGENT (st_failures s)\<rparr>));
         ret () } }"

definition recent_failures :: "env \<Rightarrow> string \<Rightarrow> nat \<Rightarrow> ('z store_scheme, (string \<times> failure_row) list option) state" where
  "recent_failures env aid limit = query env (\<lambda>s. (newest_failures aid limit (st_failures s), s))"

section \<open>Lemmas\<close>

text \<open>
  The history of one step of a run is written once: a later write keeps it. The contract of the
  columns written with \<^verbatim>\<open>IS NULL\<close> or \<^verbatim>\<open>COALESCE\<close> guards.
\<close>

locale written_once =
  fixes col :: "'r \<Rightarrow> 'v option"
    and upd :: "'u \<Rightarrow> 'r \<Rightarrow> 'r"
  assumes upd_keeps: "col r = Some v \<Longrightarrow> col (upd u r) = Some v"
begin

lemma first_write_stays: "col r = Some v \<Longrightarrow> col (fold upd us r) = Some v"
  by (induction us arbitrary: r) (auto simp: upd_keeps)

lemma written_stays: "col (fold upd us r) = Some v \<Longrightarrow> col (fold upd (us @ ws) r) = Some v"
  by (simp add: first_write_stays)

end

datatype run_write = WAcked int | WStarted int | WJobStarted int | WFinished int run_outcome string
  | WTimings runner_timings

fun write_run :: "run_write \<Rightarrow> runner_run \<Rightarrow> runner_run" where
  "write_run (WAcked t) = set_acked t"
| "write_run (WStarted t) = set_started t"
| "write_run (WJobStarted t) = set_job_started_at t"
| "write_run (WFinished t out err) = finish_run t (run_outcome_str out) (non_empty err)"
| "write_run (WTimings ts) = merge_timings ts"

lemmas write_run_defs = set_acked_def set_started_def set_job_started_at_def finish_run_def merge_timings_def

interpretation acked_once: written_once ru_acked_at write_run
proof
  show "ru_acked_at (write_run u r) = Some v" if "ru_acked_at r = Some v" for r v u
    using that by (cases u) (auto simp: write_run_defs)
qed

interpretation started_once: written_once ru_started_at write_run
proof
  show "ru_started_at (write_run u r) = Some v" if "ru_started_at r = Some v" for r v u
    using that by (cases u) (auto simp: write_run_defs)
qed

interpretation job_started_once: written_once ru_job_started_at write_run
proof
  show "ru_job_started_at (write_run u r) = Some v" if "ru_job_started_at r = Some v" for r v u
    using that by (cases u) (auto simp: write_run_defs)
qed

text \<open>The end of a run: when, how and with which error, as one value.\<close>

definition run_end :: "runner_run \<Rightarrow> (int \<times> string option \<times> string option) option" where
  "run_end r = map_option (\<lambda>t. (t, ru_outcome r, ru_error r)) (ru_finished_at r)"

interpretation finished_once: written_once run_end write_run
proof
  show "run_end (write_run u r) = Some v" if "run_end r = Some v" for r v u
    using that by (cases u) (auto simp: write_run_defs run_end_def)
qed

datatype job_write = JAttempt int | JStarted int "string option" | JCompleted int "string option"
  | JEnded job_outcome

fun write_job :: "job_write \<Rightarrow> job_run \<Rightarrow> job_run" where
  "write_job (JAttempt t) = count_attempt t"
| "write_job (JStarted t r) = start_job t r"
| "write_job (JCompleted t c) =
     complete_job t c (if c = Some ''cancelled'' then ''cancelled'' else job_outcome_str Ran)"
| "write_job (JEnded out) = end_job (job_outcome_str out)"

lemmas write_job_defs = count_attempt_def start_job_def complete_job_def end_job_def coalesce_def

interpretation first_runner_once: written_once jr_first_runner_at write_job
proof
  show "jr_first_runner_at (write_job u r) = Some v" if "jr_first_runner_at r = Some v" for r v u
    using that by (cases u) (auto simp: write_job_defs)
qed

interpretation job_start_once: written_once jr_started_at write_job
proof
  show "jr_started_at (write_job u r) = Some v" if "jr_started_at r = Some v" for r v u
    using that by (cases u) (auto simp: write_job_defs)
qed

text \<open>A cancel is final: once the outcome is \<^verbatim>\<open>cancelled\<close> no other write changes it.\<close>

definition cancelled :: "job_run \<Rightarrow> unit option" where
  "cancelled j = (if jr_outcome j = Some ''cancelled'' then Some () else None)"

interpretation cancel_final: written_once cancelled write_job
proof
  show "cancelled (write_job u r) = Some v" if "cancelled r = Some v" for r v u
    using that by (cases u) (auto simp: write_job_defs cancelled_def split: if_splits)
qed

text \<open>The outcome a write would leave in a blank one, and the first of a list of writes.\<close>

fun settles :: "job_write \<Rightarrow> string option" where
  "settles (JAttempt _) = None"
| "settles (JStarted _ _) = Some ''ran''"
| "settles (JCompleted _ c) = Some (if c = Some ''cancelled'' then ''cancelled'' else ''ran'')"
| "settles (JEnded out) = Some (job_outcome_str out)"

fun first_outcome :: "job_write list \<Rightarrow> string option" where
  "first_outcome [] = None"
| "first_outcome (w # ws) = coalesce (settles w) (first_outcome ws)"

lemma first_outcome_snoc: "first_outcome (ws @ [w]) = coalesce (first_outcome ws) (settles w)"
  by (induction ws) (auto simp: coalesce_def split: option.split)

lemma settles_cancelled: "settles w = Some ''cancelled'' \<longleftrightarrow> (\<exists>t. w = JCompleted t (Some ''cancelled''))"
proof (cases w)
  case (JEnded out)
  then show ?thesis by (cases out) simp_all
qed auto

lemma first_outcome_cancelled:
  "first_outcome ws = Some ''cancelled'' \<Longrightarrow> \<exists>t. JCompleted t (Some ''cancelled'') \<in> set ws"
  using settles_cancelled by (induction ws) (auto simp: coalesce_def split: option.splits)

lemma outcome_step:
  "jr_outcome (write_job w j) =
     (if \<exists>t. w = JCompleted t (Some ''cancelled'') then Some ''cancelled''
      else if ((\<exists>t r. w = JStarted t r) \<or> w = JEnded Ran) \<and> jr_outcome j \<noteq> Some ''cancelled'' then Some ''ran''
      else coalesce (jr_outcome j) (settles w))"
proof (cases w)
  case (JEnded out)
  then show ?thesis by (cases out) (auto simp: write_job_defs)
qed (auto simp: write_job_defs split: option.split)

section \<open>Properties\<close>

text \<open>Only the first end of a runner counts: after a \<open>runner_finished\<close> of a run that had not
  ended, the time, outcome and error it wrote stay, whatever is recorded for the run afterwards
  (later ends, late acks and starts, step timings).\<close>

theorem first_end_counts:
  assumes "ru_finished_at r = None"
  shows "run_end (fold write_run ws (write_run (WFinished at out err) r))
    = Some (at, Some (run_outcome_str out), non_empty err)"
proof -
  have "run_end (write_run (WFinished at out err) r) = Some (at, Some (run_outcome_str out), non_empty err)"
    using assms by (simp add: finish_run_def run_end_def)
  then show ?thesis by (rule finished_once.first_write_stays)
qed

theorem first_end_counts_witness:
  "run_end (fold write_run [WFinished 9 RunDestroyed '''', WAcked 9]
     (write_run (WFinished 5 RunFailed ''boot'')
       (new_runner_run 1 \<lparr>nr_runner_name = ''mac-1'', nr_agent_id = ''a'', nr_hostname = ''mac'', nr_agent_type = ''tart'',
          nr_forge = None, nr_job_id = None, nr_repository = None, nr_workflow_name = None, nr_job_name = None,
          nr_pool = None, nr_labels = []\<rparr>)))
   = Some (5, Some (run_outcome_str RunFailed), non_empty ''boot'')"
  by (rule first_end_counts) (simp add: new_runner_run_def)

text \<open>What the history says of a job, however its webhooks and the coordinator's own records
  interleave: a cancel wins over everything, then a start or the coordinator's word that it ran, and short
  of both the first record counts.\<close>

theorem job_outcome_settles:
  "jr_outcome (fold write_job ws (new_job_run now j)) =
     (if \<exists>t. JCompleted t (Some ''cancelled'') \<in> set ws then Some ''cancelled''
      else if (\<exists>t r. JStarted t r \<in> set ws) \<or> JEnded Ran \<in> set ws then Some ''ran''
      else first_outcome ws)"
proof (induction ws rule: rev_induct)
  case Nil
  show ?case by (simp add: new_job_run_def)
next
  case (snoc w ws)
  let ?o = "jr_outcome (fold write_job ws (new_job_run now j))"
  consider t where "w = JCompleted t (Some ''cancelled'')" | t r where "w = JStarted t r" | "w = JEnded Ran"
    | "\<forall>t. w \<noteq> JCompleted t (Some ''cancelled'')" "\<forall>t r. w \<noteq> JStarted t r" "w \<noteq> JEnded Ran" by blast
  then show ?case
  proof cases
    case 4
    then have "jr_outcome (fold write_job (ws @ [w]) (new_job_run now j)) = coalesce ?o (settles w)"
      by (auto simp: outcome_step simp del: write_job.simps)
    with 4 show ?thesis by (auto simp: snoc.IH first_outcome_snoc coalesce_def)
  qed (use snoc.IH first_outcome_cancelled [of ws] in \<open>auto simp: outcome_step coalesce_def simp del: write_job.simps\<close>)
qed

end
