(* ===== verification/Pending_Jobs.thy ===== *)
theory Pending_Jobs
  imports Run_History
begin

text \<open>
  \<^verbatim>\<open>kuiper-forge/src/pending_jobs.rs\<close> with its statements of \<^verbatim>\<open>sql.rs\<close>: the jobs
  waiting for a runner, how often a runner failed each and on which agents. The text of the primary key
  is \<^const>\<open>key_to_string\<close> of the job's key.
\<close>

section \<open>Data\<close>

definition MAX_RETRIES :: int where
  "MAX_RETRIES = 3"

record pending_job_info =
  pj_job_labels :: "string list"
  pj_agent_labels :: "string list"
  pj_runner_scope :: runner_scope
  pj_runner_group :: "string option"
  pj_created_at :: int
  pj_retry_count :: int
  pj_repository :: "string option"
  pj_job_name :: "string option"
  pj_workflow_name :: "string option"
  pj_failed_agents :: "string list"

text \<open>\<^verbatim>\<open>WebhookRunnerRequest\<close> of \<^verbatim>\<open>webhook.rs\<close>.\<close>

record runner_request =
  wr_job_labels :: "string list"
  wr_agent_labels :: "string list"
  wr_runner_scope :: runner_scope
  wr_runner_group :: "string option"
  wr_job_id :: job_key
  wr_repository :: "string option"
  wr_job_name :: "string option"
  wr_workflow_name :: "string option"
  wr_queued_at :: "int option"

definition new_pending_row :: "int \<Rightarrow> runner_request \<Rightarrow> pending_row" where
  "new_pending_row created_at r =
     \<lparr>pr_job_labels = wr_job_labels r, pr_agent_labels = wr_agent_labels r,
      pr_runner_scope = wr_runner_scope r, pr_runner_group = wr_runner_group r,
      pr_created_at = created_at, pr_retry_count = 0, pr_repository = wr_repository r,
      pr_job_name = wr_job_name r, pr_workflow_name = wr_workflow_name r, pr_failed_agents = None\<rparr>"

text \<open>\<^verbatim>\<open>row_to_pending_job\<close>: a row whose key doesn't parse is skipped.\<close>

definition row_to_pending_job :: "string \<times> pending_row \<Rightarrow> (job_key \<times> pending_job_info) option" where
  "row_to_pending_job kr = (case kr of (k, r) \<Rightarrow>
     (case parse_key k of
        Inl _ \<Rightarrow> None
      | Inr key \<Rightarrow> Some (key,
          \<lparr>pj_job_labels = pr_job_labels r, pj_agent_labels = pr_agent_labels r,
           pj_runner_scope = pr_runner_scope r, pj_runner_group = pr_runner_group r,
           pj_created_at = pr_created_at r, pj_retry_count = pr_retry_count r,
           pj_repository = pr_repository r, pj_job_name = pr_job_name r,
           pj_workflow_name = pr_workflow_name r,
           pj_failed_agents = (case pr_failed_agents r of None \<Rightarrow> [] | Some fs \<Rightarrow> fs)\<rparr>)))"

section \<open>Operations\<close>

definition add_job :: "env \<Rightarrow> runner_request \<Rightarrow> ('z store_scheme, bool) state" where
  "add_job env request = do {
     created_at \<leftarrow> ask (utc_now env);
     res \<leftarrow> query env (\<lambda>s. ((), s\<lparr>st_pending :=
         insert_ignore (key_to_string (wr_job_id request)) (new_pending_row created_at request) (st_pending s)\<rparr>));
     case res of
       Some _ \<Rightarrow> do {
         job_seen env \<lparr>nj_job_id = wr_job_id request, nj_repository = wr_repository request,
           nj_workflow_name = wr_workflow_name request, nj_job_name = wr_job_name request,
           nj_labels = wr_job_labels request, nj_queued_at = wr_queued_at request\<rparr>;
         ret True }
     | None \<Rightarrow> ret False }"

definition remove_job :: "env \<Rightarrow> job_key \<Rightarrow> job_outcome \<Rightarrow> ('z store_scheme, unit) state" where
  "remove_job env key outcome = do {
     job_ended env key outcome;
     query env (\<lambda>s. ((), s\<lparr>st_pending := hm_remove (key_to_string key) (st_pending s)\<rparr>));
     ret () }"

definition get_job :: "env \<Rightarrow> job_key \<Rightarrow> ('z store_scheme, (job_key \<times> pending_job_info) option) state" where
  "get_job env key = do {
     row \<leftarrow> query env (\<lambda>s. (hm_get (st_pending s) (key_to_string key), s));
     ret (case row of Some (Some r) \<Rightarrow> row_to_pending_job (key_to_string key, r) | _ \<Rightarrow> None) }"

definition record_failed_agent :: "env \<Rightarrow> job_key \<Rightarrow> string \<Rightarrow> ('z store_scheme, unit) state" where
  "record_failed_agent env key aid = do {
     job \<leftarrow> get_job env key;
     case job of
       None \<Rightarrow> ret ()
     | Some (_, info) \<Rightarrow>
         if aid \<in> set (pj_failed_agents info) then ret ()
         else do {
           query env (\<lambda>s. ((), s\<lparr>st_pending := hm_modify (key_to_string key)
              (\<lambda>r. r\<lparr>pr_failed_agents := Some (pj_failed_agents info @ [aid])\<rparr>) (st_pending s)\<rparr>));
           ret () } }"

text \<open>The statement increments and returns the new count; no row is \<^term>\<open>Some None\<close>.\<close>

definition increment_retry_count ::
    "env \<Rightarrow> job_key \<Rightarrow> string option \<Rightarrow> ('z store_scheme, int option) state" where
  "increment_retry_count env key failed_agent = do {
     row \<leftarrow> query env (\<lambda>s.
        (map_option (\<lambda>r. pr_retry_count r + 1) (hm_get (st_pending s) (key_to_string key)),
         s\<lparr>st_pending := hm_modify (key_to_string key) (\<lambda>r. r\<lparr>pr_retry_count := pr_retry_count r + 1\<rparr>)
             (st_pending s)\<rparr>));
     case row of
       Some (Some n) \<Rightarrow> do {
         (case failed_agent of Some aid \<Rightarrow> record_failed_agent env key aid | None \<Rightarrow> ret ());
         ret (Some n) }
     | Some None \<Rightarrow> ret None
     | None \<Rightarrow> ret None }"

definition get_retry_count :: "env \<Rightarrow> job_key \<Rightarrow> ('z store_scheme, int option) state" where
  "get_retry_count env key = do {
     row \<leftarrow> query env (\<lambda>s. (map_option pr_retry_count (hm_get (st_pending s) (key_to_string key)), s));
     ret (case row of Some (Some n) \<Rightarrow> Some n | _ \<Rightarrow> None) }"

definition has_job :: "env \<Rightarrow> job_key \<Rightarrow> ('z store_scheme, bool) state" where
  "has_job env key = do {
     row \<leftarrow> query env (\<lambda>s. (hm_get (st_pending s) (key_to_string key), s));
     ret (case row of Some (Some _) \<Rightarrow> True | _ \<Rightarrow> False) }"

text \<open>
  \<^verbatim>\<open>SELECT ... ORDER BY created_at ASC\<close>; \<^verbatim>\<open>filter_map\<close> drops the rows that don't parse.
\<close>

definition all_pending :: "(string, pending_row) hashmap \<Rightarrow> (job_key \<times> pending_job_info) list" where
  "all_pending t = List.map_filter row_to_pending_job (sort_key (\<lambda>(_, r). pr_created_at r) t)"

definition get_all_pending_jobs :: "env \<Rightarrow> ('z store_scheme, (job_key \<times> pending_job_info) list option) state" where
  "get_all_pending_jobs env = query env (\<lambda>s. (all_pending (st_pending s), s))"

definition get_pending_requests :: "env \<Rightarrow> ('z store_scheme, runner_request list) state" where
  "get_pending_requests env = do {
     jobs \<leftarrow> get_all_pending_jobs env;
     ret (case jobs of
        Some js \<Rightarrow> map (\<lambda>(key, info).
          \<lparr>wr_job_labels = pj_job_labels info, wr_agent_labels = pj_agent_labels info,
           wr_runner_scope = pj_runner_scope info, wr_runner_group = pj_runner_group info,
           wr_job_id = key, wr_repository = pj_repository info, wr_job_name = pj_job_name info,
           wr_workflow_name = pj_workflow_name info, wr_queued_at = None\<rparr>) js
      | None \<Rightarrow> []) }"

section \<open>Lemmas\<close>

definition valid_key :: "job_key \<Rightarrow> bool" where
  "valid_key k \<longleftrightarrow> key_forge k \<noteq> [] \<and> CHR '':'' \<notin> set (key_forge k) \<and> key_id k \<noteq> []"

lemma parse_valid_key [simp]: "valid_key k \<Longrightarrow> parse_key (key_to_string k) = Inr k"
  by (simp add: valid_key_def parse_key_to_string)

lemma parse_key_valid: "parse_key s = Inr k \<Longrightarrow> valid_key k"
  using parse_key_wf by (simp add: valid_key_def)

lemma key_to_string_inj: "valid_key a \<Longrightarrow> valid_key b \<Longrightarrow> key_to_string a = key_to_string b \<longleftrightarrow> a = b"
  by (metis parse_valid_key sum.inject(2))

text \<open>Every row of the table is keyed by the text of a key, as \<open>add_job\<close> inserts it.\<close>

definition keys_ok :: "(string, 'r) hashmap \<Rightarrow> bool" where
  "keys_ok t \<longleftrightarrow> (\<forall>s \<in> fst ` set t. \<exists>k. valid_key k \<and> s = key_to_string k)"

lemma row_to_pending_job_Some:
  "row_to_pending_job (s, r) = Some (k, i) \<Longrightarrow> parse_key s = Inr k \<and> pj_retry_count i = pr_retry_count r"
  by (auto simp: row_to_pending_job_def split: sum.splits)

lemma all_pending_mem:
  "(k, i) \<in> set (all_pending t) \<longleftrightarrow> (\<exists>s r. (s, r) \<in> set t \<and> row_to_pending_job (s, r) = Some (k, i))"
  by (auto simp: all_pending_def List.map_filter_def) force+

text \<open>A job is listed exactly when its row is there, if keys are the texts of keys.\<close>

lemma all_pending_iff:
  assumes "hm_ok t" and "keys_ok t"
  shows "(\<exists>i. (k, i) \<in> set (all_pending t)) \<longleftrightarrow> valid_key k \<and> hm_contains t (key_to_string k)"
proof
  assume "\<exists>i. (k, i) \<in> set (all_pending t)"
  then obtain s r where s: "(s, r) \<in> set t" "parse_key s = Inr k"
    using row_to_pending_job_Some by (fastforce simp: all_pending_mem)
  from s(1) assms(2) obtain k' where "valid_key k'" "s = key_to_string k'"
    by (force simp: keys_ok_def)
  with s show "valid_key k \<and> hm_contains t (key_to_string k)"
    by (force simp: hm_contains_iff image_iff)
next
  assume k: "valid_key k \<and> hm_contains t (key_to_string k)"
  then obtain r where "(key_to_string k, r) \<in> set t" by (auto simp: hm_contains_iff)
  moreover have "\<exists>i. row_to_pending_job (key_to_string k, r) = Some (k, i)"
    using k by (simp add: row_to_pending_job_def)
  ultimately show "\<exists>i. (k, i) \<in> set (all_pending t)" by (auto simp: all_pending_mem)
qed

lemma sort_key_distinct_map: "distinct (map f xs) \<Longrightarrow> distinct (map f (sort_key g xs))"
proof -
  assume d: "distinct (map f xs)"
  have "mset (map f (sort_key g xs)) = mset (map f xs)" by simp
  with d show ?thesis by (metis mset_eq_imp_distinct_iff)
qed

lemma map_filter_distinct:
  assumes "distinct (map fst xs)" and "keys_ok xs"
  shows "distinct (map fst (List.map_filter row_to_pending_job xs))"
  using assms
proof (induction xs)
  case (Cons x xs)
  obtain s r where x: "x = (s, r)" by (cases x)
  have ok: "keys_ok xs" "distinct (map fst xs)" using Cons.prems by (auto simp: keys_ok_def)
  show ?case
  proof (cases "row_to_pending_job x")
    case None
    with Cons.IH ok show ?thesis by (simp add: List.map_filter_simps)
  next
    case (Some ki)
    obtain k i where ki: "ki = (k, i)" by (cases ki)
    have "k \<notin> fst ` set (List.map_filter row_to_pending_job xs)"
    proof
      assume "k \<in> fst ` set (List.map_filter row_to_pending_job xs)"
      then obtain s' r' i' where y: "(s', r') \<in> set xs" "row_to_pending_job (s', r') = Some (k, i')"
        by (auto simp: List.map_filter_def)
      from y(2) Some ki x have "parse_key s' = parse_key s"
        by (auto dest!: row_to_pending_job_Some)
      moreover obtain a b where "valid_key a" "s' = key_to_string a" "valid_key b" "s = key_to_string b"
        using Cons.prems(2) y(1) x unfolding keys_ok_def by (metis fst_conv image_eqI list.set_intros)
      ultimately have "s' = s" by simp
      with y(1) Cons.prems(1) x show False by force
    qed
    with Some ki Cons.IH ok show ?thesis by (simp add: List.map_filter_simps)
  qed
qed (simp add: List.map_filter_simps)

lemma all_pending_distinct:
  assumes "hm_ok t" and "keys_ok t"
  shows "distinct (map fst (all_pending t))"
proof -
  have "distinct (map fst (sort_key (\<lambda>(_, r). pr_created_at r) t))"
    using assms(1) by (simp add: hm_ok_def sort_key_distinct_map)
  moreover have "keys_ok (sort_key (\<lambda>(_, r). pr_created_at r) t)"
    using assms(2) by (simp add: keys_ok_def)
  ultimately show ?thesis unfolding all_pending_def by (rule map_filter_distinct)
qed

lemma keys_ok_remove [simp]: "keys_ok t \<Longrightarrow> keys_ok (hm_remove k t)"
  by (auto simp: keys_ok_def AList.delete_eq)

lemma keys_ok_modify [simp]: "keys_ok (hm_modify k f t) \<longleftrightarrow> keys_ok t"
  by (simp add: keys_ok_def hm_modify_def image_image case_prod_beta)

lemma keys_ok_insert [simp]: "keys_ok t \<Longrightarrow> valid_key k \<Longrightarrow> keys_ok (insert_ignore (key_to_string k) r t)"
  by (auto simp: keys_ok_def insert_ignore_def hm_insert_new)

end
