(* ===== verification/Runner_State.thy ===== *)
theory Runner_State
  imports Pending_Jobs
begin

text \<open>
  \<^verbatim>\<open>kuiper-forge/src/runner_state.rs\<close> with its statements of \<^verbatim>\<open>sql.rs\<close>: the runners
  that exist, on which agent and for which job, and since when the VM of each was missing from its
  agent's status. A query that fails reads as no rows.
\<close>

section \<open>Data\<close>

text \<open>\<^verbatim>\<open>MISSING_VM_GRACE\<close>, in milliseconds.\<close>

definition MISSING_VM_GRACE :: nat where
  "MISSING_VM_GRACE = 20000"

record runner_info =
  ri_agent_id :: string
  ri_vm_name :: string
  ri_runner_scope :: runner_scope
  ri_created_at :: int
  ri_job_id :: "job_key option"
  ri_job_name :: "string option"
  ri_repository :: "string option"
  ri_workflow_name :: "string option"
  ri_forge :: "string option"

text \<open>\<^verbatim>\<open>row_to_runner_info\<close>: a job key that doesn't parse is logged and left out.\<close>

definition row_to_runner_info :: "string \<times> runner_row \<Rightarrow> string \<times> runner_info" where
  "row_to_runner_info nr = (case nr of (name, r) \<Rightarrow>
     (name,
      \<lparr>ri_agent_id = rr_agent_id r, ri_vm_name = rr_vm_name r, ri_runner_scope = rr_runner_scope r,
       ri_created_at = rr_created_at r,
       ri_job_id = (case rr_job_id r of None \<Rightarrow> None
                    | Some s \<Rightarrow> (case parse_key s of Inr k \<Rightarrow> Some k | Inl _ \<Rightarrow> None)),
       ri_job_name = rr_job_name r, ri_repository = rr_repository r,
       ri_workflow_name = rr_workflow_name r, ri_forge = rr_forge r\<rparr>))"

section \<open>Operations\<close>

text \<open>A plain \<^verbatim>\<open>INSERT\<close>: with the name taken it fails, which is logged.\<close>

definition insert_runner_row :: "string \<Rightarrow> runner_row \<Rightarrow> 'z store_scheme \<Rightarrow> bool \<times> 'z store_scheme" where
  "insert_runner_row name r s =
     (if hm_contains (st_runners s) name then (False, s)
      else (True, s\<lparr>st_runners := hm_insert name r (st_runners s)\<rparr>))"

definition add_runner ::
    "env \<Rightarrow> string \<Rightarrow> string \<Rightarrow> string \<Rightarrow> runner_scope \<Rightarrow> string \<Rightarrow> job_key option \<Rightarrow> string option
     \<Rightarrow> string option \<Rightarrow> string option \<Rightarrow> string option \<Rightarrow> ('z store_scheme, unit) state" where
  "add_runner env runner_name aid vm scope forge job_id job_name repository workflow_name pool = do {
     created_at \<leftarrow> ask (utc_now env);
     query env (insert_runner_row runner_name
       \<lparr>rr_agent_id = aid, rr_vm_name = vm, rr_runner_scope = scope, rr_created_at = created_at,
        rr_job_id = map_option key_to_string job_id, rr_job_name = job_name, rr_repository = repository,
        rr_workflow_name = workflow_name, rr_pool = pool, rr_forge = Some forge\<rparr>);
     ret () }"

definition remove_runner :: "env \<Rightarrow> string \<Rightarrow> ('z store_scheme, unit) state" where
  "remove_runner env name = do {
     modify (\<lambda>s. s\<lparr>st_missing_since := hm_remove name (st_missing_since s)\<rparr>);
     query env (\<lambda>s. ((), s\<lparr>st_runners := hm_remove name (st_runners s)\<rparr>));
     ret () }"

definition count_runners_for_agent :: "env \<Rightarrow> string \<Rightarrow> ('z store_scheme, nat) state" where
  "count_runners_for_agent env aid = do {
     n \<leftarrow> query env (\<lambda>s. (length (filter (\<lambda>(_, r). rr_agent_id r = aid) (st_runners s)), s));
     ret (case n of Some n \<Rightarrow> n | None \<Rightarrow> 0) }"

definition count_runners_for_agent_pool :: "env \<Rightarrow> string \<Rightarrow> string \<Rightarrow> ('z store_scheme, nat) state" where
  "count_runners_for_agent_pool env aid pool = do {
     n \<leftarrow> query env (\<lambda>s.
        (length (filter (\<lambda>(_, r). rr_agent_id r = aid \<and> rr_pool r = Some pool) (st_runners s)), s));
     ret (case n of Some n \<Rightarrow> n | None \<Rightarrow> 0) }"

definition get_runners_for_agent :: "env \<Rightarrow> string \<Rightarrow> ('z store_scheme, (string \<times> runner_info) list) state" where
  "get_runners_for_agent env aid = do {
     rows \<leftarrow> query env (\<lambda>s. (filter (\<lambda>(_, r). rr_agent_id r = aid) (st_runners s), s));
     ret (case rows of Some rows \<Rightarrow> map row_to_runner_info rows | None \<Rightarrow> []) }"

definition get_all_runners :: "env \<Rightarrow> ('z store_scheme, (string \<times> runner_info) list option) state" where
  "get_all_runners env = query env (\<lambda>s. (map row_to_runner_info (st_runners s), s))"

definition get_runner :: "env \<Rightarrow> string \<Rightarrow> ('z store_scheme, runner_info option) state" where
  "get_runner env name = do {
     row \<leftarrow> query env (\<lambda>s. (hm_get (st_runners s) name, s));
     ret (case row of Some (Some r) \<Rightarrow> Some (snd (row_to_runner_info (name, r))) | _ \<Rightarrow> None) }"

definition has_runner :: "env \<Rightarrow> string \<Rightarrow> ('z store_scheme, bool) state" where
  "has_runner env name = do { r \<leftarrow> get_runner env name; ret (r \<noteq> None) }"

definition job_rows :: "job_key \<Rightarrow> (string, runner_row) hashmap \<Rightarrow> (string, runner_row) hashmap" where
  "job_rows key t = filter (\<lambda>(_, r). rr_job_id r = Some (key_to_string key)) t"

definition runners_for_job :: "env \<Rightarrow> job_key \<Rightarrow> ('z store_scheme, (string \<times> string) list) state" where
  "runners_for_job env key = do {
     rows \<leftarrow> query env (\<lambda>s. (map (\<lambda>(n, r). (n, rr_agent_id r)) (job_rows key (st_runners s)), s));
     ret (case rows of Some rows \<Rightarrow> rows | None \<Rightarrow> []) }"

definition remove_runners_for_agent :: "env \<Rightarrow> string \<Rightarrow> ('z store_scheme, (string \<times> runner_info) list) state" where
  "remove_runners_for_agent env aid = do {
     runners \<leftarrow> get_runners_for_agent env aid;
     if runners = [] then ret runners
     else do {
       query env (\<lambda>s. ((), s\<lparr>st_runners := hm_retain (\<lambda>_ r. rr_agent_id r \<noteq> aid) (st_runners s)\<rparr>));
       ret runners } }"

text \<open>
  The loop of \<open>reconcile_agent_vms\<close> over the agent's runners: a runner counts as missing once its
  VM was missing for the grace period.
\<close>

definition reconcile_runner ::
    "nat \<Rightarrow> string list \<Rightarrow> string \<times> runner_info \<Rightarrow> (string, nat) hashmap \<times> (string \<times> runner_info) list
     \<Rightarrow> (string, nat) hashmap \<times> (string \<times> runner_info) list" where
  "reconcile_runner now vm_names ni acc = (case (ni, acc) of ((name, info), (since, missing)) \<Rightarrow>
     if ri_vm_name info \<in> set vm_names then (hm_remove name since, missing)
     else
       let t = (case hm_get since name of Some t \<Rightarrow> t | None \<Rightarrow> now);
           since' = insert_ignore name now since
       in if now - t < MISSING_VM_GRACE then (since', missing)
          else (hm_remove name since', missing @ [(name, info)]))"

definition reconcile_agent_vms ::
    "env \<Rightarrow> string \<Rightarrow> string list \<Rightarrow> ('z store_scheme, (string \<times> runner_info) list) state" where
  "reconcile_agent_vms env aid vm_names = do {
     runners \<leftarrow> get_runners_for_agent env aid;
     now \<leftarrow> ask (instant env);
     since \<leftarrow> gets st_missing_since;
     let (since', missing) = fold (reconcile_runner now vm_names) runners (since, []);
     modify (\<lambda>s. s\<lparr>st_missing_since := since'\<rparr>);
     ret missing }"

section \<open>Lemmas\<close>

lemma reconcile_runner_missing:
  "snd (reconcile_runner now vms (n, i) (since, ms)) =
     (if ri_vm_name i \<in> set vms then ms
      else case hm_get since n of
             Some t \<Rightarrow> if now - t < MISSING_VM_GRACE then ms else ms @ [(n, i)]
           | None \<Rightarrow> ms)"
  by (auto simp: reconcile_runner_def Let_def MISSING_VM_GRACE_def split: option.split)

lemma reconcile_runner_since:
  "hm_get (fst (reconcile_runner now vms (n, i) (since, ms))) k =
     (if k \<noteq> n then hm_get since k
      else if ri_vm_name i \<in> set vms then None
      else case hm_get since n of
             Some t \<Rightarrow> if now - t < MISSING_VM_GRACE then Some t else None
           | None \<Rightarrow> Some now)"
  by (auto simp: reconcile_runner_def Let_def insert_ignore_get MISSING_VM_GRACE_def split: option.split)

lemma reconcile_fold:
  assumes "distinct (map fst rs)"
  shows "set (snd (fold (reconcile_runner now vms) rs (since, ms))) =
      set ms \<union> {(n, i) \<in> set rs. ri_vm_name i \<notin> set vms
        \<and> (\<exists>t. hm_get since n = Some t \<and> now - t \<ge> MISSING_VM_GRACE)}
    \<and> (\<forall>k. hm_get (fst (fold (reconcile_runner now vms) rs (since, ms))) k =
        (case map_of rs k of
           None \<Rightarrow> hm_get since k
         | Some i \<Rightarrow> if ri_vm_name i \<in> set vms then None
             else case hm_get since k of
                    Some t \<Rightarrow> if now - t < MISSING_VM_GRACE then Some t else None
                  | None \<Rightarrow> Some now))"
  using assms
proof (induction rs arbitrary: since ms)
  case (Cons x rs)
  obtain n i where x: "x = (n, i)" by (cases x)
  obtain since' ms' where r: "reconcile_runner now vms x (since, ms) = (since', ms')"
    by (cases "reconcile_runner now vms x (since, ms)")
  have fresh: "map_of rs n = None" and d: "distinct (map fst rs)"
    using Cons.prems x by (auto simp: map_of_eq_None_iff)
  have since': "hm_get since' k = (if k \<noteq> n then hm_get since k
      else if ri_vm_name i \<in> set vms then None
      else case hm_get since n of
             Some t \<Rightarrow> if now - t < MISSING_VM_GRACE then Some t else None
           | None \<Rightarrow> Some now)" for k
    using reconcile_runner_since [of now vms n i since ms k] r x by simp
  have ms': "ms' = (if ri_vm_name i \<in> set vms then ms
      else case hm_get since n of
             Some t \<Rightarrow> if now - t < MISSING_VM_GRACE then ms else ms @ [(n, i)]
           | None \<Rightarrow> ms)"
    using reconcile_runner_missing [of now vms n i since ms] r x by simp
  have other: "hm_get since' m = hm_get since m" if "(m, j) \<in> set rs" for m j
  proof -
    have "m \<noteq> n" using that fresh by (force simp: map_of_eq_None_iff)
    then show ?thesis by (simp add: since')
  qed
  have "set ms' = set ms \<union> {(m, j). (m, j) = (n, i) \<and> ri_vm_name j \<notin> set vms
        \<and> (\<exists>t. hm_get since m = Some t \<and> now - t \<ge> MISSING_VM_GRACE)}"
    by (auto simp: ms' split: option.splits)
  moreover have "{(m, j) \<in> set rs. ri_vm_name j \<notin> set vms
        \<and> (\<exists>t. hm_get since' m = Some t \<and> now - t \<ge> MISSING_VM_GRACE)}
      = {(m, j) \<in> set rs. ri_vm_name j \<notin> set vms
        \<and> (\<exists>t. hm_get since m = Some t \<and> now - t \<ge> MISSING_VM_GRACE)}"
    using other by auto
  ultimately have "set (snd (fold (reconcile_runner now vms) (x # rs) (since, ms))) =
      set ms \<union> {(m, j) \<in> set (x # rs). ri_vm_name j \<notin> set vms
        \<and> (\<exists>t. hm_get since m = Some t \<and> now - t \<ge> MISSING_VM_GRACE)}"
    using Cons.IH [OF d, of since' ms'] r x by auto
  moreover have "hm_get (fst (fold (reconcile_runner now vms) (x # rs) (since, ms))) k =
        (case map_of (x # rs) k of
           None \<Rightarrow> hm_get since k
         | Some i \<Rightarrow> if ri_vm_name i \<in> set vms then None
             else case hm_get since k of
                    Some t \<Rightarrow> if now - t < MISSING_VM_GRACE then Some t else None
                  | None \<Rightarrow> Some now)" for k
    using Cons.IH [OF d, of since' ms'] r x fresh since' [of k]
    by (cases "k = n") (auto split: option.splits)
  ultimately show ?case by blast
qed auto

lemma map_fst_row_to_runner_info [simp]: "map (fst \<circ> row_to_runner_info) t = map fst t"
  by (auto simp: row_to_runner_info_def split: prod.split)

lemma runners_distinct: "hm_ok t \<Longrightarrow> distinct (map fst (map row_to_runner_info (filter P t)))"
  by (simp add: hm_ok_def distinct_map_fst_filter)

lemma map_of_row_to_runner_info:
  "map_of (map row_to_runner_info t) n = map_option (\<lambda>r. snd (row_to_runner_info (n, r))) (map_of t n)"
  by (induction t) (auto simp: row_to_runner_info_def)

text \<open>A runner is reported missing only after its VM was absent from the agent's statuses for the
  whole grace period: the first status without the VM starts the period, one that lists the VM ends it,
  and the statuses of other agents don't touch it.\<close>

theorem missing_only_after_grace:
  assumes "hm_ok (st_runners s)" and "db_up env (st_tick s)"
    and "now = instant env (st_tick s + 1)"
    and "since = st_missing_since s" and "s' = exec (reconcile_agent_vms env aid vms) s"
  shows "((n, i) \<in> set (result (reconcile_agent_vms env aid vms) s) \<longleftrightarrow>
      (n, i) \<in> set (map row_to_runner_info (st_runners s)) \<and> ri_agent_id i = aid \<and> ri_vm_name i \<notin> set vms
        \<and> (\<exists>t. hm_get since n = Some t \<and> now - t \<ge> MISSING_VM_GRACE))
    \<and> hm_get (st_missing_since s') n =
        (case map_of (filter (\<lambda>(_, r). rr_agent_id r = aid) (st_runners s)) n of
           None \<Rightarrow> hm_get since n
         | Some r \<Rightarrow> if rr_vm_name r \<in> set vms then None
             else case hm_get since n of
                    Some t \<Rightarrow> if now - t < MISSING_VM_GRACE then Some t else None
                  | None \<Rightarrow> Some now)
    \<and> st_runners s' = st_runners s"
proof -
  let ?mine = "filter (\<lambda>(_, r). rr_agent_id r = aid) (st_runners s)"
  let ?rs = "map row_to_runner_info ?mine"
  have res: "result (reconcile_agent_vms env aid vms) s = snd (fold (reconcile_runner now vms) ?rs (since, []))"
    and sin: "st_missing_since s' = fst (fold (reconcile_runner now vms) ?rs (since, []))"
    and "st_runners s' = st_runners s"
    using assms(2-5)
    by (simp_all add: reconcile_agent_vms_def get_runners_for_agent_def run_query Let_def split: prod.split)
  moreover have "map_of ?rs n = map_option (\<lambda>r. snd (row_to_runner_info (n, r))) (map_of ?mine n)"
    by (rule map_of_row_to_runner_info)
  moreover have "(n, i) \<in> set ?rs \<longleftrightarrow> (n, i) \<in> set (map row_to_runner_info (st_runners s)) \<and> ri_agent_id i = aid"
    by (auto simp: row_to_runner_info_def)
  moreover have "ri_vm_name (snd (row_to_runner_info (n, r))) = rr_vm_name r" for r
    by (simp add: row_to_runner_info_def)
  ultimately show ?thesis
    using reconcile_fold [OF runners_distinct [OF assms(1)], of now vms "\<lambda>(_, r). rr_agent_id r = aid" since "[]"]
    by (auto split: option.split)
qed

definition test_store :: store where
  "test_store = \<lparr>st_tick = 0, st_pending = [],
     st_runners = [(''mac-1'', \<lparr>rr_agent_id = ''a'', rr_vm_name = ''mac-1'',
        rr_runner_scope = Organization ''acme'', rr_created_at = 0, rr_job_id = Some ''github:7'',
        rr_job_name = None, rr_repository = Some ''acme/app'', rr_workflow_name = None, rr_pool = None,
        rr_forge = Some ''github''\<rparr>)],
     st_runs = [], st_jobs = [], st_failures = [], st_missing_since = [(''mac-1'', 1000)]\<rparr>"

definition test_env :: env where
  "test_env = \<lparr>db_up = \<lambda>_. True, instant = \<lambda>n. 30000 + n, utc_now = \<lambda>n. int n,
     fresh_uuid = \<lambda>n. nat_to_string n\<rparr>"

theorem missing_only_after_grace_witness:
  "(''mac-1'', snd (row_to_runner_info (hd (st_runners test_store))))
     \<in> set (result (reconcile_agent_vms test_env ''a'' []) test_store)"
proof -
  have "hm_ok (st_runners test_store)" "db_up test_env (st_tick test_store)"
    by (simp_all add: test_store_def test_env_def hm_ok_def)
  from missing_only_after_grace [OF this refl refl refl, where n = "''mac-1''"
      and i = "snd (row_to_runner_info (hd (st_runners test_store)))" and aid = "''a''" and vms = "[]"]
  show ?thesis
    by (simp add: test_store_def test_env_def row_to_runner_info_def MISSING_VM_GRACE_def)
qed

end
