(* ===== verification/Webhook.thy ===== *)
theory Webhook
  imports Runner_State Labels
begin

text \<open>
  \<^verbatim>\<open>kuiper-forge/src/webhook.rs\<close> and the provisioning settings of \<^verbatim>\<open>config.rs\<close>: which
  queued jobs are accepted, with which runner scope, and the handler of GitHub's webhook. HMAC, the
  hex decoder and the JSON parser are other crates: they are parameters, in the record \<open>decoders\<close>.
\<close>

section \<open>Settings\<close>

datatype provisioning_mode = FixedCapacity | WebhookMode | Polling

text \<open>\<^verbatim>\<open>LabelMapping\<close> of the configuration.\<close>

record label_rule =
  lr_labels :: "string list"
  lr_runner_scope :: "runner_scope option"
  lr_runner_group :: "string option"
  lr_forge :: "string option"

record job_filters =
  jf_required_labels :: "string list"
  jf_label_mappings :: "label_rule list"

record provisioning_config =
  pc_mode :: provisioning_mode
  pc_webhook :: "job_filters option"
  pc_polling :: "job_filters option"
  pc_idle_runner_timeout_secs :: nat

definition MIN_IDLE_RUNNER_TIMEOUT_SECS :: nat where
  "MIN_IDLE_RUNNER_TIMEOUT_SECS = 120"

text \<open>The timeout in milliseconds.\<close>

definition idle_runner_timeout :: "provisioning_config \<Rightarrow> nat option" where
  "idle_runner_timeout c =
     (if pc_idle_runner_timeout_secs c = 0 then None
      else Some (1000 * max (pc_idle_runner_timeout_secs c) MIN_IDLE_RUNNER_TIMEOUT_SECS))"

text \<open>The polling section is optional: without one, the default filters apply.\<close>

definition default_filters :: job_filters where
  "default_filters = \<lparr>jf_required_labels = [''self-hosted''], jf_label_mappings = []\<rparr>"

definition polling_config :: "provisioning_config \<Rightarrow> job_filters" where
  "polling_config c = (case pc_polling c of Some p \<Rightarrow> p | None \<Rightarrow> default_filters)"

definition on_demand_filters :: "provisioning_config \<Rightarrow> job_filters option" where
  "on_demand_filters c =
     (case pc_mode c of
        FixedCapacity \<Rightarrow> None
      | WebhookMode \<Rightarrow> pc_webhook c
      | Polling \<Rightarrow> Some (polling_config c))"

section \<open>Accepting a job\<close>

definition has_required_labels :: "string list \<Rightarrow> string list \<Rightarrow> bool" where
  "has_required_labels job_labels required = list_all (has_label job_labels) required"

definition match_labels :: "string \<Rightarrow> string list \<Rightarrow> label_rule list \<Rightarrow> label_rule option" where
  "match_labels forge job_labels mappings =
     List.find (\<lambda>m. (case lr_forge m of None \<Rightarrow> True | Some f \<Rightarrow> f = forge)
                    \<and> list_all (has_label job_labels) (lr_labels m)) mappings"

definition resolve_runner_scope ::
    "job_key \<Rightarrow> string list \<Rightarrow> label_rule list \<Rightarrow> runner_scope \<Rightarrow> (runner_scope \<times> string option) option" where
  "resolve_runner_scope job_id job_labels mappings default_scope =
     (if mappings = [] then Some (default_scope, None)
      else case match_labels (key_forge job_id) job_labels mappings of
             Some m \<Rightarrow> Some (case lr_runner_scope m of None \<Rightarrow> default_scope | Some s \<Rightarrow> s, lr_runner_group m)
           | None \<Rightarrow> None)"

section \<open>The webhook\<close>

record workflow_job =
  wj_id :: nat
  wj_name :: string
  wj_labels :: "string list"
  wj_runner_name :: "string option"
  wj_created_at :: "int option"
  wj_started_at :: "int option"
  wj_completed_at :: "int option"
  wj_conclusion :: "string option"

record workflow_job_event =
  we_action :: string
  we_job :: workflow_job
  we_repository :: string
  we_owner_login :: string
  we_organization :: "string option"
  we_workflow_name :: "string option"

datatype webhook_event = NewJobAvailable | JobCompleted job_key

datatype status_code = OK | UNAUTHORIZED | BAD_REQUEST | SERVICE_UNAVAILABLE

record decoders =
  hex_decode :: "string \<Rightarrow> string option"
  hmac_sha256 :: "string \<Rightarrow> string \<Rightarrow> string"
  parse_event :: "string \<Rightarrow> workflow_job_event option"

record webhook_state =
  ws_secret :: string
  ws_filters :: job_filters
  ws_forge :: string

text \<open>\<^verbatim>\<open>str::strip_prefix\<close>.\<close>

definition strip_prefix :: "string \<Rightarrow> string \<Rightarrow> string option" where
  "strip_prefix p s = (if is_prefix_of p s then Some (drop (length p) s) else None)"

text \<open>A MAC accepts a key of any length; \<^verbatim>\<open>verify_slice\<close> compares the whole tag.\<close>

definition validate_signature :: "decoders \<Rightarrow> string \<Rightarrow> string \<Rightarrow> string \<Rightarrow> bool" where
  "validate_signature d secret payload header =
     (case strip_prefix ''sha256='' header of
        None \<Rightarrow> False
      | Some sig \<Rightarrow>
          (case hex_decode d sig of
             None \<Rightarrow> False
           | Some bytes \<Rightarrow> bytes = hmac_sha256 d secret payload))"

definition job_key_of :: "webhook_state \<Rightarrow> workflow_job_event \<Rightarrow> job_key" where
  "job_key_of w e = JobKey (ws_forge w) (nat_to_string (wj_id (we_job e)))"

definition request_of :: "webhook_state \<Rightarrow> workflow_job_event \<Rightarrow> runner_scope \<Rightarrow> string option \<Rightarrow> runner_request" where
  "request_of w e scope grp =
     \<lparr>wr_job_labels = wj_labels (we_job e), wr_agent_labels = wj_labels (we_job e),
      wr_runner_scope = scope, wr_runner_group = grp, wr_job_id = job_key_of w e,
      wr_repository = Some (we_repository e), wr_job_name = Some (wj_name (we_job e)),
      wr_workflow_name = we_workflow_name e, wr_queued_at = wj_created_at (we_job e)\<rparr>"

definition default_runner_scope :: "workflow_job_event \<Rightarrow> runner_scope" where
  "default_runner_scope e =
     Organization (case we_organization e of Some o' \<Rightarrow> o' | None \<Rightarrow> we_owner_login e)"

text \<open>
  What the handler answers and the event it sends to the fleet manager, if any (it is sent with
  \<^verbatim>\<open>try_send\<close>, and may be lost there).
\<close>

type_synonym webhook_answer = "status_code \<times> webhook_event option"

definition handle_queued :: "env \<Rightarrow> webhook_state \<Rightarrow> workflow_job_event \<Rightarrow> ('z store_scheme, webhook_answer) state" where
  "handle_queued env w e =
     (if \<not> has_required_labels (wj_labels (we_job e)) (jf_required_labels (ws_filters w)) then ret (OK, None)
      else case resolve_runner_scope (job_key_of w e) (wj_labels (we_job e)) (jf_label_mappings (ws_filters w))
                  (default_runner_scope e) of
             None \<Rightarrow> ret (OK, None)
           | Some (scope, grp) \<Rightarrow> do {
               added \<leftarrow> add_job env (request_of w e scope grp);
               if \<not> added then ret (SERVICE_UNAVAILABLE, None) else ret (OK, Some NewJobAvailable) })"

definition handle_in_progress :: "env \<Rightarrow> webhook_state \<Rightarrow> workflow_job_event \<Rightarrow> ('z store_scheme, webhook_answer) state" where
  "handle_in_progress env w e = do {
     at \<leftarrow> (case wj_started_at (we_job e) of Some t \<Rightarrow> ret t | None \<Rightarrow> ask (utc_now env));
     job_started env (job_key_of w e) (wj_runner_name (we_job e)) at;
     (case wj_runner_name (we_job e) of Some runner \<Rightarrow> runner_job_started env runner at | None \<Rightarrow> ret ());
     ret (OK, None) }"

definition handle_completed :: "env \<Rightarrow> webhook_state \<Rightarrow> workflow_job_event \<Rightarrow> ('z store_scheme, webhook_answer) state" where
  "handle_completed env w e = do {
     at \<leftarrow> (case wj_completed_at (we_job e) of Some t \<Rightarrow> ret t | None \<Rightarrow> ask (utc_now env));
     job_completed env (job_key_of w e) (wj_conclusion (we_job e)) at;
     ret (OK, Some (JobCompleted (job_key_of w e))) }"

definition handle_webhook ::
    "decoders \<Rightarrow> env \<Rightarrow> webhook_state \<Rightarrow> string option \<Rightarrow> string option \<Rightarrow> string \<Rightarrow> ('z store_scheme, webhook_answer) state" where
  "handle_webhook d env w event_header signature_header body =
     (if (case event_header of Some h \<Rightarrow> h | None \<Rightarrow> []) \<noteq> ''workflow_job'' then ret (OK, None)
      else if \<not> validate_signature d (ws_secret w) body (case signature_header of Some h \<Rightarrow> h | None \<Rightarrow> [])
           then ret (UNAUTHORIZED, None)
      else case parse_event d body of
             None \<Rightarrow> ret (BAD_REQUEST, None)
           | Some e \<Rightarrow>
               if we_action e = ''queued'' then handle_queued env w e
               else if we_action e = ''in_progress'' then handle_in_progress env w e
               else if we_action e = ''completed'' \<or> we_action e = ''cancelled'' then handle_completed env w e
               else ret (OK, None))"

section \<open>Lemmas\<close>

lemma resolve_Some_iff:
  "(\<exists>r. resolve_runner_scope k ls ms d = Some r) \<longleftrightarrow>
     ms = [] \<or> (\<exists>m \<in> set ms. (lr_forge m = None \<or> lr_forge m = Some (key_forge k))
                  \<and> list_all (has_label ls) (lr_labels m))"
proof (cases "match_labels (key_forge k) ls ms")
  case None
  then have "\<forall>m \<in> set ms. \<not> ((case lr_forge m of None \<Rightarrow> True | Some f \<Rightarrow> f = key_forge k)
      \<and> list_all (has_label ls) (lr_labels m))"
    by (simp only: match_labels_def find_None_iff)
  then have "\<not> (\<exists>m \<in> set ms. (lr_forge m = None \<or> lr_forge m = Some (key_forge k))
      \<and> list_all (has_label ls) (lr_labels m))" by (auto split: option.splits)
  with None show ?thesis by (simp add: resolve_runner_scope_def)
next
  case (Some m)
  then have "m \<in> set ms" "lr_forge m = None \<or> lr_forge m = Some (key_forge k)"
    "list_all (has_label ls) (lr_labels m)"
    by (cases "lr_forge m"; auto simp: match_labels_def dest!: find_Some)+
  with Some show ?thesis by (auto simp: resolve_runner_scope_def)
qed

text \<open>The filters look at the set of labels only, without their order and ASCII case.\<close>

lemma has_label_same:
  "to_lowercase ` set ls = to_lowercase ` set ls' \<Longrightarrow> has_label ls l \<longleftrightarrow> has_label ls' l"
  by (simp add: has_label_lower)

lemma match_labels_same:
  assumes "to_lowercase ` set ls = to_lowercase ` set ls'"
  shows "match_labels f ls ms = match_labels f ls' ms"
proof -
  have "has_label ls = has_label ls'" using has_label_same [OF assms] by (intro ext)
  then show ?thesis by (simp add: match_labels_def)
qed

lemma job_seen_pending [simp]: "st_pending (exec (job_seen env j) s) = st_pending s"
  by (simp add: job_seen_def run_query)

lemma add_job_pending:
  "result (add_job env r) s = db_up env (st_tick s + 1)"
  "st_pending (exec (add_job env r) s) =
     (if db_up env (st_tick s + 1)
      then insert_ignore (key_to_string (wr_job_id r)) (new_pending_row (utc_now env (st_tick s)) r) (st_pending s)
      else st_pending s)"
  by (simp_all add: add_job_def run_query)

section \<open>Properties\<close>

text \<open>C10: A signed \<^verbatim>\<open>queued\<close> webhook never loses an accepted job: the answer is 200 with the
  job in the pending queue and the fleet manager told, or 503 so that GitHub delivers it again, or 200
  because a required label is missing or no mapping for this forge matches. A redelivery keeps the
  row the first delivery made.\<close>

theorem queued_webhook_keeps_job:
  assumes "event_header = Some ''workflow_job''" and "parse_event d body = Some e" and "we_action e = ''queued''"
    and "validate_signature d (ws_secret w) body header"
  shows "let m = handle_webhook d env w event_header (Some header) body;
             k = key_to_string (job_key_of w e);
             accepted = list_all (has_label (wj_labels (we_job e))) (jf_required_labels (ws_filters w))
               \<and> (jf_label_mappings (ws_filters w) = [] \<or>
                  (\<exists>r \<in> set (jf_label_mappings (ws_filters w)). (lr_forge r = None \<or> lr_forge r = Some (ws_forge w))
                     \<and> list_all (has_label (wj_labels (we_job e))) (lr_labels r)))
         in result m s = (if \<not> accepted then (OK, None)
                          else if db_up env (st_tick s + 1) then (OK, Some NewJobAvailable)
                          else (SERVICE_UNAVAILABLE, None))
          \<and> (result m s = (OK, Some NewJobAvailable) \<longrightarrow> hm_contains (st_pending (exec m s)) k)
          \<and> (\<forall>k' r. hm_get (st_pending s) k' = Some r \<longrightarrow> hm_get (st_pending (exec m s)) k' = Some r)"
proof -
  let ?res = "resolve_runner_scope (job_key_of w e) (wj_labels (we_job e)) (jf_label_mappings (ws_filters w))
      (default_runner_scope e)"
  have m: "handle_webhook d env w event_header (Some header) body = handle_queued env w e"
    using assms by (simp add: handle_webhook_def)
  have k: "key_forge (job_key_of w e) = ws_forge w" by (simp add: job_key_of_def)
  have id: "wr_job_id (request_of w e sc g) = job_key_of w e" for sc g by (simp add: request_of_def)
  show ?thesis
    using resolve_Some_iff [of "job_key_of w e" "wj_labels (we_job e)" "jf_label_mappings (ws_filters w)"
        "default_runner_scope e"]
    unfolding m Let_def handle_queued_def has_required_labels_def k
    by (cases ?res) (auto simp: add_job_pending id hm_contains_def insert_ignore_get split: prod.splits)
qed

definition sample_event :: workflow_job_event where
  "sample_event = \<lparr>we_action = ''queued'',
     we_job = \<lparr>wj_id = 7, wj_name = ''build'', wj_labels = [''self-hosted'', ''macOS''], wj_runner_name = None,
       wj_created_at = None, wj_started_at = None, wj_completed_at = None, wj_conclusion = None\<rparr>,
     we_repository = ''acme/app'', we_owner_login = ''acme'', we_organization = None, we_workflow_name = None\<rparr>"

definition sample_decoders :: decoders where
  "sample_decoders = \<lparr>hex_decode = Some, hmac_sha256 = \<lambda>key msg. rev msg @ key, parse_event = \<lambda>_. Some sample_event\<rparr>"

definition sample_webhook :: webhook_state where
  "sample_webhook = \<lparr>ws_secret = ''k'', ws_filters = default_filters, ws_forge = ''github''\<rparr>"

theorem queued_webhook_keeps_job_witness:
  "result (handle_webhook sample_decoders test_env sample_webhook (Some ''workflow_job'')
      (Some ''sha256=bak'') ''ab'') test_store = (OK, Some NewJobAvailable)"
  using queued_webhook_keeps_job [of "Some ''workflow_job''" sample_decoders "''ab''" sample_event
      sample_webhook "''sha256=bak''" test_env test_store]
  by (simp add: Let_def sample_decoders_def sample_webhook_def sample_event_def default_filters_def
      validate_signature_def strip_prefix_def has_label_def test_env_def)

end
