(* ===== verification/Fleet_World.thy ===== *)
theory Fleet_World
  imports Registry_Facts Webhook
begin

text \<open>
  The state of the coordinator process as the fleet manager of \<^verbatim>\<open>kuiper-forge/src/fleet.rs\<close>
  sees it, and the helpers its handlers share: idle runners and their delays, the decision to drain a
  runner, what a forge says of a job, runner names, the scan of the queues, the channels of the fleet
  notifier, and the tasks it spawns. A handler of the fleet manager runs without interruption in the
  model; what it spawns is left in \<open>w_tasks\<close> and runs as steps of its own. Durations and instants
  are in milliseconds.
\<close>

section \<open>Idle runners\<close>

definition MAX_IDLE_BACKOFF :: nat where "MAX_IDLE_BACKOFF = 3600000"
definition IDLE_DESTROY_RETRY :: nat where "IDLE_DESTROY_RETRY = 120000"
definition TORN_DOWN_MEMORY :: nat where "TORN_DOWN_MEMORY = 600000"

datatype idle_action = IdleStarted | TearDown | IdleWait

definition idle_action_of :: "string + string option \<Rightarrow> idle_action" where
  "idle_action_of status =
     (case status of
        Inr (Some s) \<Rightarrow> if s = ''in_progress'' then IdleStarted
                        else if s = ''queued'' then TearDown else IdleWait
      | Inr None \<Rightarrow> TearDown
      | Inl _ \<Rightarrow> IdleWait)"

definition next_idle_backoff :: "nat option \<Rightarrow> nat \<Rightarrow> nat" where
  "next_idle_backoff previous timeout =
     min (case previous of None \<Rightarrow> timeout | Some delay \<Rightarrow> delay * 2) MAX_IDLE_BACKOFF"

record idle_backoff =
  ib_until :: nat
  ib_delay :: nat

record idle_runners =
  id_started :: "string set"
  id_tearing_down :: "(string, nat) hashmap"
  id_torn_down :: "(string, nat) hashmap"
  id_backoff :: "(job_key, idle_backoff) hashmap"

section \<open>Draining\<close>

definition DRAIN_BOOT_GRACE :: int where "DRAIN_BOOT_GRACE = 600000"
definition DRAIN_DESTROY_RETRY :: nat where "DRAIN_DESTROY_RETRY = 300000"

datatype drain_step = Keep | DrainDestroy

definition drain_step_of :: "idle_removal \<Rightarrow> int \<Rightarrow> drain_step" where
  "drain_step_of removal age =
     (case removal of
        Removed \<Rightarrow> DrainDestroy
      | Busy \<Rightarrow> Keep
      | NotRegistered \<Rightarrow> if age < DRAIN_BOOT_GRACE then Keep else DrainDestroy)"

section \<open>Names\<close>

definition MAX_RUNNER_HOST_LEN :: nat where "MAX_RUNNER_HOST_LEN = 20"

definition trim_dashes :: "string \<Rightarrow> string" where
  "trim_dashes s = rev (dropWhile (\<lambda>c. c = CHR ''-'') (rev (dropWhile (\<lambda>c. c = CHR ''-'') s)))"

text \<open>On host names in ASCII, where a character is a byte.\<close>

definition runner_name_for_host :: "string \<Rightarrow> string \<Rightarrow> string" where
  "runner_name_for_host host suffix =
     (let short = takeWhile (\<lambda>c. c \<noteq> CHR ''.'') host;
          mapped = take MAX_RUNNER_HOST_LEN
            (map (\<lambda>c. if ascii_alphanumeric c then ascii_lower c else CHR ''-'') short);
          trimmed = trim_dashes mapped;
          prefix = (if trimmed = [] then ''runner'' else trimmed)
      in prefix @ ''-'' @ suffix)"

section \<open>Scanning the queues\<close>

record queue_scan =
  qs_forges :: "string set"
  qs_seen :: "job_key set"

definition dropped_pending_jobs ::
    "(job_key \<times> pending_job_info) list \<Rightarrow> queue_scan \<Rightarrow> (job_key \<times> pending_job_info) list" where
  "dropped_pending_jobs pending scan =
     filter (\<lambda>(k, _). key_forge k \<in> qs_forges scan \<and> k \<notin> qs_seen scan) pending"

section \<open>The coordinator's state\<close>

text \<open>
  A spawned task that sends \<^verbatim>\<open>CreateRunner\<close> and handles the answer, for a job (with the job's
  repository) or for a pool. \<open>ct_waiter\<close> is what \<open>send_command\<close> returned once it was sent.
\<close>

datatype create_kind = OnDemand job_key "string option" | ForPool

record create_task =
  ct_agent :: string
  ct_command :: create_runner_command
  ct_runner :: string
  ct_scope :: runner_scope
  ct_forge :: forge_api
  ct_kind :: create_kind
  ct_waiter :: "(string + nat) option"

datatype task =
    CreateTask create_task
  | RemoveFromForge forge_api runner_scope string
  | CleanupStale forge_api runner_scope string
  | Watcher string string runner_scope forge_api
  | Failover string nat

text \<open>\<open>Failover\<close> is spawned by the agent's stream, see \<open>Server\<close>.\<close>

text \<open>What was asked of a forge: the calls with an effect there.\<close>

datatype forge_call = CreateCall string | RemoveCall runner_scope string | RemoveIdleCall runner_scope string

record recovery_info =
  rc_agent_id :: string
  rc_vm_names :: "string list"

record world = store +
  w_reg :: registry
  w_idle :: idle_runners
  w_draining :: "(string, nat) hashmap"
  w_warned :: "string set"
  w_notify :: nat \<comment> \<open>messages in the notify channel\<close>
  w_recovery :: "recovery_info list"
  w_events :: "(string \<times> runner_event) list"
  w_webhooks :: "webhook_event list"
  w_tasks :: "task list"
  w_calls :: "forge_call list"

text \<open>What the fleet manager is built with; the environment answers the outside's questions.\<close>

record fleet =
  fl_env :: env
  fl_provisioning :: provisioning_config
  fl_forges :: "forge_api forge_registry"
  fl_runner_scope :: "runner_scope option"
  fl_reply :: "nat \<Rightarrow> string + agent_message" \<comment> \<open>how a command awaited inside a handler ends\<close>

section \<open>Channels\<close>

text \<open>\<^verbatim>\<open>try_send\<close> on a channel of capacity 64: a full channel drops the message.\<close>

definition notify :: "world \<Rightarrow> world" where
  "notify w = w\<lparr>w_notify := (if w_notify w < 64 then w_notify w + 1 else w_notify w)\<rparr>"

definition notify_with_recovery :: "string \<Rightarrow> string list \<Rightarrow> world \<Rightarrow> world" where
  "notify_with_recovery aid vms w =
     notify (if length (w_recovery w) < 64
             then w\<lparr>w_recovery := w_recovery w @ [\<lparr>rc_agent_id = aid, rc_vm_names = vms\<rparr>]\<rparr> else w)"

definition notify_runner_event :: "string \<Rightarrow> runner_event \<Rightarrow> world \<Rightarrow> world" where
  "notify_runner_event aid e w =
     notify (if length (w_events w) < 128 then w\<lparr>w_events := w_events w @ [(aid, e)]\<rparr> else w)"

text \<open>\<open>send_runner_event\<close> waits for space: the event is queued once there is some.\<close>

definition send_runner_event :: "string \<Rightarrow> runner_event \<Rightarrow> world \<Rightarrow> world" where
  "send_runner_event aid e w = notify (w\<lparr>w_events := w_events w @ [(aid, e)]\<rparr>)"

definition send_webhook_event :: "webhook_event \<Rightarrow> world \<Rightarrow> world" where
  "send_webhook_event e w = (if length (w_webhooks w) < 32 then w\<lparr>w_webhooks := w_webhooks w @ [e]\<rparr> else w)"

section \<open>Helpers of the handlers\<close>

definition on_reg :: "(registry \<Rightarrow> registry) \<Rightarrow> (world, unit) state" where
  "on_reg f = modify (\<lambda>w. w\<lparr>w_reg := f (w_reg w)\<rparr>)"

definition on_reg_result :: "(registry \<Rightarrow> 'a \<times> registry) \<Rightarrow> (world, 'a) state" where
  "on_reg_result f = State (\<lambda>w. case f (w_reg w) of (a, rg) \<Rightarrow> (a, w\<lparr>w_reg := rg\<rparr>))"

definition on_idle :: "(idle_runners \<Rightarrow> idle_runners) \<Rightarrow> (world, unit) state" where
  "on_idle f = modify (\<lambda>w. w\<lparr>w_idle := f (w_idle w)\<rparr>)"

definition spawn :: "task \<Rightarrow> (world, unit) state" where
  "spawn t = modify (\<lambda>w. w\<lparr>w_tasks := w_tasks w @ [t]\<rparr>)"

definition log_call :: "forge_call \<Rightarrow> (world, unit) state" where
  "log_call c = modify (\<lambda>w. w\<lparr>w_calls := w_calls w @ [c]\<rparr>)"

definition runner_forge :: "fleet \<Rightarrow> string option \<Rightarrow> forge_api" where
  "runner_forge F forge =
     (case for_runner (fl_forges F) forge of Inr f \<Rightarrow> f | Inl _ \<Rightarrow> default_forge (fl_forges F))"

definition agent_identity :: "string \<Rightarrow> (world, string \<times> string) state" where
  "agent_identity aid = gets (\<lambda>w. case registry_agent aid (w_reg w) of
     Some a \<Rightarrow> (hostname a, agent_type a) | None \<Rightarrow> ([], []))"

definition new_runner_name :: "fleet \<Rightarrow> string \<Rightarrow> (world, string) state" where
  "new_runner_name F aid = do {
     host \<leftarrow> gets (\<lambda>w. case registry_agent aid (w_reg w) of Some a \<Rightarrow> hostname a | None \<Rightarrow> []);
     uuid \<leftarrow> ask (fresh_uuid (fl_env F));
     ret (runner_name_for_host host (take 8 uuid)) }"

definition get_job_status :: "forge_api \<Rightarrow> string \<Rightarrow> job_key \<Rightarrow> (world, string + string option) state" where
  "get_job_status f repo k = ask (\<lambda>n. fa_job_status f n repo (key_id k))"

definition forge_remove_runner :: "forge_api \<Rightarrow> runner_scope \<Rightarrow> string \<Rightarrow> (world, string + unit) state" where
  "forge_remove_runner f scope name = do {
     log_call (RemoveCall scope name);
     ask (\<lambda>n. fa_remove_runner f n scope name) }"

datatype job_check = CheckQueued | CheckDone | CheckUnknown

definition check_job_after_runner :: "forge_api \<Rightarrow> string option \<Rightarrow> job_key \<Rightarrow> (world, job_check) state" where
  "check_job_after_runner f repository job_id =
     (case repository of
        None \<Rightarrow> ret CheckDone
      | Some repo \<Rightarrow> do {
          status \<leftarrow> get_job_status f repo job_id;
          ret (case status of
                 Inr (Some s) \<Rightarrow> if s = ''queued'' then CheckQueued else CheckDone
               | Inr None \<Rightarrow> CheckDone
               | Inl _ \<Rightarrow> CheckUnknown) })"

definition job_backing_off :: "fleet \<Rightarrow> job_key \<Rightarrow> (world, bool) state" where
  "job_backing_off F key = do {
     now \<leftarrow> ask (instant (fl_env F));
     gets (\<lambda>w. case hm_get (id_backoff (w_idle w)) key of Some b \<Rightarrow> ib_until b > now | None \<Rightarrow> False) }"

section \<open>Lemmas\<close>

lemma run_on_reg_result [simp]:
  "result (on_reg_result f) w = fst (f (w_reg w))"
  "exec (on_reg_result f) w = w\<lparr>w_reg := snd (f (w_reg w))\<rparr>"
  by (simp_all add: on_reg_result_def result_def exec_def split: prod.split)

lemma ascii_lower_alphanumeric:
  assumes "ascii_alphanumeric c"
  shows "agent_type_char (ascii_lower c)"
proof (cases "65 \<le> (of_char c :: nat) \<and> (of_char c :: nat) \<le> 90")
  case True
  then have "(of_char c + 32 :: nat) mod 256 = of_char c + 32" by (intro mod_less) simp
  with True show ?thesis by (simp add: ascii_lower_def agent_type_char_def Let_def)
next
  case False
  with assms show ?thesis by (auto simp: ascii_lower_def agent_type_char_def ascii_alphanumeric_def Let_def)
qed

lemma trim_front:
  fixes d :: "'a \<Rightarrow> bool"
  defines "trim \<equiv> (\<lambda>s. rev (dropWhile d (rev (dropWhile d s))))"
  assumes "trim s \<noteq> []"
  shows "\<not> d (hd (trim s))" and "\<not> d (last (trim s))"
proof -
  let ?t = "dropWhile d s"
  have ne: "dropWhile d (rev ?t) \<noteq> []"
    using assms(2) unfolding trim_def by (simp only: rev_is_Nil_conv not_False_eq_True)
  then have t: "?t \<noteq> []" by (metis dropWhile.simps(1) rev.simps(1))
  show "\<not> d (last (trim s))"
    unfolding trim_def using hd_dropWhile [OF ne] by (simp only: last_rev not_False_eq_True)
  have "?t = rev (takeWhile d (rev ?t) @ dropWhile d (rev ?t))"
    by (simp only: takeWhile_dropWhile_id rev_rev_ident)
  also have "\<dots> = trim s @ rev (takeWhile d (rev ?t))"
    unfolding trim_def by (simp only: rev_append)
  finally have "hd ?t = hd (trim s)" using assms(2) by (metis hd_append2)
  then show "\<not> d (hd (trim s))" using hd_dropWhile [OF t] by simp
qed

lemma trim_dashes_ends:
  "trim_dashes s \<noteq> [] \<Longrightarrow> hd (trim_dashes s) \<noteq> CHR ''-'' \<and> last (trim_dashes s) \<noteq> CHR ''-''"
  using trim_front [of "\<lambda>c. c = CHR ''-''" s] unfolding trim_dashes_def by blast

lemma length_trim_dashes: "length (trim_dashes s) \<le> length s"
proof -
  have "length (trim_dashes s) \<le> length (dropWhile (\<lambda>c. c = CHR ''-'') s)"
    unfolding trim_dashes_def by (metis length_dropWhile_le length_rev)
  also have "\<dots> \<le> length s" by (rule length_dropWhile_le)
  finally show ?thesis .
qed

lemma set_trim_dashes: "set (trim_dashes s) \<subseteq> set s"
  unfolding trim_dashes_def by (metis set_dropWhileD set_rev subsetI)

section \<open>Properties\<close>

text \<open>A runner's name is the agent's short host name (lower case letters, digits and dashes, at most
  20 characters, no dash at either end), or \<^verbatim>\<open>runner\<close>, then a dash and the suffix: a name every
  backend and forge takes.\<close>

theorem runner_name_shape:
  "\<exists>p. runner_name_for_host host suffix = p @ ''-'' @ suffix \<and> p \<noteq> [] \<and> length p \<le> 20
    \<and> hd p \<noteq> CHR ''-'' \<and> last p \<noteq> CHR ''-'' \<and> list_all agent_type_char p"
proof -
  let ?m = "take MAX_RUNNER_HOST_LEN
    (map (\<lambda>c. if ascii_alphanumeric c then ascii_lower c else CHR ''-'') (takeWhile (\<lambda>c. c \<noteq> CHR ''.'') host))"
  have dash: "agent_type_char (CHR ''-'')" by (simp add: agent_type_char_def Let_def)
  have chars: "\<forall>c \<in> set ?m. agent_type_char c"
    using ascii_lower_alphanumeric dash by (auto dest!: in_set_takeD)
  have len: "length (trim_dashes ?m) \<le> 20"
    using length_trim_dashes [of ?m] by (simp add: MAX_RUNNER_HOST_LEN_def)
  show ?thesis
  proof (cases "trim_dashes ?m = []")
    case True
    then have "runner_name_for_host host suffix = ''runner'' @ ''-'' @ suffix"
      by (simp add: runner_name_for_host_def Let_def)
    moreover have "list_all agent_type_char ''runner''" by (simp add: agent_type_char_def Let_def)
    ultimately show ?thesis by (intro exI [of _ "''runner''"]) auto
  next
    case False
    then have "runner_name_for_host host suffix = trim_dashes ?m @ ''-'' @ suffix"
      by (simp add: runner_name_for_host_def Let_def)
    moreover have "list_all agent_type_char (trim_dashes ?m)"
      using chars set_trim_dashes by (auto simp: list_all_iff)
    ultimately show ?thesis
      using trim_dashes_ends [OF False] len False by (intro exI [of _ "trim_dashes ?m"]) auto
  qed
qed

text \<open>The delay before a job whose runners keep idling gets another one doubles from the idle
  timeout and is capped at an hour: after \<open>n + 1\<close> teardowns it is \<open>timeout * 2 ^ n\<close>, or the
  cap.\<close>

theorem next_idle_backoff_iterate:
  "((\<lambda>d. Some (next_idle_backoff d timeout)) ^^ Suc n) None = Some (min (timeout * 2 ^ n) MAX_IDLE_BACKOFF)"
proof (induction n)
  case (Suc n)
  have "((\<lambda>d. Some (next_idle_backoff d timeout)) ^^ Suc (Suc n)) None
      = Some (next_idle_backoff (Some (min (timeout * 2 ^ n) MAX_IDLE_BACKOFF)) timeout)"
    using Suc by simp
  then show ?case by (auto simp: next_idle_backoff_def min_def)
qed (simp add: next_idle_backoff_def)

end
