(* ===== verification/Fleet_On_Demand.thy ===== *)
theory Fleet_On_Demand
  imports Fleet_World
begin

text \<open>
  On-demand provisioning of \<^verbatim>\<open>kuiper-forge/src/fleet.rs\<close>: runners for the jobs in the
  pending queue. \<open>process_pending_jobs\<close> walks the queue, \<open>create_runner_on_demand\<close> makes one
  runner up to the task that sends its command, \<open>finish_on_demand\<close> is what that task does with
  the answer, and the queue is fed and pruned by the webhook events and the scans of the forges.
\<close>

section \<open>Creating a runner for a job\<close>

text \<open>The check that the job is still queued, with the slot reserved: whether to go on.\<close>

definition job_still_wanted ::
    "fleet \<Rightarrow> forge_api \<Rightarrow> string \<Rightarrow> string \<Rightarrow> string option \<Rightarrow> job_key \<Rightarrow> (world, bool) state" where
  "job_still_wanted F forge aid runner_name repository job_id =
     (case repository of
        None \<Rightarrow> ret True
      | Some repo \<Rightarrow> do {
          status \<leftarrow> get_job_status forge repo job_id;
          case status of
            Inr (Some s) \<Rightarrow>
              if s \<noteq> ''queued'' then do {
                on_reg (registry_release_slot aid runner_name);
                remove_job (fl_env F) job_id Gone;
                ret False }
              else ret True
          | Inr None \<Rightarrow> do {
              on_reg (registry_release_slot aid runner_name);
              remove_job (fl_env F) job_id Gone;
              ret False }
          | Inl _ \<Rightarrow> ret True })"

definition create_command ::
    "string \<Rightarrow> string \<Rightarrow> string list \<Rightarrow> string \<Rightarrow> runner_launch \<Rightarrow> create_runner_command" where
  "create_command cid runner_name ls scope_url launch =
     \<lparr>cr_command_id = cid, cr_vm_name = runner_name, cr_registration_token = [], cr_labels = ls,
      cr_runner_scope_url = scope_url,
      cr_jit_config = (case launch of GitHubJit jit \<Rightarrow> jit | ForgejoRunner _ \<Rightarrow> []),
      cr_label_set_id = [],
      cr_forgejo = (case launch of GitHubJit _ \<Rightarrow> None
        | ForgejoRunner f \<Rightarrow> Some \<lparr>fr_instance_url = fl_instance_url f, fr_uuid = fl_uuid f,
                                  fr_token = fl_token f, fr_handle = fl_handle f\<rparr>)\<rparr>"

text \<open>Registering the runner, saving it, and spawning the task that sends its command.\<close>

definition start_runner ::
    "fleet \<Rightarrow> forge_api \<Rightarrow> string \<Rightarrow> string \<Rightarrow> string \<Rightarrow> string list \<Rightarrow> runner_scope \<Rightarrow> nat \<Rightarrow> job_key
     \<Rightarrow> string option \<Rightarrow> string option \<Rightarrow> string option \<Rightarrow> (world, string + unit) state" where
  "start_runner F forge aid runner_name cid ls scope grp job_id job_name repository workflow_name = do {
     log_call (CreateCall runner_name);
     launch \<leftarrow> ask (\<lambda>n. fa_create_job_runner forge n scope runner_name ls grp (key_id job_id));
     case launch of
       Inl e \<Rightarrow> do { on_reg (registry_release_slot aid runner_name); ret (Inl e) }
     | Inr launch \<Rightarrow> do {
         add_runner (fl_env F) runner_name aid runner_name scope (key_forge job_id) (Some job_id) job_name
           repository workflow_name None;
         (host, ty) \<leftarrow> agent_identity aid;
         runner_requested (fl_env F) \<lparr>nr_runner_name = runner_name, nr_agent_id = aid, nr_hostname = host,
           nr_agent_type = ty, nr_forge = Some (key_forge job_id), nr_job_id = Some job_id,
           nr_repository = repository, nr_workflow_name = workflow_name, nr_job_name = job_name,
           nr_pool = None, nr_labels = ls\<rparr>;
         job_runner_created (fl_env F) job_id;
         spawn (CreateTask \<lparr>ct_agent = aid,
           ct_command = create_command cid runner_name ls (fa_scope_url forge scope) launch,
           ct_runner = runner_name, ct_scope = scope, ct_forge = forge,
           ct_kind = OnDemand job_id repository, ct_waiter = None\<rparr>);
         ret (Inr ()) } }"

definition no_agent_error :: "string list \<Rightarrow> runner_kind \<Rightarrow> string" where
  "no_agent_error ls kind =
     ''No available agent for labels '' @ join '', '' ls @ '' that runs '' @ kind_as_str kind @ '' runners''"

definition create_runner_on_demand ::
    "fleet \<Rightarrow> string list \<Rightarrow> string list \<Rightarrow> runner_scope \<Rightarrow> nat \<Rightarrow> job_key \<Rightarrow> string option \<Rightarrow> string option
     \<Rightarrow> string option \<Rightarrow> (world, string + unit) state" where
  "create_runner_on_demand F ls avoid scope grp job_id job_name repository workflow_name =
     (case for_job (fl_forges F) job_id of
        Inl e \<Rightarrow> ret (Inl e)
      | Inr forge \<Rightarrow> do {
          let kind = fa_kind forge;
          found \<leftarrow> gets (\<lambda>w. select_agent_for_kind ls avoid kind (w_reg w));
          case found of
            None \<Rightarrow> ret (Inl (no_agent_error ls kind))
          | Some aid \<Rightarrow> do {
              runner_name \<leftarrow> new_runner_name F aid;
              cid \<leftarrow> ask (fresh_uuid (fl_env F));
              now \<leftarrow> ask (instant (fl_env F));
              reserved \<leftarrow> on_reg_result (registry_reserve_slot now aid ls [] runner_name);
              if \<not> reserved
              then ret (Inl (''Failed to reserve slot on agent '' @ aid @ '' (might be at capacity)''))
              else do {
                wanted \<leftarrow> job_still_wanted F forge aid runner_name repository job_id;
                if \<not> wanted then ret (Inr ())
                else start_runner F forge aid runner_name cid ls scope grp job_id job_name repository workflow_name } } })"

section \<open>The answer to the command\<close>

definition handle_command_failure :: "fleet \<Rightarrow> job_key \<Rightarrow> string \<Rightarrow> (world, unit) state" where
  "handle_command_failure F job_id aid = do {
     c \<leftarrow> increment_retry_count (fl_env F) job_id (Some aid);
     case c of
       Some n \<Rightarrow> if n \<ge> MAX_RETRIES then remove_job (fl_env F) job_id Abandoned else ret ()
     | None \<Rightarrow> ret () }"

definition drop_runner :: "fleet \<Rightarrow> create_task \<Rightarrow> (world, unit) state" where
  "drop_runner F t = do {
     forge_remove_runner (ct_forge t) (ct_scope t) (ct_runner t);
     remove_runner (fl_env F) (ct_runner t) }"

definition finish_rejected :: "fleet \<Rightarrow> create_task \<Rightarrow> job_key option \<Rightarrow> string \<Rightarrow> (world, unit) state" where
  "finish_rejected F t job err = do {
     record_failure (fl_env F) (ct_agent t) CommandRejected (Some (ct_runner t)) job err;
     runner_finished (fl_env F) (ct_runner t) RunRejected err;
     on_reg (registry_release_slot (ct_agent t) (ct_runner t));
     drop_runner F t }"

definition finish_command_failed :: "fleet \<Rightarrow> create_task \<Rightarrow> job_key option \<Rightarrow> string \<Rightarrow> (world, unit) state" where
  "finish_command_failed F t job err = do {
     record_failure (fl_env F) (ct_agent t) CommandFailed (Some (ct_runner t)) job err;
     runner_finished (fl_env F) (ct_runner t) RunCommandFailed err;
     on_reg (registry_release_slot (ct_agent t) (ct_runner t));
     drop_runner F t }"

text \<open>The answer of a legacy agent, which sends the result of the whole lifecycle.\<close>

definition finish_result ::
    "fleet \<Rightarrow> create_task \<Rightarrow> job_key \<Rightarrow> string option \<Rightarrow> command_result \<Rightarrow> (world, unit) state" where
  "finish_result F t job_id repository r = do {
     on_reg (registry_release_slot (ct_agent t) (ct_runner t));
     runner_finished (fl_env F) (ct_runner t) (if res_success r then RunCompleted else RunFailed) (res_error r);
     reprovision \<leftarrow>
       (if res_success r then do {
          check \<leftarrow> check_job_after_runner (ct_forge t) repository job_id;
          case check of
            CheckQueued \<Rightarrow> ret True
          | CheckUnknown \<Rightarrow> ret True
          | CheckDone \<Rightarrow> do { remove_job (fl_env F) job_id Ran; ret False } }
        else do {
          record_failure (fl_env F) (ct_agent t) RunnerFailed (Some (ct_runner t)) (Some job_id) (res_error r);
          handle_command_failure F job_id (ct_agent t);
          ret False });
     drop_runner F t;
     if reprovision then modify notify else ret () }"

definition UNEXPECTED_RESPONSE :: string where
  "UNEXPECTED_RESPONSE = ''unexpected response to CreateRunner''"

definition finish_on_demand ::
    "fleet \<Rightarrow> create_task \<Rightarrow> job_key \<Rightarrow> string option \<Rightarrow> string + agent_message \<Rightarrow> (world, unit) state" where
  "finish_on_demand F t job_id repository outcome =
     (case outcome of
        Inr (Some (Ack ack)) \<Rightarrow>
          if ack_accepted ack then runner_acked (fl_env F) (ct_runner t)
          else do { finish_rejected F t (Some job_id) (ack_error ack); modify notify }
      | Inr (Some (Result r)) \<Rightarrow> finish_result F t job_id repository r
      | Inr _ \<Rightarrow> do {
          finish_command_failed F t (Some job_id) UNEXPECTED_RESPONSE;
          handle_command_failure F job_id (ct_agent t) }
      | Inl e \<Rightarrow> do {
          finish_command_failed F t (Some job_id) (''CreateRunner: '' @ e);
          handle_command_failure F job_id (ct_agent t) })"

section \<open>Walking the queue\<close>

definition runner_group_id :: "string option \<Rightarrow> nat" where
  "runner_group_id g = (case Option.bind g parse_u64 of Some n \<Rightarrow> n | None \<Rightarrow> 1)"

definition process_job :: "fleet \<Rightarrow> job_key \<times> pending_job_info \<Rightarrow> (world, unit) state" where
  "process_job F ki = (case ki of (job_id, info) \<Rightarrow>
     if pj_retry_count info \<ge> MAX_RETRIES then remove_job (fl_env F) job_id Abandoned
     else do {
       backing_off \<leftarrow> job_backing_off F job_id;
       if backing_off then ret ()
       else do {
         existing \<leftarrow> runners_for_job (fl_env F) job_id;
         if existing \<noteq> [] then ret ()
         else do {
           res \<leftarrow> create_runner_on_demand F (pj_agent_labels info) (pj_failed_agents info) (pj_runner_scope info)
             (runner_group_id (pj_runner_group info)) job_id (pj_job_name info) (pj_repository info)
             (pj_workflow_name info);
           case res of
             Inr _ \<Rightarrow> ret ()
           | Inl e \<Rightarrow>
               if str_contains ''No available agent'' e then ret ()
               else do {
                 c \<leftarrow> increment_retry_count (fl_env F) job_id None;
                 case c of
                   Some n \<Rightarrow> if n \<ge> MAX_RETRIES then remove_job (fl_env F) job_id Abandoned else ret ()
                 | None \<Rightarrow> ret () } } } })"

definition process_pending_jobs :: "fleet \<Rightarrow> (world, unit) state" where
  "process_pending_jobs F = do {
     pending \<leftarrow> get_all_pending_jobs (fl_env F);
     case pending of
       None \<Rightarrow> ret ()
     | Some jobs \<Rightarrow> for_each jobs (process_job F) }"

definition handle_webhook_event :: "fleet \<Rightarrow> webhook_event \<Rightarrow> (world, unit) state" where
  "handle_webhook_event F e =
     (case e of
        NewJobAvailable \<Rightarrow> process_pending_jobs F
      | JobCompleted job_id \<Rightarrow> do {
          remove_job (fl_env F) job_id Ran;
          process_pending_jobs F })"

section \<open>Checking the queue against the forges\<close>

definition MAX_AGE_WITHOUT_REPO :: int where "MAX_AGE_WITHOUT_REPO = 86400000"

definition verify_pending_job :: "fleet \<Rightarrow> job_key \<times> pending_job_info \<Rightarrow> (world, unit) state" where
  "verify_pending_job F ki = (case ki of (job_id, info) \<Rightarrow> do {
     now \<leftarrow> ask (utc_now (fl_env F));
     case pj_repository info of
       None \<Rightarrow>
         if now - pj_created_at info > MAX_AGE_WITHOUT_REPO then remove_job (fl_env F) job_id Gone else ret ()
     | Some repo \<Rightarrow>
         (case for_job (fl_forges F) job_id of
            Inl _ \<Rightarrow> remove_job (fl_env F) job_id Gone
          | Inr forge \<Rightarrow> do {
              status \<leftarrow> get_job_status forge repo job_id;
              case status of
                Inr (Some s) \<Rightarrow>
                  if s = ''queued'' \<or> s = ''waiting'' then ret () else remove_job (fl_env F) job_id Gone
              | Inr None \<Rightarrow> remove_job (fl_env F) job_id Gone
              | Inl _ \<Rightarrow> ret () }) })"

definition verify_pending_jobs :: "fleet \<Rightarrow> (world, unit) state" where
  "verify_pending_jobs F = do {
     pending \<leftarrow> get_all_pending_jobs (fl_env F);
     case pending of None \<Rightarrow> ret () | Some jobs \<Rightarrow> for_each jobs (verify_pending_job F) }"

definition verify_dropped_pending_jobs :: "fleet \<Rightarrow> queue_scan \<Rightarrow> (world, unit) state" where
  "verify_dropped_pending_jobs F scan = do {
     pending \<leftarrow> get_all_pending_jobs (fl_env F);
     case pending of
       None \<Rightarrow> ret ()
     | Some jobs \<Rightarrow> for_each (dropped_pending_jobs jobs scan) (verify_pending_job F) }"

fun list_queues ::
    "(string \<times> forge_api) list \<Rightarrow> queue_scan \<Rightarrow> (job_key \<times> queued_job) list
     \<Rightarrow> (world, queue_scan \<times> (job_key \<times> queued_job) list) state" where
  "list_queues [] scan queued = ret (scan, queued)"
| "list_queues ((name, forge) # forges) scan queued = do {
     answer \<leftarrow> ask (fa_list_queued_jobs forge);
     case answer of
       Inl _ \<Rightarrow> list_queues forges scan queued
     | Inr jobs \<Rightarrow>
         list_queues forges
           \<lparr>qs_forges = insert name (qs_forges scan),
            qs_seen = qs_seen scan \<union> (\<lambda>j. JobKey name (qj_id j)) ` set jobs\<rparr>
           (queued @ map (\<lambda>j. (JobKey name (qj_id j), j)) jobs) }"

definition recover_request :: "job_key \<Rightarrow> queued_job \<Rightarrow> runner_scope \<Rightarrow> string option \<Rightarrow> runner_request" where
  "recover_request job_id job scope grp =
     \<lparr>wr_job_labels = qj_labels job, wr_agent_labels = qj_labels job, wr_runner_scope = scope,
      wr_runner_group = grp, wr_job_id = job_id, wr_repository = qj_repository job, wr_job_name = None,
      wr_workflow_name = None, wr_queued_at = qj_created_at job\<rparr>"

text \<open>Whether the queued job was added to the pending queue.\<close>

definition recover_job :: "fleet \<Rightarrow> job_filters \<Rightarrow> job_key \<times> queued_job \<Rightarrow> (world, bool) state" where
  "recover_job F filters kj = (case kj of (job_id, job) \<Rightarrow>
     if \<not> has_required_labels (qj_labels job) (jf_required_labels filters) then ret False
     else do {
       known \<leftarrow> has_job (fl_env F) job_id;
       if known then ret False
       else do {
         existing \<leftarrow> runners_for_job (fl_env F) job_id;
         if existing \<noteq> [] then ret False
         else (case resolve_runner_scope job_id (qj_labels job) (jf_label_mappings filters) (qj_runner_scope job) of
                 None \<Rightarrow> ret False
               | Some (scope, grp) \<Rightarrow> add_job (fl_env F) (recover_request job_id job scope grp)) } })"

fun recover_jobs :: "fleet \<Rightarrow> job_filters \<Rightarrow> (job_key \<times> queued_job) list \<Rightarrow> nat \<Rightarrow> (world, nat) state" where
  "recover_jobs F filters [] n = ret n"
| "recover_jobs F filters (j # js) n = do {
     added \<leftarrow> recover_job F filters j;
     recover_jobs F filters js (if added then n + 1 else n) }"

definition recover_queued_jobs :: "fleet \<Rightarrow> (world, queue_scan option) state" where
  "recover_queued_jobs F =
     (case on_demand_filters (fl_provisioning F) of
        None \<Rightarrow> ret None
      | Some filters \<Rightarrow> do {
          (scan, queued) \<leftarrow> list_queues (fl_forges F) \<lparr>qs_forges = {}, qs_seen = {}\<rparr> [];
          if qs_forges scan = {} then ret None
          else if queued = [] then ret (Some scan)
          else do {
            added \<leftarrow> recover_jobs F filters queued 0;
            (if added > 0 then process_pending_jobs F else ret ());
            ret (Some scan) } })"

definition scan_forges :: "fleet \<Rightarrow> (world, unit) state" where
  "scan_forges F =
     (if pc_mode (fl_provisioning F) = Polling then do {
        scan \<leftarrow> recover_queued_jobs F;
        case scan of Some scan \<Rightarrow> verify_dropped_pending_jobs F scan | None \<Rightarrow> ret () }
      else do { verify_pending_jobs F; recover_queued_jobs F; ret () })"

section \<open>Idle runners\<close>

text \<open>
  \<open>send_destroy\<close> waits for the answer inside the handler; only the log depends on the answer, and
  an answer or a timeout takes the command off the agent's entry.
\<close>

definition send_destroy :: "fleet \<Rightarrow> string \<Rightarrow> string \<Rightarrow> (world, unit) state" where
  "send_destroy F aid runner_name = do {
     cid \<leftarrow> ask (fresh_uuid (fl_env F));
     sent \<leftarrow> on_reg_result (send_command aid (DestroyRunner cid runner_name) cid);
     case sent of
       Inl _ \<Rightarrow> ret ()
     | Inr w \<Rightarrow> do {
         reply \<leftarrow> ask (fl_reply F);
         case reply of
           Inr response \<Rightarrow> on_reg (handle_response aid cid response)
         | Inl _ \<Rightarrow> do {
             tx \<leftarrow> gets (\<lambda>w. case registry_agent aid (w_reg w) of Some a \<Rightarrow> command_tx a | None \<Rightarrow> 0);
             on_reg_result (timeout_command tx aid cid);
             ret () } } }"

definition forget_gone_runners :: "nat \<Rightarrow> string set \<Rightarrow> idle_runners \<Rightarrow> idle_runners" where
  "forget_gone_runners now names i =
     i\<lparr>id_started := id_started i \<inter> names,
       id_tearing_down := hm_retain (\<lambda>n _. n \<in> names) (id_tearing_down i),
       id_torn_down := hm_retain (\<lambda>_ at. now - at < TORN_DOWN_MEMORY) (id_torn_down i)\<rparr>"

text \<open>The decision to tear a runner down: mark it, and hold its job back.\<close>

definition begin_tear_down :: "nat \<Rightarrow> nat \<Rightarrow> string \<Rightarrow> job_key \<Rightarrow> idle_runners \<Rightarrow> idle_runners" where
  "begin_tear_down now timeout runner_name job_id i =
     (let delay = next_idle_backoff (map_option ib_delay (hm_get (id_backoff i) job_id)) timeout
      in i\<lparr>id_tearing_down := hm_insert runner_name now (id_tearing_down i),
           id_backoff := hm_insert job_id \<lparr>ib_until = now + delay, ib_delay = delay\<rparr> (id_backoff i)\<rparr>)"

definition idle_watched :: "nat \<Rightarrow> string \<Rightarrow> idle_runners \<Rightarrow> bool" where
  "idle_watched now runner_name i \<longleftrightarrow>
     runner_name \<in> id_started i
     \<or> (case hm_get (id_tearing_down i) runner_name of
          Some sent \<Rightarrow> now - sent < IDLE_DESTROY_RETRY | None \<Rightarrow> False)"

definition check_idle_runner :: "fleet \<Rightarrow> nat \<Rightarrow> int \<Rightarrow> string \<times> runner_info \<Rightarrow> (world, unit) state" where
  "check_idle_runner F timeout utc ni = (case ni of (runner_name, info) \<Rightarrow>
     case ri_job_id info of
       None \<Rightarrow> ret ()
     | Some job_id \<Rightarrow>
         (case for_job (fl_forges F) job_id of
            Inl _ \<Rightarrow> ret ()
          | Inr forge \<Rightarrow>
              if fa_kind forge \<noteq> Forgejo then ret ()
              else if nat (utc - ri_created_at info) < timeout then ret ()
              else do {
                now \<leftarrow> ask (instant (fl_env F));
                watched \<leftarrow> gets (\<lambda>w. idle_watched now runner_name (w_idle w));
                if watched then ret ()
                else (case ri_repository info of
                        None \<Rightarrow> ret ()
                      | Some repo \<Rightarrow> do {
                          status \<leftarrow> get_job_status forge repo job_id;
                          case idle_action_of status of
                            IdleStarted \<Rightarrow> on_idle (\<lambda>i. i\<lparr>id_started := insert runner_name (id_started i)\<rparr>)
                          | IdleWait \<Rightarrow> ret ()
                          | TearDown \<Rightarrow> do {
                              now \<leftarrow> ask (instant (fl_env F));
                              on_idle (begin_tear_down now timeout runner_name job_id);
                              send_destroy F (ri_agent_id info) runner_name } }) }))"

definition check_idle_runners :: "fleet \<Rightarrow> (world, unit) state" where
  "check_idle_runners F =
     (case idle_runner_timeout (fl_provisioning F) of
        None \<Rightarrow> ret ()
      | Some timeout \<Rightarrow> do {
          runners \<leftarrow> get_all_runners (fl_env F);
          case runners of
            None \<Rightarrow> ret ()
          | Some runners \<Rightarrow> do {
              utc \<leftarrow> ask (utc_now (fl_env F));
              now \<leftarrow> ask (instant (fl_env F));
              on_idle (forget_gone_runners now (fst ` set runners));
              for_each runners (check_idle_runner F timeout utc);
              pending \<leftarrow> get_all_pending_jobs (fl_env F);
              case pending of
                None \<Rightarrow> ret ()
              | Some jobs \<Rightarrow> on_idle (\<lambda>i. i\<lparr>id_backoff := hm_retain (\<lambda>k _. k \<in> fst ` set jobs) (id_backoff i)\<rparr>) } })"

end
