(* ===== verification/Fleet_Events.thy ===== *)
theory Fleet_Events
  imports Fleet_On_Demand
begin

text \<open>
  What \<^verbatim>\<open>kuiper-forge/src/fleet.rs\<close> does with the events of the agents: the end of a runner
  (\<open>handle_runner_event\<close>), an agent that comes back with VMs (\<open>handle_agent_recovery\<close>), and the
  tasks these spawn.
\<close>

section \<open>Runner events\<close>

text \<open>The marks an outcome event finds in the bookkeeping of idle runners: whether we tore it down, and
  whether this is a late event of one torn down before.\<close>

definition take_idle_marks :: "nat \<Rightarrow> string \<Rightarrow> idle_runners \<Rightarrow> (bool \<times> bool) \<times> idle_runners" where
  "take_idle_marks now runner_name i =
     (let idled = hm_contains (id_tearing_down i) runner_name;
          i' = i\<lparr>id_started := id_started i - {runner_name},
                 id_tearing_down := hm_remove runner_name (id_tearing_down i),
                 id_torn_down := (if idled then hm_insert runner_name now (id_torn_down i) else id_torn_down i)\<rparr>
      in ((idled, \<not> idled \<and> hm_contains (id_torn_down i') runner_name), i'))"

definition on_idle_result :: "(idle_runners \<Rightarrow> 'a \<times> idle_runners) \<Rightarrow> (world, 'a) state" where
  "on_idle_result f = State (\<lambda>w. case f (w_idle w) of (a, i) \<Rightarrow> (a, w\<lparr>w_idle := i\<rparr>))"

definition handle_idled ::
    "fleet \<Rightarrow> string \<Rightarrow> string \<Rightarrow> runner_info option \<Rightarrow> (world, unit) state" where
  "handle_idled F aid runner_name info = do {
     runner_finished (fl_env F) runner_name RunIdled [];
     (case info of
        None \<Rightarrow> ret ()
      | Some info \<Rightarrow> do {
          on_reg (registry_release_slot aid runner_name);
          remove_runner (fl_env F) runner_name;
          spawn (RemoveFromForge (runner_forge F (ri_forge info)) (ri_runner_scope info) runner_name) });
     process_pending_jobs F }"

definition untracked_outcome :: "runner_event_type \<Rightarrow> run_outcome option" where
  "untracked_outcome ty =
     (case ty of Completed \<Rightarrow> Some RunCompleted | Failed \<Rightarrow> Some RunFailed | _ \<Rightarrow> None)"

definition is_lost :: "runner_event_type \<Rightarrow> bool \<Rightarrow> runner_info \<Rightarrow> string \<Rightarrow> bool" where
  "is_lost ty drained info err \<longleftrightarrow> ty = Destroyed \<and> \<not> drained \<and> (ri_job_id info \<noteq> None \<or> err \<noteq> [])"

definition outcome_of :: "runner_event_type \<Rightarrow> bool \<Rightarrow> bool \<Rightarrow> run_outcome" where
  "outcome_of ty drained lost =
     (if ty = Completed then RunCompleted
      else if drained then RunDrained
      else if ty = Failed then RunFailed
      else if lost then RunLost else RunDestroyed)"

text \<open>What the end of a job's runner means for the job.\<close>

definition settle_job ::
    "fleet \<Rightarrow> string \<Rightarrow> runner_event_type \<Rightarrow> runner_info \<Rightarrow> job_key \<Rightarrow> (world, unit) state" where
  "settle_job F aid ty info job_id =
     (if ty = Completed then do {
        check \<leftarrow> (case for_job (fl_forges F) job_id of
                    Inr forge \<Rightarrow> check_job_after_runner forge (ri_repository info) job_id
                  | Inl _ \<Rightarrow> ret CheckDone);
        (case check of CheckDone \<Rightarrow> remove_job (fl_env F) job_id Ran | _ \<Rightarrow> ret ()) }
      else if ty = Failed \<or> ty = Destroyed then do {
        c \<leftarrow> increment_retry_count (fl_env F) job_id (Some aid);
        case c of
          Some n \<Rightarrow> if n \<ge> MAX_RETRIES then remove_job (fl_env F) job_id Abandoned else ret ()
        | None \<Rightarrow> ret () }
      else ret ())"

definition drain_mark :: "string \<Rightarrow> (world, bool) state" where
  "drain_mark runner_name = State (\<lambda>w. (hm_contains (w_draining w) runner_name,
     w\<lparr>w_draining := hm_remove runner_name (w_draining w)\<rparr>))"

definition handle_tracked_end ::
    "fleet \<Rightarrow> string \<Rightarrow> string \<Rightarrow> runner_event_type \<Rightarrow> string \<Rightarrow> runner_info \<Rightarrow> (world, unit) state" where
  "handle_tracked_end F aid runner_name ty err info = do {
     on_reg (registry_release_slot aid runner_name);
     drained \<leftarrow> drain_mark runner_name;
     let lost = is_lost ty drained info err;
     runner_finished (fl_env F) runner_name (outcome_of ty drained lost) err;
     (if lost then
        record_failure (fl_env F) aid RunnerLost (Some runner_name) (ri_job_id info)
          (if err = [] then ''runner destroyed before finishing'' else err)
      else ret ());
     (case ri_job_id info of Some job_id \<Rightarrow> settle_job F aid ty info job_id | None \<Rightarrow> ret ());
     remove_runner (fl_env F) runner_name;
     spawn (RemoveFromForge (runner_forge F (ri_forge info)) (ri_runner_scope info) runner_name);
     process_pending_jobs F }"

definition handle_end ::
    "fleet \<Rightarrow> string \<Rightarrow> string \<Rightarrow> runner_event_type \<Rightarrow> string \<Rightarrow> (world, unit) state" where
  "handle_end F aid runner_name ty err = do {
     info \<leftarrow> get_runner (fl_env F) runner_name;
     now \<leftarrow> ask (instant (fl_env F));
     (idled, late) \<leftarrow> on_idle_result (take_idle_marks now runner_name);
     if late then ret ()
     else if idled then handle_idled F aid runner_name info
     else do {
       (if ty = Failed then
          record_failure (fl_env F) aid RunnerFailed (Some runner_name) (Option.bind info ri_job_id) err
        else ret ());
       case info of
         None \<Rightarrow> do {
           (case untracked_outcome ty of
              Some out \<Rightarrow> runner_finished (fl_env F) runner_name out err
            | None \<Rightarrow> ret ());
           process_pending_jobs F }
       | Some info \<Rightarrow> handle_tracked_end F aid runner_name ty err info } }"

definition handle_runner_event :: "fleet \<Rightarrow> string \<times> runner_event \<Rightarrow> (world, unit) state" where
  "handle_runner_event F ae = (case ae of (aid, e) \<Rightarrow>
     (let runner_name = (if re_runner_name e = [] then re_vm_id e else re_runner_name e) in
      if runner_name = [] then ret ()
      else do {
        (case re_timings e of Some t \<Rightarrow> record_timings (fl_env F) runner_name t | None \<Rightarrow> ret ());
        case event_type_of (re_event_type e) of
          Unspecified \<Rightarrow> ret ()
        | Started \<Rightarrow> runner_started (fl_env F) runner_name
        | ty \<Rightarrow> handle_end F aid runner_name ty (re_error e) }))"

section \<open>Recovery\<close>

definition recover_runner :: "fleet \<Rightarrow> recovery_info \<Rightarrow> string \<times> runner_info \<Rightarrow> (world, unit) state" where
  "recover_runner F rc ni = (case ni of (runner_name, info) \<Rightarrow>
     if runner_name \<in> set (rc_vm_names rc)
     then spawn (Watcher runner_name (rc_agent_id rc) (ri_runner_scope info) (runner_forge F (ri_forge info)))
     else do {
       runner_finished (fl_env F) runner_name RunLost ''VM gone while the coordinator was down'';
       spawn (CleanupStale (runner_forge F (ri_forge info)) (ri_runner_scope info) runner_name) })"

definition handle_agent_recovery :: "fleet \<Rightarrow> recovery_info \<Rightarrow> (world, unit) state" where
  "handle_agent_recovery F rc = do {
     persisted \<leftarrow> get_runners_for_agent (fl_env F) (rc_agent_id rc);
     for_each persisted (recover_runner F rc) }"

text \<open>
  One tick of a watcher: it stops when the agent is not connected or the runner is no longer in the
  state, and after the loop, whichever ended it, removes the runner from its forge and from the state.
  The result says whether it stopped.
\<close>

definition watcher_tick :: "fleet \<Rightarrow> string \<Rightarrow> string \<Rightarrow> runner_scope \<Rightarrow> forge_api \<Rightarrow> (world, bool) state" where
  "watcher_tick F runner_name aid scope forge = do {
     connected \<leftarrow> gets (\<lambda>w. registry_agent aid (w_reg w) \<noteq> None);
     stop \<leftarrow> (if \<not> connected then ret True
              else do { known \<leftarrow> has_runner (fl_env F) runner_name; ret (\<not> known) });
     if stop then do {
       forge_remove_runner forge scope runner_name;
       remove_runner (fl_env F) runner_name;
       ret True }
     else ret False }"

section \<open>Steps of the spawned tasks\<close>

definition drop_task :: "nat \<Rightarrow> (world, unit) state" where
  "drop_task i = modify (\<lambda>w. w\<lparr>w_tasks := take i (w_tasks w) @ drop (i + 1) (w_tasks w)\<rparr>)"

definition set_task :: "nat \<Rightarrow> task \<Rightarrow> (world, unit) state" where
  "set_task i t = modify (\<lambda>w. w\<lparr>w_tasks := (w_tasks w)[i := t]\<rparr>)"

text \<open>A task of a pool runner ends as one of a job does, without the job's part.\<close>

definition finish_pool :: "fleet \<Rightarrow> create_task \<Rightarrow> string + agent_message \<Rightarrow> (world, unit) state" where
  "finish_pool F t outcome =
     (case outcome of
        Inr (Some (Ack ack)) \<Rightarrow>
          if ack_accepted ack then runner_acked (fl_env F) (ct_runner t)
          else finish_rejected F t None (ack_error ack)
      | Inr (Some (Result r)) \<Rightarrow> do {
          on_reg (registry_release_slot (ct_agent t) (ct_runner t));
          runner_finished (fl_env F) (ct_runner t) (if res_success r then RunCompleted else RunFailed) (res_error r);
          (if res_success r then ret ()
           else record_failure (fl_env F) (ct_agent t) RunnerFailed (Some (ct_runner t)) None (res_error r));
          drop_runner F t }
      | Inr _ \<Rightarrow> finish_command_failed F t None UNEXPECTED_RESPONSE
      | Inl e \<Rightarrow> finish_command_failed F t None (''CreateRunner: '' @ e))"

definition finish_create :: "fleet \<Rightarrow> create_task \<Rightarrow> string + agent_message \<Rightarrow> (world, unit) state" where
  "finish_create F t outcome =
     (case ct_kind t of
        OnDemand job_id repository \<Rightarrow> finish_on_demand F t job_id repository outcome
      | ForPool \<Rightarrow> finish_pool F t outcome)"

text \<open>
  A create task first sends its command; once its waiter has a result (or the sending failed) it
  handles it. \<open>timed_out\<close> is the 30 second timeout of a command without a result.
\<close>

definition step_create :: "fleet \<Rightarrow> nat \<Rightarrow> create_task \<Rightarrow> bool \<Rightarrow> (world, unit) state" where
  "step_create F i t timed_out =
     (case ct_waiter t of
        None \<Rightarrow> do {
          sent \<leftarrow> on_reg_result (send_command (ct_agent t) (CreateRunner (ct_command t))
            (cr_command_id (ct_command t)));
          set_task i (CreateTask (t\<lparr>ct_waiter := Some sent\<rparr>)) }
      | Some (Inl e) \<Rightarrow> do { drop_task i; finish_create F t (Inl e) }
      | Some (Inr w) \<Rightarrow> do {
          polled \<leftarrow> gets (\<lambda>s. poll_command w (w_reg s));
          case polled of
            Some outcome \<Rightarrow> do { drop_task i; finish_create F t outcome }
          | None \<Rightarrow>
              if \<not> timed_out then ret ()
              else do {
                tx \<leftarrow> gets (\<lambda>s. case registry_agent (ct_agent t) (w_reg s) of Some a \<Rightarrow> command_tx a | None \<Rightarrow> 0);
                outcome \<leftarrow> on_reg_result (timeout_command tx (ct_agent t) (cr_command_id (ct_command t)));
                drop_task i;
                finish_create F t outcome } })"

definition run_task :: "fleet \<Rightarrow> nat \<Rightarrow> bool \<Rightarrow> (world, unit) state" where
  "run_task F i timed_out = do {
     ts \<leftarrow> gets w_tasks;
     case get_at ts i of
       None \<Rightarrow> ret ()
     | Some (CreateTask t) \<Rightarrow> step_create F i t timed_out
     | Some (RemoveFromForge forge scope name) \<Rightarrow> do { drop_task i; forge_remove_runner forge scope name; ret () }
     | Some (CleanupStale forge scope name) \<Rightarrow> do {
         drop_task i;
         forge_remove_runner forge scope name;
         remove_runner (fl_env F) name }
     | Some (Watcher name aid scope forge) \<Rightarrow> do {
         stopped \<leftarrow> watcher_tick F name aid scope forge;
         if stopped then drop_task i else ret () }
     | Some (Failover _ _) \<Rightarrow> ret () }"

end
