(* ===== verification/Fleet_Pools.thy ===== *)
theory Fleet_Pools
  imports Fleet_Events
begin

text \<open>
  Fixed-capacity provisioning of \<^verbatim>\<open>kuiper-forge/src/fleet.rs\<close>: \<open>reconcile\<close> keeps each
  pool the connected agents define at its target, and drains the idle pool runners of agents marked
  unavailable.
\<close>

section \<open>Counting\<close>

text \<open>The counts are cast to \<^verbatim>\<open>u32\<close> and added up as such.\<close>

fun sum_agent_runners :: "fleet \<Rightarrow> agent_info list \<Rightarrow> 32 word \<Rightarrow> (world, 32 word) state" where
  "sum_agent_runners F [] acc = ret acc"
| "sum_agent_runners F (a # as) acc = do {
     n \<leftarrow> count_runners_for_agent (fl_env F) (ai_agent_id a);
     sum_agent_runners F as (acc + of_nat n) }"

definition count_runners_for_pool :: "fleet \<Rightarrow> pool_definition \<Rightarrow> (world, 32 word) state" where
  "count_runners_for_pool F p =
     (case pd_agent p of
        Some aid \<Rightarrow> do {
          n \<leftarrow> count_runners_for_agent_pool (fl_env F) aid (pool_key p);
          ret (of_nat n) }
      | None \<Rightarrow> do {
          now \<leftarrow> ask (instant (fl_env F));
          agents \<leftarrow> gets (\<lambda>w. list_agents now (w_reg w));
          sum_agent_runners F
            (filter (\<lambda>a. \<not> ai_explicit_pools a \<and> \<not> ai_unavailable a
                         \<and> normalize_labels (ai_labels a) = pd_labels p) agents) 0 })"

section \<open>Filling a pool\<close>

text \<open>One round of the loop: whether to go on (an unavailable agent or token ends the loop).\<close>

definition create_pool_runner :: "fleet \<Rightarrow> pool_definition \<Rightarrow> runner_scope \<Rightarrow> (world, bool) state" where
  "create_pool_runner F p scope = do {
     found \<leftarrow> (case pd_agent p of
       Some aid \<Rightarrow> ret (Some aid)
     | None \<Rightarrow> gets (\<lambda>w. select_legacy_pool_agent (pd_labels p) (w_reg w)));
     case found of
       None \<Rightarrow> ret False
     | Some aid \<Rightarrow> do {
         runner_name \<leftarrow> new_runner_name F aid;
         cid \<leftarrow> ask (fresh_uuid (fl_env F));
         now \<leftarrow> ask (instant (fl_env F));
         reserved \<leftarrow> on_reg_result (registry_reserve_slot now aid (pd_labels p) (pd_label_set_id p) runner_name);
         if \<not> reserved then ret True
         else do {
           let forge = default_forge (fl_forges F);
           token \<leftarrow> ask (\<lambda>n. fa_registration_token forge n scope);
           case token of
             Inl _ \<Rightarrow> do { on_reg (registry_release_slot aid runner_name); ret False }
           | Inr token \<Rightarrow> do {
               add_runner (fl_env F) runner_name aid runner_name scope (default_name (fl_forges F)) None None None
                 None (map_option (\<lambda>_. pool_key p) (pd_agent p));
               (host, ty) \<leftarrow> agent_identity aid;
               runner_requested (fl_env F) \<lparr>nr_runner_name = runner_name, nr_agent_id = aid, nr_hostname = host,
                 nr_agent_type = ty, nr_forge = Some (default_name (fl_forges F)), nr_job_id = None,
                 nr_repository = None, nr_workflow_name = None, nr_job_name = None,
                 nr_pool = Some (pool_key p), nr_labels = pd_labels p\<rparr>;
               spawn (CreateTask \<lparr>ct_agent = aid,
                 ct_command = \<lparr>cr_command_id = cid, cr_vm_name = runner_name, cr_registration_token = token,
                   cr_labels = pd_labels p, cr_runner_scope_url = fa_scope_url forge scope, cr_jit_config = [],
                   cr_label_set_id = pd_label_set_id p, cr_forgejo = None\<rparr>,
                 ct_runner = runner_name, ct_scope = scope, ct_forge = forge, ct_kind = ForPool,
                 ct_waiter = None\<rparr>);
               ret True } } } }"

definition reconcile_pool :: "fleet \<Rightarrow> runner_scope \<Rightarrow> pool_definition \<Rightarrow> (world, unit) state" where
  "reconcile_pool F scope p = do {
     current \<leftarrow> count_runners_for_pool F p;
     let target = pd_target p;
     if current \<ge> target then ret ()
     else do {
       let needed = target - current;
       capacity \<leftarrow> gets (\<lambda>w. case pd_agent p of
           Some aid \<Rightarrow> registry_agent_capacity aid (pd_labels p) (pd_label_set_id p) (w_reg w)
         | None \<Rightarrow> legacy_pool_capacity (pd_labels p) (w_reg w));
       if capacity = 0 then ret ()
       else for_while [0..<min (unat needed) capacity] (\<lambda>_. create_pool_runner F p scope) } }"

section \<open>Draining unavailable agents\<close>

definition drain_runner :: "fleet \<Rightarrow> string set \<Rightarrow> int \<Rightarrow> string \<times> runner_info \<Rightarrow> (world, unit) state" where
  "drain_runner F unavail utc ni = (case ni of (runner_name, info) \<Rightarrow>
     if ri_job_id info \<noteq> None \<or> ri_agent_id info \<notin> unavail then ret ()
     else do {
       now \<leftarrow> ask (instant (fl_env F));
       recently \<leftarrow> gets (\<lambda>w. case hm_get (w_draining w) runner_name of
           Some at \<Rightarrow> now - at < DRAIN_DESTROY_RETRY | None \<Rightarrow> False);
       if recently then ret ()
       else do {
         let forge = runner_forge F (ri_forge info);
         log_call (RemoveIdleCall (ri_runner_scope info) runner_name);
         removal \<leftarrow> ask (\<lambda>n. fa_remove_idle_runner forge n (ri_runner_scope info) runner_name);
         case removal of
           Inl _ \<Rightarrow> ret ()
         | Inr removal \<Rightarrow>
             if drain_step_of removal (utc - ri_created_at info) = Keep then ret ()
             else do {
               cid \<leftarrow> ask (fresh_uuid (fl_env F));
               sent \<leftarrow> on_reg_result (send_no_reply (ri_agent_id info) (DestroyRunner cid (ri_vm_name info)));
               case sent of
                 Inr _ \<Rightarrow> do {
                   now \<leftarrow> ask (instant (fl_env F));
                   modify (\<lambda>w. w\<lparr>w_draining := hm_insert runner_name now (w_draining w)\<rparr>) }
               | Inl _ \<Rightarrow> ret () } } })"

definition drain_unavailable_agents :: "fleet \<Rightarrow> (world, unit) state" where
  "drain_unavailable_agents F = do {
     now \<leftarrow> ask (instant (fl_env F));
     unavail \<leftarrow> gets (\<lambda>w. ai_agent_id ` set (filter ai_unavailable (list_agents now (w_reg w))));
     if unavail = {} then modify (\<lambda>w. w\<lparr>w_draining := []\<rparr>)
     else do {
       runners \<leftarrow> get_all_runners (fl_env F);
       case runners of
         None \<Rightarrow> ret ()
       | Some runners \<Rightarrow> do {
           modify (\<lambda>w. w\<lparr>w_draining := hm_retain (\<lambda>n _. n \<in> fst ` set runners) (w_draining w)\<rparr>);
           utc \<leftarrow> ask (utc_now (fl_env F));
           for_each runners (drain_runner F unavail utc) } } }"

section \<open>Reconciling\<close>

text \<open>The labels of an agent's sets that are not among its base labels, sorted and without repeats.\<close>

definition extra_labels :: "agent_info \<Rightarrow> string list" where
  "extra_labels a =
     remdups_adj (sort (filter (\<lambda>l. l \<notin> to_lowercase ` set (ai_labels a))
       (map to_lowercase (concat (ai_label_sets a)))))"

definition warn_unprovisionable_capabilities :: "fleet \<Rightarrow> (world, unit) state" where
  "warn_unprovisionable_capabilities F = do {
     now \<leftarrow> ask (instant (fl_env F));
     agents \<leftarrow> gets (\<lambda>w. list_agents now (w_reg w));
     modify (\<lambda>w. w\<lparr>w_warned := w_warned w \<union>
       ai_agent_id ` set (filter (\<lambda>a. \<not> ai_explicit_pools a \<and> extra_labels a \<noteq> []) agents)\<rparr>) }"

definition reconcile :: "fleet \<Rightarrow> (world, unit) state" where
  "reconcile F = do {
     warn_unprovisionable_capabilities F;
     drain_unavailable_agents F;
     pools \<leftarrow> gets (\<lambda>w. get_pool_definitions (w_reg w));
     case fl_runner_scope F of
       None \<Rightarrow> ret ()
     | Some scope \<Rightarrow> for_each pools (reconcile_pool F scope) }"

end
