(* ===== verification/Server.thy ===== *)
theory Server
  imports Fleet_Pools
begin

text \<open>
  The agents' streams of \<^verbatim>\<open>kuiper-forge/src/server.rs\<close>: a stream that connects, the messages
  it delivers, its end, and the failover of a disconnected agent's runners after the grace period. The
  checks of the client certificate and of the stored agent record are those of the authentication
  manager, which is not modelled: a stream starts here with the agent's id known.
\<close>

section \<open>Messages\<close>

definition AGENT_DISCONNECT_GRACE :: nat where "AGENT_DISCONNECT_GRACE = 30000"
definition RESERVATION_DB_GRACE :: nat where "RESERVATION_DB_GRACE = 60000"

text \<open>Whether the server has a runner state store and a fleet notifier.\<close>

record server =
  sv_fleet :: fleet
  sv_runner_state :: bool
  sv_notifier :: bool

definition synthetic_event :: "string \<Rightarrow> string \<Rightarrow> runner_event" where
  "synthetic_event runner_name err =
     \<lparr>re_runner_name = runner_name, re_vm_id = runner_name, re_event_type = 4, re_error = err,
      re_timings = None\<rparr>"

definition reconcile_runner_state :: "server \<Rightarrow> string \<Rightarrow> string list \<Rightarrow> (world, unit) state" where
  "reconcile_runner_state S aid vm_names = do {
     let env = fl_env (sv_fleet S);
     missing \<leftarrow> reconcile_agent_vms env aid vm_names;
     for_each missing (\<lambda>(runner_name, _).
       if sv_notifier S
       then modify (notify_runner_event aid (synthetic_event runner_name ''VM missing during reconciliation''))
       else do { remove_runner env runner_name; on_reg (registry_release_slot aid runner_name) });
     db_runners \<leftarrow> get_runners_for_agent env aid;
     now \<leftarrow> ask (instant env);
     on_reg (reconcile_reservations now aid (map fst db_runners) RESERVATION_DB_GRACE) }"

definition handle_status :: "server \<Rightarrow> string \<Rightarrow> agent_status \<Rightarrow> (world, unit) state" where
  "handle_status S aid st = do {
     let env = fl_env (sv_fleet S);
     on_reg (set_capacity aid (agent_capacity_from st));
     now \<leftarrow> ask (instant env);
     on_reg (update_status now aid (st_active_vms st) (st_max_vms st) (st_labels st)
       (map ls_labels (st_label_sets st)));
     on_reg (settle_reservations aid (map vm_name (st_vms st)));
     (if sv_runner_state S then reconcile_runner_state S aid (map vm_name (st_vms st)) else ret ()) }"

definition handle_agent_message :: "server \<Rightarrow> string \<Rightarrow> agent_message \<Rightarrow> (world, unit) state" where
  "handle_agent_message S aid msg =
     (case msg of
        Some (Status st) \<Rightarrow> handle_status S aid st
      | Some (Ack ack) \<Rightarrow> on_reg (handle_response aid (ack_command_id ack) (Some (Ack ack)))
      | Some (RunnerEvent e) \<Rightarrow> if sv_notifier S then modify (notify_runner_event aid e) else ret ()
      | Some (Result r) \<Rightarrow> on_reg (handle_response aid (res_command_id r) (Some (Result r)))
      | Some Pong \<Rightarrow> do {
          now \<leftarrow> ask (instant (fl_env (sv_fleet S)));
          on_reg (registry_touch now aid) }
      | None \<Rightarrow> ret ())"

section \<open>Streams\<close>

text \<open>The first message of a stream must be a status of an agent with a valid type.\<close>

definition first_status :: "agent_message \<Rightarrow> string + string \<times> agent_status" where
  "first_status msg =
     (case msg of
        Some (Status st) \<Rightarrow>
          (case parse_agent_type (st_agent_type st) of
             Inl e \<Rightarrow> Inl e
           | Inr atype \<Rightarrow> Inr (atype, st))
      | _ \<Rightarrow> Inl ''First message must be a status message'')"

text \<open>
  A new stream: the error it is refused with, or \<^term>\<open>tx\<close> is its command channel from now on.
\<close>

definition connect_stream :: "server \<Rightarrow> string \<Rightarrow> agent_message \<Rightarrow> nat \<Rightarrow> (world, string + unit) state" where
  "connect_stream S aid first_msg tx =
     (case first_status first_msg of
        Inl e \<Rightarrow> ret (Inl e)
      | Inr (atype, st) \<Rightarrow> do {
          now \<leftarrow> ask (instant (fl_env (sv_fleet S)));
          on_reg (register now aid atype (st_hostname st) (st_max_vms st) (st_active_vms st) (st_labels st)
            (map ls_labels (st_label_sets st)) tx);
          on_reg (set_capacity aid (agent_capacity_from st));
          (if sv_notifier S then
             (if st_vms st = [] then modify notify
              else modify (notify_with_recovery aid (map vm_name (st_vms st))))
           else ret ());
          ret (Inr ()) })"

text \<open>
  The command branch of the stream's loop: \<^term>\<open>True\<close> when \<^verbatim>\<open>command_rx.recv()\<close> gives
  \<^verbatim>\<open>None\<close>, so the loop breaks (commands already in the channel are sent first).
\<close>

definition stream_commands_closed :: "nat \<Rightarrow> world \<Rightarrow> bool" where
  "stream_commands_closed tx w \<longleftrightarrow> \<not> sender_alive (w_reg w) tx"

text \<open>After the loop: the stream's receiver is gone, the agent is unregistered, and the grace timer runs.\<close>

definition end_stream :: "server \<Rightarrow> string \<Rightarrow> nat \<Rightarrow> (world, unit) state" where
  "end_stream S aid tx = do {
     now \<leftarrow> ask (instant (fl_env (sv_fleet S)));
     stamp \<leftarrow> on_reg_result (unregister now aid);
     on_reg (close_stream tx);
     (if sv_runner_state S \<and> sv_notifier S then spawn (Failover aid stamp) else ret ()) }"

text \<open>The task of the grace timer, once it has slept.\<close>

definition fail_over :: "server \<Rightarrow> string \<Rightarrow> nat \<Rightarrow> (world, unit) state" where
  "fail_over S aid stamp = do {
     runners \<leftarrow> get_runners_for_agent (fl_env (sv_fleet S)) aid;
     let orphaned = filter (\<lambda>(_, info). ri_job_id info \<noteq> None) runners;
     if orphaned = [] then ret ()
     else do {
       claimed \<leftarrow> on_reg_result (claim_failover aid stamp);
       if \<not> claimed then ret ()
       else for_each orphaned (\<lambda>(runner_name, _).
         modify (send_runner_event aid (synthetic_event runner_name ''agent disconnected''))) } }"

definition run_failover :: "server \<Rightarrow> nat \<Rightarrow> (world, unit) state" where
  "run_failover S i = do {
     ts \<leftarrow> gets w_tasks;
     case get_at ts i of
       Some (Failover aid stamp) \<Rightarrow> do {
         now \<leftarrow> ask (instant (fl_env (sv_fleet S)));
         if now - stamp < AGENT_DISCONNECT_GRACE then ret ()
         else do { drop_task i; fail_over S aid stamp } }
     | _ \<Rightarrow> ret () }"

end
