(* ===== verification/Tables.thy ===== *)
theory Tables
  imports Server
begin

text \<open>
  How the handlers of the coordinator treat the two tables that decide what is provisioned, the pending
  jobs and the runners. \<open>deletable\<close> and \<open>provisioning\<close> state what an invariant of the two
  tables has to withstand (rows deleted; jobs added, retried, and given a runner when they have none),
  and the lemmas inside them show once that every handler keeps such an invariant. They hold while the
  database answers: \<open>runners_for_job\<close> reads a failed query as no runners.
\<close>

definition tab :: "((string, pending_row) hashmap \<Rightarrow> (string, runner_row) hashmap \<Rightarrow> bool) \<Rightarrow> 'z store_scheme \<Rightarrow> bool" where
  "tab P s \<longleftrightarrow> P (st_pending s) (st_runners s)"

definition up :: "env \<Rightarrow> bool" where
  "up env \<longleftrightarrow> (\<forall>n. db_up env n)"

lemma upD [simp]: "up env \<Longrightarrow> db_up env n"
  by (simp add: up_def)

section \<open>What leaves both tables alone\<close>

lemma tab_ask [hoare_intros]: "keeps (tab P) (ask f)"
  by (rule keeps_ask) (simp add: tab_def)

lemma tab_modify: "(\<And>s. st_pending (f s) = st_pending s \<and> st_runners (f s) = st_runners s) \<Longrightarrow> keeps (tab P) (modify f)"
  by (rule keeps_modify) (simp add: tab_def)

lemma tab_query:
  "(\<And>s. st_pending (snd (f s)) = st_pending s \<and> st_runners (snd (f s)) = st_runners s) \<Longrightarrow>
   keeps (tab P) (query env f)"
  by (rule keeps_query) (simp_all add: tab_def)

lemma tab_update_run [hoare_intros]: "keeps (tab P) (update_run env n f)"
  unfolding update_run_def by (intro hoare_intros tab_query) simp

lemma tab_update_job [hoare_intros]: "keeps (tab P) (update_job env k f)"
  unfolding update_job_def by (intro hoare_intros tab_query) simp

lemma tab_history [hoare_intros]:
  "keeps (tab P) (runner_requested env r)"
  "keeps (tab P) (runner_acked env n)"
  "keeps (tab P) (runner_started env n)"
  "keeps (tab P) (runner_job_started env n t)"
  "keeps (tab P) (runner_finished env n out err)"
  "keeps (tab P) (record_timings env n ts)"
  "keeps (tab P) (job_seen env j)"
  "keeps (tab P) (job_runner_created env k)"
  "keeps (tab P) (job_started env k rn t)"
  "keeps (tab P) (job_completed env k c t)"
  "keeps (tab P) (job_ended env k out')"
  "keeps (tab P) (record_failure env aid fk rn' jk msg)"
  unfolding runner_requested_def runner_acked_def runner_started_def runner_job_started_def
    runner_finished_def record_timings_def job_seen_def job_runner_created_def job_started_def
    job_completed_def job_ended_def record_failure_def Let_def
  by (intro hoare_intros tab_query; simp)+

lemma tab_reads [hoare_intros]:
  "keeps (tab P) (get_job env k)"
  "keeps (tab P) (has_job env k)"
  "keeps (tab P) (get_all_pending_jobs env)"
  "keeps (tab P) (count_runners_for_agent env aid)"
  "keeps (tab P) (count_runners_for_agent_pool env aid pool)"
  "keeps (tab P) (get_runners_for_agent env aid)"
  "keeps (tab P) (get_all_runners env)"
  "keeps (tab P) (get_runner env n)"
  "keeps (tab P) (has_runner env n)"
  "keeps (tab P) (runners_for_job env k)"
  unfolding get_job_def has_job_def get_all_pending_jobs_def count_runners_for_agent_def
    count_runners_for_agent_pool_def get_runners_for_agent_def get_all_runners_def get_runner_def
    has_runner_def runners_for_job_def
  by (intro hoare_intros tab_query; simp)+

lemma tab_reconcile_vms [hoare_intros]: "keeps (tab P) (reconcile_agent_vms env aid vms)"
  unfolding reconcile_agent_vms_def Let_def by (intro hoare_intros tab_modify) simp

lemma tab_world [hoare_intros]:
  "keeps (tab P) (on_reg f)"
  "keeps (tab P) (on_idle g)"
  "keeps (tab P) (spawn t)"
  "keeps (tab P) (log_call c)"
  "keeps (tab P) (drop_task i)"
  "keeps (tab P) (set_task i t)"
  "keeps (tab P) (modify notify)"
  "keeps (tab P) (modify (notify_with_recovery aid vms))"
  "keeps (tab P) (modify (notify_runner_event aid e))"
  "keeps (tab P) (modify (send_runner_event aid e))"
  unfolding on_reg_def on_idle_def spawn_def log_call_def drop_task_def set_task_def
  by (rule tab_modify, simp add: notify_def notify_with_recovery_def notify_runner_event_def send_runner_event_def)+

lemma tab_results [hoare_intros]:
  "keeps (tab P) (on_reg_result f)"
  "keeps (tab P) (on_idle_result g)"
  "keeps (tab P) (drain_mark n)"
  by (simp_all add: keeps_def tab_def exec_def on_reg_result_def on_idle_result_def drain_mark_def split: prod.split)

lemma tab_helpers [hoare_intros]:
  "keeps (tab P) (agent_identity aid)"
  "keeps (tab P) (new_runner_name F aid)"
  "keeps (tab P) (get_job_status f repo k)"
  "keeps (tab P) (forge_remove_runner f scope n)"
  "keeps (tab P) (check_job_after_runner f repo' k)"
  "keeps (tab P) (job_backing_off F k)"
  "keeps (tab P) (send_destroy F aid n)"
  unfolding agent_identity_def new_runner_name_def get_job_status_def forge_remove_runner_def
    check_job_after_runner_def job_backing_off_def send_destroy_def
  by (intro hoare_intros)+

lemma keeps_job_check [hoare_intros]:
  "keeps I m1 \<Longrightarrow> keeps I m2 \<Longrightarrow> keeps I m3 \<Longrightarrow>
   keeps I (case c of CheckQueued \<Rightarrow> m1 | CheckDone \<Rightarrow> m2 | CheckUnknown \<Rightarrow> m3)"
  by (cases c) simp_all

lemma keeps_hoare_bind: "keeps I m \<Longrightarrow> (\<And>x. hoare I (f x) Q) \<Longrightarrow> hoare I (m \<bind> f) Q"
  by (simp add: keeps_def hoare_def)

lemma hoare_keeps_bind: "hoare I m (\<lambda>_. J) \<Longrightarrow> (\<And>x. keeps J (f x)) \<Longrightarrow> hoare I (m \<bind> f) (\<lambda>_. J)"
  by (simp add: keeps_def hoare_def)

lemma keeps_to_hoare: "keeps I m \<Longrightarrow> (\<And>s. I s \<Longrightarrow> J s) \<Longrightarrow> hoare I m (\<lambda>_. J)"
  by (simp add: keeps_def hoare_def)

section \<open>Invariants that survive deletions\<close>

locale deletable =
  fixes P :: "(string, pending_row) hashmap \<Rightarrow> (string, runner_row) hashmap \<Rightarrow> bool"
  assumes del_pending: "P p r \<Longrightarrow> P (hm_remove k p) r"
    and del_runner: "P p r \<Longrightarrow> P p (hm_remove n r)"
begin

lemma keeps_remove_job: "keeps (tab P) (remove_job env k out)"
  unfolding remove_job_def
  by (intro hoare_intros keeps_query) (simp_all add: tab_def del_pending)

lemma keeps_remove_runner: "keeps (tab P) (remove_runner env n)"
  unfolding remove_runner_def
  by (intro hoare_intros keeps_query keeps_modify) (simp_all add: tab_def del_runner)

lemma keeps_job_still_wanted: "keeps (tab P) (job_still_wanted F forge aid n repo k)"
  unfolding job_still_wanted_def by (intro hoare_intros keeps_remove_job)

lemma keeps_drop_runner: "keeps (tab P) (drop_runner F t)"
  unfolding drop_runner_def by (intro hoare_intros keeps_remove_runner)

lemma keeps_finish_failed:
  "keeps (tab P) (finish_rejected F t j err)" "keeps (tab P) (finish_command_failed F t j err)"
  unfolding finish_rejected_def finish_command_failed_def
  by (intro hoare_intros keeps_drop_runner)+

lemma keeps_watcher_tick: "keeps (tab P) (watcher_tick F n aid scope forge)"
  unfolding watcher_tick_def by (intro hoare_intros keeps_remove_runner)

lemma keeps_verify_pending_job: "keeps (tab P) (verify_pending_job F ki)"
  unfolding verify_pending_job_def by (intro hoare_intros keeps_remove_job)

lemma keeps_check_idle_runner: "keeps (tab P) (check_idle_runner F timeout utc ni)"
proof -
  have act: "keeps (tab P) (case a of IdleStarted \<Rightarrow> m | TearDown \<Rightarrow> n | IdleWait \<Rightarrow> o')"
    if "keeps (tab P) m" "keeps (tab P) n" "keeps (tab P) o'" for a and m n o' :: "(world, unit) state"
    using that by (cases a) simp_all
  show ?thesis
    unfolding check_idle_runner_def by (intro hoare_intros act)
qed

lemma keeps_check_idle_runners: "keeps (tab P) (check_idle_runners F)"
  unfolding check_idle_runners_def by (intro hoare_intros keeps_check_idle_runner)

lemma keeps_finish_pool: "keeps (tab P) (finish_pool F t outcome)"
  unfolding finish_pool_def
  by (auto intro!: hoare_intros keeps_drop_runner keeps_finish_failed split: sum.split option.split agent_payload.split)

end

section \<open>Invariants of provisioning\<close>

locale provisioning = deletable +
  assumes add_pending: "P p r \<Longrightarrow> P (insert_ignore (key_to_string j) (new_pending_row t req) p) r"
    and set_failed: "P p r \<Longrightarrow> P (hm_modify k (pr_failed_agents_update f) p) r"
    and retry: "P p r \<Longrightarrow> hm_get p k = Some row \<Longrightarrow> pr_retry_count row + 1 < MAX_RETRIES \<Longrightarrow>
      P (hm_modify k (\<lambda>x. x\<lparr>pr_retry_count := pr_retry_count x + 1\<rparr>) p) r"
    and add_pool_runner: "P p r \<Longrightarrow> \<not> hm_contains r n \<Longrightarrow> rr_job_id row' = None \<Longrightarrow> P p (hm_insert n row' r)"
    and add_job_runner: "P p r \<Longrightarrow> \<not> hm_contains r n \<Longrightarrow> rr_job_id row' = Some (key_to_string j) \<Longrightarrow>
      job_rows j r = [] \<Longrightarrow> P p (hm_insert n row' r)"

lemma job_rows_remove: "job_rows j r = [] \<Longrightarrow> job_rows j (hm_remove n r) = []"
  by (auto simp: job_rows_def filter_empty_conv AList.delete_eq)

text \<open>The invariant together with \<open>j\<close> having no runner still survives deletions.\<close>

sublocale provisioning \<subseteq> fresh: deletable "\<lambda>p r. P p r \<and> job_rows j r = []" for j
  by unfold_locales (auto simp: del_pending del_runner job_rows_remove)

lemma hm_remove_modify: "hm_remove k (hm_modify k f m) = hm_remove k m"
  by (induction m) (auto simp: hm_modify_def AList.delete_eq)

lemma hm_modify_absent: "hm_get m k = None \<Longrightarrow> hm_modify k f m = m"
  by (induction m) (auto simp: hm_modify_def split: if_splits)

lemma hm_modify_modify: "hm_modify k f (hm_modify k g m) = hm_modify k (\<lambda>x. f (g x)) m"
  by (induction m) (auto simp: hm_modify_def)

text \<open>A retry is counted, and the job abandoned at the limit: the sequence three handlers share.\<close>

definition count_failure :: "env \<Rightarrow> job_key \<Rightarrow> string option \<Rightarrow> ('z store_scheme, unit) state" where
  "count_failure env k failed = do {
     c \<leftarrow> increment_retry_count env k failed;
     case c of
       Some n \<Rightarrow> if n \<ge> MAX_RETRIES then remove_job env k Abandoned else ret ()
     | None \<Rightarrow> ret () }"

lemma record_failed_agent_tables:
  "st_runners (exec (record_failed_agent env k aid) s) = st_runners s"
  "\<exists>f. st_pending (exec (record_failed_agent env k aid) s) = hm_modify (key_to_string k) (pr_failed_agents_update f) (st_pending s)
     \<or> st_pending (exec (record_failed_agent env k aid) s) = st_pending s"
  by (auto simp: record_failed_agent_def get_job_def run_query split: option.splits prod.splits)

lemma remove_job_tables:
  assumes "up env"
  shows "st_pending (exec (remove_job env k out) s) = hm_remove (key_to_string k) (st_pending s)"
    and "st_runners (exec (remove_job env k out) s) = st_runners s"
  using assms by (simp_all add: remove_job_def job_ended_def update_job_def run_query)

lemma remove_runner_tables:
  assumes "up env"
  shows "st_pending (exec (remove_runner env n) s) = st_pending s"
    and "st_runners (exec (remove_runner env n) s) = hm_remove n (st_runners s)"
  using assms by (simp_all add: remove_runner_def run_query)

text \<open>What \<open>count_failure\<close> does to the row of a job, with the database up.\<close>

lemma count_failure_tables:
  fixes s :: "'z store_scheme" and k :: job_key and failed :: "string option"
  assumes "up env"
  defines "k' \<equiv> key_to_string k"
    and "inc \<equiv> \<lambda>x. x\<lparr>pr_retry_count := pr_retry_count x + 1\<rparr> :: pending_row"
    and "s' \<equiv> exec (count_failure env k failed) s"
  shows "st_runners s' = st_runners s"
    and "hm_get (st_pending s) k' = None \<Longrightarrow> st_pending s' = st_pending s"
    and "hm_get (st_pending s) k' = Some row \<Longrightarrow> pr_retry_count row + 1 \<ge> MAX_RETRIES \<Longrightarrow>
      st_pending s' = hm_remove k' (st_pending s)"
    and "hm_get (st_pending s) k' = Some row \<Longrightarrow> pr_retry_count row + 1 < MAX_RETRIES \<Longrightarrow>
      \<exists>f. st_pending s' = hm_modify k' (pr_failed_agents_update f) (hm_modify k' inc (st_pending s))
        \<or> st_pending s' = hm_modify k' inc (st_pending s)"
proof -
  let ?s1 = "s\<lparr>st_tick := st_tick s + 1, st_pending := hm_modify k' inc (st_pending s)\<rparr>"
  let ?s2 = "case failed of Some aid \<Rightarrow> exec (record_failed_agent env k aid) ?s1 | None \<Rightarrow> ?s1"
  have s': "s' = (case hm_get (st_pending s) k' of
      None \<Rightarrow> ?s1
    | Some row \<Rightarrow> if pr_retry_count row + 1 \<ge> MAX_RETRIES then exec (remove_job env k Abandoned) ?s2 else ?s2)"
    using assms(1)
    by (auto simp: s'_def k'_def inc_def count_failure_def increment_retry_count_def run_query split: option.split)
  have run: "st_runners ?s2 = st_runners s"
    by (auto simp: record_failed_agent_tables split: option.split)
  have pend: "\<exists>f. st_pending ?s2 = hm_modify k' (pr_failed_agents_update f) (hm_modify k' inc (st_pending s))
      \<or> st_pending ?s2 = hm_modify k' inc (st_pending s)"
    using record_failed_agent_tables(2) [of env k _ ?s1] by (auto simp: k'_def split: option.split)
  show "st_runners s' = st_runners s"
    using run by (auto simp: s' remove_job_tables [OF assms(1)] split: option.split)
  show "st_pending s' = st_pending s" if "hm_get (st_pending s) k' = None"
    using that by (simp add: s' hm_modify_absent)
  show "st_pending s' = hm_remove k' (st_pending s)"
    if "hm_get (st_pending s) k' = Some row" "pr_retry_count row + 1 \<ge> MAX_RETRIES"
  proof -
    have "st_pending s' = hm_remove k' (st_pending ?s2)"
      using that by (simp add: s' remove_job_tables [OF assms(1)] k'_def)
    also have "\<dots> = hm_remove k' (st_pending s)"
      using pend by (elim exE disjE) (simp_all add: hm_remove_modify)
    finally show ?thesis .
  qed
  show "\<exists>f. st_pending s' = hm_modify k' (pr_failed_agents_update f) (hm_modify k' inc (st_pending s))
      \<or> st_pending s' = hm_modify k' inc (st_pending s)"
    if "hm_get (st_pending s) k' = Some row" "pr_retry_count row + 1 < MAX_RETRIES"
    using that pend by (simp add: s')
qed

context provisioning
begin

lemma keeps_count_failure:
  assumes "up env"
  shows "keeps (tab P) (count_failure env k failed)"
  unfolding keeps_def tab_def
proof (intro allI impI)
  fix s :: "'z store_scheme"
  assume P: "P (st_pending s) (st_runners s)"
  note t = count_failure_tables [OF assms, where k = k and failed = failed and s = s]
  show "P (st_pending (exec (count_failure env k failed) s)) (st_runners (exec (count_failure env k failed) s))"
  proof (cases "hm_get (st_pending s) (key_to_string k)")
    case None
    with P t(1,2) show ?thesis by simp
  next
    case (Some row)
    show ?thesis
    proof (cases "pr_retry_count row + 1 < MAX_RETRIES")
      case True
      note inc = retry [OF P Some True]
      from t(4) [OF Some True] show ?thesis
      proof (elim exE disjE)
        fix f
        assume "st_pending (exec (count_failure env k failed) s) =
          hm_modify (key_to_string k) (pr_failed_agents_update f)
            (hm_modify (key_to_string k) (\<lambda>x. x\<lparr>pr_retry_count := pr_retry_count x + 1\<rparr>) (st_pending s))"
        with set_failed [OF inc] show ?thesis by (simp only: t(1))
      next
        assume "st_pending (exec (count_failure env k failed) s) =
          hm_modify (key_to_string k) (\<lambda>x. x\<lparr>pr_retry_count := pr_retry_count x + 1\<rparr>) (st_pending s)"
        with inc show ?thesis by (simp only: t(1))
      qed
    next
      case False
      then have "st_pending (exec (count_failure env k failed) s) = hm_remove (key_to_string k) (st_pending s)"
        by (intro t(3) [OF Some]) simp
      with del_pending [OF P] show ?thesis by (simp only: t(1))
    qed
  qed
qed

lemma keeps_add_job: "keeps (tab P) (add_job env req)"
  unfolding add_job_def
  by (intro hoare_intros keeps_query) (simp_all add: tab_def add_pending)

lemma keeps_add_pool_runner: "keeps (tab P) (add_runner env n aid vm scope forge None jn rp wn pool)"
  unfolding add_runner_def
  by (intro hoare_intros keeps_query) (auto simp: tab_def insert_runner_row_def add_pool_runner)

lemma add_runner_fresh:
  "hoare (tab (\<lambda>p r. P p r \<and> job_rows j r = []))
     (add_runner env n aid vm scope forge (Some j) jn rp wn pool) (\<lambda>_. tab P)"
  by (auto simp: hoare_def tab_def add_runner_def run_query insert_runner_row_def add_job_runner)

lemma start_runner_fresh:
  "hoare (tab (\<lambda>p r. P p r \<and> job_rows j r = []))
     (start_runner F forge aid n cid ls scope grp j jn rp wn) (\<lambda>_. tab P)"
  unfolding start_runner_def
proof (rule keeps_hoare_bind [OF tab_world(4)], rule keeps_hoare_bind [OF tab_ask])
  fix launch
  show "hoare (tab (\<lambda>p r. P p r \<and> job_rows j r = []))
    (case launch of Inl e \<Rightarrow> do { on_reg (registry_release_slot aid n); ret (Inl e) }
     | Inr launch \<Rightarrow> do {
         add_runner (fl_env F) n aid n scope (key_forge j) (Some j) jn rp wn None;
         (host, ty) \<leftarrow> agent_identity aid;
         runner_requested (fl_env F) \<lparr>nr_runner_name = n, nr_agent_id = aid, nr_hostname = host,
           nr_agent_type = ty, nr_forge = Some (key_forge j), nr_job_id = Some j,
           nr_repository = rp, nr_workflow_name = wn, nr_job_name = jn,
           nr_pool = None, nr_labels = ls\<rparr>;
         job_runner_created (fl_env F) j;
         spawn (CreateTask \<lparr>ct_agent = aid,
           ct_command = create_command cid n ls (fa_scope_url forge scope) launch,
           ct_runner = n, ct_scope = scope, ct_forge = forge,
           ct_kind = OnDemand j rp, ct_waiter = None\<rparr>);
         ret (Inr ()) }) (\<lambda>_. tab P)"
  proof (cases launch)
    case (Inl e)
    have "keeps (tab (\<lambda>p r. P p r \<and> job_rows j r = [])) (do { on_reg (registry_release_slot aid n); ret (Inl e) })"
      by (intro hoare_intros)
    then show ?thesis using Inl by (auto intro!: keeps_to_hoare simp: tab_def)
  next
    case (Inr l)
    show ?thesis
      unfolding Inr sum.case by (rule hoare_keeps_bind [OF add_runner_fresh]) (intro hoare_intros)
  qed
qed

lemma create_runner_fresh:
  "hoare (tab (\<lambda>p r. P p r \<and> job_rows j r = []))
     (create_runner_on_demand F ls avoid scope grp j jn rp wn) (\<lambda>_. tab P)"
proof -
  let ?Q = "tab (\<lambda>p r. P p r \<and> job_rows j r = [])"
  have ret: "hoare ?Q (ret x) (\<lambda>_. tab P)" for x :: "string + unit"
    by (rule hoare_ret) (simp add: tab_def)
  show ?thesis
    unfolding create_runner_on_demand_def Let_def
    by (auto split: sum.split option.split
        intro!: ret keeps_hoare_bind start_runner_fresh hoare_intros fresh.keeps_job_still_wanted)
qed

lemma runners_for_job_fresh:
  assumes "up env"
  shows "hoare (tab P) (runners_for_job env j)
    (\<lambda>rows s. if rows \<noteq> [] then tab P s else tab (\<lambda>p r. P p r \<and> job_rows j r = []) s)"
  using assms by (auto simp: hoare_def runners_for_job_def run_query tab_def)

lemma keeps_process_job:
  assumes "up (fl_env F)"
  shows "keeps (tab P) (process_job F ki)"
proof -
  obtain j info where ki: "ki = (j, info)" by (cases ki)
  let ?create = "create_runner_on_demand F (pj_agent_labels info) (pj_failed_agents info) (pj_runner_scope info)
      (runner_group_id (pj_runner_group info)) j (pj_job_name info) (pj_repository info) (pj_workflow_name info)"
  let ?after = "\<lambda>res. case res of Inr _ \<Rightarrow> ret ()
     | Inl e \<Rightarrow> if str_contains ''No available agent'' e then ret () else count_failure (fl_env F) j None"
  have after: "keeps (tab P) (?after res)" for res :: "string + unit"
    by (intro hoare_intros keeps_count_failure assms)
  have body: "keeps (tab P) (runners_for_job (fl_env F) j \<bind> (\<lambda>existing.
      if existing \<noteq> [] then ret () else ?create \<bind> ?after))"
    unfolding hoare_keeps
  proof (rule hoare_bind [OF runners_for_job_fresh [OF assms]])
    fix rows :: "(string \<times> string) list"
    show "hoare (\<lambda>s. if rows \<noteq> [] then tab P s else tab (\<lambda>p r. P p r \<and> job_rows j r = []) s)
        (if rows \<noteq> [] then ret () else ?create \<bind> ?after) (\<lambda>_. tab P)"
    proof (cases "rows = []")
      case True
      show ?thesis
        unfolding True simp_thms if_False by (rule hoare_keeps_bind [OF create_runner_fresh after])
    next
      case False
      then show ?thesis by (simp only: simp_thms if_True) (rule hoare_ret)
    qed
  qed
  show ?thesis
    unfolding process_job_def ki prod.case
    by (rule keeps_if, rule keeps_remove_job)
      (rule keeps_bind [OF tab_helpers(6)], rule keeps_if, rule keeps_ret, rule body [unfolded count_failure_def])
qed

lemma keeps_process_pending_jobs:
  assumes "up (fl_env F)"
  shows "keeps (tab P) (process_pending_jobs F)"
  unfolding process_pending_jobs_def by (intro hoare_intros keeps_process_job assms)

end

end
