(* ===== verification/Coordinator.thy ===== *)
theory Coordinator
  imports Tables
begin

text \<open>
  The coordinator as a whole: the loops of \<^verbatim>\<open>FleetManager::run\<close>, the streams of the agents,
  the webhook handler and the spawned tasks, interleaved in any order. Each step is one handler; the
  invariants of the tables hold in every state the steps reach while the database answers.
\<close>

section \<open>The loops\<close>

text \<open>
  A tick of \<open>run_on_demand_loop\<close>; \<open>scan_due\<close> is whether the scan interval has passed.
\<close>

definition on_demand_tick :: "fleet \<Rightarrow> bool \<Rightarrow> (world, unit) state" where
  "on_demand_tick F scan_due = do {
     process_pending_jobs F;
     check_idle_runners F;
     if scan_due then scan_forges F else ret () }"

text \<open>What it does before its loop.\<close>

definition on_demand_start :: "fleet \<Rightarrow> (world, unit) state" where
  "on_demand_start F = do { get_all_runners (fl_env F); process_pending_jobs F; scan_forges F }"

definition on_tick :: "fleet \<Rightarrow> bool \<Rightarrow> (world, unit) state" where
  "on_tick F scan_due =
     (if pc_mode (fl_provisioning F) = FixedCapacity then reconcile F else on_demand_tick F scan_due)"

definition on_notify :: "fleet \<Rightarrow> (world, unit) state" where
  "on_notify F =
     (if pc_mode (fl_provisioning F) = FixedCapacity then reconcile F else process_pending_jobs F)"

text \<open>A webhook request: the handler, then its event through the channel.\<close>

definition on_request ::
    "server \<Rightarrow> decoders \<Rightarrow> webhook_state \<Rightarrow> string option \<Rightarrow> string option \<Rightarrow> string \<Rightarrow> (world, status_code) state" where
  "on_request S d wh event_header signature_header body = do {
     (status, event) \<leftarrow> handle_webhook d (fl_env (sv_fleet S)) wh event_header signature_header body;
     (case event of Some e \<Rightarrow> modify (send_webhook_event e) | None \<Rightarrow> ret ());
     ret status }"

section \<open>Steps\<close>

inductive co_step :: "server \<Rightarrow> world \<Rightarrow> world \<Rightarrow> bool" for S where
  step_start: "co_step S w (exec (on_demand_start (sv_fleet S)) w)"
| step_tick: "co_step S w (exec (on_tick (sv_fleet S) due) w)"
| step_notify: "w_notify w > 0 \<Longrightarrow>
    co_step S w (exec (on_notify (sv_fleet S)) (w\<lparr>w_notify := w_notify w - 1\<rparr>))"
| step_recovery: "w_recovery w = rc # rcs \<Longrightarrow>
    co_step S w (exec (handle_agent_recovery (sv_fleet S) rc) (w\<lparr>w_recovery := rcs\<rparr>))"
| step_event: "w_events w = e # es \<Longrightarrow>
    co_step S w (exec (handle_runner_event (sv_fleet S) e) (w\<lparr>w_events := es\<rparr>))"
| step_webhook_event: "w_webhooks w = e # es \<Longrightarrow>
    co_step S w (exec (handle_webhook_event (sv_fleet S) e) (w\<lparr>w_webhooks := es\<rparr>))"
| step_request: "co_step S w (exec (on_request S d wh eh sh body) w)"
| step_message: "co_step S w (exec (handle_agent_message S aid msg) w)"
| step_connect: "co_step S w (exec (connect_stream S aid msg tx) w)"
| step_disconnect: "co_step S w (exec (end_stream S aid tx) w)"
| step_task: "co_step S w (exec (run_task (sv_fleet S) i timed_out) w)"
| step_failover: "co_step S w (exec (run_failover S i) w)"
| step_unavailable: "co_step S w (exec (on_reg (set_unavailable aid b)) w)"

inductive_cases co_step_cases: "co_step S w w'"

inductive co_reachable :: "server \<Rightarrow> world \<Rightarrow> world \<Rightarrow> bool" for S and w0 where
  co_refl: "co_reachable S w0 w0"
| co_more: "co_reachable S w0 w \<Longrightarrow> co_step S w w' \<Longrightarrow> co_reachable S w0 w'"

lemma tab_channels [simp]:
  "tab P (w\<lparr>w_notify := n\<rparr>) = tab P w"
  "tab P (w\<lparr>w_recovery := rcs\<rparr>) = tab P w"
  "tab P (w\<lparr>w_events := es\<rparr>) = tab P w"
  "tab P (w\<lparr>w_webhooks := whs\<rparr>) = tab P w"
  by (simp_all add: tab_def)

section \<open>Every handler keeps an invariant of provisioning\<close>

context provisioning
begin

lemmas table_intros = hoare_intros keeps_remove_job keeps_remove_runner keeps_drop_runner
  keeps_finish_failed keeps_finish_pool keeps_watcher_tick keeps_verify_pending_job
  keeps_check_idle_runners keeps_add_job keeps_add_pool_runner

lemma keeps_handle_command_failure:
  "up (fl_env F) \<Longrightarrow> keeps (tab P) (handle_command_failure F k aid)"
  using keeps_count_failure [of "fl_env F" k "Some aid"]
  by (simp add: handle_command_failure_def count_failure_def)

lemma keeps_finish_on_demand:
  assumes "up (fl_env F)"
  shows "keeps (tab P) (finish_on_demand F t k repo outcome)"
  unfolding finish_on_demand_def finish_result_def
  by (auto intro!: table_intros keeps_handle_command_failure assms
      split: sum.split option.split agent_payload.split)

lemma keeps_finish_create:
  assumes "up (fl_env F)"
  shows "keeps (tab P) (finish_create F t outcome)"
  unfolding finish_create_def
  by (auto intro!: keeps_finish_on_demand keeps_finish_pool assms split: create_kind.split)

lemma keeps_run_task:
  assumes "up (fl_env F)"
  shows "keeps (tab P) (run_task F i timed_out)"
proof -
  have "keeps (tab P) (step_create F i t timed_out)" for t
    unfolding step_create_def by (intro table_intros keeps_finish_create assms)
  then show ?thesis
    unfolding run_task_def by (auto intro!: table_intros split: option.split task.split)
qed

lemma keeps_settle_job:
  assumes "up (fl_env F)"
  shows "keeps (tab P) (settle_job F aid ty info k)"
  unfolding settle_job_def
proof (rule keeps_if, goal_cases)
  case 1
  show ?case by (intro table_intros)
next
  case 2
  show ?case
    by (rule keeps_if, rule keeps_count_failure [OF assms, of k "Some aid", unfolded count_failure_def], rule keeps_ret)
qed

lemma keeps_handle_runner_event:
  assumes "up (fl_env F)"
  shows "keeps (tab P) (handle_runner_event F ae)"
proof -
  have idled: "keeps (tab P) (handle_idled F aid n info)" for aid n info
    unfolding handle_idled_def by (intro table_intros keeps_process_pending_jobs assms)
  have tracked: "keeps (tab P) (handle_tracked_end F aid n ty err info)" for aid n ty err info
    unfolding handle_tracked_end_def Let_def
    by (intro table_intros keeps_process_pending_jobs keeps_settle_job assms)
  have "keeps (tab P) (handle_end F aid n ty err)" for aid n ty err
    unfolding handle_end_def by (intro table_intros idled tracked keeps_process_pending_jobs assms)
  then show ?thesis
    unfolding handle_runner_event_def Let_def
    by (auto intro!: table_intros split: prod.split runner_event_type.split)
qed

lemma keeps_handle_agent_recovery: "keeps (tab P) (handle_agent_recovery F rc)"
  unfolding handle_agent_recovery_def recover_runner_def by (intro table_intros)

lemma keeps_recover_jobs: "keeps (tab P) (recover_jobs F filters js n)"
  by (induction js arbitrary: n) (auto simp: recover_job_def intro!: table_intros split: prod.split option.split)

lemma keeps_list_queues: "keeps (tab P) (list_queues forges scan queued)"
  by (induction forges scan queued rule: list_queues.induct) (auto intro!: table_intros split: sum.split)

lemma keeps_scan_forges:
  assumes "up (fl_env F)"
  shows "keeps (tab P) (scan_forges F)"
proof -
  have recover: "keeps (tab P) (recover_queued_jobs F)"
    unfolding recover_queued_jobs_def
    by (intro table_intros keeps_list_queues keeps_recover_jobs keeps_process_pending_jobs assms)
  show ?thesis
    unfolding scan_forges_def verify_pending_jobs_def verify_dropped_pending_jobs_def
    by (intro table_intros recover)
qed

lemma keeps_reconcile: "keeps (tab P) (reconcile F)"
proof -
  have sum: "keeps (tab P) (sum_agent_runners F as n)" for as n
    by (induction as arbitrary: n) (auto intro!: table_intros)
  have pool: "keeps (tab P) (reconcile_pool F scope p)" for scope p
    unfolding reconcile_pool_def count_runners_for_pool_def create_pool_runner_def Let_def
    by (intro table_intros sum)
  have drain: "keeps (tab P) (drain_runner F unavail utc ni)" for unavail utc ni
    unfolding drain_runner_def Let_def by (intro table_intros tab_modify) simp
  have "keeps (tab P) (drain_unavailable_agents F)"
    unfolding drain_unavailable_agents_def by (intro table_intros drain tab_modify) simp_all
  moreover have "keeps (tab P) (warn_unprovisionable_capabilities F)"
    unfolding warn_unprovisionable_capabilities_def by (intro table_intros tab_modify) simp
  ultimately show ?thesis
    unfolding reconcile_def by (intro table_intros pool)
qed

lemma keeps_handle_webhook: "keeps (tab P) (handle_webhook d env wh eh sh body)"
  unfolding handle_webhook_def handle_queued_def handle_in_progress_def handle_completed_def
  by (intro table_intros)

lemma keeps_on_request: "keeps (tab P) (on_request S d wh eh sh body)"
  unfolding on_request_def
  by (intro table_intros keeps_handle_webhook tab_modify) (simp add: send_webhook_event_def)

lemma keeps_message: "keeps (tab P) (handle_agent_message S aid msg)"
  unfolding handle_agent_message_def handle_status_def reconcile_runner_state_def Let_def
  by (auto intro!: table_intros split: option.split agent_payload.split)

lemma keeps_connect: "keeps (tab P) (connect_stream S aid msg tx)"
  unfolding connect_stream_def
  by (auto intro!: table_intros split: sum.split prod.split)

lemma keeps_end_stream: "keeps (tab P) (end_stream S aid tx)"
  unfolding end_stream_def by (intro table_intros)

lemma keeps_run_failover: "keeps (tab P) (run_failover S i)"
  unfolding run_failover_def fail_over_def Let_def
  by (auto intro!: table_intros split: option.split task.split)

lemma keeps_loops:
  assumes "up (fl_env F)"
  shows "keeps (tab P) (on_demand_start F)" and "keeps (tab P) (on_tick F due)" and "keeps (tab P) (on_notify F)"
    and "keeps (tab P) (handle_webhook_event F e)"
proof -
  note intros = table_intros keeps_process_pending_jobs keeps_scan_forges keeps_reconcile assms
  show "keeps (tab P) (on_demand_start F)" "keeps (tab P) (on_tick F due)" "keeps (tab P) (on_notify F)"
    unfolding on_demand_start_def on_tick_def on_demand_tick_def on_notify_def by (intro intros)+
  show "keeps (tab P) (handle_webhook_event F e)"
    unfolding handle_webhook_event_def by (cases e) (auto intro!: intros)
qed

lemma co_step_keeps:
  assumes "up (fl_env (sv_fleet S))" and "co_step S w w'" and "tab P w"
  shows "tab P w'"
  using assms(2,3)
  by (cases rule: co_step_cases)
    (auto intro!: keepsD [of "tab P"] keeps_loops keeps_handle_agent_recovery keeps_handle_runner_event
      keeps_on_request keeps_message keeps_connect keeps_end_stream keeps_run_task keeps_run_failover
      tab_world assms(1))

lemma co_reachable_keeps:
  assumes "co_reachable S w0 w" and "up (fl_env (sv_fleet S))" and "tab P w0"
  shows "tab P w"
  using assms(1) by (induction rule: co_reachable.induct) (auto intro: co_step_keeps assms)

end

end
