(* ===== verification/Coordinator_Facts.thy ===== *)
theory Coordinator_Facts
  imports Coordinator
begin

text \<open>
  What the coordinator guarantees in every state it reaches: no job has two runners, no job is retried
  past the limit. Each is an interpretation of \<open>provisioning\<close>.
\<close>

section \<open>At most one runner per job\<close>

definition job_runners :: "string \<Rightarrow> (string, runner_row) hashmap \<Rightarrow> (string, runner_row) hashmap" where
  "job_runners j r = filter (\<lambda>(_, row). rr_job_id row = Some j) r"

definition deduplicated :: "(string, runner_row) hashmap \<Rightarrow> bool" where
  "deduplicated r \<longleftrightarrow> (\<forall>j. length (job_runners j r) \<le> 1)"

lemma job_runners_remove_le: "length (job_runners j (hm_remove n r)) \<le> length (job_runners j r)"
  unfolding job_runners_def by (rule filter_delete_le)

interpretation dedup: provisioning "\<lambda>_. deduplicated"
proof (unfold_locales, goal_cases)
  case (2 p r n)
  then show ?case
    using job_runners_remove_le unfolding deduplicated_def by (meson order.trans)
next
  case (6 p r n row)
  then show ?case by (auto simp: deduplicated_def job_runners_def hm_insert_new)
next
  case (7 p r n row j)
  then have "job_runners (key_to_string j) r = []"
    by (simp add: job_runners_def job_rows_def)
  with 7 show ?case
    by (auto simp: deduplicated_def job_runners_def hm_insert_new)
qed simp_all

section \<open>Retries\<close>

definition retries_bounded :: "(string, pending_row) hashmap \<Rightarrow> bool" where
  "retries_bounded p \<longleftrightarrow> hm_ok p \<and> (\<forall>k row. hm_get p k = Some row \<longrightarrow> pr_retry_count row < MAX_RETRIES)"

interpretation retries: provisioning "\<lambda>p _. retries_bounded p"
proof (unfold_locales, goal_cases)
  case (1 p r k)
  then show ?case by (auto simp: retries_bounded_def)
next
  case (3 p r j t req)
  then show ?case
    by (auto simp: retries_bounded_def insert_ignore_get new_pending_row_def MAX_RETRIES_def split: option.splits if_splits)
next
  case (4 p r k f)
  then show ?case by (auto simp: retries_bounded_def hm_get_modify split: if_splits)
next
  case (5 p r k row)
  then show ?case by (auto simp: retries_bounded_def hm_get_modify split: if_splits)
qed simp_all

section \<open>A coordinator to run\<close>

text \<open>One GitHub forge, one agent with two slots, and a pending job that fits it.\<close>

definition sample_forge :: forge_api where
  "sample_forge = \<lparr>fa_kind = GitHub, fa_job_status = \<lambda>_ _ _. Inr (Some ''queued''),
     fa_create_job_runner = \<lambda>_ _ _ _ _ _. Inr (GitHubJit ''jit''),
     fa_registration_token = \<lambda>_ _. Inr ''token'', fa_remove_runner = \<lambda>_ _ _. Inr (),
     fa_remove_idle_runner = \<lambda>_ _ _. Inr Removed, fa_list_queued_jobs = \<lambda>_. Inr [],
     fa_scope_url = scope_to_url\<rparr>"

definition sample_fleet :: "env \<Rightarrow> fleet" where
  "sample_fleet env = \<lparr>fl_env = env,
     fl_provisioning = \<lparr>pc_mode = Polling, pc_webhook = None, pc_polling = None, pc_idle_runner_timeout_secs = 600\<rparr>,
     fl_forges = [(''github'', sample_forge)], fl_runner_scope = None, fl_reply = \<lambda>_. Inl ''timeout''\<rparr>"

definition sample_server :: server where
  "sample_server = \<lparr>sv_fleet = sample_fleet test_env, sv_runner_state = True, sv_notifier = True\<rparr>"

definition sample_pending :: pending_row where
  "sample_pending = \<lparr>pr_job_labels = [''linux''], pr_agent_labels = [''linux''],
     pr_runner_scope = Organization ''acme'', pr_runner_group = None, pr_created_at = 0, pr_retry_count = 0,
     pr_repository = None, pr_job_name = None, pr_workflow_name = None, pr_failed_agents = None\<rparr>"

definition sample_world :: world where
  "sample_world = \<lparr>st_tick = 0, st_pending = [(''github:7'', sample_pending)], st_runners = [],
     st_runs = [], st_jobs = [], st_failures = [], st_missing_since = [],
     w_reg = register 0 ''a'' ''proxmox'' ''host-a'' 2 0 [''linux''] [] 0 empty_registry,
     w_idle = \<lparr>id_started = {}, id_tearing_down = [], id_torn_down = [], id_backoff = []\<rparr>,
     w_draining = [], w_warned = {}, w_notify = 0, w_recovery = [], w_events = [], w_webhooks = [],
     w_tasks = [], w_calls = []\<rparr>"

definition sample_task :: create_task where
  "sample_task = \<lparr>ct_agent = ''a'',
     ct_command = create_command ''c-1'' ''mac-1'' [''linux''] ''https://github.com/acme'' (GitHubJit ''jit''),
     ct_runner = ''mac-1'', ct_scope = Organization ''acme'', ct_forge = sample_forge,
     ct_kind = OnDemand (JobKey ''github'' ''7'') None, ct_waiter = None\<rparr>"

text \<open>The same with the runner's command about to fail.\<close>

definition failing_world :: world where
  "failing_world = sample_world\<lparr>w_tasks := [CreateTask (sample_task\<lparr>ct_waiter := Some (Inl ''lost'')\<rparr>)]\<rparr>"

lemma sample_up: "up (fl_env (sv_fleet sample_server))"
  by (simp add: up_def sample_server_def sample_fleet_def test_env_def)

lemma sample_step: "co_reachable sample_server sample_world (exec (on_tick (sv_fleet sample_server) True) sample_world)"
  by (rule co_more [OF co_refl step_tick])

section \<open>Properties\<close>

text \<open>C1: While the database answers, no job ever has two runners, whatever order webhooks, scans,
  agents' events, reconnects and the spawned tasks come in: \<open>process_pending_jobs\<close> looks for a runner
  of the job before it makes one, and nothing else makes runners for jobs.\<close>

theorem one_runner_per_job:
  assumes "co_reachable S w0 w" and "\<forall>n. db_up (fl_env (sv_fleet S)) n"
    and "\<forall>j. length (filter (\<lambda>(_, r). rr_job_id r = Some j) (st_runners w0)) \<le> 1"
  shows "length (filter (\<lambda>(_, r). rr_job_id r = Some j) (st_runners w)) \<le> 1"
  using dedup.co_reachable_keeps [OF assms(1)] assms(2,3)
  by (simp add: up_def tab_def deduplicated_def job_runners_def)

theorem one_runner_per_job_witness:
  "length (filter (\<lambda>(_, r). rr_job_id r = Some ''github:7'')
     (st_runners (exec (on_tick (sv_fleet sample_server) True) sample_world))) \<le> 1"
  using one_runner_per_job [OF sample_step, of "''github:7''"] sample_up
  by (simp add: up_def sample_world_def)

text \<open>A job stays in the queue only while fewer than three of its runners failed: in every state
  reached, no pending job has used up its retries, as each handler that counts a failure abandons the job
  at the limit.\<close>

theorem pending_jobs_have_retries_left:
  assumes "co_reachable S w0 w" and "\<forall>n. db_up (fl_env (sv_fleet S)) n"
    and "hm_ok (st_pending w0)" and "\<forall>k row. hm_get (st_pending w0) k = Some row \<longrightarrow> pr_retry_count row < 3"
    and "hm_get (st_pending w) k = Some row"
  shows "pr_retry_count row < 3"
  using retries.co_reachable_keeps [OF assms(1)] assms(2-5)
  by (simp add: up_def tab_def retries_bounded_def MAX_RETRIES_def)

lemma finish_command_failed_pending:
  fixes w :: world
  shows "st_pending (exec (finish_command_failed F t job e) w) = st_pending w"
  by (simp add: finish_command_failed_def drop_runner_def remove_runner_def forge_remove_runner_def log_call_def
      on_reg_def record_failure_def runner_finished_def update_run_def run_query split: option.split)

lemma failing_task_row:
  "\<exists>row. hm_get (st_pending (exec (run_task (sv_fleet sample_server) 0 False) failing_world)) ''github:7'' = Some row
     \<and> pr_retry_count row = 1"
proof -
  let ?F = "sample_fleet test_env" and ?k = "JobKey ''github'' ''7''"
  let ?t = "sample_task\<lparr>ct_waiter := Some (Inl ''lost'')\<rparr>"
  let ?w = "exec (finish_command_failed ?F ?t (Some ?k) ''CreateRunner: lost'') (failing_world\<lparr>w_tasks := []\<rparr>)"
  have "exec (run_task (sv_fleet sample_server) 0 False) failing_world
      = exec (finish_create ?F ?t (Inl ''lost'')) (failing_world\<lparr>w_tasks := []\<rparr>)"
    by (simp add: run_task_def step_create_def drop_task_def failing_world_def get_at_def sample_server_def)
  also have "\<dots> = exec (count_failure (fl_env ?F) ?k (Some ''a'')) ?w"
    by (simp add: finish_create_def finish_on_demand_def sample_task_def handle_command_failure_def count_failure_def)
  finally have w': "exec (run_task (sv_fleet sample_server) 0 False) failing_world = \<dots>" .
  have k: "key_to_string ?k = ''github:7''" by (simp add: key_to_string_def)
  have row: "hm_get (st_pending ?w) (key_to_string ?k) = Some sample_pending"
    by (simp only: finish_command_failed_pending) (simp add: failing_world_def sample_world_def k)
  have up: "up (fl_env ?F)" using sample_up by (simp add: sample_server_def)
  show ?thesis
    unfolding w' using count_failure_tables(4) [OF up row, of "Some ''a''"] row
    by (auto simp: hm_get_modify MAX_RETRIES_def sample_pending_def k)
qed

theorem pending_jobs_have_retries_left_witness:
  "\<exists>row. hm_get (st_pending (exec (run_task (sv_fleet sample_server) 0 False) failing_world)) ''github:7'' = Some row
     \<and> pr_retry_count row = 1 \<and> pr_retry_count row < 3"
proof -
  obtain row where row: "hm_get (st_pending (exec (run_task (sv_fleet sample_server) 0 False) failing_world))
      ''github:7'' = Some row" "pr_retry_count row = 1" using failing_task_row by blast
  have "pr_retry_count row < 3"
    by (rule pending_jobs_have_retries_left [OF co_more [OF co_refl step_task] _ _ _ row(1)])
      (use sample_up in \<open>simp_all add: up_def failing_world_def sample_world_def hm_ok_def sample_pending_def\<close>)
  with row show ?thesis by blast
qed

text \<open>The guarantee needs the database at that one query: when looking up the job's runners fails,
  the answer reads as no runners, and a job that already has some gets one more.\<close>

theorem failed_lookup_adds_runner:
  assumes "pj_retry_count info < 3" and "hm_get (id_backoff (w_idle w)) k = None"
    and "\<not> db_up (fl_env F) (st_tick w + 1)" and "db_up (fl_env F) (st_tick w + 7)"
    and "for_job (fl_forges F) k = Inr forge" and "pj_repository info = None"
    and "select_agent_for_kind (pj_agent_labels info) (pj_failed_agents info) (fa_kind forge) (w_reg w) = Some aid"
    and "registry_agent aid (w_reg w) = Some a" and "has_capacity a (pj_agent_labels info) []"
    and "name = runner_name_for_host (hostname a) (take 8 (fresh_uuid (fl_env F) (st_tick w + 2)))"
    and "fa_create_job_runner forge (st_tick w + 5) (pj_runner_scope info) name (pj_agent_labels info)
           (runner_group_id (pj_runner_group info)) (key_id k) = Inr launch"
    and "\<not> hm_contains (st_runners w) name"
  shows "length (filter (\<lambda>(_, r). rr_job_id r = Some (key_to_string k)) (st_runners (exec (process_job F (k, info)) w)))
    = length (filter (\<lambda>(_, r). rr_job_id r = Some (key_to_string k)) (st_runners w)) + 1"
proof -
  have runs: "keeps (\<lambda>s. st_runners s = R) (runner_requested env r)" for R env r
    unfolding runner_requested_def by (intro hoare_intros keeps_ask keeps_query) simp_all
  have job: "keeps (\<lambda>s. st_runners s = R) (job_runner_created env j)" for R env j
    unfolding job_runner_created_def update_job_def by (intro hoare_intros keeps_ask keeps_query) simp_all
  have [simp]: "st_runners (exec (runner_requested env r) s) = st_runners s" for env r and s :: world
    using keepsD [OF runs refl] .
  have [simp]: "st_runners (exec (job_runner_created env j) s) = st_runners s" for env j and s :: world
    using keepsD [OF job refl] .
  have [simp]: "w_reg (w\<lparr>st_tick := n\<rparr>) = w_reg w" for n by simp
  note defs = process_job_def MAX_RETRIES_def job_backing_off_def runners_for_job_def run_query
    create_runner_on_demand_def Let_def new_runner_name_def registry_reserve_slot_def reserve_slot_def
    job_still_wanted_def start_runner_def log_call_def add_runner_def insert_runner_row_def
    agent_identity_def spawn_def
  show ?thesis
    using assms(1-9,11,12) assms(10) [symmetric]
    by (simp add: defs eval_nat_numeral hm_insert_new split: prod.split)
qed

definition failing_env :: env where
  "failing_env = test_env\<lparr>db_up := \<lambda>n. n \<noteq> 1\<rparr>"

definition running_world :: world where
  "running_world = sample_world\<lparr>st_runners := st_runners test_store\<rparr>"

definition sample_agent :: connected_agent where
  "sample_agent = (agent_new 0 ''a'' ''proxmox'' ''host-a'' 2 0 [''linux''] [] 0)"

lemma sample_reg: "rg_agents (w_reg running_world) = [(''a'', sample_agent)]"
  "registry_agent ''a'' (w_reg running_world) = Some sample_agent"
  by (simp_all add: running_world_def sample_world_def register_def Let_def empty_registry_def
      sample_agent_def agent_new_def registry_agent_def)

lemma sample_capacity: "has_capacity sample_agent [''linux''] []"
  by (simp add: has_capacity_def available_capacity_def sample_agent_def agent_new_def limits_for_def
      reserved_slots_def)

lemma sample_select: "select_agent_for_kind [''linux''] [] GitHub (w_reg running_world) = Some ''a''"
proof -
  have "matches_labels sample_agent [''linux'']"
    by (simp add: matches_labels_def sample_agent_def agent_new_def set_covers_def has_label_def)
  then show ?thesis
    by (simp add: select_agent_for_kind_def select_agent_where_def candidates_def sample_reg runs_def
        sample_capacity)
qed

theorem failed_lookup_adds_runner_witness:
  "length (filter (\<lambda>(_, r). rr_job_id r = Some (key_to_string (JobKey ''github'' ''7'')))
      (st_runners (exec (process_job (sample_fleet failing_env)
        (JobKey ''github'' ''7'', snd (the (row_to_pending_job (''github:7'', sample_pending))))) running_world)))
    = length (filter (\<lambda>(_, r). rr_job_id r = Some (key_to_string (JobKey ''github'' ''7''))) (st_runners running_world)) + 1"
proof -
  let ?info = "snd (the (row_to_pending_job (''github:7'', sample_pending)))"
  have info: "pj_retry_count ?info = 0" "pj_repository ?info = None" "pj_agent_labels ?info = [''linux'']"
    "pj_failed_agents ?info = []"
    by (simp_all add: row_to_pending_job_def sample_pending_def parse_key_def)
  have world: "st_tick running_world = 0" "id_backoff (w_idle running_world) = []"
    "map fst (st_runners running_world) = [''mac-1'']"
    by (simp_all add: running_world_def sample_world_def test_store_def)
  have used: "\<not> hm_contains (st_runners running_world) (runner_name_for_host host (take 8 (nat_to_string 2)))"
    if "host = ''host-a''" for host
    using world(3) that
    by (simp add: hm_contains_iff list.set_map [symmetric] runner_name_for_host_def Let_def MAX_RUNNER_HOST_LEN_def
        ascii_alphanumeric_def ascii_lower_def trim_dashes_def del: list.set_map)
  show ?thesis
    using used [of "hostname sample_agent"]
    by (intro failed_lookup_adds_runner [where forge = sample_forge and launch = "GitHubJit ''jit''"
          and a = sample_agent and aid = "''a''", OF _ _ _ _ _ _ _ sample_reg(2) _ refl])
      (simp_all add: info world sample_capacity sample_select sample_fleet_def failing_env_def test_env_def
        for_job_def registry_get_def sample_forge_def sample_agent_def [THEN arg_cong, of hostname] agent_new_def
        numeral_2_eq_2 [symmetric])
qed

end
