(* ===== verification/Fleet_Facts.thy ===== *)
theory Fleet_Facts
  imports Coordinator_Facts
begin

text \<open>
  What single handlers of the fleet manager do: slots given back on every early return, the end of a
  runner and what it means for its job, idle runners, pools and draining, and the scans.
\<close>

section \<open>Operations that leave the coordinator alone\<close>

text \<open>A quiet operation changes nothing but the history, the clock and the log of forge calls.\<close>

definition quiet :: "(world, 'a) state \<Rightarrow> bool" where
  "quiet m \<longleftrightarrow> (\<forall>w. let w' = exec m w in
     st_pending w' = st_pending w \<and> st_runners w' = st_runners w \<and> st_missing_since w' = st_missing_since w
     \<and> w_reg w' = w_reg w \<and> w_idle w' = w_idle w \<and> w_draining w' = w_draining w \<and> w_warned w' = w_warned w
     \<and> w_notify w' = w_notify w \<and> w_recovery w' = w_recovery w \<and> w_events w' = w_events w
     \<and> w_webhooks w' = w_webhooks w \<and> w_tasks w' = w_tasks w)"

named_theorems quiet_ops "operations that are quiet"

lemma quiet_fields:
  assumes "quiet m"
  shows "st_pending (exec m w) = st_pending w" "st_runners (exec m w) = st_runners w"
    "st_missing_since (exec m w) = st_missing_since w" "w_reg (exec m w) = w_reg w"
    "w_idle (exec m w) = w_idle w" "w_draining (exec m w) = w_draining w" "w_notify (exec m w) = w_notify w"
    "w_events (exec m w) = w_events w" "w_tasks (exec m w) = w_tasks w"
  using assms by (simp_all add: quiet_def Let_def)

lemma quiet_ret [quiet_ops]: "quiet (ret x)"
  and quiet_gets [quiet_ops]: "quiet (gets f)"
  and quiet_ask [quiet_ops]: "quiet (ask g)"
  and quiet_log_call [quiet_ops]: "quiet (log_call c)"
  by (simp_all add: quiet_def log_call_def Let_def)

lemma quiet_bind [quiet_ops]: "quiet m \<Longrightarrow> (\<And>x. quiet (f x)) \<Longrightarrow> quiet (m \<bind> f)"
  by (simp add: quiet_def Let_def)

lemma quiet_option [quiet_ops]: "quiet m \<Longrightarrow> (\<And>y. quiet (f y)) \<Longrightarrow> quiet (case x of None \<Rightarrow> m | Some y \<Rightarrow> f y)"
  by (cases x) simp_all

lemma quiet_history [quiet_ops, simp]:
  "quiet (update_run env n f)" "quiet (update_job env k g)"
  by (simp_all add: quiet_def Let_def update_run_def update_job_def run_query)

lemma quiet_insert_run [quiet_ops, simp]: "quiet (runner_requested env r)"
  and quiet_job_seen [quiet_ops, simp]: "quiet (job_seen env j)"
  and quiet_record_failure [quiet_ops, simp]: "quiet (record_failure env aid fk rn jk msg)"
  by (simp_all add: quiet_def Let_def runner_requested_def job_seen_def record_failure_def run_query
      split: option.split)

lemma quiet_runs [quiet_ops, simp]:
  "quiet (runner_acked env n)" "quiet (runner_started env n)" "quiet (runner_finished env n out err)"
  "quiet (record_timings env n ts)" "quiet (job_runner_created env k)" "quiet (job_ended env k out')"
  unfolding runner_acked_def runner_started_def runner_finished_def record_timings_def
    job_runner_created_def job_ended_def
  by (intro quiet_ops)+

lemma quiet_reads [quiet_ops, simp]:
  "quiet (get_all_pending_jobs env)" "quiet (get_runner env n)" "quiet (get_all_runners env)"
  "quiet (get_runners_for_agent env aid)" "quiet (runners_for_job env k)" "quiet (has_job env k)"
  "quiet (count_runners_for_agent env aid)" "quiet (count_runners_for_agent_pool env aid pool)"
  by (simp_all add: quiet_def Let_def get_all_pending_jobs_def get_runner_def get_all_runners_def
      get_runners_for_agent_def runners_for_job_def has_job_def count_runners_for_agent_def
      count_runners_for_agent_pool_def run_query)

lemma quiet_forge [quiet_ops, simp]:
  "quiet (get_job_status f repo k)" "quiet (forge_remove_runner f scope n)"
  "quiet (check_job_after_runner f repo' k)" "quiet (agent_identity aid)" "quiet (new_runner_name F aid)"
  "quiet (job_backing_off F k)"
  unfolding get_job_status_def forge_remove_runner_def check_job_after_runner_def agent_identity_def
    new_runner_name_def job_backing_off_def
  by (intro quiet_ops)+

lemmas quiet_simps [simp] =
  quiet_fields [OF quiet_runs(1)] quiet_fields [OF quiet_runs(2)] quiet_fields [OF quiet_runs(3)]
  quiet_fields [OF quiet_runs(4)] quiet_fields [OF quiet_runs(5)] quiet_fields [OF quiet_runs(6)]
  quiet_fields [OF quiet_insert_run] quiet_fields [OF quiet_job_seen] quiet_fields [OF quiet_record_failure]
  quiet_fields [OF quiet_reads(1)] quiet_fields [OF quiet_reads(2)] quiet_fields [OF quiet_reads(3)]
  quiet_fields [OF quiet_reads(4)] quiet_fields [OF quiet_reads(5)] quiet_fields [OF quiet_reads(6)]
  quiet_fields [OF quiet_reads(7)] quiet_fields [OF quiet_reads(8)]
  quiet_fields [OF quiet_forge(1)] quiet_fields [OF quiet_forge(2)] quiet_fields [OF quiet_forge(3)]
  quiet_fields [OF quiet_forge(4)] quiet_fields [OF quiet_forge(5)] quiet_fields [OF quiet_forge(6)]

text \<open>Removing rows touches one table; the registry and the tasks stay.\<close>

lemma remove_job_world [simp]:
  fixes w :: world
  shows "w_reg (exec (remove_job env k out) w) = w_reg w" "w_tasks (exec (remove_job env k out) w) = w_tasks w"
    "st_runners (exec (remove_job env k out) w) = st_runners w"
  by (simp_all add: remove_job_def run_query)

lemma remove_runner_world [simp]:
  fixes w :: world
  shows "w_reg (exec (remove_runner env n) w) = w_reg w" "w_tasks (exec (remove_runner env n) w) = w_tasks w"
    "st_pending (exec (remove_runner env n) w) = st_pending w"
  by (simp_all add: remove_runner_def run_query)

lemma add_runner_world [simp]:
  fixes w :: world
  shows "w_reg (exec (add_runner env n aid vm sc fo j jn rp wn pool) w) = w_reg w"
    "w_tasks (exec (add_runner env n aid vm sc fo j jn rp wn pool) w) = w_tasks w"
  by (simp_all add: add_runner_def run_query insert_runner_row_def)

section \<open>Slots\<close>

definition slot_of :: "string \<Rightarrow> string \<Rightarrow> registry \<Rightarrow> reservation option" where
  "slot_of aid n rg = (case registry_agent aid rg of None \<Rightarrow> None | Some a \<Rightarrow> hm_get (reservations a) n)"

lemma slot_release [simp]:
  "slot_of aid n (registry_release_slot aid' n' rg) =
     (if aid = aid' \<and> n = n' then None else slot_of aid n rg)"
  by (auto simp: slot_of_def registry_release_slot_def release_slot_def registry_agent_modify split: option.split)

lemma slot_reserve:
  "slot_of aid n (snd (registry_reserve_slot now aid' ls sid n' rg)) = slot_of aid n rg"
  if "(aid, n) \<noteq> (aid', n')"
  using that
  by (auto simp: slot_of_def registry_reserve_slot_def reserve_slot_def Let_def registry_agent_modify
      split: option.split prod.split)

lemma on_reg_exec [simp]: "exec (on_reg f) w = w\<lparr>w_reg := f (w_reg w)\<rparr>"
  by (simp add: on_reg_def)

lemma on_idle_exec [simp]: "exec (on_idle f) w = w\<lparr>w_idle := f (w_idle w)\<rparr>"
  by (simp add: on_idle_def)

lemma job_still_wanted_slots:
  fixes w :: world
  shows "w_tasks (exec (job_still_wanted F forge aid n repo k) w) = w_tasks w"
    and "w_reg (exec (job_still_wanted F forge aid n repo k) w) =
      (if result (job_still_wanted F forge aid n repo k) w then w_reg w
       else registry_release_slot aid n (w_reg w))"
  by (auto simp: job_still_wanted_def split: option.split sum.split)

lemma start_runner_slots:
  fixes w :: world
  assumes m: "m = start_runner F forge aid n cid ls scope grp k jn rp wn"
  shows "(w_tasks (exec m w) = w_tasks w \<and> w_reg (exec m w) = registry_release_slot aid n (w_reg w)
      \<and> (\<exists>e. result m w = Inl e))
    \<or> (\<exists>t. w_tasks (exec m w) = w_tasks w @ [CreateTask t] \<and> ct_agent t = aid \<and> ct_runner t = n
        \<and> ct_kind t = OnDemand k rp \<and> w_reg (exec m w) = w_reg w \<and> result m w = Inr ())"
  by (auto simp: m start_runner_def spawn_def quiet_fields [OF quiet_log_call] split: sum.split prod.split)

lemma reserve_slot_taken:
  assumes "registry_agent aid rg = Some a" and "fst (registry_reserve_slot now aid ls sid n rg)"
  shows "slot_of aid n (snd (registry_reserve_slot now aid ls sid n rg)) \<noteq> None"
  using assms
  by (auto simp: slot_of_def registry_reserve_slot_def reserve_slot_def Let_def registry_agent_modify
      split: option.split prod.split if_splits)

lemma reserve_slot_refused:
  "\<not> fst (registry_reserve_slot now aid ls sid n rg) \<Longrightarrow>
   slot_of aid' n' (snd (registry_reserve_slot now aid ls sid n rg)) = slot_of aid' n' rg"
  by (auto simp: slot_of_def registry_reserve_slot_def reserve_slot_def Let_def registry_agent_modify
      split: option.splits prod.split if_splits)

text \<open>The run of \<open>create_runner_on_demand\<close> once an agent is found, by its two decisions.\<close>

lemma create_runner_on_demand_run:
  fixes w :: world and scope :: runner_scope and grp :: nat and jn rp wn :: "string option"
  assumes "for_job (fl_forges F) k = Inr forge" and "select_agent_for_kind ls avoid (fa_kind forge) (w_reg w) = Some aid"
  defines "m \<equiv> create_runner_on_demand F ls avoid scope grp k jn rp wn"
    and "n \<equiv> result (new_runner_name F aid) w" and "w1 \<equiv> exec (new_runner_name F aid) w"
  defines "r \<equiv> registry_reserve_slot (instant (fl_env F) (st_tick w1 + 1)) aid ls [] n (w_reg w)"
  defines "w2 \<equiv> w1\<lparr>st_tick := st_tick w1 + 2, w_reg := snd r\<rparr>"
    and "check \<equiv> job_still_wanted F forge aid n rp k"
    and "start \<equiv> start_runner F forge aid n (fresh_uuid (fl_env F) (st_tick w1)) ls scope grp k jn rp wn"
  shows "exec m w = (if \<not> fst r then w2 else if \<not> result check w2 then exec check w2 else exec start (exec check w2))"
    and "result m w = (if \<not> fst r then Inl (''Failed to reserve slot on agent '' @ aid @ '' (might be at capacity)'')
      else if \<not> result check w2 then Inr () else result start (exec check w2))"
  using assms(1,2) unfolding assms(3-) by (simp_all add: create_runner_on_demand_def Let_def)

lemma create_runner_slots_found:
  fixes w :: world
  assumes found: "for_job (fl_forges F) k = Inr forge"
      "select_agent_for_kind ls avoid (fa_kind forge) (w_reg w) = Some aid"
    and new: "slot_of aid (result (new_runner_name F aid) w) (w_reg w) = None"
    and m: "m = create_runner_on_demand F ls avoid scope grp k jn rp wn"
  shows "(w_tasks (exec m w) = w_tasks w \<and> (\<forall>aid n. slot_of aid n (w_reg (exec m w)) = slot_of aid n (w_reg w)))
    \<or> (\<exists>t. result m w = Inr () \<and> w_tasks (exec m w) = w_tasks w @ [CreateTask t] \<and> ct_kind t = OnDemand k rp
         \<and> slot_of (ct_agent t) (ct_runner t) (w_reg (exec m w)) \<noteq> None
         \<and> (\<forall>aid n. (aid, n) \<noteq> (ct_agent t, ct_runner t) \<longrightarrow>
              slot_of aid n (w_reg (exec m w)) = slot_of aid n (w_reg w)))"
proof -
  let ?n = "result (new_runner_name F aid) w" and ?w1 = "exec (new_runner_name F aid) w"
  let ?r = "registry_reserve_slot (instant (fl_env F) (st_tick ?w1 + 1)) aid ls [] ?n (w_reg w)"
  let ?w2 = "?w1\<lparr>st_tick := st_tick ?w1 + 2, w_reg := snd ?r\<rparr>" and ?check = "job_still_wanted F forge aid ?n rp k"
  note run = create_runner_on_demand_run [OF found, of scope grp jn rp wn, folded m]
  have released: "slot_of aid' n' (registry_release_slot aid ?n (snd ?r)) = slot_of aid' n' (w_reg w)" for aid' n'
    using new slot_reserve by auto
  consider "\<not> fst ?r" | "fst ?r" "\<not> result ?check ?w2" | "fst ?r" "result ?check ?w2" by blast
  then show ?thesis
  proof cases
    case 1
    then show ?thesis by (simp add: run reserve_slot_refused)
  next
    case 2
    then show ?thesis using released by (simp add: run job_still_wanted_slots)
  next
    case 3
    then obtain a where "registry_agent aid (w_reg w) = Some a"
      by (auto simp: registry_reserve_slot_def split: option.splits)
    from reserve_slot_taken [OF this 3(1)] have taken: "slot_of aid ?n (snd ?r) \<noteq> None" .
    have "w_reg (exec ?check ?w2) = snd ?r" "w_tasks (exec ?check ?w2) = w_tasks w"
      using 3 by (simp_all add: job_still_wanted_slots)
    with start_runner_slots [OF refl, of F forge aid ?n "fresh_uuid (fl_env F) (st_tick ?w1)" ls scope grp k jn rp wn
        "exec ?check ?w2"] show ?thesis
      using 3 taken released slot_reserve by (auto simp: run)
  qed
qed

text \<open>C2: Making a runner for a job either spawns the task that sends its command, with the runner's slot
  reserved on the chosen agent, or leaves every reservation as it was: on a job that is no longer queued,
  a forge that refuses, a missing forge or agent, and a full agent. The name must be new to the agent.\<close>

theorem create_runner_slots:
  fixes w :: world
  assumes "\<forall>aid. slot_of aid (result (new_runner_name F aid) w) (w_reg w) = None"
  shows "let m = create_runner_on_demand F ls avoid scope grp k jn rp wn; w' = exec m w in
    (w_tasks w' = w_tasks w \<and> (\<forall>aid n. slot_of aid n (w_reg w') = slot_of aid n (w_reg w)))
    \<or> (\<exists>t. result m w = Inr () \<and> w_tasks w' = w_tasks w @ [CreateTask t] \<and> ct_kind t = OnDemand k rp
         \<and> slot_of (ct_agent t) (ct_runner t) (w_reg w') \<noteq> None
         \<and> (\<forall>aid n. (aid, n) \<noteq> (ct_agent t, ct_runner t) \<longrightarrow> slot_of aid n (w_reg w') = slot_of aid n (w_reg w)))"
proof (cases "for_job (fl_forges F) k")
  case (Inl e)
  then show ?thesis by (simp add: create_runner_on_demand_def Let_def)
next
  case (Inr forge)
  show ?thesis
  proof (cases "select_agent_for_kind ls avoid (fa_kind forge) (w_reg w)")
    case None
    with Inr show ?thesis by (simp add: create_runner_on_demand_def Let_def)
  next
    case (Some aid)
    have "slot_of aid (result (new_runner_name F aid) w) (w_reg w) = None" using assms by blast
    from create_runner_slots_found [OF Inr Some this refl] show ?thesis by (simp only: Let_def)
  qed
qed

lemma sample_slots: "slot_of aid n (w_reg sample_world) = None"
  by (simp add: slot_of_def registry_agent_def sample_world_def register_def Let_def empty_registry_def agent_new_def)

theorem create_runner_slots_witness:
  "let m = create_runner_on_demand (sample_fleet test_env) [''linux''] [] (Organization ''acme'') 1
       (JobKey ''github'' ''7'') None None None; w' = exec m sample_world in
    (w_tasks w' = w_tasks sample_world \<and> (\<forall>aid n. slot_of aid n (w_reg w') = slot_of aid n (w_reg sample_world)))
    \<or> (\<exists>t. result m sample_world = Inr () \<and> w_tasks w' = w_tasks sample_world @ [CreateTask t]
         \<and> ct_kind t = OnDemand (JobKey ''github'' ''7'') None
         \<and> slot_of (ct_agent t) (ct_runner t) (w_reg w') \<noteq> None
         \<and> (\<forall>aid n. (aid, n) \<noteq> (ct_agent t, ct_runner t) \<longrightarrow>
              slot_of aid n (w_reg w') = slot_of aid n (w_reg sample_world)))"
  by (rule create_runner_slots) (simp add: sample_slots)

section \<open>The end of a create task\<close>

lemma count_failure_world [simp]:
  fixes w :: world
  shows "w_reg (exec (increment_retry_count env k fa) w) = w_reg w"
    "w_tasks (exec (increment_retry_count env k fa) w) = w_tasks w"
    "w_calls (exec (increment_retry_count env k fa) w) = w_calls w"
    "st_runners (exec (increment_retry_count env k fa) w) = st_runners w"
  by (simp_all add: increment_retry_count_def run_query record_failed_agent_def get_job_def
      split: option.split prod.split)

lemma handle_command_failure_world [simp]:
  fixes w :: world
  shows "w_reg (exec (handle_command_failure F k aid) w) = w_reg w"
    "w_tasks (exec (handle_command_failure F k aid) w) = w_tasks w"
    "st_runners (exec (handle_command_failure F k aid) w) = st_runners w"
    "w_calls (exec (handle_command_failure F k aid) w) = w_calls w"
  by (simp_all add: handle_command_failure_def remove_job_def job_ended_def update_job_def run_query
      split: option.split)

lemma drop_runner_world:
  fixes w :: world
  assumes "up (fl_env F)"
  shows "w_reg (exec (drop_runner F t) w) = w_reg w" "w_tasks (exec (drop_runner F t) w) = w_tasks w"
    "st_runners (exec (drop_runner F t) w) = hm_remove (ct_runner t) (st_runners w)"
    "w_calls (exec (drop_runner F t) w) = w_calls w @ [RemoveCall (ct_scope t) (ct_runner t)]"
  using assms
  by (simp_all add: drop_runner_def remove_runner_def run_query forge_remove_runner_def log_call_def)

lemma finish_failed_world:
  fixes w :: world
  assumes "up (fl_env F)" and "m = finish_rejected F t j err \<or> m = finish_command_failed F t j err"
  shows "w_reg (exec m w) = registry_release_slot (ct_agent t) (ct_runner t) (w_reg w)"
    "w_tasks (exec m w) = w_tasks w"
    "st_runners (exec m w) = hm_remove (ct_runner t) (st_runners w)"
    "RemoveCall (ct_scope t) (ct_runner t) \<in> set (w_calls (exec m w))"
  using assms(2)
  by (auto simp: finish_rejected_def finish_command_failed_def drop_runner_world [OF assms(1)])

lemma notify_world [simp]:
  "w_reg (notify w) = w_reg w" "w_tasks (notify w) = w_tasks w" "w_calls (notify w) = w_calls w"
  "st_runners (notify w) = st_runners w" "st_pending (notify w) = st_pending w"
  by (simp_all add: notify_def)

text \<open>C3: Unless the agent accepted the command, the task of a runner gives everything back, however the
  command ended (a refusal, a legacy result, an unexpected answer, an error or a timeout): the slot is
  released, the runner's record deleted, and the runner removed from its forge.\<close>

theorem finish_create_cleans_up:
  fixes w :: world
  assumes "\<forall>ack. outcome = Inr (Some (Ack ack)) \<longrightarrow> \<not> ack_accepted ack" and "\<forall>n. db_up (fl_env F) n"
  shows "let w' = exec (finish_create F t outcome) w in
    w_reg w' = registry_release_slot (ct_agent t) (ct_runner t) (w_reg w)
    \<and> st_runners w' = hm_remove (ct_runner t) (st_runners w)
    \<and> RemoveCall (ct_scope t) (ct_runner t) \<in> set (w_calls w') \<and> w_tasks w' = w_tasks w"
proof -
  have up: "up (fl_env F)" using assms(2) by (simp add: up_def)
  note drop = drop_runner_world [OF up]
  note failed = finish_failed_world [OF up disjI1 [OF refl]] finish_failed_world [OF up disjI2 [OF refl]]
  show ?thesis
    using assms(1)
    by (cases "ct_kind t"; cases outcome)
      (auto simp: finish_create_def finish_on_demand_def finish_pool_def finish_result_def Let_def drop failed
        split: option.split agent_payload.split job_check.split)
qed

theorem finish_create_cleans_up_witness:
  "let w' = exec (finish_create (sample_fleet test_env) sample_task (Inl ''timeout'')) running_world in
    w_reg w' = registry_release_slot (ct_agent sample_task) (ct_runner sample_task) (w_reg running_world)
    \<and> st_runners w' = hm_remove (ct_runner sample_task) (st_runners running_world)
    \<and> RemoveCall (ct_scope sample_task) (ct_runner sample_task) \<in> set (w_calls w')
    \<and> w_tasks w' = w_tasks running_world"
  by (rule finish_create_cleans_up) (simp_all add: sample_fleet_def test_env_def)

end
