(* ===== verification/Fleet_Guarantees.thy ===== *)
theory Fleet_Guarantees
  imports Fleet_Facts
begin

text \<open>
  The decisions of the fleet manager: what the end of a runner does to its job, which events count as
  failures, how many runners a pool gets, which runners a drain destroys, and what the scans add and drop.
\<close>

section \<open>The end of a runner\<close>

text \<open>When a runner completes, its job leaves the queue unless the forge still lists it as queued
  or doesn't answer: the runner may have run another job with the same labels. A job without a repository
  can't be asked about and counts as run.\<close>

theorem completed_runner_keeps_queued_job:
  fixes w :: world
  assumes "\<forall>n. db_up (fl_env F) n" and "for_job (fl_forges F) k = Inr forge"
  shows "st_pending (exec (settle_job F aid Completed info k) w) =
    (case ri_repository info of
       None \<Rightarrow> hm_remove (key_to_string k) (st_pending w)
     | Some repo \<Rightarrow>
         (case fa_job_status forge (st_tick w) repo (key_id k) of
            Inl e \<Rightarrow> st_pending w
          | Inr (Some s) \<Rightarrow> if s = ''queued'' then st_pending w else hm_remove (key_to_string k) (st_pending w)
          | Inr None \<Rightarrow> hm_remove (key_to_string k) (st_pending w)))"
proof -
  have "up (fl_env F)" using assms(1) by (simp add: up_def)
  then show ?thesis
    using assms(2)
    by (simp add: settle_job_def check_job_after_runner_def get_job_status_def remove_job_tables
        split: option.split sum.split)
qed

definition sample_info :: runner_info where
  "sample_info = snd (row_to_runner_info (hd (st_runners test_store)))"

theorem completed_runner_keeps_queued_job_witness:
  "st_pending (exec (settle_job (sample_fleet test_env) ''a'' Completed sample_info (JobKey ''github'' ''7'')) sample_world)
   = st_pending sample_world"
  using completed_runner_keeps_queued_job [of "sample_fleet test_env" "JobKey ''github'' ''7''" sample_forge
      "''a''" sample_info sample_world]
  by (simp add: sample_fleet_def test_env_def for_job_def registry_get_def sample_info_def test_store_def
      row_to_runner_info_def sample_forge_def)

text \<open>An event about a runner that was torn down for idling before is ignored: it counts no retry and
  no failure, and starts nothing.\<close>

theorem late_idle_event_ignored:
  fixes w :: world
  assumes "hm_get (id_torn_down (w_idle w)) n = Some t" and "hm_get (id_tearing_down (w_idle w)) n = None"
  shows "let w' = exec (handle_end F aid n ty err) w in
    st_pending w' = st_pending w \<and> st_runners w' = st_runners w \<and> st_failures w' = st_failures w
    \<and> st_runs w' = st_runs w \<and> w_reg w' = w_reg w \<and> w_tasks w' = w_tasks w"
  using assms
  by (simp add: handle_end_def take_idle_marks_def on_idle_result_def result_def [of "State _"] exec_def [of "State _"]
      Let_def hm_contains_def get_runner_def run_query)

definition torn_down_world :: world where
  "torn_down_world = sample_world\<lparr>w_idle := (w_idle sample_world)\<lparr>id_torn_down := [(''mac-1'', 5)]\<rparr>\<rparr>"

theorem late_idle_event_ignored_witness:
  "let w' = exec (handle_end (sample_fleet test_env) ''a'' ''mac-1'' Failed ''killed'') torn_down_world in
    st_pending w' = st_pending torn_down_world \<and> st_runners w' = st_runners torn_down_world
    \<and> st_failures w' = st_failures torn_down_world \<and> st_runs w' = st_runs torn_down_world
    \<and> w_reg w' = w_reg torn_down_world \<and> w_tasks w' = w_tasks torn_down_world"
  by (rule late_idle_event_ignored [where t = 5]) (simp_all add: torn_down_world_def sample_world_def)

section \<open>Recovery\<close>

text \<open>C26: A watcher of a recovered runner that finds the agent disconnected forgets the runner at once:
  it deletes the runner's record and removes the runner from its forge, although the runner may still run
  on the agent and the grace period of the disconnect has not passed. The runner's job then has no runner
  on record, so it can get a second one.\<close>

theorem watcher_forgets_disconnected_runner:
  fixes w :: world
  assumes "registry_agent aid (w_reg w) = None" and "\<forall>n. db_up env n" and "env = fl_env F"
  shows "let w' = exec (watcher_tick F n aid scope forge) w in
    result (watcher_tick F n aid scope forge) w
    \<and> hm_get (st_runners w') n = None \<and> RemoveCall scope n \<in> set (w_calls w')
    \<and> st_pending w' = st_pending w"
  using assms
  by (simp add: watcher_tick_def Let_def remove_runner_def run_query forge_remove_runner_def log_call_def)

theorem watcher_forgets_disconnected_runner_witness:
  "let w' = exec (watcher_tick (sample_fleet test_env) ''mac-1'' ''gone'' (Organization ''acme'') sample_forge) running_world in
    result (watcher_tick (sample_fleet test_env) ''mac-1'' ''gone'' (Organization ''acme'') sample_forge) running_world
    \<and> hm_get (st_runners w') ''mac-1'' = None \<and> RemoveCall (Organization ''acme'') ''mac-1'' \<in> set (w_calls w')
    \<and> st_pending w' = st_pending running_world"
  by (rule watcher_forgets_disconnected_runner [where env = test_env])
    (simp_all add: registry_agent_def sample_reg sample_fleet_def test_env_def)

section \<open>Streams\<close>

lemma reconnect_registry:
  fixes cap :: agent_capacity and now mx act :: nat and ty host :: string and ls :: "string list"
    and lsets :: "string list list"
  assumes "registry_agent aid rg = Some a" and "command_tx a = old" and "old \<noteq> new"
    and "pending_commands a = []" and "hm_ok (rg_agents rg)"
    and others: "\<forall>k b. (k, b) \<in> set (rg_agents rg) \<and> k \<noteq> aid \<longrightarrow> command_tx b \<noteq> old"
    and "\<forall>b \<in> set (rg_detached rg). command_tx b \<noteq> old"
  defines "rg' \<equiv> set_capacity aid cap (register now aid ty host mx act ls lsets new rg)"
  shows "\<exists>b. registry_agent aid rg' = Some b \<and> command_tx b = new"
    and "\<not> sender_alive rg' old"
    and "rg_streams rg' = insert new (rg_streams rg)"
proof -
  have get: "hm_get (rg_agents rg') k = Some b \<longleftrightarrow>
      (if k = aid then hm_get (rg_agents rg') aid = Some b else hm_get (rg_agents rg) k = Some b)" for k b
    by (simp add: rg'_def set_capacity_def modify_agent_def register_def Let_def hm_get_modify)
  have entry: "\<exists>b. hm_get (rg_agents rg') aid = Some b \<and> command_tx b = new"
    by (simp add: rg'_def set_capacity_def modify_agent_def register_def Let_def hm_get_modify agent_new_def)
  then show "\<exists>b. registry_agent aid rg' = Some b \<and> command_tx b = new" by (simp add: registry_agent_def)
  have "command_tx b \<noteq> old" if "hm_get (rg_agents rg') k = Some b" for k b
    using that entry assms(3) others map_of_SomeD [of "rg_agents rg" k b] get [of k b] by (cases "k = aid") auto
  moreover have "hm_ok (rg_agents rg')"
    using assms(5) by (simp add: rg'_def set_capacity_def modify_agent_def register_def Let_def)
  ultimately have "\<forall>x \<in> set (rg_agents rg'). command_tx (snd x) \<noteq> old"
    using hm_get_iff_mem by (metis prod.collapse)
  moreover have "\<not> list_ex (\<lambda>a. command_tx a = old) (rg_detached rg')"
    using assms(1,4,7)
    by (simp add: rg'_def set_capacity_def register_def Let_def detach_def registry_agent_def list_ex_iff)
  ultimately show "\<not> sender_alive rg' old" by (auto simp: sender_alive_def list_ex_iff)
  show "rg_streams rg' = insert new (rg_streams rg)" by (simp add: rg'_def set_capacity_def register_def Let_def)
qed

text \<open>C25: When an agent connects again before its old stream has noticed the loss, and no command is
  waiting on the old connection, registering closes the old stream's command channel; the old stream then
  ends and unregisters the agent by its id, which removes the entry of the new connection although its
  stream is open. The agent stays unknown until it connects once more.\<close>

theorem old_stream_unregisters_new_connection:
  fixes w :: world
  assumes "registry_agent aid (w_reg w) = Some a" and "command_tx a = old" and "old \<noteq> new"
    and "pending_commands a = []" and "hm_ok (rg_agents (w_reg w))"
    and "\<forall>k b. (k, b) \<in> set (rg_agents (w_reg w)) \<and> k \<noteq> aid \<longrightarrow> command_tx b \<noteq> old"
    and "\<forall>b \<in> set (rg_detached (w_reg w)). command_tx b \<noteq> old"
    and "parse_agent_type (st_agent_type st) = Inr ty"
  shows "let w1 = exec (connect_stream S aid (Some (Status st)) new) w; w2 = exec (end_stream S aid old) w1 in
    (\<exists>b. registry_agent aid (w_reg w1) = Some b \<and> command_tx b = new)
    \<and> stream_commands_closed old w1
    \<and> registry_agent aid (w_reg w2) = None \<and> new \<in> rg_streams (w_reg w2)"
proof -
  let ?w1 = "exec (connect_stream S aid (Some (Status st)) new) w"
  let ?rg = "set_capacity aid (agent_capacity_from st)
      (register (instant (fl_env (sv_fleet S)) (st_tick w)) aid ty (st_hostname st) (st_max_vms st)
        (st_active_vms st) (st_labels st) (map ls_labels (st_label_sets st)) new (w_reg w))"
  have reg: "w_reg ?w1 = ?rg"
    using assms(8) by (simp add: connect_stream_def first_status_def notify_with_recovery_def)
  note again = reconnect_registry [OF assms(1-7)]
  have "registry_agent aid (snd (unregister t aid ?rg)) = None" for t
    by (simp add: registry_agent_def unregister_def Let_def split: option.split)
  moreover have "rg_streams (snd (unregister t aid ?rg)) = rg_streams ?rg" for t
    by (simp add: unregister_def Let_def split: option.split)
  ultimately have "registry_agent aid (w_reg (exec (end_stream S aid old) ?w1)) = None
      \<and> new \<in> rg_streams (w_reg (exec (end_stream S aid old) ?w1))"
    using assms(3) again(3)
    by (simp add: end_stream_def reg close_stream_def registry_agent_def spawn_def)
  with again(1,2) show ?thesis by (simp add: Let_def reg stream_commands_closed_def)
qed

definition sample_status :: agent_status where
  "sample_status = \<lparr>st_active_vms = 0, st_vms = [], st_hostname = ''host-a'', st_agent_type = ''proxmox'',
     st_labels = [''linux''], st_max_vms = 2, st_label_sets = [], st_limits = [], st_runner_kinds = []\<rparr>"

theorem old_stream_unregisters_new_connection_witness:
  "let w1 = exec (connect_stream sample_server ''a'' (Some (Status sample_status)) 1) running_world;
       w2 = exec (end_stream sample_server ''a'' 0) w1 in
    (\<exists>b. registry_agent ''a'' (w_reg w1) = Some b \<and> command_tx b = 1)
    \<and> stream_commands_closed 0 w1
    \<and> registry_agent ''a'' (w_reg w2) = None \<and> 1 \<in> rg_streams (w_reg w2)"
proof (rule old_stream_unregisters_new_connection [OF sample_reg(2), where ty = "''proxmox''"])
  show "\<forall>b \<in> set (rg_detached (w_reg running_world)). command_tx b \<noteq> 0"
    by (simp add: running_world_def sample_world_def register_def Let_def empty_registry_def detach_def)
  show "parse_agent_type (st_agent_type sample_status) = Inr ''proxmox''"
    by (simp add: parse_agent_type_def sample_status_def to_lowercase_def ascii_lower_def agent_type_char_def Let_def)
qed (simp_all add: sample_reg sample_agent_def agent_new_def hm_ok_def)

section \<open>Pools\<close>




lemma sum_agent_runners_world [simp]:
  fixes w :: world
  shows "w_reg (exec (sum_agent_runners F as n) w) = w_reg w" "w_tasks (exec (sum_agent_runners F as n) w) = w_tasks w"
  by (induction as arbitrary: n w) simp_all

lemma count_pool_world [simp]:
  fixes w :: world
  shows "w_reg (exec (count_runners_for_pool F p) w) = w_reg w"
    "w_tasks (exec (count_runners_for_pool F p) w) = w_tasks w"
  by (simp_all add: count_runners_for_pool_def split: option.split)


text \<open>C12: Draining destroys no runner that may be busy: a destroy is sent only for a pool runner of an
  unavailable agent that its forge has just unregistered, or that has not registered within ten minutes.
  A runner of a job, and one the forge calls busy or can't be asked about, is left alone.\<close>

theorem drain_spares_busy_runners:
  fixes w :: world
  assumes "answer = fa_remove_idle_runner (runner_forge F (ri_forge info)) (st_tick w + 1) (ri_runner_scope info) n"
    and "rg_sent (w_reg (exec (drain_runner F unavail utc (n, info)) w)) \<noteq> rg_sent (w_reg w)"
  shows "ri_job_id info = None \<and> ri_agent_id info \<in> unavail
    \<and> (answer = Inr Removed \<or> answer = Inr NotRegistered \<and> utc - ri_created_at info \<ge> 600000)"
proof -
  have "rg_sent (w_reg (exec (drain_runner F unavail utc (n, info)) w)) = rg_sent (w_reg w)"
    if "\<not> (ri_job_id info = None \<and> ri_agent_id info \<in> unavail
      \<and> (answer = Inr Removed \<or> answer = Inr NotRegistered \<and> utc - ri_created_at info \<ge> 600000))"
  proof (cases "ri_job_id info \<noteq> None \<or> ri_agent_id info \<notin> unavail")
    case True
    then show ?thesis by (auto simp: drain_runner_def)
  next
    case False
    with that have "drain_step_of r (utc - ri_created_at info) = Keep" if "answer = Inr r" for r
      using that by (cases r) (auto simp: drain_step_of_def DRAIN_BOOT_GRACE_def)
    with False show ?thesis
      using assms(1) by (auto simp: drain_runner_def Let_def log_call_def split: sum.split option.split)
  qed
  with assms(2) show ?thesis by blast
qed

definition pool_info :: runner_info where
  "pool_info = sample_info\<lparr>ri_job_id := None, ri_forge := None\<rparr>"

theorem drain_spares_busy_runners_witness:
  "ri_job_id pool_info = None \<and> ri_agent_id pool_info \<in> {''a''}
    \<and> (fa_remove_idle_runner (runner_forge (sample_fleet test_env) (ri_forge pool_info)) (st_tick running_world + 1)
         (ri_runner_scope pool_info) ''mac-1'' = Inr Removed
       \<or> fa_remove_idle_runner (runner_forge (sample_fleet test_env) (ri_forge pool_info)) (st_tick running_world + 1)
         (ri_runner_scope pool_info) ''mac-1'' = Inr NotRegistered \<and> 0 - ri_created_at pool_info \<ge> 600000)"
proof (rule drain_spares_busy_runners [OF refl])
  have "command_tx sample_agent \<in> rg_streams (w_reg running_world)"
    by (simp add: sample_agent_def agent_new_def running_world_def sample_world_def register_def Let_def)
  then show "rg_sent (w_reg (exec (drain_runner (sample_fleet test_env) {''a''} 0 (''mac-1'', pool_info)) running_world))
      \<noteq> rg_sent (w_reg running_world)"
    by (simp add: drain_runner_def Let_def log_call_def pool_info_def sample_info_def row_to_runner_info_def test_store_def
        runner_forge_def for_runner_def default_forge_def sample_fleet_def sample_forge_def drain_step_of_def
        send_no_reply_def sample_reg running_world_def [THEN arg_cong, of w_draining] sample_world_def)
qed

section \<open>Scans\<close>

lemma verify_pending_job_other:
  fixes w :: world
  assumes "valid_key k" and "valid_key k'" and "k' \<noteq> k"
  shows "hm_get (st_pending (exec (verify_pending_job F (k', info)) w)) (key_to_string k)
    = hm_get (st_pending w) (key_to_string k)"
proof -
  have ne: "key_to_string k' \<noteq> key_to_string k" using assms by (simp add: key_to_string_inj)
  have rm: "hm_get (st_pending (exec (remove_job env k' out) s)) (key_to_string k)
      = hm_get (st_pending s) (key_to_string k)" for env out and s :: world
    using ne by (simp add: remove_job_def run_query)
  show ?thesis
    by (simp add: verify_pending_job_def rm split: option.split sum.split)
qed

lemma verify_others:
  fixes w :: world
  assumes "valid_key k" and "\<forall>(k', i) \<in> set jobs. valid_key k' \<and> k' \<noteq> k"
  shows "hm_get (st_pending (exec (for_each jobs (verify_pending_job F)) w)) (key_to_string k)
    = hm_get (st_pending w) (key_to_string k)"
  using assms(2)
  by (induction jobs arbitrary: w) (auto simp: verify_pending_job_other [OF assms(1)])

text \<open>A scan drops no job of a forge it couldn't list, and none it saw queued: the polling mode
  verifies only the pending jobs that a forge it listed no longer names, so such a job's row stays as it
  is.\<close>

theorem scan_spares_unlisted_forges:
  fixes w :: world
  assumes "valid_key k" and "key_forge k \<notin> qs_forges scan \<or> k \<in> qs_seen scan"
  shows "hm_get (st_pending (exec (verify_dropped_pending_jobs F scan) w)) (key_to_string k)
    = hm_get (st_pending w) (key_to_string k)"
proof -
  have "valid_key k' \<and> k' \<noteq> k" if "(k', i) \<in> set (dropped_pending_jobs (all_pending t) scan)" for k' i t
  proof -
    from that have "(k', i) \<in> set (all_pending t)" "key_forge k' \<in> qs_forges scan" "k' \<notin> qs_seen scan"
      by (auto simp: dropped_pending_jobs_def)
    with assms(2) show ?thesis
      using row_to_pending_job_Some parse_key_valid by (fastforce simp: all_pending_mem)
  qed
  then have others: "\<forall>(k', i) \<in> set (dropped_pending_jobs (all_pending t) scan). valid_key k' \<and> k' \<noteq> k" for t
    by fastforce
  show ?thesis
  proof (cases "db_up (fl_env F) (st_tick w)")
    case True
    then show ?thesis
      by (simp add: verify_dropped_pending_jobs_def get_all_pending_jobs_def run_query
          verify_others [OF assms(1) others])
  next
    case False
    then show ?thesis
      by (simp add: verify_dropped_pending_jobs_def get_all_pending_jobs_def run_query dropped_pending_jobs_def)
  qed
qed

theorem scan_spares_unlisted_forges_witness:
  "hm_get (st_pending (exec (verify_dropped_pending_jobs (sample_fleet test_env) \<lparr>qs_forges = {''forgejo''}, qs_seen = {}\<rparr>)
      sample_world)) (key_to_string (JobKey ''github'' ''7''))
    = hm_get (st_pending sample_world) (key_to_string (JobKey ''github'' ''7''))"
  by (rule scan_spares_unlisted_forges) (simp_all add: valid_key_def)

lemma recover_job_accepts:
  fixes w :: world
  assumes "\<forall>n. db_up (fl_env F) n"
    and "hm_get (st_pending w) (key_to_string k) = None"
    and "\<forall>(n, r) \<in> set (st_runners w). rr_job_id r \<noteq> Some (key_to_string k)"
  shows "result (recover_job F filters (k, job)) w \<longleftrightarrow>
      list_all (has_label (qj_labels job)) (jf_required_labels filters)
      \<and> (jf_label_mappings filters = [] \<or>
         (\<exists>r \<in> set (jf_label_mappings filters). (lr_forge r = None \<or> lr_forge r = Some (key_forge k))
            \<and> list_all (has_label (qj_labels job)) (lr_labels r)))"
    and "hm_contains (st_pending (exec (recover_job F filters (k, job)) w)) (key_to_string k)
      = result (recover_job F filters (k, job)) w"
proof -
  have up: "db_up (fl_env F) n" for n using assms(1) by blast
  have none: "job_rows k (st_runners w) = []"
    using assms(3) by (auto simp: job_rows_def filter_empty_conv)
  let ?res = "resolve_runner_scope k (qj_labels job) (jf_label_mappings filters) (qj_runner_scope job)"
  have res: "result (recover_job F filters (k, job)) w \<longleftrightarrow>
      has_required_labels (qj_labels job) (jf_required_labels filters) \<and> ?res \<noteq> None"
    using assms(2) up none
    by (auto simp: recover_job_def has_job_def run_query runners_for_job_def add_job_pending split: option.split)
  then show "result (recover_job F filters (k, job)) w \<longleftrightarrow>
      list_all (has_label (qj_labels job)) (jf_required_labels filters)
      \<and> (jf_label_mappings filters = [] \<or>
         (\<exists>r \<in> set (jf_label_mappings filters). (lr_forge r = None \<or> lr_forge r = Some (key_forge k))
            \<and> list_all (has_label (qj_labels job)) (lr_labels r)))"
    using resolve_Some_iff [of k "qj_labels job" "jf_label_mappings filters" "qj_runner_scope job"]
    by (simp add: has_required_labels_def)
  have "st_pending (exec (recover_job F filters (k, job)) w) =
      (case ?res of None \<Rightarrow> st_pending w | Some (scope, grp) \<Rightarrow>
         if has_required_labels (qj_labels job) (jf_required_labels filters)
         then insert_ignore (key_to_string k) (new_pending_row (utc_now (fl_env F) (st_tick w + 2))
                (recover_request k job scope grp)) (st_pending w)
         else st_pending w)"
    using assms(2) up none
    by (auto simp: recover_job_def has_job_def run_query runners_for_job_def add_job_pending recover_request_def
        split: option.split)
  then show "hm_contains (st_pending (exec (recover_job F filters (k, job)) w)) (key_to_string k)
      = result (recover_job F filters (k, job)) w"
    unfolding res using assms(2)
    by (auto simp: hm_contains_def insert_ignore_get split: option.split)
qed

text \<open>C11: A scan accepts exactly the jobs the webhook accepts: a queued job the coordinator doesn't know
  yet is added when its labels include the required ones and a mapping for its forge matches them, or none
  is configured.\<close>

theorem scan_accepts_what_webhook_accepts:
  fixes w :: world
  assumes "\<forall>n. db_up (fl_env F) n"
    and "hm_get (st_pending w) (key_to_string k) = None"
    and "\<forall>(n, r) \<in> set (st_runners w). rr_job_id r \<noteq> Some (key_to_string k)"
  shows "(result (recover_job F filters (k, job)) w \<longleftrightarrow>
      list_all (has_label (qj_labels job)) (jf_required_labels filters)
      \<and> (jf_label_mappings filters = [] \<or>
         (\<exists>r \<in> set (jf_label_mappings filters). (lr_forge r = None \<or> lr_forge r = Some (key_forge k))
            \<and> list_all (has_label (qj_labels job)) (lr_labels r))))
    \<and> hm_contains (st_pending (exec (recover_job F filters (k, job)) w)) (key_to_string k)
      = result (recover_job F filters (k, job)) w"
  using recover_job_accepts [OF assms] by blast

definition sample_job :: queued_job where
  "sample_job = \<lparr>qj_id = ''8'', qj_labels = [''self-hosted''], qj_runner_scope = Organization ''acme'',
     qj_repository = None, qj_created_at = None\<rparr>"

theorem scan_accepts_what_webhook_accepts_witness:
  "result (recover_job (sample_fleet test_env) default_filters (JobKey ''github'' ''8'', sample_job)) sample_world
   \<and> hm_contains (st_pending (exec (recover_job (sample_fleet test_env) default_filters
        (JobKey ''github'' ''8'', sample_job)) sample_world)) (key_to_string (JobKey ''github'' ''8''))"
proof -
  have pre: "\<forall>n. db_up (fl_env (sample_fleet test_env)) n"
    "hm_get (st_pending sample_world) (key_to_string (JobKey ''github'' ''8'')) = None"
    "\<forall>(n, r) \<in> set (st_runners sample_world). rr_job_id r \<noteq> Some (key_to_string (JobKey ''github'' ''8''))"
    by (simp_all add: sample_fleet_def test_env_def sample_world_def key_to_string_def)
  from scan_accepts_what_webhook_accepts [OF pre, of default_filters sample_job]
  show ?thesis
    by (simp add: default_filters_def sample_job_def has_label_def eq_ignore_ascii_case_def ascii_lower_def)
qed

text \<open>C32: A job that GitHub lists as waiting survives the check of pending jobs, but the first attempt to make its
  runner drops it from the queue: only the status queued counts there, so the next scan has to add it again.\<close>

theorem waiting_job_dropped_when_served:
  fixes w :: world
  assumes "\<forall>n. db_up (fl_env F) n"
    and "\<forall>n. fa_job_status forge n repo (key_id k) = Inr (Some ''waiting'')"
    and "pj_repository info = Some repo" and "for_job (fl_forges F) k = Inr forge"
  shows "hm_get (st_pending (exec (verify_pending_job F (k, info)) w)) (key_to_string k) =
      hm_get (st_pending w) (key_to_string k)
    \<and> \<not> result (job_still_wanted F forge aid name (Some repo) k) w
    \<and> hm_get (st_pending (exec (job_still_wanted F forge aid name (Some repo) k) w)) (key_to_string k) = None"
  using assms
  by (simp add: verify_pending_job_def job_still_wanted_def get_job_status_def remove_job_def run_query)

definition waiting_forge :: forge_api where
  "waiting_forge = sample_forge\<lparr>fa_job_status := \<lambda>_ _ _. Inr (Some ''waiting'')\<rparr>"

definition waiting_info :: pending_job_info where
  "waiting_info = \<lparr>pj_job_labels = [''macos''], pj_agent_labels = [''macos''], pj_runner_scope = Organization ''o'',
     pj_runner_group = None, pj_created_at = 0, pj_retry_count = 0, pj_repository = Some ''o/r'', pj_job_name = None,
     pj_workflow_name = None, pj_failed_agents = []\<rparr>"

theorem waiting_job_dropped_when_served_witness:
  "let F = (sample_fleet test_env)\<lparr>fl_forges := [(''github'', waiting_forge)]\<rparr>; k = JobKey ''github'' ''8'';
     w = sample_world\<lparr>st_pending := [(key_to_string k, sample_pending)]\<rparr> in
   hm_get (st_pending (exec (verify_pending_job F (k, waiting_info)) w)) (key_to_string k) = Some sample_pending
   \<and> hm_get (st_pending (exec (job_still_wanted F waiting_forge ''a'' ''r'' (Some ''o/r'') k) w)) (key_to_string k) = None"
proof -
  let ?F = "(sample_fleet test_env)\<lparr>fl_forges := [(''github'', waiting_forge)]\<rparr>" and ?k = "JobKey ''github'' ''8''"
  let ?w = "sample_world\<lparr>st_pending := [(key_to_string ?k, sample_pending)]\<rparr>"
  have pre: "\<forall>n. db_up (fl_env ?F) n" "\<forall>n. fa_job_status waiting_forge n ''o/r'' (key_id ?k) = Inr (Some ''waiting'')"
    "pj_repository waiting_info = Some ''o/r''" "for_job (fl_forges ?F) ?k = Inr waiting_forge"
    by (simp_all add: sample_fleet_def test_env_def waiting_forge_def waiting_info_def for_job_def registry_get_def)
  have "hm_get (st_pending ?w) (key_to_string ?k) = Some sample_pending" by simp
  with waiting_job_dropped_when_served [OF pre, of ?w] show ?thesis by (simp add: Let_def)
qed

end
