(* ===== verification/Metrics_Summary.thy ===== *)
theory Metrics_Summary
  imports Complex_Main Run_History "HOL-Library.Product_Lexorder"
begin

text \<open>
  \<^verbatim>\<open>kuiper-forge/src/metrics/summary.rs\<close> with the queries of \<^verbatim>\<open>metrics/mod.rs\<close> it reads: the run history
  turned into the groups, percentiles and chart series of the metrics page. A fetched run or job is
  its row with its name in front. Milliseconds are integers. Ratios, a \<^verbatim>\<open>f64\<close> in the code, are
  rationals. A \<^verbatim>\<open>HashMap\<close> that is iterated keeps the order of its first insertions: the sorts that
  follow leave only groups in that order that agree in number of runs and label.
\<close>

section \<open>Ranges\<close>

definition HOUR_MS :: int where "HOUR_MS = 3600000"

definition DAY_MS :: int where "DAY_MS = 24 * HOUR_MS"

definition MAX_CHART_AGENTS :: nat where "MAX_CHART_AGENTS = 8"

datatype time_range = RangeDay | RangeWeek | RangeMonth | RangeQuarter

definition RANGE_ALL :: "time_range list" where
  "RANGE_ALL = [RangeDay, RangeWeek, RangeMonth, RangeQuarter]"

fun range_str :: "time_range \<Rightarrow> string" where
  "range_str RangeDay = ''24h''"
| "range_str RangeWeek = ''7d''"
| "range_str RangeMonth = ''30d''"
| "range_str RangeQuarter = ''90d''"

definition range_parse :: "string \<Rightarrow> time_range option" where
  "range_parse s = List.find (\<lambda>r. range_str r = s) RANGE_ALL"

fun range_duration_ms :: "time_range \<Rightarrow> int" where
  "range_duration_ms RangeDay = DAY_MS"
| "range_duration_ms RangeWeek = 7 * DAY_MS"
| "range_duration_ms RangeMonth = 30 * DAY_MS"
| "range_duration_ms RangeQuarter = 90 * DAY_MS"

definition range_bucket_ms :: "time_range \<Rightarrow> int" where
  "range_bucket_ms r = (if r = RangeDay then HOUR_MS else DAY_MS)"

lemma range_parse_str [simp]: "range_parse (range_str r) = Some r"
  by (cases r) (simp_all add: range_parse_def RANGE_ALL_def)

lemma range_parse_Some: "range_parse s = Some r \<longleftrightarrow> s = range_str r"
  by (auto simp: range_parse_def dest: find_Some) (simp add: range_parse_def [symmetric])

section \<open>Counts and percentiles\<close>

record stat =
  sa_count :: nat
  sa_p50 :: "int option"
  sa_p95 :: "int option"

text \<open>
  Nearest rank, the percentile in hundredths: \<^verbatim>\<open>(p * len).ceil()\<close>. The product of the floats lies so
  close to the exact one that both have the same ceiling for any list that fits in memory.
\<close>

definition percentile :: "int list \<Rightarrow> nat \<Rightarrow> int option" where
  "percentile vs pct = (if vs = [] then None
     else let rank = (pct * length vs + 99) div 100
          in Some (vs ! (max 1 (min rank (length vs)) - 1)))"

definition stat_of :: "int list \<Rightarrow> stat" where
  "stat_of values = (let s = sort values
     in \<lparr>sa_count = length s, sa_p50 = percentile s 50, sa_p95 = percentile s 95\<rparr>)"

definition no_stat :: stat where
  "no_stat = \<lparr>sa_count = 0, sa_p50 = None, sa_p95 = None\<rparr>"

definition span :: "int option \<Rightarrow> int option \<Rightarrow> int option" where
  "span from to = (case (from, to) of
     (Some a, Some b) \<Rightarrow> if 0 \<le> b - a then Some (b - a) else None
   | _ \<Rightarrow> None)"

definition is_failure :: "string \<Rightarrow> bool" where
  "is_failure outcome \<longleftrightarrow> outcome \<in> {''failed'', ''lost'', ''command_failed''}"

section \<open>Steps\<close>

type_synonym named_run = "string \<times> runner_run"
type_synonym named_job = "string \<times> job_run"

definition STEP_ORDER :: "string list" where
  "STEP_ORDER = [''create'', ''boot'', ''install'', ''setup'', ''job'', ''destroy'']"

definition AFTER_START :: "string list" where
  "AFTER_START = [''job'', ''destroy'']"

definition step_names :: "named_run list \<Rightarrow> string list" where
  "step_names runs = STEP_ORDER
     @ remdups_adj (sort (filter (\<lambda>k. k \<notin> set STEP_ORDER) (concat (map (\<lambda>r. map fst (ru_steps (snd r))) runs))))"

record step_stat =
  ss_ran :: stat
  ss_skipped :: nat
  ss_typical :: stat

definition no_step_stat :: step_stat where
  "no_step_stat = \<lparr>ss_ran = no_stat, ss_skipped = 0, ss_typical = no_stat\<rparr>"

definition skipped_pct :: "step_stat \<Rightarrow> rat option" where
  "skipped_pct s = (if 0 < ss_skipped s
     then Some (100 * of_nat (ss_skipped s) / of_nat (sa_count (ss_typical s))) else None)"

section \<open>Groups of runs\<close>

record run_group =
  rg_key :: string
  rg_label :: string
  rg_detail :: string
  rg_runs :: nat
  rg_running :: nat
  rg_completed :: nat
  rg_failures :: nat
  rg_rejected :: nat
  rg_stopped :: nat
  rg_success_pct :: "rat option"
  rg_ack :: stat
  rg_provision :: stat
  rg_steps :: "(string, step_stat) hashmap"
  rg_failed_phases :: "(string \<times> nat) list"

definition group_step :: "run_group \<Rightarrow> string \<Rightarrow> step_stat" where
  "group_step g name = (case hm_get (rg_steps g) name of None \<Rightarrow> no_step_stat | Some s \<Rightarrow> s)"

text \<open>\<^verbatim>\<open>*map.entry(k).or_default() += ..\<close> and \<^verbatim>\<open>.push(..)\<close>.\<close>

definition hm_count :: "'k \<Rightarrow> ('k, nat) hashmap \<Rightarrow> ('k, nat) hashmap" where
  "hm_count k m = hm_insert k (Suc (case hm_get m k of None \<Rightarrow> 0 | Some n \<Rightarrow> n)) m"

definition hm_push :: "'k \<Rightarrow> 'v \<Rightarrow> ('k, 'v list) hashmap \<Rightarrow> ('k, 'v list) hashmap" where
  "hm_push k v m = hm_insert k ((case hm_get m k of None \<Rightarrow> [] | Some vs \<Rightarrow> vs) @ [v]) m"

text \<open>One step of the loop over a group's runs: the counters and the failed phases.\<close>

definition tally :: "named_run \<Rightarrow> run_group \<times> (string, nat) hashmap \<Rightarrow> run_group \<times> (string, nat) hashmap" where
  "tally r gp = (case gp of (g, phases) \<Rightarrow>
     (case ru_outcome (snd r) of
        None \<Rightarrow> (g\<lparr>rg_running := rg_running g + 1\<rparr>, phases)
      | Some out \<Rightarrow>
          if out = ''completed'' then (g\<lparr>rg_completed := rg_completed g + 1\<rparr>, phases)
          else if out = ''rejected'' then (g\<lparr>rg_rejected := rg_rejected g + 1\<rparr>, phases)
          else if out = ''idled'' \<or> out = ''drained'' \<or> out = ''destroyed''
          then (g\<lparr>rg_stopped := rg_stopped g + 1\<rparr>, phases)
          else if is_failure out
          then (g\<lparr>rg_failures := rg_failures g + 1\<rparr>,
                hm_count (case ru_failed_phase (snd r) of None \<Rightarrow> ''unknown'' | Some p \<Rightarrow> p) phases)
          else (g, phases)))"

definition collect_spans :: "(named_run \<Rightarrow> int option) \<Rightarrow> named_run list \<Rightarrow> stat" where
  "collect_spans f runs = stat_of (List.map_filter f runs)"

definition step_values :: "named_run list \<Rightarrow> (string, int list) hashmap" where
  "step_values runs = fold (\<lambda>r m. fold (\<lambda>(step, ms). hm_push step ms) (ru_steps (snd r)) m) runs []"

definition step_stat_of :: "int list \<Rightarrow> step_stat" where
  "step_stat_of values = (let ran = filter (\<lambda>v. v > 0) values
     in \<lparr>ss_ran = stat_of ran, ss_skipped = length values - length ran, ss_typical = stat_of values\<rparr>)"

definition summarize :: "string \<Rightarrow> string \<Rightarrow> string \<Rightarrow> named_run list \<Rightarrow> run_group" where
  "summarize key label detail runs =
     (let g0 = \<lparr>rg_key = key, rg_label = label, rg_detail = detail, rg_runs = length runs, rg_running = 0,
                rg_completed = 0, rg_failures = 0, rg_rejected = 0, rg_stopped = 0, rg_success_pct = None,
                rg_ack = no_stat, rg_provision = no_stat, rg_steps = [], rg_failed_phases = []\<rparr>
      in case fold tally runs (g0, []) of (g, phases) \<Rightarrow>
        let decided = rg_completed g + rg_failures g
        in g\<lparr>rg_success_pct := (if 0 < decided then Some (100 * of_nat (rg_completed g) / of_nat decided) else None),
             rg_ack := collect_spans (\<lambda>r. span (Some (ru_requested_at (snd r))) (ru_acked_at (snd r))) runs,
             rg_provision := collect_spans (\<lambda>r. span (Some (ru_requested_at (snd r))) (ru_started_at (snd r))) runs,
             rg_steps := map (\<lambda>(step, values). (step, step_stat_of values)) (step_values runs),
             rg_failed_phases := sort_key (\<lambda>(phase, n). (- int n, phase)) phases\<rparr>)"

definition group_runs :: "(named_run \<Rightarrow> string \<times> string \<times> string) \<Rightarrow> named_run list \<Rightarrow> run_group list" where
  "group_runs key runs =
     (let (groups, labels) =
        fold (\<lambda>r (gs, ls). case key r of (k, label, detail) \<Rightarrow> (hm_push k r gs, hm_insert k (label, detail) ls))
          runs ([], [])
      in sort_key (\<lambda>g. (- int (rg_runs g), rg_label g))
           (map (\<lambda>(k, rs). case (case hm_get labels k of None \<Rightarrow> ([], []) | Some l \<Rightarrow> l) of (label, detail) \<Rightarrow>
              summarize k label detail rs) groups))"

definition total_runs :: "named_run list \<Rightarrow> run_group" where
  "total_runs runs = summarize [] [] [] runs"

definition by_agent :: "named_run list \<Rightarrow> run_group list" where
  "by_agent runs = group_runs (\<lambda>(_, r). (ru_agent_id r, ru_hostname r, ru_agent_type r)) runs"

definition image_key :: "runner_run \<Rightarrow> string" where
  "image_key r = (case ru_image r of Some i \<Rightarrow> i | None \<Rightarrow> ''labels: '' @ join '', '' (ru_labels r))"

definition by_image :: "named_run list \<Rightarrow> run_group list" where
  "by_image runs = group_runs (\<lambda>(_, r). (image_key r, image_key r, ru_agent_type r)) runs"

section \<open>Runner installs\<close>

definition SOURCE_IMAGE :: string where "SOURCE_IMAGE = ''image''"

definition SOURCE_NOT_RECORDED :: string where "SOURCE_NOT_RECORDED = ''not_recorded''"

definition SOURCE_ORDER :: "string list" where
  "SOURCE_ORDER = [''hit'', ''filled'', ''fell_back'', ''vm'', SOURCE_NOT_RECORDED, SOURCE_IMAGE]"

definition run_install_source :: "runner_run \<Rightarrow> string option" where
  "run_install_source r = (case (ru_install_source r, hm_get (ru_steps r) ''install'') of
     (Some source, _) \<Rightarrow> Some source
   | (None, Some ms) \<Rightarrow> Some (if ms = 0 then SOURCE_IMAGE else SOURCE_NOT_RECORDED)
   | (None, None) \<Rightarrow> None)"

record install_group =
  ig_image :: string
  ig_source :: string
  ig_runs :: nat
  ig_install :: stat

definition source_order :: "string \<Rightarrow> nat" where
  "source_order source = (case position (\<lambda>s. s = source) SOURCE_ORDER of None \<Rightarrow> length SOURCE_ORDER | Some i \<Rightarrow> i)"

definition install_times :: "runner_run \<Rightarrow> int list" where
  "install_times r = (case hm_get (ru_steps r) ''install'' of Some ms \<Rightarrow> if ms > 0 then [ms] else [] | None \<Rightarrow> [])"

definition count_install ::
    "named_run \<Rightarrow> (string \<times> string, nat \<times> int list) hashmap \<times> (string, nat) hashmap
     \<Rightarrow> (string \<times> string, nat \<times> int list) hashmap \<times> (string, nat) hashmap" where
  "count_install nr gp = (case (nr, gp) of ((_, r), (groups, per_image)) \<Rightarrow>
     (case run_install_source r of
        None \<Rightarrow> (groups, per_image)
      | Some source \<Rightarrow>
          let image = image_key r;
              (n, ms) = (case hm_get groups (image, source) of None \<Rightarrow> (0, []) | Some g \<Rightarrow> g)
          in (hm_insert (image, source) (n + 1, ms @ install_times r) groups, hm_count image per_image)))"

definition by_install :: "named_run list \<Rightarrow> install_group list" where
  "by_install runs = (case fold count_install runs ([], []) of (groups, per_image) \<Rightarrow>
     sort_key (\<lambda>g. (- int (case hm_get per_image (ig_image g) of None \<Rightarrow> 0 | Some n \<Rightarrow> n), ig_image g,
                   source_order (ig_source g), ig_source g))
       (map (\<lambda>((i, source), (n, ms)).
          \<lparr>ig_image = i, ig_source = source, ig_runs = n, ig_install = stat_of ms\<rparr>) groups))"

section \<open>Jobs\<close>

record job_summary =
  js_jobs :: nat
  js_pending :: nat
  js_ran :: nat
  js_abandoned :: nat
  js_gone :: nat
  js_cancelled :: nat
  js_mean_attempts :: "rat option"
  js_wait :: stat
  js_to_coordinator :: stat
  js_dispatch :: stat
  js_provision :: stat
  js_pickup :: stat

definition count_job :: "named_job \<Rightarrow> job_summary \<Rightarrow> job_summary" where
  "count_job j s = (case jr_outcome (snd j) of
     None \<Rightarrow> s\<lparr>js_pending := js_pending s + 1\<rparr>
   | Some out \<Rightarrow>
       if out = ''ran'' then s\<lparr>js_ran := js_ran s + 1\<rparr>
       else if out = ''abandoned'' then s\<lparr>js_abandoned := js_abandoned s + 1\<rparr>
       else if out = ''gone'' then s\<lparr>js_gone := js_gone s + 1\<rparr>
       else if out = ''cancelled'' then s\<lparr>js_cancelled := js_cancelled s + 1\<rparr>
       else s)"

definition completed_by_job :: "named_run list \<Rightarrow> (string, runner_run) hashmap" where
  "completed_by_job runs = fold (\<lambda>(_, r) m. case ru_job_id r of
     Some job \<Rightarrow> if ru_outcome r = Some ''completed'' then hm_insert job r m else m
   | None \<Rightarrow> m) runs []"

text \<open>The run of a job: the runner the forge named, else the last one that completed it.\<close>

definition run_of_job :: "named_run list \<Rightarrow> named_job \<Rightarrow> runner_run option" where
  "run_of_job runs nj = (case nj of (job_id, j) \<Rightarrow>
     (let by_name = fold (\<lambda>(n, r) m. hm_insert n r m) runs [] in
      case (case jr_runner_name j of None \<Rightarrow> None | Some n \<Rightarrow> hm_get by_name n) of
        Some r \<Rightarrow> Some r
      | None \<Rightarrow> hm_get (completed_by_job runs) job_id))"

definition summarize_jobs :: "named_job list \<Rightarrow> named_run list \<Rightarrow> job_summary" where
  "summarize_jobs js runs =
     (let s0 = \<lparr>js_jobs = length js, js_pending = 0, js_ran = 0, js_abandoned = 0, js_gone = 0,
                js_cancelled = 0, js_mean_attempts = None, js_wait = no_stat, js_to_coordinator = no_stat,
                js_dispatch = no_stat, js_provision = no_stat, js_pickup = no_stat\<rparr>;
          attempts = sum_list (map (\<lambda>(_, j). jr_attempts j) js);
          with_run = (\<lambda>f. List.map_filter (\<lambda>nj. case run_of_job runs nj of None \<Rightarrow> None | Some r \<Rightarrow> f (snd nj) r) js)
      in (fold count_job js s0)
         \<lparr>js_mean_attempts := (if js = [] then None else Some (of_nat attempts / of_nat (length js))),
          js_wait := stat_of (List.map_filter (\<lambda>(_, j). span (Some (jr_queued_at j)) (jr_started_at j)) js),
          js_to_coordinator := stat_of (List.map_filter (\<lambda>(_, j).
             if jr_queued_at j < jr_seen_at j then Some (jr_seen_at j - jr_queued_at j) else None) js),
          js_dispatch := stat_of (with_run (\<lambda>j r. span (Some (jr_seen_at j)) (Some (ru_requested_at r)))),
          js_provision := stat_of (with_run (\<lambda>j r. span (Some (ru_requested_at r)) (ru_started_at r))),
          js_pickup := stat_of (with_run (\<lambda>j r. span (ru_started_at r) (jr_started_at j)))\<rparr>)"

section \<open>Charts\<close>

record outcomes =
  oc_completed :: "nat list"
  oc_failed :: "nat list"
  oc_rejected :: "nat list"
  oc_other :: "nat list"

record series =
  se_label :: string
  se_data :: "rat option list"

record charts =
  ch_buckets :: "int list"
  ch_outcomes :: outcomes
  ch_provision :: "series list"
  ch_wait_p50 :: "rat option list"
  ch_wait_p95 :: "rat option list"
  ch_phase_agents :: "string list"
  ch_phase_steps :: "series list"

text \<open>\<^verbatim>\<open>(ms as f64 / 100.0).round() / 10.0\<close>: halves go away from zero.\<close>

definition secs :: "int option \<Rightarrow> rat option" where
  "secs = map_option (\<lambda>ms. of_int (if 0 \<le> ms then (ms + 50) div 100 else - ((50 - ms) div 100)) / 10)"

text \<open>The starts from \<open>start\<close> up to \<open>now\<close>. A size that is not positive gives none: the sizes are an hour
  and a day.\<close>

function starts_from :: "int \<Rightarrow> int \<Rightarrow> int \<Rightarrow> int list" where
  "starts_from start now sz =
     (if 0 < sz \<and> start \<le> now then start # starts_from (start + sz) now sz else [])"
  by auto
termination by (relation "measure (\<lambda>(start, now, _). nat (now + 1 - start))") auto

declare starts_from.simps [simp del]

definition bucket_starts :: "int \<Rightarrow> int \<Rightarrow> int \<Rightarrow> int list" where
  "bucket_starts since now sz = starts_from (since div sz * sz) now sz"

definition bucket_index :: "int list \<Rightarrow> int \<Rightarrow> int \<Rightarrow> int \<Rightarrow> nat option" where
  "bucket_index starts now sz t =
     (let first = (case starts of [] \<Rightarrow> now | s # _ \<Rightarrow> s); i = (t - first) div sz
      in if 0 \<le> i \<and> nat i < length starts then Some (nat i) else None)"

definition bump_at :: "nat \<Rightarrow> nat list \<Rightarrow> nat list" where
  "bump_at i xs = xs[i := xs ! i + 1]"

definition count_outcome :: "(int \<Rightarrow> nat option) \<Rightarrow> named_run \<Rightarrow> outcomes \<Rightarrow> outcomes" where
  "count_outcome index nr oc = (case index (ru_requested_at (snd nr)) of
     None \<Rightarrow> oc
   | Some i \<Rightarrow>
       (case ru_outcome (snd nr) of
          None \<Rightarrow> oc
        | Some out \<Rightarrow>
            if out = ''completed'' then oc\<lparr>oc_completed := bump_at i (oc_completed oc)\<rparr>
            else if out = ''rejected'' then oc\<lparr>oc_rejected := bump_at i (oc_rejected oc)\<rparr>
            else if is_failure out then oc\<lparr>oc_failed := bump_at i (oc_failed oc)\<rparr>
            else oc\<lparr>oc_other := bump_at i (oc_other oc)\<rparr>))"

text \<open>The lines of the agents: each takes its agent's buckets out of the map.\<close>

fun provision_series :: "(string, int list list) hashmap \<Rightarrow> run_group list \<Rightarrow> series list" where
  "provision_series m [] = []"
| "provision_series m (g # gs) =
     \<lparr>se_label = rg_label g,
      se_data = map (\<lambda>v. secs (sa_p95 (stat_of v))) (case hm_get m (rg_key g) of None \<Rightarrow> [] | Some bs \<Rightarrow> bs)\<rparr>
     # provision_series (hm_remove (rg_key g) m) gs"

text \<open>The spans of each agent's runs by bucket.\<close>

definition push_provision ::
    "(int \<Rightarrow> nat option) \<Rightarrow> named_run \<Rightarrow> (string, int list list) hashmap \<Rightarrow> (string, int list list) hashmap" where
  "push_provision index nr m = (case nr of (_, r) \<Rightarrow>
     (case (index (ru_requested_at r), span (Some (ru_requested_at r)) (ru_started_at r)) of
        (Some i, Some d) \<Rightarrow> hm_modify (ru_agent_id r) (\<lambda>bs. bs[i := bs ! i @ [d]]) m
      | _ \<Rightarrow> m))"

definition push_wait :: "(int \<Rightarrow> nat option) \<Rightarrow> named_job \<Rightarrow> int list list \<Rightarrow> int list list" where
  "push_wait index nj ws = (case nj of (_, j) \<Rightarrow>
     (case (index (jr_queued_at j), span (Some (jr_queued_at j)) (jr_started_at j)) of
        (Some i, Some d) \<Rightarrow> ws[i := ws ! i @ [d]]
      | _ \<Rightarrow> ws))"

definition make_charts ::
    "named_run list \<Rightarrow> named_job list \<Rightarrow> run_group list \<Rightarrow> string list \<Rightarrow> time_range \<Rightarrow> int \<Rightarrow> charts" where
  "make_charts runs js agents steps rng now =
     (let size = range_bucket_ms rng;
          starts = bucket_starts (now - range_duration_ms rng) now size;
          index = bucket_index starts now size;
          n = length starts;
          chart_agents = take MAX_CHART_AGENTS agents;
          outcomes = fold (count_outcome index) runs
            \<lparr>oc_completed = replicate n 0, oc_failed = replicate n 0, oc_rejected = replicate n 0, oc_other = replicate n 0\<rparr>;
          provision = fold (push_provision index) runs
            (fold (\<lambda>g. hm_insert (rg_key g) (replicate n [])) chart_agents []);
          wait_stats = map stat_of (fold (push_wait index) js (replicate n []))
      in \<lparr>ch_buckets = starts, ch_outcomes = outcomes,
          ch_provision = provision_series provision chart_agents,
          ch_wait_p50 = map (\<lambda>s. secs (sa_p50 s)) wait_stats,
          ch_wait_p95 = map (\<lambda>s. secs (sa_p95 s)) wait_stats,
          ch_phase_agents = map rg_label chart_agents,
          ch_phase_steps = map (\<lambda>step. \<lparr>se_label = step,
             se_data = map (\<lambda>g. secs (sa_p50 (ss_typical (group_step g step)))) chart_agents\<rparr>)
               (filter (\<lambda>s. s \<notin> set AFTER_START) steps)\<rparr>)"

section \<open>The page\<close>

text \<open>\<^verbatim>\<open>runs_since\<close> and \<^verbatim>\<open>jobs_since\<close>: \<^verbatim>\<open>WHERE .. >= ? ORDER BY ..\<close>.\<close>

definition runs_since :: "int \<Rightarrow> (string, runner_run) hashmap \<Rightarrow> named_run list" where
  "runs_since since t = sort_key (\<lambda>(_, r). ru_requested_at r) (filter (\<lambda>(_, r). since \<le> ru_requested_at r) t)"

definition jobs_since :: "int \<Rightarrow> (string, job_run) hashmap \<Rightarrow> named_job list" where
  "jobs_since since t = sort_key (\<lambda>(_, j). jr_seen_at j) (filter (\<lambda>(_, j). since \<le> jr_seen_at j) t)"

text \<open>What \<^verbatim>\<open>metrics_page\<close> of \<^verbatim>\<open>admin/metrics_routes.rs\<close> hands to its template, before it is formatted.
  A query that fails reads as no rows.\<close>

record metrics_view =
  mv_range :: string
  mv_runs :: nat
  mv_all :: run_group
  mv_agents :: "run_group list"
  mv_images :: "run_group list"
  mv_installs :: "install_group list"
  mv_steps :: "string list"
  mv_jobs :: job_summary
  mv_charts :: charts

definition metrics_page :: "env \<Rightarrow> string option \<Rightarrow> ('z store_scheme, metrics_view) state" where
  "metrics_page env q = do {
     let rng = (case q of None \<Rightarrow> RangeWeek | Some s \<Rightarrow> (case range_parse s of None \<Rightarrow> RangeWeek | Some r \<Rightarrow> r));
     now \<leftarrow> ask (utc_now env);
     let since = now - range_duration_ms rng;
     fetched \<leftarrow> query env (\<lambda>s. (runs_since since (st_runs s), s));
     let runs = (case fetched of None \<Rightarrow> [] | Some rs \<Rightarrow> rs);
     fetched_jobs \<leftarrow> query env (\<lambda>s. (jobs_since since (st_jobs s), s));
     let js = (case fetched_jobs of None \<Rightarrow> [] | Some js \<Rightarrow> js);
     let agents = by_agent runs;
     let steps = step_names runs;
     ret \<lparr>mv_range = range_str rng, mv_runs = length runs, mv_all = total_runs runs, mv_agents = agents,
          mv_images = by_image runs, mv_installs = by_install runs, mv_steps = steps,
          mv_jobs = summarize_jobs js runs, mv_charts = make_charts runs js agents steps rng now\<rparr> }"

text \<open>The agent page's card: the group of the agent's runs of the last week.\<close>

definition agent_performance :: "env \<Rightarrow> string \<Rightarrow> ('z store_scheme, run_group option) state" where
  "agent_performance env aid = do {
     now \<leftarrow> ask (utc_now env);
     fetched \<leftarrow> query env (\<lambda>s. (runs_since (now - range_duration_ms RangeWeek) (st_runs s), s));
     case fetched of
       None \<Rightarrow> ret None
     | Some runs \<Rightarrow> ret (case by_agent (filter (\<lambda>(_, r). ru_agent_id r = aid) runs) of [] \<Rightarrow> None | g # _ \<Rightarrow> Some g) }"

section \<open>The other queries of the history\<close>

text \<open>\<^verbatim>\<open>delete_forge\<close>: the rows of both tables under a forge; \<^term>\<open>None\<close> is a database error.\<close>

definition delete_forge :: "env \<Rightarrow> string \<Rightarrow> ('z store_scheme, nat option) state" where
  "delete_forge env forge = do {
     runs \<leftarrow> query env (\<lambda>s. (length (filter (\<lambda>(_, r). ru_forge r = Some forge) (st_runs s)),
         s\<lparr>st_runs := hm_retain (\<lambda>_ r. ru_forge r \<noteq> Some forge) (st_runs s)\<rparr>));
     case runs of
       None \<Rightarrow> ret None
     | Some n \<Rightarrow> do {
         jobs \<leftarrow> query env (\<lambda>s. (length (filter (\<lambda>(_, j). jr_forge j = forge) (st_jobs s)),
             s\<lparr>st_jobs := hm_retain (\<lambda>_ j. jr_forge j \<noteq> forge) (st_jobs s)\<rparr>));
         ret (map_option (\<lambda>m. n + m) jobs) } }"

text \<open>\<^verbatim>\<open>insert_run\<close> and \<^verbatim>\<open>insert_job\<close>: an insert of a name that is there is an error.\<close>

definition insert_run :: "env \<Rightarrow> named_run \<Rightarrow> ('z store_scheme, bool) state" where
  "insert_run env nr = do {
     r \<leftarrow> query env (\<lambda>s. (\<not> hm_contains (st_runs s) (fst nr),
         s\<lparr>st_runs := insert_ignore (fst nr) (snd nr) (st_runs s)\<rparr>));
     ret (r = Some True) }"

definition insert_job :: "env \<Rightarrow> named_job \<Rightarrow> ('z store_scheme, bool) state" where
  "insert_job env nj = do {
     r \<leftarrow> query env (\<lambda>s. (\<not> hm_contains (st_jobs s) (fst nj),
         s\<lparr>st_jobs := insert_ignore (fst nj) (snd nj) (st_jobs s)\<rparr>));
     ret (r = Some True) }"

definition recent_all :: "env \<Rightarrow> string option \<Rightarrow> string option \<Rightarrow> nat \<Rightarrow> ('z store_scheme, (string \<times> failure_row) list option) state" where
  "recent_all env kind aid limit = query env (\<lambda>s.
     (take limit (sort_key (\<lambda>(_, f). - fw_occurred_at f) (filter (\<lambda>(_, f).
        (kind = None \<or> kind = Some (fw_kind f)) \<and> (aid = None \<or> aid = Some (fw_agent_id f))) (st_failures s))), s))"

text \<open>\<^verbatim>\<open>counts_since\<close>: \<^verbatim>\<open>GROUP BY agent_id, kind\<close>.\<close>

definition counts_since :: "env \<Rightarrow> int \<Rightarrow> ('z store_scheme, (string \<times> string \<times> nat) list option) state" where
  "counts_since env since = query env (\<lambda>s.
     (map (\<lambda>((aid, kind), n). (aid, kind, n))
        (fold (\<lambda>(_, f). hm_count (fw_agent_id f, fw_kind f))
          (filter (\<lambda>(_, f). since \<le> fw_occurred_at f) (st_failures s)) []), s))"

section \<open>The errors page\<close>

text \<open>\<^verbatim>\<open>count_rows\<close> of \<^verbatim>\<open>admin/error_routes.rs\<close>.\<close>

record error_count_row =
  er_agent_id :: string
  er_hostname :: string
  er_total :: nat
  er_counts :: "nat list"

definition FAILURE_KINDS :: "failure_kind list" where
  "FAILURE_KINDS = [RunnerFailed, RunnerLost, CommandRejected, CommandFailed]"

definition count_row :: "(string \<Rightarrow> string) \<Rightarrow> string \<times> string \<times> nat \<Rightarrow> (string, error_count_row) hashmap \<Rightarrow> (string, error_count_row) hashmap" where
  "count_row hostname c rows = (case c of (aid, kind, n) \<Rightarrow>
     (let row = (case hm_get rows aid of
            Some r \<Rightarrow> r
          | None \<Rightarrow> \<lparr>er_agent_id = aid, er_hostname = hostname aid, er_total = 0,
                     er_counts = replicate (length FAILURE_KINDS) 0\<rparr>);
          row = row\<lparr>er_total := er_total row + n\<rparr>;
          row = (case position (\<lambda>k. failure_kind_str k = kind) FAILURE_KINDS of
            Some i \<Rightarrow> row\<lparr>er_counts := (er_counts row)[i := er_counts row ! i + n]\<rparr>
          | None \<Rightarrow> row)
      in hm_insert aid row rows))"

definition count_rows :: "(string \<times> string \<times> nat) list \<Rightarrow> (string \<Rightarrow> string) \<Rightarrow> error_count_row list" where
  "count_rows counts hostname =
     sort_key (\<lambda>r. (- int (er_total r), er_hostname r)) (map snd (fold (count_row hostname) counts []))"

text \<open>The kind filter of \<^verbatim>\<open>errors_page\<close>: an unknown kind shows everything.\<close>

definition error_filter :: "string option \<Rightarrow> string option \<Rightarrow> string option \<times> string option" where
  "error_filter kind agent =
     ((case kind of None \<Rightarrow> None | Some k \<Rightarrow>
         map_option failure_kind_str (List.find (\<lambda>f. failure_kind_str f = k) FAILURE_KINDS)),
      (case agent of None \<Rightarrow> None | Some a \<Rightarrow> if a \<noteq> [] then Some a else None))"

end
