(* ===== verification/Metrics_Facts.thy ===== *)
theory Metrics_Facts
  imports Metrics_Summary
begin

text \<open>
  Facts on the metrics page of \<open>Metrics_Summary\<close>: the percentiles are nearest ranks, the groups
  split the runs, every run is drawn in the bucket of its request, and the tables and the chart of one page
  count the same runs.
\<close>

section \<open>Percentiles\<close>

lemma sorted_count_le_nth:
  assumes "sorted xs" and "i < length xs"
  shows "Suc i \<le> length (filter (\<lambda>x. x \<le> xs ! i) xs)"
proof -
  have "filter (\<lambda>x. x \<le> xs ! i) (take (Suc i) xs) = take (Suc i) xs"
    using assms by (auto simp: filter_id_conv in_set_conv_nth sorted_iff_nth_mono)
  then have "length (filter (\<lambda>x. x \<le> xs ! i) (take (Suc i) xs @ drop (Suc i) xs)) \<ge> Suc i"
    using assms by (simp del: append_take_drop_id)
  then show ?thesis by simp
qed

lemma sorted_count_less_nth:
  assumes "sorted xs" and "i < length xs"
  shows "length (filter (\<lambda>x. x < xs ! i) xs) \<le> i"
proof -
  have "filter (\<lambda>x. x < xs ! i) (drop i xs) = []"
    using assms by (auto simp: filter_empty_conv in_set_conv_nth not_less sorted_iff_nth_mono)
  then have "length (filter (\<lambda>x. x < xs ! i) (take i xs @ drop i xs)) \<le> i"
    by (simp del: append_take_drop_id) (metis length_filter_le length_take min.cobounded2 order_trans)
  then show ?thesis by simp
qed

lemma count_le_mono: "(x :: int) \<le> y \<Longrightarrow> length (filter (\<lambda>v. v \<le> x) xs) \<le> length (filter (\<lambda>v. v \<le> y) xs)"
  by (induction xs) auto

lemma count_le_less: "(x :: int) < y \<Longrightarrow> length (filter (\<lambda>v. v \<le> x) xs) \<le> length (filter (\<lambda>v. v < y) xs)"
  by (induction xs) auto

text \<open>The value \<open>x\<close> is the \<open>pct\<close>th percentile: that share of the values is at most \<open>x\<close>, and a smaller share is
  below it.\<close>

definition nearest_rank :: "int list \<Rightarrow> nat \<Rightarrow> int \<Rightarrow> bool" where
  "nearest_rank vs pct x \<longleftrightarrow> x \<in> set vs
     \<and> pct * length vs \<le> 100 * length (filter (\<lambda>v. v \<le> x) vs)
     \<and> 100 * length (filter (\<lambda>v. v < x) vs) < pct * length vs"

lemma nearest_rank_unique:
  assumes "nearest_rank vs pct x" and "nearest_rank vs pct y"
  shows "x = y"
proof (rule ccontr)
  assume "x \<noteq> y"
  then consider "x < y" | "y < x" by linarith
  then show False using assms count_le_less [of x y vs] count_le_less [of y x vs]
    by cases (auto simp: nearest_rank_def)
qed

lemma nearest_rank_sort: "nearest_rank (sort vs) pct x = nearest_rank vs pct x"
proof -
  have "length (filter P (sort vs)) = length (filter P vs)" for P
    by (metis mset_filter mset_sort size_mset)
  then show ?thesis by (simp add: nearest_rank_def)
qed

lemma percentile_nearest_rank:
  assumes "0 < pct" and "pct \<le> 100" and "vs \<noteq> []" and "sorted vs"
  shows "\<exists>x. percentile vs pct = Some x \<and> nearest_rank vs pct x"
proof -
  define n where "n = length vs"
  define rank where "rank = (pct * n + 99) div 100"
  have n: "0 < n" using assms(3) by (simp add: n_def)
  have lo: "pct * n \<le> 100 * rank" unfolding rank_def by linarith
  have hi: "100 * rank < pct * n + 100" unfolding rank_def by linarith
  have "0 < pct * n" using assms(1) n by simp
  then have r0: "0 < rank" using lo by linarith
  have "pct * n \<le> 100 * n" using assms(2) by simp
  then have rn: "rank \<le> n" using hi by linarith
  define i where "i = rank - 1"
  have i: "i < n" "Suc i = rank" using r0 rn by (simp_all add: i_def)
  have "percentile vs pct = Some (vs ! i)"
    using assms(3) r0 rn by (simp add: percentile_def Let_def n_def [symmetric] rank_def [symmetric] i_def max_absorb2)
  moreover have "nearest_rank vs pct (vs ! i)"
    using sorted_count_le_nth [OF assms(4), of i] sorted_count_less_nth [OF assms(4), of i] i lo hi
    by (auto simp: nearest_rank_def n_def [symmetric])
  ultimately show ?thesis by blast
qed

text \<open>The p50 and p95 of a statistic are the nearest ranks of its values, in any order.\<close>

theorem stat_percentiles:
  "sa_p50 (stat_of vs) = Some x \<longleftrightarrow> nearest_rank vs 50 x"
  "sa_p95 (stat_of vs) = Some x \<longleftrightarrow> nearest_rank vs 95 x"
proof -
  have "percentile (sort vs) pct = Some x \<longleftrightarrow> nearest_rank vs pct x" if p: "0 < pct" "pct \<le> 100" for pct
  proof (cases "vs = []")
    case True
    then show ?thesis by (simp add: percentile_def nearest_rank_def)
  next
    case False
    then have "sort vs \<noteq> []" by (metis length_0_conv length_sort)
    then obtain y where "percentile (sort vs) pct = Some y" "nearest_rank (sort vs) pct y"
      using percentile_nearest_rank [of pct "sort vs"] p by auto
    then show ?thesis using nearest_rank_unique by (auto simp: nearest_rank_sort)
  qed
  then show "sa_p50 (stat_of vs) = Some x \<longleftrightarrow> nearest_rank vs 50 x"
    and "sa_p95 (stat_of vs) = Some x \<longleftrightarrow> nearest_rank vs 95 x"
    by (simp_all add: stat_of_def Let_def)
qed

section \<open>The counters of a group\<close>

definition with_outcome :: "string \<Rightarrow> named_run list \<Rightarrow> nat" where
  "with_outcome out runs = length (filter (\<lambda>r. ru_outcome (snd r) = Some out) runs)"

definition failed_runs :: "named_run list \<Rightarrow> nat" where
  "failed_runs runs = length (filter (\<lambda>r. \<exists>out. ru_outcome (snd r) = Some out \<and> is_failure out) runs)"

lemma tally_counters:
  "rg_runs (fst (fold tally runs gp)) = rg_runs (fst gp)
   \<and> rg_key (fst (fold tally runs gp)) = rg_key (fst gp)
   \<and> rg_label (fst (fold tally runs gp)) = rg_label (fst gp)
   \<and> rg_completed (fst (fold tally runs gp)) = rg_completed (fst gp) + with_outcome ''completed'' runs
   \<and> rg_rejected (fst (fold tally runs gp)) = rg_rejected (fst gp) + with_outcome ''rejected'' runs
   \<and> rg_failures (fst (fold tally runs gp)) = rg_failures (fst gp) + failed_runs runs
   \<and> rg_running (fst (fold tally runs gp)) = rg_running (fst gp) + length (filter (\<lambda>r. ru_outcome (snd r) = None) runs)"
proof (induction runs arbitrary: gp)
  case (Cons r runs)
  obtain g phases where "gp = (g, phases)" by (cases gp)
  then show ?case using Cons [of "tally r gp"]
    by (cases "ru_outcome (snd r)") (auto simp: tally_def with_outcome_def failed_runs_def is_failure_def)
qed (simp add: with_outcome_def failed_runs_def)

lemma summarize_counters [simp]:
  "rg_key (summarize k l d runs) = k \<and> rg_label (summarize k l d runs) = l
   \<and> rg_runs (summarize k l d runs) = length runs
   \<and> rg_completed (summarize k l d runs) = with_outcome ''completed'' runs
   \<and> rg_rejected (summarize k l d runs) = with_outcome ''rejected'' runs
   \<and> rg_failures (summarize k l d runs) = failed_runs runs
   \<and> rg_running (summarize k l d runs) = length (filter (\<lambda>r. ru_outcome (snd r) = None) runs)"
proof -
  define g0 where "g0 = \<lparr>rg_key = k, rg_label = l, rg_detail = d, rg_runs = length runs, rg_running = 0,
    rg_completed = 0, rg_failures = 0, rg_rejected = 0, rg_stopped = 0, rg_success_pct = None,
    rg_ack = no_stat, rg_provision = no_stat, rg_steps = [], rg_failed_phases = []\<rparr>"
  obtain g phases where f: "fold tally runs (g0, []) = (g, phases)" by (cases "fold tally runs (g0, [])")
  show ?thesis
    using tally_counters [of runs "(g0, [])"]
    unfolding f summarize_def Let_def g0_def [symmetric] by (simp add: g0_def)
qed

section \<open>The groups split the runs\<close>

text \<open>The keys of the runs, each at its first run.\<close>

definition firsts :: "'k list \<Rightarrow> 'k list" where
  "firsts ks = fold (\<lambda>k acc. if k \<in> set acc then acc else acc @ [k]) ks []"

lemma firsts_snoc: "firsts (ks @ [k]) = (if k \<in> set (firsts ks) then firsts ks else firsts ks @ [k])"
  by (simp add: firsts_def)

lemma firsts_Nil [simp]: "firsts [] = []" by (simp add: firsts_def)

lemma set_firsts [simp]: "set (firsts ks) = set ks"
  by (induction ks rule: rev_induct) (auto simp: firsts_snoc)

lemma distinct_firsts [simp]: "distinct (firsts ks)"
  by (induction ks rule: rev_induct) (auto simp: firsts_snoc)

definition group_of :: "(named_run \<Rightarrow> string) \<Rightarrow> named_run list \<Rightarrow> string \<Rightarrow> named_run list" where
  "group_of f runs k = filter (\<lambda>r. f r = k) runs"

lemma update_map_pairs:
  assumes "distinct ks"
  shows "AList.update k v (map (\<lambda>k. (k, g k)) ks) =
    map (\<lambda>x. (x, if x = k then v else g x)) (if k \<in> set ks then ks else ks @ [k])"
  using assms by (induction ks) auto

lemma hm_push_groups:
  "hm_push (f r) r (map (\<lambda>k. (k, group_of f runs k)) (firsts (map f runs)))
   = map (\<lambda>k. (k, group_of f (runs @ [r]) k)) (firsts (map f (runs @ [r])))"
proof -
  let ?m = "map (\<lambda>k. (k, group_of f runs k)) (firsts (map f runs))"
  have get: "map_of ?m k = (if k \<in> f ` set runs then Some (group_of f runs k) else None)" for k
    by (auto simp: map_of_map_restrict restrict_map_def)
  have grp: "group_of f (runs @ [r]) k = (if k = f r then group_of f runs k @ [r] else group_of f runs k)" for k
    by (simp add: group_of_def)
  have empty: "group_of f runs (f r) = []" if "f r \<notin> f ` set runs"
  proof -
    have "\<not> f x = f r" if "x \<in> set runs" for x using that \<open>f r \<notin> f ` set runs\<close> by (metis imageI)
    then show ?thesis by (simp add: group_of_def filter_empty_conv)
  qed
  show ?thesis
    unfolding hm_push_def get by (subst update_map_pairs) (auto simp: firsts_snoc grp empty)
qed

lemma fold_groups:
  "fold (\<lambda>r (gs, ls). case key r of (k, label, detail) \<Rightarrow> (hm_push k r gs, hm_insert k (label, detail) ls)) runs ([], [])
   = (map (\<lambda>k. (k, group_of (\<lambda>r. fst (key r)) runs k)) (firsts (map (\<lambda>r. fst (key r)) runs)),
      fold (\<lambda>r. hm_insert (fst (key r)) (snd (key r))) runs [])"
proof (induction runs rule: rev_induct)
  case (snoc r runs)
  obtain k label detail where "key r = (k, label, detail)" by (metis prod_cases3)
  then show ?case using snoc hm_push_groups [of "\<lambda>r. fst (key r)" r runs] by simp
qed simp

lemma fold_last_label:
  assumes "group_of f runs k \<noteq> []"
  shows "map_of (fold (\<lambda>r. hm_insert (f r) (g r)) runs m) k = Some (g (last (group_of f runs k)))"
  using assms by (induction runs arbitrary: m rule: rev_induct) (auto simp: group_of_def)

text \<open>The group of a key: its runs, under the label and the detail of the newest.\<close>

definition key_group :: "(named_run \<Rightarrow> string \<times> string \<times> string) \<Rightarrow> named_run list \<Rightarrow> string \<Rightarrow> run_group" where
  "key_group key runs k = (let rs = group_of (\<lambda>r. fst (key r)) runs k; (label, detail) = snd (key (last rs))
     in summarize k label detail rs)"

lemma group_runs_eq:
  "group_runs key runs = sort_key (\<lambda>g. (- int (rg_runs g), rg_label g))
     (map (key_group key runs) (firsts (map (\<lambda>r. fst (key r)) runs)))"
proof -
  have "(case (case map_of (fold (\<lambda>r. hm_insert (fst (key r)) (snd (key r))) runs []) k of
        None \<Rightarrow> ([], []) | Some l \<Rightarrow> l) of (label, detail) \<Rightarrow>
      summarize k label detail (group_of (\<lambda>r. fst (key r)) runs k)) = key_group key runs k"
    if "k \<in> (\<lambda>r. fst (key r)) ` set runs" for k
  proof -
    have "group_of (\<lambda>r. fst (key r)) runs k \<noteq> []" using that by (auto simp: group_of_def filter_empty_conv)
    then show ?thesis
      by (simp add: fold_last_label [where g = "\<lambda>r. snd (key r)"] key_group_def Let_def split: prod.splits)
  qed
  then show ?thesis
    unfolding group_runs_def fold_groups by (auto simp: comp_def intro!: arg_cong [where f = "sort_key _"])
qed

lemma key_group_key [simp]: "rg_key (key_group key runs k) = k"
  by (simp add: key_group_def Let_def split: prod.splits)

lemma distinct_group_keys: "distinct (map rg_key (group_runs key runs))"
proof -
  have "mset (map rg_key (group_runs key runs)) = mset (firsts (map (\<lambda>r. fst (key r)) runs))"
    by (simp add: group_runs_eq multiset.map_comp comp_def)
  then show ?thesis by (metis distinct_firsts mset_eq_imp_distinct_iff)
qed

lemma set_group_runs: "set (group_runs key runs) = key_group key runs ` (\<lambda>r. fst (key r)) ` set runs"
  by (simp add: group_runs_eq)

lemma sum_group_counts:
  assumes "\<And>k l d rs. c (summarize k l d rs) = length (filter P rs)"
  shows "sum_list (map c (group_runs key runs)) = length (filter P runs)"
proof -
  let ?f = "\<lambda>r. fst (key r)"
  have "c (key_group key runs k) = length (filter P (group_of ?f runs k))" for k
    by (simp add: key_group_def Let_def assms split: prod.splits)
  then have "sum_list (map c (group_runs key runs)) = sum_list (map (\<lambda>k. length (filter P (group_of ?f runs k))) (firsts (map ?f runs)))"
    unfolding group_runs_eq by (metis (no_types, lifting) map_eq_conv map_map mset_map mset_sort sum_mset_sum_list comp_apply)
  also have "\<dots> = (\<Sum>k \<in> ?f ` set runs. length (filter P (group_of ?f runs k)))"
    by (simp add: sum_list_distinct_conv_sum_set)
  also have "\<dots> = length (filter P runs)"
  proof -
    have cons: "length (filter P (group_of ?f (r # rs) k))
        = length (filter P (group_of ?f rs k)) + (if k = ?f r then if P r then 1 else 0 else 0)" for r rs k
      by (simp add: group_of_def)
    have "(\<Sum>k \<in> K. length (filter P (group_of ?f runs k))) = length (filter P runs)"
      if "finite K" "?f ` set runs \<subseteq> K" for K
      using that by (induction runs) (simp_all add: cons sum.distrib sum.delta group_of_def [of _ "[]"])
    then show ?thesis by simp
  qed
  finally show ?thesis .
qed

section \<open>Buckets\<close>

lemma starts_from_nth:
  "i < length (starts_from start now sz) \<Longrightarrow> starts_from start now sz ! i = start + int i * sz"
proof (induction start now sz arbitrary: i rule: starts_from.induct)
  case (1 start now sz)
  then show ?case
    by (subst starts_from.simps) (subst (asm) starts_from.simps, cases i, auto split: if_splits simp: algebra_simps)
qed

lemma starts_from_covers:
  assumes "0 < sz" and "start \<le> t" and "t \<le> now"
  shows "nat ((t - start) div sz) < length (starts_from start now sz)"
  using assms
proof (induction start now sz rule: starts_from.induct)
  case (1 start now sz)
  have unf: "starts_from start now sz = start # starts_from (start + sz) now sz"
    using 1(2-4) by (subst starts_from.simps) simp
  show ?case
  proof (cases "t < start + sz")
    case True
    then show ?thesis using 1(2,3) by (simp add: unf div_pos_pos_trivial)
  next
    case False
    have "(t - start) div sz = (t - (start + sz)) div sz + 1"
      using 1(2) div_add_self2 [of sz "t - (start + sz)"] by simp
    moreover have "0 \<le> (t - (start + sz)) div sz" using False 1(2) by (simp add: pos_imp_zdiv_nonneg_iff)
    ultimately show ?thesis using 1 False by (simp add: unf nat_add_distrib)
  qed
qed

lemma bucket_index_iff:
  assumes "0 < sz" and "starts = bucket_starts since now sz"
  shows "bucket_index starts now sz t = Some i \<longleftrightarrow> i < length starts \<and> starts ! i \<le> t \<and> t < starts ! i + sz"
proof (cases starts)
  case Nil
  then show ?thesis by (simp add: bucket_index_def)
next
  case (Cons s ss)
  have nth: "starts ! j = s + int j * sz" if "j < length starts" for j
  proof -
    have eq: "starts = starts_from (since div sz * sz) now sz" using assms(2) by (simp add: bucket_starts_def)
    then have "starts ! k = since div sz * sz + int k * sz" if "k < length starts" for k
      using that starts_from_nth by simp
    from this [of j] this [of 0] show ?thesis using that Cons by simp
  qed
  have "0 \<le> (t - s) div sz \<and> nat ((t - s) div sz) = i \<longleftrightarrow> s + int i * sz \<le> t \<and> t < s + int i * sz + sz"
  proof
    assume "0 \<le> (t - s) div sz \<and> nat ((t - s) div sz) = i"
    then have i: "(t - s) div sz = int i" by auto
    have "int i * sz + (t - s) mod sz = t - s" unfolding i [symmetric] by (rule div_mult_mod_eq)
    then show "s + int i * sz \<le> t \<and> t < s + int i * sz + sz"
      using pos_mod_bound [OF assms(1), of "t - s"] pos_mod_sign [OF assms(1), of "t - s"] by linarith
  next
    assume "s + int i * sz \<le> t \<and> t < s + int i * sz + sz"
    then have "(t - s) div sz = int i" using assms(1) by (intro int_div_pos_eq [of _ _ _ "t - s - int i * sz"]) (auto simp: algebra_simps)
    then show "0 \<le> (t - s) div sz \<and> nat ((t - s) div sz) = i" by simp
  qed
  moreover have "bucket_index starts now sz t = Some i \<longleftrightarrow> i < length starts \<and> 0 \<le> (t - s) div sz \<and> nat ((t - s) div sz) = i"
    using Cons by (auto simp: bucket_index_def Let_def)
  ultimately show ?thesis using nth by auto
qed

lemma bucket_index_covers:
  assumes "0 < sz" and "since \<le> t" and "t \<le> now"
  shows "\<exists>i. bucket_index (bucket_starts since now sz) now sz t = Some i"
proof -
  define s where "s = since div sz * sz"
  have "s \<le> since" unfolding s_def using assms(1) by (metis div_mult_mod_eq le_add_same_cancel1 pos_mod_sign)
  then have st: "s \<le> t" using assms(2) by simp
  define starts where "starts = starts_from s now sz"
  have len: "nat ((t - s) div sz) < length starts"
    unfolding starts_def using starts_from_covers [OF assms(1) st assms(3)] .
  then have "starts \<noteq> []" by auto
  then have "hd starts = s" using starts_from_nth [of 0 s now sz] by (simp add: starts_def hd_conv_nth)
  then have "bucket_index starts now sz t = Some (nat ((t - s) div sz))"
    using len st assms(1) \<open>starts \<noteq> []\<close>
    by (cases starts) (auto simp: bucket_index_def Let_def pos_imp_zdiv_nonneg_iff)
  then show ?thesis by (auto simp: bucket_starts_def s_def [symmetric] starts_def)
qed

lemma range_sizes [simp]: "0 < range_bucket_ms r" "0 \<le> range_duration_ms r"
  by (cases r; simp add: range_bucket_ms_def DAY_MS_def HOUR_MS_def)+

section \<open>The chart counts every run\<close>

lemma bump_at_simps [simp]:
  "length (bump_at i xs) = length xs"
  "i < length xs \<Longrightarrow> sum_list (bump_at i xs) = Suc (sum_list xs)"
  by (simp_all add: bump_at_def sum_list_update)

lemma bump_at_nth: "i < length xs \<Longrightarrow> bump_at i xs ! j = (if j = i then Suc (xs ! j) else xs ! j)"
  by (simp add: bump_at_def nth_list_update)

text \<open>What one list of the chart counts in bucket \<open>i\<close>.\<close>

definition drawn :: "(int \<Rightarrow> nat option) \<Rightarrow> (string \<Rightarrow> bool) \<Rightarrow> nat \<Rightarrow> named_run list \<Rightarrow> nat" where
  "drawn index P i runs = length (filter (\<lambda>r. index (ru_requested_at (snd r)) = Some i
     \<and> (\<exists>out. ru_outcome (snd r) = Some out \<and> P out)) runs)"

abbreviation is_other :: "string \<Rightarrow> bool" where
  "is_other out \<equiv> out \<noteq> ''completed'' \<and> out \<noteq> ''rejected'' \<and> \<not> is_failure out"

lemma count_outcomes:
  assumes "\<And>t i. index t = Some i \<Longrightarrow> i < n"
    and "length (oc_completed oc) = n" "length (oc_failed oc) = n" "length (oc_rejected oc) = n" "length (oc_other oc) = n"
    and "j < n"
  shows "oc_completed (fold (count_outcome index) runs oc) ! j
      = oc_completed oc ! j + drawn index (\<lambda>out. out = ''completed'') j runs
    \<and> oc_rejected (fold (count_outcome index) runs oc) ! j
      = oc_rejected oc ! j + drawn index (\<lambda>out. out = ''rejected'') j runs
    \<and> oc_failed (fold (count_outcome index) runs oc) ! j = oc_failed oc ! j + drawn index is_failure j runs
    \<and> oc_other (fold (count_outcome index) runs oc) ! j = oc_other oc ! j + drawn index is_other j runs"
  using assms(2-5)
proof (induction runs arbitrary: oc)
  case (Cons r runs)
  show ?case
  proof (cases "index (ru_requested_at (snd r))")
    case None
    then show ?thesis using Cons by (simp add: count_outcome_def drawn_def)
  next
    case (Some i)
    then have "i < n" using assms(1) by blast
    then show ?thesis
      using Cons.IH [of "count_outcome index r oc"] Cons.prems Some
      by (cases "ru_outcome (snd r)")
         (auto simp: count_outcome_def drawn_def bump_at_nth is_failure_def)
  qed
qed (simp add: drawn_def)

definition no_outcomes :: "nat \<Rightarrow> outcomes" where
  "no_outcomes n = \<lparr>oc_completed = replicate n 0, oc_failed = replicate n 0, oc_rejected = replicate n 0,
                    oc_other = replicate n 0\<rparr>"

lemma chart_outcomes:
  "ch_buckets (make_charts runs js agents steps r now) = bucket_starts (now - range_duration_ms r) now (range_bucket_ms r)"
  "ch_outcomes (make_charts runs js agents steps r now) =
     (let starts = bucket_starts (now - range_duration_ms r) now (range_bucket_ms r)
      in fold (count_outcome (bucket_index starts now (range_bucket_ms r))) runs (no_outcomes (length starts)))"
  by (simp_all add: make_charts_def Let_def no_outcomes_def)

lemma bucket_index_lt: "bucket_index starts now sz t = Some i \<Longrightarrow> i < length starts"
  by (auto simp: bucket_index_def Let_def split: if_splits)

text \<open>Each bucket of the outcome chart counts the runs requested between its start and the next: those that
  completed, those that were rejected, those that failed and those that ended otherwise.\<close>

theorem chart_bucket_counts:
  assumes "c = make_charts runs js agents steps r now" and "i < length (ch_buckets c)"
  shows "let requested = filter (\<lambda>x. ch_buckets c ! i \<le> ru_requested_at (snd x)
             \<and> ru_requested_at (snd x) < ch_buckets c ! i + range_bucket_ms r) runs;
           ended = (\<lambda>P. length (filter (\<lambda>x. \<exists>out. ru_outcome (snd x) = Some out \<and> P out) requested))
         in oc_completed (ch_outcomes c) ! i = ended (\<lambda>out. out = ''completed'')
          \<and> oc_rejected (ch_outcomes c) ! i = ended (\<lambda>out. out = ''rejected'')
          \<and> oc_failed (ch_outcomes c) ! i = ended is_failure
          \<and> oc_other (ch_outcomes c) ! i = ended is_other"
proof -
  let ?sz = "range_bucket_ms r"
  define starts where "starts = bucket_starts (now - range_duration_ms r) now ?sz"
  have b: "ch_buckets c = starts" using assms(1) by (simp add: chart_outcomes starts_def)
  have i: "i < length starts" using assms(2) b by simp
  have "drawn (bucket_index starts now ?sz) P i runs = length (filter (\<lambda>x. \<exists>out. ru_outcome (snd x) = Some out \<and> P out)
      (filter (\<lambda>x. starts ! i \<le> ru_requested_at (snd x) \<and> ru_requested_at (snd x) < starts ! i + ?sz) runs))" for P
    unfolding drawn_def filter_filter using i
    by (intro arg_cong [where f = length] filter_cong) (simp_all add: bucket_index_iff [OF _ starts_def])
  then show ?thesis
    using count_outcomes [of "bucket_index starts now ?sz" "length starts" "no_outcomes (length starts)" i runs] i
    by (simp add: b assms(1) chart_outcomes starts_def [symmetric] Let_def no_outcomes_def bucket_index_lt)
qed

lemma sum_outcomes:
  assumes "\<And>t i. index t = Some i \<Longrightarrow> i < n"
    and "length (oc_completed oc) = n" "length (oc_failed oc) = n" "length (oc_rejected oc) = n" "length (oc_other oc) = n"
    and "\<forall>r \<in> set runs. index (ru_requested_at (snd r)) \<noteq> None"
  shows "sum_list (oc_completed (fold (count_outcome index) runs oc)) = sum_list (oc_completed oc) + with_outcome ''completed'' runs
    \<and> sum_list (oc_rejected (fold (count_outcome index) runs oc)) = sum_list (oc_rejected oc) + with_outcome ''rejected'' runs
    \<and> sum_list (oc_failed (fold (count_outcome index) runs oc)) = sum_list (oc_failed oc) + failed_runs runs"
  using assms(2-)
proof (induction runs arbitrary: oc)
  case (Cons r runs)
  then obtain i where i: "index (ru_requested_at (snd r)) = Some i" "i < n" using assms(1) by fastforce
  then show ?case
    using Cons.IH [of "count_outcome index r oc"] Cons.prems
    by (cases "ru_outcome (snd r)") (auto simp: count_outcome_def with_outcome_def failed_runs_def is_failure_def)
qed (simp add: with_outcome_def failed_runs_def)

section \<open>Properties\<close>

text \<open>The metrics page adds up: as long as no run in the table was requested after the page's clock, its
  outcome chart draws every completed, failed and rejected run of the range exactly once, the table of the
  agents counts the same runs, and so does the table of the images.\<close>

theorem metrics_page_adds_up:
  assumes "\<forall>(n, r) \<in> set (st_runs s). ru_requested_at r \<le> utc_now env (st_tick s)"
    and "v = result (metrics_page env q) s"
  shows "(sum_list (oc_completed (ch_outcomes (mv_charts v))), sum_list (oc_failed (ch_outcomes (mv_charts v))),
          sum_list (oc_rejected (ch_outcomes (mv_charts v))))
       = (rg_completed (mv_all v), rg_failures (mv_all v), rg_rejected (mv_all v))
    \<and> (\<forall>groups \<in> {mv_agents v, mv_images v}.
         (sum_list (map rg_runs groups), sum_list (map rg_completed groups), sum_list (map rg_failures groups),
          sum_list (map rg_rejected groups), sum_list (map rg_running groups))
       = (mv_runs v, rg_completed (mv_all v), rg_failures (mv_all v), rg_rejected (mv_all v), rg_running (mv_all v)))"
proof -
  define r where "r = (case q of None \<Rightarrow> RangeWeek | Some s \<Rightarrow> (case range_parse s of None \<Rightarrow> RangeWeek | Some r \<Rightarrow> r))"
  define now where "now = utc_now env (st_tick s)"
  define runs where "runs = (if db_up env (Suc (st_tick s)) then runs_since (now - range_duration_ms r) (st_runs s) else [])"
  have v: "mv_runs v = length runs" "mv_all v = total_runs runs" "mv_agents v = by_agent runs" "mv_images v = by_image runs"
    "\<exists>js. mv_charts v = make_charts runs js (by_agent runs) (step_names runs) r now"
    using assms(2)
    by (auto simp: metrics_page_def Let_def run_query now_def runs_def r_def)
  have sums: "sum_list (map rg_runs (group_runs key rs)) = length rs
      \<and> sum_list (map rg_completed (group_runs key rs)) = with_outcome ''completed'' rs
      \<and> sum_list (map rg_failures (group_runs key rs)) = failed_runs rs
      \<and> sum_list (map rg_rejected (group_runs key rs)) = with_outcome ''rejected'' rs
      \<and> sum_list (map rg_running (group_runs key rs)) = length (filter (\<lambda>r. ru_outcome (snd r) = None) rs)" for key rs
    using sum_group_counts [of rg_runs "\<lambda>_. True" key rs] sum_group_counts [of rg_completed _ key rs]
      sum_group_counts [of rg_failures _ key rs] sum_group_counts [of rg_rejected _ key rs] sum_group_counts [of rg_running _ key rs]
    by (simp add: with_outcome_def failed_runs_def)
  obtain js where c: "mv_charts v = make_charts runs js (by_agent runs) (step_names runs) r now" using v(5) by blast
  define starts where "starts = bucket_starts (now - range_duration_ms r) now (range_bucket_ms r)"
  have "\<forall>x \<in> set runs. bucket_index starts now (range_bucket_ms r) (ru_requested_at (snd x)) \<noteq> None"
    using assms(1) bucket_index_covers [of "range_bucket_ms r"]
    by (fastforce simp: runs_def runs_since_def now_def starts_def)
  then have "sum_list (oc_completed (ch_outcomes (mv_charts v))) = with_outcome ''completed'' runs
     \<and> sum_list (oc_rejected (ch_outcomes (mv_charts v))) = with_outcome ''rejected'' runs
     \<and> sum_list (oc_failed (ch_outcomes (mv_charts v))) = failed_runs runs"
    using sum_outcomes [of "bucket_index starts now (range_bucket_ms r)" "length starts" "no_outcomes (length starts)" runs]
    by (simp add: c chart_outcomes starts_def [symmetric] Let_def no_outcomes_def bucket_index_lt)
  then show ?thesis
    using sums by (simp add: v(1-4) total_runs_def by_agent_def by_image_def)
qed

definition sample_done_run :: "string \<Rightarrow> int \<Rightarrow> string \<Rightarrow> runner_run" where
  "sample_done_run aid t out = finish_run (t + 60000) out None
     (new_runner_run t \<lparr>nr_runner_name = [], nr_agent_id = aid, nr_hostname = aid, nr_agent_type = ''tart'',
        nr_forge = None, nr_job_id = None, nr_repository = None, nr_workflow_name = None, nr_job_name = None,
        nr_pool = None, nr_labels = [''linux'']\<rparr>)"

definition sample_history :: store where
  "sample_history = \<lparr>st_tick = 0, st_pending = [], st_runners = [],
     st_runs = [(''r1'', sample_done_run ''a'' 5000 ''completed''), (''r2'', sample_done_run ''b'' 7000 ''lost''),
                (''r3'', sample_done_run ''a'' 9000 ''completed'')],
     st_jobs = [], st_failures = [], st_missing_since = []\<rparr>"

definition sample_env :: env where
  "sample_env = \<lparr>db_up = \<lambda>_. True, instant = \<lambda>_. 0, utc_now = \<lambda>_. 100000, fresh_uuid = \<lambda>_. []\<rparr>"

theorem metrics_page_adds_up_witness:
  "let v = result (metrics_page sample_env (Some ''24h'')) sample_history in
     sum_list (oc_completed (ch_outcomes (mv_charts v))) = 2 \<and> sum_list (map rg_failures (mv_agents v)) = 1"
proof -
  define v where "v = result (metrics_page sample_env (Some ''24h'')) sample_history"
  have times: "\<forall>(n, r) \<in> set (st_runs sample_history). ru_requested_at r \<le> utc_now sample_env (st_tick sample_history)"
    by (simp add: sample_history_def sample_env_def sample_done_run_def finish_run_def new_runner_run_def)
  have parse: "range_parse ''24h'' = Some RangeDay" by (simp add: range_parse_def RANGE_ALL_def)
  have "mv_all v = total_runs (st_runs sample_history)"
    by (simp add: v_def metrics_page_def Let_def run_query parse sample_history_def sample_env_def runs_since_def sample_done_run_def
        finish_run_def new_runner_run_def DAY_MS_def HOUR_MS_def)
  then have "rg_completed (mv_all v) = 2" "rg_failures (mv_all v) = 1"
    by (simp_all add: total_runs_def with_outcome_def failed_runs_def is_failure_def sample_history_def sample_done_run_def
        finish_run_def new_runner_run_def)
  then show ?thesis
    using metrics_page_adds_up [OF times v_def] unfolding v_def [symmetric] Let_def by simp
qed

end
