(* ===== verification/Agent_Updates.thy ===== *)
theory Agent_Updates
  imports Prelude
begin

text \<open>
  \<^verbatim>\<open>kuiper-forge/src/agent_updates.rs\<close>: the newest release of each agent crate, read from the pages of
  the releases API, and the agents that run an older one. The crate \<^verbatim>\<open>semver\<close> is a parameter: how it parses
  a version, the versions' linear order, and whether one is a pre-release. What the API answers is a
  parameter too: the response at a count of pages and a URL, or the client's error.
\<close>

section \<open>Releases\<close>

definition RELEASES_URL :: string where
  "RELEASES_URL = ''https://api.github.com/repos/AstroHQ/kuiper-forge/releases?per_page=100''"

definition REFRESH_SECS :: nat where "REFRESH_SECS = 6 * 60 * 60"

definition RETRY_SECS :: nat where "RETRY_SECS = 30 * 60"

definition MAX_PAGES :: nat where "MAX_PAGES = 50"

record 'v agent_release =
  al_version :: 'v
  al_url :: string
  al_published_at :: "int option"

record release =
  re_tag_name :: string
  re_html_url :: string
  re_draft :: bool
  re_prerelease :: bool
  re_published_at :: "int option"

record 'v semver =
  sv_parse :: "string \<Rightarrow> 'v option"
  sv_is_pre :: "'v \<Rightarrow> bool"
  sv_text :: "'v \<Rightarrow> string"

text \<open>\<^verbatim>\<open>str::rsplit_once\<close>: at the last occurrence of the pattern.\<close>

fun rsplit_once :: "string \<Rightarrow> string \<Rightarrow> (string \<times> string) option" where
  "rsplit_once pat [] = (if pat = [] then Some ([], []) else None)"
| "rsplit_once pat (c # cs) = (case rsplit_once pat cs of
     Some (a, b) \<Rightarrow> Some (c # a, b)
   | None \<Rightarrow> if is_prefix_of pat (c # cs) then Some ([], drop (length pat) (c # cs)) else None)"

definition crate_name :: "string \<Rightarrow> string" where
  "crate_name agent_type = ''kuiper-'' @ agent_type @ ''-agent''"

text \<open>One turn of the loop of \<^verbatim>\<open>newest_agent_releases\<close>.\<close>

definition add_release ::
    "'v::linorder semver \<Rightarrow> release \<Rightarrow> (string, 'v agent_release) hashmap \<Rightarrow> (string, 'v agent_release) hashmap" where
  "add_release sv r newest =
     (if re_draft r \<or> re_prerelease r then newest
      else (case rsplit_once ''-v'' (re_tag_name r) of
        None \<Rightarrow> newest
      | Some (name, text) \<Rightarrow>
          if \<not> (is_prefix_of ''kuiper-'' name \<and> ends_with name ''-agent'') then newest
          else (case sv_parse sv text of
            None \<Rightarrow> newest
          | Some v \<Rightarrow>
              if sv_is_pre sv v then newest
              else if (case hm_get newest name of None \<Rightarrow> False | Some n \<Rightarrow> v \<le> al_version n) then newest
              else hm_insert name \<lparr>al_version = v, al_url = re_html_url r, al_published_at = re_published_at r\<rparr> newest)))"

definition newest_agent_releases :: "'v::linorder semver \<Rightarrow> release list \<Rightarrow> (string, 'v agent_release) hashmap" where
  "newest_agent_releases sv rs = fold (add_release sv) rs []"

section \<open>Checking an agent\<close>

record update_available =
  up_latest :: string
  up_url :: string
  up_published_at :: "int option"

definition check_update ::
    "'v::linorder semver \<Rightarrow> (string, 'v agent_release) hashmap \<Rightarrow> string \<Rightarrow> string option \<Rightarrow> update_available option" where
  "check_update sv latest agent_type version = (case version of
     None \<Rightarrow> None
   | Some text \<Rightarrow> (case sv_parse sv (dropWhile (\<lambda>c. c = CHR ''v'') text) of
       None \<Rightarrow> None
     | Some running \<Rightarrow> (case hm_get latest (crate_name agent_type) of
         None \<Rightarrow> None
       | Some r \<Rightarrow>
           if running < al_version r
           then Some \<lparr>up_latest = sv_text sv (al_version r), up_url = al_url r, up_published_at = al_published_at r\<rparr>
           else None)))"

section \<open>Fetching the pages\<close>

text \<open>\<^verbatim>\<open>str::split\<close> at a character.\<close>

fun split_char :: "char \<Rightarrow> string \<Rightarrow> string list" where
  "split_char c [] = [[]]"
| "split_char c (x # xs) = (if x = c then [] # split_char c xs
     else (case split_char c xs of [] \<Rightarrow> [[x]] | p # ps \<Rightarrow> (x # p) # ps))"

definition is_next_param :: "string \<Rightarrow> bool" where
  "is_next_param p \<longleftrightarrow> str_trim p = ''rel='' @ [CHR 0x22] @ ''next'' @ [CHR 0x22] \<or> str_trim p = ''rel=next''"

definition link_target :: "string \<Rightarrow> string" where
  "link_target target = rev (dropWhile (\<lambda>c. c = CHR ''>'') (rev (dropWhile (\<lambda>c. c = CHR ''<'') (str_trim target))))"

definition link_next :: "string \<Rightarrow> string option" where
  "link_next link = (case split_once (CHR '';'') link of
     None \<Rightarrow> None
   | Some (target, params) \<Rightarrow>
       if list_ex is_next_param (split_char (CHR '';'') params) then Some (link_target target) else None)"

fun find_map :: "('a \<Rightarrow> 'b option) \<Rightarrow> 'a list \<Rightarrow> 'b option" where
  "find_map f [] = None"
| "find_map f (x # xs) = (case f x of Some y \<Rightarrow> Some y | None \<Rightarrow> find_map f xs)"

definition next_link :: "string \<Rightarrow> string option" where
  "next_link header = find_map link_next (split_char (CHR '','') header)"

text \<open>A response: its status, its \<^verbatim>\<open>Link\<close> header and its body, which may fail to decode.\<close>

record page_response =
  pg_status :: nat
  pg_link :: "string option"
  pg_releases :: "string + release list"

definition fetch_page :: "string + page_response \<Rightarrow> string + (release list \<times> string option)" where
  "fetch_page answer = (case answer of
     Inl e \<Rightarrow> Inl e
   | Inr p \<Rightarrow>
       if \<not> (200 \<le> pg_status p \<and> pg_status p < 300) then Inl (''GitHub returned '' @ nat_to_string (pg_status p))
       else (case pg_releases p of
         Inl e \<Rightarrow> Inl e
       | Inr rs \<Rightarrow> Inr (rs, case pg_link p of None \<Rightarrow> None | Some h \<Rightarrow> next_link h)))"

text \<open>The loop of \<^verbatim>\<open>fetch\<close> after \<open>page\<close> pages. Every turn counts a page, and there are at most
  \<^verbatim>\<open>MAX_PAGES\<close>.\<close>

function fetch_pages ::
    "(nat \<Rightarrow> string \<Rightarrow> string + page_response) \<Rightarrow> nat \<Rightarrow> string option \<Rightarrow> release list \<Rightarrow> string + release list" where
  "fetch_pages get page url releases = (case url of
     None \<Rightarrow> Inr releases
   | Some u \<Rightarrow>
       if page + 1 > MAX_PAGES then Inr releases
       else (case fetch_page (get (page + 1) u) of
         Inl e \<Rightarrow> Inl e
       | Inr (batch, url') \<Rightarrow> fetch_pages get (page + 1) url' (releases @ batch)))"
  by pat_completeness auto
termination by (relation "measure (\<lambda>(_, page, _, _). MAX_PAGES - page)") auto

declare fetch_pages.simps [simp del]

definition fetch_releases ::
    "'v::linorder semver \<Rightarrow> (nat \<Rightarrow> string \<Rightarrow> string + page_response) \<Rightarrow> string \<Rightarrow> string + (string, 'v agent_release) hashmap" where
  "fetch_releases sv get url = map_sum id (newest_agent_releases sv) (fetch_pages get 0 (Some url) [])"

text \<open>\<^verbatim>\<open>refresh\<close>, and one turn of \<^verbatim>\<open>run\<close>: what is known after it, and how long it then sleeps.\<close>

definition refresh_updates ::
    "'v::linorder semver \<Rightarrow> (nat \<Rightarrow> string \<Rightarrow> string + page_response) \<Rightarrow> string
     \<Rightarrow> (string, 'v agent_release) hashmap \<Rightarrow> (string + unit) \<times> (string, 'v agent_release) hashmap" where
  "refresh_updates sv get url latest = (case fetch_releases sv get url of
     Inl e \<Rightarrow> (Inl e, latest)
   | Inr releases \<Rightarrow> (Inr (), releases))"

definition updates_turn ::
    "'v::linorder semver \<Rightarrow> (nat \<Rightarrow> string \<Rightarrow> string + page_response)
     \<Rightarrow> (string, 'v agent_release) hashmap \<Rightarrow> nat \<times> (string, 'v agent_release) hashmap" where
  "updates_turn sv get latest = (case refresh_updates sv get RELEASES_URL latest of
     (Inr _, latest') \<Rightarrow> (REFRESH_SECS, latest')
   | (Inl _, latest') \<Rightarrow> (RETRY_SECS, latest'))"

section \<open>Lemmas\<close>

lemma rsplit_once_Some:
  "pat \<noteq> [] \<Longrightarrow> rsplit_once pat s = Some (a, b) \<Longrightarrow> s = a @ pat @ b"
proof (induction s arbitrary: a)
  case (Cons c cs)
  have "is_prefix_of pat xs \<Longrightarrow> xs = pat @ drop (length pat) xs" for xs
    by (induction pat xs rule: is_prefix_of.induct) auto
  then show ?case using Cons by (auto split: option.splits if_splits)
qed auto

text \<open>What a release offers: the agent crate it is a version of, and that version.\<close>

definition offer :: "'v::linorder semver \<Rightarrow> release \<Rightarrow> (string \<times> 'v agent_release) option" where
  "offer sv r = (if re_draft r \<or> re_prerelease r then None
     else (case rsplit_once ''-v'' (re_tag_name r) of
       None \<Rightarrow> None
     | Some (name, text) \<Rightarrow>
         if is_prefix_of ''kuiper-'' name \<and> ends_with name ''-agent''
         then (case sv_parse sv text of
             None \<Rightarrow> None
           | Some v \<Rightarrow> if sv_is_pre sv v then None
               else Some (name, \<lparr>al_version = v, al_url = re_html_url r, al_published_at = re_published_at r\<rparr>))
         else None))"

definition offers :: "'v::linorder semver \<Rightarrow> string \<Rightarrow> release list \<Rightarrow> 'v agent_release list" where
  "offers sv name rs = List.map_filter (\<lambda>r. case offer sv r of
     Some (n, a) \<Rightarrow> if n = name then Some a else None | None \<Rightarrow> None) rs"

lemma add_release_offer:
  "add_release sv r newest = (case offer sv r of
     None \<Rightarrow> newest
   | Some (name, a) \<Rightarrow>
       if (case hm_get newest name of None \<Rightarrow> False | Some n \<Rightarrow> al_version a \<le> al_version n) then newest
       else hm_insert name a newest)"
  by (auto simp: add_release_def offer_def split: option.splits)

text \<open>The first of the newest of a list.\<close>

definition newest_of :: "'v::linorder agent_release list \<Rightarrow> 'v agent_release option" where
  "newest_of as = fold (\<lambda>a best. case best of None \<Rightarrow> Some a
     | Some b \<Rightarrow> if al_version a \<le> al_version b then Some b else Some a) as None"

lemma newest_agent_releases_get:
  "hm_get (newest_agent_releases sv rs) name = newest_of (offers sv name rs)"
proof (induction rs rule: rev_induct)
  case (snoc r rs)
  then show ?case
    by (cases "offer sv r")
       (auto simp: newest_agent_releases_def offers_def newest_of_def add_release_offer map_filter_def
          split: option.splits prod.splits)
qed (simp add: newest_agent_releases_def offers_def newest_of_def map_filter_def)

lemma newest_of_None [simp]: "newest_of as = None \<longleftrightarrow> as = []"
  by (induction as rule: rev_induct) (auto simp: newest_of_def split: option.splits)

lemma newest_of_Nil [simp]: "newest_of [] = None" by simp

lemma newest_of_Some:
  "newest_of as = Some a \<longleftrightarrow>
     (\<exists>us vs. as = us @ a # vs \<and> (\<forall>u \<in> set us. al_version u < al_version a) \<and> (\<forall>v \<in> set vs. al_version v \<le> al_version a))"
proof (induction as arbitrary: a rule: rev_induct)
  case Nil
  then show ?case by (simp add: newest_of_def)
next
  case (snoc x as)
  show ?case
  proof (cases "newest_of as")
    case None
    then have "as = []" by simp
    have single: "[x] = us @ a # vs \<longleftrightarrow> us = [] \<and> x = a \<and> vs = []" for us vs by (cases us) auto
    have "newest_of [x] = Some x" by (simp add: newest_of_def)
    then show ?thesis unfolding \<open>as = []\<close> append_Nil single by auto
  next
    case (Some b)
    then obtain us vs where b: "as = us @ b # vs" "\<forall>u \<in> set us. al_version u < al_version b"
      "\<forall>v \<in> set vs. al_version v \<le> al_version b" using snoc [of b] by auto
    have new: "newest_of (as @ [x]) = (if al_version x \<le> al_version b then Some b else Some x)"
      using Some by (simp add: newest_of_def)
    show ?thesis
    proof
      assume a: "newest_of (as @ [x]) = Some a"
      show "\<exists>us vs. as @ [x] = us @ a # vs \<and> (\<forall>u \<in> set us. al_version u < al_version a)
          \<and> (\<forall>v \<in> set vs. al_version v \<le> al_version a)"
      proof (cases "al_version x \<le> al_version b")
        case True
        then have "a = b" using a new by simp
        then show ?thesis using b True by (intro exI [of _ us] exI [of _ "vs @ [x]"]) auto
      next
        case False
        then have "a = x" using a new by simp
        moreover have "\<forall>u \<in> set as. al_version u < al_version x" using b False by fastforce
        ultimately show ?thesis by (intro exI [of _ as] exI [of _ "[]"]) simp
      qed
    next
      assume "\<exists>us vs. as @ [x] = us @ a # vs \<and> (\<forall>u \<in> set us. al_version u < al_version a)
          \<and> (\<forall>v \<in> set vs. al_version v \<le> al_version a)"
      then obtain us' vs' where a: "as @ [x] = us' @ a # vs'" "\<forall>u \<in> set us'. al_version u < al_version a"
          "\<forall>v \<in> set vs'. al_version v \<le> al_version a" by blast
      show "newest_of (as @ [x]) = Some a"
      proof (cases vs' rule: rev_cases)
        case Nil
        then have "as = us'" "a = x" using a(1) by auto
        then show ?thesis unfolding new using a(2) b(1) by fastforce
      next
        case (snoc vs'' y)
        then have "as = us' @ a # vs''" "x = y" using a(1) by auto
        then have "newest_of as = Some a" using a(2,3) snoc.IH [of a] snoc by auto
        then show ?thesis unfolding new using a(3) snoc \<open>x = y\<close> Some by auto
      qed
    qed
  qed
qed

section \<open>Properties\<close>

text \<open>An agent is offered an update exactly when the releases hold one of its crate that is no draft, no
  pre-release and newer than what it runs; the update is the newest of them, and of equal versions the one
  listed first.\<close>

theorem check_offers_newest:
  "check_update sv (newest_agent_releases sv rs) agent_type version = Some up \<longleftrightarrow>
     (\<exists>text running us a vs. version = Some text \<and> sv_parse sv (dropWhile (\<lambda>c. c = CHR ''v'') text) = Some running
        \<and> offers sv (crate_name agent_type) rs = us @ a # vs \<and> running < al_version a
        \<and> (\<forall>u \<in> set us. al_version u < al_version a) \<and> (\<forall>v \<in> set vs. al_version v \<le> al_version a)
        \<and> up = \<lparr>up_latest = sv_text sv (al_version a), up_url = al_url a, up_published_at = al_published_at a\<rparr>)"
proof -
  have "check_update sv (newest_agent_releases sv rs) agent_type version = Some up \<longleftrightarrow>
     (\<exists>text running a. version = Some text \<and> sv_parse sv (dropWhile (\<lambda>c. c = CHR ''v'') text) = Some running
        \<and> newest_of (offers sv (crate_name agent_type) rs) = Some a \<and> running < al_version a
        \<and> up = \<lparr>up_latest = sv_text sv (al_version a), up_url = al_url a, up_published_at = al_published_at a\<rparr>)"
    by (auto simp: check_update_def newest_agent_releases_get split: option.splits if_splits)
  then show ?thesis unfolding newest_of_Some by blast
qed

text \<open>A check that fails on any page, and one that stops at the cap, leave no partial list: either nothing
  changes and the next check comes after half an hour, or the newest of every page read replaces what was known.\<close>

fun pages_read ::
    "(nat \<Rightarrow> string \<Rightarrow> string + page_response) \<Rightarrow> nat \<Rightarrow> nat \<Rightarrow> string option \<Rightarrow> (string + (release list \<times> string option)) list" where
  "pages_read get 0 page url = []"
| "pages_read get (Suc n) page None = []"
| "pages_read get (Suc n) page (Some u) = (let r = fetch_page (get (page + 1) u) in
     r # (case r of Inl _ \<Rightarrow> [] | Inr (_, url') \<Rightarrow> pages_read get n (page + 1) url'))"

lemma fetch_pages_read:
  "page \<le> MAX_PAGES \<Longrightarrow> fetch_pages get page url releases =
     (let ps = pages_read get (MAX_PAGES - page) page url in
      case find_map (\<lambda>p. case p of Inl e \<Rightarrow> Some e | Inr _ \<Rightarrow> None) ps of
        Some e \<Rightarrow> Inl e
      | None \<Rightarrow> Inr (releases @ concat (map (\<lambda>p. case p of Inl _ \<Rightarrow> [] | Inr (rs, _) \<Rightarrow> rs) ps)))"
proof (induction get page url releases rule: fetch_pages.induct)
  case (1 get page url releases)
  show ?case
  proof (cases "page < MAX_PAGES")
    case False
    then show ?thesis using 1(2) by (subst fetch_pages.simps) (simp split: option.splits)
  next
    case True
    then obtain n where n: "MAX_PAGES - page = Suc n" "MAX_PAGES - Suc page = n" by (metis Suc_diff_Suc)
    show ?thesis
    proof (cases url)
      case None
      then show ?thesis using n by (subst fetch_pages.simps) simp
    next
      case (Some u)
      show ?thesis
      proof (cases "fetch_page (get (page + 1) u)")
        case (Inl e)
        then show ?thesis using Some n True by (subst fetch_pages.simps) simp
      next
        case (Inr p)
        obtain rs url' where p: "p = (rs, url')" by (cases p)
        have "fetch_pages get page url releases = fetch_pages get (page + 1) url' (releases @ rs)"
          using True Some Inr p by (subst fetch_pages.simps) simp
        then show ?thesis
          using 1(1) [OF Some _ Inr p [symmetric]] True n Some Inr p
          by (simp add: Let_def split: option.splits)
      qed
    qed
  qed
qed

theorem refresh_all_or_nothing:
  "snd (updates_turn sv get latest) = latest \<and> fst (updates_turn sv get latest) = RETRY_SECS
   \<or> (\<exists>ps. (\<forall>p \<in> set ps. \<exists>rs u. p = Inr (rs, u)) \<and> length ps \<le> MAX_PAGES
        \<and> ps = pages_read get MAX_PAGES 0 (Some RELEASES_URL)
        \<and> snd (updates_turn sv get latest)
          = newest_agent_releases sv (concat (map (\<lambda>p. case p of Inl _ \<Rightarrow> [] | Inr (rs, _) \<Rightarrow> rs) ps))
        \<and> fst (updates_turn sv get latest) = REFRESH_SECS)"
proof -
  have len: "length (pages_read get n page url) \<le> n" for n page url
    by (induction get n page url rule: pages_read.induct) (auto simp: Let_def split: sum.splits)
  have fm: "find_map (\<lambda>p. case p of Inl e \<Rightarrow> Some e | Inr _ \<Rightarrow> None) ps = None \<longleftrightarrow> (\<forall>p \<in> set ps. \<exists>rs u. p = Inr (rs, u))"
    for ps :: "(string + (release list \<times> string option)) list"
    by (induction ps) (auto split: sum.splits)
  show ?thesis
  proof (cases "find_map (\<lambda>p. case p of Inl e \<Rightarrow> Some e | Inr _ \<Rightarrow> None) (pages_read get MAX_PAGES 0 (Some RELEASES_URL))")
    case None
    have "updates_turn sv get latest = (REFRESH_SECS, newest_agent_releases sv
      (concat (map (\<lambda>p. case p of Inl _ \<Rightarrow> [] | Inr (rs, _) \<Rightarrow> rs) (pages_read get MAX_PAGES 0 (Some RELEASES_URL)))))"
      by (simp add: updates_turn_def refresh_updates_def fetch_releases_def fetch_pages_read Let_def None)
    then show ?thesis using None len unfolding fm by auto
  next
    case (Some e)
    then show ?thesis
      by (intro disjI1) (simp add: updates_turn_def refresh_updates_def fetch_releases_def fetch_pages_read Let_def)
  qed
qed

end
