(* ===== verification/Proxy_Protocol.thy ===== *)
theory Proxy_Protocol
  imports Prelude
begin

text \<open>
  \<^verbatim>\<open>parse_proxy_protocol\<close> of \<^verbatim>\<open>kuiper-forge/src/server.rs\<close>: the client address a load balancer may
  put in front of a connection. The connection is the bytes the client sends before it closes its
  side; the result is the address and the bytes left for the TLS handshake. The crate \<^verbatim>\<open>ppp\<close> that
  parses a header is a parameter: what its \<^verbatim>\<open>HeaderResult::parse\<close> says of a list of bytes.
\<close>

datatype 'a header_addresses = Tcp4 'a | Tcp6 'a | NoAddress

datatype 'a header_result = V1 "string + 'a header_addresses" | V2 "string + 'a header_addresses"

definition header_addr :: "'a \<Rightarrow> 'a header_addresses \<Rightarrow> 'a" where
  "header_addr fallback h = (case h of Tcp4 a \<Rightarrow> a | Tcp6 a \<Rightarrow> a | NoAddress \<Rightarrow> fallback)"

type_synonym byte_list = "8 word list"

definition MAX_V2_BYTES :: nat where "MAX_V2_BYTES = 536"

definition MAX_V1_BYTES :: nat where "MAX_V1_BYTES = 107"

text \<open>The loop for version 2, with the bytes read so far and those still to come.\<close>

fun read_v2 ::
    "(byte_list \<Rightarrow> 'a header_result) \<Rightarrow> 'a \<Rightarrow> byte_list \<Rightarrow> byte_list \<Rightarrow> (string + 'a) \<times> byte_list" where
  "read_v2 ppp fallback buf rest =
     (case ppp buf of
        V2 (Inr h) \<Rightarrow> (Inr (header_addr fallback h), rest)
      | _ \<Rightarrow>
          if MAX_V2_BYTES \<le> length buf then (Inl ''PROXY protocol v2 header too large or malformed'', rest)
          else (case rest of
             [] \<Rightarrow> (Inl ''Connection closed while reading PROXY protocol v2 header'', [])
           | b # rest' \<Rightarrow> read_v2 ppp fallback (buf @ [b]) rest'))"

declare read_v2.simps [simp del]

definition ends_line :: "byte_list \<Rightarrow> bool" where
  "ends_line buf \<longleftrightarrow> 2 \<le> length buf \<and> buf ! (length buf - 2) = 13 \<and> buf ! (length buf - 1) = 10"

text \<open>The loop for version 1: the whole line, or an error.\<close>

fun read_line :: "byte_list \<Rightarrow> byte_list \<Rightarrow> (string + byte_list) \<times> byte_list" where
  "read_line buf rest =
     (if ends_line buf then (Inr buf, rest)
      else if MAX_V1_BYTES < length buf then (Inl ''PROXY protocol v1 header too long (max 107 bytes)'', rest)
      else (case rest of
         [] \<Rightarrow> (Inl ''Connection closed while reading PROXY protocol v1 header'', [])
       | b # rest' \<Rightarrow> read_line (buf @ [b]) rest'))"

declare read_line.simps [simp del]

definition parse_proxy_protocol ::
    "(byte_list \<Rightarrow> 'a header_result) \<Rightarrow> 'a \<Rightarrow> byte_list \<Rightarrow> (string + 'a) \<times> byte_list" where
  "parse_proxy_protocol ppp fallback conn = (case conn of
     [] \<Rightarrow> (Inl ''Connection closed before any data received'', [])
   | b # rest \<Rightarrow>
       if b \<noteq> 80 \<and> b \<noteq> 13 then (Inr fallback, conn)
       else if b = 13 then read_v2 ppp fallback [b] rest
       else (case read_line [b] rest of
          (Inl e, rest') \<Rightarrow> (Inl e, rest')
        | (Inr buf, rest') \<Rightarrow>
            ((case ppp buf of
                V1 (Inr h) \<Rightarrow> Inr (header_addr fallback h)
              | V1 (Inl e) \<Rightarrow> Inl (''Invalid PROXY protocol v1 header: '' @ e)
              | V2 _ \<Rightarrow> Inl ''Unexpected v2 result for v1 header''), rest')))"


text \<open>What a client may put in front of the handshake, and the address it stands for: nothing, when the
  first byte opens no header; a version 2 header that \<^verbatim>\<open>ppp\<close> accepts as soon as it is complete; or a
  version 1 line with no line end inside.\<close>

inductive fronted ::
    "(byte_list \<Rightarrow> 'a header_result) \<Rightarrow> 'a \<Rightarrow> byte_list \<Rightarrow> byte_list \<Rightarrow> 'a \<Rightarrow> bool"
  for ppp :: "byte_list \<Rightarrow> 'a header_result" and fallback :: 'a where
  direct: "\<lbrakk>b \<noteq> 80; b \<noteq> 13\<rbrakk> \<Longrightarrow> fronted ppp fallback [] (b # rest) fallback"
| binary: "\<lbrakk>hdr = 13 # bs; ppp hdr = V2 (Inr h); length hdr \<le> MAX_V2_BYTES;
            \<And>k h'. k < length bs \<Longrightarrow> ppp (13 # take k bs) \<noteq> V2 (Inr h')\<rbrakk>
          \<Longrightarrow> fronted ppp fallback hdr rest (header_addr fallback h)"
| line: "\<lbrakk>hdr = 80 # bs; ppp hdr = V1 (Inr h); length hdr \<le> Suc MAX_V1_BYTES; ends_line hdr;
          \<And>k. k < length bs \<Longrightarrow> \<not> ends_line (80 # take k bs)\<rbrakk>
        \<Longrightarrow> fronted ppp fallback hdr rest (header_addr fallback h)"

section \<open>The two loops\<close>

lemma all_less_Suc_take:
  "(\<forall>k < length (b # bs). P (buf @ take k (b # bs))) \<longleftrightarrow> P buf \<and> (\<forall>k < length bs. P ((buf @ [b]) @ take k bs))"
  by (auto simp: less_Suc_eq_0_disj)

lemma read_v2_step:
  "read_v2 ppp fallback buf rest =
     (if \<exists>h. ppp buf = V2 (Inr h) then (Inr (header_addr fallback (SOME h. ppp buf = V2 (Inr h))), rest)
      else if MAX_V2_BYTES \<le> length buf then (Inl ''PROXY protocol v2 header too large or malformed'', rest)
      else (case rest of
         [] \<Rightarrow> (Inl ''Connection closed while reading PROXY protocol v2 header'', [])
       | b # rest' \<Rightarrow> read_v2 ppp fallback (buf @ [b]) rest'))"
  by (subst read_v2.simps) (auto split: header_result.splits sum.splits)

lemma read_v2_Inr_iff:
  assumes "length buf \<le> MAX_V2_BYTES"
  shows "read_v2 ppp fallback buf conn = (Inr a, rest) \<longleftrightarrow>
    (\<exists>bs h. conn = bs @ rest \<and> ppp (buf @ bs) = V2 (Inr h) \<and> length (buf @ bs) \<le> MAX_V2_BYTES
       \<and> (\<forall>k < length bs. \<forall>h'. ppp (buf @ take k bs) \<noteq> V2 (Inr h')) \<and> a = header_addr fallback h)"
  (is "?l buf conn \<longleftrightarrow> ?r buf conn")
  using assms
proof (induction conn arbitrary: buf)
  case Nil
  then show ?case by (subst read_v2_step) auto
next
  case (Cons b conn)
  show ?case
  proof (cases "\<exists>h. ppp buf = V2 (Inr h)")
    case True
    then obtain h where h: "ppp buf = V2 (Inr h)" by blast
    have "?r buf (b # conn) \<longleftrightarrow> b # conn = rest \<and> a = header_addr fallback h"
    proof
      assume "?r buf (b # conn)"
      then obtain bs h1 where bs: "b # conn = bs @ rest" "ppp (buf @ bs) = V2 (Inr h1)" "a = header_addr fallback h1"
        "\<forall>k < length bs. \<forall>h'. ppp (buf @ take k bs) \<noteq> V2 (Inr h')" by blast
      have "bs = []" using bs(4) h by (cases bs) fastforce+
      then show "b # conn = rest \<and> a = header_addr fallback h" using bs h by simp
    qed (use h Cons.prems in \<open>auto intro: exI [of _ "[]"]\<close>)
    then show ?thesis using h by (subst read_v2_step) auto
  next
    case False
    have r: "?r buf (b # conn) \<longleftrightarrow> length buf < MAX_V2_BYTES \<and> ?r (buf @ [b]) conn"
    proof
      assume "?r buf (b # conn)"
      then obtain bs h where bs: "b # conn = bs @ rest" "ppp (buf @ bs) = V2 (Inr h)" "length (buf @ bs) \<le> MAX_V2_BYTES"
        "\<forall>k < length bs. \<forall>h'. ppp (buf @ take k bs) \<noteq> V2 (Inr h')" "a = header_addr fallback h" by blast
      then obtain bs' where bs': "bs = b # bs'" "conn = bs' @ rest" using False by (cases bs) auto
      show "length buf < MAX_V2_BYTES \<and> ?r (buf @ [b]) conn"
        using bs bs' all_less_Suc_take [of b bs' "\<lambda>x. \<forall>h'. ppp x \<noteq> V2 (Inr h')" buf] by fastforce
    next
      assume "length buf < MAX_V2_BYTES \<and> ?r (buf @ [b]) conn"
      then obtain bs h where bs: "conn = bs @ rest" "ppp ((buf @ [b]) @ bs) = V2 (Inr h)"
        "length ((buf @ [b]) @ bs) \<le> MAX_V2_BYTES"
        "\<forall>k < length bs. \<forall>h'. ppp ((buf @ [b]) @ take k bs) \<noteq> V2 (Inr h')" "a = header_addr fallback h" by blast
      have "\<forall>k < length (b # bs). \<forall>h'. ppp (buf @ take k (b # bs)) \<noteq> V2 (Inr h')"
        using bs(4) False all_less_Suc_take [of b bs "\<lambda>x. \<forall>h'. ppp x \<noteq> V2 (Inr h')" buf] by blast
      then show "?r buf (b # conn)" using bs by (intro exI [of _ "b # bs"] exI [of _ h]) auto
    qed
    show ?thesis
    proof (cases "length buf < MAX_V2_BYTES")
      case True
      then show ?thesis unfolding r using False Cons.IH [of "buf @ [b]"] by (subst read_v2_step) simp
    next
      case nl: False
      then show ?thesis unfolding r using False by (subst read_v2_step) simp
    qed
  qed
qed

lemma read_line_Inr_iff:
  assumes "length buf \<le> Suc MAX_V1_BYTES"
  shows "read_line buf conn = (Inr l, rest) \<longleftrightarrow>
    (\<exists>bs. conn = bs @ rest \<and> l = buf @ bs \<and> ends_line l \<and> length l \<le> Suc MAX_V1_BYTES
       \<and> (\<forall>k < length bs. \<not> ends_line (buf @ take k bs)))"
  (is "?l buf conn \<longleftrightarrow> ?r buf conn")
  using assms
proof (induction conn arbitrary: buf)
  case Nil
  then show ?case by (subst read_line.simps) auto
next
  case (Cons b conn)
  show ?case
  proof (cases "ends_line buf")
    case True
    have "?r buf (b # conn) \<longleftrightarrow> b # conn = rest \<and> l = buf"
    proof
      assume "?r buf (b # conn)"
      then obtain bs where bs: "b # conn = bs @ rest" "l = buf @ bs" "\<forall>k < length bs. \<not> ends_line (buf @ take k bs)"
        by blast
      have "bs = []" using bs(3) True by (cases bs) fastforce+
      then show "b # conn = rest \<and> l = buf" using bs by simp
    qed (use True Cons.prems in \<open>auto intro: exI [of _ "[]"]\<close>)
    then show ?thesis using True by (subst read_line.simps) auto
  next
    case False
    have r: "?r buf (b # conn) \<longleftrightarrow> length buf \<le> MAX_V1_BYTES \<and> ?r (buf @ [b]) conn"
    proof
      assume "?r buf (b # conn)"
      then obtain bs where bs: "b # conn = bs @ rest" "l = buf @ bs" "ends_line l" "length l \<le> Suc MAX_V1_BYTES"
        "\<forall>k < length bs. \<not> ends_line (buf @ take k bs)" by blast
      then obtain bs' where bs': "bs = b # bs'" "conn = bs' @ rest" using False by (cases bs) auto
      show "length buf \<le> MAX_V1_BYTES \<and> ?r (buf @ [b]) conn"
        using bs bs' all_less_Suc_take [of b bs' "\<lambda>x. \<not> ends_line x" buf] by fastforce
    next
      assume "length buf \<le> MAX_V1_BYTES \<and> ?r (buf @ [b]) conn"
      then obtain bs where bs: "conn = bs @ rest" "l = (buf @ [b]) @ bs" "ends_line l" "length l \<le> Suc MAX_V1_BYTES"
        "\<forall>k < length bs. \<not> ends_line ((buf @ [b]) @ take k bs)" by blast
      have "\<forall>k < length (b # bs). \<not> ends_line (buf @ take k (b # bs))"
        using bs(5) False all_less_Suc_take [of b bs "\<lambda>x. \<not> ends_line x" buf] by blast
      then show "?r buf (b # conn)" using bs by (intro exI [of _ "b # bs"]) auto
    qed
    show ?thesis
    proof (cases "length buf \<le> MAX_V1_BYTES")
      case True
      then show ?thesis unfolding r using False Cons.IH [of "buf @ [b]"] by (subst read_line.simps) simp
    next
      case nl: False
      then show ?thesis unfolding r using False by (subst read_line.simps) simp
    qed
  qed
qed

section \<open>Properties\<close>

text \<open>The reader takes a connection exactly when it is fronted by nothing, by a complete version 2
  header of at most 536 bytes or by a version 1 line of at most 108: it then answers the address the
  front stands for and leaves exactly the bytes behind it for the handshake, no byte of the handshake
  read and none of the header left.\<close>

theorem proxy_reads_only_header:
  "parse_proxy_protocol ppp fallback conn = (Inr a, rest) \<longleftrightarrow>
     (\<exists>hdr. conn = hdr @ rest \<and> fronted ppp fallback hdr rest a)"
proof (cases conn)
  case Nil
  then show ?thesis by (auto simp: parse_proxy_protocol_def elim!: fronted.cases)
next
  case (Cons b bs)
  consider "b \<noteq> 80" "b \<noteq> 13" | "b = 13" | "b = 80" by blast
  then show ?thesis
  proof cases
    case 1
    then show ?thesis
      by (auto simp: Cons parse_proxy_protocol_def append_eq_Cons_conv elim!: fronted.cases intro: fronted.direct)
  next
    case 2
    have "fronted ppp fallback hdr rest a \<longleftrightarrow> (\<exists>us h. hdr = 13 # us \<and> ppp (13 # us) = V2 (Inr h)
       \<and> length (13 # us) \<le> MAX_V2_BYTES \<and> (\<forall>k < length us. \<forall>h'. ppp (13 # take k us) \<noteq> V2 (Inr h'))
       \<and> a = header_addr fallback h)" if "13 # bs = hdr @ rest" for hdr
      using that by (auto elim!: fronted.cases intro: fronted.binary)
    then have "(\<exists>hdr. 13 # bs = hdr @ rest \<and> fronted ppp fallback hdr rest a) \<longleftrightarrow>
      read_v2 ppp fallback [13] bs = (Inr a, rest)"
      by (subst read_v2_Inr_iff) (simp add: MAX_V2_BYTES_def, fastforce)
    then show ?thesis using 2 by (simp add: Cons parse_proxy_protocol_def)
  next
    case 3
    have "fronted ppp fallback hdr rest a \<longleftrightarrow> (\<exists>us h. hdr = 80 # us \<and> ppp (80 # us) = V1 (Inr h)
       \<and> length (80 # us) \<le> Suc MAX_V1_BYTES \<and> ends_line (80 # us)
       \<and> (\<forall>k < length us. \<not> ends_line (80 # take k us)) \<and> a = header_addr fallback h)"
      if "80 # bs = hdr @ rest" for hdr
      using that by (auto elim!: fronted.cases intro: fronted.line)
    then have "(\<exists>hdr. 80 # bs = hdr @ rest \<and> fronted ppp fallback hdr rest a) \<longleftrightarrow>
      (\<exists>l h. read_line [80] bs = (Inr l, rest) \<and> ppp l = V1 (Inr h) \<and> a = header_addr fallback h)"
      by (subst read_line_Inr_iff) (simp add: MAX_V1_BYTES_def, fastforce)
    moreover have "parse_proxy_protocol ppp fallback conn = (Inr a, rest) \<longleftrightarrow>
      (\<exists>l h. read_line [80] bs = (Inr l, rest) \<and> ppp l = V1 (Inr h) \<and> a = header_addr fallback h)"
      using 3 by (auto simp: Cons parse_proxy_protocol_def split: prod.splits sum.splits header_result.splits)
    ultimately show ?thesis using 3 by (simp add: Cons)
  qed
qed

end
