(* ===== verification/Shell_Quoting.thy ===== *)
theory Shell_Quoting
  imports Prelude "HOL-Library.Word"
begin

text \<open>
  \<^verbatim>\<open>kuiper-agent-lib/src/shell.rs\<close>: quoting values for the shells of the VMs, next to a reference for
  what the shells read: the tokens of a POSIX shell, with how each character of a word was quoted, and the
  value of a PowerShell single-quoted string. The crate \<^verbatim>\<open>base64\<close> is a parameter.
\<close>

unbundle bit_operations_syntax

section \<open>Quoting\<close>

text \<open>\<^verbatim>\<open>str::replace\<close> of one character by a string.\<close>

definition replace_char :: "char \<Rightarrow> string \<Rightarrow> string \<Rightarrow> string" where
  "replace_char c by s = concat (map (\<lambda>x. if x = c then by else [x]) s)"

abbreviation QUOTE :: char where "QUOTE \<equiv> CHR 0x27"
abbreviation BACKSLASH :: char where "BACKSLASH \<equiv> CHR 0x5C"
abbreviation DQUOTE :: char where "DQUOTE \<equiv> CHR 0x22"
abbreviation NEWLINE :: char where "NEWLINE \<equiv> CHR 0x0A"

definition escape_posix :: "string \<Rightarrow> string" where
  "escape_posix s = QUOTE # replace_char QUOTE [QUOTE, BACKSLASH, QUOTE, QUOTE] s @ [QUOTE]"

definition ascii_lowercase :: "char \<Rightarrow> bool" where
  "ascii_lowercase c \<longleftrightarrow> (let n = of_char c :: nat in 97 \<le> n \<and> n \<le> 122)"

definition username_start :: "char \<Rightarrow> bool" where
  "username_start c \<longleftrightarrow> ascii_lowercase c \<or> c = CHR ''_''"

definition username_char :: "char \<Rightarrow> bool" where
  "username_char c \<longleftrightarrow> ascii_lowercase c \<or> is_digit c \<or> c = CHR ''_'' \<or> c = CHR ''-''"

definition valid_tilde_user :: "string \<Rightarrow> bool" where
  "valid_tilde_user name \<longleftrightarrow> (case name of [] \<Rightarrow> True | c # cs \<Rightarrow> username_start c \<and> list_all username_char cs)"

definition escape_posix_path :: "string \<Rightarrow> string" where
  "escape_posix_path s = (case s of
     [] \<Rightarrow> escape_posix s
   | c # _ \<Rightarrow>
       if c \<noteq> CHR ''~'' then escape_posix s
       else (case split_once (CHR ''/'') s of
         None \<Rightarrow> if valid_tilde_user (tl s) then s else escape_posix s
       | Some (prefix, rest) \<Rightarrow>
           if \<not> valid_tilde_user (tl prefix) then escape_posix s
           else if rest = [] then prefix @ ''/''
           else prefix @ ''/'' @ escape_posix rest))"

definition escape_powershell :: "string \<Rightarrow> string" where
  "escape_powershell s = QUOTE # replace_char QUOTE [QUOTE, QUOTE] s @ [QUOTE]"

text \<open>\<^verbatim>\<open>str::encode_utf16\<close>, for a text as its code points.\<close>

definition encode_utf16 :: "nat list \<Rightarrow> 16 word list" where
  "encode_utf16 cs = concat (map (\<lambda>c. if c < 0x10000 then [of_nat c]
     else [of_nat (0xD800 + (c - 0x10000) div 0x400), of_nat (0xDC00 + (c - 0x10000) mod 0x400)]) cs)"

definition to_le_bytes :: "16 word \<Rightarrow> 8 word list" where
  "to_le_bytes w = [ucast w, ucast (drop_bit 8 w)]"

definition encode_powershell_command :: "(8 word list \<Rightarrow> string) \<Rightarrow> nat list \<Rightarrow> string" where
  "encode_powershell_command b64 cmd = b64 (concat (map to_le_bytes (encode_utf16 cmd)))"

section \<open>What a POSIX shell reads\<close>

text \<open>How a character of a word was written: bare, quoted, or between double quotes, where \<^verbatim>\<open>$\<close> and the
  backquote still expand.\<close>

datatype quoting = Bare | Quoted | InDouble

type_synonym sh_word = "(char \<times> quoting) list"

datatype sh_token = Word sh_word | Operator char

datatype lex_mode = Normal | Escape | Single | Double | DoubleEscape | Comment

definition is_blank :: "char \<Rightarrow> bool" where
  "is_blank c \<longleftrightarrow> c = CHR '' '' \<or> c = CHR 0x09"

definition is_operator :: "char \<Rightarrow> bool" where
  "is_operator c \<longleftrightarrow> c \<in> {CHR '';'', CHR ''&'', CHR ''|'', CHR ''<'', CHR ''>'', CHR ''('', CHR '')'', NEWLINE}"

definition flush :: "sh_word option \<Rightarrow> sh_token list" where
  "flush acc = (case acc of None \<Rightarrow> [] | Some w \<Rightarrow> [Word w])"

definition add_char :: "sh_word option \<Rightarrow> char \<Rightarrow> quoting \<Rightarrow> sh_word option" where
  "add_char acc c q = Some ((case acc of None \<Rightarrow> [] | Some w \<Rightarrow> w) @ [(c, q)])"

definition open_word :: "sh_word option \<Rightarrow> sh_word option" where
  "open_word acc = Some (case acc of None \<Rightarrow> [] | Some w \<Rightarrow> w)"

text \<open>The tokens of a command line, one character at a time; \<^term>\<open>None\<close> for an open quote at the end.\<close>

fun sh_lex :: "lex_mode \<Rightarrow> sh_word option \<Rightarrow> string \<Rightarrow> sh_token list option" where
  "sh_lex m acc [] = (if m = Normal \<or> m = Comment then Some (flush acc) else None)"
| "sh_lex Normal acc (c # cs) =
     (if c = QUOTE then sh_lex Single (open_word acc) cs
      else if c = DQUOTE then sh_lex Double (open_word acc) cs
      else if c = BACKSLASH then sh_lex Escape acc cs
      else if is_blank c then map_option (\<lambda>ts. flush acc @ ts) (sh_lex Normal None cs)
      else if is_operator c then map_option (\<lambda>ts. flush acc @ Operator c # ts) (sh_lex Normal None cs)
      else if c = CHR ''#'' \<and> acc = None then sh_lex Comment None cs
      else sh_lex Normal (add_char acc c Bare) cs)"
| "sh_lex Escape acc (c # cs) = (if c = NEWLINE then sh_lex Normal acc cs else sh_lex Normal (add_char acc c Quoted) cs)"
| "sh_lex Single acc (c # cs) = (if c = QUOTE then sh_lex Normal acc cs else sh_lex Single (add_char acc c Quoted) cs)"
| "sh_lex Double acc (c # cs) =
     (if c = DQUOTE then sh_lex Normal acc cs
      else if c = BACKSLASH then sh_lex DoubleEscape acc cs
      else sh_lex Double (add_char acc c InDouble) cs)"
| "sh_lex DoubleEscape acc (c # cs) =
     (if c = NEWLINE then sh_lex Double acc cs
      else if c = CHR ''$'' \<or> c = CHR ''`'' \<or> c = DQUOTE \<or> c = BACKSLASH then sh_lex Double (add_char acc c Quoted) cs
      else sh_lex Double (add_char (add_char acc BACKSLASH InDouble) c InDouble) cs)"
| "sh_lex Comment acc (c # cs) =
     (if c = NEWLINE then map_option (\<lambda>ts. Operator c # ts) (sh_lex Normal None cs) else sh_lex Comment acc cs)"

definition sh_tokens :: "string \<Rightarrow> sh_token list option" where
  "sh_tokens s = sh_lex Normal None s"

definition bare :: "string \<Rightarrow> sh_word" where "bare s = map (\<lambda>c. (c, Bare)) s"

definition quoted :: "string \<Rightarrow> sh_word" where "quoted s = map (\<lambda>c. (c, Quoted)) s"

section \<open>What PowerShell reads between single quotes\<close>

text \<open>PowerShell takes the typographic quotes U+2018 to U+201B for single quotes as well; in UTF-8 they are the
  bytes E2 80 98 to E2 80 9B. The length of the quote in front of a text, 0 for none.\<close>

definition typographic :: "string \<Rightarrow> bool" where
  "typographic s \<longleftrightarrow> list_ex (\<lambda>b. is_prefix_of [CHR 0xE2, CHR 0x80, b] s) [CHR 0x98, CHR 0x99, CHR 0x9A, CHR 0x9B]"

definition ps_quote :: "string \<Rightarrow> nat" where
  "ps_quote s = (if is_prefix_of [QUOTE] s then 1 else if typographic s then 3 else 0)"

text \<open>The value of a single-quoted string, whose opening quote is read, and the text after its end: a quote ends
  it unless another one follows, which is then a character of the value.\<close>

function ps_single :: "string \<Rightarrow> (string \<times> string) option" where
  "ps_single [] = None"
| "ps_single (c # s) =
     (let n = ps_quote (c # s); r = drop n (c # s); m = ps_quote r in
      if n = 0 then map_option (\<lambda>(v, r). (c # v, r)) (ps_single s)
      else if m = 0 then Some ([], r)
      else map_option (\<lambda>(v, r'). (take m r @ v, r')) (ps_single (drop m r)))"
  by pat_completeness auto
termination by (relation "measure length") (auto simp: Let_def ps_quote_def split: if_splits)

fun no_typographic :: "string \<Rightarrow> bool" where
  "no_typographic [] = True"
| "no_typographic (c # s) = (\<not> typographic (c # s) \<and> no_typographic s)"

section \<open>Lemmas\<close>

lemma replace_char_simps [simp]:
  "replace_char c by [] = []"
  "replace_char c by (x # s) = (if x = c then by else [x]) @ replace_char c by s"
  by (simp_all add: replace_char_def)

lemma word_simps [simp]:
  "bare [] = []" "bare (c # s) = (c, Bare) # bare s" "bare (s @ t) = bare s @ bare t"
  "quoted [] = []" "quoted (c # s) = (c, Quoted) # quoted s" "quoted (s @ t) = quoted s @ quoted t"
  "map fst (bare s) = s" "map fst (quoted s) = s"
  by (simp_all add: bare_def quoted_def comp_def)

lemma lex_single:
  "sh_lex Single (Some w) (replace_char QUOTE [QUOTE, BACKSLASH, QUOTE, QUOTE] s @ QUOTE # rest)
   = sh_lex Normal (Some (w @ quoted s)) rest"
  by (induction s arbitrary: w) (simp_all add: add_char_def open_word_def)

text \<open>A quoted value continues the word before it by its characters, all quoted, and nothing else.\<close>

lemma lex_escape_posix [simp]:
  "sh_lex Normal acc (escape_posix s @ rest) = sh_lex Normal (Some ((case acc of None \<Rightarrow> [] | Some w \<Rightarrow> w) @ quoted s)) rest"
  by (simp add: escape_posix_def open_word_def lex_single split: option.split)

definition bare_char :: "char \<Rightarrow> bool" where
  "bare_char c \<longleftrightarrow> c \<notin> {QUOTE, DQUOTE, BACKSLASH, CHR ''#''} \<and> \<not> is_blank c \<and> \<not> is_operator c"

lemma lex_bare:
  "list_all bare_char s \<Longrightarrow> s \<noteq> [] \<Longrightarrow>
   sh_lex Normal acc (s @ rest) = sh_lex Normal (Some ((case acc of None \<Rightarrow> [] | Some w \<Rightarrow> w) @ bare s)) rest"
proof (induction s arbitrary: acc)
  case (Cons c s)
  then show ?case
    by (cases "s = []") (auto simp: bare_char_def add_char_def split: option.split)
qed simp

lemma username_bare: "username_char c \<Longrightarrow> bare_char c"
  by (auto simp: username_char_def bare_char_def is_blank_def is_operator_def ascii_lowercase_def is_digit_def Let_def)

lemma valid_tilde_user_bare:
  assumes "valid_tilde_user name"
  shows "list_all bare_char (CHR ''~'' # name)"
proof -
  have "username_start c \<Longrightarrow> username_char c" for c
    by (auto simp: username_start_def username_char_def)
  then have "list_all username_char name" using assms by (auto simp: valid_tilde_user_def split: list.splits)
  then show ?thesis
    using username_bare by (auto simp: list_all_iff bare_char_def is_blank_def is_operator_def)
qed

text \<open>The word a path becomes: its tilde prefix, with the slash after it, bare, the rest quoted.\<close>

definition path_word :: "string \<Rightarrow> sh_word" where
  "path_word s = (case s of
     [] \<Rightarrow> []
   | c # _ \<Rightarrow>
       if c \<noteq> CHR ''~'' then quoted s
       else (case split_once (CHR ''/'') s of
         None \<Rightarrow> if valid_tilde_user (tl s) then bare s else quoted s
       | Some (prefix, rest) \<Rightarrow> if valid_tilde_user (tl prefix) then bare (prefix @ ''/'') @ quoted rest else quoted s))"

lemma lex_escape_posix_path [simp]:
  "sh_lex Normal None (escape_posix_path s @ rest) = sh_lex Normal (Some (path_word s)) rest"
proof (cases s)
  case Nil
  then show ?thesis by (simp add: escape_posix_path_def path_word_def)
next
  case (Cons c cs)
  show ?thesis
  proof (cases "c = CHR ''~''")
    case False
    then show ?thesis by (simp add: Cons escape_posix_path_def path_word_def)
  next
    case True
    show ?thesis
    proof (cases "split_once (CHR ''/'') s")
      case None
      then show ?thesis
        using lex_bare [OF valid_tilde_user_bare, of cs None rest] True Cons
        by (auto simp: escape_posix_path_def path_word_def)
    next
      case (Some pr)
      obtain prefix rest' where pr: "pr = (prefix, rest')" by (cases pr)
      then have s: "s = prefix @ CHR ''/'' # rest'" using Some split_once_Some by fastforce
      then obtain p where p: "prefix = CHR ''~'' # p" using True Cons by (cases prefix) auto
      show ?thesis
      proof (cases "valid_tilde_user p")
        case False
        then show ?thesis using Some pr p True Cons by (simp add: escape_posix_path_def path_word_def)
      next
        case v: True
        have "list_all bare_char (prefix @ ''/'')"
          using valid_tilde_user_bare [OF v] p by (simp add: bare_char_def is_blank_def is_operator_def)
        from lex_bare [OF this, of None "escape_posix rest' @ rest"] lex_bare [OF this, of None rest]
        show ?thesis using Some pr p True Cons v by (simp add: escape_posix_path_def path_word_def)
      qed
    qed
  qed
qed

lemma path_word_text: "map fst (path_word s) = s"
  by (auto simp: path_word_def dest!: split_once_Some split: list.split option.split)

lemma typographic_escaped:
  "typographic (replace_char QUOTE [QUOTE, QUOTE] s @ QUOTE # rest) \<Longrightarrow> typographic s"
  by (cases s; cases "tl s"; cases "tl (tl s)") (auto simp: typographic_def split: if_splits)

lemma ps_single_escape:
  "no_typographic s \<Longrightarrow> ps_quote rest = 0 \<Longrightarrow>
   ps_single (replace_char QUOTE [QUOTE, QUOTE] s @ QUOTE # rest) = Some (s, rest)"
proof (induction s)
  case Nil
  then show ?case by (simp add: ps_quote_def [of "QUOTE # rest"])
next
  case (Cons c s)
  show ?case
  proof (cases "c = QUOTE")
    case True
    then show ?thesis using Cons by (simp add: ps_quote_def Let_def)
  next
    case False
    then have "ps_quote (c # replace_char QUOTE [QUOTE, QUOTE] s @ QUOTE # rest) = 0"
      using Cons.prems(1) typographic_escaped [of "c # s" rest] by (auto simp: ps_quote_def)
    then show ?thesis using Cons False by (simp del: ps_single.simps add: ps_single.simps(2) Let_def)
  qed
qed

text \<open>Taking a UTF-16 text apart again.\<close>

fun decode_utf16 :: "16 word list \<Rightarrow> nat list" where
  "decode_utf16 [] = []"
| "decode_utf16 [w] = [unat w]"
| "decode_utf16 (w # v # ws) =
     (if 0xD800 \<le> unat w \<and> unat w < 0xDC00
      then (0x10000 + (unat w - 0xD800) * 0x400 + (unat v - 0xDC00)) # decode_utf16 ws
      else unat w # decode_utf16 (v # ws))"

fun words_of_bytes :: "8 word list \<Rightarrow> 16 word list" where
  "words_of_bytes (l # h # bs) = (ucast l OR push_bit 8 (ucast h)) # words_of_bytes bs"
| "words_of_bytes _ = []"

text \<open>A Unicode scalar value: no surrogate.\<close>

definition scalar_value :: "nat \<Rightarrow> bool" where
  "scalar_value c \<longleftrightarrow> c < 0xD800 \<or> 0xE000 \<le> c \<and> c < 0x110000"

lemma words_of_le_bytes: "words_of_bytes (concat (map to_le_bytes ws)) = ws"
proof (induction ws)
  case (Cons w ws)
  have "(ucast (ucast w :: 8 word) :: 16 word) OR push_bit 8 (ucast (ucast (drop_bit 8 w) :: 8 word)) = w"
    by (rule bit_word_eqI) (auto simp: bit_simps)
  then show ?case using Cons by (simp add: to_le_bytes_def)
qed simp

lemma decode_encode_utf16:
  "list_all scalar_value cs \<Longrightarrow> decode_utf16 (encode_utf16 cs) = cs"
proof (induction cs)
  case (Cons c cs)
  have IH: "decode_utf16 (encode_utf16 cs) = cs" using Cons by simp
  have c: "scalar_value c" using Cons.prems by simp
  show ?case
  proof (cases "c < 0x10000")
    case True
    then have u: "unat (of_nat c :: 16 word) = c" by (simp add: unat_of_nat)
    have "decode_utf16 (of_nat c # ws) = c # decode_utf16 ws" for ws
      using c u by (cases ws) (auto simp: scalar_value_def)
    then show ?thesis using True IH by (simp add: encode_utf16_def)
  next
    case False
    define k where "k = c - 0x10000"
    have k: "k < 0x100000" "c = 0x10000 + k" using c False by (auto simp: scalar_value_def k_def)
    have unat_small: "n < 0x10000 \<Longrightarrow> unat (of_nat n :: 16 word) = n" for n
      by (simp add: unat_of_nat)
    have kd: "k div 0x400 < 0x400" using k(1) by simp
    have km: "k mod 0x400 < 0x400" by simp
    have hi: "unat (of_nat (0xD800 + k div 0x400) :: 16 word) = 0xD800 + k div 0x400"
      using kd by (intro unat_small) linarith
    have lo: "unat (of_nat (0xDC00 + k mod 0x400) :: 16 word) = 0xDC00 + k mod 0x400"
      using km by (intro unat_small) linarith
    have "decode_utf16 (of_nat (0xD800 + k div 0x400) # of_nat (0xDC00 + k mod 0x400) # ws) = c # decode_utf16 ws" for ws
      using kd k(2) unfolding decode_utf16.simps hi lo by simp
    then show ?thesis using False IH by (simp add: encode_utf16_def k_def)
  qed
qed (simp add: encode_utf16_def)

end
