(* ===== verification/Runner_Commands.thy ===== *)
theory Runner_Commands
  imports Shell_Quoting
begin

text \<open>
  The commands that install, configure and run a runner on a VM:
  \<^verbatim>\<open>kuiper-agent-lib/src/github_runner.rs\<close> and \<^verbatim>\<open>forgejo_runner.rs\<close>. The scripts that the
  build includes (\<^verbatim>\<open>include_str!\<close>) are arguments, the crate \<^verbatim>\<open>base64\<close> is a parameter.
  A shell that reads a command is the reference lexer of \<^verbatim>\<open>Shell_Quoting\<close>, a here-document the lines
  up to its delimiter.
\<close>

section \<open>Releases of the GitHub runner\<close>

definition FALLBACK_VERSION :: string where "FALLBACK_VERSION = ''2.321.0''"

datatype platform = Linux | Windows | MacOS

fun platform_str :: "platform \<Rightarrow> string" where
  "platform_str Linux = ''linux''"
| "platform_str Windows = ''win''"
| "platform_str MacOS = ''osx''"

fun archive_extension :: "platform \<Rightarrow> string" where
  "archive_extension Windows = ''zip''"
| "archive_extension _ = ''tar.gz''"

datatype arch = X64 | Arm64

fun arch_str :: "arch \<Rightarrow> string" where
  "arch_str X64 = ''x64''"
| "arch_str Arm64 = ''arm64''"

definition from_uname :: "string \<Rightarrow> arch option" where
  "from_uname uname = (let u = str_trim uname in
     if u = ''x86_64'' \<or> u = ''amd64'' then Some X64
     else if u = ''arm64'' \<or> u = ''aarch64'' then Some Arm64
     else None)"

definition archive_name :: "string \<Rightarrow> platform \<Rightarrow> arch \<Rightarrow> string" where
  "archive_name version p a =
     ''actions-runner-'' @ platform_str p @ ''-'' @ arch_str a @ ''-'' @ version @ ''.'' @ archive_extension p"

definition download_url :: "string \<Rightarrow> platform \<Rightarrow> arch \<Rightarrow> string" where
  "download_url version p a =
     ''https://github.com/actions/runner/releases/download/v'' @ version @ ''/'' @ archive_name version p a"

section \<open>Commands of the GitHub runner\<close>

text \<open>\<^verbatim>\<open>str::lines\<close>: the lines without their endings; a final line ending ends the last line.\<close>

definition strip_cr :: "string \<Rightarrow> string" where
  "strip_cr l = (if l \<noteq> [] \<and> List.last l = CHR 0x0D then butlast l else l)"

definition str_lines :: "string \<Rightarrow> string list" where
  "str_lines s = map strip_cr
     (let ls = split_on NEWLINE s in if List.last ls = [] then butlast ls else ls)"

text \<open>The code points of a text in UTF-8, which \<^verbatim>\<open>str::encode_utf16\<close> goes through.\<close>

fun code_points :: "string \<Rightarrow> nat list" where
  "code_points [] = []"
| "code_points (a # b # c # d # s) = (let n = of_char a :: nat in
     if n < 0x80 then n # code_points (b # c # d # s)
     else if n < 0xE0 then (n mod 32 * 64 + of_char b mod 64) # code_points (c # d # s)
     else if n < 0xF0 then (n mod 16 * 4096 + of_char b mod 64 * 64 + of_char c mod 64) # code_points (d # s)
     else (n mod 8 * 262144 + of_char b mod 64 * 4096 + of_char c mod 64 * 64 + of_char d mod 64) # code_points s)"
| "code_points (a # b # s) = (let n = of_char a :: nat in
     if n < 0x80 then n # code_points (b # s)
     else if n < 0xE0 then (n mod 32 * 64 + of_char b mod 64) # code_points s
     else (case s of c # s' \<Rightarrow> [n mod 16 * 4096 + of_char b mod 64 * 64 + of_char c mod 64] | [] \<Rightarrow> []))"
| "code_points [a] = [of_char a]"

text \<open>\<^verbatim>\<open>install_command\<close> of the module: the embedded script with its arguments.\<close>

definition install_script_body :: "string \<Rightarrow> string" where
  "install_script_body script =
     join [NEWLINE] (dropWhile (\<lambda>l. \<not> is_prefix_of ''$ErrorActionPreference'' (str_trim l)) (str_lines script))"

definition runner_install_command ::
  "string \<Rightarrow> string \<Rightarrow> string \<Rightarrow> string \<Rightarrow> platform \<Rightarrow> arch \<Rightarrow> string option \<Rightarrow> string" where
  "runner_install_command unix_script windows_script runner_dir version p a sha256 =
     (let url = download_url version p a; sha = (case sha256 of None \<Rightarrow> [] | Some s \<Rightarrow> s) in
     if p = Windows then
       ''$RunnerDir = '' @ escape_powershell runner_dir @ ''; $Url = '' @ escape_powershell url @ ''; $Sha256 = '' @
       escape_powershell sha @ ''; '' @ str_trim (replace_char NEWLINE ''; '' (install_script_body windows_script))
     else
       ''bash -s -- '' @ escape_posix_path runner_dir @ '' '' @ escape_posix url @ '' '' @ escape_posix sha @
       '' << 'INSTALL_RUNNER_EOF'' @ [QUOTE] @ [NEWLINE] @
       unix_script @ [NEWLINE] @
       ''INSTALL_RUNNER_EOF'')"

record runner_config_builder =
  rb_runner_dir :: string
  rb_platform :: platform
  rb_shell_is_powershell :: bool

definition builder_linux :: "string \<Rightarrow> runner_config_builder" where
  "builder_linux d = \<lparr>rb_runner_dir = d, rb_platform = Linux, rb_shell_is_powershell = False\<rparr>"

definition builder_macos :: "string \<Rightarrow> runner_config_builder" where
  "builder_macos d = \<lparr>rb_runner_dir = d, rb_platform = MacOS, rb_shell_is_powershell = False\<rparr>"

definition builder_windows :: "string \<Rightarrow> runner_config_builder" where
  "builder_windows d = \<lparr>rb_runner_dir = d, rb_platform = Windows, rb_shell_is_powershell = False\<rparr>"

definition builder_windows_powershell :: "string \<Rightarrow> runner_config_builder" where
  "builder_windows_powershell d = \<lparr>rb_runner_dir = d, rb_platform = Windows, rb_shell_is_powershell = True\<rparr>"

definition is_windows :: "runner_config_builder \<Rightarrow> bool" where
  "is_windows b \<longleftrightarrow> rb_platform b = Windows"

definition wrap_powershell :: "(8 word list \<Rightarrow> string) \<Rightarrow> runner_config_builder \<Rightarrow> string \<Rightarrow> string" where
  "wrap_powershell b64 b ps = (if rb_shell_is_powershell b then ps
     else ''powershell -EncodedCommand '' @ encode_powershell_command b64 (code_points ps))"

text \<open>The command that configures the runner.\<close>

definition config_command :: "(8 word list \<Rightarrow> string) \<Rightarrow> runner_config_builder \<Rightarrow> string \<Rightarrow> string \<Rightarrow> string list \<Rightarrow> string \<Rightarrow> string" where
  "config_command b64 b url token labels name =
     (if is_windows b then wrap_powershell b64 b (
       ''Set-Location '' @ escape_powershell (rb_runner_dir b) @ ''; .'' @ [BACKSLASH] @ ''config.cmd --url '' @
       escape_powershell url @ '' --token '' @ escape_powershell token @ '' --labels '' @
       escape_powershell (join '','' labels) @ '' --name '' @ escape_powershell name @ '' --ephemeral --unattended'')
     else
       ''cd '' @ escape_posix_path (rb_runner_dir b) @ '' && ./config.sh --url '' @ escape_posix url @ '' --token '' @
       escape_posix token @ '' --labels '' @ escape_posix (join '','' labels) @ '' --name '' @ escape_posix name @
       '' --ephemeral --unattended'')"

text \<open>The commands that run it: registered by \<^const>\<open>config_command\<close>, or with a JIT configuration from a file.\<close>

definition run_command_direct :: "(8 word list \<Rightarrow> string) \<Rightarrow> runner_config_builder \<Rightarrow> string" where
  "run_command_direct b64 b =
     (if is_windows b then wrap_powershell b64 b (
       ''Set-Location '' @ escape_powershell (rb_runner_dir b) @ ''; .'' @ [BACKSLASH] @ ''run.cmd'')
     else
       ''bash -l -c 'cd '' @ escape_posix_path (rb_runner_dir b) @ '' && ./run.sh'' @ [QUOTE])"

definition jit_config_path :: "runner_config_builder \<Rightarrow> string" where
  "jit_config_path b =
     (if is_windows b then rb_runner_dir b @ [BACKSLASH] @ ''jit-config.txt'' else rb_runner_dir b @ ''/jit-config.txt'')"

definition write_jit_config_command :: "(8 word list \<Rightarrow> string) \<Rightarrow> runner_config_builder \<Rightarrow> string \<Rightarrow> string" where
  "write_jit_config_command b64 b jit_config =
     (if is_windows b then wrap_powershell b64 b (
       ''Set-Content -Path '' @ escape_powershell (jit_config_path b) @ '' -Value '' @ escape_powershell jit_config @
       '' -NoNewline'')
     else
       ''cat > '' @ escape_posix_path (jit_config_path b) @ '' << 'JIT_CONFIG_EOF'' @ [QUOTE] @ [NEWLINE] @
       jit_config @ [NEWLINE] @
       ''JIT_CONFIG_EOF'')"

definition run_command_jit_from_file :: "(8 word list \<Rightarrow> string) \<Rightarrow> runner_config_builder \<Rightarrow> string" where
  "run_command_jit_from_file b64 b =
     (if is_windows b then wrap_powershell b64 b (
       ''Set-Location '' @ escape_powershell (rb_runner_dir b) @ ''; $jit = Get-Content '' @
       escape_powershell (jit_config_path b) @ '' -Raw; Remove-Item '' @ escape_powershell (jit_config_path b) @ ''; .'' @
       [BACKSLASH] @ ''run.cmd --jitconfig $jit'')
     else
       ''bash -l -c 'cd '' @ escape_posix_path (rb_runner_dir b) @
       '' && jit=$(cat jit-config.txt) && rm -f jit-config.txt && ./run.sh --jitconfig \"$jit\"'' @ [QUOTE])"

definition diag_log_command :: "(8 word list \<Rightarrow> string) \<Rightarrow> runner_config_builder \<Rightarrow> nat \<Rightarrow> string" where
  "diag_log_command b64 b tail_lines =
     (if is_windows b then wrap_powershell b64 b (
       ''Get-ChildItem '' @ escape_powershell (rb_runner_dir b) @ [BACKSLASH] @ ''_diag'' @ [BACKSLASH] @
       ''*.log -ErrorAction SilentlyContinue | Sort-Object LastWriteTime -Descending | Select-Object -First 1 | ForEach-Object { Get-Content $_.FullName -Tail '' @
       nat_to_string tail_lines @ '' }'')
     else
       ''f=$(ls -t '' @ escape_posix_path (rb_runner_dir b) @
       ''/_diag/*.log 2>/dev/null | head -1); if [ -n \"$f\" ]; then tail -'' @ nat_to_string tail_lines @
       '' \"$f\"; else echo 'no diag logs'; fi'')"

definition check_installed_command :: "(8 word list \<Rightarrow> string) \<Rightarrow> runner_config_builder \<Rightarrow> string" where
  "check_installed_command b64 b =
     (if is_windows b then wrap_powershell b64 b (
       ''if (Test-Path (Join-Path '' @ escape_powershell (rb_runner_dir b) @ '' 'run.cmd')) { Write-Output 'installed' }'')
     else
       ''test -d '' @ escape_posix_path (rb_runner_dir b) @ '' && test -f '' @ escape_posix_path (rb_runner_dir b) @
       ''/run.sh && echo 'installed'' @ [QUOTE])"

definition builder_install_command ::
  "(8 word list \<Rightarrow> string) \<Rightarrow> string \<Rightarrow> string \<Rightarrow> runner_config_builder \<Rightarrow> string \<Rightarrow> arch \<Rightarrow> string option \<Rightarrow> string" where
  "builder_install_command b64 unix_script windows_script b version a sha256 =
     (let cmd = runner_install_command unix_script windows_script (rb_runner_dir b) version (rb_platform b) a sha256 in
     if is_windows b then wrap_powershell b64 b cmd else cmd)"

definition upload_name :: "runner_config_builder \<Rightarrow> string" where
  "upload_name b = ''kuiper-actions-runner.'' @ archive_extension (rb_platform b)"

definition install_upload_command :: "(8 word list \<Rightarrow> string) \<Rightarrow> runner_config_builder \<Rightarrow> string" where
  "install_upload_command b64 b =
     (if is_windows b then wrap_powershell b64 b (
       ''$ErrorActionPreference = 'Stop'; $ProgressPreference = 'SilentlyContinue'; $Upload = Join-Path $HOME '' @ [QUOTE] @
       upload_name b @ [QUOTE] @ ''; New-Item -ItemType Directory -Force -Path '' @ escape_powershell (rb_runner_dir b) @
       '' | Out-Null; Expand-Archive -Path $Upload -DestinationPath '' @ escape_powershell (rb_runner_dir b) @
       '' -Force; Remove-Item $Upload'')
     else
       ''mkdir -p '' @ escape_posix_path (rb_runner_dir b) @ '' && tar xzf ~/'' @ upload_name b @ '' -C '' @
       escape_posix_path (rb_runner_dir b) @ '' && rm -f ~/'' @ upload_name b)"

section \<open>Releases of the Forgejo runner\<close>

definition FORGEJO_DEFAULT_VERSION :: string where "FORGEJO_DEFAULT_VERSION = ''13.2.0''"

definition DEFAULT_URL_TEMPLATE :: string where
  "DEFAULT_URL_TEMPLATE = ''https://github.com/AstroHQ/kuiper-forge/releases/download/forgejo-runner-v{version}/forgejo-runner-{version}-{os}-{arch}{ext}''"

datatype runner_os = OsLinux | OsMacOS | OsWindows

fun os_str :: "runner_os \<Rightarrow> string" where
  "os_str OsLinux = ''linux''"
| "os_str OsMacOS = ''darwin''"
| "os_str OsWindows = ''windows''"

fun os_ext :: "runner_os \<Rightarrow> string" where
  "os_ext OsWindows = ''.exe''"
| "os_ext _ = []"

definition RUNNER_DIR :: string where "RUNNER_DIR = ''~/forgejo-runner''"

definition WINDOWS_RUNNER_DIR :: string where "WINDOWS_RUNNER_DIR = ''C:'' @ [BACKSLASH] @ ''forgejo-runner''"

definition UPLOAD_NAME :: string where "UPLOAD_NAME = ''kuiper-forgejo-runner''"

record one_job =
  oj_instance_url :: string
  oj_uuid :: string
  oj_token :: string
  oj_handle :: string
  oj_labels :: "string list"

fun forgejo_arch_str :: "arch \<Rightarrow> string" where
  "forgejo_arch_str X64 = ''amd64''"
| "forgejo_arch_str Arm64 = ''arm64''"

definition resolve_version :: "string \<Rightarrow> string" where
  "resolve_version configured = (let v = str_trim configured in
     if v = [] \<or> v = ''latest'' then FORGEJO_DEFAULT_VERSION else dropWhile (\<lambda>c. c = CHR ''v'') v)"

definition platform_name :: "runner_os \<Rightarrow> arch \<Rightarrow> string" where
  "platform_name os a = os_str os @ ''-'' @ forgejo_arch_str a"

definition forgejo_file_name :: "string \<Rightarrow> runner_os \<Rightarrow> arch \<Rightarrow> string" where
  "forgejo_file_name version os a = ''forgejo-runner-'' @ version @ ''-'' @ platform_name os a @ os_ext os"

definition forgejo_download_url :: "string \<Rightarrow> string \<Rightarrow> runner_os \<Rightarrow> arch \<Rightarrow> string" where
  "forgejo_download_url template version os a =
     replace_str ''{ext}'' (os_ext os) (replace_str ''{arch}'' (forgejo_arch_str a)
       (replace_str ''{os}'' (os_str os) (replace_str ''{version}'' version template)))"

section \<open>Commands of the Forgejo runner\<close>

definition forgejo_check_installed_command :: string where
  "forgejo_check_installed_command =
     ''test -x '' @ escape_posix_path RUNNER_DIR @ ''/forgejo-runner && echo 'installed'' @ [QUOTE]"

definition forgejo_install_command :: "string \<Rightarrow> string \<Rightarrow> string \<Rightarrow> runner_os \<Rightarrow> arch \<Rightarrow> string" where
  "forgejo_install_command script url version os a =
     ''bash -s -- '' @ escape_posix_path RUNNER_DIR @ '' '' @ escape_posix url @ '' '' @
     escape_posix (forgejo_file_name version os a) @ '' << 'INSTALL_FORGEJO_RUNNER_EOF'' @ [QUOTE] @ [NEWLINE] @
     script @ [NEWLINE] @
     ''INSTALL_FORGEJO_RUNNER_EOF''"

definition forgejo_install_upload_command :: string where
  "forgejo_install_upload_command =
     ''mkdir -p '' @ escape_posix_path RUNNER_DIR @ '' && mv ~/'' @ UPLOAD_NAME @ '' '' @ escape_posix_path RUNNER_DIR @
     ''/forgejo-runner && chmod +x '' @ escape_posix_path RUNNER_DIR @ ''/forgejo-runner && { '' @
     escape_posix_path RUNNER_DIR @ ''/forgejo-runner --version || { rm -f '' @ escape_posix_path RUNNER_DIR @
     ''/forgejo-runner; exit 1; }; }''"

definition validate_job :: "one_job \<Rightarrow> string + unit" where
  "validate_job job =
     (if list_ex (\<lambda>v. NEWLINE \<in> set v \<or> CHR 0x0D \<in> set v)
           ([oj_instance_url job, oj_uuid job, oj_token job, oj_handle job] @ oj_labels job)
      then Inl ''Forgejo runner values must not contain newlines''
      else if oj_handle job = [] \<or> oj_uuid job = [] \<or> oj_token job = []
      then Inl ''Forgejo runner needs a handle, uuid and token''
      else Inr ())"

definition host_label :: "string \<Rightarrow> string" where
  "host_label label = (if CHR '':'' \<in> set label then label else label @ '':host'')"

text \<open>The line of \<^verbatim>\<open>run-job.sh\<close> that runs the job, and the command that writes the script.\<close>

definition one_job_line :: "one_job \<Rightarrow> string" where
  "one_job_line job =
     ''exec ./forgejo-runner one-job --url '' @ escape_posix (oj_instance_url job) @ '' --uuid '' @
     escape_posix (oj_uuid job) @ '' --token-url \"file://$PWD/.runner-token\" --handle '' @ escape_posix (oj_handle job) @
     '' --wait'' @ concat (map (\<lambda>l. '' --label '' @ escape_posix (host_label l)) (oj_labels job))"

definition prepare_command :: "one_job \<Rightarrow> string + string" where
  "prepare_command job = (case validate_job job of Inl e \<Rightarrow> Inl e | Inr _ \<Rightarrow> Inr (
     ''umask 077 && mkdir -p '' @ escape_posix_path RUNNER_DIR @ '' && printf '%s' '' @ escape_posix (oj_token job) @ '' > '' @
     escape_posix_path RUNNER_DIR @ ''/.runner-token && cat > '' @ escape_posix_path RUNNER_DIR @
     ''/run-job.sh << 'KUIPER_FORGEJO_EOF'' @ [QUOTE] @ [NEWLINE] @
     ''set -eu'' @ [NEWLINE] @
     ''cd '' @ escape_posix_path RUNNER_DIR @ [NEWLINE] @
     one_job_line job @ [NEWLINE] @
     ''KUIPER_FORGEJO_EOF''))"

definition forgejo_run_command :: string where
  "forgejo_run_command = ''bash -l '' @ escape_posix_path RUNNER_DIR @ ''/run-job.sh''"

definition forgejo_powershell :: "(8 word list \<Rightarrow> string) \<Rightarrow> string \<Rightarrow> string" where
  "forgejo_powershell b64 script =
     ''powershell -NoProfile -NonInteractive -ExecutionPolicy Bypass -EncodedCommand '' @
     encode_powershell_command b64 (code_points (
       ''try {'' @ [NEWLINE] @
       script @ [NEWLINE] @
       ''} catch {'' @ [NEWLINE] @
       ''    [Console]::Error.WriteLine(\"ERROR: $($_.Exception.Message)\")'' @ [NEWLINE] @
       ''    exit 1'' @ [NEWLINE] @
       ''}''))"

definition trim_end_char :: "char \<Rightarrow> string \<Rightarrow> string" where
  "trim_end_char c s = rev (dropWhile (\<lambda>x. x = c) (rev s))"

definition token_url :: "string \<Rightarrow> string" where
  "token_url dir =
     (let path = trim_end_char (CHR ''/'') (map (\<lambda>c. if c = BACKSLASH then CHR ''/'' else c) dir) @ ''/.runner-token'' in
     if is_prefix_of ''/'' path then ''file://'' @ path else ''file:///'' @ path)"

definition windows_check_installed_command :: "(8 word list \<Rightarrow> string) \<Rightarrow> string \<Rightarrow> string" where
  "windows_check_installed_command b64 dir = forgejo_powershell b64 (
     ''if (Test-Path -LiteralPath (Join-Path '' @ escape_powershell dir @ '' 'forgejo-runner.exe')) { 'installed' }'')"

definition WINDOWS_CHECK_EXE :: string where
  "WINDOWS_CHECK_EXE =
     ''$Version = & $Exe --version 2>&1'' @ [NEWLINE] @
     ''if ($LASTEXITCODE -ne 0) {'' @ [NEWLINE] @
     ''    # don't leave a binary that a later job would take as installed'' @ [NEWLINE] @
     ''    Remove-Item -Force -LiteralPath $Exe'' @ [NEWLINE] @
     ''    throw \"forgejo-runner --version failed (exit $LASTEXITCODE): $Version\"'' @ [NEWLINE] @
     ''}'' @ [NEWLINE] @
     ''Write-Output $Version'' @ [NEWLINE] @
     ''Write-Output \"forgejo-runner installed successfully\"'' @ [NEWLINE]"

definition windows_install_command :: "(8 word list \<Rightarrow> string) \<Rightarrow> string \<Rightarrow> string \<Rightarrow> string" where
  "windows_install_command b64 url dir = forgejo_powershell b64 (
     ''$ErrorActionPreference = 'Stop'' @ [QUOTE] @ [NEWLINE] @
     ''$ProgressPreference = 'SilentlyContinue'' @ [QUOTE] @ [NEWLINE] @
     ''[Net.ServicePointManager]::SecurityProtocol = [Net.ServicePointManager]::SecurityProtocol -bor [Net.SecurityProtocolType]::Tls12'' @
     [NEWLINE] @ ''$Dir = '' @ escape_powershell dir @ [NEWLINE] @
     ''$Url = '' @ escape_powershell url @ [NEWLINE] @
     ''New-Item -ItemType Directory -Force -Path $Dir | Out-Null'' @ [NEWLINE] @
     ''$Exe = Join-Path $Dir 'forgejo-runner.exe'' @ [QUOTE] @ [NEWLINE] @
     ''$Tmp = \"$Exe.download\"'' @ [NEWLINE] @
     ''Write-Output \"Downloading forgejo-runner from $Url...\"'' @ [NEWLINE] @
     ''Invoke-WebRequest -UseBasicParsing -Uri $Url -OutFile $Tmp'' @ [NEWLINE] @
     ''Invoke-WebRequest -UseBasicParsing -Uri \"$Url.sha256\" -OutFile \"$Tmp.sha256\"'' @ [NEWLINE] @
     ''$Expected = ((Get-Content -Raw -LiteralPath \"$Tmp.sha256\").Trim() -split '' @ [QUOTE] @ [BACKSLASH] @
     ''s+')[0].ToLower()'' @ [NEWLINE] @
     ''$Actual = (Get-FileHash -Algorithm SHA256 -LiteralPath $Tmp).Hash.ToLower()'' @ [NEWLINE] @
     ''Remove-Item -Force -LiteralPath \"$Tmp.sha256\"'' @ [NEWLINE] @
     ''if ($Actual -ne $Expected) {'' @ [NEWLINE] @
     ''    Remove-Item -Force -LiteralPath $Tmp'' @ [NEWLINE] @
     ''    throw \"Checksum mismatch for ${Url}: expected $Expected, got $Actual\"'' @ [NEWLINE] @
     ''}'' @ [NEWLINE] @
     ''Write-Output \"Checksum OK\"'' @ [NEWLINE] @
     ''Move-Item -Force -LiteralPath $Tmp -Destination $Exe'' @ [NEWLINE] @
     WINDOWS_CHECK_EXE)"

definition windows_install_upload_command :: "(8 word list \<Rightarrow> string) \<Rightarrow> string \<Rightarrow> string" where
  "windows_install_upload_command b64 dir = forgejo_powershell b64 (
     ''$ErrorActionPreference = 'Stop'' @ [QUOTE] @ [NEWLINE] @
     ''$Dir = '' @ escape_powershell dir @ [NEWLINE] @
     ''New-Item -ItemType Directory -Force -Path $Dir | Out-Null'' @ [NEWLINE] @
     ''$Exe = Join-Path $Dir 'forgejo-runner.exe'' @ [QUOTE] @ [NEWLINE] @
     ''Move-Item -Force -LiteralPath (Join-Path $HOME '' @ [QUOTE] @ UPLOAD_NAME @ [QUOTE] @ '') -Destination $Exe'' @
     [NEWLINE] @ WINDOWS_CHECK_EXE)"

text \<open>The here-string of the Windows script: the job script's lines, and the command around it.\<close>

definition windows_job_line :: "one_job \<Rightarrow> string \<Rightarrow> string" where
  "windows_job_line job dir =
     ''& (Join-Path '' @ escape_powershell dir @ '' 'forgejo-runner.exe') one-job --url '' @
     escape_powershell (oj_instance_url job) @ '' --uuid '' @ escape_powershell (oj_uuid job) @ '' --token-url '' @
     escape_powershell (token_url dir) @ '' --handle '' @ escape_powershell (oj_handle job) @ '' --wait'' @
     concat (map (\<lambda>l. '' --label '' @ escape_powershell (host_label l)) (oj_labels job))"

definition windows_prepare_script :: "one_job \<Rightarrow> string \<Rightarrow> string" where
  "windows_prepare_script job dir =
     ''$ErrorActionPreference = 'Stop'' @ [QUOTE] @ [NEWLINE] @
     ''$Dir = '' @ escape_powershell dir @ [NEWLINE] @
     ''New-Item -ItemType Directory -Force -Path $Dir | Out-Null'' @ [NEWLINE] @
     ''$TokenFile = Join-Path $Dir '.runner-token'' @ [QUOTE] @ [NEWLINE] @
     ''Set-Content -LiteralPath $TokenFile -Value '' @ escape_powershell (oj_token job) @ '' -NoNewline -Encoding ascii'' @
     [NEWLINE] @ ''if ($env:OS -eq 'Windows_NT') {'' @ [NEWLINE] @
     ''    icacls $TokenFile /inheritance:r /grant:r \"$($env:USERNAME):F\" | Out-Null'' @ [NEWLINE] @
     ''}'' @ [NEWLINE] @
     ''$Script = @'' @ [QUOTE] @ [NEWLINE] @
     ''$ErrorActionPreference = 'Stop'' @ [QUOTE] @ [NEWLINE] @
     ''Set-Location -LiteralPath '' @ escape_powershell dir @ [NEWLINE] @
     windows_job_line job dir @ [NEWLINE] @
     ''exit $LASTEXITCODE'' @ [NEWLINE] @
     [QUOTE] @ ''@'' @ [NEWLINE] @
     ''Set-Content -LiteralPath (Join-Path $Dir 'run-job.ps1') -Value $Script -Encoding utf8'' @ [NEWLINE]"

definition windows_prepare_command :: "(8 word list \<Rightarrow> string) \<Rightarrow> one_job \<Rightarrow> string \<Rightarrow> string + string" where
  "windows_prepare_command b64 job dir = (case validate_job job of Inl e \<Rightarrow> Inl e
   | Inr _ \<Rightarrow> Inr (forgejo_powershell b64 (windows_prepare_script job dir)))"

definition windows_run_command :: "string \<Rightarrow> string" where
  "windows_run_command dir =
     ''powershell -NoProfile -NonInteractive -ExecutionPolicy Bypass -File '' @ [DQUOTE] @
     trim_end_char BACKSLASH dir @ [BACKSLASH] @ ''run-job.ps1'' @ [DQUOTE]"

section \<open>What the shells read\<close>

abbreviation lit :: "string \<Rightarrow> sh_token" where "lit s \<equiv> Word (bare s)"
abbreviation val :: "string \<Rightarrow> sh_token" where "val s \<equiv> Word (quoted s)"
abbreviation and_if :: "sh_token list" where "and_if \<equiv> [Operator (CHR ''&''), Operator (CHR ''&'')]"

text \<open>The lines of a here-document of a command, which its first line opens.\<close>

definition heredoc_body :: "string \<Rightarrow> string \<Rightarrow> string list" where
  "heredoc_body delim cmd = takeWhile (\<lambda>l. l \<noteq> delim) (tl (split_on NEWLINE cmd))"

definition first_line :: "string \<Rightarrow> string" where
  "first_line cmd = takeWhile (\<lambda>c. c \<noteq> NEWLINE) cmd"

lemmas lex_simps = sh_tokens_def is_blank_def is_operator_def flush_def add_char_def open_word_def

lemma set_replace_char: "set (replace_char c by s) \<subseteq> set by \<union> set s"
  by (auto simp: replace_char_def)

lemma newline_escape [simp]:
  "NEWLINE \<notin> set s \<Longrightarrow> NEWLINE \<notin> set (escape_posix s)"
  "NEWLINE \<notin> set s \<Longrightarrow> NEWLINE \<notin> set (escape_powershell s)"
  using set_replace_char [of QUOTE _ s] by (fastforce simp: escape_posix_def escape_powershell_def)+

lemma newline_host_label [simp]: "NEWLINE \<notin> set l \<Longrightarrow> NEWLINE \<notin> set (host_label l)"
  by (simp add: host_label_def)

text \<open>The words of the command that configures a runner on Linux and macOS.\<close>

definition config_words :: "string \<Rightarrow> string \<Rightarrow> string \<Rightarrow> string list \<Rightarrow> string \<Rightarrow> sh_token list" where
  "config_words dir url token labels name =
     [lit ''cd'', Word (path_word dir)] @ and_if @
     [lit ''./config.sh'', lit ''--url'', val url, lit ''--token'', val token, lit ''--labels'', val (join '','' labels),
      lit ''--name'', val name, lit ''--ephemeral'', lit ''--unattended'']"

lemma config_command_words:
  assumes "rb_platform b \<noteq> Windows"
  shows "sh_tokens (config_command b64 b url token labels name) =
     Some (config_words (rb_runner_dir b) url token labels name)"
  using assms by (simp add: config_command_def is_windows_def config_words_def lex_simps)

text \<open>The script of a Forgejo job and the command that writes it.\<close>

definition in_double :: "string \<Rightarrow> sh_token" where
  "in_double s = Word (map (\<lambda>c. (c, InDouble)) s)"

definition one_job_words :: "one_job \<Rightarrow> sh_token list" where
  "one_job_words job =
     [lit ''exec'', lit ''./forgejo-runner'', lit ''one-job'', lit ''--url'', val (oj_instance_url job),
      lit ''--uuid'', val (oj_uuid job), lit ''--token-url'', in_double ''file://$PWD/.runner-token'',
      lit ''--handle'', val (oj_handle job), lit ''--wait''] @
     concat (map (\<lambda>l. [lit ''--label'', val (host_label l)]) (oj_labels job))"

definition prepare_words :: "one_job \<Rightarrow> sh_token list" where
  "prepare_words job =
     (let dir = path_word RUNNER_DIR in
     [lit ''umask'', lit ''077''] @ and_if @ [lit ''mkdir'', lit ''-p'', Word dir] @ and_if @
     [lit ''printf'', val ''%s'', val (oj_token job), Operator (CHR ''>''), Word (dir @ bare ''/.runner-token'')] @ and_if @
     [lit ''cat'', Operator (CHR ''>''), Word (dir @ bare ''/run-job.sh''),
      Operator (CHR ''<''), Operator (CHR ''<''), val ''KUIPER_FORGEJO_EOF''])"

lemma lex_labels:
  "sh_lex Normal (Some w) (concat (map (\<lambda>l. '' --label '' @ escape_posix (host_label l)) ls)) =
     Some (Word w # concat (map (\<lambda>l. [lit ''--label'', val (host_label l)]) ls))"
  by (induction ls arbitrary: w) (simp_all add: lex_simps)

lemma one_job_line_words: "sh_tokens (one_job_line job) = Some (one_job_words job)"
  by (simp add: one_job_line_def one_job_words_def in_double_def lex_simps lex_labels [simplified])

lemma validate_job_newlines:
  assumes "validate_job job = Inr ()"
  shows "NEWLINE \<notin> set (oj_instance_url job)" "NEWLINE \<notin> set (oj_uuid job)" "NEWLINE \<notin> set (oj_token job)"
    "NEWLINE \<notin> set (oj_handle job)" "\<forall>l \<in> set (oj_labels job). NEWLINE \<notin> set l"
  using assms by (auto simp: validate_job_def list_ex_iff split: if_splits)

lemma runner_dir_line [simp]: "NEWLINE \<notin> set (escape_posix_path RUNNER_DIR)"
  by code_simp

lemma one_job_line_newline:
  "validate_job job = Inr () \<Longrightarrow> NEWLINE \<notin> set (one_job_line job)"
  using validate_job_newlines [of job] by (simp add: one_job_line_def)

lemma prepare_command_parts:
  assumes "prepare_command job = Inr cmd"
  shows "split_on NEWLINE cmd = [first_line cmd, ''set -eu'', ''cd '' @ escape_posix_path RUNNER_DIR, one_job_line job, ''KUIPER_FORGEJO_EOF'']"
    "sh_tokens (first_line cmd) = Some (prepare_words job)"
proof -
  define head where "head = ''umask 077 && mkdir -p '' @ escape_posix_path RUNNER_DIR @ '' && printf '' @ [QUOTE] @ ''%s'' @ [QUOTE] @
    '' '' @ escape_posix (oj_token job) @ '' > '' @ escape_posix_path RUNNER_DIR @ ''/.runner-token && cat > '' @
    escape_posix_path RUNNER_DIR @ ''/run-job.sh << '' @ [QUOTE] @ ''KUIPER_FORGEJO_EOF'' @ [QUOTE]"
  have ok: "validate_job job = Inr ()" using assms by (simp add: prepare_command_def split: sum.splits)
  then have cmd: "cmd = head @ NEWLINE # ''set -eu'' @ NEWLINE # (''cd '' @ escape_posix_path RUNNER_DIR) @ NEWLINE #
      one_job_line job @ NEWLINE # ''KUIPER_FORGEJO_EOF''"
    using assms by (simp add: prepare_command_def head_def)
  have h: "NEWLINE \<notin> set head" using validate_job_newlines(3) [OF ok] by (simp add: head_def)
  have first: "first_line cmd = head"
    using h unfolding cmd first_line_def by (subst takeWhile_append2) auto
  show "sh_tokens (first_line cmd) = Some (prepare_words job)"
    unfolding first head_def by (simp add: prepare_words_def Let_def lex_simps)
  show "split_on NEWLINE cmd = [first_line cmd, ''set -eu'', ''cd '' @ escape_posix_path RUNNER_DIR, one_job_line job, ''KUIPER_FORGEJO_EOF'']"
    unfolding first unfolding cmd
    by (subst split_on_line, rule h, subst split_on_line, simp, subst split_on_line, simp,
        subst split_on_line, rule one_job_line_newline [OF ok], simp add: split_on_last)
qed

lemma forgejo_job_script:
  assumes "prepare_command job = Inr cmd"
  shows "sh_tokens (first_line cmd) = Some (prepare_words job) \<and>
     map sh_tokens (heredoc_body ''KUIPER_FORGEJO_EOF'' cmd) =
       [Some [lit ''set'', lit ''-eu''], Some [lit ''cd'', Word (path_word RUNNER_DIR)], Some (one_job_words job)]"
proof -
  have "one_job_line job \<noteq> ''KUIPER_FORGEJO_EOF''" by (simp add: one_job_line_def)
  moreover have "sh_tokens ''set -eu'' = Some [lit ''set'', lit ''-eu'']" by (simp add: lex_simps)
  moreover have "sh_tokens (''cd '' @ escape_posix_path RUNNER_DIR) = Some [lit ''cd'', Word (path_word RUNNER_DIR)]"
    using lex_escape_posix_path [of RUNNER_DIR "[]"] by (simp add: lex_simps)
  ultimately show ?thesis
    using prepare_command_parts [OF assms] by (simp add: heredoc_body_def one_job_line_words)
qed

text \<open>Running a configured runner: a login shell with a script of its own.\<close>

definition enter_and_run :: "string \<Rightarrow> sh_token list" where
  "enter_and_run dir = [lit ''cd'', lit dir] @ and_if @ [lit ''./run.sh'']"

lemma replace_char_absent: "c \<notin> set s \<Longrightarrow> replace_char c by s = s"
  by (induction s) auto

lemma lex_single_text:
  "QUOTE \<notin> set t \<Longrightarrow> sh_lex Single (Some v) (t @ r) = sh_lex Single (Some (v @ quoted t)) r"
  by (induction t arbitrary: v) (auto simp: add_char_def)

lemma escape_posix_path_cases:
  "escape_posix_path s = escape_posix s \<or> escape_posix_path s = s \<or>
   (\<exists>p r. s = p @ ''/'' @ r \<and> r \<noteq> [] \<and> escape_posix_path s = p @ ''/'' @ escape_posix r)"
proof (cases "split_once (CHR ''/'') s")
  case None
  then show ?thesis by (cases s; cases "hd s = CHR ''~''") (simp_all add: escape_posix_path_def del: split_once.simps)
next
  case (Some pr)
  obtain p r where pr: "pr = (p, r)" by (cases pr)
  then have "s = p @ ''/'' @ r" using Some split_once_Some by fastforce
  moreover have "escape_posix_path s = escape_posix s \<or>
      escape_posix_path s = (if r = [] then p @ ''/'' else p @ ''/'' @ escape_posix r)"
    using Some pr by (cases s; cases "hd s = CHR ''~''") (simp_all add: escape_posix_path_def del: split_once.simps)
  ultimately show ?thesis by (cases "r = []") auto
qed

text \<open>Inside the single quotes of \<^verbatim>\<open>bash -l -c '...'\<close> the quotes around the directory end and reopen the
  quoting, so the script has the directory bare: the same word for a directory of plain characters.\<close>

lemma lex_nested_path:
  assumes "list_all bare_char s" "s \<noteq> []"
  shows "\<exists>w'. sh_lex Single (Some w) (escape_posix_path s @ rest) = sh_lex Single (Some (w @ w')) rest \<and> map fst w' = s"
proof -
  have q: "QUOTE \<notin> set s" using assms(1) by (auto simp: list_all_iff bare_char_def)
  have esc: "t \<noteq> [] \<Longrightarrow> set t \<subseteq> set s \<Longrightarrow>
     sh_lex Single (Some v) (escape_posix t @ r) = sh_lex Single (Some (v @ bare t)) r" for t v r
  proof -
    assume t: "t \<noteq> []" "set t \<subseteq> set s"
    then have "list_all bare_char t" using assms(1) by (auto simp: list_all_iff)
    moreover have "QUOTE \<notin> set t" using q t by auto
    ultimately show ?thesis
      using lex_bare [of t "Some v" "QUOTE # r"] t by (simp add: escape_posix_def open_word_def replace_char_absent)
  qed
  show ?thesis
  proof (cases "escape_posix_path s = escape_posix s")
    case True
    then show ?thesis using esc [of s w rest] assms(2) by (auto intro!: exI [of _ "bare s"])
  next
    case False
    then consider "escape_posix_path s = s"
      | p r where "s = p @ ''/'' @ r" "r \<noteq> []" "escape_posix_path s = p @ ''/'' @ escape_posix r"
      using escape_posix_path_cases [of s] by blast
    then show ?thesis
    proof cases
      case 1
      then show ?thesis using lex_single_text [OF q] by (auto intro!: exI [of _ "quoted s"])
    next
      case 2
      then have "QUOTE \<notin> set (p @ ''/'')" and r: "r \<noteq> []" "set r \<subseteq> set s" using q by auto
      then have "sh_lex Single (Some w) (escape_posix_path s @ rest) =
          sh_lex Single (Some (w @ quoted (p @ ''/'') @ bare r)) rest"
        using lex_single_text [of "p @ ''/''" w "escape_posix r @ rest"] esc [OF r, of "w @ quoted (p @ ''/'')" rest] 2(3) by simp
      then show ?thesis using 2(1) by (auto intro!: exI [of _ "quoted (p @ ''/'') @ bare r"])
    qed
  qed
qed

lemma run_command_direct_script:
  assumes "rb_platform b \<noteq> Windows" "list_all bare_char (rb_runner_dir b)" "rb_runner_dir b \<noteq> []"
  shows "\<exists>w. sh_tokens (run_command_direct b64 b) = Some [lit ''bash'', lit ''-l'', lit ''-c'', Word w] \<and>
     sh_tokens (map fst w) = Some (enter_and_run (rb_runner_dir b))"
proof -
  obtain w' where w': "sh_lex Single (Some (quoted ''cd '')) (escape_posix_path (rb_runner_dir b) @ '' && ./run.sh'' @ [QUOTE]) =
      sh_lex Single (Some (quoted ''cd '' @ w')) ('' && ./run.sh'' @ [QUOTE])" "map fst w' = rb_runner_dir b"
    using lex_nested_path [OF assms(2,3)] by blast
  have "sh_tokens (run_command_direct b64 b) =
      Some [lit ''bash'', lit ''-l'', lit ''-c'', Word (quoted ''cd '' @ w' @ quoted '' && ./run.sh'')]"
    using assms(1) w'(1) by (simp add: run_command_direct_def is_windows_def lex_simps)
  moreover have "sh_tokens (''cd '' @ rb_runner_dir b @ '' && ./run.sh'') = Some (enter_and_run (rb_runner_dir b))"
    using lex_bare [OF assms(2,3), of None "'' && ./run.sh''"] by (simp add: enter_and_run_def lex_simps)
  ultimately show ?thesis using w'(2) by (intro exI [of _ "quoted ''cd '' @ w' @ quoted '' && ./run.sh''"]) simp
qed

text \<open>A directory with a blank is split: the script only enters its first part, and nothing is run.\<close>

lemma blank_splits_runner_dir:
  "sh_tokens (run_command_direct b64 (builder_linux ''/opt/my runner'')) =
     Some [lit ''bash'', lit ''-l'', lit ''-c'', Word (quoted ''cd '' @ bare ''/opt/my''),
       Word (bare ''runner'' @ quoted '' && ./run.sh'')]"
  by (simp add: run_command_direct_def builder_linux_def is_windows_def escape_posix_path_def escape_posix_def lex_simps)

text \<open>PowerShell reads a quoted value back, unless a typographic quote of it ends the string.\<close>

lemma powershell_value:
  "no_typographic s \<Longrightarrow> ps_quote rest = 0 \<Longrightarrow> ps_single (tl (escape_powershell s @ rest)) = Some (s, rest)"
  using ps_single_escape [of s rest] by (simp add: escape_powershell_def)

lemma typographic_quote_ends_value:
  "ps_single (tl (escape_powershell (''it'' @ [CHR 0xE2, CHR 0x80, CHR 0x99] @ ''; calc #''))) = Some (''it'', ''; calc #'' @ [QUOTE])"
  by code_simp

text \<open>The lines of a single-quoted here-string of PowerShell: up to the first that starts with the closing
  \<^verbatim>\<open>'@\<close>.\<close>

definition here_string :: "string \<Rightarrow> string list" where
  "here_string script =
     takeWhile (\<lambda>l. \<not> is_prefix_of [QUOTE, CHR ''@''] l)
       (tl (dropWhile (\<lambda>l. l \<noteq> ''$Script = @'' @ [QUOTE]) (split_on NEWLINE script)))"

lemma newline_token_url [simp]: "NEWLINE \<notin> set dir \<Longrightarrow> NEWLINE \<notin> set (token_url dir)"
proof -
  assume "NEWLINE \<notin> set dir"
  then have "NEWLINE \<notin> set (trim_end_char (CHR ''/'') (map (\<lambda>c. if c = BACKSLASH then CHR ''/'' else c) dir))"
    by (auto simp: trim_end_char_def dest!: set_dropWhileD split: if_splits)
  then show ?thesis by (simp add: token_url_def Let_def)
qed

lemma windows_job_line_newline:
  assumes "validate_job job = Inr ()" "NEWLINE \<notin> set dir"
  shows "NEWLINE \<notin> set (windows_job_line job dir)"
  using assms(2) validate_job_newlines [OF assms(1)] by (simp add: windows_job_line_def)

definition windows_script_head :: "one_job \<Rightarrow> string \<Rightarrow> string list" where
  "windows_script_head job dir =
     [''$ErrorActionPreference = 'Stop'' @ [QUOTE], ''$Dir = '' @ escape_powershell dir,
      ''New-Item -ItemType Directory -Force -Path $Dir | Out-Null'',
      ''$TokenFile = Join-Path $Dir '.runner-token'' @ [QUOTE],
      ''Set-Content -LiteralPath $TokenFile -Value '' @ escape_powershell (oj_token job) @ '' -NoNewline -Encoding ascii'',
      ''if ($env:OS -eq 'Windows_NT') {'',
      ''    icacls $TokenFile /inheritance:r /grant:r \"$($env:USERNAME):F\" | Out-Null'', ''}'']"

definition windows_job_script :: "one_job \<Rightarrow> string \<Rightarrow> string list" where
  "windows_job_script job dir =
     [''$ErrorActionPreference = 'Stop'' @ [QUOTE], ''Set-Location -LiteralPath '' @ escape_powershell dir,
      windows_job_line job dir, ''exit $LASTEXITCODE'']"

lemma windows_script_lines:
  assumes "validate_job job = Inr ()" "NEWLINE \<notin> set dir"
  shows "split_on NEWLINE (windows_prepare_script job dir) =
     windows_script_head job dir @ (''$Script = @'' @ [QUOTE]) # windows_job_script job dir @
       [[QUOTE] @ ''@'', ''Set-Content -LiteralPath (Join-Path $Dir 'run-job.ps1') -Value $Script -Encoding utf8'', []]"
    (is "_ = ?ls")
proof -
  have "windows_prepare_script job dir = join [NEWLINE] ?ls"
    by (simp add: windows_prepare_script_def windows_script_head_def windows_job_script_def)
  moreover have "list_all (\<lambda>l. NEWLINE \<notin> set l) ?ls"
    using assms(2) windows_job_line_newline [OF assms] validate_job_newlines(3) [OF assms(1)]
    by (simp add: windows_script_head_def windows_job_script_def)
  ultimately show ?thesis by (metis split_on_join snoc_eq_iff_butlast append_is_Nil_conv list.distinct(1))
qed

lemma windows_here_string:
  assumes "validate_job job = Inr ()" "NEWLINE \<notin> set dir"
  shows "here_string (windows_prepare_script job dir) = windows_job_script job dir"
  unfolding here_string_def windows_script_lines [OF assms]
  by (simp add: windows_script_head_def windows_job_script_def windows_job_line_def)

section \<open>Properties\<close>

text \<open>C28: On Linux and macOS the shell reads the configure command as exactly the words of one call of
  config.sh in the runner's directory: whatever characters url, token, labels and name have, they arrive
  verbatim as one quoted argument each.\<close>

theorem config_command_not_injectable:
  assumes "rb_platform b \<noteq> Windows"
  shows "sh_tokens (config_command b64 b url token labels name) =
     Some (config_words (rb_runner_dir b) url token labels name)"
  by (rule config_command_words [OF assms])

theorem config_command_not_injectable_witness:
  "sh_tokens (config_command (\<lambda>_. []) (builder_linux ''~/actions-runner'') ''https://github.com/o'' ''T'' [''$(rm -rf ~)'', ''it'' @ [QUOTE] @ ''s''] ''r; ls'') =
   Some (config_words ''~/actions-runner'' ''https://github.com/o'' ''T'' [''$(rm -rf ~)'', ''it'' @ [QUOTE] @ ''s''] ''r; ls'')"
  using config_command_not_injectable [of "builder_linux ''~/actions-runner''" "\<lambda>_. []"]
  by (simp add: builder_linux_def)

text \<open>The command prepared for a Forgejo job writes the token to its file and a script of exactly three
  lines, and the shell reads the script as one call of forgejo-runner with the job's url, id, handle and labels
  verbatim and without the token.\<close>

theorem forgejo_script_runs_one_job:
  assumes "prepare_command job = Inr cmd"
  shows "sh_tokens (first_line cmd) = Some (prepare_words job) \<and>
     map sh_tokens (heredoc_body ''KUIPER_FORGEJO_EOF'' cmd) =
       [Some [lit ''set'', lit ''-eu''], Some [lit ''cd'', Word (path_word RUNNER_DIR)], Some (one_job_words job)]"
  by (rule forgejo_job_script [OF assms])

definition sample_one_job :: one_job where
  "sample_one_job = \<lparr>oj_instance_url = ''https://git.example.com'', oj_uuid = ''u-1'', oj_token = ''a b'',
     oj_handle = ''h-1'', oj_labels = [''linux'', ''ubuntu:docker://node:20'']\<rparr>"

lemma sample_one_job_prepared: "prepare_command sample_one_job = Inr (projr (prepare_command sample_one_job))"
  by (simp add: prepare_command_def sample_one_job_def validate_job_def)

theorem forgejo_script_runs_one_job_witness:
  "map sh_tokens (heredoc_body ''KUIPER_FORGEJO_EOF'' (projr (prepare_command sample_one_job))) =
     [Some [lit ''set'', lit ''-eu''], Some [lit ''cd'', Word (path_word RUNNER_DIR)], Some (one_job_words sample_one_job)]"
  using forgejo_script_runs_one_job [OF sample_one_job_prepared] by blast

text \<open>The run command of a configured runner enters the runner's directory and starts it, when the
  directory has only plain characters.\<close>

theorem run_command_enters_directory:
  assumes "rb_platform b \<noteq> Windows" "list_all bare_char (rb_runner_dir b)" "rb_runner_dir b \<noteq> []"
  shows "\<exists>w. sh_tokens (run_command_direct b64 b) = Some [lit ''bash'', lit ''-l'', lit ''-c'', Word w] \<and>
     sh_tokens (map fst w) = Some (enter_and_run (rb_runner_dir b))"
  by (rule run_command_direct_script [OF assms])

theorem run_command_enters_directory_witness:
  "\<exists>w. sh_tokens (run_command_direct (\<lambda>_. []) (builder_linux ''~/actions-runner'')) = Some [lit ''bash'', lit ''-l'', lit ''-c'', Word w] \<and>
     sh_tokens (map fst w) = Some (enter_and_run ''~/actions-runner'')"
  using run_command_enters_directory [of "builder_linux ''~/actions-runner''" "\<lambda>_. []"]
  by (simp add: builder_linux_def bare_char_def is_blank_def is_operator_def)

end
