(* ===== verification/Runner_Cache.thy ===== *)
theory Runner_Cache
  imports Runner_Commands Phase_Clock
begin

text \<open>
  \<^verbatim>\<open>kuiper-agent-lib/src/runner_cache.rs\<close>: copies of runner releases kept on the agent, and the latest
  version remembered for a while.

  A directory of the cache is the list of its files. What happens to it while a copy is downloaded is a
  list of file operations, of which any may fail after it wrote a part: a budget says how many of
  them succeed. Answers of HTTP servers, the clock, SHA-256 (in hex) and the JSON of saved and fetched
  releases are arguments. A method that holds the lock of the state it uses until it returns is one step.
\<close>

section \<open>Configuration and releases\<close>

record runner_cache_config =
  cc_enabled :: bool
  cc_version_ttl_secs :: nat

definition default_cache_config :: runner_cache_config where
  "default_cache_config = \<lparr>cc_enabled = True, cc_version_ttl_secs = 3600\<rparr>"

definition RETRY_DOWNLOAD_AFTER :: nat where "RETRY_DOWNLOAD_AFTER = 300"

datatype cache_error = ErrHttp | ErrFile | NoChecksum string | RecentlyFailed | ChecksumMismatch string string string

record github_release =
  gr_tag_name :: string
  gr_body :: "string option"

record latest_release =
  lr_version :: string
  lr_sha256 :: "(string, string) hashmap"
  lr_checked_at :: nat

text \<open>\<^verbatim>\<open>str::split\<close> and \<^verbatim>\<open>str::split_once\<close> with a string that is not empty.\<close>

function split_str :: "string \<Rightarrow> string \<Rightarrow> string list" where
  "split_str pat [] = [[]]"
| "split_str pat (c # s) =
     (if pat \<noteq> [] \<and> is_prefix_of pat (c # s) then [] # split_str pat (drop (length pat) (c # s))
      else (case split_str pat s of [] \<Rightarrow> [[c]] | l # ls \<Rightarrow> (c # l) # ls))"
  by pat_completeness auto
termination by (relation "measure (\<lambda>(pat, s). length s)") auto

fun split_once_str :: "string \<Rightarrow> string \<Rightarrow> (string \<times> string) option" where
  "split_once_str pat [] = None"
| "split_once_str pat (c # s) =
     (if is_prefix_of pat (c # s) then Some ([], drop (length pat) (c # s))
      else map_option (\<lambda>(a, b). (c # a, b)) (split_once_str pat s))"

definition ascii_hexdigit :: "char \<Rightarrow> bool" where
  "ascii_hexdigit c \<longleftrightarrow> (let n = of_char c :: nat in
     48 \<le> n \<and> n \<le> 57 \<or> 65 \<le> n \<and> n \<le> 70 \<or> 97 \<le> n \<and> n \<le> 102)"

text \<open>\<^verbatim>\<open>rest.get(..64)\<close> is \<^verbatim>\<open>None\<close> for a shorter text, or when byte 64 is inside a character.\<close>

definition str_get_to :: "nat \<Rightarrow> string \<Rightarrow> string option" where
  "str_get_to n s =
     (if length s < n then None
      else if n < length s \<and> 0x80 \<le> (of_char (s ! n) :: nat) \<and> (of_char (s ! n) :: nat) < 0xC0 then None
      else Some (take n s))"

definition BEGIN_SHA :: string where "BEGIN_SHA = ''<!-- BEGIN SHA ''"

definition checksum_entry :: "string \<Rightarrow> (string \<times> string) option" where
  "checksum_entry entry = (case split_once_str '' -->'' entry of
     None \<Rightarrow> None
   | Some (p, rest) \<Rightarrow> (case str_get_to 64 rest of
       None \<Rightarrow> None
     | Some sha256 \<Rightarrow> if list_all ascii_hexdigit sha256 then Some (p, to_lowercase sha256) else None))"

definition checksums :: "string \<Rightarrow> (string, string) hashmap" where
  "checksums notes = fold (\<lambda>(p, sha) m. hm_insert p sha m)
     (List.map_filter checksum_entry (tl (split_str BEGIN_SHA notes))) []"

definition trim_start_v :: "string \<Rightarrow> string" where
  "trim_start_v s = dropWhile (\<lambda>c. c = CHR ''v'') s"

definition latest_of_release :: "nat \<Rightarrow> github_release \<Rightarrow> latest_release" where
  "latest_of_release now r =
     \<lparr>lr_version = trim_start_v (gr_tag_name r),
      lr_sha256 = checksums (case gr_body r of None \<Rightarrow> [] | Some b \<Rightarrow> b),
      lr_checked_at = now\<rparr>"

definition latest_age :: "nat \<Rightarrow> latest_release \<Rightarrow> nat" where
  "latest_age now r = now - lr_checked_at r"

section \<open>The cache\<close>

text \<open>The files of a platform's directory by name.\<close>

type_synonym directory = "(string, string) hashmap"

record download_state =
  ds_failed_at :: "nat option"
  ds_finished_at :: "nat option"

definition default_download_state :: download_state where
  "default_download_state = \<lparr>ds_failed_at = None, ds_finished_at = None\<rparr>"

text \<open>An attempt to download a copy: its directory, when it began and ended, and whether it worked.\<close>

record attempt =
  at_dir :: string
  at_start :: nat
  at_end :: nat
  at_ok :: bool

text \<open>The cache with what is on its disk, the saved answer and the directories of the platforms, and the requests
  for releases and attempts to download that were made so far.\<close>

record runner_cache =
  ca_enabled :: bool
  ca_version_ttl :: nat
  ca_latest :: "latest_release option"
  ca_release_checksums :: "(string, (string, string) hashmap) hashmap"
  ca_downloads :: "(string, download_state) hashmap"
  ca_retry_download_after :: nat
  ca_saved_latest :: "latest_release option"
  ca_dirs :: "(string, directory) hashmap"
  ca_asked :: "string list"
  ca_attempts :: "attempt list"

definition new_cache :: "runner_cache_config \<Rightarrow> latest_release option \<Rightarrow> (string, directory) hashmap \<Rightarrow> runner_cache" where
  "new_cache cfg saved dirs =
     \<lparr>ca_enabled = cc_enabled cfg, ca_version_ttl = cc_version_ttl_secs cfg, ca_latest = None,
      ca_release_checksums = [], ca_downloads = [], ca_retry_download_after = RETRY_DOWNLOAD_AFTER,
      ca_saved_latest = saved, ca_dirs = dirs, ca_asked = [], ca_attempts = []\<rparr>"

text \<open>What the releases API answers for \<^verbatim>\<open>latest\<close> or a tag; \<^term>\<open>None\<close> for any error.\<close>

type_synonym releases_api = "string \<Rightarrow> github_release option"

definition github_release_req :: "releases_api \<Rightarrow> string \<Rightarrow> runner_cache \<Rightarrow> github_release option \<times> runner_cache" where
  "github_release_req api release c = (api release, c\<lparr>ca_asked := ca_asked c @ [release]\<rparr>)"

text \<open>Saving renames a complete file over the old one, or fails and leaves it.\<close>

definition save_latest :: "bool \<Rightarrow> latest_release \<Rightarrow> runner_cache \<Rightarrow> runner_cache" where
  "save_latest ok r c = (if ok then c\<lparr>ca_saved_latest := Some r\<rparr> else c)"

definition load_latest :: "runner_cache \<Rightarrow> latest_release option" where
  "load_latest c = ca_saved_latest c"

definition fresh_latest :: "nat \<Rightarrow> runner_cache \<Rightarrow> latest_release option" where
  "fresh_latest now c = (case ca_latest c of
     None \<Rightarrow> None
   | Some known \<Rightarrow> if latest_age now known < ca_version_ttl c then Some known else None)"

definition github_version ::
  "releases_api \<Rightarrow> nat \<Rightarrow> bool \<Rightarrow> string \<Rightarrow> runner_cache \<Rightarrow> string \<times> runner_cache" where
  "github_version api now saves configured c =
     (let configured = str_trim configured in
     if configured \<noteq> [] \<and> configured \<noteq> ''latest'' then (trim_start_v configured, c)
     else
       let c = (if ca_latest c = None then c\<lparr>ca_latest := load_latest c\<rparr> else c) in
       case fresh_latest now c of
         Some known \<Rightarrow> (lr_version known, c)
       | None \<Rightarrow>
           (case github_release_req api ''latest'' c of
             (Some release, c) \<Rightarrow>
               (let r = latest_of_release now release in
               (lr_version r, (save_latest saves r c)\<lparr>ca_latest := Some r\<rparr>))
           | (None, c) \<Rightarrow>
               (case ca_latest c of
                 Some known \<Rightarrow>
                   (let known = known\<lparr>lr_checked_at := now\<rparr> in
                   (lr_version known, save_latest saves known (c\<lparr>ca_latest := Some known\<rparr>)))
               | None \<Rightarrow> (FALLBACK_VERSION, c))))"

text \<open>The published checksum of an archive, asked for once per version other than the latest.\<close>

definition find_checksum :: "string \<Rightarrow> string \<Rightarrow> (string, string) hashmap option \<Rightarrow> cache_error + string" where
  "find_checksum version key found = (case found of
     None \<Rightarrow> Inl (NoChecksum (''runner v'' @ version @ '' '' @ key))
   | Some m \<Rightarrow> (case hm_get m key of
       None \<Rightarrow> Inl (NoChecksum (''runner v'' @ version @ '' '' @ key)) | Some sha \<Rightarrow> Inr sha))"

definition latest_checksum :: "string \<Rightarrow> string \<Rightarrow> runner_cache \<Rightarrow> string option" where
  "latest_checksum version key c = (case ca_latest c of
     None \<Rightarrow> None
   | Some latest \<Rightarrow> if lr_version latest = version then hm_get (lr_sha256 latest) key else None)"

definition github_sha256 ::
  "releases_api \<Rightarrow> string \<Rightarrow> string \<Rightarrow> runner_cache \<Rightarrow> (cache_error + string) \<times> runner_cache" where
  "github_sha256 api version key c = (case latest_checksum version key c of
     Some sha \<Rightarrow> (Inr sha, c)
   | None \<Rightarrow>
       if hm_contains (ca_release_checksums c) version
       then (find_checksum version key (hm_get (ca_release_checksums c) version), c)
       else (case github_release_req api (''tags/v'' @ version) c of
         (None, c) \<Rightarrow> (Inl ErrHttp, c)
       | (Some release, c) \<Rightarrow>
           (let found = checksums (case gr_body release of None \<Rightarrow> [] | Some b \<Rightarrow> b);
                c = c\<lparr>ca_release_checksums := hm_insert version found (ca_release_checksums c)\<rparr> in
           (find_checksum version key (Some found), c))))"

definition github_platform :: "platform \<Rightarrow> arch \<Rightarrow> string" where
  "github_platform p a = platform_str p @ ''-'' @ arch_str a"

definition github_checksum ::
  "releases_api \<Rightarrow> string \<Rightarrow> platform \<Rightarrow> arch \<Rightarrow> runner_cache \<Rightarrow> string option \<times> runner_cache" where
  "github_checksum api version p a c = (case github_sha256 api version (github_platform p a) c of
     (Inl _, c) \<Rightarrow> (None, c) | (Inr sha, c) \<Rightarrow> (Some sha, c))"

text \<open>The first word of the \<^verbatim>\<open>.sha256\<close> file next to a URL, in lower case.\<close>

definition sha256_file :: "(string \<Rightarrow> string option) \<Rightarrow> string \<Rightarrow> cache_error + string" where
  "sha256_file http url = (case http (url @ ''.sha256'') of
     None \<Rightarrow> Inl ErrHttp
   | Some file \<Rightarrow>
       (case takeWhile (\<lambda>c. \<not> is_white c) (dropWhile is_white file) of
         [] \<Rightarrow> Inl (NoChecksum (url @ ''.sha256'')) | w \<Rightarrow> Inr (to_lowercase w)))"

section \<open>Copies\<close>

text \<open>\<^verbatim>\<open>Path::with_extension\<close> and \<^verbatim>\<open>with_added_extension\<close> of a file name.\<close>

definition with_extension :: "string \<Rightarrow> string \<Rightarrow> string" where
  "with_extension ext name = (case split_once (CHR ''.'') (rev name) of
     None \<Rightarrow> name @ ''.'' @ ext
   | Some (_, stem) \<Rightarrow> (if stem = [] then name else rev stem) @ ''.'' @ ext)"

definition checksum_path :: "string \<Rightarrow> string" where
  "checksum_path name = name @ ''.sha256''"

text \<open>File operations; \<^term>\<open>OpOther\<close> stands for one that changes no file of the directory. One that fails may
  have written the first bytes.\<close>

datatype disk_op = OpOther | OpCreate string | OpAppend string string | OpWrite string string
  | OpRename string string | OpRemove string

fun apply_op :: "disk_op \<Rightarrow> directory \<Rightarrow> directory" where
  "apply_op OpOther d = d"
| "apply_op (OpCreate n) d = hm_insert n [] d"
| "apply_op (OpAppend n s) d = hm_insert n ((case hm_get d n of None \<Rightarrow> [] | Some t \<Rightarrow> t) @ s) d"
| "apply_op (OpWrite n s) d = hm_insert n s d"
| "apply_op (OpRename m n) d = (case hm_get d m of None \<Rightarrow> d | Some s \<Rightarrow> hm_insert n s (hm_remove m d))"
| "apply_op (OpRemove n) d = hm_remove n d"

fun fail_op :: "nat option \<Rightarrow> disk_op \<Rightarrow> directory \<Rightarrow> directory" where
  "fail_op (Some k) (OpAppend n s) d = apply_op (OpAppend n (take k s)) d"
| "fail_op (Some k) (OpWrite n s) d = apply_op (OpWrite n (take k s)) d"
| "fail_op _ _ d = d"

text \<open>The disk: whether files can be read, how many operations succeed, and what the failing one still writes.\<close>

record disk_fault =
  df_reads :: bool
  df_budget :: nat
  df_torn :: "nat option"

fun run_ops :: "disk_op list \<Rightarrow> disk_fault \<Rightarrow> directory \<Rightarrow> bool \<times> disk_fault \<times> directory" where
  "run_ops [] io d = (True, io, d)"
| "run_ops (op # ops) io d =
     (if df_budget io = 0 then (False, io, fail_op (df_torn io) op d)
      else run_ops ops (io\<lparr>df_budget := df_budget io - 1\<rparr>) (apply_op op d))"

definition intact :: "(string \<Rightarrow> string) \<Rightarrow> disk_fault \<Rightarrow> directory \<Rightarrow> string \<Rightarrow> bool" where
  "intact sha io d name \<longleftrightarrow> df_reads io \<and>
     (case (hm_get d (checksum_path name), hm_get d name) of
        (Some expected, Some content) \<Rightarrow> sha content = expected
      | _ \<Rightarrow> False)"

text \<open>The body of a response: its chunks, and whether it ended without an error.\<close>

record http_body =
  hb_chunks :: "string list"
  hb_complete :: bool

type_synonym http_get = "string \<Rightarrow> http_body option"

text \<open>The copy is written beside its place, checked, and moved there once its checksum is written; then the
  other files of the directory are removed.\<close>

definition other_files :: "string \<Rightarrow> directory \<Rightarrow> string list" where
  "other_files name d = filter (\<lambda>n. n \<noteq> name \<and> n \<noteq> checksum_path name) (map fst d)"

definition put_in_place :: "string \<Rightarrow> string \<Rightarrow> disk_fault \<Rightarrow> directory \<Rightarrow> (cache_error + unit) \<times> directory" where
  "put_in_place name sha256 io d =
     (case run_ops [OpWrite (checksum_path name) sha256, OpRename (with_extension ''part'' name) name] io d of
       (False, _, d) \<Rightarrow> (Inl ErrFile, d)
     | (True, io, d) \<Rightarrow>
         (case run_ops (OpOther # map OpRemove (other_files name d)) io d of
           (ok, _, d) \<Rightarrow> (if ok then Inr () else Inl ErrFile, d)))"

definition download ::
  "(string \<Rightarrow> string) \<Rightarrow> http_get \<Rightarrow> disk_fault \<Rightarrow> string \<Rightarrow> string \<Rightarrow> string \<Rightarrow> directory \<Rightarrow> (cache_error + unit) \<times> directory" where
  "download sha http io url sha256 name d =
     (case run_ops [OpOther] io d of
       (False, _, d) \<Rightarrow> (Inl ErrFile, d)
     | (True, io, d) \<Rightarrow>
         (case http url of
           None \<Rightarrow> (Inl ErrHttp, d)
         | Some body \<Rightarrow>
             (let part = with_extension ''part'' name in
             case run_ops (OpCreate part # map (OpAppend part) (hb_chunks body)) io d of
               (False, _, d) \<Rightarrow> (Inl ErrFile, d)
             | (True, io, d) \<Rightarrow>
                 if \<not> hb_complete body then (Inl ErrHttp, d)
                 else (case run_ops [OpOther] io d of
                   (False, _, d) \<Rightarrow> (Inl ErrFile, d)
                 | (True, io, d) \<Rightarrow>
                     (let actual = sha (concat (hb_chunks body)) in
                     if actual \<noteq> sha256
                     then (Inl (ChecksumMismatch url sha256 actual), snd (snd (run_ops [OpRemove part] io d)))
                     else put_in_place name sha256 io d)))))"

record cached_copy =
  cp_dir :: string
  cp_name :: string
  cp_source :: install_source

text \<open>When a job asks for a copy, when it has the slot of the directory, and when its download ended.\<close>

record job_times =
  jt_queued :: nat
  jt_locked :: nat
  jt_ended :: nat

definition dir_files :: "runner_cache \<Rightarrow> string \<Rightarrow> directory" where
  "dir_files c dir = (case hm_get (ca_dirs c) dir of None \<Rightarrow> [] | Some d \<Rightarrow> d)"

definition download_slot :: "runner_cache \<Rightarrow> string \<Rightarrow> download_state" where
  "download_slot c dir = (case hm_get (ca_downloads c) dir of None \<Rightarrow> default_download_state | Some s \<Rightarrow> s)"

type_synonym sha256_future = "runner_cache \<Rightarrow> (cache_error + string) \<times> runner_cache"

definition fetch_copy ::
  "(string \<Rightarrow> string) \<Rightarrow> http_get \<Rightarrow> disk_fault \<Rightarrow> string \<Rightarrow> string \<Rightarrow> string \<Rightarrow> sha256_future \<Rightarrow> runner_cache \<Rightarrow>
   (cache_error + unit) \<times> runner_cache" where
  "fetch_copy sha http io dir name url sha256 c = (case sha256 c of
     (Inl e, c) \<Rightarrow> (Inl e, c)
   | (Inr expected, c) \<Rightarrow>
       (case download sha http io url expected name (dir_files c dir) of
         (r, d) \<Rightarrow> (r, c\<lparr>ca_dirs := hm_insert dir d (ca_dirs c)\<rparr>)))"

definition set_slot :: "string \<Rightarrow> download_state \<Rightarrow> runner_cache \<Rightarrow> runner_cache" where
  "set_slot dir s c = c\<lparr>ca_downloads := hm_insert dir s (ca_downloads c)\<rparr>"

definition log_attempt :: "attempt \<Rightarrow> runner_cache \<Rightarrow> runner_cache" where
  "log_attempt a c = c\<lparr>ca_attempts := ca_attempts c @ [a]\<rparr>"

definition recently_failed :: "nat \<Rightarrow> download_state \<Rightarrow> nat \<Rightarrow> bool" where
  "recently_failed wait state now \<longleftrightarrow> (case ds_failed_at state of None \<Rightarrow> False | Some f \<Rightarrow> now - f < wait)"

definition cached ::
  "(string \<Rightarrow> string) \<Rightarrow> http_get \<Rightarrow> disk_fault \<Rightarrow> job_times \<Rightarrow> string \<Rightarrow> string \<Rightarrow> string \<Rightarrow> sha256_future \<Rightarrow>
   runner_cache \<Rightarrow> (cache_error + cached_copy) \<times> runner_cache" where
  "cached sha http io t dir name url sha256 c =
     (let state = download_slot c dir; c = set_slot dir state c in
     if intact sha io (dir_files c dir) name then
       (let waited = (case ds_finished_at state of None \<Rightarrow> False | Some f \<Rightarrow> f > jt_queued t) in
       (Inr \<lparr>cp_dir = dir, cp_name = name, cp_source = (if waited then Filled else Hit)\<rparr>, c))
     else if recently_failed (ca_retry_download_after c) state (jt_locked t) then
       (Inl RecentlyFailed, c)
     else (case fetch_copy sha http io dir name url sha256 c of
         (Inl e, c) \<Rightarrow>
           (Inl e, set_slot dir (state\<lparr>ds_failed_at := Some (jt_ended t)\<rparr>)
              (log_attempt \<lparr>at_dir = dir, at_start = jt_locked t, at_end = jt_ended t, at_ok = False\<rparr> c))
       | (Inr _, c) \<Rightarrow>
           (Inr \<lparr>cp_dir = dir, cp_name = name, cp_source = Filled\<rparr>,
            set_slot dir (state\<lparr>ds_failed_at := None, ds_finished_at := Some (jt_ended t)\<rparr>)
              (log_attempt \<lparr>at_dir = dir, at_start = jt_locked t, at_end = jt_ended t, at_ok = True\<rparr> c))))"

definition github_archive ::
  "(string \<Rightarrow> string) \<Rightarrow> releases_api \<Rightarrow> http_get \<Rightarrow> disk_fault \<Rightarrow> job_times \<Rightarrow> string \<Rightarrow> platform \<Rightarrow> arch \<Rightarrow>
   runner_cache \<Rightarrow> (cache_error + cached_copy) \<times> runner_cache" where
  "github_archive sha api http io t version p a c =
     (let key = github_platform p a in
     cached sha http io t (''github/'' @ key) (archive_name version p a) (download_url version p a)
       (github_sha256 api version key) c)"

definition forgejo_binary ::
  "(string \<Rightarrow> string) \<Rightarrow> (string \<Rightarrow> string option) \<Rightarrow> http_get \<Rightarrow> disk_fault \<Rightarrow> job_times \<Rightarrow> string \<Rightarrow> string \<Rightarrow>
   runner_os \<Rightarrow> arch \<Rightarrow> runner_cache \<Rightarrow> (cache_error + cached_copy) \<times> runner_cache" where
  "forgejo_binary sha text_of http io t url version os a c =
     cached sha http io t (''forgejo/'' @ platform_name os a) (forgejo_file_name version os a) url
       (\<lambda>c. (sha256_file text_of url, c)) c"

section \<open>Installing on a VM\<close>

text \<open>A session with a VM: whether a file uploads under a name, and the exit code of a command.\<close>

record vm_session =
  vs_upload :: "string \<Rightarrow> string \<Rightarrow> bool"
  vs_execute :: "string \<Rightarrow> int option"

definition install_copy :: "vm_session \<Rightarrow> cached_copy \<Rightarrow> string \<Rightarrow> string \<Rightarrow> install_source" where
  "install_copy session copy target command =
     (if \<not> vs_upload session (cp_dir copy @ ''/'' @ cp_name copy) target then FellBack
      else (case vs_execute session command of
        None \<Rightarrow> FellBack
      | Some code \<Rightarrow> if code = 0 then cp_source copy else FellBack))"

definition install_github ::
  "(string \<Rightarrow> string) \<Rightarrow> (8 word list \<Rightarrow> string) \<Rightarrow> releases_api \<Rightarrow> http_get \<Rightarrow> disk_fault \<Rightarrow> job_times \<Rightarrow> vm_session \<Rightarrow>
   runner_config_builder \<Rightarrow> string \<Rightarrow> arch \<Rightarrow> runner_cache \<Rightarrow> install_source \<times> runner_cache" where
  "install_github sha b64 api http io t session b version a c =
     (if \<not> ca_enabled c then (FromVm, c)
      else (case github_archive sha api http io t version (rb_platform b) a c of
        (Inl _, c) \<Rightarrow> (FellBack, c)
      | (Inr archive, c) \<Rightarrow>
          (install_copy session archive (upload_name b) (install_upload_command b64 b), c)))"

definition install_forgejo ::
  "(string \<Rightarrow> string) \<Rightarrow> (8 word list \<Rightarrow> string) \<Rightarrow> (string \<Rightarrow> string option) \<Rightarrow> http_get \<Rightarrow> disk_fault \<Rightarrow> job_times \<Rightarrow>
   vm_session \<Rightarrow> string \<Rightarrow> string \<Rightarrow> runner_os \<Rightarrow> arch \<Rightarrow> runner_cache \<Rightarrow> install_source \<times> runner_cache" where
  "install_forgejo sha b64 text_of http io t session url version os a c =
     (if \<not> ca_enabled c then (FromVm, c)
      else (case forgejo_binary sha text_of http io t url version os a c of
        (Inl _, c) \<Rightarrow> (FellBack, c)
      | (Inr binary, c) \<Rightarrow>
          (install_copy session binary UPLOAD_NAME
             (if os = OsWindows then windows_install_upload_command b64 WINDOWS_RUNNER_DIR
              else forgejo_install_upload_command), c)))"

end
