(* ===== verification/Runner_Cache_Facts.thy ===== *)
theory Runner_Cache_Facts
  imports Runner_Cache
begin

text \<open>
  What the runner cache guarantees: a copy it hands out has the checksum that was published for it,
  whatever was torn, damaged or restarted before; downloads that fail are spaced out; GitHub is asked
  for the latest version once in a while; the checksums of release notes are read back.
\<close>

section \<open>File names\<close>

definition has_end :: "string \<Rightarrow> string \<Rightarrow> bool" where
  "has_end e s \<longleftrightarrow> is_prefix_of (rev e) (rev s)"

text \<open>The name of a copy: neither a partial download nor a checksum.\<close>

definition copy_name :: "string \<Rightarrow> bool" where
  "copy_name n \<longleftrightarrow> \<not> has_end ''.part'' n \<and> \<not> has_end ''.sha256'' n"

lemma ends_with_append [simp]: "has_end e (s @ e)"
  by (simp add: has_end_def)

lemma part_ends: "has_end ''.part'' (with_extension ''part'' n)"
proof -
  have "\<exists>x. with_extension ''part'' n = x @ ''.part''"
    by (cases "split_once (CHR ''.'') (rev n)") (auto simp: with_extension_def split: prod.split)
  then obtain x where "with_extension ''part'' n = x @ ''.part''" ..
  then show ?thesis using ends_with_append by metis
qed

lemma checksum_ends: "has_end ''.sha256'' (checksum_path n)"
  unfolding checksum_path_def by (rule ends_with_append)

lemma part_not_sha: "has_end ''.part'' s \<Longrightarrow> \<not> has_end ''.sha256'' s"
  by (cases "rev s") (auto simp: has_end_def)

lemma file_names [simp]:
  "copy_name n \<Longrightarrow> with_extension ''part'' m \<noteq> n"
  "copy_name n \<Longrightarrow> checksum_path m \<noteq> n"
  "with_extension ''part'' m \<noteq> checksum_path n"
  "checksum_path m = checksum_path n \<longleftrightarrow> m = n"
  using part_ends [of m] checksum_ends part_not_sha
  by (auto simp: copy_name_def checksum_path_def) (metis checksum_ends checksum_path_def part_not_sha)+

lemmas file_names_sym [simp] = file_names(1-3) [symmetric]

lemma copy_names [simp]:
  "copy_name (archive_name v p a)" "copy_name (forgejo_file_name v os a)"
  by (cases p; simp add: copy_name_def has_end_def archive_name_def)
    (cases os; cases a; simp add: copy_name_def has_end_def forgejo_file_name_def platform_name_def)

section \<open>Checksum files\<close>

text \<open>A checksum file of a copy holds what was published, or is torn.\<close>

definition sums_ok :: "(string \<Rightarrow> string) \<Rightarrow> directory \<Rightarrow> bool" where
  "sums_ok pub d \<longleftrightarrow> (\<forall>n t. copy_name n \<longrightarrow> hm_get d (checksum_path n) = Some t \<longrightarrow> t = pub n \<or> length t < 64)"

fun op_ok :: "(string \<Rightarrow> string) \<Rightarrow> disk_op \<Rightarrow> bool" where
  "op_ok pub (OpCreate n) \<longleftrightarrow> \<not> has_end ''.sha256'' n"
| "op_ok pub (OpAppend n s) \<longleftrightarrow> \<not> has_end ''.sha256'' n"
| "op_ok pub (OpRename m n) \<longleftrightarrow> \<not> has_end ''.sha256'' n"
| "op_ok pub (OpWrite n s) \<longleftrightarrow> length s = 64 \<and> (\<forall>m. copy_name m \<longrightarrow> n = checksum_path m \<longrightarrow> s = pub m)"
| "op_ok pub _ \<longleftrightarrow> True"

lemma apply_op_ok: "op_ok pub op \<Longrightarrow> sums_ok pub d \<Longrightarrow> sums_ok pub (apply_op op d)"
  using checksum_ends by (cases op) (auto simp: sums_ok_def split: option.split if_splits)

lemma fail_op_ok: "op_ok pub op \<Longrightarrow> sums_ok pub d \<Longrightarrow> sums_ok pub (fail_op k op d)"
  using checksum_ends
  by (cases k; cases op) (auto simp: sums_ok_def min_def split: option.split if_splits)

lemma run_ops_ok:
  "list_all (op_ok pub) ops \<Longrightarrow> sums_ok pub d \<Longrightarrow> run_ops ops io d = (ok, io', d') \<Longrightarrow> sums_ok pub d'"
proof (induction ops arbitrary: io d)
  case (Cons op ops)
  then show ?case
    using Cons.IH [of "apply_op op d"] by (auto intro: apply_op_ok fail_op_ok split: if_splits)
qed simp

declare run_ops.simps [simp del]

lemma put_in_place_ok:
  assumes "sums_ok pub d" "copy_name name" "length (pub name) = 64"
  shows "sums_ok pub (snd (put_in_place name (pub name) io d))"
proof -
  have ops: "list_all (op_ok pub) [OpWrite (checksum_path name) (pub name), OpRename (with_extension ''part'' name) name]"
    using assms(2,3) by (simp add: copy_name_def)
  have rm: "list_all (op_ok pub) (OpOther # map OpRemove ns)" for ns by (induction ns) auto
  obtain ok io1 d1 where r: "run_ops [OpWrite (checksum_path name) (pub name), OpRename (with_extension ''part'' name) name] io d = (ok, io1, d1)"
    by (metis prod_cases3)
  obtain ok' io2 d2 where r2: "run_ops (OpOther # map OpRemove (other_files name d1)) io1 d1 = (ok', io2, d2)"
    by (metis prod_cases3)
  have "sums_ok pub d1" "sums_ok pub d2"
    using run_ops_ok [OF ops assms(1) r] run_ops_ok [OF rm _ r2] by auto
  then show ?thesis using r r2 by (simp add: put_in_place_def split: bool.split)
qed

text \<open>The operations before the checksum is written touch no checksum.\<close>

definition download_ops :: "string \<Rightarrow> string list \<Rightarrow> disk_op list" where
  "download_ops part cs = OpCreate part # map (OpAppend part) cs"

lemma download_ops_ok: "list_all (op_ok pub) (download_ops (with_extension ''part'' name) cs)"
  using part_ends part_not_sha by (induction cs) (auto simp: download_ops_def)

lemma download_ok:
  assumes "sums_ok pub d" "copy_name name" "\<And>s. length (sha s) = 64"
  shows "sums_ok pub (snd (download sha http io url (pub name) name d))"
proof -
  define part where "part = with_extension ''part'' name"
  have other: "list_all (op_ok pub) [OpOther]" and rm: "list_all (op_ok pub) [OpRemove x]" for x by simp_all
  obtain ok1 io1 d1 where r1: "run_ops [OpOther] io d = (ok1, io1, d1)" by (metis prod_cases3)
  have d1: "sums_ok pub d1" using run_ops_ok [OF other assms(1) r1] .
  show ?thesis
  proof (cases "http url")
    case None
    then show ?thesis using r1 d1 by (simp add: download_def split: bool.split)
  next
    case (Some body)
    obtain ok2 io2 d2 where r2: "run_ops (download_ops part (hb_chunks body)) io1 d1 = (ok2, io2, d2)" by (metis prod_cases3)
    obtain ok3 io3 d3 where r3: "run_ops [OpOther] io2 d2 = (ok3, io3, d3)" by (metis prod_cases3)
    obtain ok4 io4 d4 where r4: "run_ops [OpRemove part] io3 d3 = (ok4, io4, d4)" by (metis prod_cases3)
    have d2: "sums_ok pub d2" using run_ops_ok [OF download_ops_ok d1] r2 unfolding part_def by blast
    have d3: "sums_ok pub d3" using run_ops_ok [OF other d2 r3] .
    have d4: "sums_ok pub d4" using run_ops_ok [OF rm d3 r4] .
    have "length (pub name) = 64" if "sha (concat (hb_chunks body)) = pub name"
      using assms(3) that by metis
    then have "sums_ok pub (snd (put_in_place name (pub name) io3 d3))" if "sha (concat (hb_chunks body)) = pub name"
      using put_in_place_ok [OF d3 assms(2)] that by blast
    then show ?thesis
      using r1 r2 r3 r4 d1 d2 d3 d4 Some by (simp add: download_def download_ops_def part_def Let_def split: bool.split)
  qed
qed

section \<open>A finished download\<close>

lemma run_ops_True: "run_ops ops io d = (True, io', d') \<Longrightarrow> d' = fold apply_op ops d"
  by (induction ops arbitrary: io d) (auto simp: run_ops.simps split: if_splits)

lemma fold_append: "hm_get d n = Some t \<Longrightarrow> hm_get (fold apply_op (map (OpAppend n) cs) d) n = Some (t @ concat cs)"
  by (induction cs arbitrary: d t) auto

lemma fold_remove: "hm_get (fold apply_op (map OpRemove ns) d) = (\<lambda>n. if n \<in> set ns then None else hm_get d n)"
  by (induction ns arbitrary: d) auto

lemma put_in_place_result:
  assumes "put_in_place name expected io d = (Inr (), d')" "copy_name name"
    "hm_get d (with_extension ''part'' name) = Some content"
  shows "map_of d' = [name \<mapsto> content, checksum_path name \<mapsto> expected]"
proof -
  let ?part = "with_extension ''part'' name"
  obtain io1 d1 where r1: "run_ops [OpWrite (checksum_path name) expected, OpRename ?part name] io d = (True, io1, d1)"
    using assms(1) by (auto simp: put_in_place_def split: prod.splits bool.splits)
  then obtain io2 where r2: "run_ops (OpOther # map OpRemove (other_files name d1)) io1 d1 = (True, io2, d')"
    using assms(1) by (auto simp: put_in_place_def split: prod.splits bool.splits if_splits)
  have d1: "map_of d1 name = Some content" "map_of d1 (checksum_path name) = Some expected"
    using run_ops_True [OF r1] assms(2,3) by auto
  have "map_of d' = (\<lambda>n. if n \<in> set (other_files name d1) then None else map_of d1 n)"
    using run_ops_True [OF r2] by (simp add: fold_remove)
  moreover have "n \<in> set (other_files name d1) \<longleftrightarrow> n \<noteq> name \<and> n \<noteq> checksum_path name \<and> map_of d1 n \<noteq> None" for n
    by (auto simp: other_files_def map_of_eq_None_iff)
  ultimately show ?thesis using d1 assms(2) by (intro ext) auto
qed

lemma download_result:
  assumes "download sha http io url expected name d = (Inr (), d')" "copy_name name"
  shows "\<exists>body. http url = Some body \<and> sha (concat (hb_chunks body)) = expected \<and>
     map_of d' = [name \<mapsto> concat (hb_chunks body), checksum_path name \<mapsto> expected]"
proof -
  let ?part = "with_extension ''part'' name"
  obtain io1 d1 body where r1: "run_ops [OpOther] io d = (True, io1, d1)" and body: "http url = Some body"
    using assms(1) by (auto simp: download_def split: prod.splits bool.splits option.splits)
  obtain io2 d2 where r2: "run_ops (OpCreate ?part # map (OpAppend ?part) (hb_chunks body)) io1 d1 = (True, io2, d2)"
    using assms(1) r1 body by (auto simp: download_def Let_def split: prod.splits bool.splits)
  obtain io3 d3 where r3: "run_ops [OpOther] io2 d2 = (True, io3, d3)"
    using assms(1) r1 r2 body by (auto simp: download_def Let_def split: prod.splits bool.splits if_splits)
  have sha: "sha (concat (hb_chunks body)) = expected" and put: "put_in_place name expected io3 d3 = (Inr (), d')"
    using assms(1) r1 r2 r3 body by (auto simp: download_def Let_def split: if_splits)
  have "hm_get d2 ?part = Some (concat (hb_chunks body))"
    using run_ops_True [OF r2] fold_append [of "hm_insert ?part [] d1" ?part "[]"] by simp
  then have "hm_get d3 ?part = Some (concat (hb_chunks body))" using run_ops_True [OF r3] by simp
  then show ?thesis using body sha put_in_place_result [OF put assms(2)] by blast
qed

section \<open>Everything that happens to a cache\<close>

text \<open>Jobs that ask for a version, a checksum or a copy, a copy whose file changes on the disk, and a restart of
  the agent.\<close>

datatype cache_event =
    AskVersion releases_api nat bool string
  | AskChecksum releases_api string platform arch
  | AskGithub releases_api http_get disk_fault job_times string platform arch
  | AskForgejo "string \<Rightarrow> string option" http_get disk_fault job_times string string runner_os arch
  | Damage string string string
  | Restart

definition copy_of :: "(cache_error + cached_copy) \<times> runner_cache \<Rightarrow> cached_copy option \<times> runner_cache" where
  "copy_of r = (case r of (Inl _, c) \<Rightarrow> (None, c) | (Inr x, c) \<Rightarrow> (Some x, c))"

fun cache_do :: "(string \<Rightarrow> string) \<Rightarrow> cache_event \<Rightarrow> runner_cache \<Rightarrow> cached_copy option \<times> runner_cache" where
  "cache_do sha (AskVersion api now saves configured) c = (None, snd (github_version api now saves configured c))"
| "cache_do sha (AskChecksum api version p a) c = (None, snd (github_checksum api version p a c))"
| "cache_do sha (AskGithub api http io t version p a) c = copy_of (github_archive sha api http io t version p a c)"
| "cache_do sha (AskForgejo texts http io t url version os a) c = copy_of (forgejo_binary sha texts http io t url version os a c)"
| "cache_do sha (Damage dir name content) c =
     (None, c\<lparr>ca_dirs := hm_insert dir (hm_insert name content (dir_files c dir)) (ca_dirs c)\<rparr>)"
| "cache_do sha Restart c = (None, c\<lparr>ca_latest := None, ca_release_checksums := [], ca_downloads := []\<rparr>)"

definition cache_run :: "(string \<Rightarrow> string) \<Rightarrow> cache_event list \<Rightarrow> runner_cache \<Rightarrow> runner_cache" where
  "cache_run sha es c = fold (\<lambda>e c. snd (cache_do sha e c)) es c"

lemma cache_run_simps [simp]:
  "cache_run sha [] c = c"
  "cache_run sha (e # es) c = cache_run sha es (snd (cache_do sha e c))"
  by (simp_all add: cache_run_def)

section \<open>Published checksums\<close>

text \<open>Checksums that agree with the published one of each archive, and answers that have such checksums.\<close>

definition agrees :: "(string \<Rightarrow> string \<Rightarrow> string) \<Rightarrow> string \<Rightarrow> (string, string) hashmap \<Rightarrow> bool" where
  "agrees pub version m \<longleftrightarrow>
     (\<forall>p a s. hm_get m (github_platform p a) = Some s \<longrightarrow> s = pub (''github/'' @ github_platform p a) (archive_name version p a))"

definition release_sums :: "github_release \<Rightarrow> (string, string) hashmap" where
  "release_sums r = checksums (case gr_body r of None \<Rightarrow> [] | Some b \<Rightarrow> b)"

definition honest_api :: "(string \<Rightarrow> string \<Rightarrow> string) \<Rightarrow> releases_api \<Rightarrow> bool" where
  "honest_api pub api \<longleftrightarrow>
     (\<forall>r. api ''latest'' = Some r \<longrightarrow> agrees pub (trim_start_v (gr_tag_name r)) (release_sums r)) \<and>
     (\<forall>v r. api (''tags/v'' @ v) = Some r \<longrightarrow> agrees pub v (release_sums r))"

fun honest_event :: "(string \<Rightarrow> string \<Rightarrow> string) \<Rightarrow> cache_event \<Rightarrow> bool" where
  "honest_event pub (AskVersion api now saves configured) \<longleftrightarrow> honest_api pub api"
| "honest_event pub (AskChecksum api version p a) \<longleftrightarrow> honest_api pub api"
| "honest_event pub (AskGithub api http io t version p a) \<longleftrightarrow> honest_api pub api"
| "honest_event pub (AskForgejo texts http io t url version os a) \<longleftrightarrow>
     (\<forall>s. sha256_file texts url = Inr s \<longrightarrow> s = pub (''forgejo/'' @ platform_name os a) (forgejo_file_name version os a))"
| "honest_event pub (Damage dir name content) \<longleftrightarrow> copy_name name"
| "honest_event pub Restart \<longleftrightarrow> True"

definition cache_ok :: "(string \<Rightarrow> string \<Rightarrow> string) \<Rightarrow> runner_cache \<Rightarrow> bool" where
  "cache_ok pub c \<longleftrightarrow>
     (\<forall>dir. sums_ok (pub dir) (dir_files c dir)) \<and>
     (\<forall>l. ca_latest c = Some l \<longrightarrow> agrees pub (lr_version l) (lr_sha256 l)) \<and>
     (\<forall>l. ca_saved_latest c = Some l \<longrightarrow> agrees pub (lr_version l) (lr_sha256 l)) \<and>
     (\<forall>v m. hm_get (ca_release_checksums c) v = Some m \<longrightarrow> agrees pub v m)"

lemma github_version_ok:
  assumes "cache_ok pub c" "honest_api pub api"
  shows "cache_ok pub (snd (github_version api now saves configured c))"
  using assms
  by (auto simp: github_version_def Let_def github_release_req_def save_latest_def load_latest_def cache_ok_def
      latest_of_release_def honest_api_def release_sums_def dir_files_def split: option.splits)

lemma github_sha256_ok:
  assumes "cache_ok pub c" "honest_api pub api" "github_sha256 api version (github_platform p a) c = (r, c')"
  shows "cache_ok pub c' \<and> ca_dirs c' = ca_dirs c \<and>
     (\<forall>s. r = Inr s \<longrightarrow> s = pub (''github/'' @ github_platform p a) (archive_name version p a))"
proof -
  let ?key = "github_platform p a"
  have known: "agrees pub version m \<Longrightarrow> find_checksum version ?key (Some m) = Inr s \<Longrightarrow>
     s = pub (''github/'' @ ?key) (archive_name version p a)" for m s
    by (auto simp: find_checksum_def agrees_def split: option.splits)
  show ?thesis
  proof (cases "latest_checksum version ?key c")
    case (Some s)
    then show ?thesis
      using assms by (auto simp: github_sha256_def latest_checksum_def cache_ok_def agrees_def split: option.splits if_splits)
  next
    case None
    show ?thesis
    proof (cases "hm_get (ca_release_checksums c) version")
      case (Some m)
      then have "agrees pub version m" using assms(1) by (simp add: cache_ok_def)
      then show ?thesis
        using assms None Some known by (auto simp: github_sha256_def hm_contains_def)
    next
      case new: None
      show ?thesis
      proof (cases "api (''tags/v'' @ version)")
        case None
        then show ?thesis
          using assms \<open>latest_checksum version ?key c = None\<close> new
          by (auto simp: github_sha256_def hm_contains_def github_release_req_def cache_ok_def dir_files_def)
      next
        case (Some r)
        then have "agrees pub version (release_sums r)" using assms(2) unfolding honest_api_def by blast
        then show ?thesis
          using assms None new Some known
          by (auto simp: github_sha256_def hm_contains_def github_release_req_def cache_ok_def dir_files_def
              release_sums_def Let_def split: if_splits)
      qed
    qed
  qed
qed

lemma github_sha256_attempts:
  "ca_attempts (snd (github_sha256 api v key c)) = ca_attempts c"
  "ca_downloads (snd (github_sha256 api v key c)) = ca_downloads c"
  "ca_retry_download_after (snd (github_sha256 api v key c)) = ca_retry_download_after c"
  by (auto simp: github_sha256_def github_release_req_def Let_def split: option.split)

text \<open>Asking for a copy, for a checksum that is the published one whenever it answers.\<close>

definition honest_future :: "(string \<Rightarrow> string \<Rightarrow> string) \<Rightarrow> string \<Rightarrow> string \<Rightarrow> sha256_future \<Rightarrow> bool" where
  "honest_future pub dir name fut \<longleftrightarrow>
     (\<forall>c r c'. cache_ok pub c \<longrightarrow> fut c = (r, c') \<longrightarrow>
        cache_ok pub c' \<and> ca_dirs c' = ca_dirs c \<and> (\<forall>s. r = Inr s \<longrightarrow> s = pub dir name))"

lemma dir_files_update:
  "dir_files (c\<lparr>ca_dirs := hm_insert dir d (ca_dirs c')\<rparr>) x = (if x = dir then d else dir_files c' x)"
  by (simp add: dir_files_def)

lemma cache_ok_other [simp]:
  "cache_ok pub (set_slot dir s c) \<longleftrightarrow> cache_ok pub c"
  "cache_ok pub (log_attempt a c) \<longleftrightarrow> cache_ok pub c"
  "dir_files (set_slot dir s c) = dir_files c" "dir_files (log_attempt a c) = dir_files c"
  by (simp_all add: cache_ok_def set_slot_def log_attempt_def dir_files_def fun_eq_iff)

lemma fetch_copy_ok:
  assumes ok: "cache_ok pub c" and name: "copy_name name" and fut: "honest_future pub dir name fut"
    and len: "\<And>s. length (sha s) = 64" and r: "fetch_copy sha http io dir name url fut c = (r, c')"
  shows "cache_ok pub c' \<and>
     (r = Inr () \<longrightarrow> (\<exists>content. hm_get (dir_files c' dir) name = Some content \<and> sha content = pub dir name))"
proof (cases "fut c")
  case (Pair e c1)
  have c1: "cache_ok pub c1" "ca_dirs c1 = ca_dirs c" "\<And>s. e = Inr s \<Longrightarrow> s = pub dir name"
    using fut ok Pair unfolding honest_future_def by blast+
  show ?thesis
  proof (cases e)
    case (Inl x)
    then show ?thesis using r Pair c1 by (auto simp: fetch_copy_def)
  next
    case (Inr s)
    obtain r' d where d: "download sha http io url (pub dir name) name (dir_files c1 dir) = (r', d)"
      by (cases "download sha http io url (pub dir name) name (dir_files c1 dir)")
    have "sums_ok (pub dir) d"
      using download_ok [where pub = "pub dir" and sha = sha and d = "dir_files c1 dir" and http = http and io = io and url = url, OF _ name len] c1(1) d by (simp add: cache_ok_def)
    moreover have "c' = c1\<lparr>ca_dirs := hm_insert dir d (ca_dirs c1)\<rparr>" "r = r'"
      using r Pair Inr c1(3) d by (simp_all add: fetch_copy_def)
    moreover have "\<exists>content. hm_get d name = Some content \<and> sha content = pub dir name" if "r' = Inr ()"
      using download_result [OF d [unfolded that] name] name by auto
    ultimately show ?thesis
      using c1(1) by (simp add: cache_ok_def dir_files_update)
  qed
qed

lemma intact_published:
  assumes "sums_ok pub d" "copy_name name" "\<And>s. length (sha s) = 64" "intact sha io d name"
  shows "\<exists>content. hm_get d name = Some content \<and> sha content = pub name"
proof -
  obtain t content where "hm_get d (checksum_path name) = Some t" "hm_get d name = Some content" "sha content = t"
    using assms(4) by (auto simp: intact_def split: option.splits)
  moreover from this have "length t = 64" using assms(3) by blast
  ultimately show ?thesis using assms(1,2) by (auto simp: sums_ok_def)
qed

lemma cached_ok:
  assumes ok: "cache_ok pub c" and name: "copy_name name" and fut: "honest_future pub dir name fut"
    and len: "\<And>s. length (sha s) = 64" and r: "cached sha http io t dir name url fut c = (r, c')"
  shows "cache_ok pub c' \<and>
     (\<forall>x. r = Inr x \<longrightarrow> cp_dir x = dir \<and> cp_name x = name \<and>
        (\<exists>content. hm_get (dir_files c' dir) name = Some content \<and> sha content = pub dir name))"
proof -
  define state where "state = download_slot c dir"
  define c0 where "c0 = set_slot dir state c"
  have c0: "cache_ok pub c0" "dir_files c0 = dir_files c" using ok by (simp_all add: c0_def)
  show ?thesis
  proof (cases "intact sha io (dir_files c dir) name")
    case True
    then show ?thesis
      using r c0 intact_published [where pub = "pub dir" and sha = sha, OF _ name len True] ok
      by (auto simp: cached_def Let_def c0_def state_def cache_ok_def)
  next
    case False
    obtain r1 c1 where f: "fetch_copy sha http io dir name url fut c0 = (r1, c1)" by fastforce
    show ?thesis
      using r False f fetch_copy_ok [OF c0(1) name fut len f] c0
      by (auto simp: cached_def Let_def c0_def state_def split: if_splits sum.splits)
  qed
qed

lemma honest_github:
  "honest_api pub api \<Longrightarrow>
   honest_future pub (''github/'' @ github_platform p a) (archive_name version p a) (github_sha256 api version (github_platform p a))"
  unfolding honest_future_def using github_sha256_ok by blast

lemma cache_do_ok:
  assumes ok: "cache_ok pub c" and e: "honest_event pub e" and len: "\<And>s. length (sha s) = 64"
    and r: "cache_do sha e c = (r, c')"
  shows "cache_ok pub c' \<and>
     (\<forall>x. r = Some x \<longrightarrow> (\<exists>content. hm_get (dir_files c' (cp_dir x)) (cp_name x) = Some content \<and>
        sha content = pub (cp_dir x) (cp_name x)))"
proof (cases e)
  case (AskVersion api now saves configured)
  then show ?thesis using r e github_version_ok [OF ok] by auto
next
  case (AskChecksum api version p a)
  obtain r1 c1 where g: "github_sha256 api version (github_platform p a) c = (r1, c1)" by fastforce
  then show ?thesis
    using AskChecksum r e github_sha256_ok [OF ok _ g] by (auto simp: github_checksum_def split: sum.splits)
next
  case (AskGithub api http io t version p a)
  obtain r1 c1 where g: "github_archive sha api http io t version p a c = (r1, c1)" by fastforce
  show ?thesis
    using cached_ok [OF ok copy_names(1) honest_github len g [unfolded github_archive_def Let_def]] AskGithub r e g
    by (cases r1) (auto simp: copy_of_def)
next
  case (AskForgejo texts http io t url version os a)
  obtain r1 c1 where g: "forgejo_binary sha texts http io t url version os a c = (r1, c1)" by fastforce
  have fut: "honest_future pub (''forgejo/'' @ platform_name os a) (forgejo_file_name version os a) (\<lambda>c. (sha256_file texts url, c))"
    using e AskForgejo by (simp add: honest_future_def)
  show ?thesis
    using cached_ok [OF ok copy_names(2) fut len g [unfolded forgejo_binary_def]] AskForgejo r g
    by (cases r1) (auto simp: copy_of_def)
next
  case (Damage dir name content)
  have "sums_ok (pub dir) (hm_insert name content (dir_files c dir))"
    using ok e Damage by (auto simp: cache_ok_def sums_ok_def)
  then show ?thesis using ok r Damage by (auto simp: cache_ok_def dir_files_update)
next
  case Restart
  then show ?thesis using ok r by (auto simp: cache_ok_def dir_files_def)
qed

lemma cache_run_ok:
  assumes "\<And>s. length (sha s) = 64"
  shows "cache_ok pub c \<Longrightarrow> list_all (honest_event pub) es \<Longrightarrow> cache_ok pub (cache_run sha es c)"
proof (induction es arbitrary: c)
  case (Cons e es)
  obtain r c' where d: "cache_do sha e c = (r, c')" by fastforce
  then show ?case using cache_do_ok [OF Cons.prems(1) _ assms d] Cons by simp
qed simp

lemma new_cache_ok: "cache_ok pub (new_cache cfg None [])"
  by (simp add: cache_ok_def new_cache_def sums_ok_def dir_files_def)

section \<open>Spacing of failed downloads\<close>

definition attempts_in :: "runner_cache \<Rightarrow> string \<Rightarrow> attempt list" where
  "attempts_in c dir = filter (\<lambda>a. at_dir a = dir) (ca_attempts c)"

definition spaced :: "nat \<Rightarrow> attempt list \<Rightarrow> bool" where
  "spaced wait as \<longleftrightarrow> successively (\<lambda>a b. at_ok a \<or> at_end a + wait \<le> at_start b) as"

definition attempts_ok :: "runner_cache \<Rightarrow> bool" where
  "attempts_ok c \<longleftrightarrow> ca_retry_download_after c = RETRY_DOWNLOAD_AFTER \<and>
     (\<forall>dir. spaced RETRY_DOWNLOAD_AFTER (attempts_in c dir) \<and>
       (attempts_in c dir \<noteq> [] \<longrightarrow> \<not> at_ok (List.last (attempts_in c dir)) \<longrightarrow>
          ds_failed_at (download_slot c dir) = Some (at_end (List.last (attempts_in c dir)))))"

definition quiet :: "sha256_future \<Rightarrow> bool" where
  "quiet fut \<longleftrightarrow> (\<forall>c. ca_attempts (snd (fut c)) = ca_attempts c \<and> ca_downloads (snd (fut c)) = ca_downloads c \<and>
     ca_retry_download_after (snd (fut c)) = ca_retry_download_after c)"

lemma quiet_futures [simp]: "quiet (github_sha256 api v key)" "quiet (\<lambda>c. (r, c))"
  by (simp_all add: quiet_def github_sha256_attempts)

lemma fetch_copy_quiet:
  assumes "quiet fut" "fetch_copy sha http io dir name url fut c = (r, c')"
  shows "ca_attempts c' = ca_attempts c" "ca_downloads c' = ca_downloads c"
    "ca_retry_download_after c' = ca_retry_download_after c"
proof -
  obtain e c1 where f: "fut c = (e, c1)" by fastforce
  then have "ca_attempts c1 = ca_attempts c" "ca_downloads c1 = ca_downloads c"
    "ca_retry_download_after c1 = ca_retry_download_after c"
    using assms(1) by (auto simp: quiet_def dest: spec [of _ c])
  then show "ca_attempts c' = ca_attempts c" "ca_downloads c' = ca_downloads c"
    "ca_retry_download_after c' = ca_retry_download_after c"
    using assms(2) f by (auto simp: fetch_copy_def split: sum.splits prod.splits)
qed

lemma download_slot_set [simp]:
  "download_slot (set_slot dir s c) x = (if x = dir then s else download_slot c x)"
  "download_slot (log_attempt a c) x = download_slot c x"
  "ca_retry_download_after (set_slot dir s c) = ca_retry_download_after c"
  "ca_retry_download_after (log_attempt a c) = ca_retry_download_after c"
  "attempts_in (set_slot dir s c) x = attempts_in c x"
  "attempts_in (log_attempt a c) x = attempts_in c x @ (if at_dir a = x then [a] else [])"
  by (simp_all add: download_slot_def set_slot_def log_attempt_def attempts_in_def)

lemma attempts_ok_log:
  assumes ok: "attempts_ok c" and f: "\<And>f. ds_failed_at (download_slot c (at_dir a)) = Some f \<Longrightarrow> f + RETRY_DOWNLOAD_AFTER \<le> at_start a"
    and s: "\<not> at_ok a \<Longrightarrow> ds_failed_at s = Some (at_end a)"
  shows "attempts_ok (set_slot (at_dir a) s (log_attempt a c))"
proof -
  have "spaced RETRY_DOWNLOAD_AFTER (attempts_in c (at_dir a) @ [a])"
    using ok f unfolding attempts_ok_def spaced_def by (auto simp: successively_append_iff)
  then show ?thesis using ok s by (auto simp: attempts_ok_def)
qed

lemma cached_attempts_ok:
  assumes ok: "attempts_ok c" and fut: "quiet fut" and r: "cached sha http io t dir name url fut c = (r, c')"
  shows "attempts_ok c'"
proof -
  define state where "state = download_slot c dir"
  define c0 where "c0 = set_slot dir state c"
  have c0: "attempts_ok c0" using ok by (simp add: c0_def state_def attempts_ok_def)
  obtain r1 c1 where f: "fetch_copy sha http io dir name url fut c0 = (r1, c1)" by fastforce
  have c1: "attempts_ok c1" "download_slot c1 dir = state"
    using c0 fetch_copy_quiet [OF fut f] by (simp_all add: attempts_ok_def attempts_in_def download_slot_def c0_def set_slot_def)
  show ?thesis
  proof (cases "intact sha io (dir_files c dir) name \<or> recently_failed (ca_retry_download_after c) state (jt_locked t)")
    case True
    then show ?thesis using r c0 by (auto simp: cached_def Let_def c0_def state_def split: if_splits)
  next
    case False
    define a where "a = \<lparr>at_dir = dir, at_start = jt_locked t, at_end = jt_ended t, at_ok = \<not> isl r1\<rparr>"
    have late: "f + RETRY_DOWNLOAD_AFTER \<le> at_start a" if "ds_failed_at state = Some f" for f
      using False that ok by (auto simp: a_def attempts_ok_def recently_failed_def RETRY_DOWNLOAD_AFTER_def)
    have "\<exists>s. c' = set_slot (at_dir a) s (log_attempt a c1) \<and> (\<not> at_ok a \<longrightarrow> ds_failed_at s = Some (at_end a))"
      using r False f by (cases r1) (auto simp: cached_def Let_def c0_def state_def a_def)
    then obtain s where "c' = set_slot (at_dir a) s (log_attempt a c1)" "\<not> at_ok a \<longrightarrow> ds_failed_at s = Some (at_end a)"
      by blast
    moreover have "at_dir a = dir" by (simp add: a_def)
    ultimately show ?thesis using attempts_ok_log [OF c1(1), of a s] c1(2) late by simp
  qed
qed

lemma attempts_ok_same:
  assumes "ca_attempts c' = ca_attempts c" "ca_downloads c' = ca_downloads c"
    "ca_retry_download_after c' = ca_retry_download_after c" "attempts_ok c"
  shows "attempts_ok c'"
  using assms by (simp add: attempts_ok_def attempts_in_def download_slot_def)

lemma cache_do_attempts:
  assumes "attempts_ok c" "e \<noteq> Restart"
  shows "attempts_ok (snd (cache_do sha e c))"
proof (cases e)
  case (AskVersion api now saves configured)
  show ?thesis
    by (rule attempts_ok_same [OF _ _ _ assms(1)])
      (auto simp: AskVersion github_version_def Let_def github_release_req_def save_latest_def split: option.split)
next
  case (AskChecksum api version p a)
  have "snd (github_checksum api version p a c) = snd (github_sha256 api version (github_platform p a) c)"
    by (auto simp: github_checksum_def split: prod.split sum.split)
  then show ?thesis
    using attempts_ok_same [OF github_sha256_attempts assms(1)] by (simp add: AskChecksum)
next
  case (AskGithub api http io t version p a)
  obtain r c1 where g: "github_archive sha api http io t version p a c = (r, c1)" by fastforce
  then show ?thesis
    using cached_attempts_ok [OF assms(1) quiet_futures(1) g [unfolded github_archive_def Let_def]]
    by (cases r) (simp_all add: AskGithub copy_of_def)
next
  case (AskForgejo texts http io t url version os a)
  obtain r c1 where g: "forgejo_binary sha texts http io t url version os a c = (r, c1)" by fastforce
  then show ?thesis
    using cached_attempts_ok [OF assms(1) quiet_futures(2) g [unfolded forgejo_binary_def]]
    by (cases r) (simp_all add: AskForgejo copy_of_def)
next
  case (Damage dir name content)
  show ?thesis by (rule attempts_ok_same [OF _ _ _ assms(1)]) (simp_all add: Damage)
qed (use assms in simp)

lemma cache_run_attempts: "attempts_ok c \<Longrightarrow> Restart \<notin> set es \<Longrightarrow> attempts_ok (cache_run sha es c)"
  by (induction es arbitrary: c) (auto simp: cache_do_attempts)

lemma new_cache_attempts: "attempts_ok (new_cache cfg saved dirs)"
  by (simp add: attempts_ok_def new_cache_def attempts_in_def spaced_def)

section \<open>Asking for the latest version\<close>

text \<open>Jobs that ask for the latest version: what the API answers, the time, whether saving works.\<close>

type_synonym version_ask = "releases_api \<times> nat \<times> bool"

definition ask_all :: "version_ask list \<Rightarrow> runner_cache \<Rightarrow> runner_cache" where
  "ask_all asks c = fold (\<lambda>(api, now, saves) c. snd (github_version api now saves ''latest'' c)) asks c"

lemma ask_all_simps [simp]:
  "ask_all [] c = c"
  "ask_all ((api, now, saves) # asks) c = ask_all asks (snd (github_version api now saves ''latest'' c))"
  by (simp_all add: ask_all_def)

lemma trim_latest [simp]: "str_trim ''latest'' = ''latest''"
  by code_simp

text \<open>A known answer of this period is used until the period ends.\<close>

definition fresh_since :: "nat \<Rightarrow> runner_cache \<Rightarrow> bool" where
  "fresh_since t0 c \<longleftrightarrow> (\<exists>l. ca_latest c = Some l \<and> t0 \<le> lr_checked_at l)"

lemma fresh_not_asked:
  assumes "fresh_since t0 c" "t0 \<le> now" "now < t0 + ca_version_ttl c"
  shows "snd (github_version api now saves ''latest'' c) = c"
proof -
  obtain l where l: "ca_latest c = Some l" "t0 \<le> lr_checked_at l" using assms(1) by (auto simp: fresh_since_def)
  then have "latest_age now l < ca_version_ttl c" using assms(2,3) unfolding latest_age_def by linarith
  then show ?thesis using l(1) by (simp add: github_version_def fresh_latest_def)
qed

lemma fresh_ask_all:
  "fresh_since t0 c \<Longrightarrow> \<forall>(api, now, saves) \<in> set asks. t0 \<le> now \<and> now < t0 + ca_version_ttl c \<Longrightarrow> ask_all asks c = c"
  by (induction asks) (auto simp: fresh_not_asked)

text \<open>With an answer known before, one question at most: either the old one is still fresh, or it is asked for
  and the time of the question is noted even when GitHub does not answer.\<close>

lemma known_asks:
  assumes "ca_latest c \<noteq> None \<or> ca_saved_latest c \<noteq> None" "t0 \<le> now"
  shows "let c' = snd (github_version api now saves ''latest'' c) in
     ca_version_ttl c' = ca_version_ttl c \<and> ca_latest c' \<noteq> None \<and>
     (ca_asked c' = ca_asked c \<or> ca_asked c' = ca_asked c @ [''latest''] \<and> fresh_since t0 c')"
  using assms
  by (auto simp: github_version_def fresh_latest_def github_release_req_def save_latest_def load_latest_def
      latest_of_release_def fresh_since_def Let_def split: option.split)

lemma asks_at_most_once:
  "ca_latest c \<noteq> None \<or> ca_saved_latest c \<noteq> None \<Longrightarrow>
   \<forall>(api, now, saves) \<in> set asks. t0 \<le> now \<and> now < t0 + ca_version_ttl c \<Longrightarrow>
   length (ca_asked (ask_all asks c)) \<le> length (ca_asked c) + 1"
proof (induction asks arbitrary: c)
  case (Cons a asks)
  obtain api now saves where a: "a = (api, now, saves)" by (cases a)
  define c' where "c' = snd (github_version api now saves ''latest'' c)"
  have now: "t0 \<le> now" using Cons.prems(2) a by auto
  have k: "ca_version_ttl c' = ca_version_ttl c" "ca_latest c' \<noteq> None"
    "ca_asked c' = ca_asked c \<or> ca_asked c' = ca_asked c @ [''latest''] \<and> fresh_since t0 c'"
    using known_asks [OF Cons.prems(1) now, of api saves] unfolding c'_def Let_def by auto
  have rest: "\<forall>(api, now, saves) \<in> set asks. t0 \<le> now \<and> now < t0 + ca_version_ttl c'"
    using Cons.prems(2) k(1) by auto
  from k(3) show ?case
  proof
    assume "ca_asked c' = ca_asked c"
    then show ?thesis using Cons.IH [of c'] k(2) rest a by (simp add: c'_def)
  next
    assume *: "ca_asked c' = ca_asked c @ [''latest''] \<and> fresh_since t0 c'"
    then have "ask_all asks c' = c'" using rest by (intro fresh_ask_all [of t0]) simp_all
    then show ?thesis using * a by (simp add: c'_def)
  qed
qed simp

text \<open>Without one, GitHub is asked every time it does not answer.\<close>

lemma unanswered_asks:
  "ca_latest c = None \<Longrightarrow> ca_saved_latest c = None \<Longrightarrow> \<forall>(api, now, saves) \<in> set asks. api ''latest'' = None \<Longrightarrow>
   ask_all asks c = c\<lparr>ca_asked := ca_asked c @ replicate (length asks) ''latest''\<rparr>"
proof (induction asks arbitrary: c)
  case (Cons a asks)
  obtain api now saves where a: "a = (api, now, saves)" by (cases a)
  have "snd (github_version api now saves ''latest'' c) = c\<lparr>ca_asked := ca_asked c @ [''latest'']\<rparr>"
    using Cons.prems a by (simp add: github_version_def load_latest_def fresh_latest_def github_release_req_def)
  then show ?case using Cons a by simp
qed simp

section \<open>The checksums of release notes\<close>

text \<open>Release notes as GitHub writes them: a text before, and a line per archive.\<close>

definition notes_line :: "string \<Rightarrow> string \<times> string \<Rightarrow> string" where
  "notes_line version e = (case e of (p, sha) \<Rightarrow>
     ''- actions-runner-'' @ p @ ''-'' @ version @ ''.tar.gz '' @ BEGIN_SHA @ p @ '' -->'' @ sha @
     ''<!-- END SHA '' @ p @ '' -->'' @ [NEWLINE])"

definition release_notes :: "string \<Rightarrow> string \<Rightarrow> (string \<times> string) list \<Rightarrow> string" where
  "release_notes intro version es = intro @ concat (map (notes_line version) es)"

text \<open>Texts without the characters that the markers begin with, and entries of them.\<close>

definition unmarked :: "string \<Rightarrow> bool" where
  "unmarked s \<longleftrightarrow> CHR ''<'' \<notin> set s"

definition entry_ok :: "string \<times> string \<Rightarrow> bool" where
  "entry_ok e \<longleftrightarrow> unmarked (fst e) \<and> CHR '' '' \<notin> set (fst e) \<and> length (snd e) = 64 \<and> list_all ascii_hexdigit (snd e)"

definition prepend :: "string \<Rightarrow> string list \<Rightarrow> string list" where
  "prepend a ls = (case ls of [] \<Rightarrow> [a] | l # ls \<Rightarrow> (a @ l) # ls)"

lemma prepend_simps [simp]:
  "prepend a [] = [a]" "prepend a (l # ls) = (a @ l) # ls" "tl (prepend a ls) = tl ls"
  by (simp_all add: prepend_def split: list.split)

lemma split_str_plain: "unmarked a \<Longrightarrow> split_str BEGIN_SHA (a @ s) = prepend a (split_str BEGIN_SHA s)"
proof (induction a)
  case Nil
  then show ?case by (cases s) (auto simp: prepend_def split: list.split)
next
  case (Cons c a)
  then have "\<not> is_prefix_of BEGIN_SHA (c # a @ s)" by (auto simp: unmarked_def BEGIN_SHA_def)
  then show ?case using Cons by (auto simp: unmarked_def prepend_def split: list.split)
qed

lemma split_str_begin: "split_str BEGIN_SHA (BEGIN_SHA @ s) = [] # split_str BEGIN_SHA s"
proof -
  obtain c b where B: "BEGIN_SHA = c # b" by (simp add: BEGIN_SHA_def)
  have "c # b @ s = BEGIN_SHA @ s" by (simp add: B)
  then have "is_prefix_of BEGIN_SHA (c # b @ s)" "drop (length BEGIN_SHA) (c # b @ s) = s"
    by (simp_all only: is_prefix_of_append append_eq_conv_conj [THEN iffD1, THEN conjunct2]) simp
  moreover have "BEGIN_SHA \<noteq> []" by (simp add: B)
  ultimately have "split_str BEGIN_SHA (c # b @ s) = [] # split_str BEGIN_SHA s"
    by (subst split_str.simps(2)) simp
  then show ?thesis by (simp add: B)
qed

lemma split_str_end: "split_str BEGIN_SHA (''<!-- END SHA '' @ s) = prepend ''<!-- END SHA '' (split_str BEGIN_SHA s)"
proof -
  have "\<not> is_prefix_of BEGIN_SHA (''<!-- END SHA '' @ s)" by (simp add: BEGIN_SHA_def)
  moreover have "split_str BEGIN_SHA (''!-- END SHA '' @ s) = prepend ''!-- END SHA '' (split_str BEGIN_SHA s)"
    by (rule split_str_plain) (simp add: unmarked_def)
  ultimately show ?thesis by (simp add: prepend_def split: list.split)
qed

lemma hexdigits_unmarked: "list_all ascii_hexdigit s \<Longrightarrow> unmarked s"
  by (auto simp: unmarked_def list_all_iff ascii_hexdigit_def)

lemma split_once_str_plain: "CHR '' '' \<notin> set p \<Longrightarrow> split_once_str '' -->'' (p @ '' -->'' @ s) = Some (p, s)"
  by (induction p) auto

lemma checksum_entry_line:
  assumes "entry_ok (p, sha)"
  shows "checksum_entry (p @ '' -->'' @ sha @ ''<!-- END SHA '' @ rest) = Some (p, to_lowercase sha)"
proof -
  have "str_get_to 64 (sha @ ''<!-- END SHA '' @ rest) = Some sha"
    using assms by (simp add: str_get_to_def entry_ok_def nth_append)
  then show ?thesis
    using assms split_once_str_plain [of p "sha @ ''<!-- END SHA '' @ rest"] by (simp add: checksum_entry_def entry_ok_def)
qed

lemma split_line:
  assumes "entry_ok (p, sha)" "unmarked version"
  shows "\<exists>rest. tl (split_str BEGIN_SHA (notes_line version (p, sha) @ s)) =
     (p @ '' -->'' @ sha @ ''<!-- END SHA '' @ rest) # tl (split_str BEGIN_SHA s)"
proof -
  have u: "unmarked p" "unmarked sha" using assms hexdigits_unmarked by (auto simp: entry_ok_def)
  have "split_str BEGIN_SHA (notes_line version (p, sha) @ s) =
      prepend (''- actions-runner-'' @ p @ ''-'' @ version @ ''.tar.gz '')
        ([] # prepend (p @ '' -->'' @ sha) (prepend ''<!-- END SHA '' (prepend (p @ '' -->'' @ [NEWLINE]) (split_str BEGIN_SHA s))))"
  proof -
    have 1: "unmarked (''- actions-runner-'' @ p @ ''-'' @ version @ ''.tar.gz '')" "unmarked (p @ '' -->'' @ sha)"
        "unmarked (p @ '' -->'' @ [NEWLINE])"
      using u assms(2) by (simp_all add: unmarked_def)
    have "notes_line version (p, sha) @ s = (''- actions-runner-'' @ p @ ''-'' @ version @ ''.tar.gz '') @ BEGIN_SHA @
        (p @ '' -->'' @ sha) @ ''<!-- END SHA '' @ (p @ '' -->'' @ [NEWLINE]) @ s"
      by (simp add: notes_line_def)
    then show ?thesis by (simp only: split_str_plain [OF 1(1)] split_str_begin split_str_plain [OF 1(2)] split_str_end split_str_plain [OF 1(3)])
  qed
  then show ?thesis by (cases "split_str BEGIN_SHA s") auto
qed

lemma checksum_entries:
  "list_all entry_ok es \<Longrightarrow> unmarked version \<Longrightarrow>
   List.map_filter checksum_entry (tl (split_str BEGIN_SHA (concat (map (notes_line version) es)))) =
     map (\<lambda>(p, sha). (p, to_lowercase sha)) es"
proof (induction es)
  case Nil
  then show ?case by (simp add: List.map_filter_simps)
next
  case (Cons e es)
  obtain p sha where e: "e = (p, sha)" by (cases e)
  have ok: "entry_ok (p, sha)" "unmarked version" using Cons.prems e by simp_all
  from split_line [OF ok] obtain rest
    where "tl (split_str BEGIN_SHA (notes_line version (p, sha) @ concat (map (notes_line version) es))) =
      (p @ '' -->'' @ sha @ ''<!-- END SHA '' @ rest) # tl (split_str BEGIN_SHA (concat (map (notes_line version) es)))"
    by blast
  then show ?case
    using Cons checksum_entry_line [of p sha rest] e by (simp add: List.map_filter_simps)
qed

lemma fold_insert_distinct:
  "distinct (map fst es) \<Longrightarrow>
   hm_get (fold (\<lambda>(k, v) m. hm_insert k v m) es m) = hm_get m ++ map_of es"
  by (induction es arbitrary: m) (auto simp: fun_eq_iff map_add_def map_of_eq_None_iff image_iff split: option.split)

lemma checksums_of_notes:
  assumes "list_all entry_ok es" "distinct (map fst es)" "unmarked intro" "unmarked version"
  shows "hm_get (checksums (release_notes intro version es)) p = map_option to_lowercase (map_of es p)"
proof -
  have "tl (split_str BEGIN_SHA (release_notes intro version es)) =
      tl (split_str BEGIN_SHA (concat (map (notes_line version) es)))"
    using assms(3) by (simp add: release_notes_def split_str_plain)
  then have "hm_get (checksums (release_notes intro version es)) = map_of (map (\<lambda>(p, sha). (p, to_lowercase sha)) es)"
    using assms fold_insert_distinct [of "map (\<lambda>(p, sha). (p, to_lowercase sha)) es" "[]"]
    by (simp add: checksums_def checksum_entries comp_def case_prod_beta)
  then show ?thesis by (simp add: map_of_map)
qed

section \<open>Properties\<close>

text \<open>C27: Whatever the servers answer, downloads break off, writes are torn, copies are damaged and the agent
  restarts: a copy that the cache hands out is a file with the checksum that was published for it.\<close>

theorem copies_are_published:
  assumes "\<And>s. length (sha s) = 64" "list_all (honest_event pub) (es @ [e])"
    "cache_do sha e (cache_run sha es (new_cache cfg None [])) = (Some copy, c)"
  shows "\<exists>content. hm_get (dir_files c (cp_dir copy)) (cp_name copy) = Some content \<and>
     sha content = pub (cp_dir copy) (cp_name copy)"
proof -
  have "cache_ok pub (cache_run sha es (new_cache cfg None []))"
    using cache_run_ok [OF assms(1) new_cache_ok] assms(2) by simp
  from cache_do_ok [OF this _ assms(1) assms(3)] show ?thesis using assms(2) by simp
qed

definition sample_hash :: string where "sample_hash = replicate 64 (CHR ''a'')"

lemma sample_hash_length [simp]: "length sample_hash = 64"
  by (simp add: sample_hash_def)

definition sample_get :: http_get where
  "sample_get url = Some \<lparr>hb_chunks = [''bin'', ''ary''], hb_complete = True\<rparr>"

definition sample_event :: cache_event where
  "sample_event = AskForgejo (\<lambda>_. Some sample_hash) sample_get \<lparr>df_reads = True, df_budget = 20, df_torn = None\<rparr>
     \<lparr>jt_queued = 1, jt_locked = 1, jt_ended = 2\<rparr> ''u'' ''13.2.0'' OsLinux X64"

definition torn_event :: cache_event where
  "torn_event = AskForgejo (\<lambda>_. Some sample_hash) sample_get \<lparr>df_reads = True, df_budget = 5, df_torn = Some 7\<rparr>
     \<lparr>jt_queued = 1, jt_locked = 1, jt_ended = 2\<rparr> ''u'' ''13.2.0'' OsLinux X64"

lemma sample_sha256_file: "sha256_file (\<lambda>_. Some sample_hash) ''u'' = Inr sample_hash"
  by code_simp

lemma sample_honest: "honest_event (\<lambda>_ _. sample_hash) sample_event" "honest_event (\<lambda>_ _. sample_hash) torn_event"
  by (simp_all add: sample_event_def torn_event_def sample_sha256_file)

definition sample_copy :: cached_copy where
  "sample_copy = \<lparr>cp_dir = ''forgejo/linux-amd64'', cp_name = ''forgejo-runner-13.2.0-linux-amd64'', cp_source = Filled\<rparr>"

lemma sample_cache_run:
  "fst (cache_do (\<lambda>_. sample_hash) sample_event
     (cache_run (\<lambda>_. sample_hash) [torn_event, Restart] (new_cache default_cache_config None []))) = Some sample_copy"
  by code_simp

theorem copies_are_published_witness:
  "\<exists>content. hm_get (dir_files (snd (cache_do (\<lambda>_. sample_hash) sample_event
       (cache_run (\<lambda>_. sample_hash) [torn_event, Restart] (new_cache default_cache_config None [])))) (cp_dir sample_copy))
     (cp_name sample_copy) = Some content"
  using copies_are_published [of "\<lambda>_. sample_hash" "\<lambda>_ _. sample_hash" "[torn_event, Restart]" sample_event
      default_cache_config sample_copy, OF _ _ prod_eqI] sample_honest sample_cache_run
  by simp

text \<open>After a download that worked, the directory of the platform holds the copy, which has the expected
  checksum, its checksum file, and nothing else.\<close>

theorem download_leaves_one_copy:
  assumes "download sha http io url expected (archive_name v p a) d = (Inr (), d')"
  shows "\<exists>body. http url = Some body \<and> sha (concat (hb_chunks body)) = expected \<and>
     map_of d' = [archive_name v p a \<mapsto> concat (hb_chunks body), checksum_path (archive_name v p a) \<mapsto> expected]"
  by (rule download_result [OF assms copy_names(1)])

lemma sample_download:
  "download (\<lambda>_. sample_hash) sample_get \<lparr>df_reads = True, df_budget = 20, df_torn = None\<rparr> ''u'' sample_hash
     (archive_name ''2.321.0'' Linux X64) [(''old.tar.gz'', ''x'')] =
   (Inr (), snd (download (\<lambda>_. sample_hash) sample_get \<lparr>df_reads = True, df_budget = 20, df_torn = None\<rparr> ''u'' sample_hash
     (archive_name ''2.321.0'' Linux X64) [(''old.tar.gz'', ''x'')]))"
  by code_simp

theorem download_leaves_one_copy_witness:
  "hm_get (snd (download (\<lambda>_. sample_hash) sample_get \<lparr>df_reads = True, df_budget = 20, df_torn = None\<rparr> ''u'' sample_hash
     (archive_name ''2.321.0'' Linux X64) [(''old.tar.gz'', ''x'')])) ''old.tar.gz'' = None"
  using download_leaves_one_copy [OF sample_download] by (auto simp: archive_name_def checksum_path_def)

text \<open>In one directory, a download that failed is followed by the next attempt after five minutes at the
  earliest, however jobs ask for copies while the agent runs.\<close>

theorem failed_downloads_are_spaced:
  assumes "Restart \<notin> set es"
  shows "spaced 300 (attempts_in (cache_run sha es (new_cache cfg saved dirs)) dir)"
proof -
  have "attempts_ok (cache_run sha es (new_cache cfg saved dirs))"
    using cache_run_attempts [OF new_cache_attempts assms] .
  then show ?thesis by (simp add: attempts_ok_def RETRY_DOWNLOAD_AFTER_def)
qed

theorem failed_downloads_are_spaced_witness:
  "spaced 300 (attempts_in (cache_run (\<lambda>_. sample_hash) [torn_event, sample_event] (new_cache default_cache_config None []))
     ''forgejo/linux-amd64'')"
  by (rule failed_downloads_are_spaced) (simp add: torn_event_def sample_event_def)

text \<open>Once a version is known, jobs that ask for the latest one within the time it may be used make one
  request at most, whatever GitHub answers.\<close>

theorem latest_asked_once_per_ttl:
  assumes "ca_latest c \<noteq> None \<or> ca_saved_latest c \<noteq> None"
    "\<forall>(api, now, saves) \<in> set asks. t0 \<le> now \<and> now < t0 + ca_version_ttl c"
  shows "length (ca_asked (ask_all asks c)) \<le> length (ca_asked c) + 1"
  by (rule asks_at_most_once [OF assms])

theorem latest_asked_once_per_ttl_witness:
  "length (ca_asked (ask_all [(\<lambda>_. None, 5000, True), (\<lambda>_. None, 5001, True)]
     (new_cache default_cache_config (Some \<lparr>lr_version = ''2.338.2'', lr_sha256 = [], lr_checked_at = 0\<rparr>) []))) \<le> 1"
  using latest_asked_once_per_ttl [of "new_cache default_cache_config (Some \<lparr>lr_version = ''2.338.2'', lr_sha256 = [], lr_checked_at = 0\<rparr>) []"
      "[(\<lambda>_. None, 5000, True), (\<lambda>_. None, 5001, True)]" 5000]
  by (simp add: new_cache_def default_cache_config_def)

text \<open>While no version is known, every job that asks for the latest one makes a request, as long as GitHub
  does not answer; its failure is not remembered.\<close>

theorem unanswered_latest_asked_each_time:
  assumes "\<forall>(api, now, saves) \<in> set asks. api ''latest'' = None"
  shows "ca_asked (ask_all asks (new_cache cfg None dirs)) = replicate (length asks) ''latest''"
  using unanswered_asks [of "new_cache cfg None dirs" asks] assms by (simp add: new_cache_def)

theorem unanswered_latest_asked_each_time_witness:
  "ca_asked (ask_all [(\<lambda>_. None, 5, True), (\<lambda>_. None, 6, True)] (new_cache default_cache_config None [])) = [''latest'', ''latest'']"
  using unanswered_latest_asked_each_time [of "[(\<lambda>_. None, 5, True), (\<lambda>_. None, 6, True)]" default_cache_config "[]"] by simp

text \<open>The checksums read from release notes are the ones written there, by platform, in lower case.\<close>

theorem notes_checksums_read_back:
  assumes "list_all entry_ok es" "distinct (map fst es)" "unmarked intro" "unmarked version"
  shows "hm_get (checksums (release_notes intro version es)) p = map_option to_lowercase (map_of es p)"
  by (rule checksums_of_notes [OF assms])

lemma lower_A: "ascii_lower (CHR ''A'') = CHR ''a''" by code_simp

theorem notes_checksums_read_back_witness:
  "hm_get (checksums (release_notes ''## What's new'' ''2.338.2'' [(''linux-x64'', replicate 64 (CHR ''A'')), (''osx-arm64'', replicate 64 (CHR ''0''))])) ''linux-x64''
     = Some (replicate 64 (CHR ''a''))"
  using notes_checksums_read_back [of "[(''linux-x64'', replicate 64 (CHR ''A'')), (''osx-arm64'', replicate 64 (CHR ''0''))]"
      "''## What's new''" "''2.338.2''" "''linux-x64''"]
  by (simp add: entry_ok_def unmarked_def ascii_hexdigit_def to_lowercase_def list_all_iff lower_A)

end
