(* ===== verification/Config.thy ===== *)
theory Config
  imports Webhook
begin

text \<open>
  \<^verbatim>\<open>kuiper-forge/src/config.rs\<close>: the forges a configuration names, the scopes of a Forgejo forge, the
  API paths of a scope, credentials and defaults. The text of the file and of the environment is parsed by
  figment and serde; environment variables, files and the scheme of a URL are arguments.
\<close>

section \<open>Scopes\<close>

datatype config_error =
    BothSections | NoForgeConfigured | InvalidForgeName string | DuplicateForge string
  | InvalidUrl string string | NotHttp string string | InvalidScopes string config_error
  | NoScopes | InvalidScope string | NeedsRunnerScope | NotForgeScope | ForgejoNeedsPolling string
  | NoToken | TokenEnvUnset string | TokenUnreadable string | TokenEmpty
  | NoPrivateKey | KeyUnreadable string

definition starts_at :: "string \<Rightarrow> bool" where
  "starts_at s \<longleftrightarrow> s \<noteq> [] \<and> hd s = CHR ''@''"

definition parse_scope :: "string \<Rightarrow> config_error + runner_scope" where
  "parse_scope scope = (case split_on (CHR ''/'') scope of
     [u] \<Rightarrow>
       if u = ''*'' then Inr Instance
       else if length u > 1 \<and> starts_at u then Inr (User (tl u))
       else if u \<noteq> [] \<and> \<not> starts_at u then Inr (Organization u)
       else Inl (InvalidScope scope)
   | [own, repo] \<Rightarrow>
       if own \<noteq> [] \<and> repo \<noteq> [] \<and> \<not> starts_at own \<and> own \<noteq> ''*'' then Inr (Repository own repo)
       else Inl (InvalidScope scope)
   | _ \<Rightarrow> Inl (InvalidScope scope))"

text \<open>\<^verbatim>\<open>collect\<close> into a \<^verbatim>\<open>Result\<close>: the first error, or all values.\<close>

fun collect_results :: "('e + 'a) list \<Rightarrow> 'e + 'a list" where
  "collect_results [] = Inr []"
| "collect_results (Inl e # rs) = Inl e"
| "collect_results (Inr a # rs) = (case collect_results rs of Inl e \<Rightarrow> Inl e | Inr as \<Rightarrow> Inr (a # as))"

record forgejo_config =
  fc_url :: string
  fc_token :: "string option"
  fc_token_path :: "string option"
  fc_token_env :: "string option"
  fc_scopes :: "string list"

definition runner_scopes :: "forgejo_config \<Rightarrow> config_error + runner_scope list" where
  "runner_scopes c = (if fc_scopes c = [] then Inl NoScopes else collect_results (map parse_scope (fc_scopes c)))"

fun jitconfig_path :: "runner_scope \<Rightarrow> string" where
  "jitconfig_path (Organization name) = ''/orgs/'' @ name @ ''/actions/runners/generate-jitconfig''"
| "jitconfig_path (Repository own repo) = ''/repos/'' @ own @ ''/'' @ repo @ ''/actions/runners/generate-jitconfig''"
| "jitconfig_path _ = []"

fun registration_token_path :: "runner_scope \<Rightarrow> string" where
  "registration_token_path (Organization name) = ''/orgs/'' @ name @ ''/actions/runners/registration-token''"
| "registration_token_path (Repository own repo) = ''/repos/'' @ own @ ''/'' @ repo @ ''/actions/runners/registration-token''"
| "registration_token_path _ = []"

fun runners_list_path :: "runner_scope \<Rightarrow> string" where
  "runners_list_path (Organization name) = ''/orgs/'' @ name @ ''/actions/runners''"
| "runners_list_path (Repository own repo) = ''/repos/'' @ own @ ''/'' @ repo @ ''/actions/runners''"
| "runners_list_path _ = []"

fun runner_delete_path :: "runner_scope \<Rightarrow> nat \<Rightarrow> string" where
  "runner_delete_path (Organization name) i = ''/orgs/'' @ name @ ''/actions/runners/'' @ nat_to_string i"
| "runner_delete_path (Repository own repo) i = ''/repos/'' @ own @ ''/'' @ repo @ ''/actions/runners/'' @ nat_to_string i"
| "runner_delete_path _ i = []"

section \<open>Credentials\<close>

record secrets =
  se_env :: "string \<Rightarrow> string option"
  se_file :: "string \<Rightarrow> string option"

definition token_content :: "secrets \<Rightarrow> forgejo_config \<Rightarrow> config_error + string" where
  "token_content s c =
     (let token = (case fc_token_env c of
          Some var \<Rightarrow> (case se_env s var of None \<Rightarrow> Inl (TokenEnvUnset var) | Some t \<Rightarrow> Inr t)
        | None \<Rightarrow> (case fc_token_path c of
            Some path \<Rightarrow> (case se_file s path of None \<Rightarrow> Inl (TokenUnreadable path) | Some t \<Rightarrow> Inr t)
          | None \<Rightarrow> (case fc_token c of Some t \<Rightarrow> Inr t | None \<Rightarrow> Inl NoToken))) in
     case token of Inl e \<Rightarrow> Inl e
     | Inr t \<Rightarrow> (let t = str_trim t in if t = [] then Inl TokenEmpty else Inr t))"

record github_config =
  gc_app_id :: nat
  gc_private_key_path :: "string option"
  gc_private_key :: "string option"

definition private_key_content :: "secrets \<Rightarrow> github_config \<Rightarrow> config_error + string" where
  "private_key_content s c = (case gc_private_key c of
     Some key \<Rightarrow> Inr (replace_str [CHR 0x5C, CHR ''n''] [CHR 0x0A] key)
   | None \<Rightarrow> (case gc_private_key_path c of
       Some path \<Rightarrow> (case se_file s path of None \<Rightarrow> Inl (KeyUnreadable path) | Some k \<Rightarrow> Inr k)
     | None \<Rightarrow> Inl NoPrivateKey))"

section \<open>The configured forges\<close>

datatype forge_kind_config = GithubForge github_config | ForgejoForge forgejo_config

record forge_config =
  fg_name :: string
  fg_kind :: forge_kind_config

record forge_settings =
  fs_github :: "github_config option"
  fs_forges :: "forge_config list"
  fs_mode :: provisioning_mode
  fs_runner_scope :: "runner_scope option"

definition listed_forges :: "forge_settings \<Rightarrow> config_error + forge_config list" where
  "listed_forges c = (case (fs_github c, fs_forges c = []) of
     (Some _, False) \<Rightarrow> Inl BothSections
   | (Some github, True) \<Rightarrow> Inr [\<lparr>fg_name = LEGACY_GITHUB_FORGE, fg_kind = GithubForge github\<rparr>]
   | (None, False) \<Rightarrow> Inr (fs_forges c)
   | (None, True) \<Rightarrow> Inl NoForgeConfigured)"

text \<open>The check of one forge, after those before it; the scheme of a URL is \<^term>\<open>None\<close> when it does not parse.\<close>

definition check_forge ::
  "(string \<Rightarrow> string option) \<Rightarrow> forge_config list \<Rightarrow> forge_config \<Rightarrow> config_error option" where
  "check_forge scheme before f =
     (if fg_name f = [] \<or> CHR '':'' \<in> set (fg_name f) then Some (InvalidForgeName (fg_name f))
      else if list_ex (\<lambda>g. fg_name g = fg_name f) before then Some (DuplicateForge (fg_name f))
      else (case fg_kind f of
        GithubForge _ \<Rightarrow> None
      | ForgejoForge c \<Rightarrow>
          (case scheme (fc_url c) of
             None \<Rightarrow> Some (InvalidUrl (fc_url c) (fg_name f))
           | Some s \<Rightarrow>
               if s \<noteq> ''http'' \<and> s \<noteq> ''https'' then Some (NotHttp (fc_url c) (fg_name f))
               else (case runner_scopes c of Inl e \<Rightarrow> Some (InvalidScopes (fg_name f) e) | Inr _ \<Rightarrow> None))))"

fun check_forges ::
  "(string \<Rightarrow> string option) \<Rightarrow> forge_config list \<Rightarrow> forge_config list \<Rightarrow> config_error option" where
  "check_forges scheme before [] = None"
| "check_forges scheme before (f # fs) = (case check_forge scheme before f of
     Some e \<Rightarrow> Some e | None \<Rightarrow> check_forges scheme (before @ [f]) fs)"

definition check_fixed :: "forge_settings \<Rightarrow> forge_config list \<Rightarrow> config_error option" where
  "check_fixed c forges =
     (if fs_mode c = FixedCapacity then
        (case fs_runner_scope c of
           None \<Rightarrow> Some NeedsRunnerScope
         | Some scope \<Rightarrow>
             if \<not> is_github_scope scope then Some NotForgeScope
             else (case fg_kind (hd forges) of
               ForgejoForge _ \<Rightarrow> Some (ForgejoNeedsPolling (fg_name (hd forges))) | GithubForge _ \<Rightarrow> None))
      else None)"

definition resolved_forges :: "(string \<Rightarrow> string option) \<Rightarrow> forge_settings \<Rightarrow> config_error + forge_config list" where
  "resolved_forges scheme c = (case listed_forges c of
     Inl e \<Rightarrow> Inl e
   | Inr forges \<Rightarrow>
       (case check_forges scheme [] forges of
          Some e \<Rightarrow> Inl e
        | None \<Rightarrow> (case check_fixed c forges of Some e \<Rightarrow> Inl e | None \<Rightarrow> Inr forges)))"

section \<open>Other settings\<close>

record admin_config =
  ac_enabled :: bool
  ac_session_timeout_secs :: nat
  ac_coordinator_url :: string
  ac_update_check :: bool

definition default_admin_config :: admin_config where
  "default_admin_config = \<lparr>ac_enabled = False, ac_session_timeout_secs = 3600,
     ac_coordinator_url = ''https://localhost:9443'', ac_update_check = True\<rparr>"

definition update_check_enabled :: "secrets \<Rightarrow> admin_config \<Rightarrow> bool" where
  "update_check_enabled s c = (case se_env s ''KUIPER_UPDATE_CHECK'' of
     Some v \<Rightarrow> map ascii_lower (str_trim v) \<notin> {''0'', ''false'', ''no'', ''off''}
   | None \<Rightarrow> ac_update_check c)"

definition default_retention_days :: nat where "default_retention_days = 90"

definition metrics_retention :: "nat \<Rightarrow> int" where
  "metrics_retention days = int days * 24 * 60 * 60 * 1000"

definition MIN_POLL_INTERVAL_SECS :: nat where "MIN_POLL_INTERVAL_SECS = 10"

definition poll_interval :: "nat \<Rightarrow> nat" where
  "poll_interval interval_secs = max interval_secs MIN_POLL_INTERVAL_SECS"

section \<open>Lemmas\<close>

text \<open>The text of a scope in the configuration, and the scopes that have one.\<close>

fun scope_text :: "runner_scope \<Rightarrow> string" where
  "scope_text Instance = ''*''"
| "scope_text (User name) = CHR ''@'' # name"
| "scope_text (Organization name) = name"
| "scope_text (Repository own repo) = own @ ''/'' @ repo"

definition segment :: "string \<Rightarrow> bool" where
  "segment s \<longleftrightarrow> s \<noteq> [] \<and> CHR ''/'' \<notin> set s"

fun scope_wf :: "runner_scope \<Rightarrow> bool" where
  "scope_wf Instance \<longleftrightarrow> True"
| "scope_wf (User name) \<longleftrightarrow> segment name"
| "scope_wf (Organization name) \<longleftrightarrow> segment name \<and> \<not> starts_at name \<and> name \<noteq> ''*''"
| "scope_wf (Repository own repo) \<longleftrightarrow> segment own \<and> segment repo \<and> \<not> starts_at own \<and> own \<noteq> ''*''"

lemma split_on_segments: "\<forall>l \<in> set (split_on c s). c \<notin> set l"
  by (induction s) (auto split: list.splits)

lemma join_split_on: "join [c] (split_on c s) = s"
proof (induction s)
  case (Cons x s)
  show ?case
  proof (cases "split_on c s")
    case Nil
    then show ?thesis using Cons by (cases s) (auto split: list.splits if_splits)
  next
    case ls: (Cons l ls)
    show ?thesis using Cons ls by (cases ls) auto
  qed
qed simp

lemma parse_scope_iff: "parse_scope s = Inr x \<longleftrightarrow> scope_wf x \<and> s = scope_text x"
proof
  assume p: "parse_scope s = Inr x"
  have seg: "\<forall>l \<in> set (split_on (CHR ''/'') s). CHR ''/'' \<notin> set l" by (rule split_on_segments)
  have join: "join [CHR ''/''] (split_on (CHR ''/'') s) = s" by (rule join_split_on)
  show "scope_wf x \<and> s = scope_text x"
  proof (cases "split_on (CHR ''/'') s")
    case Nil
    then show ?thesis using p by (simp add: parse_scope_def)
  next
    case (Cons u rest)
    show ?thesis
    proof (cases rest)
      case Nil
      then show ?thesis using p seg join Cons
        by (cases u) (auto simp: parse_scope_def segment_def starts_at_def split: if_splits)
    next
      case rest: (Cons v rest')
      then show ?thesis using p seg join Cons
        by (cases rest') (auto simp: parse_scope_def segment_def split: if_splits)
    qed
  qed
next
  assume "scope_wf x \<and> s = scope_text x"
  then show "parse_scope s = Inr x"
    by (cases x) (auto simp: parse_scope_def segment_def starts_at_def split_on_line split_on_last)
qed

lemma collect_results_map: "collect_results (map Inr as) = Inr as"
  by (induction as) simp_all

lemma collect_results_Inr: "collect_results rs = Inr as \<longleftrightarrow> rs = map Inr as"
proof
  show "collect_results rs = Inr as \<Longrightarrow> rs = map Inr as"
    by (induction rs arbitrary: as rule: collect_results.induct) (auto split: sum.splits)
qed (simp add: collect_results_map)

lemma runner_scopes_Inr:
  "runner_scopes c = Inr ss \<longleftrightarrow> ss \<noteq> [] \<and> list_all scope_wf ss \<and> fc_scopes c = map scope_text ss"
proof -
  have "map parse_scope (fc_scopes c) = map Inr ss \<longleftrightarrow> list_all scope_wf ss \<and> fc_scopes c = map scope_text ss"
  proof -
    have "map parse_scope ts = map Inr xs \<longleftrightarrow> list_all scope_wf xs \<and> ts = map scope_text xs" for ts xs
      by (induction xs arbitrary: ts) (auto simp: Cons_eq_map_conv parse_scope_iff list_all_iff)
    then show ?thesis by blast
  qed
  then show ?thesis by (auto simp: runner_scopes_def collect_results_Inr)
qed

lemma check_forges_None:
  "check_forges scheme before fs = None \<longleftrightarrow>
   (\<forall>f \<in> set fs. check_forge scheme [] f = None) \<and> distinct (map fg_name fs) \<and>
   (fg_name ` set before) \<inter> (fg_name ` set fs) = {}"
proof (induction fs arbitrary: before)
  case (Cons f fs)
  have "list_ex (\<lambda>g. fg_name g = fg_name f) before \<longleftrightarrow> fg_name f \<in> fg_name ` set before"
    unfolding list_ex_iff image_iff by metis
  then have "check_forge scheme before f = None \<longleftrightarrow> check_forge scheme [] f = None \<and> fg_name f \<notin> fg_name ` set before"
    by (simp add: check_forge_def)
  then show ?case using Cons by (auto split: option.split)
qed simp

lemma check_forge_None:
  "check_forge scheme [] f = None \<Longrightarrow> fg_name f \<noteq> [] \<and> CHR '':'' \<notin> set (fg_name f)"
  by (simp add: check_forge_def split: if_splits)

lemma resolved_forges_ok:
  assumes "resolved_forges scheme c = Inr fs"
  shows "fs \<noteq> []" "distinct (map fg_name fs)" "\<forall>f \<in> set fs. check_forge scheme [] f = None"
    "fs_mode c = FixedCapacity \<Longrightarrow> (\<exists>s g. fs_runner_scope c = Some s \<and> is_github_scope s \<and> fg_kind (hd fs) = GithubForge g)"
proof -
  have l: "listed_forges c = Inr fs" and k: "check_forges scheme [] fs = None" and x: "check_fixed c fs = None"
    using assms by (auto simp: resolved_forges_def split: sum.splits option.splits)
  show "fs \<noteq> []" using l by (auto simp: listed_forges_def split: option.splits bool.splits)
  show "distinct (map fg_name fs)" "\<forall>f \<in> set fs. check_forge scheme [] f = None"
    using k by (simp_all add: check_forges_None)
  show "fs_mode c = FixedCapacity \<Longrightarrow> (\<exists>s g. fs_runner_scope c = Some s \<and> is_github_scope s \<and> fg_kind (hd fs) = GithubForge g)"
    using x by (auto simp: check_fixed_def split: option.splits if_splits forge_kind_config.splits)
qed

section \<open>Properties\<close>

text \<open>The text of a scope in the configuration and the scope determine each other: a text is accepted
  exactly when it is the text of a scope with proper names, and gives that scope.\<close>

theorem scope_text_parses:
  "parse_scope s = Inr x \<longleftrightarrow> scope_wf x \<and> s = scope_text x"
  by (rule parse_scope_iff)

text \<open>C31: The forges of an accepted configuration make a registry in which every job of every forge has a key
  that survives being stored as text and finds the forge again.\<close>

theorem configured_job_keys_find_forge:
  assumes "resolved_forges scheme c = Inr fs" "f \<in> set fs" "job_id \<noteq> []"
  shows "\<exists>r k. registry_new (map (\<lambda>f. (fg_name f, f)) fs) = Inr r \<and>
     parse_key (key_to_string (JobKey (fg_name f) job_id)) = Inr k \<and> for_job r k = Inr f"
proof -
  note ok = resolved_forges_ok [OF assms(1)]
  let ?r = "map (\<lambda>f. (fg_name f, f)) fs"
  have "registry_new ?r = Inr ?r" using ok(1,2) by (simp add: registry_new_ok_iff comp_def)
  moreover have "fg_name f \<noteq> []" "CHR '':'' \<notin> set (fg_name f)"
    using ok(3) assms(2) check_forge_None by blast+
  then have "parse_key (key_to_string (JobKey (fg_name f) job_id)) = Inr (JobKey (fg_name f) job_id)"
    using assms(3) by (simp add: parse_key_to_string)
  moreover have "for_job ?r (JobKey (fg_name f) job_id) = Inr f"
    using ok(2) assms(2) by (simp add: for_job_Inr_iff map_of_eq_Some_iff comp_def)
  ultimately show ?thesis by blast
qed

definition sample_settings :: forge_settings where
  "sample_settings = \<lparr>fs_github = None, fs_forges =
     [\<lparr>fg_name = ''gh'', fg_kind = GithubForge \<lparr>gc_app_id = 1, gc_private_key_path = None, gc_private_key = None\<rparr>\<rparr>,
      \<lparr>fg_name = ''fj'', fg_kind = ForgejoForge \<lparr>fc_url = ''https://git'', fc_token = None, fc_token_path = None,
         fc_token_env = None, fc_scopes = [''org'', ''@me'', ''o/r'']\<rparr>\<rparr>],
     fs_mode = Polling, fs_runner_scope = None\<rparr>"

lemma sample_settings_resolved: "resolved_forges (\<lambda>_. Some ''https'') sample_settings = Inr (fs_forges sample_settings)"
  by code_simp

theorem configured_job_keys_find_forge_witness:
  "\<exists>r k. registry_new (map (\<lambda>f. (fg_name f, f)) (fs_forges sample_settings)) = Inr r \<and>
     parse_key (key_to_string (JobKey ''fj'' ''42'')) = Inr k \<and> for_job r k = Inr (fs_forges sample_settings ! 1)"
  using configured_job_keys_find_forge [OF sample_settings_resolved, of "fs_forges sample_settings ! 1" "''42''"]
  by (simp add: sample_settings_def)

end
