(* ===== verification/Forgejo_Client.thy ===== *)
theory Forgejo_Client
  imports Config Store
begin

text \<open>
  \<^verbatim>\<open>kuiper-forge/src/forgejo.rs\<close>: the client of one Forgejo instance. What the instance answers to the
  \<open>n\<close>-th request is an argument, with a body of the type that was asked for or none that parses; the client's
  state is its cache of repository names and the requests it has sent.
\<close>

section \<open>The API\<close>

datatype http_method = GET | POST | DELETE

record api_job =
  aj_id :: int
  aj_handle :: string
  aj_repo_id :: int
  aj_runs_on :: "string list"
  aj_status :: string

record api_runner =
  ap_id :: int
  ap_name :: string

text \<open>Bodies that parse: a list of jobs or runners may be \<^verbatim>\<open>null\<close>.\<close>

datatype forgejo_body = JobsBody "api_job list option" | RunnersBody "api_runner list option"
  | RepositoryBody string | UserBody string | RegisteredBody int string string | OtherBody

record forgejo_response =
  rp_status :: nat
  rp_body :: forgejo_body

definition is_success :: "nat \<Rightarrow> bool" where
  "is_success status \<longleftrightarrow> 200 \<le> status \<and> status < 300"

type_synonym forgejo_http = "nat \<Rightarrow> http_method \<Rightarrow> string \<Rightarrow> forgejo_response option"

datatype forgejo_error = RequestFailed string | ApiError string nat | BadResponse string
  | NotTokensUser string string | InvalidRepository string | NoScopeListed nat | OneJobRunnersOnly | BadConfig config_error

record forgejo_client =
  fj_base_url :: string
  fj_token :: string
  fj_scopes :: "runner_scope list"

record forgejo_register_request =
  rq_name :: string
  rq_description :: string
  rq_ephemeral :: bool

text \<open>Only registering a runner sends a body.\<close>

record forgejo_state =
  fw_requests :: "(http_method \<times> string) list"
  fw_bodies :: "forgejo_register_request list"
  fw_repo_names :: "(int, string) hashmap"

type_synonym 'a forgejo = "(forgejo_state, forgejo_error + 'a) state"

definition RUNNER_PAGE_SIZE :: nat where "RUNNER_PAGE_SIZE = 50"

definition MAX_RUNNER_PAGES :: nat where "MAX_RUNNER_PAGES = 100"

definition github_status :: "string \<Rightarrow> string" where
  "github_status status = (if status = ''waiting'' then ''queued''
     else if status = ''running'' then ''in_progress'' else status)"

definition trim_end_slashes :: "string \<Rightarrow> string" where
  "trim_end_slashes s = rev (dropWhile (\<lambda>c. c = CHR ''/'') (rev s))"

definition new_forgejo_client :: "secrets \<Rightarrow> forgejo_config \<Rightarrow> forgejo_error + forgejo_client" where
  "new_forgejo_client s c = (case token_content s c of
     Inl e \<Rightarrow> Inl (BadConfig e)
   | Inr token \<Rightarrow> (case runner_scopes c of
       Inl e \<Rightarrow> Inl (BadConfig e)
     | Inr scopes \<Rightarrow> Inr \<lparr>fj_base_url = trim_end_slashes (fc_url c), fj_token = token, fj_scopes = scopes\<rparr>))"

fun scope_path :: "runner_scope \<Rightarrow> string" where
  "scope_path (Organization name) = ''orgs/'' @ name"
| "scope_path (Repository own repo) = ''repos/'' @ own @ ''/'' @ repo"
| "scope_path (User _) = ''user''"
| "scope_path Instance = ''admin''"

definition forgejo_send :: "forgejo_http \<Rightarrow> http_method \<Rightarrow> string \<Rightarrow> forgejo_response forgejo" where
  "forgejo_send http m path = State (\<lambda>s.
     (case http (length (fw_requests s)) m path of None \<Rightarrow> Inl (RequestFailed path) | Some r \<Rightarrow> Inr r,
      s\<lparr>fw_requests := fw_requests s @ [(m, path)]\<rparr>))"

text \<open>A request whose answer must be a success, with a body that is read by \<open>parse\<close>.\<close>

definition forgejo_fetch :: "forgejo_http \<Rightarrow> http_method \<Rightarrow> string \<Rightarrow> (forgejo_body \<Rightarrow> 'a option) \<Rightarrow> 'a forgejo" where
  "forgejo_fetch http m path parse =
     try_bind (forgejo_send http m path) (\<lambda>r.
       if \<not> is_success (rp_status r) then fail_with (ApiError path (rp_status r))
       else (case parse (rp_body r) of None \<Rightarrow> fail_with (BadResponse path) | Some a \<Rightarrow> give a))"

fun jobs_of_body :: "forgejo_body \<Rightarrow> api_job list option" where
  "jobs_of_body (JobsBody js) = Some (case js of None \<Rightarrow> [] | Some js \<Rightarrow> js)"
| "jobs_of_body _ = None"

fun runners_of_body :: "forgejo_body \<Rightarrow> api_runner list option" where
  "runners_of_body (RunnersBody rs) = Some (case rs of None \<Rightarrow> [] | Some rs \<Rightarrow> rs)"
| "runners_of_body _ = None"

fun repository_of_body :: "forgejo_body \<Rightarrow> string option" where
  "repository_of_body (RepositoryBody n) = Some n"
| "repository_of_body _ = None"

fun user_of_body :: "forgejo_body \<Rightarrow> string option" where
  "user_of_body (UserBody n) = Some n"
| "user_of_body _ = None"

fun registered_of_body :: "forgejo_body \<Rightarrow> (string \<times> string) option" where
  "registered_of_body (RegisteredBody i uuid token) = Some (uuid, token)"
| "registered_of_body _ = None"

section \<open>Jobs and repositories\<close>

definition list_scope_jobs :: "forgejo_http \<Rightarrow> runner_scope \<Rightarrow> api_job list forgejo" where
  "list_scope_jobs http scope = forgejo_fetch http GET (scope_path scope @ ''/actions/runners/jobs'') jobs_of_body"

definition repo_name :: "forgejo_http \<Rightarrow> int \<Rightarrow> string forgejo" where
  "repo_name http repo_id = do {
     known \<leftarrow> gets (\<lambda>s. hm_get (fw_repo_names s) repo_id);
     case known of
       Some name \<Rightarrow> give name
     | None \<Rightarrow>
         try_bind (forgejo_fetch http GET (''repositories/'' @ int_to_string repo_id) repository_of_body) (\<lambda>name. do {
           modify (\<lambda>s. s\<lparr>fw_repo_names := hm_insert repo_id name (fw_repo_names s)\<rparr>);
           give name }) }"

fun owns :: "string \<Rightarrow> runner_scope \<Rightarrow> bool" where
  "owns own (Organization name) \<longleftrightarrow> eq_ignore_ascii_case name own"
| "owns own (User name) \<longleftrightarrow> eq_ignore_ascii_case name own"
| "owns own _ \<longleftrightarrow> False"

definition scope_for_repo :: "forgejo_client \<Rightarrow> string \<Rightarrow> forgejo_error + runner_scope" where
  "scope_for_repo c repo = (case split_once (CHR ''/'') repo of
     None \<Rightarrow> Inl (InvalidRepository repo)
   | Some (own, name) \<Rightarrow>
       (case List.find (owns own) (fj_scopes c) of
          Some scope \<Rightarrow> Inr scope
        | None \<Rightarrow> if Instance \<in> set (fj_scopes c) then Inr Instance else Inr (Repository own name)))"

section \<open>Runners\<close>

definition page_path :: "string \<Rightarrow> nat \<Rightarrow> string" where
  "page_path path page = path @ ''?page='' @ nat_to_string page @ ''&limit='' @ nat_to_string RUNNER_PAGE_SIZE"

text \<open>The pages from \<open>page\<close> on, at most \<open>n\<close> of them; only an empty page is the end.\<close>

fun read_runner_pages :: "forgejo_http \<Rightarrow> string \<Rightarrow> nat \<Rightarrow> nat \<Rightarrow> api_runner list forgejo" where
  "read_runner_pages http path page 0 = give []"
| "read_runner_pages http path page (Suc n) =
     try_bind (forgejo_fetch http GET (page_path path page) runners_of_body) (\<lambda>runners.
       if runners = [] then give []
       else try_bind (read_runner_pages http path (page + 1) n) (\<lambda>rest. give (runners @ rest)))"

definition list_runners :: "forgejo_http \<Rightarrow> runner_scope \<Rightarrow> api_runner list forgejo" where
  "list_runners http scope = read_runner_pages http (scope_path scope @ ''/actions/runners'') 1 MAX_RUNNER_PAGES"

fun forgejo_scope_url :: "forgejo_client \<Rightarrow> runner_scope \<Rightarrow> string" where
  "forgejo_scope_url c (Organization name) = fj_base_url c @ ''/'' @ name"
| "forgejo_scope_url c (User name) = fj_base_url c @ ''/'' @ name"
| "forgejo_scope_url c (Repository own repo) = fj_base_url c @ ''/'' @ own @ ''/'' @ repo"
| "forgejo_scope_url c Instance = fj_base_url c"

definition forgejo_registration_token :: "runner_scope \<Rightarrow> string forgejo" where
  "forgejo_registration_token scope = fail_with OneJobRunnersOnly"

definition forgejo_create_job_runner ::
  "forgejo_http \<Rightarrow> forgejo_client \<Rightarrow> runner_scope \<Rightarrow> string \<Rightarrow> string \<Rightarrow> runner_launch forgejo" where
  "forgejo_create_job_runner http c scope runner_name job_id =
     try_bind (do {
       modify (\<lambda>s. s\<lparr>fw_bodies := fw_bodies s @ [\<lparr>rq_name = runner_name,
         rq_description = ''kuiper-forge one-job runner for job '' @ job_id, rq_ephemeral = True\<rparr>]\<rparr>);
       forgejo_fetch http POST (scope_path scope @ ''/actions/runners'') registered_of_body }) (\<lambda>(uuid, token).
       give (ForgejoRunner \<lparr>fl_instance_url = fj_base_url c, fl_uuid = uuid, fl_token = token, fl_handle = job_id\<rparr>))"

fun delete_runners :: "forgejo_http \<Rightarrow> runner_scope \<Rightarrow> api_runner list \<Rightarrow> unit forgejo" where
  "delete_runners http scope [] = give ()"
| "delete_runners http scope (r # rs) = (let path = scope_path scope @ ''/actions/runners/'' @ int_to_string (ap_id r) in
     try_bind (forgejo_send http DELETE path) (\<lambda>resp.
       if rp_status resp = 404 then delete_runners http scope rs
       else if \<not> is_success (rp_status resp) then fail_with (ApiError path (rp_status resp))
       else delete_runners http scope rs))"

definition forgejo_remove_runner :: "forgejo_http \<Rightarrow> runner_scope \<Rightarrow> string \<Rightarrow> unit forgejo" where
  "forgejo_remove_runner http scope runner_name =
     try_bind (list_runners http scope) (\<lambda>runners.
       delete_runners http scope (filter (\<lambda>r. ap_name r = runner_name) runners))"

definition forgejo_remove_idle_runner :: "forgejo_http \<Rightarrow> runner_scope \<Rightarrow> string \<Rightarrow> idle_removal forgejo" where
  "forgejo_remove_idle_runner http scope runner_name =
     try_bind (list_runners http scope) (\<lambda>runners.
       give (if list_ex (\<lambda>r. ap_name r = runner_name) runners then Busy else NotRegistered))"

section \<open>The scan for queued jobs\<close>

text \<open>One listed job: what is queued for it, with the handles seen so far.\<close>

definition job_repository :: "forgejo_http \<Rightarrow> runner_scope \<Rightarrow> api_job \<Rightarrow> (forgejo_state, string option) state" where
  "job_repository http scope job = (case scope of
     Repository own repo \<Rightarrow> ret (Some (own @ ''/'' @ repo))
   | _ \<Rightarrow> do {
       name \<leftarrow> repo_name http (aj_repo_id job);
       ret (case name of Inl _ \<Rightarrow> None | Inr n \<Rightarrow> Some n) })"

fun scan_jobs ::
  "forgejo_http \<Rightarrow> runner_scope \<Rightarrow> api_job list \<Rightarrow> string list \<Rightarrow> queued_job list \<Rightarrow>
   (forgejo_state, string list \<times> queued_job list) state" where
  "scan_jobs http scope [] seen queued = ret (seen, queued)"
| "scan_jobs http scope (job # jobs) seen queued =
     (if aj_status job \<noteq> ''waiting'' then scan_jobs http scope jobs seen queued
      else if aj_handle job \<noteq> [] \<and> aj_handle job \<in> set seen then scan_jobs http scope jobs seen queued
      else if aj_handle job = [] then scan_jobs http scope jobs seen queued
      else do {
        repository \<leftarrow> job_repository http scope job;
        scan_jobs http scope jobs (seen @ [aj_handle job]) (queued @ [\<lparr>qj_id = aj_handle job, qj_labels = aj_runs_on job,
          qj_runner_scope = scope, qj_repository = repository, qj_created_at = None\<rparr>]) })"

fun scan_scopes ::
  "forgejo_http \<Rightarrow> runner_scope list \<Rightarrow> string list \<Rightarrow> queued_job list \<Rightarrow> nat \<Rightarrow>
   (forgejo_state, queued_job list \<times> nat) state" where
  "scan_scopes http [] seen queued failed = ret (queued, failed)"
| "scan_scopes http (scope # scopes) seen queued failed = do {
     r \<leftarrow> list_scope_jobs http scope;
     case r of
       Inl _ \<Rightarrow> scan_scopes http scopes seen queued (failed + 1)
     | Inr jobs \<Rightarrow> do {
         (seen, queued) \<leftarrow> scan_jobs http scope jobs seen queued;
         scan_scopes http scopes seen queued failed } }"

definition forgejo_list_queued_jobs :: "forgejo_http \<Rightarrow> forgejo_client \<Rightarrow> queued_job list forgejo" where
  "forgejo_list_queued_jobs http c = do {
     (queued, failed) \<leftarrow> scan_scopes http (fj_scopes c) [] [] 0;
     if failed = length (fj_scopes c) then fail_with (NoScopeListed (length (fj_scopes c)))
     else give queued }"

definition forgejo_job_status :: "forgejo_http \<Rightarrow> forgejo_client \<Rightarrow> string \<Rightarrow> string \<Rightarrow> string option forgejo" where
  "forgejo_job_status http c repo job_id = (case scope_for_repo c repo of
     Inl e \<Rightarrow> fail_with e
   | Inr scope \<Rightarrow>
       try_bind (list_scope_jobs http scope) (\<lambda>jobs.
         give (map_option (\<lambda>job. github_status (aj_status job)) (List.find (\<lambda>job. aj_handle job = job_id) jobs))))"

section \<open>Checking a token\<close>

definition find_user_scope :: "runner_scope list \<Rightarrow> string option" where
  "find_user_scope scopes = (case List.map_filter (\<lambda>s. case s of User n \<Rightarrow> Some n | _ \<Rightarrow> None) scopes of
     [] \<Rightarrow> None | n # _ \<Rightarrow> Some n)"

definition is_repository_scope :: "runner_scope \<Rightarrow> bool" where
  "is_repository_scope s = (case s of Repository _ _ \<Rightarrow> True | _ \<Rightarrow> False)"

fun check_scopes :: "forgejo_http \<Rightarrow> runner_scope list \<Rightarrow> unit forgejo" where
  "check_scopes http [] = give ()"
| "check_scopes http (scope # scopes) =
     try_bind (list_scope_jobs http scope) (\<lambda>_.
       let path = scope_path scope @ ''/actions/runners/0'' in
       try_bind (forgejo_send http DELETE path) (\<lambda>r.
         if rp_status r = 404 \<or> rp_status r = 400 \<or> is_success (rp_status r) then check_scopes http scopes
         else fail_with (ApiError path (rp_status r))))"

definition check_user :: "forgejo_http \<Rightarrow> forgejo_client \<Rightarrow> unit forgejo" where
  "check_user http c = (case find_user_scope (fj_scopes c) of
     None \<Rightarrow> give ()
   | Some name \<Rightarrow>
       try_bind (forgejo_fetch http GET ''user'' user_of_body) (\<lambda>login.
         if eq_ignore_ascii_case login name then give () else fail_with (NotTokensUser name login)))"

definition check_repositories :: "forgejo_http \<Rightarrow> forgejo_client \<Rightarrow> unit forgejo" where
  "check_repositories http c =
     (if list_all is_repository_scope (fj_scopes c) then give ()
      else try_bind (forgejo_send http GET ''repositories/0'') (\<lambda>r.
        if rp_status r = 403 \<or> rp_status r = 401 then fail_with (ApiError ''repositories/0'' (rp_status r)) else give ()))"

definition forgejo_validate :: "forgejo_http \<Rightarrow> forgejo_client \<Rightarrow> unit forgejo" where
  "forgejo_validate http c =
     try_bind (check_user http c) (\<lambda>_.
     try_bind (check_repositories http c) (\<lambda>_.
     check_scopes http (fj_scopes c)))"

end
