(* ===== verification/Github_Client.thy ===== *)
theory Github_Client
  imports Forgejo_Client
begin

text \<open>
  \<^verbatim>\<open>kuiper-forge/src/github.rs\<close>: the client of GitHub's API as a GitHub App. What GitHub answers to the
  \<open>n\<close>-th request is an argument, with a body of the type that was asked for; the clock is read per
  request too. Signing a JWT and reading a time are arguments. The tasks that search a batch of
  repositories at the same time only read, and their results are taken in order: they run one after the other here.
\<close>

section \<open>The API\<close>

definition GITHUB_API_URL :: string where "GITHUB_API_URL = ''https://api.github.com''"

definition PAGE_SIZE :: nat where "PAGE_SIZE = 100"

definition MAX_LISTED_PAGES :: nat where "MAX_LISTED_PAGES = 100"

record listed_runner =
  ri_id :: nat
  ri_name :: string
  ri_busy :: bool

record workflow_job_info =
  wi_id :: nat
  wi_status :: string
  wi_labels :: "string list"
  wi_created_at :: "int option"

record repo_info =
  re_full_name :: string
  re_owner :: string
  re_pushed_at :: "string option"

record app_installation =
  in_id :: nat
  in_account :: string

datatype github_body = InstallationsBody "app_installation list" | TokenBody string string | RegistrationBody string
  | JitBody string | RunnerListBody "listed_runner list" | RunsBody "nat list" | RunJobsBody "workflow_job_info list"
  | ReposBody "repo_info list" | StatusBody string | UnreadableBody

record github_response =
  gr_status :: nat
  gr_json :: github_body

type_synonym github_http = "nat \<Rightarrow> http_method \<Rightarrow> string \<Rightarrow> github_response option"

record app_claims =
  cl_iat :: int
  cl_exp :: int
  cl_iss :: string

record github_env =
  gh_http :: github_http
  gh_now :: "nat \<Rightarrow> int"
  gh_sign :: "app_claims \<Rightarrow> string option"
  gh_rfc3339 :: "string \<Rightarrow> int option"

datatype github_error = GhRequest string | GhApi string nat | GhResponse string | GhJwt | GhNotInstalled string
  | GhScope runner_scope | GhRefusesDelete nat | GhRepository string | GhExpiration string | GhJobId string | GhNoInstallations

record cached_token =
  tk_token :: string
  tk_expires_at :: int

record github_client =
  gc_app :: nat
  gc_scan_lookback :: "int option"

record jit_request =
  jr_name :: string
  jr_runner_group_id :: nat
  jr_labels :: "string list"
  jr_work_folder :: string

text \<open>The client's caches, the requests it has sent with the bearer token of each, and the bodies sent with the
  requests for JIT configurations, the only requests that have one.\<close>

record github_state =
  gs_requests :: "(http_method \<times> string \<times> string) list"
  gs_bodies :: "jit_request list"
  gs_tokens :: "(nat, cached_token) hashmap"
  gs_installations :: "(string, nat) hashmap"

type_synonym 'a github = "(github_state, github_error + 'a) state"

abbreviation minutes :: "int \<Rightarrow> int" where "minutes n \<equiv> n * 60000"

definition with_scan_lookback_hours :: "nat \<Rightarrow> github_client \<Rightarrow> github_client" where
  "with_scan_lookback_hours hours c =
     c\<lparr>gc_scan_lookback := (if hours = 0 then None else Some (int hours * minutes 60))\<rparr>"

definition new_github_client :: "nat \<Rightarrow> github_client" where
  "new_github_client app_id = \<lparr>gc_app = app_id, gc_scan_lookback = Some (168 * minutes 60)\<rparr>"

definition github_send :: "github_env \<Rightarrow> http_method \<Rightarrow> string \<Rightarrow> string \<Rightarrow> github_response github" where
  "github_send env m bearer url = State (\<lambda>s.
     (case gh_http env (length (gs_requests s)) m url of None \<Rightarrow> Inl (GhRequest url) | Some r \<Rightarrow> Inr r,
      s\<lparr>gs_requests := gs_requests s @ [(m, url, bearer)]\<rparr>))"

definition github_now :: "github_env \<Rightarrow> (github_state, int) state" where
  "github_now env = gets (\<lambda>s. gh_now env (length (gs_requests s)))"

text \<open>A request whose answer must be a success with a body that \<open>parse\<close> reads.\<close>

definition github_fetch ::
  "github_env \<Rightarrow> http_method \<Rightarrow> string \<Rightarrow> string \<Rightarrow> (github_body \<Rightarrow> 'a option) \<Rightarrow> 'a github" where
  "github_fetch env m bearer url parse =
     try_bind (github_send env m bearer url) (\<lambda>r.
       if \<not> is_success (gr_status r) then fail_with (GhApi url (gr_status r))
       else (case parse (gr_json r) of None \<Rightarrow> fail_with (GhResponse url) | Some a \<Rightarrow> give a))"

definition get_json :: "github_env \<Rightarrow> string \<Rightarrow> string \<Rightarrow> (github_body \<Rightarrow> 'a option) \<Rightarrow> 'a github" where
  "get_json env bearer url parse = github_fetch env GET bearer url parse"

text \<open>The pages from \<open>page\<close> on, at most \<open>n\<close> of them: the first short page is the end.\<close>

fun collect_from :: "(nat \<Rightarrow> 'a list github) \<Rightarrow> nat \<Rightarrow> nat \<Rightarrow> 'a list github" where
  "collect_from fetch_page page 0 = give []"
| "collect_from fetch_page page (Suc n) =
     try_bind (fetch_page page) (\<lambda>items.
       if length items < PAGE_SIZE then give items
       else try_bind (collect_from fetch_page (page + 1) n) (\<lambda>rest. give (items @ rest)))"

definition collect_pages :: "(nat \<Rightarrow> 'a list github) \<Rightarrow> 'a list github" where
  "collect_pages fetch_page = collect_from fetch_page 1 MAX_LISTED_PAGES"

definition paged :: "string \<Rightarrow> string \<Rightarrow> nat \<Rightarrow> string" where
  "paged url sep page = url @ sep @ ''per_page='' @ nat_to_string PAGE_SIZE @ ''&page='' @ nat_to_string page"

fun installations_of :: "github_body \<Rightarrow> app_installation list option" where
  "installations_of (InstallationsBody xs) = Some xs" | "installations_of _ = None"

fun access_token_of :: "github_body \<Rightarrow> (string \<times> string) option" where
  "access_token_of (TokenBody token expires) = Some (token, expires)" | "access_token_of _ = None"

fun registration_of :: "github_body \<Rightarrow> string option" where
  "registration_of (RegistrationBody t) = Some t" | "registration_of _ = None"

fun jit_of :: "github_body \<Rightarrow> string option" where
  "jit_of (JitBody t) = Some t" | "jit_of _ = None"

fun runner_list_of :: "github_body \<Rightarrow> listed_runner list option" where
  "runner_list_of (RunnerListBody xs) = Some xs" | "runner_list_of _ = None"

fun runs_of :: "github_body \<Rightarrow> nat list option" where
  "runs_of (RunsBody xs) = Some xs" | "runs_of _ = None"

fun run_jobs_of :: "github_body \<Rightarrow> workflow_job_info list option" where
  "run_jobs_of (RunJobsBody xs) = Some xs" | "run_jobs_of _ = None"

fun repos_of :: "github_body \<Rightarrow> repo_info list option" where
  "repos_of (ReposBody xs) = Some xs" | "repos_of _ = None"

fun status_of_body :: "github_body \<Rightarrow> string option" where
  "status_of_body (StatusBody s) = Some s" | "status_of_body _ = None"

section \<open>Tokens and installations\<close>

definition token_is_valid :: "int \<Rightarrow> cached_token \<Rightarrow> bool" where
  "token_is_valid now t \<longleftrightarrow> tk_expires_at t > now + minutes 5"

definition generate_jwt :: "github_env \<Rightarrow> github_client \<Rightarrow> string github" where
  "generate_jwt env c = do {
     now \<leftarrow> github_now env;
     case gh_sign env \<lparr>cl_iat = (now - minutes 1) div 1000, cl_exp = (now + minutes 9) div 1000,
         cl_iss = nat_to_string (gc_app c)\<rparr> of
       None \<Rightarrow> fail_with GhJwt
     | Some jwt \<Rightarrow> give jwt }"

definition discover_installations :: "github_env \<Rightarrow> github_client \<Rightarrow> unit github" where
  "discover_installations env c =
     try_bind (generate_jwt env c) (\<lambda>jwt.
     try_bind (collect_pages (\<lambda>page.
         get_json env jwt (paged (GITHUB_API_URL @ ''/app/installations'') ''?'' page) installations_of)) (\<lambda>found. do {
       modify (\<lambda>s. s\<lparr>gs_installations :=
         fold (\<lambda>i m. hm_insert (to_lowercase (in_account i)) (in_id i) m) found (gs_installations s)\<rparr>);
       give () }))"

definition known_installation :: "string \<Rightarrow> (github_state, nat option) state" where
  "known_installation account = gets (\<lambda>s. hm_get (gs_installations s) (to_lowercase account))"

definition get_installation_id :: "github_env \<Rightarrow> github_client \<Rightarrow> string \<Rightarrow> nat github" where
  "get_installation_id env c account = do {
     known \<leftarrow> known_installation account;
     case known of
       Some i \<Rightarrow> give i
     | None \<Rightarrow>
         try_bind (discover_installations env c) (\<lambda>_. do {
           known \<leftarrow> known_installation account;
           case known of Some i \<Rightarrow> give i | None \<Rightarrow> fail_with (GhNotInstalled account) }) }"

definition request_access_token :: "github_env \<Rightarrow> github_client \<Rightarrow> nat \<Rightarrow> string github" where
  "request_access_token env c i =
     try_bind (generate_jwt env c) (\<lambda>jwt.
     try_bind (github_fetch env POST jwt (GITHUB_API_URL @ ''/app/installations/'' @ nat_to_string i @ ''/access_tokens'')
       access_token_of) (\<lambda>(token, expires).
     case gh_rfc3339 env expires of
       None \<Rightarrow> fail_with (GhExpiration expires)
     | Some at \<Rightarrow> do {
         modify (\<lambda>s. s\<lparr>gs_tokens := hm_insert i \<lparr>tk_token = token, tk_expires_at = at\<rparr> (gs_tokens s)\<rparr>);
         give token }))"

definition get_access_token :: "github_env \<Rightarrow> github_client \<Rightarrow> nat \<Rightarrow> string github" where
  "get_access_token env c i = do {
     now \<leftarrow> github_now env;
     cached \<leftarrow> gets (\<lambda>s. hm_get (gs_tokens s) i);
     case cached of
       Some t \<Rightarrow> if token_is_valid now t then give (tk_token t) else request_access_token env c i
     | None \<Rightarrow> request_access_token env c i }"

fun scope_account :: "runner_scope \<Rightarrow> string" where
  "scope_account (Organization name) = name"
| "scope_account (Repository own _) = own"
| "scope_account (User name) = name"
| "scope_account Instance = []"

text \<open>What every call on a scope begins with: the scope must be GitHub's, and its installation gives a token.\<close>

definition scope_token :: "github_env \<Rightarrow> github_client \<Rightarrow> runner_scope \<Rightarrow> string github" where
  "scope_token env c scope =
     (if \<not> is_github_scope scope then fail_with (GhScope scope)
      else try_bind (get_installation_id env c (scope_account scope)) (get_access_token env c))"

definition github_validate :: "github_env \<Rightarrow> github_client \<Rightarrow> string list github" where
  "github_validate env c =
     try_bind (generate_jwt env c) (\<lambda>_.
     try_bind (discover_installations env c) (\<lambda>_. do {
       accounts \<leftarrow> gets (\<lambda>s. map fst (gs_installations s));
       if accounts = [] then fail_with GhNoInstallations else give accounts }))"

section \<open>Runners\<close>

definition github_registration_token :: "github_env \<Rightarrow> github_client \<Rightarrow> runner_scope \<Rightarrow> string github" where
  "github_registration_token env c scope =
     try_bind (scope_token env c scope) (\<lambda>token.
       github_fetch env POST token (GITHUB_API_URL @ registration_token_path scope) registration_of)"

definition generate_jitconfig ::
  "github_env \<Rightarrow> github_client \<Rightarrow> runner_scope \<Rightarrow> string \<Rightarrow> string list \<Rightarrow> nat \<Rightarrow> string github" where
  "generate_jitconfig env c scope runner_name ls grp =
     try_bind (scope_token env c scope) (\<lambda>token. do {
       modify (\<lambda>s. s\<lparr>gs_bodies := gs_bodies s @
         [\<lparr>jr_name = runner_name, jr_runner_group_id = grp, jr_labels = ls, jr_work_folder = ''_work''\<rparr>]\<rparr>);
       github_fetch env POST token (GITHUB_API_URL @ jitconfig_path scope) jit_of })"

definition find_runner :: "github_env \<Rightarrow> (string \<Rightarrow> string) \<Rightarrow> github_client \<Rightarrow> runner_scope \<Rightarrow> string \<Rightarrow> listed_runner option github" where
  "find_runner env enc c scope runner_name =
     try_bind (scope_token env c scope) (\<lambda>token.
     try_bind (github_fetch env GET token (GITHUB_API_URL @ runners_list_path scope @ ''?name='' @ enc runner_name)
       runner_list_of) (\<lambda>runners.
       give (List.find (\<lambda>r. ri_name r = runner_name) runners)))"

definition try_delete_runner :: "github_env \<Rightarrow> github_client \<Rightarrow> runner_scope \<Rightarrow> nat \<Rightarrow> bool github" where
  "try_delete_runner env c scope i =
     try_bind (scope_token env c scope) (\<lambda>token.
     try_bind (github_send env DELETE token (GITHUB_API_URL @ runner_delete_path scope i)) (\<lambda>r.
       if gr_status r = 204 then give True
       else if gr_status r = 422 then give False
       else if \<not> is_success (gr_status r) then fail_with (GhApi (runner_delete_path scope i) (gr_status r))
       else give True))"

definition delete_runner :: "github_env \<Rightarrow> github_client \<Rightarrow> runner_scope \<Rightarrow> nat \<Rightarrow> unit github" where
  "delete_runner env c scope i =
     try_bind (try_delete_runner env c scope i) (\<lambda>ok. if ok then give () else fail_with (GhRefusesDelete i))"

definition github_remove_idle_runner ::
  "github_env \<Rightarrow> (string \<Rightarrow> string) \<Rightarrow> github_client \<Rightarrow> runner_scope \<Rightarrow> string \<Rightarrow> idle_removal github" where
  "github_remove_idle_runner env enc c scope runner_name =
     try_bind (find_runner env enc c scope runner_name) (\<lambda>found. case found of
       None \<Rightarrow> give NotRegistered
     | Some runner \<Rightarrow>
         if ri_busy runner then give Busy
         else try_bind (try_delete_runner env c scope (ri_id runner)) (\<lambda>ok. give (if ok then Removed else Busy)))"

definition github_remove_runner ::
  "github_env \<Rightarrow> (string \<Rightarrow> string) \<Rightarrow> github_client \<Rightarrow> runner_scope \<Rightarrow> string \<Rightarrow> unit github" where
  "github_remove_runner env enc c scope runner_name =
     try_bind (find_runner env enc c scope runner_name) (\<lambda>found. case found of
       None \<Rightarrow> give ()
     | Some runner \<Rightarrow> delete_runner env c scope (ri_id runner))"

section \<open>Jobs\<close>

definition repository_job_status :: "github_env \<Rightarrow> github_client \<Rightarrow> string \<Rightarrow> nat \<Rightarrow> string option github" where
  "repository_job_status env c repo job_id = (case split_on (CHR ''/'') repo of
     [own, _] \<Rightarrow>
       try_bind (get_installation_id env c own) (\<lambda>i.
       try_bind (get_access_token env c i) (\<lambda>token.
       let url = GITHUB_API_URL @ ''/repos/'' @ repo @ ''/actions/jobs/'' @ nat_to_string job_id in
       try_bind (github_send env GET token url) (\<lambda>r.
         if gr_status r = 404 then give None
         else if \<not> is_success (gr_status r) then fail_with (GhApi url (gr_status r))
         else (case status_of_body (gr_json r) of None \<Rightarrow> fail_with (GhResponse url) | Some st \<Rightarrow> give (Some st)))))
   | _ \<Rightarrow> fail_with (GhRepository repo))"

definition github_job_status :: "github_env \<Rightarrow> github_client \<Rightarrow> string \<Rightarrow> string \<Rightarrow> string option github" where
  "github_job_status env c repo job_id = (case parse_u64 job_id of
     None \<Rightarrow> fail_with (GhJobId job_id)
   | Some i \<Rightarrow> repository_job_status env c repo i)"

definition github_create_job_runner ::
  "github_env \<Rightarrow> github_client \<Rightarrow> runner_scope \<Rightarrow> string \<Rightarrow> string list \<Rightarrow> nat \<Rightarrow> string \<Rightarrow> runner_launch github" where
  "github_create_job_runner env c scope runner_name ls grp job_id =
     try_bind (generate_jitconfig env c scope runner_name ls grp) (\<lambda>jit. give (GitHubJit jit))"

section \<open>The scan for queued jobs\<close>

text \<open>The pages of an installation's repositories are read until a short one or a failure. The loop has no bound
  of its own: \<^term>\<open>None\<close> when it needs more than the given number of pages.\<close>

definition repos_url :: "nat \<Rightarrow> string" where
  "repos_url page = GITHUB_API_URL @ ''/installation/repositories?per_page=100&page='' @ nat_to_string page"

fun installation_repos :: "github_env \<Rightarrow> string \<Rightarrow> nat \<Rightarrow> nat \<Rightarrow> (github_state, repo_info list option) state" where
  "installation_repos env token page 0 = ret None"
| "installation_repos env token page (Suc n) = do {
     r \<leftarrow> github_fetch env GET token (repos_url page) repos_of;
     case r of
       Inl _ \<Rightarrow> ret (Some [])
     | Inr repos \<Rightarrow>
         if length repos < 100 then ret (Some repos)
         else do {
           rest \<leftarrow> installation_repos env token (page + 1) n;
           ret (map_option (\<lambda>rest. repos @ rest) rest) } }"

definition recently_pushed :: "github_env \<Rightarrow> int \<Rightarrow> repo_info \<Rightarrow> bool" where
  "recently_pushed env cutoff repo = (case re_pushed_at repo of
     None \<Rightarrow> True
   | Some s \<Rightarrow> (case gh_rfc3339 env s of None \<Rightarrow> True | Some t \<Rightarrow> t > cutoff))"

definition active_repos :: "github_env \<Rightarrow> github_client \<Rightarrow> int \<Rightarrow> repo_info list \<Rightarrow> repo_info list" where
  "active_repos env c now repos = (case gc_scan_lookback c of
     None \<Rightarrow> repos | Some window \<Rightarrow> filter (recently_pushed env (now - window)) repos)"

definition runs_url :: "repo_info \<Rightarrow> string \<Rightarrow> nat \<Rightarrow> string" where
  "runs_url repo run_status page =
     paged (GITHUB_API_URL @ ''/repos/'' @ re_full_name repo @ ''/actions/runs?status='' @ run_status) ''&'' page"

definition run_jobs_url :: "repo_info \<Rightarrow> nat \<Rightarrow> nat \<Rightarrow> string" where
  "run_jobs_url repo run page =
     paged (GITHUB_API_URL @ ''/repos/'' @ re_full_name repo @ ''/actions/runs/'' @ nat_to_string run @ ''/jobs'') ''?'' page"

definition job_of :: "repo_info \<Rightarrow> workflow_job_info \<Rightarrow> queued_job" where
  "job_of repo j = \<lparr>qj_id = nat_to_string (wi_id j), qj_labels = wi_labels j,
     qj_runner_scope = Organization (re_owner repo), qj_repository = Some (re_full_name repo),
     qj_created_at = wi_created_at j\<rparr>"

definition waits_for_runner :: "workflow_job_info \<Rightarrow> bool" where
  "waits_for_runner j \<longleftrightarrow> wi_status j = ''queued'' \<or> wi_status j = ''waiting''"

text \<open>A failed listing adds nothing.\<close>

fun jobs_of_runs :: "github_env \<Rightarrow> string \<Rightarrow> repo_info \<Rightarrow> nat list \<Rightarrow> (github_state, queued_job list) state" where
  "jobs_of_runs env token repo [] = ret []"
| "jobs_of_runs env token repo (run # runs) = do {
     r \<leftarrow> collect_pages (\<lambda>page. get_json env token (run_jobs_url repo run page) run_jobs_of);
     rest \<leftarrow> jobs_of_runs env token repo runs;
     ret ((case r of Inl _ \<Rightarrow> [] | Inr js \<Rightarrow> map (job_of repo) (filter waits_for_runner js)) @ rest) }"

fun jobs_by_status :: "github_env \<Rightarrow> string \<Rightarrow> repo_info \<Rightarrow> string list \<Rightarrow> (github_state, queued_job list) state" where
  "jobs_by_status env token repo [] = ret []"
| "jobs_by_status env token repo (st # sts) = do {
     r \<leftarrow> collect_pages (\<lambda>page. get_json env token (runs_url repo st page) runs_of);
     jobs \<leftarrow> (case r of Inl _ \<Rightarrow> ret [] | Inr runs \<Rightarrow> jobs_of_runs env token repo runs);
     rest \<leftarrow> jobs_by_status env token repo sts;
     ret (jobs @ rest) }"

definition find_queued_jobs_in_repo :: "github_env \<Rightarrow> string \<Rightarrow> repo_info \<Rightarrow> (github_state, queued_job list) state" where
  "find_queued_jobs_in_repo env token repo = jobs_by_status env token repo [''queued'', ''in_progress'', ''waiting'']"

fun scan_repos :: "github_env \<Rightarrow> string \<Rightarrow> repo_info list \<Rightarrow> (github_state, queued_job list) state" where
  "scan_repos env token [] = ret []"
| "scan_repos env token (repo # repos) = do {
     jobs \<leftarrow> find_queued_jobs_in_repo env token repo;
     rest \<leftarrow> scan_repos env token repos;
     ret (jobs @ rest) }"

text \<open>One installation: \<^term>\<open>None\<close> when its repositories need more pages than given.\<close>

definition scan_installation :: "github_env \<Rightarrow> github_client \<Rightarrow> nat \<Rightarrow> nat \<Rightarrow> (github_state, queued_job list option) state" where
  "scan_installation env c pages i = do {
     token \<leftarrow> get_access_token env c i;
     case token of
       Inl _ \<Rightarrow> ret (Some [])
     | Inr token \<Rightarrow> do {
         repos \<leftarrow> installation_repos env token 1 pages;
         case repos of
           None \<Rightarrow> ret None
         | Some repos \<Rightarrow> do {
             now \<leftarrow> github_now env;
             jobs \<leftarrow> scan_repos env token (active_repos env c now repos);
             ret (Some jobs) } } }"

fun scan_installations ::
  "github_env \<Rightarrow> github_client \<Rightarrow> nat \<Rightarrow> nat list \<Rightarrow> (github_state, queued_job list option) state" where
  "scan_installations env c pages [] = ret (Some [])"
| "scan_installations env c pages (i # is) = do {
     jobs \<leftarrow> scan_installation env c pages i;
     rest \<leftarrow> scan_installations env c pages is;
     ret (case (jobs, rest) of (Some js, Some ks) \<Rightarrow> Some (js @ ks) | _ \<Rightarrow> None) }"

definition github_list_queued_jobs ::
  "github_env \<Rightarrow> github_client \<Rightarrow> nat \<Rightarrow> (github_state, github_error + queued_job list option) state" where
  "github_list_queued_jobs env c pages =
     try_bind (discover_installations env c) (\<lambda>_. do {
       ids \<leftarrow> gets (\<lambda>s. map snd (gs_installations s));
       jobs \<leftarrow> scan_installations env c pages ids;
       give jobs })"

end
