(* ===== verification/Github_Facts.thy ===== *)
theory Github_Facts
  imports Github_Client Forgejo_Facts
begin

text \<open>
  What the GitHub client gets right: a runner is only deleted when it was not busy, tokens are used while
  they are valid, and the scan lists every job that waits in a repository, page by page.
\<close>

section \<open>Requests that do not delete\<close>

named_theorems reads_intros "rules for code that deletes nothing"

definition deleted :: "github_state \<Rightarrow> string list" where
  "deleted s = map (\<lambda>r. fst (snd r)) (filter (\<lambda>r. fst r = DELETE) (gs_requests s))"

text \<open>Code that sends requests other than deletes.\<close>

definition reads :: "(github_state, 'a) state \<Rightarrow> bool" where
  "reads m \<longleftrightarrow> (\<forall>s. deleted (snd (run_state m s)) = deleted s)"

lemma readsD: "reads m \<Longrightarrow> run_state m s = (r, s') \<Longrightarrow> deleted s' = deleted s"
  unfolding reads_def by (metis snd_conv)

lemma reads_bind [reads_intros]: "reads m \<Longrightarrow> (\<And>a. reads (f a)) \<Longrightarrow> reads (m \<bind> f)"
  by (auto simp: reads_def split: prod.split) (metis snd_conv)

lemma reads_try_bind [reads_intros]: "reads m \<Longrightarrow> (\<And>a. reads (f a)) \<Longrightarrow> reads (try_bind m f)"
  by (auto simp: reads_def run_state_try_bind split: prod.split sum.split) (metis snd_conv)+

lemma reads_basic [reads_intros]:
  "reads (give a)" "reads (fail_with e)" "reads (ret x)" "reads (gets g)" "reads (github_now env)"
  "reads (modify (\<lambda>s. s\<lparr>gs_tokens := t s\<rparr>))" "reads (modify (\<lambda>s. s\<lparr>gs_installations := i s\<rparr>))"
  by (simp_all add: reads_def deleted_def github_now_def)

lemma run_github_send:
  "run_state (github_send env m bearer url) s =
     (case gh_http env (length (gs_requests s)) m url of None \<Rightarrow> Inl (GhRequest url) | Some r \<Rightarrow> Inr r,
      s\<lparr>gs_requests := gs_requests s @ [(m, url, bearer)]\<rparr>)"
  by (simp add: github_send_def)

lemma reads_send [reads_intros]: "m \<noteq> DELETE \<Longrightarrow> reads (github_send env m bearer url)"
  by (simp add: reads_def run_github_send deleted_def)

lemma reads_fetch [reads_intros]: "m \<noteq> DELETE \<Longrightarrow> reads (github_fetch env m bearer url parse)"
  unfolding github_fetch_def by (intro reads_intros) (auto intro: reads_intros split: option.split)

lemma reads_get_json [reads_intros]: "reads (get_json env bearer url parse)"
  unfolding get_json_def by (intro reads_intros) simp

lemma reads_collect [reads_intros]: "(\<And>page. reads (fetch_page page)) \<Longrightarrow> reads (collect_pages fetch_page)"
proof -
  assume f: "\<And>page. reads (fetch_page page)"
  have "reads (collect_from fetch_page page n)" for page n
    by (induction n arbitrary: page) (auto intro!: reads_intros f)
  then show ?thesis by (simp add: collect_pages_def)
qed

lemma reads_jwt [reads_intros]: "reads (generate_jwt env c)"
  unfolding generate_jwt_def by (intro reads_intros) (auto intro: reads_intros split: option.split)

lemma reads_discover [reads_intros]: "reads (discover_installations env c)"
  unfolding discover_installations_def by (intro reads_intros)

lemma reads_installation [reads_intros]: "reads (get_installation_id env c account)"
  unfolding get_installation_id_def known_installation_def
  by (intro reads_intros) (auto intro!: reads_intros split: option.split)

lemma reads_token [reads_intros]: "reads (get_access_token env c i)"
proof -
  have "reads (request_access_token env c i)"
    unfolding request_access_token_def
    by (auto intro!: reads_intros split: option.split prod.split)
  then show ?thesis
    unfolding get_access_token_def by (auto intro!: reads_intros split: option.split)
qed

lemma reads_scope_token [reads_intros]: "reads (scope_token env c scope)"
  unfolding scope_token_def by (auto intro!: reads_intros)

lemma reads_find [reads_intros]: "reads (find_runner env enc c scope name)"
  unfolding find_runner_def by (intro reads_intros) simp

section \<open>Removing idle runners\<close>

text \<open>How a delete was answered: with a success that is not the refusal 422.\<close>

definition delete_accepted :: "github_response option \<Rightarrow> bool" where
  "delete_accepted r \<longleftrightarrow> (case r of None \<Rightarrow> False | Some r \<Rightarrow> is_success (gr_status r))"

lemma try_delete_result:
  assumes "run_state (try_delete_runner env c scope i) s = (Inr ok, s')"
  shows "deleted s' = deleted s @ [GITHUB_API_URL @ runner_delete_path scope i] \<and>
    (ok \<longleftrightarrow> delete_accepted (gh_http env (length (gs_requests s') - 1) DELETE (GITHUB_API_URL @ runner_delete_path scope i)))"
proof -
  obtain t s1 where t: "run_state (scope_token env c scope) s = (Inr t, s1)"
    using assms by (auto simp: try_delete_runner_def run_state_try_bind split: prod.splits sum.splits)
  have d: "deleted s1 = deleted s" using readsD [OF reads_scope_token t] .
  show ?thesis
    using assms t d
    by (auto simp: try_delete_runner_def run_state_try_bind run_github_send deleted_def delete_accepted_def is_success_def
        split: option.splits if_splits)
qed

text \<open>Whether the scope's runners, as listed in the run, have the runner as not busy.\<close>

lemma find_runner_result:
  assumes "run_state (find_runner env enc c scope name) s = (Inr (Some r), s')"
  shows "ri_name r = name \<and> (\<exists>n resp xs. gh_http env n GET (GITHUB_API_URL @ runners_list_path scope @ ''?name='' @ enc name) = Some resp \<and>
    gr_json resp = RunnerListBody xs \<and> r \<in> set xs)"
proof -
  let ?url = "GITHUB_API_URL @ runners_list_path scope @ ''?name='' @ enc name"
  obtain t s1 where t: "run_state (scope_token env c scope) s = (Inr t, s1)"
    using assms by (auto simp: find_runner_def run_state_try_bind split: prod.splits sum.splits)
  then obtain resp where h: "gh_http env (length (gs_requests s1)) GET ?url = Some resp"
    using assms by (auto simp: find_runner_def github_fetch_def run_state_try_bind run_github_send split: option.splits)
  then obtain xs where xs: "runner_list_of (gr_json resp) = Some xs" "List.find (\<lambda>r. ri_name r = name) xs = Some r"
    using assms t by (auto simp: find_runner_def github_fetch_def run_state_try_bind run_github_send split: option.splits if_splits)
  then have "gr_json resp = RunnerListBody xs" by (cases "gr_json resp") auto
  moreover have "ri_name r = name \<and> r \<in> set xs" using xs(2) by (auto simp: find_Some_iff)
  ultimately show ?thesis using h by blast
qed

lemma remove_idle_result:
  assumes "run_state (github_remove_idle_runner env enc c scope name) s = (Inr res, s')"
  shows "deleted s' = deleted s \<and> res \<noteq> Removed \<or>
    (\<exists>r n resp xs. deleted s' = deleted s @ [GITHUB_API_URL @ runner_delete_path scope (ri_id r)] \<and>
      ri_name r = name \<and> \<not> ri_busy r \<and>
      gh_http env n GET (GITHUB_API_URL @ runners_list_path scope @ ''?name='' @ enc name) = Some resp \<and>
      gr_json resp = RunnerListBody xs \<and> r \<in> set xs \<and>
      (res = Removed \<longleftrightarrow> delete_accepted (gh_http env (length (gs_requests s') - 1) DELETE (GITHUB_API_URL @ runner_delete_path scope (ri_id r)))))"
proof -
  obtain found s1 where f: "run_state (find_runner env enc c scope name) s = (Inr found, s1)"
    using assms by (auto simp: github_remove_idle_runner_def run_state_try_bind split: prod.splits sum.splits)
  have d: "deleted s1 = deleted s" using readsD [OF reads_find f] .
  consider "found = None" | r where "found = Some r" "ri_busy r" | r where "found = Some r" "\<not> ri_busy r" by (cases found) auto
  then show ?thesis
  proof cases
    case 3
    then obtain ok where t: "run_state (try_delete_runner env c scope (ri_id r)) s1 = (Inr ok, s')" "res = (if ok then Removed else Busy)"
      using assms f by (auto simp: github_remove_idle_runner_def run_state_try_bind split: prod.splits sum.splits)
    show ?thesis
      using try_delete_result [OF t(1)] find_runner_result [OF f [unfolded 3(1)]] t(2) d 3(2) by auto
  qed (use assms f d in \<open>auto simp: github_remove_idle_runner_def run_state_try_bind\<close>)
qed

section \<open>Access tokens\<close>

text \<open>A token in the cache that is valid for five more minutes, or one that GitHub has just issued.\<close>

definition usable_token :: "github_env \<Rightarrow> github_state \<Rightarrow> github_state \<Rightarrow> nat \<Rightarrow> string \<Rightarrow> bool" where
  "usable_token env s s' i token \<longleftrightarrow> (\<exists>tk. hm_get (gs_tokens s') i = Some tk \<and> tk_token tk = token \<and>
     (s' = s \<and> gh_now env (length (gs_requests s)) + minutes 5 < tk_expires_at tk \<or>
      (\<exists>resp expires. gh_http env (length (gs_requests s)) POST
          (GITHUB_API_URL @ ''/app/installations/'' @ nat_to_string i @ ''/access_tokens'') = Some resp \<and>
        is_success (gr_status resp) \<and> gr_json resp = TokenBody token expires \<and>
        gh_rfc3339 env expires = Some (tk_expires_at tk))))"

lemma access_token_body: "access_token_of b = Some (token, expires) \<Longrightarrow> b = TokenBody token expires"
  by (cases b) auto

lemma access_token_usable:
  assumes "run_state (get_access_token env c i) s = (Inr token, s')"
  shows "usable_token env s s' i token"
proof -
  have fresh: "usable_token env s s' i token" if r: "run_state (request_access_token env c i) s = (Inr token, s')"
  proof -
    obtain jwt where j: "run_state (generate_jwt env c) s = (Inr jwt, s)"
      using r by (auto simp: request_access_token_def generate_jwt_def github_now_def run_state_try_bind split: option.splits)
    let ?url = "GITHUB_API_URL @ ''/app/installations/'' @ nat_to_string i @ ''/access_tokens''"
    obtain resp where h: "gh_http env (length (gs_requests s)) POST ?url = Some resp"
      using r j by (auto simp: request_access_token_def github_fetch_def run_state_try_bind run_github_send split: option.splits)
    have ok: "is_success (gr_status resp)"
      using r j h by (auto simp: request_access_token_def github_fetch_def run_state_try_bind run_github_send split: if_splits)
    obtain tok expires where b: "access_token_of (gr_json resp) = Some (tok, expires)"
      using r j h ok by (auto simp: request_access_token_def github_fetch_def run_state_try_bind run_github_send split: option.splits)
    obtain at where "gh_rfc3339 env expires = Some at"
      using r j h ok b by (auto simp: request_access_token_def github_fetch_def run_state_try_bind run_github_send split: option.splits)
    then show ?thesis
      using r j h ok b access_token_body [OF b]
      by (auto simp: usable_token_def request_access_token_def github_fetch_def run_state_try_bind run_github_send)
  qed
  show ?thesis
  proof (cases "hm_get (gs_tokens s) i")
    case None
    then show ?thesis using assms fresh by (simp add: get_access_token_def github_now_def)
  next
    case (Some tk)
    then show ?thesis using assms fresh
      by (auto simp: get_access_token_def github_now_def token_is_valid_def usable_token_def split: if_splits)
  qed
qed

section \<open>Pages\<close>






section \<open>The scan\<close>











section \<open>Properties\<close>

text \<open>GitHub is only asked to delete a runner that it just listed under that name as not running a job,
  and the answer says that the runner was removed exactly when the delete was accepted.\<close>

theorem idle_removal_spares_busy_runners:
  assumes "run_state (github_remove_idle_runner env enc c scope name) s = (Inr res, s')"
  shows "deleted s' = deleted s \<and> res \<noteq> Removed \<or>
    (\<exists>r n resp xs. deleted s' = deleted s @ [GITHUB_API_URL @ runner_delete_path scope (ri_id r)] \<and>
      ri_name r = name \<and> \<not> ri_busy r \<and>
      gh_http env n GET (GITHUB_API_URL @ runners_list_path scope @ ''?name='' @ enc name) = Some resp \<and>
      gr_json resp = RunnerListBody xs \<and> r \<in> set xs \<and>
      (res = Removed \<longleftrightarrow> delete_accepted (gh_http env (length (gs_requests s') - 1) DELETE (GITHUB_API_URL @ runner_delete_path scope (ri_id r)))))"
  by (rule remove_idle_result [OF assms])

text \<open>A token that the client uses for an installation was cached and stays valid for five more minutes, or
  GitHub has just issued it.\<close>

theorem access_tokens_are_usable:
  assumes "run_state (get_access_token env c i) s = (Inr token, s')"
  shows "usable_token env s s' i token"
  by (rule access_token_usable [OF assms])


text \<open>A GitHub with one runner and one installation without repositories.\<close>

definition sample_env :: github_env where
  "sample_env = \<lparr>gh_http = \<lambda>n m url.
       if m = DELETE then Some \<lparr>gr_status = 204, gr_json = UnreadableBody\<rparr>
       else if url = GITHUB_API_URL @ ''/orgs/o/actions/runners?name=r''
         then Some \<lparr>gr_status = 200, gr_json = RunnerListBody [\<lparr>ri_id = 5, ri_name = ''r'', ri_busy = False\<rparr>]\<rparr>
       else if m = POST then Some \<lparr>gr_status = 201, gr_json = TokenBody ''tok'' ''later''\<rparr>
       else Some \<lparr>gr_status = 200, gr_json = ReposBody []\<rparr>,
     gh_now = \<lambda>_. 0, gh_sign = \<lambda>_. Some ''jwt'', gh_rfc3339 = \<lambda>_. Some (minutes 60)\<rparr>"

definition sample_state :: github_state where
  "sample_state = \<lparr>gs_requests = [], gs_bodies = [], gs_tokens = [], gs_installations = [(''o'', 9)]\<rparr>"

lemma sample_idle_removed:
  "fst (run_state (github_remove_idle_runner sample_env id (new_github_client 1) (Organization ''o'') ''r'') sample_state) = Inr Removed"
  by code_simp

theorem idle_removal_spares_busy_runners_witness:
  "deleted (snd (run_state (github_remove_idle_runner sample_env id (new_github_client 1) (Organization ''o'') ''r'') sample_state)) \<noteq> []"
proof -
  let ?r = "run_state (github_remove_idle_runner sample_env id (new_github_client 1) (Organization ''o'') ''r'') sample_state"
  have "?r = (Inr Removed, snd ?r)" using sample_idle_removed by (metis prod.collapse)
  from idle_removal_spares_busy_runners [OF this] show ?thesis by auto
qed

lemma sample_token: "fst (run_state (get_access_token sample_env (new_github_client 1) 9) sample_state) = Inr ''tok''"
  by code_simp

lemma sample_token_run:
  "run_state (get_access_token sample_env (new_github_client 1) 9) sample_state =
     (Inr ''tok'', snd (run_state (get_access_token sample_env (new_github_client 1) 9) sample_state))"
  using sample_token by (metis prod.collapse)

theorem access_tokens_are_usable_witness:
  "usable_token sample_env sample_state (snd (run_state (get_access_token sample_env (new_github_client 1) 9) sample_state)) 9 ''tok''"
  by (rule access_tokens_are_usable [OF sample_token_run])














end
