(* ===== verification/Ssh.thy ===== *)
theory Ssh
  imports Store
begin

text \<open>
  \<^verbatim>\<open>kuiper-agent-lib/src/ssh.rs\<close>: connecting to a VM with retries, waiting for its port, and the output of a
  command from the messages of its channel. The network and russh are arguments: what each attempt's steps come to,
  within their time. Times are in milliseconds. Output is text as it arrives: the lossy reading of
  bytes that are not UTF-8 is left out.
\<close>

section \<open>Clients\<close>

datatype ssh_error = SshTimeout string | SshKey string | SshAuthFailed string | SshConnection string
  | SshCommand nat string | SshUpload string

datatype ssh_auth = KeyAuth string | PasswordAuth string | KeyThenPassword string string

record ssh_client =
  sc_username :: string
  sc_auth :: ssh_auth
  sc_port :: nat
  sc_timeout :: nat

definition new_ssh_client :: "string \<Rightarrow> ssh_auth \<Rightarrow> ssh_client" where
  "new_ssh_client username auth = \<lparr>sc_username = username, sc_auth = auth, sc_port = 22, sc_timeout = 30000\<rparr>"

definition with_port :: "nat \<Rightarrow> ssh_client \<Rightarrow> ssh_client" where
  "with_port port c = c\<lparr>sc_port := port\<rparr>"

definition with_timeout :: "nat \<Rightarrow> ssh_client \<Rightarrow> ssh_client" where
  "with_timeout t c = c\<lparr>sc_timeout := t\<rparr>"

definition default_key_path :: "string option \<Rightarrow> (string \<Rightarrow> bool) \<Rightarrow> string option" where
  "default_key_path home exists = (case home of
     None \<Rightarrow> None
   | Some h \<Rightarrow> List.find exists (map (\<lambda>name. h @ ''/.ssh/'' @ name) [''id_ed25519'', ''id_rsa'']))"

record ssh_config =
  sg_private_key_path :: "string option"
  sg_password :: "string option"
  sg_username :: string
  sg_port :: nat
  sg_timeout_secs :: nat
  sg_retries :: nat

text \<open>The client of an agent's settings: with a key and a password the key is tried first. Reading a key may fail.\<close>

definition ssh_client_of :: "(string \<Rightarrow> ssh_error option) \<Rightarrow> ssh_config \<Rightarrow> ssh_error + ssh_client" where
  "ssh_client_of load_key c =
     (let with_auth = (\<lambda>a. with_timeout (sg_timeout_secs c * 1000) (with_port (sg_port c) (new_ssh_client (sg_username c) a))) in
     case (sg_private_key_path c, sg_password c) of
       (Some key, Some password) \<Rightarrow> (case load_key key of Some e \<Rightarrow> Inl e | None \<Rightarrow> Inr (with_auth (KeyThenPassword key password)))
     | (Some key, None) \<Rightarrow> (case load_key key of Some e \<Rightarrow> Inl e | None \<Rightarrow> Inr (with_auth (KeyAuth key)))
     | (None, Some password) \<Rightarrow> Inr (with_auth (PasswordAuth password))
     | (None, None) \<Rightarrow> Inl (SshKey ''SSH config must have either private_key_path or password''))"

datatype hash_alg = Sha256 | Sha512

text \<open>What the server says of the hashes it takes for RSA keys: an error, nothing, or its best one.\<close>

definition rsa_hash :: "bool \<Rightarrow> string + hash_alg option option \<Rightarrow> hash_alg option" where
  "rsa_hash is_rsa best =
     (if \<not> is_rsa then None else (case best of Inr (Some h) \<Rightarrow> h | _ \<Rightarrow> Some Sha256))"

section \<open>Connecting\<close>

datatype 'a timed = TimedOut | Failing string | Finished 'a

text \<open>The steps of the \<open>n\<close>-th attempt: the TCP connection, the handshake, and whether a key or the password is accepted.\<close>

record ssh_net =
  sn_tcp :: "nat \<Rightarrow> unit timed"
  sn_handshake :: "nat \<Rightarrow> unit timed"
  sn_key :: "nat \<Rightarrow> bool timed"
  sn_password :: "nat \<Rightarrow> bool timed"

definition auth_key :: "ssh_net \<Rightarrow> nat \<Rightarrow> ssh_error + bool" where
  "auth_key net n = (case sn_key net n of
     TimedOut \<Rightarrow> Inl (SshTimeout ''SSH public key authentication'')
   | Failing e \<Rightarrow> Inl (SshAuthFailed (''public key: '' @ e))
   | Finished ok \<Rightarrow> Inr ok)"

definition auth_password :: "ssh_net \<Rightarrow> nat \<Rightarrow> ssh_error + bool" where
  "auth_password net n = (case sn_password net n of
     TimedOut \<Rightarrow> Inl (SshTimeout ''SSH password authentication'')
   | Failing e \<Rightarrow> Inl (SshAuthFailed (''password: '' @ e))
   | Finished ok \<Rightarrow> Inr ok)"

definition ssh_authenticate :: "ssh_net \<Rightarrow> ssh_auth \<Rightarrow> nat \<Rightarrow> ssh_error + bool" where
  "ssh_authenticate net auth n = (case auth of
     KeyAuth _ \<Rightarrow> auth_key net n
   | PasswordAuth _ \<Rightarrow> auth_password net n
   | KeyThenPassword _ _ \<Rightarrow> (case auth_key net n of Inr True \<Rightarrow> Inr True | _ \<Rightarrow> auth_password net n))"

definition ssh_connect :: "ssh_net \<Rightarrow> ssh_client \<Rightarrow> nat \<Rightarrow> ssh_error + unit" where
  "ssh_connect net c n = (case sn_tcp net n of
     TimedOut \<Rightarrow> Inl (SshTimeout ''SSH connection'')
   | Failing e \<Rightarrow> Inl (SshConnection (''TCP connection failed: '' @ e))
   | Finished _ \<Rightarrow> (case sn_handshake net n of
       TimedOut \<Rightarrow> Inl (SshTimeout ''SSH handshake'')
     | Failing e \<Rightarrow> Inl (SshConnection (''handshake failed: '' @ e))
     | Finished _ \<Rightarrow> (case ssh_authenticate net (sc_auth c) n of
         Inl e \<Rightarrow> Inl e
       | Inr ok \<Rightarrow> if ok then Inr () else Inl (SshAuthFailed (''rejected user '' @ sc_username c)))))"

text \<open>The attempts from \<open>attempt\<close> on, with \<open>n\<close> left, and how long it slept between them.\<close>

fun connect_attempts ::
  "ssh_net \<Rightarrow> ssh_client \<Rightarrow> nat \<Rightarrow> nat \<Rightarrow> ssh_error option \<Rightarrow> (ssh_error + unit) \<times> nat list" where
  "connect_attempts net c attempt 0 failed =
     (Inl (case failed of Some e \<Rightarrow> e | None \<Rightarrow> SshConnection ''no connection attempts made''), [])"
| "connect_attempts net c attempt (Suc n) failed = (case ssh_connect net c attempt of
     Inr _ \<Rightarrow> (Inr (), [])
   | Inl e \<Rightarrow> (let (r, slept) = connect_attempts net c (attempt + 1) n (Some e) in
       (r, if n > 0 then 2 ^ min attempt 5 * 1000 # slept else slept)))"

definition connect_with_retries :: "ssh_net \<Rightarrow> ssh_client \<Rightarrow> nat \<Rightarrow> (ssh_error + unit) \<times> nat list" where
  "connect_with_retries net c attempts = connect_attempts net c 1 attempts None"

text \<open>
  Waiting for a port: the \<open>n\<close>-th attempt to connect would take the given time and then succeed or not. It gets at
  most five seconds and never more than what remains. The result comes with the time it is there.
\<close>

function poll_port :: "(nat \<Rightarrow> nat \<times> bool) \<Rightarrow> nat \<Rightarrow> nat \<Rightarrow> nat \<Rightarrow> (ssh_error + unit) \<times> nat" where
  "poll_port dial deadline n now =
     (let remaining = deadline - now; attempt = min remaining 5000; (took, ok) = dial n in
      if remaining = 0 then (Inl (SshTimeout ''waiting for SSH''), now)
      else if ok \<and> took < attempt then (Inr (), now + took)
      else poll_port dial deadline (n + 1) (now + min took attempt + min 2000 remaining))"
  by pat_completeness auto
termination
  by (relation "measure (\<lambda>(dial, deadline, n, now). deadline - now)") auto

declare poll_port.simps [simp del]

definition wait_for_port :: "(nat \<Rightarrow> nat \<times> bool) \<Rightarrow> nat \<Rightarrow> nat \<Rightarrow> (ssh_error + unit) \<times> nat" where
  "wait_for_port dial wait now = poll_port dial (now + wait) 0 now"

section \<open>Addresses\<close>

type_synonym ipv4 = "nat \<times> nat \<times> nat \<times> nat"

text \<open>\<^verbatim>\<open>Ipv4Addr::from_str\<close>: four numbers up to 255, without leading zeros.\<close>

definition parse_octet :: "string \<Rightarrow> nat option" where
  "parse_octet s = (if s \<noteq> [] \<and> length s \<le> 3 \<and> list_all is_digit s \<and> (hd s = CHR ''0'' \<longrightarrow> length s = 1)
     then (let v = foldl (\<lambda>n c. 10 * n + (of_char c - 48)) 0 s in if v \<le> 255 then Some v else None) else None)"

definition parse_ipv4 :: "string \<Rightarrow> ipv4 option" where
  "parse_ipv4 s = (case map parse_octet (split_on (CHR ''.'') s) of
     [Some a, Some b, Some c, Some d] \<Rightarrow> Some (a, b, c, d) | _ \<Rightarrow> None)"

section \<open>Commands\<close>

text \<open>What a program on the agent's own host printed.\<close>

record cmd_output =
  cd_success :: bool
  cd_stdout :: string
  cd_stderr :: string

datatype channel_msg = ChData string | ChExtendedData string nat | ChExitStatus nat | ChClose | ChOther

record command_output =
  co_stdout :: string
  co_stderr :: string
  co_exit_code :: nat

text \<open>The messages up to \<^verbatim>\<open>Close\<close>, or until the channel has none: output, error output and the last exit status.\<close>

fun read_channel :: "channel_msg list \<Rightarrow> string \<Rightarrow> string \<Rightarrow> nat option \<Rightarrow> string \<times> string \<times> nat option" where
  "read_channel [] out err code = (out, err, code)"
| "read_channel (ChData d # ms) out err code = read_channel ms (out @ d) err code"
| "read_channel (ChExtendedData d ext # ms) out err code = read_channel ms out (if ext = 1 then err @ d else err) code"
| "read_channel (ChExitStatus s # ms) out err code = read_channel ms out err (Some s)"
| "read_channel (ChClose # ms) out err code = (out, err, code)"
| "read_channel (ChOther # ms) out err code = read_channel ms out err code"

definition output_of :: "channel_msg list \<Rightarrow> command_output" where
  "output_of ms = (let (out, err, code) = read_channel ms [] [] None in
     \<lparr>co_stdout = out, co_stderr = err, co_exit_code = (case code of None \<Rightarrow> 0 | Some c \<Rightarrow> c)\<rparr>)"

text \<open>A command either has a channel with these messages, or no channel for the given reason.\<close>

definition ssh_run :: "string + channel_msg list \<Rightarrow> ssh_error + command_output" where
  "ssh_run answer = (case answer of Inl e \<Rightarrow> Inl (SshConnection e) | Inr ms \<Rightarrow> Inr (output_of ms))"

definition into_stdout :: "command_output \<Rightarrow> ssh_error + string" where
  "into_stdout o' = (if co_exit_code o' = 0 then Inr (co_stdout o') else Inl (SshCommand (co_exit_code o') (co_stderr o')))"

section \<open>Lemmas\<close>

lemma connect_attempts_sleeps:
  "\<forall>t \<in> set (snd (connect_attempts net c attempt n failed)). t \<le> 32000"
proof (induction n arbitrary: attempt failed)
  case (Suc n)
  have "(2::nat) ^ min attempt 5 \<le> 2 ^ 5" by (rule power_increasing) auto
  then show ?case using Suc by (auto split: sum.split prod.split simp: Let_def) (metis snd_conv)+
qed simp

lemma connect_attempts_result:
  "fst (connect_attempts net c attempt n failed) = Inr () \<longleftrightarrow>
     (\<exists>k < n. ssh_connect net c (attempt + k) = Inr ())"
proof (induction n arbitrary: attempt failed)
  case (Suc n)
  have ex: "(\<exists>k < Suc n. P k) \<longleftrightarrow> P 0 \<or> (\<exists>k < n. P (Suc k))" for P
    by (metis Suc_less_eq less_Suc_eq_0_disj zero_less_Suc)
  show ?case
  proof (cases "ssh_connect net c attempt")
    case (Inl e)
    have "fst (connect_attempts net c attempt (Suc n) failed) = fst (connect_attempts net c (attempt + 1) n (Some e))"
      using Inl by (simp add: Let_def split: prod.split)
    then show ?thesis using Inl Suc.IH [of "attempt + 1" "Some e"] ex [of "\<lambda>k. ssh_connect net c (attempt + k) = Inr ()"]
      by simp
  qed (auto intro: exI [of _ 0])
qed simp

text \<open>Waiting for a port ends at most two seconds after the deadline, and reports success only in time.\<close>

lemma poll_port_ends:
  "now \<le> deadline + 2000 \<Longrightarrow> (case poll_port dial deadline n now of (r, t) \<Rightarrow>
     now \<le> t \<and> t \<le> deadline + 2000 \<and> (r = Inr () \<longrightarrow> t < deadline))"
proof (induction dial deadline n now rule: poll_port.induct)
  case (1 dial deadline n now)
  obtain took ok where d: "dial n = (took, ok)" by fastforce
  show ?case
  proof (cases "deadline - now = 0 \<or> ok \<and> took < min (deadline - now) 5000")
    case True
    then show ?thesis using 1(2) d by (subst poll_port.simps) (auto simp: Let_def)
  next
    case False
    let ?now = "now + min took (min (deadline - now) 5000) + min 2000 (deadline - now)"
    have "?now \<le> deadline + 2000" using False by (auto simp: min_def)
    then have "case poll_port dial deadline (n + 1) ?now of (r, t) \<Rightarrow>
        ?now \<le> t \<and> t \<le> deadline + 2000 \<and> (r = Inr () \<longrightarrow> t < deadline)"
      using 1(1) [OF refl refl d [symmetric] refl] False by simp
    moreover have "poll_port dial deadline n now = poll_port dial deadline (n + 1) ?now"
      using False d by (subst poll_port.simps) (auto simp: Let_def)
    ultimately show ?thesis by auto
  qed
qed

lemma read_channel_code:
  "list_all (\<lambda>m. \<forall>s. m \<noteq> ChExitStatus s) ms \<Longrightarrow> snd (snd (read_channel ms out err code)) = code"
  by (induction ms out err code rule: read_channel.induct) auto

lemma no_status_reads_zero: "list_all (\<lambda>m. \<forall>s. m \<noteq> ChExitStatus s) ms \<Longrightarrow> co_exit_code (output_of ms) = 0"
  using read_channel_code [of ms "[]" "[]" None] by (auto simp: output_of_def split: prod.split)

end
