(* ===== verification/Libvirt_Config.thy ===== *)
theory Libvirt_Config
  imports Labels Ssh
begin

text \<open>
  \<^verbatim>\<open>kuiper-libvirt-agent/src/config.rs\<close>: the configuration of the libvirt agent after its TOML is read: paths
  that are expanded, what is checked, and the defaults. Paths are strings; the home directory is an argument.
\<close>

section \<open>Settings\<close>

datatype guest_os = GuestLinux | GuestWindows

datatype firmware = Bios | Uefi

datatype machine = MachinePc | MachineQ35

datatype disk_bus = BusVirtio | BusScsi

datatype ip_source = SourceLease | SourceAgent | SourceAny

record hardware =
  hw_os :: guest_os
  hw_firmware :: firmware
  hw_uefi_vars :: "string option"
  hw_secure_boot :: bool
  hw_machine :: "machine option"
  hw_disk_bus :: disk_bus
  hw_tpm :: bool
  hw_domain_template :: "string option"

definition default_hardware :: hardware where
  "default_hardware = \<lparr>hw_os = GuestLinux, hw_firmware = Bios, hw_uefi_vars = None, hw_secure_boot = False,
     hw_machine = None, hw_disk_bus = BusVirtio, hw_tpm = False, hw_domain_template = None\<rparr>"

record image_mapping =
  im_labels :: "string list"
  im_image :: string
  im_pool :: "nat option"
  im_vcpus :: "nat option"
  im_memory_mib :: "nat option"
  im_hardware :: hardware

text \<open>The mapping as the labels module sees it.\<close>

definition image_label_mapping :: "image_mapping \<Rightarrow> label_mapping" where
  "image_label_mapping m = \<lparr>lm_labels = im_labels m, lm_pool = im_pool m, lm_id = im_image m\<rparr>"

record libvirt_vm_config =
  vc_image :: string
  vc_max_vms :: nat
  vc_vcpus :: nat
  vc_memory_mib :: nat
  vc_hardware :: hardware
  vc_ip_timeout_secs :: nat
  vc_image_mappings :: "image_mapping list"

record libvirt_settings =
  lb_uri :: string
  lb_network :: string
  lb_bridge :: "string option"
  lb_disk_dir :: string
  lb_ip_source :: ip_source

definition default_libvirt_settings :: libvirt_settings where
  "default_libvirt_settings = \<lparr>lb_uri = ''qemu:///system'', lb_network = ''default'', lb_bridge = None, lb_disk_dir = [],
     lb_ip_source = SourceAny\<rparr>"

record libvirt_agent_config =
  la_coordinator_url :: string
  la_ca_cert :: "string option"
  la_certs_dir :: string
  la_labels :: "string list"
  la_libvirt :: libvirt_settings
  la_vm :: libvirt_vm_config
  la_ssh :: ssh_config

section \<open>Loading\<close>

definition join_path :: "string \<Rightarrow> string \<Rightarrow> string" where
  "join_path dir p = (if is_prefix_of ''/'' p then p
     else if dir = [] \<or> List.last dir = CHR ''/'' then dir @ p else dir @ ''/'' @ p)"

definition expand_tilde :: "string option \<Rightarrow> string \<Rightarrow> string" where
  "expand_tilde home p = (case home of
     Some h \<Rightarrow> if is_prefix_of ''~/'' p then join_path h (drop 2 p) else p
   | None \<Rightarrow> p)"

definition expand_hardware :: "string option \<Rightarrow> hardware \<Rightarrow> hardware" where
  "expand_hardware home h = h\<lparr>hw_domain_template := map_option (expand_tilde home) (hw_domain_template h),
     hw_uefi_vars := map_option (expand_tilde home) (hw_uefi_vars h)\<rparr>"

definition expand_paths :: "string option \<Rightarrow> string \<Rightarrow> libvirt_agent_config \<Rightarrow> libvirt_agent_config" where
  "expand_paths home data_dir c =
     (let vm = la_vm c; lv = la_libvirt c; ssh = la_ssh c in
      c\<lparr>la_ca_cert := map_option (expand_tilde home) (la_ca_cert c),
        la_certs_dir := expand_tilde home (la_certs_dir c),
        la_ssh := ssh\<lparr>sg_private_key_path := map_option (expand_tilde home) (sg_private_key_path ssh)\<rparr>,
        la_vm := vm\<lparr>vc_hardware := expand_hardware home (vc_hardware vm),
          vc_image_mappings := map (\<lambda>m. m\<lparr>im_hardware := expand_hardware home (im_hardware m)\<rparr>) (vc_image_mappings vm)\<rparr>,
        la_libvirt := lv\<lparr>lb_disk_dir := (if lb_disk_dir lv = [] then join_path data_dir ''vms''
          else expand_tilde home (lb_disk_dir lv))\<rparr>\<rparr>)"

datatype settings_error = Incomplete "string list" | NotHttps | RelativeImage string | NoVms | NoSize
  | HardwareInvalid string string

definition is_absolute :: "string \<Rightarrow> bool" where
  "is_absolute p \<longleftrightarrow> is_prefix_of ''/'' p"

definition validate_hardware :: "string \<Rightarrow> hardware \<Rightarrow> settings_error option" where
  "validate_hardware what h =
     (if hw_domain_template h \<noteq> None \<and> h \<noteq> default_hardware\<lparr>hw_domain_template := hw_domain_template h\<rparr>
      then Some (HardwareInvalid what ''domain_template and other VM settings'')
      else if hw_firmware h \<noteq> Uefi \<and> (hw_uefi_vars h \<noteq> None \<or> hw_secure_boot h)
      then Some (HardwareInvalid what ''uefi_vars and secure_boot need uefi'')
      else if hw_secure_boot h \<and> hw_machine h \<noteq> Some MachineQ35
      then Some (HardwareInvalid what ''Secure Boot needs q35'')
      else (case hw_uefi_vars h of
        Some vars \<Rightarrow> if is_absolute vars then None else Some (HardwareInvalid what ''uefi_vars must be absolute'')
      | None \<Rightarrow> None))"

text \<open>The first error of a list of checks.\<close>

fun first_error :: "'e option list \<Rightarrow> 'e option" where
  "first_error [] = None"
| "first_error (Some e # es) = Some e"
| "first_error (None # es) = first_error es"

definition missing_settings :: "libvirt_agent_config \<Rightarrow> string list" where
  "missing_settings c =
     (if la_labels c = [] then [''agent.labels''] else []) @
     (if vc_image (la_vm c) = [] then [''vm.image''] else []) @
     (if sg_private_key_path (la_ssh c) = None \<and> sg_password (la_ssh c) = None then [''ssh''] else [])"

definition all_images :: "libvirt_vm_config \<Rightarrow> string list" where
  "all_images vm = vc_image vm # map im_image (vc_image_mappings vm)"

definition validate_libvirt :: "libvirt_agent_config \<Rightarrow> settings_error option" where
  "validate_libvirt c = (let vm = la_vm c in
     if missing_settings c \<noteq> [] then Some (Incomplete (missing_settings c))
     else if \<not> is_prefix_of ''https://'' (la_coordinator_url c) then Some NotHttps
     else (case List.find (\<lambda>i. \<not> is_absolute i) (all_images vm) of
       Some i \<Rightarrow> Some (RelativeImage i)
     | None \<Rightarrow>
         if vc_max_vms vm = 0 then Some NoVms
         else if list_ex (\<lambda>(v, m). v = Some 0 \<or> m = Some 0)
           ((Some (vc_vcpus vm), Some (vc_memory_mib vm)) # map (\<lambda>m. (im_vcpus m, im_memory_mib m)) (vc_image_mappings vm))
         then Some NoSize
         else first_error (validate_hardware ''vm'' (vc_hardware vm) #
           map (\<lambda>m. validate_hardware (''image mapping '' @ im_image m) (im_hardware m)) (vc_image_mappings vm))))"

definition load_libvirt_config :: "string option \<Rightarrow> string \<Rightarrow> libvirt_agent_config \<Rightarrow> settings_error + libvirt_agent_config" where
  "load_libvirt_config home data_dir parsed = (let c = expand_paths home data_dir parsed in
     case validate_libvirt c of Some e \<Rightarrow> Inl e | None \<Rightarrow> Inr c)"

text \<open>The configuration that registering an agent writes, which has to be completed before it is accepted.\<close>

definition generate_libvirt_template :: "string \<Rightarrow> string \<Rightarrow> libvirt_agent_config" where
  "generate_libvirt_template url certs_dir =
     \<lparr>la_coordinator_url = url, la_ca_cert = Some (join_path certs_dir ''ca.crt''), la_certs_dir = certs_dir, la_labels = [],
      la_libvirt = default_libvirt_settings,
      la_vm = \<lparr>vc_image = [], vc_max_vms = 2, vc_vcpus = 4, vc_memory_mib = 8192, vc_hardware = default_hardware,
        vc_ip_timeout_secs = 180, vc_image_mappings = []\<rparr>,
      la_ssh = \<lparr>sg_private_key_path = None, sg_password = None, sg_username = ''ci'', sg_port = 22, sg_timeout_secs = 30,
        sg_retries = 10\<rparr>\<rparr>"

section \<open>Lemmas\<close>

lemma template_incomplete: "load_libvirt_config home d (generate_libvirt_template url certs) =
    Inl (Incomplete [''agent.labels'', ''vm.image'', ''ssh''])"
  by (simp add: load_libvirt_config_def validate_libvirt_def missing_settings_def expand_paths_def
    generate_libvirt_template_def Let_def)

lemma first_error_None: "first_error es = None \<longleftrightarrow> (\<forall>e \<in> set es. e = None)"
  by (induction es rule: first_error.induct) auto

lemma loaded_images:
  assumes "load_libvirt_config home d p = Inr c" "i \<in> set (all_images (la_vm c))"
  shows "is_absolute i"
proof -
  have "validate_libvirt c = None" using assms(1) by (auto simp: load_libvirt_config_def Let_def split: option.splits)
  then have "List.find (\<lambda>i. \<not> is_absolute i) (all_images (la_vm c)) = None"
    by (auto simp: validate_libvirt_def Let_def split: if_splits option.splits)
  then show ?thesis using assms(2) by (simp add: List.find_None_iff)
qed

end
