(* ===== verification/Guest.thy ===== *)
theory Guest
  imports Ssh Runner_Cache Vm_Agent
begin

text \<open>
  \<^verbatim>\<open>kuiper-agent-lib/src/guest.rs\<close>: running one job's runner on a VM over a session, from finding out what the
  VM's shell is to the end of the runner. What the VM answers to the \<open>n\<close>-th command is an argument, with the
  time it took; so are what the runner cache reads and the scripts that are embedded in the commands. The state is
  what was sent, as the log shows it, the calls to the \<^verbatim>\<open>JobContext\<close> and the runner cache. The
  cache's upload with the command after it is one entry of what was sent.
\<close>

section \<open>Sessions\<close>

datatype guest_shell = ShellLinux | ShellMacOS | ShellWindowsCmd | ShellWindowsPowerShell

definition shell_is_windows :: "guest_shell \<Rightarrow> bool" where
  "shell_is_windows s \<longleftrightarrow> s = ShellWindowsCmd \<or> s = ShellWindowsPowerShell"

datatype runner_error = SshFailed ssh_error | RunnerFailed string

record guest_job =
  gj_registration_token :: string
  gj_labels :: "string list"
  gj_runner_scope_url :: string
  gj_runner_name :: string
  gj_jit_config :: string
  gj_forgejo :: "forgejo_runner option"

record runner_versions =
  rv_github :: string
  rv_forgejo :: string
  rv_forgejo_url :: string

record guest_kit =
  gk_channel :: "nat \<Rightarrow> string \<Rightarrow> string + channel_msg list"
  gk_elapsed :: "nat \<Rightarrow> nat"
  gk_upload :: "nat \<Rightarrow> string \<Rightarrow> string \<Rightarrow> bool"
  gk_close :: "ssh_error option"
  gk_b64 :: "8 word list \<Rightarrow> string"
  gk_sha :: "string \<Rightarrow> string"
  gk_unix_script :: string
  gk_windows_script :: string
  gk_forgejo_script :: string
  gk_api :: releases_api
  gk_http :: http_get
  gk_text :: "string \<Rightarrow> string option"
  gk_io :: disk_fault
  gk_times :: job_times
  gk_saves :: bool

text \<open>What was sent: a command in full, one whose text is kept out of the log, or an upload by the cache; or a connection
  that failed, for agents that connect for every command.\<close>

datatype sent = Sent string | SentSecret string string | CacheInstall | NoSession

record guest_session =
  gu_sent :: "sent list"
  gu_calls :: "job_call list"
  gu_cache :: runner_cache

type_synonym 'a guest = "(guest_session, runner_error + 'a) state"

definition guest_send :: "guest_kit \<Rightarrow> sent \<Rightarrow> string \<Rightarrow> command_output guest" where
  "guest_send k entry command = State (\<lambda>s.
     (case ssh_run (gk_channel k (length (gu_sent s)) command) of Inl e \<Rightarrow> Inl (SshFailed e) | Inr out \<Rightarrow> Inr out,
      s\<lparr>gu_sent := gu_sent s @ [entry]\<rparr>))"

definition execute :: "guest_kit \<Rightarrow> string \<Rightarrow> command_output guest" where
  "execute k command = guest_send k (Sent command) command"

definition execute_secret :: "guest_kit \<Rightarrow> string \<Rightarrow> string \<Rightarrow> command_output guest" where
  "execute_secret k command what = guest_send k (SentSecret what command) command"

definition report_call :: "job_call \<Rightarrow> (guest_session, unit) state" where
  "report_call c = modify (\<lambda>s. s\<lparr>gu_calls := gu_calls s @ [c]\<rparr>)"

definition with_cache :: "(runner_cache \<Rightarrow> 'a \<times> runner_cache) \<Rightarrow> (guest_session, 'a) state" where
  "with_cache f = State (\<lambda>s. (fst (f (gu_cache s)), s\<lparr>gu_cache := snd (f (gu_cache s))\<rparr>))"

definition cache_session :: "guest_kit \<Rightarrow> nat \<Rightarrow> vm_session" where
  "cache_session k n = \<lparr>vs_upload = gk_upload k n, vs_execute = (\<lambda>command. case gk_channel k n command of
     Inl _ \<Rightarrow> None | Inr ms \<Rightarrow> Some (int (co_exit_code (output_of ms))))\<rparr>"

definition cache_install :: "guest_kit \<Rightarrow> (vm_session \<Rightarrow> runner_cache \<Rightarrow> install_source \<times> runner_cache) \<Rightarrow>
    (guest_session, install_source) state" where
  "cache_install k f = do {
     n \<leftarrow> gets (\<lambda>s. length (gu_sent s));
     src \<leftarrow> with_cache (f (cache_session k n));
     modify (\<lambda>s. s\<lparr>gu_sent := gu_sent s @ [CacheInstall]\<rparr>);
     report_call (InstallSource src);
     ret src }"

section \<open>The VM's shell\<close>

definition detect_shell :: "guest_kit \<Rightarrow> guest_shell guest" where
  "detect_shell k =
     try_bind (execute k ''echo $PSVersionTable'') (\<lambda>out.
     if str_contains ''PSVersion'' (co_stdout out) then give ShellWindowsPowerShell
     else try_bind (execute k ''echo %OS%'') (\<lambda>out.
     if str_contains ''Windows_NT'' (co_stdout out) then give ShellWindowsCmd
     else try_bind (execute k ''powershell -Command \"Write-Output $env:OS\"'') (\<lambda>out.
     if str_contains ''Windows'' (co_stdout out) then give ShellWindowsCmd
     else try_bind (execute k ''uname -s'') (\<lambda>out.
     if str_contains ''Linux'' (co_stdout out) then give ShellLinux
     else if str_contains ''Darwin'' (co_stdout out) then give ShellMacOS
     else if co_exit_code out = 0 \<and> str_trim (co_stdout out) \<noteq> [] then give ShellLinux
     else give ShellWindowsCmd))))"

text \<open>A failure of the time sync is only logged.\<close>

definition sync_clock :: "guest_kit \<Rightarrow> guest_shell \<Rightarrow> (guest_session, unit) state" where
  "sync_clock k shell =
     (if shell = ShellLinux \<or> shell = ShellMacOS then ret ()
      else do {
        _ \<leftarrow> execute k (if shell = ShellWindowsPowerShell then ''net start w32time; w32tm /resync /force''
          else ''powershell -Command \"net start w32time; w32tm /resync /force\"'');
        ret () })"

definition WINDOWS_ACTIONS_DIR :: string where
  "WINDOWS_ACTIONS_DIR = ''C:'' @ [BACKSLASH] @ ''actions-runner''"

fun runner_builder :: "guest_shell \<Rightarrow> runner_config_builder" where
  "runner_builder ShellLinux = builder_linux ''~/actions-runner''"
| "runner_builder ShellMacOS = builder_macos ''~/actions-runner''"
| "runner_builder ShellWindowsCmd = builder_windows WINDOWS_ACTIONS_DIR"
| "runner_builder ShellWindowsPowerShell = builder_windows_powershell WINDOWS_ACTIONS_DIR"

section \<open>GitHub's runner\<close>

datatype prepared = PreparedGithub runner_config_builder bool | PreparedForgejo string

record prepared_runner =
  pp_kind :: prepared
  pp_command :: string

definition failed_with :: "string \<Rightarrow> command_output \<Rightarrow> string \<Rightarrow> runner_error" where
  "failed_with what out rest = RunnerFailed (what @ nat_to_string (co_exit_code out) @ rest)"

definition install_github_runner :: "guest_kit \<Rightarrow> guest_shell \<Rightarrow> runner_versions \<Rightarrow> unit guest" where
  "install_github_runner k shell v = (let b = runner_builder shell in do {
     report_call (JobStep phase_install);
     version \<leftarrow> with_cache (github_version (gk_api k) (jt_queued (gk_times k)) (gk_saves k) (rv_github v));
     try_bind (if shell_is_windows shell then give X64
               else try_bind (execute k ''uname -m'') (\<lambda>uname.
                 give (case from_uname (co_stdout uname) of Some a \<Rightarrow> a | None \<Rightarrow> X64))) (\<lambda>a. do {
       src \<leftarrow> cache_install k (\<lambda>session. install_github (gk_sha k) (gk_b64 k) (gk_api k) (gk_http k) (gk_io k) (gk_times k)
         session b version a);
       try_bind (if source_installed src then give ()
                 else do {
                   sha256 \<leftarrow> with_cache (github_checksum (gk_api k) version (rb_platform b) a);
                   try_bind (execute k (builder_install_command (gk_b64 k) (gk_unix_script k) (gk_windows_script k) b
                     version a sha256)) (\<lambda>install.
                   if co_exit_code install \<noteq> 0 then fail_with (failed_with ''Failed to install runner (exit code '' install '')'')
                   else give ()) }) (\<lambda>_. do {
         report_call (JobStep phase_setup);
         give () }) }) })"

definition prepare_github :: "guest_kit \<Rightarrow> guest_shell \<Rightarrow> guest_job \<Rightarrow> runner_versions \<Rightarrow> prepared_runner guest" where
  "prepare_github k shell job v = (let b = runner_builder shell; jit = (gj_jit_config job \<noteq> []) in
     try_bind (execute k (check_installed_command (gk_b64 k) b)) (\<lambda>check.
     try_bind (if str_trim (co_stdout check) \<noteq> ''installed'' then install_github_runner k shell v
               else do { report_call (SkipJobStep phase_install); give () }) (\<lambda>_.
     if jit then
       try_bind (execute_secret k (write_jit_config_command (gk_b64 k) b (gj_jit_config job)) ''write JIT config'') (\<lambda>w.
       if co_exit_code w \<noteq> 0 then fail_with (failed_with ''Failed to write JIT config to VM (exit code '' w '')'')
       else give \<lparr>pp_kind = PreparedGithub b jit, pp_command = run_command_jit_from_file (gk_b64 k) b\<rparr>)
     else
       try_bind (execute_secret k (config_command (gk_b64 k) b (gj_runner_scope_url job) (gj_registration_token job)
         (gj_labels job) (gj_runner_name job)) ''config.sh (registration token)'') (\<lambda>out.
       if co_exit_code out \<noteq> 0 then fail_with (failed_with ''Configuration failed with exit code '' out [])
       else give \<lparr>pp_kind = PreparedGithub b jit, pp_command = run_command_direct (gk_b64 k) b\<rparr>))))"

text \<open>What is fetched when the runner ended within thirty seconds, for the log only.\<close>

definition fast_exit_diagnostics :: "guest_kit \<Rightarrow> guest_shell \<Rightarrow> runner_config_builder \<Rightarrow> (guest_session, unit) state" where
  "fast_exit_diagnostics k shell b = do {
     _ \<leftarrow> execute k (diag_log_command (gk_b64 k) b 100);
     _ \<leftarrow> (if shell_is_windows shell then do { _ \<leftarrow> execute k (check_installed_command (gk_b64 k) b); ret () } else ret ());
     ret () }"

definition run_github :: "guest_kit \<Rightarrow> guest_shell \<Rightarrow> runner_config_builder \<Rightarrow> string \<Rightarrow> unit guest" where
  "run_github k shell b command = do {
     n \<leftarrow> gets (\<lambda>s. length (gu_sent s));
     try_bind (execute k command) (\<lambda>out. do {
       _ \<leftarrow> (if gk_elapsed k n < 30000 then fast_exit_diagnostics k shell b else ret ());
       if co_exit_code out \<noteq> 0 then fail_with (failed_with ''Runner exited with code '' out []) else give () }) }"

section \<open>Forgejo's runner\<close>

definition guest_one_job :: "forgejo_runner \<Rightarrow> string list \<Rightarrow> one_job" where
  "guest_one_job f ls = \<lparr>oj_instance_url = fr_instance_url f, oj_uuid = fr_uuid f, oj_token = fr_token f,
     oj_handle = fr_handle f, oj_labels = ls\<rparr>"

definition install_forgejo_runner :: "guest_kit \<Rightarrow> guest_shell \<Rightarrow> runner_versions \<Rightarrow> unit guest" where
  "install_forgejo_runner k shell v = (let version = resolve_version (rv_forgejo v) in do {
     report_call (JobStep phase_install);
     try_bind (if shell_is_windows shell then give (OsWindows, X64)
               else try_bind (execute k ''uname -m'') (\<lambda>uname. case from_uname (co_stdout uname) of
                 None \<Rightarrow> fail_with (RunnerFailed (''forgejo-runner has no release for architecture '' @ str_trim (co_stdout uname)))
               | Some a \<Rightarrow> give (if shell = ShellMacOS then OsMacOS else OsLinux, a))) (\<lambda>(os, a).
     let url = forgejo_download_url (rv_forgejo_url v) version os a in do {
       src \<leftarrow> cache_install k (\<lambda>session. install_forgejo (gk_sha k) (gk_b64 k) (gk_text k) (gk_http k) (gk_io k) (gk_times k)
         session url version os a);
       try_bind (if source_installed src then give ()
                 else try_bind (execute k (if shell_is_windows shell then windows_install_command (gk_b64 k) url WINDOWS_RUNNER_DIR
                   else forgejo_install_command (gk_forgejo_script k) url version os a)) (\<lambda>install.
                   if co_exit_code install \<noteq> 0 then fail_with (failed_with (''Failed to install forgejo-runner v'' @ version @ '' (exit code '') install '')'')
                   else give ())) (\<lambda>_. do {
         report_call (JobStep phase_setup);
         give () }) }) })"

definition prepare_forgejo ::
  "guest_kit \<Rightarrow> guest_shell \<Rightarrow> forgejo_runner \<Rightarrow> string list \<Rightarrow> runner_versions \<Rightarrow> prepared_runner guest" where
  "prepare_forgejo k shell f ls v = (let windows = shell_is_windows shell; job = guest_one_job f ls in
     try_bind (execute k (if windows then windows_check_installed_command (gk_b64 k) WINDOWS_RUNNER_DIR
       else forgejo_check_installed_command)) (\<lambda>check.
     try_bind (if str_trim (co_stdout check) \<noteq> ''installed'' then install_forgejo_runner k shell v
               else do { report_call (SkipJobStep phase_install); give () }) (\<lambda>_.
     (case (if windows then windows_prepare_command (gk_b64 k) job WINDOWS_RUNNER_DIR else prepare_command job) of
        Inl e \<Rightarrow> fail_with (RunnerFailed e)
      | Inr prepare \<Rightarrow>
          try_bind (execute_secret k prepare ''write forgejo-runner job files (runner token)'') (\<lambda>out.
          if co_exit_code out \<noteq> 0 then fail_with (failed_with ''Failed to write forgejo-runner job files (exit code '' out '')'')
          else give \<lparr>pp_kind = PreparedForgejo (fr_handle f),
            pp_command = (if windows then windows_run_command WINDOWS_RUNNER_DIR else forgejo_run_command)\<rparr>)))))"

definition run_forgejo :: "guest_kit \<Rightarrow> string \<Rightarrow> unit guest" where
  "run_forgejo k command =
     try_bind (execute k command) (\<lambda>out.
       if co_exit_code out \<noteq> 0 then fail_with (failed_with ''forgejo-runner exited with code '' out []) else give ())"

section \<open>A job\<close>

definition guest_prepare :: "guest_kit \<Rightarrow> guest_shell \<Rightarrow> guest_job \<Rightarrow> runner_versions \<Rightarrow> prepared_runner guest" where
  "guest_prepare k shell job v = (case gj_forgejo job of
     Some f \<Rightarrow> prepare_forgejo k shell f (gj_labels job) v
   | None \<Rightarrow> prepare_github k shell job v)"

definition guest_run :: "guest_kit \<Rightarrow> guest_shell \<Rightarrow> prepared_runner \<Rightarrow> unit guest" where
  "guest_run k shell runner = (case pp_kind runner of
     PreparedGithub b _ \<Rightarrow> run_github k shell b (pp_command runner)
   | PreparedForgejo _ \<Rightarrow> run_forgejo k (pp_command runner))"

text \<open>\<^verbatim>\<open>configure_and_run\<close> of the backends that use a guest, once the session is there.\<close>

definition guest_session_run :: "guest_kit \<Rightarrow> guest_job \<Rightarrow> runner_versions \<Rightarrow> unit guest" where
  "guest_session_run k job v =
     try_bind (detect_shell k) (\<lambda>shell. do {
     sync_clock k shell;
     try_bind (guest_prepare k shell job v) (\<lambda>runner. do {
       report_call RunnerStarted;
       try_bind (guest_run k shell runner) (\<lambda>_.
         case gk_close k of None \<Rightarrow> give () | Some e \<Rightarrow> fail_with (SshFailed e)) }) })"

definition configure_and_run ::
  "guest_kit \<Rightarrow> ssh_net \<Rightarrow> ssh_client \<Rightarrow> nat \<Rightarrow> guest_job \<Rightarrow> runner_versions \<Rightarrow> unit guest" where
  "configure_and_run k net client retries job v = (case fst (connect_with_retries net client retries) of
     Inl e \<Rightarrow> fail_with (SshFailed e)
   | Inr _ \<Rightarrow> guest_session_run k job v)"

end
