(* ===== verification/Libvirt.thy ===== *)
theory Libvirt
  imports Libvirt_Config Guest
begin

text \<open>
  \<^verbatim>\<open>kuiper-libvirt-agent/src/libvirt.rs\<close> and \<^verbatim>\<open>backend.rs\<close>: overlays, domains and files of runner
  VMs through virsh and qemu-img. What a command prints, what a file operation comes to and how long each takes
  is the answer of an environment to the \<open>n\<close>-th step; the state is the time and everything that was done.
  File contents are byte strings. The JSON of qemu-img is an argument.
\<close>

section \<open>The host\<close>

datatype lv_event =
    Ran "string list" "string + cmd_output"
  | Exists string "string + bool"
  | WroteFile string string "string option"
  | CreatedFile string string "string option"
  | ReadFile string "string option"
  | RemovedFile string
  | ReadDir "string + string list \<times> bool"
  | Slept nat
  | WaitedForPort "ssh_error + unit"

record lv_host =
  lh_run :: "nat \<Rightarrow> string list \<Rightarrow> string + cmd_output"
  lh_exists :: "nat \<Rightarrow> string \<Rightarrow> string + bool"
  lh_write :: "nat \<Rightarrow> string \<Rightarrow> string option"
  lh_read :: "nat \<Rightarrow> string \<Rightarrow> string option"
  lh_dir :: "nat \<Rightarrow> string + string list \<times> bool"
  lh_dial :: "nat \<Rightarrow> nat \<Rightarrow> nat \<times> bool"
  lh_took :: "nat \<Rightarrow> nat"
  lh_format :: "string \<Rightarrow> string option"

record lv_state =
  li_now :: nat
  li_log :: "lv_event list"

datatype lv_error = LibvirtError string | VmError string | IoError string | LvTimeout string | LvSsh ssh_error

type_synonym 'a lv = "(lv_state, lv_error + 'a) state"

text \<open>One step: what happened, given its number, and how long it took beyond what it waits for.\<close>

definition lv_step :: "lv_host \<Rightarrow> nat \<Rightarrow> (nat \<Rightarrow> lv_event) \<Rightarrow> (lv_state, lv_event) state" where
  "lv_step h wait f = State (\<lambda>s. let n = length (li_log s) in
     (f n, s\<lparr>li_now := li_now s + wait + lh_took h n, li_log := li_log s @ [f n]\<rparr>))"

definition run_cmd :: "lv_host \<Rightarrow> string list \<Rightarrow> cmd_output lv" where
  "run_cmd h args = do {
     e \<leftarrow> lv_step h 0 (\<lambda>n. Ran args (lh_run h n args));
     case e of Ran _ (Inr out) \<Rightarrow> give out | Ran _ (Inl m) \<Rightarrow> fail_with (LibvirtError m) | _ \<Rightarrow> fail_with (LibvirtError []) }"

definition check_output :: "string \<Rightarrow> cmd_output \<Rightarrow> string lv" where
  "check_output what out = (if cd_success out then give (cd_stdout out)
     else fail_with (LibvirtError (what @ '' failed: '' @ str_trim (cd_stderr out))))"

section \<open>Domain XML\<close>

definition DISK_SUFFIX :: string where "DISK_SUFFIX = ''.kuiper.qcow2''"

definition XML_SUFFIX :: string where "XML_SUFFIX = ''.kuiper.xml''"

definition NVRAM_SUFFIX :: string where "NVRAM_SUFFIX = ''.kuiper.VARS.fd''"

definition MARKER_NS :: string where "MARKER_NS = ''https://github.com/AstroHQ/kuiper-forge/libvirt-agent''"

record domain_spec =
  ds_name :: string
  ds_disk :: string
  ds_vcpus :: nat
  ds_memory_mib :: nat
  ds_network :: string
  ds_bridge :: "string option"
  ds_hardware :: hardware
  ds_template :: "string option"

text \<open>Lines, each with its end.\<close>

definition text_lines :: "string list \<Rightarrow> string" where
  "text_lines ls = concat (map (\<lambda>l. l @ [NEWLINE]) ls)"

definition os_lines :: "hardware \<Rightarrow> string list" where
  "os_lines h =
     [''    <type'' @ (case hw_machine h of None \<Rightarrow> [] | Some MachinePc \<Rightarrow> '' machine='pc'' @ [QUOTE]
        | Some MachineQ35 \<Rightarrow> '' machine='q35'' @ [QUOTE]) @ ''>hvm</type>''] @
     (if hw_firmware h = Uefi then
        [''    <firmware>'',
         ''      <feature enabled='' @ [QUOTE] @ (if hw_secure_boot h then ''yes'' else ''no'') @ [QUOTE] @ '' name='secure-boot'/>''] @
        (if hw_secure_boot h \<and> hw_uefi_vars h = None then [''      <feature enabled='yes' name='enrolled-keys'/>''] else []) @
        [''    </firmware>'', ''    <nvram>{nvram}</nvram>'']
      else [])"

definition feature_lines :: "hardware \<Rightarrow> string list" where
  "feature_lines h = [''    <acpi/>'', ''    <apic/>''] @
     (if hw_os h = GuestWindows then
        [''    <hyperv mode='custom'>'', ''      <relaxed state='on'/>'', ''      <vapic state='on'/>'',
         ''      <spinlocks state='on' retries='8191'/>'', ''      <vpindex state='on'/>'', ''      <synic state='on'/>'',
         ''      <stimer state='on'/>'', ''      <frequencies state='on'/>'', ''    </hyperv>'']
      else [])"

definition clock_lines :: "hardware \<Rightarrow> string list" where
  "clock_lines h = (if hw_os h = GuestWindows
     then [''  <clock offset='localtime'>'', ''    <timer name='hypervclock' present='yes'/>'', ''  </clock>'']
     else [''  <clock offset='utc'/>''])"

definition disk_lines :: "hardware \<Rightarrow> string list" where
  "disk_lines h = (case hw_disk_bus h of
     BusVirtio \<Rightarrow>
       [''    <disk type='file' device='disk'>'', ''      <driver name='qemu' type='qcow2' discard='unmap'/>'',
        ''      <source file='{disk}'/>'', ''      <target dev='vda' bus='virtio'/>'', ''    </disk>'']
   | BusScsi \<Rightarrow>
       [''    <controller type='scsi' model='virtio-scsi'/>'',
        ''    <disk type='file' device='disk'>'', ''      <driver name='qemu' type='qcow2' discard='unmap'/>'',
        ''      <source file='{disk}'/>'', ''      <target dev='sda' bus='scsi'/>'', ''    </disk>''])"

definition tpm_lines :: "hardware \<Rightarrow> string list" where
  "tpm_lines h = (if hw_tpm h then
     [''    <tpm model='tpm-crb'>'', ''      <backend type='emulator' version='2.0'/>'', ''    </tpm>''] else [])"

definition domain_template :: "hardware \<Rightarrow> string" where
  "domain_template h = text_lines (
     [''<domain type='kvm'>'', ''  <name>{name}</name>'', ''  <metadata>'', ''    {metadata}'', ''  </metadata>'',
      ''  <memory unit='MiB'>{memory_mib}</memory>'', ''  <vcpu>{vcpus}</vcpu>'',
      ''  <os'' @ (if hw_firmware h = Uefi then '' firmware='efi'' @ [QUOTE] else []) @ ''>''] @
     os_lines h @ [''  </os>'', ''  <features>''] @ feature_lines h @
     [''  </features>'', ''  <cpu mode='host-passthrough'>'', ''    <topology sockets='1' cores='{vcpus}' threads='1'/>'',
      ''  </cpu>''] @ clock_lines h @
     [''  <on_poweroff>destroy</on_poweroff>'', ''  <on_reboot>restart</on_reboot>'', ''  <on_crash>destroy</on_crash>'',
      ''  <devices>''] @ disk_lines h @
     [''    {interface}'', ''    <channel type='unix'>'', ''      <target type='virtio' name='org.qemu.guest_agent.0'/>'',
      ''    </channel>'', ''    <serial type='pty'/>'', ''    <console type='pty'/>''] @ tpm_lines h @
     [''    <rng model='virtio'>'', ''      <backend model='random'>/dev/urandom</backend>'', ''    </rng>'',
      ''    <memballoon model='virtio'/>'', ''  </devices>'', ''</domain>''])"

text \<open>\<^verbatim>\<open>str::rfind\<close>: the text behind the last occurrence of a pattern.\<close>

definition after_last :: "string \<Rightarrow> string \<Rightarrow> string option" where
  "after_last pat s = map_option (\<lambda>(a, _). rev a) (split_once_str (rev pat) (rev s))"

definition check_template :: "string \<Rightarrow> bool" where
  "check_template t = (case split_once_str ''{metadata}'' t of
     None \<Rightarrow> False
   | Some (before, rest) \<Rightarrow> (case after_last ''<metadata>'' before of
       None \<Rightarrow> False
     | Some opened \<Rightarrow> \<not> str_contains ''</metadata>'' (''<metadata>'' @ opened) \<and>
         str_contains ''</metadata>'' (''{metadata}'' @ rest)))"

definition VARS_SIZES :: "nat list" where "VARS_SIZES = [128 * 1024, 528 * 1024]"

definition trim_vars :: "string \<Rightarrow> string" where
  "trim_vars vars = (case List.find (\<lambda>n. n < length vars \<and> list_all (\<lambda>b. b = CHR 0x00) (drop n vars)) VARS_SIZES of
     Some n \<Rightarrow> take n vars | None \<Rightarrow> vars)"

definition xml_escape :: "string \<Rightarrow> string" where
  "xml_escape s = replace_str [DQUOTE] ''&quot;'' (replace_str [QUOTE] ''&apos;'' (replace_str ''>'' ''&gt;''
     (replace_str ''<'' ''&lt;'' (replace_str ''&'' ''&amp;'' s))))"

record libvirt =
  lv_uri :: string
  lv_disk_dir :: string

definition disk_path :: "libvirt \<Rightarrow> string \<Rightarrow> string" where
  "disk_path lv name = join_path (lv_disk_dir lv) (name @ DISK_SUFFIX)"

definition xml_path :: "libvirt \<Rightarrow> string \<Rightarrow> string" where
  "xml_path lv name = join_path (lv_disk_dir lv) (name @ XML_SUFFIX)"

definition nvram_path :: "libvirt \<Rightarrow> string \<Rightarrow> string" where
  "nvram_path lv name = join_path (lv_disk_dir lv) (name @ NVRAM_SUFFIX)"

definition interface_xml :: "domain_spec \<Rightarrow> string" where
  "interface_xml spec = (case ds_bridge spec of
     Some bridge \<Rightarrow> ''<interface type='bridge'><source bridge='' @ [QUOTE] @ xml_escape bridge @ [QUOTE] @
       ''/><model type='virtio'/></interface>''
   | None \<Rightarrow> ''<interface type='network'><source network='' @ [QUOTE] @ xml_escape (ds_network spec) @ [QUOTE] @
       ''/><model type='virtio'/></interface>'')"

definition metadata_xml :: "libvirt \<Rightarrow> string" where
  "metadata_xml lv = ''<kuiper:runner xmlns:kuiper='' @ [QUOTE] @ MARKER_NS @ [QUOTE] @ '' disk-dir='' @ [QUOTE] @
     xml_escape (lv_disk_dir lv) @ [QUOTE] @ ''/>''"

definition domain_xml :: "libvirt \<Rightarrow> domain_spec \<Rightarrow> string" where
  "domain_xml lv spec =
     (let template = (case ds_template spec of Some t \<Rightarrow> t | None \<Rightarrow> domain_template (ds_hardware spec)) in
      replace_str ''{metadata}'' (metadata_xml lv)
       (replace_str ''{interface}'' (interface_xml spec)
       (replace_str ''{memory_mib}'' (nat_to_string (ds_memory_mib spec))
       (replace_str ''{vcpus}'' (nat_to_string (ds_vcpus spec))
       (replace_str ''{nvram}'' (xml_escape (nvram_path lv (ds_name spec)))
       (replace_str ''{disk}'' (xml_escape (ds_disk spec))
       (replace_str ''{name}'' (xml_escape (ds_name spec)) template)))))))"

definition is_ours :: "libvirt \<Rightarrow> string \<Rightarrow> bool" where
  "is_ours lv xml = (let dir = xml_escape (lv_disk_dir lv) in
     str_contains MARKER_NS xml \<and>
     (str_contains (''disk-dir='' @ [QUOTE] @ dir @ [QUOTE]) xml \<or> str_contains (''disk-dir='' @ [DQUOTE] @ dir @ [DQUOTE]) xml))"

section \<open>Commands\<close>

definition virsh_args :: "libvirt \<Rightarrow> string list \<Rightarrow> string option \<Rightarrow> string list" where
  "virsh_args lv args file = ''virsh'' # ''-c'' # lv_uri lv # args @ (case file of None \<Rightarrow> [] | Some f \<Rightarrow> [f])"

definition virsh :: "lv_host \<Rightarrow> libvirt \<Rightarrow> string list \<Rightarrow> string option \<Rightarrow> cmd_output lv" where
  "virsh h lv args file = run_cmd h (virsh_args lv args file)"

definition image_format :: "lv_host \<Rightarrow> string \<Rightarrow> string lv" where
  "image_format h img =
     try_bind (run_cmd h [''qemu-img'', ''info'', ''--output=json'', img]) (\<lambda>out.
     try_bind (check_output ''qemu-img info'' out) (\<lambda>json.
     case lh_format h json of None \<Rightarrow> fail_with (LibvirtError ''bad qemu-img info output'') | Some f \<Rightarrow> give f))"

definition create_overlay :: "lv_host \<Rightarrow> libvirt \<Rightarrow> string \<Rightarrow> string \<Rightarrow> string lv" where
  "create_overlay h lv name img = (let disk = disk_path lv name in do {
     e \<leftarrow> lv_step h 0 (\<lambda>n. Exists disk (lh_exists h n disk));
     case e of
       Exists _ (Inr False) \<Rightarrow>
         try_bind (image_format h img) (\<lambda>format.
         try_bind (run_cmd h [''qemu-img'', ''create'', ''-f'', ''qcow2'', ''-F'', format, ''-b'', img, disk]) (\<lambda>out.
         try_bind (check_output ''qemu-img create'' out) (\<lambda>_. give disk)))
     | Exists _ (Inr True) \<Rightarrow> fail_with (LibvirtError (''disk '' @ disk @ '' already exists''))
     | _ \<Rightarrow> fail_with (IoError disk) })"

definition is_not_found :: "string \<Rightarrow> bool" where
  "is_not_found err \<longleftrightarrow> str_contains ''failed to get domain'' err \<or> str_contains ''Domain not found'' err"

definition owns_domain :: "lv_host \<Rightarrow> libvirt \<Rightarrow> string \<Rightarrow> bool option lv" where
  "owns_domain h lv name =
     try_bind (virsh h lv [''dumpxml'', name] None) (\<lambda>out.
       if \<not> cd_success out then
         if is_not_found (cd_stderr out) then give None
         else fail_with (LibvirtError (''virsh dumpxml '' @ name @ '' failed: '' @ str_trim (cd_stderr out)))
       else give (Some (is_ours lv (cd_stdout out))))"

text \<open>The variable store of a VM starts as a copy. \<^verbatim>\<open>create_new\<close> fails when the file is there.\<close>

definition write_vars :: "lv_host \<Rightarrow> libvirt \<Rightarrow> string \<Rightarrow> string \<Rightarrow> unit lv" where
  "write_vars h lv name vars = do {
     e \<leftarrow> lv_step h 0 (\<lambda>n. ReadFile vars (lh_read h n vars));
     case e of
       ReadFile _ (Some contents) \<Rightarrow> do {
         w \<leftarrow> lv_step h 0 (\<lambda>n. CreatedFile (nvram_path lv name) (trim_vars contents) (lh_write h n (nvram_path lv name)));
         case w of CreatedFile _ _ None \<Rightarrow> give () | _ \<Rightarrow> fail_with (IoError (nvram_path lv name)) }
     | _ \<Rightarrow> fail_with (LibvirtError (''failed to read uefi_vars '' @ vars)) }"

text \<open>A domain that was just created without the marker is stopped regardless.\<close>

definition stop_unmarked :: "lv_host \<Rightarrow> libvirt \<Rightarrow> string \<Rightarrow> unit lv" where
  "stop_unmarked h lv name =
     try_bind (virsh h lv [''destroy'', name] None) (\<lambda>out.
     try_bind (check_output ''virsh destroy'' out) (\<lambda>_.
     fail_with (LibvirtError (''domain '' @ name @ '' came up without the marker''))))"

definition confirm_marker :: "lv_host \<Rightarrow> libvirt \<Rightarrow> string \<Rightarrow> unit lv" where
  "confirm_marker h lv name =
     try_bind (owns_domain h lv name) (\<lambda>owned. if owned = Some True then give () else stop_unmarked h lv name)"

definition create_domain :: "lv_host \<Rightarrow> libvirt \<Rightarrow> string \<Rightarrow> unit lv" where
  "create_domain h lv name =
     try_bind (virsh h lv [''create''] (Some (xml_path lv name))) (\<lambda>out.
       if cd_success out then confirm_marker h lv name
       else fail_with (LibvirtError (''virsh create failed: '' @ str_trim (cd_stderr out))))"

definition start_domain :: "lv_host \<Rightarrow> libvirt \<Rightarrow> domain_spec \<Rightarrow> unit lv" where
  "start_domain h lv spec =
     try_bind (case hw_uefi_vars (ds_hardware spec) of None \<Rightarrow> give () | Some vars \<Rightarrow> write_vars h lv (ds_name spec) vars) (\<lambda>_. do {
       w \<leftarrow> lv_step h 0 (\<lambda>n. WroteFile (xml_path lv (ds_name spec)) (domain_xml lv spec) (lh_write h n (xml_path lv (ds_name spec))));
       case w of
         WroteFile _ _ None \<Rightarrow> create_domain h lv (ds_name spec)
       | _ \<Rightarrow> fail_with (IoError (xml_path lv (ds_name spec))) })"

section \<open>Addresses\<close>

fun usable_ip :: "ipv4 \<Rightarrow> bool" where
  "usable_ip (a, b, c, d) \<longleftrightarrow> a \<noteq> 127 \<and> \<not> (a = 169 \<and> b = 254)"

definition line_address :: "string \<Rightarrow> ipv4 option" where
  "line_address line = (case rev (split_white line) of
     address # protocol # _ \<Rightarrow>
       if protocol = ''ipv4'' then parse_ipv4 (hd (split_on (CHR ''/'') address)) else None
   | _ \<Rightarrow> None)"

definition parse_domifaddr :: "string \<Rightarrow> ipv4 option" where
  "parse_domifaddr output = List.find usable_ip (List.map_filter line_address (str_lines output))"

fun ip_sources :: "ip_source \<Rightarrow> string list" where
  "ip_sources SourceLease = [''lease'']"
| "ip_sources SourceAgent = [''agent'']"
| "ip_sources SourceAny = [''lease'', ''agent'']"

fun try_sources :: "lv_host \<Rightarrow> libvirt \<Rightarrow> string \<Rightarrow> string list \<Rightarrow> ipv4 option lv" where
  "try_sources h lv name [] = give None"
| "try_sources h lv name (source # sources) =
     try_bind (virsh h lv [''domifaddr'', name, ''--source'', source] None) (\<lambda>out.
       if \<not> cd_success out then try_sources h lv name sources
       else (case parse_domifaddr (cd_stdout out) of
         Some ip \<Rightarrow> give (Some ip) | None \<Rightarrow> try_sources h lv name sources))"

definition domain_ip :: "lv_host \<Rightarrow> libvirt \<Rightarrow> string \<Rightarrow> ip_source \<Rightarrow> ipv4 option lv" where
  "domain_ip h lv name source = try_sources h lv name (ip_sources source)"

section \<open>Destroying\<close>

definition stop_domain :: "lv_host \<Rightarrow> libvirt \<Rightarrow> string \<Rightarrow> unit lv" where
  "stop_domain h lv name =
     try_bind (owns_domain h lv name) (\<lambda>owned. case owned of
       Some True \<Rightarrow>
         try_bind (virsh h lv [''destroy'', name] None) (\<lambda>out.
           if cd_success out \<or> is_not_found (cd_stderr out) then give ()
           else fail_with (LibvirtError (''virsh destroy '' @ name @ '' failed: '' @ str_trim (cd_stderr out))))
     | Some False \<Rightarrow> fail_with (LibvirtError (''domain '' @ name @ '' isn't one of this agent's VMs''))
     | None \<Rightarrow> give ())"

text \<open>What removing a file comes to is only logged. A directory's entries come one at a time and reading them can
  break off: the names until then, and whether that was all of them.\<close>

fun remove_files :: "lv_host \<Rightarrow> string list \<Rightarrow> (lv_state, unit) state" where
  "remove_files h [] = ret ()"
| "remove_files h (p # ps) = do { _ \<leftarrow> lv_step h 0 (\<lambda>n. RemovedFile p); remove_files h ps }"

definition lv_destroy :: "lv_host \<Rightarrow> libvirt \<Rightarrow> string \<Rightarrow> unit lv" where
  "lv_destroy h lv name =
     try_bind (stop_domain h lv name) (\<lambda>_. do {
       remove_files h [disk_path lv name, xml_path lv name, nvram_path lv name];
       give () })"

fun sweep_domains :: "lv_host \<Rightarrow> libvirt \<Rightarrow> string list \<Rightarrow> unit lv" where
  "sweep_domains h lv [] = give ()"
| "sweep_domains h lv (name # names) =
     try_bind (owns_domain h lv name) (\<lambda>owned.
     try_bind (if owned = Some True then lv_destroy h lv name else give ()) (\<lambda>_.
     sweep_domains h lv names))"

definition our_file :: "string \<Rightarrow> bool" where
  "our_file f \<longleftrightarrow> list_ex (\<lambda>suffix. ends_with f suffix) [DISK_SUFFIX, XML_SUFFIX, NVRAM_SUFFIX]"

definition sweep_leftovers :: "lv_host \<Rightarrow> libvirt \<Rightarrow> unit lv" where
  "sweep_leftovers h lv =
     try_bind (virsh h lv [''list'', ''--name''] None) (\<lambda>out.
     try_bind (check_output ''virsh list'' out) (\<lambda>names.
     try_bind (sweep_domains h lv (filter (\<lambda>n. n \<noteq> []) (map str_trim (str_lines names)))) (\<lambda>_. do {
       e \<leftarrow> lv_step h 0 (\<lambda>n. ReadDir (lh_dir h n));
       case e of
         ReadDir (Inr (files, ended)) \<Rightarrow> do {
           remove_files h (map (join_path (lv_disk_dir lv)) (filter our_file files));
           if ended then give () else fail_with (IoError (lv_disk_dir lv)) }
       | _ \<Rightarrow> fail_with (IoError (lv_disk_dir lv)) })))"

section \<open>The backend\<close>

record image_vm =
  iv_vcpus :: nat
  iv_memory_mib :: nat
  iv_hardware :: hardware
  iv_template :: "string option"

record libvirt_backend =
  bl_libvirt :: libvirt
  bl_labels :: "string list"
  bl_vm :: libvirt_vm_config
  bl_ssh :: ssh_config
  bl_network :: string
  bl_bridge :: "string option"
  bl_ip_source :: ip_source
  bl_images :: "(string, image_vm) hashmap"

record libvirt_vm =
  vm_name' :: string
  vm_image' :: string

definition read_template :: "(string \<Rightarrow> string option) \<Rightarrow> hardware \<Rightarrow> lv_error + string option" where
  "read_template read_file hw = (case hw_domain_template hw of
     None \<Rightarrow> Inr None
   | Some path \<Rightarrow> (case read_file path of
       None \<Rightarrow> Inl (VmError (''failed to read domain template '' @ path))
     | Some t \<Rightarrow> if check_template t then Inr (Some t) else Inl (VmError (''domain template '' @ path))))"

text \<open>The first entry of an image wins.\<close>

fun load_images :: "(string \<Rightarrow> string option) \<Rightarrow> (string \<times> nat \<times> nat \<times> hardware) list \<Rightarrow> (string, image_vm) hashmap \<Rightarrow>
    lv_error + (string, image_vm) hashmap" where
  "load_images read_file [] images = Inr images"
| "load_images read_file ((img, vcpus, memory, hw) # rest) images = (case read_template read_file hw of
     Inl e \<Rightarrow> Inl e
   | Inr t \<Rightarrow> load_images read_file rest
       (if hm_contains images img then images
        else hm_insert img \<lparr>iv_vcpus = vcpus, iv_memory_mib = memory, iv_hardware = hw, iv_template = t\<rparr> images))"

definition configured_images :: "libvirt_vm_config \<Rightarrow> (string \<times> nat \<times> nat \<times> hardware) list" where
  "configured_images vm = (vc_image vm, vc_vcpus vm, vc_memory_mib vm, vc_hardware vm) #
     map (\<lambda>m. (im_image m, case im_vcpus m of Some v \<Rightarrow> v | None \<Rightarrow> vc_vcpus vm,
       case im_memory_mib m of Some v \<Rightarrow> v | None \<Rightarrow> vc_memory_mib vm, im_hardware m)) (vc_image_mappings vm)"

definition new_libvirt_backend :: "(string \<Rightarrow> string option) \<Rightarrow> libvirt_agent_config \<Rightarrow> lv_error + libvirt_backend" where
  "new_libvirt_backend read_file c = (case load_images read_file (configured_images (la_vm c)) [] of
     Inl e \<Rightarrow> Inl e
   | Inr images \<Rightarrow> Inr \<lparr>bl_libvirt = \<lparr>lv_uri = lb_uri (la_libvirt c), lv_disk_dir = lb_disk_dir (la_libvirt c)\<rparr>,
       bl_labels = la_labels c, bl_vm = la_vm c, bl_ssh = la_ssh c, bl_network = lb_network (la_libvirt c),
       bl_bridge = lb_bridge (la_libvirt c), bl_ip_source = lb_ip_source (la_libvirt c), bl_images = images\<rparr>)"

definition image_of :: "libvirt_backend \<Rightarrow> string \<Rightarrow> lv_error + image_vm" where
  "image_of b img = (case hm_get (bl_images b) img of
     None \<Rightarrow> Inl (VmError (''image '' @ img @ '' isn't in the config'')) | Some i \<Rightarrow> Inr i)"

definition check_name :: "string \<Rightarrow> bool" where
  "check_name name \<longleftrightarrow> name \<noteq> [] \<and> length name \<le> 64 \<and> \<not> is_prefix_of ''.'' name \<and>
     list_all (\<lambda>c. ascii_alphanumeric c \<or> c \<in> {CHR ''-'', CHR ''_'', CHR ''.''}) name"

definition libvirt_select_image :: "libvirt_backend \<Rightarrow> create_runner_command \<Rightarrow> string" where
  "libvirt_select_image b cmd =
     (case mapping_for (bl_labels b) (vc_image (bl_vm b)) (map image_label_mapping (vc_image_mappings (bl_vm b)))
        (cr_label_set_id cmd) (cr_labels cmd) of
        Some m \<Rightarrow> lm_id m | None \<Rightarrow> vc_image (bl_vm b))"

definition libvirt_vm_backend :: "libvirt_backend \<Rightarrow> libvirt_vm vm_backend" where
  "libvirt_vm_backend b = \<lparr>bk_labels = bl_labels b,
     bk_capabilities = capabilities (bl_labels b) (vc_image (bl_vm b)) (map image_label_mapping (vc_image_mappings (bl_vm b))),
     bk_select_image = libvirt_select_image b, bk_vm_id = vm_name'\<rparr>"

definition libvirt_create :: "lv_host \<Rightarrow> libvirt_backend \<Rightarrow> string \<Rightarrow> string \<Rightarrow> libvirt_vm lv" where
  "libvirt_create h b name img =
     (if \<not> check_name name then fail_with (VmError name)
      else (case image_of b img of
        Inl e \<Rightarrow> fail_with e
      | Inr _ \<Rightarrow> try_bind (create_overlay h (bl_libvirt b) name img) (\<lambda>_. give \<lparr>vm_name' = name, vm_image' = img\<rparr>)))"

text \<open>Asking for the address until there is one or the deadline has passed, with two seconds between.\<close>

lemma lv_step_now: "li_now s + wait \<le> li_now (snd (run_state (lv_step h wait f) s))"
  by (simp add: lv_step_def Let_def)

lemma run_cmd_now: "li_now s \<le> li_now (snd (run_state (run_cmd h args) s))"
  using lv_step_now [of s 0 h "\<lambda>n. Ran args (lh_run h n args)"]
  by (auto simp: run_cmd_def give_def fail_with_def split: prod.split lv_event.split sum.split)

lemma try_sources_now: "li_now s \<le> li_now (snd (run_state (try_sources h lv name sources) s))"
proof (induction sources arbitrary: s)
  case (Cons source sources)
  obtain r s1 where r: "run_state (virsh h lv [''domifaddr'', name, ''--source'', source] None) s = (r, s1)" by fastforce
  have "li_now s \<le> li_now s1" using run_cmd_now [of s h] r by (metis snd_conv virsh_def)
  then show ?case using r Cons [of s1] by (auto simp: try_bind_def give_def split: sum.split option.split)
qed (simp add: give_def)

lemma domain_ip_now: "li_now s \<le> li_now (snd (run_state (domain_ip h lv name source) s))"
  by (simp add: domain_ip_def try_sources_now)

function wait_for_ip :: "lv_host \<Rightarrow> libvirt \<Rightarrow> string \<Rightarrow> ip_source \<Rightarrow> nat \<Rightarrow> lv_state \<Rightarrow> (lv_error + ipv4) \<times> lv_state" where
  "wait_for_ip h lv name source deadline s = (let (r, t) = run_state (domain_ip h lv name source) s in
     case r of
       Inl e \<Rightarrow> (Inl e, t)
     | Inr (Some ip) \<Rightarrow> (Inr ip, t)
     | Inr None \<Rightarrow>
         if deadline \<le> li_now t then (Inl (LvTimeout name), t)
         else wait_for_ip h lv name source deadline (snd (run_state (lv_step h 2000 (\<lambda>_. Slept 2000)) t)))"
  by pat_completeness auto
termination
proof (relation "measure (\<lambda>(h, lv, name, source, deadline, s). deadline - li_now s)")
  fix h lv name source deadline s x r t and y :: "ipv4 option"
  assume a: "x = run_state (domain_ip h lv name source) s" "(r, t) = x" "\<not> deadline \<le> li_now t"
  then have "li_now s \<le> li_now t" using domain_ip_now by (metis snd_conv)
  then show "((h, lv, name, source, deadline, snd (run_state (lv_step h 2000 (\<lambda>_. Slept 2000)) t)), h, lv, name, source, deadline, s)
      \<in> measure (\<lambda>(h, lv, name, source, deadline, s). deadline - li_now s)"
    using a(3) lv_step_now [of t 2000 h "\<lambda>_. Slept 2000"] by auto
qed simp

declare wait_for_ip.simps [simp del]

definition start_spec :: "libvirt_backend \<Rightarrow> string \<Rightarrow> image_vm \<Rightarrow> domain_spec" where
  "start_spec b name img = \<lparr>ds_name = name, ds_disk = disk_path (bl_libvirt b) name, ds_vcpus = iv_vcpus img,
     ds_memory_mib = iv_memory_mib img, ds_network = bl_network b, ds_bridge = bl_bridge b,
     ds_hardware = iv_hardware img, ds_template = iv_template img\<rparr>"

definition libvirt_start :: "lv_host \<Rightarrow> (string \<Rightarrow> ssh_error option) \<Rightarrow> libvirt_backend \<Rightarrow> libvirt_vm \<Rightarrow> ipv4 lv" where
  "libvirt_start h load_key b vm = (let name = vm_name' vm; lv = bl_libvirt b in
     case image_of b (vm_image' vm) of
       Inl e \<Rightarrow> fail_with e
     | Inr img \<Rightarrow>
         try_bind (start_domain h lv (start_spec b name img)) (\<lambda>_. do {
           deadline \<leftarrow> gets (\<lambda>s. li_now s + vc_ip_timeout_secs (bl_vm b) * 1000);
           try_bind (State (wait_for_ip h lv name (bl_ip_source b) deadline)) (\<lambda>ip.
           case ssh_client_of load_key (bl_ssh b) of
             Inl e \<Rightarrow> fail_with (LvSsh e)
           | Inr client \<Rightarrow> do {
               now \<leftarrow> gets li_now;
               n \<leftarrow> gets (\<lambda>s. length (li_log s));
               let (r, ended) = wait_for_port (lh_dial h n) (max (deadline - now) (sg_timeout_secs (bl_ssh b) * 1000)) now in do {
                 _ \<leftarrow> lv_step h (ended - now) (\<lambda>_. WaitedForPort r);
                 case r of Inl e \<Rightarrow> fail_with (LvSsh e) | Inr _ \<Rightarrow> give ip } }) }))"

definition libvirt_destroy :: "lv_host \<Rightarrow> libvirt_backend \<Rightarrow> libvirt_vm \<Rightarrow> unit lv" where
  "libvirt_destroy h b vm = lv_destroy h (bl_libvirt b) (vm_name' vm)"

definition libvirt_destroy_untracked :: "lv_host \<Rightarrow> libvirt_backend \<Rightarrow> string \<Rightarrow> unit lv" where
  "libvirt_destroy_untracked h b vid =
     (if \<not> check_name vid then fail_with (VmError vid)
      else try_bind (owns_domain h (bl_libvirt b) vid) (\<lambda>owned.
        if owned = Some True then lv_destroy h (bl_libvirt b) vid
        else fail_with (VmError (''No VM named '' @ vid @ '' on this agent''))))"

end
