(* ===== verification/Libvirt_Facts.thy ===== *)
theory Libvirt_Facts
  imports Libvirt
begin

text \<open>
  What the libvirt agent promises its host: the domains it writes carry its marker, it stops only domains it has
  just seen the marker of (or has just created), and a VM's files go only once its domain is gone.
\<close>

section \<open>Templates\<close>

lemma is_prefix_of_iff: "is_prefix_of p s \<longleftrightarrow> (\<exists>t. s = p @ t)"
  by (induction p s rule: is_prefix_of.induct) auto

lemma str_contains_iff: "str_contains p s \<longleftrightarrow> (\<exists>a b. s = a @ p @ b)"
proof (induction p s rule: str_contains.induct)
  case (2 p x xs)
  have "(\<exists>a b. x # xs = a @ p @ b) \<longleftrightarrow> (\<exists>t. x # xs = p @ t) \<or> (\<exists>a b. xs = a @ p @ b)"
    by (metis append_Cons append_Nil list.exhaust list.inject)
  then show ?case using 2 by (simp add: is_prefix_of_iff)
qed auto

lemma str_contains_append: "str_contains p s \<Longrightarrow> str_contains p (a @ s @ b)"
  unfolding str_contains_iff by (metis append.assoc)

lemma str_contains_trans: "str_contains p q \<Longrightarrow> str_contains q s \<Longrightarrow> str_contains p s"
  unfolding str_contains_iff by (metis append.assoc)

text \<open>Placeholders: a brace that occurs only in front.\<close>

definition placeholder :: "string \<Rightarrow> bool" where
  "placeholder p \<longleftrightarrow> p \<noteq> [] \<and> hd p = CHR 0x7B \<and> CHR 0x7B \<notin> set (tl p)"

lemma replace_passes:
  assumes "placeholder p" "CHR 0x7B \<notin> set m"
  shows "replace_str p v (m @ rest) = m @ replace_str p v rest"
  using assms by (induction m) (auto simp: placeholder_def neq_Nil_conv)

lemma placeholders_apart:
  assumes p: "placeholder p" and m: "placeholder m" and ne: "\<not> is_prefix_of p m" "\<not> is_prefix_of m p"
    and eq: "p @ t = a @ m @ b"
  shows "\<exists>a'. t = a' @ m @ b"
proof (cases "length p \<le> length a")
  case True
  then have "t = drop (length p) a @ m @ b" using eq by (metis append_eq_conv_conj drop_append drop_eq_Nil2 append_Nil diff_is_0_eq drop_0)
  then show ?thesis by blast
next
  case False
  have "a = []"
  proof (rule ccontr)
    assume "a \<noteq> []"
    then obtain k where k: "length a = Suc k" by (cases a) auto
    have "(p @ t) ! length a = CHR 0x7B" using m unfolding eq by (cases m) (auto simp: placeholder_def)
    then have "tl p ! k = CHR 0x7B" using False k by (simp add: nth_append nth_tl)
    moreover have "k < length (tl p)" using False k by simp
    ultimately have "CHR 0x7B \<in> set (tl p)" by (metis nth_mem)
    then show False using p by (simp add: placeholder_def)
  qed
  then have "p @ t = m @ b" using eq by simp
  then have "is_prefix_of p m \<or> is_prefix_of m p" unfolding is_prefix_of_iff by (metis append_eq_append_conv2)
  then show ?thesis using ne by blast
qed

lemma replace_keeps:
  assumes p: "placeholder p" and m: "placeholder m" and ne: "\<not> is_prefix_of p m" "\<not> is_prefix_of m p"
  shows "str_contains m s \<Longrightarrow> str_contains m (replace_str p v s)"
proof (induction s rule: length_induct)
  case (1 s)
  obtain a b where s: "s = a @ m @ b" using 1(2) by (auto simp: str_contains_iff)
  have "p \<noteq> []" "m \<noteq> []" using p m by (auto simp: placeholder_def)
  then have "s \<noteq> []" using s by simp
  then obtain c s' where c: "s = c # s'" by (auto simp: neq_Nil_conv)
  show ?case
  proof (cases "is_prefix_of p s")
    case True
    then obtain t where t: "s = p @ t" by (auto simp: is_prefix_of_iff)
    have "str_contains m t" using placeholders_apart [OF p m ne] s t by (metis str_contains_iff)
    moreover have "length t < length s" using t \<open>p \<noteq> []\<close> by simp
    moreover have "replace_str p v s = v @ replace_str p v t"
      using True t c \<open>p \<noteq> []\<close> by (metis append_eq_conv_conj replace_str.simps(2))
    ultimately show ?thesis using 1(1) str_contains_append [of m _ v "[]"] by simp
  next
    case False
    then have r: "replace_str p v s = c # replace_str p v s'" using c by simp
    show ?thesis
    proof (cases a)
      case Nil
      obtain m' where m': "m = c # m'" "s' = m' @ b" using Nil s c \<open>m \<noteq> []\<close> by (cases m) auto
      then have "replace_str p v s' = m' @ replace_str p v b"
        using replace_passes [OF p] m by (simp add: placeholder_def)
      then show ?thesis using r m' by (simp add: str_contains_iff) (metis append_Cons append_Nil)
    next
      case (Cons x a')
      then have "str_contains m s'" using s c by (auto simp: str_contains_iff)
      then have "str_contains m (replace_str p v s')" using 1(1) c by simp
      then show ?thesis using r str_contains_append [of m _ "[c]" "[]"] by simp
    qed
  qed
qed

lemma replace_puts: "m \<noteq> [] \<Longrightarrow> str_contains m s \<Longrightarrow> str_contains v (replace_str m v s)"
proof (induction s rule: length_induct)
  case (1 s)
  obtain c s' where c: "s = c # s'" using 1(2,3) by (cases s) auto
  show ?case
  proof (cases "is_prefix_of m s")
    case True then show ?thesis using c 1(2) by (simp add: str_contains_prefix)
  next
    case False
    then have "str_contains m s'" using 1(3) c by simp
    then show ?thesis using 1(1,2) False c str_contains_append [of v _ "[c]" "[]"] by simp
  qed
qed

lemma metadata_kept:
  "str_contains ''{metadata}'' s \<Longrightarrow> p \<in> {''{name}'', ''{disk}'', ''{nvram}'', ''{vcpus}'', ''{memory_mib}'', ''{interface}''} \<Longrightarrow>
   str_contains ''{metadata}'' (replace_str p v s)"
  by (rule replace_keeps) (auto simp: placeholder_def)

lemma metadata_is_ours: "str_contains (metadata_xml lv) xml \<Longrightarrow> is_ours lv xml"
proof -
  let ?dir = "xml_escape (lv_disk_dir lv)"
  have "str_contains MARKER_NS (metadata_xml lv)"
    unfolding str_contains_iff metadata_xml_def by (metis append.assoc)
  moreover have "str_contains (''disk-dir='' @ [QUOTE] @ ?dir @ [QUOTE]) (metadata_xml lv)"
    unfolding str_contains_iff
    by (rule exI [of _ "''<kuiper:runner xmlns:kuiper='' @ [QUOTE] @ MARKER_NS @ [QUOTE] @ '' ''"], rule exI [of _ "''/>''"])
      (simp add: metadata_xml_def)
  moreover assume "str_contains (metadata_xml lv) xml"
  ultimately show ?thesis using str_contains_trans by (auto simp: is_ours_def Let_def)
qed

lemma text_lines_contains: "l \<in> set ls \<Longrightarrow> str_contains p l \<Longrightarrow> str_contains p (text_lines ls)"
  by (induction ls) (auto simp: text_lines_def str_contains_iff, metis append.assoc, metis append.assoc append_Cons)

lemma generated_has_metadata: "str_contains ''{metadata}'' (domain_template h)"
  unfolding domain_template_def by (rule text_lines_contains [of "''    {metadata}''"]) simp_all

lemma checked_has_metadata: "check_template t \<Longrightarrow> str_contains ''{metadata}'' t"
proof -
  have "split_once_str pat s \<noteq> None \<Longrightarrow> str_contains pat s" for pat s by (induction pat s rule: split_once_str.induct) (auto split: if_splits)
  then show "check_template t \<Longrightarrow> str_contains ''{metadata}'' t" by (auto simp: check_template_def split: option.splits)
qed

lemma domain_is_ours:
  assumes "\<And>t. ds_template spec = Some t \<Longrightarrow> check_template t"
  shows "is_ours lv (domain_xml lv spec)"
proof -
  define t where "t = (case ds_template spec of Some t \<Rightarrow> t | None \<Rightarrow> domain_template (ds_hardware spec))"
  have "str_contains ''{metadata}'' t"
    using assms checked_has_metadata generated_has_metadata by (auto simp: t_def split: option.split)
  then show ?thesis
    unfolding domain_xml_def Let_def t_def [symmetric]
    by (intro metadata_is_ours replace_puts metadata_kept) auto
qed

section \<open>Images\<close>

text \<open>Every configured image has an entry, whose template was checked; the first entry of an image stays.\<close>

lemma load_images_keeps:
  "load_images rf cs acc = Inr im \<Longrightarrow> hm_get acc i = Some v \<Longrightarrow> hm_get im i = Some v"
  by (induction rf cs acc rule: load_images.induct) (auto split: sum.splits if_splits simp: hm_contains_def, metis option.distinct(1))

lemma load_images_has:
  "load_images rf cs acc = Inr im \<Longrightarrow> i \<in> fst ` set cs \<Longrightarrow> hm_get im i \<noteq> None"
proof (induction rf cs acc rule: load_images.induct)
  case (2 rf img vcpus memory hw rest images)
  obtain t where t: "read_template rf hw = Inr t" using 2(2) by (auto split: sum.splits)
  let ?acc = "if hm_contains images img then images
    else hm_insert img \<lparr>iv_vcpus = vcpus, iv_memory_mib = memory, iv_hardware = hw, iv_template = t\<rparr> images"
  have l: "load_images rf rest ?acc = Inr im" using 2(2) t by simp
  have "hm_get ?acc img \<noteq> None" by (simp add: hm_contains_def)
  then have "hm_get im img \<noteq> None" using load_images_keeps [OF l] by blast
  then show ?case using 2(1) [OF t l] 2(3) by auto
qed simp

lemma read_template_checked: "read_template rf hw = Inr (Some t) \<Longrightarrow> check_template t"
  by (auto simp: read_template_def split: option.splits if_splits)

lemma load_images_checked:
  assumes "load_images rf cs acc = Inr im" "hm_get im i = Some v" "iv_template v = Some t"
    and "\<And>i v t. hm_get acc i = Some v \<Longrightarrow> iv_template v = Some t \<Longrightarrow> check_template t"
  shows "check_template t"
  using assms
proof (induction rf cs acc rule: load_images.induct)
  case (2 rf img vcpus memory hw rest images)
  obtain u where u: "read_template rf hw = Inr u" using 2(2) by (auto split: sum.splits)
  show ?case
    by (rule 2(1) [OF u _ 2(3,4)])
      (use 2(2,5) u in \<open>auto split: if_splits dest: read_template_checked simp: hm_contains_def\<close>)
qed auto

text \<open>A mapping of \<open>vm.image\<close> leaves the hardware and size that \<open>vm\<close> has for it.\<close>

lemma first_entry_wins:
  assumes "new_libvirt_backend rf c = Inr b"
  shows "\<exists>t. image_of b (vc_image (la_vm c)) = Inr \<lparr>iv_vcpus = vc_vcpus (la_vm c),
    iv_memory_mib = vc_memory_mib (la_vm c), iv_hardware = vc_hardware (la_vm c), iv_template = t\<rparr>"
proof -
  obtain im where im: "load_images rf (configured_images (la_vm c)) [] = Inr im" "bl_images b = im"
    using assms by (auto simp: new_libvirt_backend_def split: sum.splits)
  then obtain t where "load_images rf (tl (configured_images (la_vm c)))
      [(vc_image (la_vm c), \<lparr>iv_vcpus = vc_vcpus (la_vm c), iv_memory_mib = vc_memory_mib (la_vm c),
        iv_hardware = vc_hardware (la_vm c), iv_template = t\<rparr>)] = Inr im"
    by (auto simp: configured_images_def hm_contains_def split: sum.splits)
  from load_images_keeps [OF this, of "vc_image (la_vm c)"] show ?thesis by (simp add: image_of_def im)
qed

lemma selected_image_configured:
  assumes "new_libvirt_backend rf c = Inr b"
  shows "libvirt_select_image b cmd \<in> fst ` set (configured_images (la_vm c))"
proof -
  have vm: "bl_vm b = la_vm c" using assms by (auto simp: new_libvirt_backend_def split: sum.splits)
  have "m \<in> set ms" if "mapping_for ls d ms i jl = Some m" for ls d ms i jl m
    using that by (auto simp: mapping_for_def select_mapping_def find_Some_iff split: if_splits option.splits)
  then show ?thesis
    by (force simp: libvirt_select_image_def vm configured_images_def image_label_mapping_def image_image split: option.split)
qed

text \<open>Whatever image the libvirt agent selects for a command, it is one it has the settings of, and the domain
  it writes for a VM of that image, from its custom template or generated, carries the agent's own marker: the agent
  will know the domain as its own when it has to destroy it.\<close>

theorem selected_domains_are_ours:
  assumes "new_libvirt_backend read_file c = Inr b"
  shows "case image_of b (libvirt_select_image b cmd) of
      Inl _ \<Rightarrow> False
    | Inr img \<Rightarrow> is_ours (bl_libvirt b) (domain_xml (bl_libvirt b) (start_spec b name img))"
proof -
  obtain im where im: "load_images read_file (configured_images (la_vm c)) [] = Inr im" "bl_images b = im"
    using assms by (auto simp: new_libvirt_backend_def split: sum.splits)
  obtain img where img: "hm_get im (libvirt_select_image b cmd) = Some img"
    using load_images_has [OF im(1) selected_image_configured [OF assms]] by blast
  have "is_ours (bl_libvirt b) (domain_xml (bl_libvirt b) (start_spec b name img))"
    by (rule domain_is_ours) (use load_images_checked [OF im(1) img] in \<open>simp add: start_spec_def\<close>)
  then show ?thesis using img im(2) by (simp add: image_of_def)
qed

definition sample_libvirt_config :: libvirt_agent_config where
  "sample_libvirt_config = (let c = generate_libvirt_template ''https://c'' ''certs'' in
     c\<lparr>la_vm := (la_vm c)\<lparr>vc_image := ''/i.qcow2'', vc_hardware := default_hardware\<lparr>hw_domain_template := Some ''t.xml''\<rparr>\<rparr>\<rparr>)"

definition sample_template :: "string \<Rightarrow> string option" where
  "sample_template path = (if path = ''t.xml'' then Some ''<domain><metadata>{metadata}</metadata></domain>'' else None)"

theorem selected_domains_are_ours_witness:
  "\<exists>b. new_libvirt_backend sample_template sample_libvirt_config = Inr b \<and>
    (\<forall>cmd. case image_of b (libvirt_select_image b cmd) of
      Inl _ \<Rightarrow> False
    | Inr img \<Rightarrow> is_ours (bl_libvirt b) (domain_xml (bl_libvirt b) (start_spec b ''r1'' img)))"
proof -
  have "check_template ''<domain><metadata>{metadata}</metadata></domain>''" by code_simp
  then obtain b where b: "new_libvirt_backend sample_template sample_libvirt_config = Inr b"
    by (simp add: new_libvirt_backend_def sample_libvirt_config_def sample_template_def generate_libvirt_template_def Let_def
      configured_images_def read_template_def default_hardware_def hm_contains_def)
  with selected_domains_are_ours [OF b] show ?thesis by blast
qed

section \<open>Domains that are destroyed\<close>

definition destroyed :: "string list \<Rightarrow> string option" where
  "destroyed args = (case args of
     [program, _, _, cmd, name] \<Rightarrow> if program = ''virsh'' \<and> cmd = ''destroy'' then Some name else None
   | _ \<Rightarrow> None)"

text \<open>The last event is the domain's XML with the agent's marker, or the domain was created just before.\<close>

definition may_destroy :: "libvirt \<Rightarrow> string \<Rightarrow> lv_event list \<Rightarrow> bool" where
  "may_destroy lv name past = (case past of
     Ran args (Inr out) # before \<Rightarrow> args = virsh_args lv [''dumpxml'', name] None \<and>
       (cd_success out \<and> is_ours lv (cd_stdout out) \<or>
        (case before of
           Ran args' (Inr out') # _ \<Rightarrow> args' = virsh_args lv [''create''] (Some (xml_path lv name)) \<and> cd_success out'
         | _ \<Rightarrow> False))
   | _ \<Rightarrow> False)"

text \<open>Over the events from the last one back.\<close>

fun destroys_only_own :: "libvirt \<Rightarrow> lv_event list \<Rightarrow> bool" where
  "destroys_only_own lv [] = True"
| "destroys_only_own lv (e # past) = ((case e of
     Ran args _ \<Rightarrow> (case destroyed args of Some name \<Rightarrow> may_destroy lv name past | None \<Rightarrow> True)
   | _ \<Rightarrow> True) \<and> destroys_only_own lv past)"

definition own :: "libvirt \<Rightarrow> lv_state \<Rightarrow> bool" where
  "own lv s \<longleftrightarrow> destroys_only_own lv (rev (li_log s))"

definition keeps_own :: "libvirt \<Rightarrow> (lv_state, 'a) state \<Rightarrow> bool" where
  "keeps_own lv m \<longleftrightarrow> (\<forall>s. own lv s \<longrightarrow> own lv (snd (run_state m s)))"

named_theorems own_intros

lemma own_ret [own_intros]: "keeps_own lv (ret a)"
  by (simp add: keeps_own_def)

lemma own_give [own_intros]: "keeps_own lv (give a)"
  by (simp add: give_def own_ret)

lemma own_fail [own_intros]: "keeps_own lv (fail_with e)"
  by (simp add: fail_with_def own_ret)

lemma own_gets [own_intros]: "keeps_own lv (gets f)"
  by (simp add: keeps_own_def)

lemma own_bind [own_intros]: "keeps_own lv m \<Longrightarrow> (\<And>a. keeps_own lv (f a)) \<Longrightarrow> keeps_own lv (m \<bind> f)"
  by (simp add: keeps_own_def split: prod.split) (metis snd_conv)

lemma own_try [own_intros]: "keeps_own lv m \<Longrightarrow> (\<And>a. keeps_own lv (f a)) \<Longrightarrow> keeps_own lv (try_bind m f)"
  unfolding try_bind_def by (intro own_bind) (auto split: sum.split intro: own_ret)

definition harmless :: "lv_event \<Rightarrow> bool" where
  "harmless e \<longleftrightarrow> (case e of Ran args _ \<Rightarrow> destroyed args = None | _ \<Rightarrow> True)"

lemma own_step [own_intros]:
  assumes "\<And>n. harmless (f n)"
  shows "keeps_own lv (lv_step h wait f)"
proof -
  have "own lv (s\<lparr>li_now := now, li_log := li_log s @ [f n]\<rparr>) \<longleftrightarrow> own lv s" for s now n
    using assms [of n] by (auto simp: own_def harmless_def split: lv_event.splits)
  then show ?thesis by (simp add: keeps_own_def lv_step_def Let_def)
qed

lemma own_run_cmd: "destroyed args = None \<Longrightarrow> keeps_own lv (run_cmd h args)"
  unfolding run_cmd_def
  by (intro own_bind own_step) (auto simp: harmless_def intro: own_intros split: lv_event.split sum.split)

lemma harmless_others [own_intros]:
  "harmless (Exists p r)" "harmless (WroteFile p c w)" "harmless (CreatedFile p c w)" "harmless (ReadFile p t)"
  "harmless (RemovedFile p)" "harmless (ReadDir d)" "harmless (Slept n)" "harmless (WaitedForPort q)"
  by (simp_all add: harmless_def)

lemma own_virsh:
  "args \<noteq> [] \<Longrightarrow> hd args \<noteq> ''destroy'' \<Longrightarrow> keeps_own lv (virsh h lv' args file)"
  unfolding virsh_def
  by (rule own_run_cmd) (cases args; auto simp: destroyed_def virsh_args_def split: list.splits option.splits)

lemma own_owns_domain [own_intros]: "keeps_own lv (owns_domain h lv' name)"
  unfolding owns_domain_def by (intro own_try own_virsh) (auto intro: own_intros)

lemma own_check_output [own_intros]: "keeps_own lv (check_output what out)"
  by (simp add: check_output_def own_intros)

lemma own_image_format [own_intros]: "keeps_own lv (image_format h img)"
  unfolding image_format_def
  by (intro own_try own_run_cmd) (auto intro: own_intros simp: destroyed_def split: option.split)

lemma own_create_overlay [own_intros]: "keeps_own lv (create_overlay h lv' name img)"
  unfolding create_overlay_def Let_def
  by (intro own_bind own_step harmless_others)
    (auto split: lv_event.split sum.split bool.split intro!: own_intros own_run_cmd simp: destroyed_def)

lemma own_write_vars [own_intros]: "keeps_own lv (write_vars h lv' name vars)"
  unfolding write_vars_def
  by (intro own_bind own_step harmless_others)
    (auto split: lv_event.split option.split intro!: own_intros)

lemma own_remove_files [own_intros]: "keeps_own lv (remove_files h ps)"
  by (induction ps) (auto intro!: own_intros)

lemma own_try_sources [own_intros]: "keeps_own lv (try_sources h lv' name sources)"
  by (induction sources) (auto intro!: own_intros own_virsh split: option.split)

lemma own_domain_ip [own_intros]: "keeps_own lv (domain_ip h lv' name source)"
  by (simp add: domain_ip_def own_intros)

lemma own_wait_for_ip: "own lv s \<Longrightarrow> own lv (snd (wait_for_ip h lv' name source deadline s))"
proof (induction h lv' name source deadline s rule: wait_for_ip.induct)
  case (1 h lv' name source deadline s)
  obtain r t where rt: "run_state (domain_ip h lv' name source) s = (r, t)" by fastforce
  have t: "own lv t" using own_domain_ip 1(2) rt unfolding keeps_own_def by (metis snd_conv)
  have slept: "own lv (snd (run_state (lv_step h 2000 (\<lambda>_. Slept 2000)) t))"
    using own_step [of "\<lambda>_. Slept 2000" lv h 2000] t by (simp add: keeps_own_def harmless_others)
  show ?case
    using 1(1) [OF rt [symmetric] refl] t slept
    by (subst wait_for_ip.simps) (auto simp: rt split: sum.split option.split)
qed

text \<open>What \<open>owns_domain\<close> saw.\<close>

lemma run_cmd_log:
  "run_state (run_cmd h args) s = (r, t) \<Longrightarrow>
   \<exists>o'. li_log t = li_log s @ [Ran args o'] \<and> (case r of Inr out \<Rightarrow> o' = Inr out | Inl _ \<Rightarrow> \<exists>m. o' = Inl m)"
  by (auto simp: run_cmd_def lv_step_def Let_def give_def fail_with_def split: sum.splits)

lemma owns_domain_log:
  assumes "run_state (owns_domain h lv name) s = (r, t)"
  shows "\<exists>o'. li_log t = li_log s @ [Ran (virsh_args lv [''dumpxml'', name] None) o'] \<and>
    (case r of Inl _ \<Rightarrow> True
     | Inr None \<Rightarrow> \<exists>out. o' = Inr out \<and> \<not> cd_success out \<and> is_not_found (cd_stderr out)
     | Inr (Some mine) \<Rightarrow> \<exists>out. o' = Inr out \<and> cd_success out \<and> mine = is_ours lv (cd_stdout out))"
proof -
  obtain r1 t1 where c: "run_state (run_cmd h (virsh_args lv [''dumpxml'', name] None)) s = (r1, t1)" by fastforce
  from run_cmd_log [OF this] obtain o' where o: "li_log t1 = li_log s @ [Ran (virsh_args lv [''dumpxml'', name] None) o']"
    "case r1 of Inr out \<Rightarrow> o' = Inr out | Inl _ \<Rightarrow> \<exists>m. o' = Inl m" by blast
  then show ?thesis
    using assms c by (auto simp: owns_domain_def virsh_def try_bind_def give_def fail_with_def split: sum.splits if_splits)
qed

section \<open>Stopping and creating\<close>

lemma own_snoc: "own lv (s\<lparr>li_log := l @ [e]\<rparr>) \<longleftrightarrow> destroys_only_own lv (e # rev l)"
  by (simp add: own_def)

lemma own_destroy_cmd:
  assumes "own lv s" "may_destroy lv name (rev (li_log s))"
  shows "own lv (snd (run_state (virsh h lv [''destroy'', name] None) s))"
proof -
  obtain r t where t: "run_state (run_cmd h (virsh_args lv [''destroy'', name] None)) s = (r, t)" by fastforce
  from run_cmd_log [OF t] show ?thesis
    using assms by (auto simp: virsh_def t own_def destroyed_def) (auto simp: virsh_args_def)
qed

lemma own_after:
  assumes "run_state m s = (r, t)" "own lv t" "\<And>a. r = Inr a \<Longrightarrow> own lv (snd (run_state (f a) t))"
  shows "own lv (snd (run_state (try_bind m f) s))"
  using assms by (auto simp: try_bind_def split: sum.split)

lemma own_stop_domain [own_intros]: "keeps_own lv (stop_domain h lv name)"
  unfolding keeps_own_def
proof (intro allI impI)
  fix s assume s: "own lv s"
  obtain r t where t: "run_state (owns_domain h lv name) s = (r, t)" by fastforce
  have ot: "own lv t" using own_owns_domain s t unfolding keeps_own_def by (metis snd_conv)
  show "own lv (snd (run_state (stop_domain h lv name) s))"
    unfolding stop_domain_def
  proof (rule own_after [OF t ot])
    fix a assume r: "r = Inr a"
    show "own lv (snd (run_state (case a of
         Some True \<Rightarrow> try_bind (virsh h lv [''destroy'', name] None) (\<lambda>out.
           if cd_success out \<or> is_not_found (cd_stderr out) then give ()
           else fail_with (LibvirtError (''virsh destroy '' @ name @ '' failed: '' @ str_trim (cd_stderr out))))
       | Some False \<Rightarrow> fail_with (LibvirtError (''domain '' @ name @ '' isn't one of this agent's VMs''))
       | None \<Rightarrow> give ()) t))"
    proof (cases "a = Some True")
      case True
      then have "may_destroy lv name (rev (li_log t))"
        using owns_domain_log [OF t] r by (auto simp: may_destroy_def)
      note d = own_destroy_cmd [OF ot this, of h]
      obtain r2 t2 where t2: "run_state (virsh h lv [''destroy'', name] None) t = (r2, t2)" by fastforce
      have "own lv t2" using d t2 by simp
      then show ?thesis unfolding True option.case bool.case
        by (intro own_after [OF t2]) (auto simp: give_def fail_with_def)
    qed (use ot in \<open>auto simp: give_def fail_with_def split: option.split bool.split\<close>)
  qed
qed

lemma own_lv_destroy [own_intros]: "keeps_own lv (lv_destroy h lv name)"
  unfolding lv_destroy_def by (intro own_intros)

lemma own_sweep_domains [own_intros]: "keeps_own lv (sweep_domains h lv names)"
  by (induction names) (auto intro!: own_intros)

lemma own_sweep_leftovers [own_intros]: "keeps_own lv (sweep_leftovers h lv)"
  unfolding sweep_leftovers_def
  by (auto intro!: own_try own_bind own_virsh own_step harmless_others own_check_output own_sweep_domains own_remove_files
    own_give own_fail split: lv_event.split sum.split prod.split)

lemma own_stop_unmarked:
  assumes "own lv s" "may_destroy lv name (rev (li_log s))"
  shows "own lv (snd (run_state (stop_unmarked h lv name) s))"
proof -
  obtain r t where t: "run_state (virsh h lv [''destroy'', name] None) s = (r, t)" by fastforce
  have "own lv t" using own_destroy_cmd [OF assms, of h] t by simp
  then show ?thesis unfolding stop_unmarked_def
    by (intro own_after [OF t]) (auto simp: check_output_def try_bind_def give_def fail_with_def)
qed

lemma own_confirm_marker:
  assumes s: "own lv s" and l: "li_log s = l @ [Ran (virsh_args lv [''create''] (Some (xml_path lv name))) (Inr out)]"
    and ok: "cd_success out"
  shows "own lv (snd (run_state (confirm_marker h lv name) s))"
proof -
  obtain r t where t: "run_state (owns_domain h lv name) s = (r, t)" by fastforce
  have o: "own lv t" using own_owns_domain s t unfolding keeps_own_def by (metis snd_conv)
  show ?thesis unfolding confirm_marker_def
  proof (rule own_after [OF t o])
    fix owned assume r: "r = Inr owned"
    obtain seen where "li_log t = li_log s @ [Ran (virsh_args lv [''dumpxml'', name] None) (Inr seen)]"
      using owns_domain_log [OF t] r by (cases owned) auto
    then have "may_destroy lv name (rev (li_log t))" using l ok by (simp add: may_destroy_def)
    from own_stop_unmarked [OF o this] show "own lv (snd (run_state (if owned = Some True then give () else stop_unmarked h lv name) t))"
      using o by (simp add: give_def)
  qed
qed

lemma own_create_domain [own_intros]: "keeps_own lv (create_domain h lv name)"
  unfolding keeps_own_def
proof (intro allI impI)
  fix s assume s: "own lv s"
  obtain r t where t: "run_state (virsh h lv [''create''] (Some (xml_path lv name))) s = (r, t)" by fastforce
  have o: "own lv t" using own_virsh [of "[''create'']" lv h lv "Some (xml_path lv name)"] s t
    unfolding keeps_own_def by (simp, metis snd_conv)
  show "own lv (snd (run_state (create_domain h lv name) s))"
    unfolding create_domain_def
  proof (rule own_after [OF t o])
    fix out assume r: "r = Inr out"
    obtain l where "li_log t = l @ [Ran (virsh_args lv [''create''] (Some (xml_path lv name))) (Inr out)]"
      using run_cmd_log [OF t [unfolded virsh_def]] r by auto
    from own_confirm_marker [OF o this] o show "own lv (snd (run_state (if cd_success out then confirm_marker h lv name
        else fail_with (LibvirtError (''virsh create failed: '' @ str_trim (cd_stderr out)))) t))"
      by (simp add: fail_with_def)
  qed
qed

lemma own_start_domain [own_intros]: "keeps_own lv (start_domain h lv spec)"
  unfolding start_domain_def
  by (auto intro!: own_try own_bind own_step harmless_others own_write_vars own_create_domain own_give own_fail
    split: lv_event.split option.split)

section \<open>Calls to the backend\<close>

lemma own_create [own_intros]: "keeps_own (bl_libvirt b) (libvirt_create h b name img)"
  unfolding libvirt_create_def by (auto intro!: own_intros split: sum.split)

lemma own_port [own_intros]: "keeps_own lv (State (wait_for_ip h lv' name source deadline))"
  by (simp add: keeps_own_def own_wait_for_ip)

lemma own_start [own_intros]: "keeps_own (bl_libvirt b) (libvirt_start h load_key b vm)"
  unfolding libvirt_start_def Let_def
  by (auto intro!: own_try own_bind own_gets own_start_domain own_port own_step harmless_others own_give own_fail
    split: sum.split prod.split)

lemma own_destroy [own_intros]: "keeps_own (bl_libvirt b) (libvirt_destroy h b vm)"
  by (simp add: libvirt_destroy_def own_intros)

lemma own_untracked [own_intros]: "keeps_own (bl_libvirt b) (libvirt_destroy_untracked h b vid)"
  unfolding libvirt_destroy_untracked_def by (auto intro!: own_intros)

datatype libvirt_call = CallCreate string string | CallStart libvirt_vm | CallDestroy libvirt_vm | CallUntracked string
  | CallSweep

text \<open>Calls one after the other, whatever each comes to. Those of different VMs run at the same time; this is the
  order of one of them.\<close>

fun libvirt_calls :: "lv_host \<Rightarrow> (string \<Rightarrow> ssh_error option) \<Rightarrow> libvirt_backend \<Rightarrow> libvirt_call list \<Rightarrow> (lv_state, unit) state" where
  "libvirt_calls h load_key b [] = ret ()"
| "libvirt_calls h load_key b (c # cs) = do {
     _ \<leftarrow> (case c of
       CallCreate name img \<Rightarrow> do { _ \<leftarrow> libvirt_create h b name img; ret () }
     | CallStart vm \<Rightarrow> do { _ \<leftarrow> libvirt_start h load_key b vm; ret () }
     | CallDestroy vm \<Rightarrow> do { _ \<leftarrow> libvirt_destroy h b vm; ret () }
     | CallUntracked vid \<Rightarrow> do { _ \<leftarrow> libvirt_destroy_untracked h b vid; ret () }
     | CallSweep \<Rightarrow> do { _ \<leftarrow> sweep_leftovers h (bl_libvirt b); ret () });
     libvirt_calls h load_key b cs }"

lemma own_calls: "keeps_own (bl_libvirt b) (libvirt_calls h load_key b cs)"
proof (induction cs)
  case (Cons c cs)
  then show ?case
    by (cases c) (auto intro!: own_bind own_ret own_create own_start own_destroy own_untracked own_sweep_leftovers)
qed (simp add: own_ret)

text \<open>C33: The libvirt agent never destroys a domain that is not its own. Whatever calls come, with whatever names,
  and whatever virsh answers, each \<^verbatim>\<open>virsh destroy\<close> of a domain comes directly after its XML was read and
  had the agent's marker, or after the agent itself created the domain from its file and read it back.\<close>

theorem only_own_domains_destroyed:
  "destroys_only_own (bl_libvirt b) (rev (li_log (snd (run_state (libvirt_calls h load_key b calls)
     \<lparr>li_now = now, li_log = []\<rparr>))))"
proof -
  have "own (bl_libvirt b) \<lparr>li_now = now, li_log = []\<rparr>" by (simp add: own_def)
  then show ?thesis using own_calls unfolding keeps_own_def own_def by blast
qed

section \<open>Files\<close>

definition removed_files :: "lv_event list \<Rightarrow> string list" where
  "removed_files log = List.map_filter (\<lambda>e. case e of RemovedFile p \<Rightarrow> Some p | _ \<Rightarrow> None) log"

text \<open>The event shows that the domain is gone.\<close>

definition shows_gone :: "libvirt \<Rightarrow> string \<Rightarrow> lv_event \<Rightarrow> bool" where
  "shows_gone lv name e = (case e of
     Ran args (Inr out) \<Rightarrow>
       args = virsh_args lv [''dumpxml'', name] None \<and> \<not> cd_success out \<and> is_not_found (cd_stderr out) \<or>
       args = virsh_args lv [''destroy'', name] None \<and> (cd_success out \<or> is_not_found (cd_stderr out))
   | _ \<Rightarrow> False)"

lemma removed_log_append: "removed_files (l @ [Ran args u]) = removed_files l"
  by (simp add: removed_files_def map_filter_def)

lemma stop_domain_log:
  assumes "run_state (stop_domain h lv name) s = (r, t)"
  shows "\<exists>l e. li_log t = l @ [e] \<and> removed_files (l @ [e]) = removed_files (li_log s) \<and>
    (case r of Inr _ \<Rightarrow> shows_gone lv name e | Inl _ \<Rightarrow> True)"
proof -
  obtain r1 t1 where o1: "run_state (owns_domain h lv name) s = (r1, t1)" by fastforce
  obtain o' where o': "li_log t1 = li_log s @ [Ran (virsh_args lv [''dumpxml'', name] None) o']"
    "r1 = Inr None \<Longrightarrow> shows_gone lv name (Ran (virsh_args lv [''dumpxml'', name] None) o')"
    using owns_domain_log [OF o1] by (fastforce simp: shows_gone_def)
  show ?thesis
  proof (cases "r1 = Inr (Some True)")
    case True
    obtain r2 t2 where d: "run_state (run_cmd h (virsh_args lv [''destroy'', name] None)) t1 = (r2, t2)" by fastforce
    obtain u where u: "li_log t2 = li_log t1 @ [Ran (virsh_args lv [''destroy'', name] None) u]"
      "\<And>out. r2 = Inr out \<Longrightarrow> u = Inr out" using run_cmd_log [OF d] by (cases r2) auto
    have "t = t2" "\<And>x. r = Inr x \<Longrightarrow> \<exists>out. r2 = Inr out \<and> (cd_success out \<or> is_not_found (cd_stderr out))"
      using assms o1 d True by (auto simp: stop_domain_def virsh_def try_bind_def give_def fail_with_def split: sum.splits if_splits)
    then show ?thesis using o'(1) u by (cases r) (auto simp: removed_log_append shows_gone_def)
  next
    case False
    have "t = t1" "\<And>x. r = Inr x \<Longrightarrow> r1 = Inr None"
      using assms o1 False by (auto simp: stop_domain_def try_bind_def give_def fail_with_def split: sum.splits option.splits bool.splits)
    then show ?thesis using o' by (cases r) (auto simp: removed_log_append)
  qed
qed

lemma remove_files_log: "run_state (remove_files h ps) s = (u, t) \<Longrightarrow> li_log t = li_log s @ map RemovedFile ps"
  by (induction ps arbitrary: s) (auto simp: lv_step_def Let_def)

text \<open>C34: The files of a VM outlive its domain: when destroying it fails, nothing is removed; when it succeeds,
  the last thing before the disk, the XML and the variable store were removed (and only those) is libvirt's answer
  that the domain is gone.\<close>

theorem files_outlive_domain:
  "let (r, t) = run_state (lv_destroy h lv name) s in
   case r of
     Inl _ \<Rightarrow> removed_files (li_log t) = removed_files (li_log s)
   | Inr _ \<Rightarrow> \<exists>l e. li_log t = l @ [e] @ map RemovedFile [disk_path lv name, xml_path lv name, nvram_path lv name] \<and>
       shows_gone lv name e \<and> removed_files (l @ [e]) = removed_files (li_log s)"
proof -
  obtain r t where t: "run_state (stop_domain h lv name) s = (r, t)" by fastforce
  obtain l e where le: "li_log t = l @ [e]" "removed_files (l @ [e]) = removed_files (li_log s)"
    "case r of Inr _ \<Rightarrow> shows_gone lv name e | Inl _ \<Rightarrow> True" using stop_domain_log [OF t] by blast
  obtain u where u: "run_state (remove_files h [disk_path lv name, xml_path lv name, nvram_path lv name]) t = ((), u)"
    by (metis surj_pair unit.exhaust)
  show ?thesis
    using le t u remove_files_log [OF u]
    by (cases r) (auto simp: lv_destroy_def try_bind_def give_def Let_def simp del: remove_files.simps)
qed

end
