(* ===== verification/Proxmox_Config.thy ===== *)
theory Proxmox_Config
  imports Libvirt_Config
begin

text \<open>
  \<^verbatim>\<open>kuiper-proxmox-agent/src/config.rs\<close>: the configuration of the Proxmox agent after its TOML is read, as
  \<open>Libvirt_Config\<close> has it for libvirt.
\<close>

section \<open>Settings\<close>

record template_mapping =
  tm_labels :: "string list"
  tm_template_vmid :: nat
  tm_pool :: "nat option"

definition template_label_mapping :: "template_mapping \<Rightarrow> label_mapping" where
  "template_label_mapping m = \<lparr>lm_labels = tm_labels m, lm_pool = tm_pool m, lm_id = nat_to_string (tm_template_vmid m)\<rparr>"

record proxmox_api_config =
  pa_api_url :: string
  pa_node :: string
  pa_token_id :: string
  pa_token_secret :: string
  pa_accept_invalid_certs :: bool

record proxmox_vm_config =
  pv_template_vmid :: nat
  pv_storage :: string
  pv_linked_clone :: bool
  pv_concurrent_vms :: nat
  pv_ip_timeout_secs :: nat
  pv_clone_timeout_secs :: nat
  pv_template_mappings :: "template_mapping list"

record proxmox_agent_config =
  pg_coordinator_url :: string
  pg_ca_cert :: "string option"
  pg_certs_dir :: string
  pg_labels :: "string list"
  pg_proxmox :: proxmox_api_config
  pg_vm :: proxmox_vm_config
  pg_ssh :: ssh_config

section \<open>Loading\<close>

definition expand_proxmox_paths :: "string option \<Rightarrow> proxmox_agent_config \<Rightarrow> proxmox_agent_config" where
  "expand_proxmox_paths home c = (let ssh = pg_ssh c in
     c\<lparr>pg_ca_cert := map_option (expand_tilde home) (pg_ca_cert c),
       pg_certs_dir := expand_tilde home (pg_certs_dir c),
       pg_ssh := ssh\<lparr>sg_private_key_path := map_option (expand_tilde home) (sg_private_key_path ssh)\<rparr>\<rparr>)"

datatype proxmox_settings_error = ProxmoxIncomplete "string list" | CoordinatorNotHttps | NoTemplate | NoConcurrentVms

definition missing_proxmox_settings :: "proxmox_agent_config \<Rightarrow> string list" where
  "missing_proxmox_settings c =
     (if pg_labels c = [] then [''agent.labels''] else []) @
     (if pa_api_url (pg_proxmox c) = [] then [''proxmox.api_url''] else []) @
     (if pa_token_id (pg_proxmox c) = [] then [''proxmox.token_id''] else []) @
     (if pa_token_secret (pg_proxmox c) = [] then [''proxmox.token_secret''] else []) @
     (if sg_private_key_path (pg_ssh c) = None \<and> sg_password (pg_ssh c) = None then [''ssh''] else [])"

definition validate_proxmox :: "proxmox_agent_config \<Rightarrow> proxmox_settings_error option" where
  "validate_proxmox c =
     (if missing_proxmox_settings c \<noteq> [] then Some (ProxmoxIncomplete (missing_proxmox_settings c))
      else if \<not> is_prefix_of ''https://'' (pg_coordinator_url c) then Some CoordinatorNotHttps
      else if pv_template_vmid (pg_vm c) = 0 then Some NoTemplate
      else if pv_concurrent_vms (pg_vm c) = 0 then Some NoConcurrentVms
      else None)"

definition load_proxmox_config :: "string option \<Rightarrow> proxmox_agent_config \<Rightarrow> proxmox_settings_error + proxmox_agent_config" where
  "load_proxmox_config home parsed = (let c = expand_proxmox_paths home parsed in
     case validate_proxmox c of Some e \<Rightarrow> Inl e | None \<Rightarrow> Inr c)"

definition generate_proxmox_template :: "string \<Rightarrow> string \<Rightarrow> proxmox_agent_config" where
  "generate_proxmox_template url certs_dir =
     \<lparr>pg_coordinator_url = url, pg_ca_cert = Some (join_path certs_dir ''ca.crt''), pg_certs_dir = certs_dir, pg_labels = [],
      pg_proxmox = \<lparr>pa_api_url = [], pa_node = ''pve'', pa_token_id = [], pa_token_secret = [], pa_accept_invalid_certs = False\<rparr>,
      pg_vm = \<lparr>pv_template_vmid = 9000, pv_storage = ''local-lvm'', pv_linked_clone = True, pv_concurrent_vms = 4,
        pv_ip_timeout_secs = 120, pv_clone_timeout_secs = 300, pv_template_mappings = []\<rparr>,
      pg_ssh = \<lparr>sg_private_key_path = None, sg_password = None, sg_username = ''ci'', sg_port = 22, sg_timeout_secs = 30,
        sg_retries = 10\<rparr>\<rparr>"

lemma proxmox_template_incomplete:
  "load_proxmox_config home (generate_proxmox_template url certs) =
     Inl (ProxmoxIncomplete [''agent.labels'', ''proxmox.api_url'', ''proxmox.token_id'', ''proxmox.token_secret'', ''ssh''])"
  by (simp add: load_proxmox_config_def validate_proxmox_def missing_proxmox_settings_def expand_proxmox_paths_def
    generate_proxmox_template_def Let_def)

end
