(* ===== verification/Proxmox.thy ===== *)
theory Proxmox
  imports Proxmox_Config Guest Forgejo_Client
begin

text \<open>
  The requests of \<^verbatim>\<open>kuiper-proxmox-api/src/lib.rs\<close> that the Proxmox agent makes and
  \<^verbatim>\<open>kuiper-proxmox-agent/src/backend.rs\<close>: cloning a template, waiting for its task, starting, addresses, and stopping
  and deleting a VM. What Proxmox answers to the \<open>n\<close>-th request, with a body of the type that was asked for or
  none that parses, and how long it takes, are arguments. Times are in milliseconds.
\<close>

section \<open>The API\<close>

record vm_status =
  vt_status :: string
  vt_name :: "string option"

record task_status =
  ts_status :: string
  ts_exitstatus :: "string option"

record ip_address =
  ia_address :: string
  ia_type :: string

record network_interface =
  ni_name :: string
  ni_addresses :: "ip_address list"

datatype px_body = TextBody string | StatusBody vm_status | InterfacesBody "network_interface list" | TaskBody task_status
  | NoBody

record px_response =
  pr_status :: nat
  pr_body :: px_body

datatype px_error = PxRequest | PxHttp nat | PxTaskFailed string | PxUnknownTaskStatus string | PxTimeout
  | PxGuestAgentUnavailable | PxVm string | PxBadIp string | PxSsh ssh_error

record px_request =
  rx_method :: http_method
  rx_path :: string
  rx_form :: "(string \<times> string) list"

record px_env =
  pe_answer :: "nat \<Rightarrow> px_request \<Rightarrow> px_response option"
  pe_took :: "nat \<Rightarrow> nat"
  pe_urlencode :: "string \<Rightarrow> string"
  pe_dial :: "nat \<Rightarrow> nat \<Rightarrow> nat \<times> bool"

record px_state =
  px_now :: nat
  px_requests :: "px_request list"

type_synonym 'a px = "(px_state, px_error + 'a) state"

definition px_send :: "px_env \<Rightarrow> http_method \<Rightarrow> string \<Rightarrow> (string \<times> string) list \<Rightarrow> px_response px" where
  "px_send e m path form = State (\<lambda>s. let n = length (px_requests s); r = \<lparr>rx_method = m, rx_path = path, rx_form = form\<rparr> in
     (case pe_answer e n r of None \<Rightarrow> Inl PxRequest | Some a \<Rightarrow> Inr a,
      s\<lparr>px_now := px_now s + pe_took e n, px_requests := px_requests s @ [r]\<rparr>))"

definition px_sleep :: "nat \<Rightarrow> (px_state, unit) state" where
  "px_sleep d = modify (\<lambda>s. s\<lparr>px_now := px_now s + d\<rparr>)"

text \<open>A response's text when it is a success. The agent's methods all read their answers so.\<close>

definition text_of :: "px_response \<Rightarrow> px_error + string" where
  "text_of r = (if \<not> is_success (pr_status r) then Inl (PxHttp (pr_status r))
     else (case pr_body r of TextBody t \<Rightarrow> Inr t | _ \<Rightarrow> Inl PxRequest))"

definition get_next_vmid :: "px_env \<Rightarrow> nat px" where
  "get_next_vmid e = try_bind (px_send e GET ''cluster/nextid'' []) (\<lambda>r. case text_of r of
     Inl err \<Rightarrow> fail_with err
   | Inr t \<Rightarrow> (case parse_u32 t of None \<Rightarrow> fail_with (PxTaskFailed (''Invalid VMID response: '' @ t)) | Some v \<Rightarrow> give v))"

definition qemu_path :: "string \<Rightarrow> nat \<Rightarrow> string" where
  "qemu_path node vmid = ''nodes/'' @ node @ ''/qemu/'' @ nat_to_string vmid"

definition started_task :: "px_response px \<Rightarrow> string px" where
  "started_task m = try_bind m (\<lambda>r. case text_of r of Inl err \<Rightarrow> fail_with err | Inr task \<Rightarrow> give task)"

text \<open>A linked clone takes no storage.\<close>

definition clone_vm :: "px_env \<Rightarrow> string \<Rightarrow> nat \<Rightarrow> nat \<Rightarrow> string \<Rightarrow> bool \<Rightarrow> string option \<Rightarrow> string px" where
  "clone_vm e node source target name linked storage = started_task (px_send e POST (qemu_path node source @ ''/clone'')
     ([(''newid'', nat_to_string target), (''name'', name), (''full'', if linked then ''0'' else ''1'')] @
      (case (if linked then None else storage) of Some st \<Rightarrow> [(''storage'', st)] | None \<Rightarrow> []) @
      [(''target'', node)]))"

definition start_vm :: "px_env \<Rightarrow> string \<Rightarrow> nat \<Rightarrow> string px" where
  "start_vm e node vmid = started_task (px_send e POST (qemu_path node vmid @ ''/status/start'') [])"

definition stop_vm :: "px_env \<Rightarrow> string \<Rightarrow> nat \<Rightarrow> string px" where
  "stop_vm e node vmid = started_task (px_send e POST (qemu_path node vmid @ ''/status/stop'') [])"

definition delete_vm :: "px_env \<Rightarrow> string \<Rightarrow> nat \<Rightarrow> string px" where
  "delete_vm e node vmid = started_task (px_send e DELETE (qemu_path node vmid) [])"

definition get_vm_status :: "px_env \<Rightarrow> string \<Rightarrow> nat \<Rightarrow> vm_status px" where
  "get_vm_status e node vmid = try_bind (px_send e GET (qemu_path node vmid @ ''/status/current'') []) (\<lambda>r.
     if \<not> is_success (pr_status r) then fail_with (PxHttp (pr_status r))
     else (case pr_body r of StatusBody st \<Rightarrow> give st | _ \<Rightarrow> fail_with PxRequest))"

definition get_network_interfaces :: "px_env \<Rightarrow> string \<Rightarrow> nat \<Rightarrow> network_interface list px" where
  "get_network_interfaces e node vmid =
     try_bind (px_send e GET (qemu_path node vmid @ ''/agent/network-get-interfaces'') []) (\<lambda>r.
     if is_success (pr_status r) then (case pr_body r of InterfacesBody is \<Rightarrow> give is | _ \<Rightarrow> fail_with PxRequest)
     else if pr_status r = 500 then fail_with PxGuestAgentUnavailable
     else fail_with (PxHttp (pr_status r)))"

text \<open>The node a task runs on is the second part of its id.\<close>

definition task_node :: "string \<Rightarrow> string \<Rightarrow> string" where
  "task_node node upid = (let parts = split_on (CHR '':'') upid in if length parts > 1 then parts ! 1 else node)"

definition get_task_status :: "px_env \<Rightarrow> string \<Rightarrow> string \<Rightarrow> task_status px" where
  "get_task_status e node upid =
     try_bind (px_send e GET (''nodes/'' @ task_node node upid @ ''/tasks/'' @ pe_urlencode e upid @ ''/status'') []) (\<lambda>r.
     if \<not> is_success (pr_status r) then fail_with (PxHttp (pr_status r))
     else (case pr_body r of TaskBody st \<Rightarrow> give st | _ \<Rightarrow> fail_with PxRequest))"

section \<open>Waiting\<close>

text \<open>What a task that stopped came to: warnings are no failure.\<close>

definition task_result :: "string option \<Rightarrow> px_error + unit" where
  "task_result exit = (case exit of
     None \<Rightarrow> Inr ()
   | Some x \<Rightarrow> if x = ''OK'' \<or> is_prefix_of ''WARNINGS:'' x then Inr () else Inl (PxTaskFailed x))"

lemma px_send_now: "px_now s \<le> px_now (snd (run_state (px_send e m path form) s))"
  by (simp add: px_send_def Let_def)

lemma get_task_status_now: "px_now s \<le> px_now (snd (run_state (get_task_status e node upid) s))"
  using px_send_now by (auto simp: get_task_status_def try_bind_def give_def fail_with_def split: prod.split sum.split px_body.split)
    (metis snd_conv)+

function wait_for_task_from :: "px_env \<Rightarrow> string \<Rightarrow> string \<Rightarrow> nat \<Rightarrow> nat \<Rightarrow> px_state \<Rightarrow> (px_error + unit) \<times> px_state" where
  "wait_for_task_from e node upid start limit s =
     (if px_now s - start > limit then (Inl PxTimeout, s)
      else (let (r, t) = run_state (get_task_status e node upid) s in
        case r of
          Inl err \<Rightarrow> (Inl err, t)
        | Inr st \<Rightarrow>
            if ts_status st = ''stopped'' then (task_result (ts_exitstatus st), t)
            else if ts_status st = ''running'' then
              wait_for_task_from e node upid start limit (t\<lparr>px_now := px_now t + 500\<rparr>)
            else (Inl (PxUnknownTaskStatus (ts_status st)), t)))"
  by pat_completeness auto
termination
proof (relation "measure (\<lambda>(e, node, upid, start, limit, s). start + limit + 1 - px_now s)")
  fix e node upid start limit s x r t and st :: task_status
  assume "\<not> px_now s - start > limit" "x = run_state (get_task_status e node upid) s" "(r, t) = x"
  then have "px_now s \<le> px_now t" "px_now s \<le> start + limit" using get_task_status_now by (metis snd_conv, simp)
  then show "((e, node, upid, start, limit, t\<lparr>px_now := px_now t + 500\<rparr>), e, node, upid, start, limit, s)
      \<in> measure (\<lambda>(e, node, upid, start, limit, s). start + limit + 1 - px_now s)" by simp
qed simp

declare wait_for_task_from.simps [simp del]

definition wait_for_task_with_timeout :: "px_env \<Rightarrow> string \<Rightarrow> string \<Rightarrow> nat \<Rightarrow> unit px" where
  "wait_for_task_with_timeout e node upid limit = State (\<lambda>s. wait_for_task_from e node upid (px_now s) limit s)"

definition wait_for_task :: "px_env \<Rightarrow> string \<Rightarrow> string \<Rightarrow> unit px" where
  "wait_for_task e node upid = wait_for_task_with_timeout e node upid 300000"

definition usable_address :: "ip_address \<Rightarrow> bool" where
  "usable_address a \<longleftrightarrow> ia_type a = ''ipv4'' \<and> \<not> is_prefix_of ''169.254.'' (ia_address a) \<and> \<not> is_prefix_of ''127.'' (ia_address a)"

definition first_address :: "network_interface list \<Rightarrow> string option" where
  "first_address is = (case filter usable_address (concat (map ni_addresses
      (filter (\<lambda>i. ni_name i \<noteq> ''lo'' \<and> ni_name i \<noteq> ''Loopback Pseudo-Interface 1'') is))) of
     [] \<Rightarrow> None | a # _ \<Rightarrow> Some (ia_address a))"

lemma get_network_interfaces_now: "px_now s \<le> px_now (snd (run_state (get_network_interfaces e node vmid) s))"
  using px_send_now by (auto simp: get_network_interfaces_def try_bind_def give_def fail_with_def split: prod.split sum.split px_body.split)
    (metis snd_conv)+

text \<open>Every error of the guest agent is only logged.\<close>

function poll_for_ip_from :: "px_env \<Rightarrow> string \<Rightarrow> nat \<Rightarrow> nat \<Rightarrow> nat \<Rightarrow> px_state \<Rightarrow> (px_error + string) \<times> px_state" where
  "poll_for_ip_from e node vmid start limit s =
     (if \<not> px_now s - start < limit then (Inl PxTimeout, s)
      else (let (r, t) = run_state (get_network_interfaces e node vmid) s in
        case (case r of Inr is \<Rightarrow> first_address is | Inl _ \<Rightarrow> None) of
          Some ip \<Rightarrow> (Inr ip, t)
        | None \<Rightarrow> poll_for_ip_from e node vmid start limit (t\<lparr>px_now := px_now t + 2000\<rparr>)))"
  by pat_completeness auto
termination
proof (relation "measure (\<lambda>(e, node, vmid, start, limit, s). start + limit - px_now s)")
  fix e node vmid start limit s x r t
  assume "\<not> \<not> px_now s - start < limit" "x = run_state (get_network_interfaces e node vmid) s" "(r, t) = x"
  then have "px_now s \<le> px_now t" "px_now s < start + limit" using get_network_interfaces_now by (metis snd_conv, simp)
  then show "((e, node, vmid, start, limit, t\<lparr>px_now := px_now t + 2000\<rparr>), e, node, vmid, start, limit, s)
      \<in> measure (\<lambda>(e, node, vmid, start, limit, s). start + limit - px_now s)" by simp
qed simp

declare poll_for_ip_from.simps [simp del]

definition poll_for_ip :: "px_env \<Rightarrow> string \<Rightarrow> nat \<Rightarrow> nat \<Rightarrow> string px" where
  "poll_for_ip e node vmid limit = State (\<lambda>s. poll_for_ip_from e node vmid (px_now s) limit s)"

section \<open>The backend\<close>

record proxmox_backend =
  pb_node :: string
  pb_labels :: "string list"
  pb_vm :: proxmox_vm_config
  pb_ssh :: ssh_config

definition px_mappings :: "proxmox_backend \<Rightarrow> label_mapping list" where
  "px_mappings b = map template_label_mapping (pv_template_mappings (pb_vm b))"

definition clone_template :: "px_env \<Rightarrow> proxmox_backend \<Rightarrow> string \<Rightarrow> nat \<Rightarrow> nat px" where
  "clone_template e b name template_vmid =
     try_bind (get_next_vmid e) (\<lambda>vmid.
     try_bind (clone_vm e (pb_node b) template_vmid vmid name (pv_linked_clone (pb_vm b))
       (if pv_storage (pb_vm b) = [] then None else Some (pv_storage (pb_vm b)))) (\<lambda>task.
     try_bind (wait_for_task_with_timeout e (pb_node b) task (pv_clone_timeout_secs (pb_vm b) * 1000)) (\<lambda>_.
     give vmid)))"

definition px_start :: "px_env \<Rightarrow> (string \<Rightarrow> ssh_error option) \<Rightarrow> proxmox_backend \<Rightarrow> nat \<Rightarrow> ipv4 px" where
  "px_start e load_key b vmid =
     try_bind (start_vm e (pb_node b) vmid) (\<lambda>task.
     try_bind (wait_for_task e (pb_node b) task) (\<lambda>_.
     try_bind (poll_for_ip e (pb_node b) vmid (pv_ip_timeout_secs (pb_vm b) * 1000)) (\<lambda>text.
     case parse_ipv4 text of
       None \<Rightarrow> fail_with (PxBadIp text)
     | Some ip \<Rightarrow> (case ssh_client_of load_key (pb_ssh b) of
         Inl err \<Rightarrow> fail_with (PxSsh err)
       | Inr client \<Rightarrow> do {
           now \<leftarrow> gets px_now;
           n \<leftarrow> gets (\<lambda>s. length (px_requests s));
           let (r, ended) = wait_for_port (pe_dial e n) (sg_timeout_secs (pb_ssh b) * 1000) now in do {
             px_sleep (ended - now);
             case r of Inl err \<Rightarrow> fail_with (PxSsh err) | Inr _ \<Rightarrow> give ip } }))))"

text \<open>A VM whose status names it otherwise is left alone; one whose status can't be read is stopped and deleted.\<close>

definition stop_for_deletion :: "px_env \<Rightarrow> string \<Rightarrow> nat \<Rightarrow> (px_state, unit) state" where
  "stop_for_deletion e node vmid = do {
     r \<leftarrow> stop_vm e node vmid;
     case r of
       Inl _ \<Rightarrow> ret ()
     | Inr task \<Rightarrow> do { _ \<leftarrow> wait_for_task_with_timeout e node task 30000; ret () } }"

definition stop_and_delete :: "px_env \<Rightarrow> proxmox_backend \<Rightarrow> nat \<Rightarrow> string \<Rightarrow> unit px" where
  "stop_and_delete e b vmid name = do {
     status \<leftarrow> get_vm_status e (pb_node b) vmid;
     if (case status of Inr st \<Rightarrow> (case vt_name st of Some actual \<Rightarrow> actual \<noteq> name | None \<Rightarrow> False) | Inl _ \<Rightarrow> False)
     then fail_with (PxVm name)
     else do {
       stop_for_deletion e (pb_node b) vmid;
       px_sleep 2000;
       r \<leftarrow> delete_vm e (pb_node b) vmid;
       case r of
         Inr task \<Rightarrow> wait_for_task e (pb_node b) task
       | Inl _ \<Rightarrow> give () } }"

definition px_select_image :: "proxmox_backend \<Rightarrow> create_runner_command \<Rightarrow> string" where
  "px_select_image b cmd = (case mapping_for (pb_labels b) (nat_to_string (pv_template_vmid (pb_vm b))) (px_mappings b)
      (cr_label_set_id cmd) (cr_labels cmd) of
     Some m \<Rightarrow> lm_id m | None \<Rightarrow> nat_to_string (pv_template_vmid (pb_vm b)))"

definition proxmox_vm_backend :: "proxmox_backend \<Rightarrow> nat vm_backend" where
  "proxmox_vm_backend b = \<lparr>bk_labels = pb_labels b,
     bk_capabilities = capabilities (pb_labels b) (nat_to_string (pv_template_vmid (pb_vm b))) (px_mappings b),
     bk_select_image = px_select_image b, bk_vm_id = nat_to_string\<rparr>"

definition px_create :: "px_env \<Rightarrow> proxmox_backend \<Rightarrow> string \<Rightarrow> string \<Rightarrow> nat px" where
  "px_create e b name img = (case parse_u32 img of
     None \<Rightarrow> fail_with (PxVm (''Invalid template VMID '' @ img))
   | Some template_vmid \<Rightarrow> clone_template e b name template_vmid)"

end
