(* ===== verification/Proxmox_Facts.thy ===== *)
theory Proxmox_Facts
  imports Proxmox
begin

text \<open>
  Which VMs the Proxmox agent deletes and which it leaves behind, how often it asks for a task, and which address it
  takes for a VM's.
\<close>

section \<open>Requests\<close>

text \<open>What a run adds to the requests.\<close>

definition adds :: "(px_request \<Rightarrow> bool) \<Rightarrow> (px_state, 'a) state \<Rightarrow> bool" where
  "adds P m \<longleftrightarrow> (\<forall>s. \<exists>rs. px_requests (snd (run_state m s)) = px_requests s @ rs \<and> list_all P rs)"

named_theorems adds_intros

lemma adds_ret [adds_intros]: "adds P (ret a)"
  by (simp add: adds_def)

lemma adds_give [adds_intros]: "adds P (give a)"
  by (simp add: give_def adds_ret)

lemma adds_fail [adds_intros]: "adds P (fail_with err)"
  by (simp add: fail_with_def adds_ret)

lemma adds_sleep [adds_intros]: "adds P (px_sleep d)"
  by (simp add: adds_def px_sleep_def)

lemma adds_bind [adds_intros]:
  assumes "adds P m" "\<And>a. adds P (f a)"
  shows "adds P (m \<bind> f)"
  unfolding adds_def
proof
  fix s
  obtain a t where t: "run_state m s = (a, t)" by fastforce
  obtain rs where "px_requests t = px_requests s @ rs" "list_all P rs" using assms(1) t unfolding adds_def by (metis snd_conv)
  moreover obtain rs' where "px_requests (snd (run_state (f a) t)) = px_requests t @ rs'" "list_all P rs'"
    using assms(2) unfolding adds_def by blast
  ultimately show "\<exists>rs. px_requests (snd (run_state (m \<bind> f) s)) = px_requests s @ rs \<and> list_all P rs"
    by (auto simp: t)
qed

lemma adds_try [adds_intros]: "adds P m \<Longrightarrow> (\<And>a. adds P (f a)) \<Longrightarrow> adds P (try_bind m f)"
  unfolding try_bind_def by (intro adds_bind) (auto split: sum.split intro: adds_ret)

lemma adds_send [adds_intros]:
  "P \<lparr>rx_method = m, rx_path = path, rx_form = form\<rparr> \<Longrightarrow> adds P (px_send e m path form)"
  by (simp add: adds_def px_send_def Let_def)

definition keeps_vm :: "px_request \<Rightarrow> bool" where
  "keeps_vm r \<longleftrightarrow> rx_method r \<noteq> DELETE"

lemma adds_task_status [adds_intros]: "adds keeps_vm (get_task_status e node upid)"
  unfolding get_task_status_def by (auto intro!: adds_intros simp: keeps_vm_def split: px_body.split)

lemma wait_from_keeps:
  "\<exists>rs. px_requests (snd (wait_for_task_from e node upid start limit s)) = px_requests s @ rs \<and> list_all keeps_vm rs"
proof (induction e node upid start limit s rule: wait_for_task_from.induct)
  case (1 e node upid start limit s)
  obtain r t where rt: "run_state (get_task_status e node upid) s = (r, t)" by fastforce
  obtain rs where rs: "px_requests t = px_requests s @ rs" "list_all keeps_vm rs"
    using adds_task_status [of e node upid] rt unfolding adds_def by (metis snd_conv)
  show ?case
  proof (cases "px_now s - start > limit \<or> (\<forall>st. r = Inr st \<longrightarrow> ts_status st \<noteq> ''running'')")
    case True
    then show ?thesis using rs rt by (subst wait_for_task_from.simps) (auto split: sum.split)
  next
    case False
    then obtain st where st: "r = Inr st" "ts_status st = ''running''" "\<not> px_now s - start > limit" by blast
    obtain rs' where "px_requests (snd (wait_for_task_from e node upid start limit (t\<lparr>px_now := px_now t + 500\<rparr>))) =
        px_requests t @ rs'" "list_all keeps_vm rs'"
      using 1 [OF st(3) rt [symmetric] refl st(1)] st(2) by auto
    then show ?thesis using rs rt st by (subst wait_for_task_from.simps) auto
  qed
qed

lemma adds_wait [adds_intros]: "adds keeps_vm (wait_for_task_with_timeout e node upid limit)"
  unfolding adds_def wait_for_task_with_timeout_def using wait_from_keeps by auto


section \<open>Waiting for a task\<close>

lemma task_status_one_request: "length (px_requests (snd (run_state (get_task_status e node upid) s))) = Suc (length (px_requests s))"
  by (auto simp: get_task_status_def px_send_def Let_def try_bind_def give_def fail_with_def split: option.split px_body.split)

lemma wait_from_polls:
  "start \<le> px_now s \<Longrightarrow> length (px_requests (snd (wait_for_task_from e node upid start limit s))) \<le>
     length (px_requests s) + (start + limit + 500 - px_now s) div 500"
proof (induction e node upid start limit s rule: wait_for_task_from.induct)
  case (1 e node upid start limit s)
  obtain r t where rt: "run_state (get_task_status e node upid) s = (r, t)" by fastforce
  have one: "length (px_requests t) = Suc (length (px_requests s))" using task_status_one_request [of e node upid s] rt by simp
  have now: "px_now s \<le> px_now t" using get_task_status_now [of s e node upid] rt by simp
  show ?case
  proof (cases "px_now s - start > limit")
    case True then show ?thesis by (subst wait_for_task_from.simps) simp
  next
    case False
    define x where "x = start + limit - px_now s"
    have x: "start + limit + 500 - px_now s = x + 500" using False 1(2) by (simp add: x_def)
    show ?thesis
    proof (cases "\<exists>st. r = Inr st \<and> ts_status st = ''running''")
      case True
      then obtain st where st: "r = Inr st" "ts_status st = ''running''" by blast
      have "length (px_requests (snd (wait_for_task_from e node upid start limit (t\<lparr>px_now := px_now t + 500\<rparr>)))) \<le>
          length (px_requests t) + (start + limit + 500 - (px_now t + 500)) div 500"
        using 1(1) [OF False rt [symmetric] refl st(1)] 1(2) st(2) now by simp
      also have "\<dots> \<le> Suc (length (px_requests s)) + x div 500"
        using one now by (simp add: x_def div_le_mono)
      finally show ?thesis using False rt st by (subst wait_for_task_from.simps) (simp add: x)
    next
      case other: False
      then show ?thesis using False rt one x by (subst wait_for_task_from.simps) (auto split: sum.split)
    qed
  qed
qed

text \<open>Waiting for a task ends, after at most one request for each half second of the timeout, and one more.\<close>

lemma task_polls_bounded:
  "length (px_requests (snd (run_state (wait_for_task_with_timeout e node upid limit) s))) \<le>
     length (px_requests s) + limit div 500 + 1"
proof -
  have "(limit + 500) div 500 = limit div 500 + 1" by simp
  then show ?thesis using wait_from_polls [of "px_now s" s e node upid limit] by (simp add: wait_for_task_with_timeout_def)
qed

section \<open>Addresses\<close>

lemma first_address_usable:
  "first_address ifs = Some ip \<Longrightarrow> \<exists>i \<in> set ifs. ni_name i \<noteq> ''lo'' \<and> (\<exists>a \<in> set (ni_addresses i). ia_address a = ip \<and> usable_address a)"
proof -
  assume "first_address ifs = Some ip"
  then obtain a as where "filter usable_address (concat (map ni_addresses
      (filter (\<lambda>i. ni_name i \<noteq> ''lo'' \<and> ni_name i \<noteq> ''Loopback Pseudo-Interface 1'') ifs))) = a # as" "ia_address a = ip"
    by (auto simp: first_address_def split: list.splits)
  then have "a \<in> set (filter usable_address (concat (map ni_addresses
      (filter (\<lambda>i. ni_name i \<noteq> ''lo'' \<and> ni_name i \<noteq> ''Loopback Pseudo-Interface 1'') ifs))))" by simp
  then show ?thesis using \<open>ia_address a = ip\<close> by auto
qed

text \<open>The address a VM is reached at is one the guest agent lists for IPv4, on an interface that is not the loopback,
  and neither of the loopback's nor link-local.\<close>

lemma polled_address_usable:
  "fst (poll_for_ip_from e node vmid start limit s) = Inr ip \<Longrightarrow>
     \<not> is_prefix_of ''127.'' ip \<and> \<not> is_prefix_of ''169.254.'' ip"
proof (induction e node vmid start limit s rule: poll_for_ip_from.induct)
  case (1 e node vmid start limit s)
  obtain r t where rt: "run_state (get_network_interfaces e node vmid) s = (r, t)" by fastforce
  have now: "px_now s - start < limit" using 1(2) by (subst (asm) poll_for_ip_from.simps) (auto split: if_splits)
  show ?case
  proof (cases "case r of Inr ifs \<Rightarrow> first_address ifs | Inl _ \<Rightarrow> None")
    case None
    have "fst (poll_for_ip_from e node vmid start limit (t\<lparr>px_now := px_now t + 2000\<rparr>)) = Inr ip"
      using 1(2) now rt None by (subst (asm) poll_for_ip_from.simps) simp
    then show ?thesis using 1(1) [OF _ rt [symmetric] refl None] now by simp
  next
    case (Some a)
    then have "ip = a" using 1(2) now rt by (subst (asm) poll_for_ip_from.simps) simp
    moreover obtain ifs where "first_address ifs = Some a" using Some by (auto split: sum.splits)
    ultimately show ?thesis using first_address_usable by (fastforce simp: usable_address_def)
  qed
qed

section \<open>VMs that are deleted\<close>

text \<open>A VM that Proxmox names otherwise than the agent did is left alone.\<close>

lemma renamed_vm_spared:
  assumes "pe_answer e (length (px_requests s)) r = Some a" "r = \<lparr>rx_method = GET, rx_path = qemu_path (pb_node b) vmid @ ''/status/current'', rx_form = []\<rparr>"
    "is_success (pr_status a)" "pr_body a = StatusBody st" "vt_name st = Some actual" "actual \<noteq> name"
  shows "fst (run_state (stop_and_delete e b vmid name) s) = Inl (PxVm name) \<and>
    px_requests (snd (run_state (stop_and_delete e b vmid name) s)) = px_requests s @ [r]"
  using assms by (simp add: stop_and_delete_def get_vm_status_def px_send_def Let_def try_bind_def give_def fail_with_def)

text \<open>A status that can't be read does not keep the agent from deleting what has the number now.\<close>

lemma delete_sent:
  "\<lparr>rx_method = DELETE, rx_path = qemu_path node vmid, rx_form = []\<rparr> \<in> set (px_requests (snd (run_state (delete_vm e node vmid) s)))"
  by (auto simp: delete_vm_def started_task_def px_send_def Let_def try_bind_def give_def fail_with_def split: option.split sum.split)

lemma adds_any: "adds P m \<Longrightarrow> adds (\<lambda>_. True) m"
  unfolding adds_def by (simp add: list_all_iff) blast

lemma unreadable_status_deletes:
  assumes "fst (run_state (get_vm_status e (pb_node b) vmid) s) = Inl err"
  shows "\<exists>r \<in> set (px_requests (snd (run_state (stop_and_delete e b vmid name) s))).
    rx_method r = DELETE \<and> rx_path r = qemu_path (pb_node b) vmid"
proof -
  obtain t where t: "run_state (get_vm_status e (pb_node b) vmid) s = (Inl err, t)" using assms by (metis eq_fst_iff)
  obtain u where u: "run_state (do { stop_for_deletion e (pb_node b) vmid; px_sleep 2000 }) t = ((), u)" by (metis surj_pair unit.exhaust)
  obtain r v where v: "run_state (delete_vm e (pb_node b) vmid) u = (r, v)" by fastforce
  have d: "\<lparr>rx_method = DELETE, rx_path = qemu_path (pb_node b) vmid, rx_form = []\<rparr> \<in> set (px_requests v)"
    using delete_sent [of "pb_node b" vmid e u] v by simp
  have "adds (\<lambda>_. True) (case r of Inr task \<Rightarrow> wait_for_task e (pb_node b) task | Inl _ \<Rightarrow> give ())"
    by (auto intro!: adds_give adds_any [OF adds_wait] simp: wait_for_task_def split: sum.split)
  then obtain rs where "px_requests (snd (run_state (case r of Inr task \<Rightarrow> wait_for_task e (pb_node b) task | Inl _ \<Rightarrow> give ()) v)) =
      px_requests v @ rs" unfolding adds_def by blast
  moreover have "snd (run_state (stop_and_delete e b vmid name) s) =
      snd (run_state (case r of Inr task \<Rightarrow> wait_for_task e (pb_node b) task | Inl _ \<Rightarrow> give ()) v)"
    using t u v by (auto simp: stop_and_delete_def split: prod.splits)
  ultimately show ?thesis using d by (intro bexI [of _ "\<lparr>rx_method = DELETE, rx_path = qemu_path (pb_node b) vmid, rx_form = []\<rparr>"]) auto
qed

section \<open>Clones that are left behind\<close>









end
