(* ===== verification/Tart.thy ===== *)
theory Tart
  imports Guest
begin

text \<open>
  \<^verbatim>\<open>kuiper-tart-agent/src/backend.rs\<close> with the limits of \<^verbatim>\<open>config.rs\<close>: VMs through the tart command, the guest OS of
  an image, and the running VMs that are not the agent's. What the \<open>n\<close>-th command comes to and how long it takes is an
  argument, and so is what other tasks of the agent do meanwhile to the set of VMs it has made. The JSON of tart is an
  argument. Times are in milliseconds.
\<close>

section \<open>Settings and limits\<close>

datatype tart_os = TartMacOS | TartLinux

definition os_from_tart :: "string \<Rightarrow> tart_os" where
  "os_from_tart os = (if eq_ignore_ascii_case os ''linux'' then TartLinux else TartMacOS)"

definition LIMIT_MACOS :: string where "LIMIT_MACOS = ''macos''"

definition LIMIT_TOTAL :: string where "LIMIT_TOTAL = ''total''"

fun os_limit_names :: "tart_os \<Rightarrow> limit_names" where
  "os_limit_names TartMacOS = [LIMIT_MACOS, LIMIT_TOTAL]"
| "os_limit_names TartLinux = [LIMIT_TOTAL]"

definition MACOS_GUEST_LIMIT :: nat where "MACOS_GUEST_LIMIT = 2"

record tart_mapping =
  tp_labels :: "string list"
  tp_image :: string
  tp_pool :: "nat option"

definition tart_label_mapping :: "tart_mapping \<Rightarrow> label_mapping" where
  "tart_label_mapping m = \<lparr>lm_labels = tp_labels m, lm_pool = tp_pool m, lm_id = tp_image m\<rparr>"

record tart_config =
  tc_base_image :: string
  tc_max_macos_vms :: nat
  tc_max_total_vms :: nat
  tc_shared_cache_dir :: "string option"
  tc_runner_version :: string
  tc_forgejo_runner_version :: string
  tc_forgejo_runner_url :: string
  tc_image_mappings :: "tart_mapping list"

definition limit_errors :: "tart_config \<Rightarrow> string list" where
  "limit_errors c =
     (if \<not> (1 \<le> tc_max_macos_vms c \<and> tc_max_macos_vms c \<le> MACOS_GUEST_LIMIT) then [''tart.max_macos_vms''] else []) @
     (if tc_max_total_vms c = 0 then [''tart.max_total_vms''] else [])"

text \<open>The checks of \<^verbatim>\<open>Config::load\<close>, as the settings they complain about.\<close>

definition tart_config_errors :: "string list \<Rightarrow> tart_config \<Rightarrow> string list" where
  "tart_config_errors ls c = (if ls = [] then [''agent.labels''] else []) @
     (if tc_base_image c = [] then [''tart.base_image''] else []) @ limit_errors c"

definition is_oci_image :: "string \<Rightarrow> bool" where
  "is_oci_image img = (case split_once (CHR ''/'') img of
     None \<Rightarrow> False | Some (prefix, _) \<Rightarrow> CHR ''.'' \<in> set prefix \<or> CHR '':'' \<in> set prefix)"

section \<open>The backend\<close>

datatype tart_error = TartTimeout string | TartIo string | CloneFailed string | TartFailed string | TartSsh ssh_error

record tart_env =
  te_run :: "nat \<Rightarrow> string list \<Rightarrow> tart_error + cmd_output"
  te_spawn :: "nat \<Rightarrow> string option"
  te_list :: "string \<Rightarrow> (string \<times> bool) list option"
  te_os :: "string \<Rightarrow> string option"
  te_took :: "nat \<Rightarrow> nat"
  te_others :: "nat \<Rightarrow> string list \<Rightarrow> string list"
  te_dial :: "nat \<Rightarrow> nat \<Rightarrow> nat \<times> bool"

record tart_state =
  ta_now :: nat
  ta_commands :: "string list list"
  ta_external :: usage_map
  ta_image_os :: "(string, tart_os) hashmap"
  ta_ours :: "string list"
  ta_changed :: bool

type_synonym 'a tart = "(tart_state, tart_error + 'a) state"

record tart_backend =
  tb_config :: tart_config
  tb_agent_labels :: "string list"

record tart_vm =
  tv_name :: string
  tv_os :: tart_os

definition tart_cmd :: "tart_env \<Rightarrow> string list \<Rightarrow> cmd_output tart" where
  "tart_cmd e args = State (\<lambda>s. let n = length (ta_commands s) in
     (te_run e n (''tart'' # args), s\<lparr>ta_now := ta_now s + te_took e n, ta_commands := ta_commands s @ [''tart'' # args],
       ta_ours := te_others e n (ta_ours s)\<rparr>))"

definition tart_clone :: "tart_env \<Rightarrow> string \<Rightarrow> string \<Rightarrow> unit tart" where
  "tart_clone e source target = try_bind (tart_cmd e [''clone'', source, target]) (\<lambda>out.
     if cd_success out then give () else fail_with (CloneFailed (cd_stderr out)))"

definition tart_stop :: "tart_env \<Rightarrow> string \<Rightarrow> unit tart" where
  "tart_stop e name = try_bind (tart_cmd e [''stop'', name]) (\<lambda>_. give ())"

definition tart_delete :: "tart_env \<Rightarrow> string \<Rightarrow> unit tart" where
  "tart_delete e name = try_bind (tart_cmd e [''delete'', name]) (\<lambda>out.
     if cd_success out then give () else fail_with (TartFailed (''delete failed: '' @ cd_stderr out)))"

definition tart_pull :: "tart_env \<Rightarrow> string \<Rightarrow> unit tart" where
  "tart_pull e img = try_bind (tart_cmd e [''pull'', img]) (\<lambda>out.
     if cd_success out then give () else fail_with (TartFailed (''pull failed: '' @ cd_stderr out)))"

definition tart_running_vms :: "tart_env \<Rightarrow> string list tart" where
  "tart_running_vms e = try_bind (tart_cmd e [''list'', ''--source'', ''local'', ''--format'', ''json'']) (\<lambda>out.
     if \<not> cd_success out then fail_with (TartFailed (''list failed: '' @ cd_stderr out))
     else (case te_list e (cd_stdout out) of
       None \<Rightarrow> fail_with (TartFailed ''bad `tart list` output'')
     | Some entries \<Rightarrow> give (map fst (filter snd entries))))"

definition tart_os_of :: "tart_env \<Rightarrow> string \<Rightarrow> string tart" where
  "tart_os_of e name = try_bind (tart_cmd e [''get'', name, ''--format'', ''json'']) (\<lambda>out.
     if \<not> cd_success out then fail_with (TartFailed (''get failed: '' @ cd_stderr out))
     else (case te_os e (cd_stdout out) of None \<Rightarrow> fail_with (TartFailed ''bad `tart get` output'') | Some os \<Rightarrow> give os))"

definition tart_ip :: "tart_env \<Rightarrow> string \<Rightarrow> ipv4 option tart" where
  "tart_ip e name = try_bind (tart_cmd e [''ip'', name]) (\<lambda>out.
     give (if cd_success out then parse_ipv4 (str_trim (cd_stdout out)) else None))"

subsection \<open>Guest systems\<close>

definition known_image_os :: "tart_env \<Rightarrow> string \<Rightarrow> (tart_state, tart_os option) state" where
  "known_image_os e img = do {
     known \<leftarrow> gets (\<lambda>s. hm_get (ta_image_os s) img);
     case known of
       Some os \<Rightarrow> ret (Some os)
     | None \<Rightarrow> do {
         r \<leftarrow> tart_os_of e img;
         case r of
           Inl _ \<Rightarrow> ret None
         | Inr os \<Rightarrow> do {
             modify (\<lambda>s. s\<lparr>ta_image_os := hm_insert img (os_from_tart os) (ta_image_os s)\<rparr>);
             ret (Some (os_from_tart os)) } } }"

definition image_os :: "tart_env \<Rightarrow> string \<Rightarrow> (tart_state, tart_os) state" where
  "image_os e img = do { os \<leftarrow> known_image_os e img; ret (case os of Some os \<Rightarrow> os | None \<Rightarrow> TartMacOS) }"

definition notify_changed :: "(tart_state, unit) state" where
  "notify_changed = modify (\<lambda>s. s\<lparr>ta_changed := True\<rparr>)"

fun resolve_images :: "tart_env \<Rightarrow> string list \<Rightarrow> bool \<Rightarrow> (tart_state, bool) state" where
  "resolve_images e [] all_known = ret all_known"
| "resolve_images e (img # imgs) all_known = do {
     os \<leftarrow> known_image_os e img;
     if os \<noteq> None then resolve_images e imgs all_known
     else if \<not> is_oci_image img then resolve_images e imgs False
     else do {
       r \<leftarrow> tart_pull e img;
       case r of
         Inl _ \<Rightarrow> resolve_images e imgs False
       | Inr _ \<Rightarrow> do {
           os \<leftarrow> known_image_os e img;
           case os of
             Some _ \<Rightarrow> do { notify_changed; resolve_images e imgs all_known }
           | None \<Rightarrow> resolve_images e imgs False } } }"

definition tart_mappings :: "tart_backend \<Rightarrow> label_mapping list" where
  "tart_mappings b = map tart_label_mapping (tc_image_mappings (tb_config b))"

definition tart_labels :: "tart_backend \<Rightarrow> string list" where
  "tart_labels b = map to_lowercase (tb_agent_labels b)"

definition tart_capabilities :: "tart_backend \<Rightarrow> capability list" where
  "tart_capabilities b = capabilities (tart_labels b) (tc_base_image (tb_config b)) (tart_mappings b)"

definition resolve_image_os :: "tart_env \<Rightarrow> tart_backend \<Rightarrow> (tart_state, bool) state" where
  "resolve_image_os e b = resolve_images e (map cap_id (tart_capabilities b)) True"

definition learn_os_from_clone :: "tart_env \<Rightarrow> string \<Rightarrow> string \<Rightarrow> (tart_state, tart_os) state" where
  "learn_os_from_clone e vm img = do {
     r \<leftarrow> tart_os_of e vm;
     case r of
       Inl _ \<Rightarrow> ret TartMacOS
     | Inr os \<Rightarrow> do {
         modify (\<lambda>s. s\<lparr>ta_image_os := hm_insert img (os_from_tart os) (ta_image_os s)\<rparr>);
         notify_changed;
         ret (os_from_tart os) } }"

subsection \<open>VMs of others\<close>

fun count_vms :: "tart_env \<Rightarrow> string list \<Rightarrow> usage_map \<Rightarrow> (tart_state, usage_map) state" where
  "count_vms e [] u = ret u"
| "count_vms e (name # names) u = do {
     r \<leftarrow> tart_os_of e name;
     count_vms e names (fold bump (os_limit_names (case r of Inr os \<Rightarrow> os_from_tart os | Inl _ \<Rightarrow> TartMacOS)) u) }"

definition count_external :: "tart_env \<Rightarrow> usage_map tart" where
  "count_external e = do {
     before \<leftarrow> gets ta_ours;
     try_bind (tart_running_vms e) (\<lambda>running. do {
       after \<leftarrow> gets ta_ours;
       u \<leftarrow> count_vms e (filter (\<lambda>name. name \<notin> set (before @ after)) running) [];
       give u }) }"

text \<open>Two counts are equal when they have the same entries.\<close>

definition refresh_external :: "tart_env \<Rightarrow> (tart_state, unit) state" where
  "refresh_external e = do {
     r \<leftarrow> count_external e;
     case r of
       Inl _ \<Rightarrow> ret ()
     | Inr external \<Rightarrow> do {
         old \<leftarrow> gets ta_external;
         modify (\<lambda>s. s\<lparr>ta_external := external\<rparr>);
         if map_of old \<noteq> map_of external then notify_changed else ret () } }"

subsection \<open>The agent's VMs\<close>

definition forget_vm :: "string \<Rightarrow> (tart_state, unit) state" where
  "forget_vm name = modify (\<lambda>s. s\<lparr>ta_ours := filter (\<lambda>n. n \<noteq> name) (ta_ours s)\<rparr>)"

definition tart_clone_vm :: "tart_env \<Rightarrow> string \<Rightarrow> string \<Rightarrow> tart_vm tart" where
  "tart_clone_vm e name img = do {
     known \<leftarrow> known_image_os e img;
     modify (\<lambda>s. s\<lparr>ta_ours := List.insert name (ta_ours s)\<rparr>);
     r \<leftarrow> tart_clone e img name;
     case r of
       Inl err \<Rightarrow> do { forget_vm name; fail_with err }
     | Inr _ \<Rightarrow> do {
         os \<leftarrow> (case known of Some os \<Rightarrow> ret os | None \<Rightarrow> learn_os_from_clone e name img);
         give \<lparr>tv_name = name, tv_os = os\<rparr> } }"

text \<open>The command of a VM that is started in the background; the error is that it could not be.\<close>

definition tart_run :: "tart_env \<Rightarrow> tart_backend \<Rightarrow> string \<Rightarrow> unit tart" where
  "tart_run e b name = do {
     n \<leftarrow> gets (\<lambda>s. length (ta_commands s));
     modify (\<lambda>s. s\<lparr>ta_commands := ta_commands s @ [''tart'' # [''run'', name, ''--no-graphics''] @
       (case tc_shared_cache_dir (tb_config b) of Some d \<Rightarrow> [''--dir'', ''cache:'' @ d] | None \<Rightarrow> [])]\<rparr>);
     case te_spawn e n of Some err \<Rightarrow> fail_with (TartIo err) | None \<Rightarrow> give () }"

lemma tart_cmd_now: "ta_now s \<le> ta_now (snd (run_state (tart_cmd e args) s))"
  by (simp add: tart_cmd_def Let_def)

lemma tart_ip_now: "ta_now s \<le> ta_now (snd (run_state (tart_ip e name) s))"
  using tart_cmd_now [of s e "[''ip'', name]"]
  by (auto simp: tart_ip_def try_bind_def give_def split: prod.split sum.split)

function ready_loop :: "tart_env \<Rightarrow> string \<Rightarrow> nat \<Rightarrow> tart_state \<Rightarrow> (tart_error + ipv4) \<times> tart_state" where
  "ready_loop e name deadline s =
     (if \<not> ta_now s < deadline then (Inl (TartTimeout ''waiting for VM to be ready''), s)
      else (let (r, t) = run_state (tart_ip e name) s in
        case r of
          Inl err \<Rightarrow> (Inl err, t)
        | Inr None \<Rightarrow> ready_loop e name deadline (t\<lparr>ta_now := ta_now t + 3000\<rparr>)
        | Inr (Some ip) \<Rightarrow>
            (let (r', ended) = wait_for_port (te_dial e (length (ta_commands t))) (deadline - ta_now t) (ta_now t);
                 u = t\<lparr>ta_now := max (ta_now t) ended\<rparr> in
             case r' of
               Inr _ \<Rightarrow> (Inr ip, u)
             | Inl (SshTimeout _) \<Rightarrow> ready_loop e name deadline (u\<lparr>ta_now := ta_now u + 3000\<rparr>)
             | Inl err \<Rightarrow> (Inl (TartSsh err), u))))"
  by pat_completeness auto
termination
proof (relation "measure (\<lambda>(e, name, deadline, s). deadline - ta_now s)", goal_cases)
  case 1 then show ?case by simp
next
  case (2 e name deadline s x r t y)
  then have "ta_now s \<le> ta_now t" using tart_ip_now by (metis snd_conv)
  then show ?case using 2 by simp
next
  case (3 e name deadline s x r t y ip xa r' ended u)
  then have "ta_now s \<le> ta_now t" using tart_ip_now by (metis snd_conv)
  then show ?case using 3 by simp
qed

declare ready_loop.simps [simp del]

definition wait_for_ready :: "tart_env \<Rightarrow> string \<Rightarrow> nat \<Rightarrow> ipv4 tart" where
  "wait_for_ready e name wait = State (\<lambda>s. ready_loop e name (ta_now s + wait) s)"

definition tart_start :: "tart_env \<Rightarrow> tart_backend \<Rightarrow> tart_vm \<Rightarrow> ipv4 tart" where
  "tart_start e b vm = try_bind (tart_run e b (tv_name vm)) (\<lambda>_. wait_for_ready e (tv_name vm) 120000)"

definition tart_stop_and_delete :: "tart_env \<Rightarrow> string \<Rightarrow> (tart_state, unit) state" where
  "tart_stop_and_delete e name = do {
     _ \<leftarrow> tart_stop e name;
     _ \<leftarrow> tart_delete e name;
     forget_vm name }"

definition tart_destroy :: "tart_env \<Rightarrow> tart_vm \<Rightarrow> unit tart" where
  "tart_destroy e vm = do { tart_stop_and_delete e (tv_name vm); give () }"

definition tart_destroy_untracked :: "tart_env \<Rightarrow> string \<Rightarrow> unit tart" where
  "tart_destroy_untracked e name = do { tart_stop_and_delete e name; give () }"

definition tart_select_image :: "tart_backend \<Rightarrow> create_runner_command \<Rightarrow> string" where
  "tart_select_image b cmd = (case mapping_for (tb_agent_labels b) (tc_base_image (tb_config b)) (tart_mappings b)
      (cr_label_set_id cmd) (cr_labels cmd) of
     Some m \<Rightarrow> lm_id m | None \<Rightarrow> tc_base_image (tb_config b))"

definition tart_limits :: "tart_config \<Rightarrow> limit list" where
  "tart_limits c = [\<lparr>lim_name = LIMIT_MACOS, lim_max = tc_max_macos_vms c\<rparr>, \<lparr>lim_name = LIMIT_TOTAL, lim_max = tc_max_total_vms c\<rparr>]"

definition image_limits :: "tart_env \<Rightarrow> string \<Rightarrow> (tart_state, limit_names) state" where
  "image_limits e img = do { os \<leftarrow> image_os e img; ret (os_limit_names os) }"

definition tart_vm_backend :: "tart_backend \<Rightarrow> tart_vm vm_backend" where
  "tart_vm_backend b = \<lparr>bk_labels = tart_labels b, bk_capabilities = tart_capabilities b,
     bk_select_image = tart_select_image b, bk_vm_id = tv_name\<rparr>"

end
