(* ===== verification/Tart_Run.thy ===== *)
theory Tart_Run
  imports Tart
begin

text \<open>
  \<^verbatim>\<open>kuiper-tart-agent/src/ssh.rs\<close> and \<^verbatim>\<open>run_job\<close> of \<^verbatim>\<open>backend.rs\<close>: setting up a job's runner on a Tart VM, starting it
  in the background, and following its log until its exit status is there. Every command has a connection of its own.
  The commands, answers and reports are those of \<open>Guest\<close>; a connection that fails counts as an entry of what was sent,
  so that the next one is another attempt. The scripts and the text of times are arguments.
\<close>

section \<open>Connections\<close>

datatype tart_auth = TartPassword string | TartKeyFile string | TartDefaultKey

record tart_ssh_config =
  th_username :: string
  th_auth :: tart_auth
  th_timeout_secs :: nat

record ssh_auth_config =
  ac_username :: string
  ac_auth_method :: string
  ac_password :: "string option"
  ac_private_key :: "string option"
  ac_timeout_secs :: nat

definition from_auth_config :: "ssh_auth_config \<Rightarrow> tart_ssh_config" where
  "from_auth_config c = \<lparr>th_username = ac_username c,
     th_auth =
       (if ac_auth_method c = ''password'' then (case ac_password c of Some p \<Rightarrow> TartPassword p | None \<Rightarrow> TartDefaultKey)
        else if ac_auth_method c = ''key'' then (case ac_private_key c of Some p \<Rightarrow> TartKeyFile p | None \<Rightarrow> TartDefaultKey)
        else TartDefaultKey),
     th_timeout_secs = ac_timeout_secs c\<rparr>"

text \<open>Keys are read for every connection: the error of reading a file, and which default key is there, at its number.\<close>

record tart_host =
  to_config :: tart_ssh_config
  to_load_key :: "nat \<Rightarrow> string \<Rightarrow> ssh_error option"
  to_default_key :: "nat \<Rightarrow> string option"
  to_net :: ssh_net
  to_runner_script :: string
  to_job_wrapper :: string
  to_log_opens :: bool
  to_log_writes :: "nat \<Rightarrow> bool"
  to_stamp :: "nat \<Rightarrow> string"

definition tart_client :: "tart_host \<Rightarrow> nat \<Rightarrow> ssh_error + ssh_client" where
  "tart_client h n = (let c = to_config h;
       key = (\<lambda>path. case to_load_key h n path of Some e \<Rightarrow> Inl e | None \<Rightarrow> Inr (KeyAuth path)) in
     case (case th_auth c of
         TartPassword p \<Rightarrow> Inr (PasswordAuth p)
       | TartKeyFile path \<Rightarrow> key path
       | TartDefaultKey \<Rightarrow> (case to_default_key h n of
           None \<Rightarrow> Inl (SshKey ''no default SSH key found (~/.ssh/id_ed25519 or ~/.ssh/id_rsa)'') | Some path \<Rightarrow> key path)) of
       Inl e \<Rightarrow> Inl e
     | Inr auth \<Rightarrow> Inr (with_timeout (th_timeout_secs c * 1000) (new_ssh_client (th_username c) auth)))"

definition tart_connect :: "tart_host \<Rightarrow> unit guest" where
  "tart_connect h = do {
     n \<leftarrow> gets (\<lambda>s. length (gu_sent s));
     case (case tart_client h n of Inl e \<Rightarrow> Inl e | Inr c \<Rightarrow> ssh_connect (to_net h) c n) of
       Inl e \<Rightarrow> do { modify (\<lambda>s. s\<lparr>gu_sent := gu_sent s @ [NoSession]\<rparr>); fail_with (SshFailed e) }
     | Inr _ \<Rightarrow> give () }"

definition tart_stdout :: "command_output \<Rightarrow> string guest" where
  "tart_stdout out = (case into_stdout out of Inl e \<Rightarrow> fail_with (SshFailed e) | Inr o' \<Rightarrow> give o')"

definition ssh_exec :: "guest_kit \<Rightarrow> tart_host \<Rightarrow> string \<Rightarrow> string guest" where
  "ssh_exec k h command = try_bind (tart_connect h) (\<lambda>_. try_bind (execute k command) tart_stdout)"

definition ssh_exec_secret :: "guest_kit \<Rightarrow> tart_host \<Rightarrow> string \<Rightarrow> string \<Rightarrow> string guest" where
  "ssh_exec_secret k h command what = try_bind (tart_connect h) (\<lambda>_. try_bind (execute_secret k command what) tart_stdout)"

section \<open>Setting up a runner\<close>

fun runner_commands :: "tart_os \<Rightarrow> runner_config_builder" where
  "runner_commands TartMacOS = builder_macos ''~/actions-runner''"
| "runner_commands TartLinux = builder_linux ''~/actions-runner''"

definition vm_arch :: "guest_kit \<Rightarrow> tart_host \<Rightarrow> arch guest" where
  "vm_arch k h = try_bind (ssh_exec k h ''uname -m'') (\<lambda>uname. case from_uname uname of
     None \<Rightarrow> fail_with (RunnerFailed (''Unsupported architecture: '' @ str_trim uname @ ''. Expected arm64 or x86_64.''))
   | Some a \<Rightarrow> give a)"

definition install_runner :: "guest_kit \<Rightarrow> tart_host \<Rightarrow> string \<Rightarrow> tart_os \<Rightarrow> unit guest" where
  "install_runner k h version os = (let commands = runner_commands os in do {
     report_call (JobStep phase_install);
     v \<leftarrow> with_cache (github_version (gk_api k) (jt_queued (gk_times k)) (gk_saves k) version);
     try_bind (vm_arch k h) (\<lambda>a.
     try_bind (tart_connect h) (\<lambda>_. do {
       src \<leftarrow> cache_install k (\<lambda>session. install_github (gk_sha k) (gk_b64 k) (gk_api k) (gk_http k) (gk_io k) (gk_times k)
         session commands v a);
       if source_installed src then do { report_call (JobStep phase_setup); give () }
       else do {
         sha256 \<leftarrow> with_cache (github_checksum (gk_api k) v (rb_platform commands) a);
         try_bind (ssh_exec k h (builder_install_command (gk_b64 k) (gk_unix_script k) (gk_windows_script k) commands v a sha256))
           (\<lambda>_. do { report_call (JobStep phase_setup); give () }) } })) })"

definition ensure_runner_installed :: "guest_kit \<Rightarrow> tart_host \<Rightarrow> string \<Rightarrow> tart_os \<Rightarrow> unit guest" where
  "ensure_runner_installed k h version os = do {
     check \<leftarrow> ssh_exec k h (check_installed_command (gk_b64 k) (runner_commands os));
     if (case check of Inr out \<Rightarrow> str_trim out = ''installed'' | Inl _ \<Rightarrow> False)
     then do { report_call (SkipJobStep phase_install); give () }
     else install_runner k h version os }"

definition configure_runner :: "guest_kit \<Rightarrow> tart_host \<Rightarrow> guest_job \<Rightarrow> string \<Rightarrow> tart_os \<Rightarrow> unit guest" where
  "configure_runner k h job version os =
     (if gj_registration_token job = [] then fail_with (RunnerFailed ''GitHub runner registration token is empty - cannot configure runner'')
      else if gj_runner_scope_url job = [] then fail_with (RunnerFailed ''Runner scope URL is empty - cannot configure runner'')
      else try_bind (ensure_runner_installed k h version os) (\<lambda>_.
        try_bind (ssh_exec_secret k h (config_command (gk_b64 k) (runner_commands os) (gj_runner_scope_url job)
          (gj_registration_token job) (gj_labels job) (gj_runner_name job)) ''config.sh (registration token)'') (\<lambda>_. give ())))"

definition install_tart_forgejo :: "guest_kit \<Rightarrow> tart_host \<Rightarrow> string \<Rightarrow> string \<Rightarrow> tart_os \<Rightarrow> unit guest" where
  "install_tart_forgejo k h configured url_template os = (let version = resolve_version configured;
       ros = (case os of TartMacOS \<Rightarrow> OsMacOS | TartLinux \<Rightarrow> OsLinux) in do {
     report_call (JobStep phase_install);
     try_bind (vm_arch k h) (\<lambda>a. let url = forgejo_download_url url_template version ros a in
     try_bind (tart_connect h) (\<lambda>_. do {
       src \<leftarrow> cache_install k (\<lambda>session. install_forgejo (gk_sha k) (gk_b64 k) (gk_text k) (gk_http k) (gk_io k) (gk_times k)
         session url version ros a);
       try_bind (if source_installed src then give []
                 else ssh_exec k h (forgejo_install_command (gk_forgejo_script k) url version ros a))
         (\<lambda>_. do { report_call (JobStep phase_setup); give () }) })) })"

definition prepare_forgejo_runner ::
  "guest_kit \<Rightarrow> tart_host \<Rightarrow> one_job \<Rightarrow> string \<Rightarrow> string \<Rightarrow> tart_os \<Rightarrow> unit guest" where
  "prepare_forgejo_runner k h job version url_template os = do {
     check \<leftarrow> ssh_exec k h forgejo_check_installed_command;
     try_bind (if (case check of Inr out \<Rightarrow> str_trim out = ''installed'' | Inl _ \<Rightarrow> False)
               then do { report_call (SkipJobStep phase_install); give () }
               else install_tart_forgejo k h version url_template os) (\<lambda>_.
     case prepare_command job of
       Inl e \<Rightarrow> fail_with (RunnerFailed e)
     | Inr prepare \<Rightarrow> try_bind (ssh_exec_secret k h prepare ''write forgejo-runner job files (runner token)'') (\<lambda>_. give ())) }"

section \<open>Following the log\<close>

definition log_poll_command :: "nat \<Rightarrow> string" where
  "log_poll_command from = ''n=$(( $(wc -c < ~/runner.log 2>/dev/null || echo 0) )); echo $n; if [ $n -gt '' @ nat_to_string from @
     '' ]; then tail -c +'' @ nat_to_string (from + 1) @ '' ~/runner.log | head -c $((n - '' @ nat_to_string from @ '')); fi''"

text \<open>The log file as it is after a write, or the error of one that fails, at the number of commands that were sent.\<close>

definition write_log :: "tart_host \<Rightarrow> nat \<Rightarrow> string \<Rightarrow> string \<Rightarrow> (runner_error + unit) \<times> string" where
  "write_log h n new log = (if to_log_writes h n then (Inr (), log @ new) else (Inl (RunnerFailed ''Failed to write to log''), log))"

definition poll_and_stream_log ::
  "guest_kit \<Rightarrow> tart_host \<Rightarrow> nat \<Rightarrow> string \<Rightarrow> guest_session \<Rightarrow> (runner_error + nat) \<times> string \<times> guest_session" where
  "poll_and_stream_log k h from log s = (let (r, t) = run_state (ssh_exec k h (log_poll_command from)) s in
     case r of
       Inl _ \<Rightarrow> (Inr from, log, t)
     | Inr output \<Rightarrow> (let (size_str, new) = (case split_once NEWLINE output of Some p \<Rightarrow> p | None \<Rightarrow> (output, [])) in
         case parse_u64 (str_trim size_str) of
           None \<Rightarrow> (Inr from, log, t)
         | Some current \<Rightarrow>
             if current \<le> from then (Inr from, log, t)
             else if new = [] then (Inr current, log, t)
             else (case write_log h (length (gu_sent t)) new log of
               (Inl e, log') \<Rightarrow> (Inl e, log', t) | (Inr _, log') \<Rightarrow> (Inr current, log', t))))"

text \<open>\<^verbatim>\<open>str::parse::<i32>\<close>.\<close>

definition parse_i32 :: "string \<Rightarrow> int option" where
  "parse_i32 s = (let neg = (s \<noteq> [] \<and> hd s = CHR ''-''); ds = (if s \<noteq> [] \<and> (hd s = CHR ''-'' \<or> hd s = CHR ''+'') then tl s else s);
       v = int (foldl (\<lambda>n c. 10 * n + (of_char c - 48)) 0 ds); i = (if neg then - v else v) in
     if ds \<noteq> [] \<and> list_all is_digit ds \<and> - 2147483648 \<le> i \<and> i \<le> 2147483647 then Some i else None)"

definition footer :: "tart_host \<Rightarrow> nat \<Rightarrow> int \<Rightarrow> string" where
  "footer h n code = NEWLINE # ''=== Runner exited at '' @ to_stamp h n @ '' with code '' @ int_to_string code @ '' ==='' @ [NEWLINE]"

text \<open>What the loop does once the exit status is there: the rest of the log, the footer, and what the code means.\<close>

definition runner_ended ::
  "guest_kit \<Rightarrow> tart_host \<Rightarrow> string \<Rightarrow> nat \<Rightarrow> string \<Rightarrow> guest_session \<Rightarrow> (runner_error + unit) \<times> string \<times> guest_session" where
  "runner_ended k h exit_content from log s = (let code = (case parse_i32 exit_content of Some c \<Rightarrow> c | None \<Rightarrow> -1);
       (_, log1, t) = poll_and_stream_log k h from log s in
     case write_log h (length (gu_sent t)) (footer h (length (gu_sent t)) code) log1 of
       (Inl e, log2) \<Rightarrow> (Inl e, log2, t)
     | (Inr _, log2) \<Rightarrow> (if code = 0 then Inr () else Inl (RunnerFailed (''Runner failed (exit code: '' @ int_to_string code @ '')'')), log2, t))"

text \<open>The time the entries from one number of sent commands to another took.\<close>

definition elapsed :: "guest_kit \<Rightarrow> nat \<Rightarrow> nat \<Rightarrow> nat" where
  "elapsed k n m = sum_list (map (gk_elapsed k) [n..<m])"

function watch_runner ::
  "guest_kit \<Rightarrow> tart_host \<Rightarrow> nat \<Rightarrow> nat \<Rightarrow> nat \<Rightarrow> string \<Rightarrow> guest_session \<Rightarrow> (runner_error + unit) \<times> string \<times> guest_session" where
  "watch_runner k h deadline now from log s =
     (if now > deadline then (Inl (SshFailed (SshTimeout ''waiting for runner completion (6 hours)'')), log, s)
      else (let (r, log1, t) = poll_and_stream_log k h from log s in
        case r of
          Inl e \<Rightarrow> (Inl e, log1, t)
        | Inr from' \<Rightarrow> (let (status, u) = run_state (ssh_exec k h ''cat ~/runner-exit-status 2>/dev/null'') t;
              content = (case status of Inr c \<Rightarrow> str_trim c | Inl _ \<Rightarrow> []) in
            if content \<noteq> [] then runner_ended k h content from' log1 u
            else watch_runner k h deadline (now + elapsed k (length (gu_sent s)) (length (gu_sent u)) + 5000) from' log1 u)))"
  by pat_completeness auto
termination
  by (relation "measure (\<lambda>(k, h, deadline, now, from, log, s). deadline + 1 - now)") auto

declare watch_runner.simps [simp del]

section \<open>Running a job\<close>

datatype runner_program = GithubProgram | ForgejoProgram

definition script_path :: string where "script_path = ''~/start-runner.sh''"

definition upload_script_command :: "string \<Rightarrow> string" where
  "upload_script_command script = ''cat > '' @ script_path @ '' << 'RUNNER_SCRIPT_EOF'' @ [QUOTE, NEWLINE] @ script @
     NEWLINE # ''RUNNER_SCRIPT_EOF'' @ NEWLINE # ''chmod +x '' @ script_path"

definition write_jit_command :: "string \<Rightarrow> string" where
  "write_jit_command jit = ''cat > ~/jit-config.txt << 'JIT_CONFIG_EOF'' @ [QUOTE, NEWLINE] @ jit @ NEWLINE # ''JIT_CONFIG_EOF''"

fun launch_command :: "tart_os \<Rightarrow> string" where
  "launch_command TartMacOS = ''open -a Terminal '' @ script_path"
| "launch_command TartLinux = ''setsid nohup bash -l '' @ script_path @ '' > /dev/null 2>&1 < /dev/null &''"

text \<open>An error of \<^verbatim>\<open>ssh_exec\<close> with what was tried put in front.\<close>

definition trying :: "string \<Rightarrow> string guest \<Rightarrow> unit guest" where
  "trying what m = do { r \<leftarrow> m; case r of Inl _ \<Rightarrow> fail_with (RunnerFailed what) | Inr _ \<Rightarrow> give () }"

definition launch_runner :: "guest_kit \<Rightarrow> tart_host \<Rightarrow> string \<Rightarrow> tart_os \<Rightarrow> runner_program \<Rightarrow> unit guest" where
  "launch_runner k h jit os program =
     try_bind (trying ''Failed to upload runner script'' (ssh_exec k h (upload_script_command
       (case program of GithubProgram \<Rightarrow> to_runner_script h | ForgejoProgram \<Rightarrow> to_job_wrapper h)))) (\<lambda>_.
     try_bind (if jit \<noteq> [] then trying ''Failed to write JIT config'' (ssh_exec_secret k h (write_jit_command jit) ''write JIT config'')
               else give ()) (\<lambda>_. do {
     _ \<leftarrow> ssh_exec k h ''rm -f ~/runner-exit-status'';
     trying ''Failed to launch runner'' (ssh_exec k h (launch_command os)) }))"

definition log_header :: "tart_host \<Rightarrow> nat \<Rightarrow> string" where
  "log_header h n = NEWLINE # ''=== Runner started at '' @ to_stamp h n @ '' ==='' @ [NEWLINE, NEWLINE]"

text \<open>The log file has \<open>log\<close> in it at the start; the clock starts at 0 when the polling does.\<close>

definition start_runner_and_wait ::
  "guest_kit \<Rightarrow> tart_host \<Rightarrow> string \<Rightarrow> tart_os \<Rightarrow> runner_program \<Rightarrow> string \<Rightarrow> guest_session \<Rightarrow>
   (runner_error + unit) \<times> string \<times> guest_session" where
  "start_runner_and_wait k h jit os program log s = (let (r, t) = run_state (launch_runner k h jit os program) s in
     case r of
       Inl e \<Rightarrow> (Inl e, log, t)
     | Inr _ \<Rightarrow>
         if \<not> to_log_opens h then (Inl (RunnerFailed ''Failed to open log file''), log, t)
         else (case write_log h (length (gu_sent t)) (log_header h (length (gu_sent t))) log of
           (Inl e, log') \<Rightarrow> (Inl e, log', t)
         | (Inr _, log') \<Rightarrow> watch_runner k h (6 * 3600 * 1000) 0 0 log' t))"

definition prepare_tart_job :: "guest_kit \<Rightarrow> tart_host \<Rightarrow> tart_config \<Rightarrow> tart_vm \<Rightarrow> guest_job \<Rightarrow> runner_program guest" where
  "prepare_tart_job k h c vm job = (case gj_forgejo job of
     Some f \<Rightarrow> try_bind (prepare_forgejo_runner k h (guest_one_job f (gj_labels job)) (tc_forgejo_runner_version c)
       (tc_forgejo_runner_url c) (tv_os vm)) (\<lambda>_. give ForgejoProgram)
   | None \<Rightarrow>
       if gj_jit_config job \<noteq> [] then
         try_bind (ensure_runner_installed k h (tc_runner_version c) (tv_os vm)) (\<lambda>_. give GithubProgram)
       else try_bind (configure_runner k h job (tc_runner_version c) (tv_os vm)) (\<lambda>_. give GithubProgram))"

definition tart_run_job ::
  "guest_kit \<Rightarrow> tart_host \<Rightarrow> tart_config \<Rightarrow> tart_vm \<Rightarrow> guest_job \<Rightarrow> string \<Rightarrow> guest_session \<Rightarrow>
   (runner_error + unit) \<times> string \<times> guest_session" where
  "tart_run_job k h c vm job log s = (let (r, t) = run_state (prepare_tart_job k h c vm job) s in
     case r of
       Inl e \<Rightarrow> (Inl e, log, t)
     | Inr program \<Rightarrow>
         start_runner_and_wait k h (gj_jit_config job) (tv_os vm) program log (snd (run_state (report_call RunnerStarted) t)))"

end
