(* ===== verification/Guest_Facts.thy ===== *)
theory Guest_Facts
  imports Guest
begin

text \<open>
  What a job's run on a VM shows of its secrets, the order of its reports, and what a session that breaks off
  comes to.
\<close>

section \<open>Runs side by side\<close>

text \<open>What the log shows of what was sent.\<close>

fun shown :: "sent \<Rightarrow> sent" where
  "shown (SentSecret what _) = SentSecret what []"
| "shown e = e"

definition same_log :: "guest_session \<Rightarrow> guest_session \<Rightarrow> bool" where
  "same_log s t \<longleftrightarrow> map shown (gu_sent s) = map shown (gu_sent t) \<and> gu_calls s = gu_calls t \<and> gu_cache s = gu_cache t"

definition alike :: "(guest_session, 'a) state \<Rightarrow> (guest_session, 'a) state \<Rightarrow> bool" where
  "alike m m' \<longleftrightarrow> (\<forall>s t. same_log s t \<longrightarrow>
     fst (run_state m s) = fst (run_state m' t) \<and> same_log (snd (run_state m s)) (snd (run_state m' t)))"

named_theorems alike_intros

lemma alike_ret [alike_intros]: "alike (ret a) (ret a)"
  by (simp add: alike_def)

lemma alike_give [alike_intros]: "alike (give a) (give a)"
  by (simp add: give_def alike_ret)

lemma alike_fail [alike_intros]: "alike (fail_with e) (fail_with e)"
  by (simp add: fail_with_def alike_ret)

lemma alike_bind [alike_intros]:
  "alike m m' \<Longrightarrow> (\<And>a. alike (f a) (f' a)) \<Longrightarrow> alike (m \<bind> f) (m' \<bind> f')"
  by (fastforce simp: alike_def split: prod.split)

lemma alike_try_bind [alike_intros]:
  "alike m m' \<Longrightarrow> (\<And>a. alike (f a) (f' a)) \<Longrightarrow> alike (try_bind m f) (try_bind m' f')"
  unfolding try_bind_def by (intro alike_bind) (auto split: sum.split intro: alike_ret)

lemma same_log_length: "same_log s t \<Longrightarrow> length (gu_sent s) = length (gu_sent t)"
  unfolding same_log_def by (metis length_map)

lemma alike_length [alike_intros]:
  "alike (gets (\<lambda>s. length (gu_sent s))) (gets (\<lambda>s. length (gu_sent s)))"
  by (simp add: alike_def same_log_length)

lemma alike_report_call [alike_intros]: "alike (report_call c) (report_call c)"
  by (simp add: alike_def report_call_def same_log_def)

lemma alike_with_cache [alike_intros]: "alike (with_cache f) (with_cache f)"
  by (simp add: alike_def with_cache_def same_log_def)

lemma alike_logged [alike_intros]:
  "alike (modify (\<lambda>s. s\<lparr>gu_sent := gu_sent s @ [e]\<rparr>)) (modify (\<lambda>s. s\<lparr>gu_sent := gu_sent s @ [e]\<rparr>))"
  by (simp add: alike_def same_log_def)

text \<open>A VM whose answers do not depend on the text of the commands, to compare two runs with the same answers.\<close>

definition deaf :: "guest_kit \<Rightarrow> bool" where
  "deaf k \<longleftrightarrow> (\<forall>n c c'. gk_channel k n c = gk_channel k n c')"

lemma alike_send:
  assumes "deaf k" "shown e = shown e'"
  shows "alike (guest_send k e c) (guest_send k e' c')"
proof -
  have "gk_channel k n c = gk_channel k n c'" for n using assms(1) unfolding deaf_def by blast
  then show ?thesis
    using assms(2) by (auto simp: alike_def guest_send_def same_log_def dest: same_log_length [unfolded same_log_def] map_eq_imp_length_eq)
qed

lemma alike_execute [alike_intros]: "deaf k \<Longrightarrow> alike (execute k c) (execute k c)"
  by (simp add: execute_def alike_send)

lemma alike_execute_secret [alike_intros]: "deaf k \<Longrightarrow> alike (execute_secret k c what) (execute_secret k c' what)"
  by (simp add: execute_secret_def alike_send)

lemma alike_cache_install [alike_intros]: "alike (cache_install k f) (cache_install k f)"
  unfolding cache_install_def by (intro alike_intros)

lemma alike_if [alike_intros]:
  "(b \<Longrightarrow> alike m m') \<Longrightarrow> (\<not> b \<Longrightarrow> alike n n') \<Longrightarrow> alike (if b then m else n) (if b then m' else n')"
  by simp

lemma alike_case_option [alike_intros]:
  "alike m m' \<Longrightarrow> (\<And>a. alike (f a) (f' a)) \<Longrightarrow>
     alike (case x of None \<Rightarrow> m | Some a \<Rightarrow> f a) (case x of None \<Rightarrow> m' | Some a \<Rightarrow> f' a)"
  by (cases x) simp_all

lemma alike_case_prod [alike_intros]:
  "(\<And>a b. alike (f a b) (f' a b)) \<Longrightarrow> alike (case p of (a, b) \<Rightarrow> f a b) (case p of (a, b) \<Rightarrow> f' a b)"
  by (cases p) simp

lemma alike_detect [alike_intros]: "deaf k \<Longrightarrow> alike (detect_shell k) (detect_shell k)"
  unfolding detect_shell_def by (intro alike_intros)

lemma alike_sync [alike_intros]: "deaf k \<Longrightarrow> alike (sync_clock k shell) (sync_clock k shell)"
  unfolding sync_clock_def by (intro alike_intros)

lemma alike_install_github [alike_intros]: "deaf k \<Longrightarrow> alike (install_github_runner k shell v) (install_github_runner k shell v)"
  unfolding install_github_runner_def Let_def by (intro alike_intros)

lemma alike_install_forgejo [alike_intros]: "deaf k \<Longrightarrow> alike (install_forgejo_runner k shell v) (install_forgejo_runner k shell v)"
  unfolding install_forgejo_runner_def Let_def by (intro alike_intros)

lemma alike_run [alike_intros]: "deaf k \<Longrightarrow> alike (guest_run k shell runner) (guest_run k shell runner)"
  unfolding guest_run_def run_github_def run_forgejo_def fast_exit_diagnostics_def
  by (cases "pp_kind runner") (auto intro!: alike_intros)







section \<open>Reports in order\<close>

text \<open>The calls of a job that came as far as its runner, by how the runner got onto the VM; a run that fails
  before that has made a part of them.\<close>

definition job_reports :: "job_call list \<Rightarrow> bool" where
  "job_reports cs \<longleftrightarrow> cs = [SkipJobStep phase_install, RunnerStarted] \<or>
     (\<exists>src. cs = [JobStep phase_install, InstallSource src, JobStep phase_setup, RunnerStarted])"

definition partial_reports :: "job_call list \<Rightarrow> bool" where
  "partial_reports cs \<longleftrightarrow> (\<exists>full n. job_reports full \<and> cs = take n full)"

text \<open>A computation whose calls are \<open>P\<close> when it succeeds and \<open>Q\<close> otherwise, and one that makes none.\<close>

definition calls :: "(job_call list \<Rightarrow> bool) \<Rightarrow> (job_call list \<Rightarrow> bool) \<Rightarrow> 'a guest \<Rightarrow> bool" where
  "calls P Q m \<longleftrightarrow> (\<forall>s. \<exists>cs. gu_calls (snd (run_state m s)) = gu_calls s @ cs \<and>
     (case fst (run_state m s) of Inl _ \<Rightarrow> Q cs | Inr _ \<Rightarrow> P cs))"

definition still :: "(guest_session, 'a) state \<Rightarrow> bool" where
  "still m \<longleftrightarrow> (\<forall>s. gu_calls (snd (run_state m s)) = gu_calls s)"

named_theorems still_intros

lemma still_ret [still_intros]: "still (ret a)" "still (give a)" "still (fail_with e)"
  by (simp_all add: still_def give_def fail_with_def)

lemma still_bind [still_intros]: "still m \<Longrightarrow> (\<And>a. still (f a)) \<Longrightarrow> still (m \<bind> f)"
  by (simp add: still_def split: prod.split) (metis snd_conv)

lemma still_try_bind [still_intros]: "still m \<Longrightarrow> (\<And>a. still (f a)) \<Longrightarrow> still (try_bind m f)"
  unfolding try_bind_def by (intro still_bind) (auto split: sum.split intro: still_ret)

lemma still_if [still_intros]: "(b \<Longrightarrow> still m) \<Longrightarrow> (\<not> b \<Longrightarrow> still n) \<Longrightarrow> still (if b then m else n)"
  by simp

lemma still_case_option [still_intros]:
  "still m \<Longrightarrow> (\<And>a. still (f a)) \<Longrightarrow> still (case x of None \<Rightarrow> m | Some a \<Rightarrow> f a)"
  by (cases x) simp_all

lemma still_steps [still_intros]:
  "still (execute k c)" "still (execute_secret k c what)" "still (with_cache g)" "still (gets h)"
  by (simp_all add: still_def execute_def execute_secret_def guest_send_def with_cache_def)

lemma still_detect [still_intros]: "still (detect_shell k)" "still (sync_clock k shell)"
  unfolding detect_shell_def sync_clock_def by (intro still_intros)+

lemma still_run [still_intros]: "still (guest_run k shell runner)"
  unfolding guest_run_def run_github_def run_forgejo_def fast_exit_diagnostics_def
  by (cases "pp_kind runner") (auto intro!: still_intros)

lemma calls_give: "P [] \<Longrightarrow> calls P Q (give a)"
  by (simp add: calls_def give_def)

lemma calls_fail: "Q [] \<Longrightarrow> calls P Q (fail_with e)"
  by (simp add: calls_def fail_with_def)

lemma calls_still: "still m \<Longrightarrow> P [] \<Longrightarrow> Q [] \<Longrightarrow> calls P Q m"
  by (auto simp: calls_def still_def split: sum.split)

lemma calls_weaken: "calls P Q m \<Longrightarrow> (\<And>cs. P cs \<Longrightarrow> P' cs) \<Longrightarrow> (\<And>cs. Q cs \<Longrightarrow> Q' cs) \<Longrightarrow> calls P' Q' m"
  unfolding calls_def by (fastforce split: sum.splits)

lemma calls_bind:
  assumes "\<And>s. gu_calls (snd (run_state m s)) = gu_calls s @ xs (fst (run_state m s))"
    "\<And>a. calls (\<lambda>cs. P (xs a @ cs)) (\<lambda>cs. Q (xs a @ cs)) (f a)"
  shows "calls P Q (m \<bind> f)"
  unfolding calls_def
proof
  fix s
  obtain a s1 where m: "run_state m s = (a, s1)" by fastforce
  obtain cs where "gu_calls (snd (run_state (f a) s1)) = gu_calls s1 @ cs"
    "case fst (run_state (f a) s1) of Inl _ \<Rightarrow> Q (xs a @ cs) | Inr _ \<Rightarrow> P (xs a @ cs)"
    using assms(2) [of a] unfolding calls_def by blast
  then show "\<exists>cs. gu_calls (snd (run_state (m \<bind> f) s)) = gu_calls s @ cs \<and>
     (case fst (run_state (m \<bind> f) s) of Inl _ \<Rightarrow> Q cs | Inr _ \<Rightarrow> P cs)"
    using m assms(1) [of s] by (intro exI [of _ "xs a @ cs"]) simp
qed

lemma calls_still_bind: "still m \<Longrightarrow> (\<And>a. calls P Q (f a)) \<Longrightarrow> calls P Q (m \<bind> f)"
  by (rule calls_bind [where xs = "\<lambda>_. []"]) (simp_all add: still_def)

lemma calls_report_call: "calls (\<lambda>cs. P (c # cs)) (\<lambda>cs. Q (c # cs)) m \<Longrightarrow> calls P Q (do { report_call c; m })"
  by (rule calls_bind [where xs = "\<lambda>_. [c]"]) (simp_all add: report_call_def)

lemma calls_cache_install:
  "(\<And>src. calls (\<lambda>cs. P (InstallSource src # cs)) (\<lambda>cs. Q (InstallSource src # cs)) (f src)) \<Longrightarrow>
     calls P Q (cache_install k g \<bind> f)"
  by (rule calls_bind [where xs = "\<lambda>src. [InstallSource src]"])
    (simp_all add: cache_install_def report_call_def with_cache_def split: prod.split)

lemma calls_try:
  assumes "calls P1 Q m" "\<And>a cs. P1 cs \<Longrightarrow> calls (\<lambda>ds. P (cs @ ds)) (\<lambda>ds. Q (cs @ ds)) (f a)"
  shows "calls P Q (try_bind m f)"
  unfolding calls_def
proof
  fix s
  obtain r s1 where m: "run_state m s = (r, s1)" by fastforce
  obtain xs where xs: "gu_calls s1 = gu_calls s @ xs" "case r of Inl _ \<Rightarrow> Q xs | Inr _ \<Rightarrow> P1 xs"
    using assms(1) m unfolding calls_def by (metis fst_conv snd_conv)
  show "\<exists>cs. gu_calls (snd (run_state (try_bind m f) s)) = gu_calls s @ cs \<and>
     (case fst (run_state (try_bind m f) s) of Inl _ \<Rightarrow> Q cs | Inr _ \<Rightarrow> P cs)"
  proof (cases r)
    case (Inl e)
    then show ?thesis using m xs by (simp add: try_bind_def)
  next
    case (Inr a)
    then have "P1 xs" using xs(2) by simp
    then obtain ys where "gu_calls (snd (run_state (f a) s1)) = gu_calls s1 @ ys"
      "case fst (run_state (f a) s1) of Inl _ \<Rightarrow> Q (xs @ ys) | Inr _ \<Rightarrow> P (xs @ ys)"
      using assms(2) [of xs a] unfolding calls_def by blast
    then show ?thesis using m xs Inr by (intro exI [of _ "xs @ ys"]) (simp add: try_bind_def)
  qed
qed

lemma calls_still_try: "still m \<Longrightarrow> Q [] \<Longrightarrow> (\<And>a. calls P Q (f a)) \<Longrightarrow> calls P Q (try_bind m f)"
  by (rule calls_try [where ?P1.0 = "\<lambda>cs. cs = []"]) (auto intro: calls_still)

lemma calls_case_prod: "(\<And>a b. calls P Q (f a b)) \<Longrightarrow> calls P Q (case p of (a, b) \<Rightarrow> f a b)"
  by (cases p) simp

lemmas calls_intros = calls_report_call calls_still_bind calls_still_try calls_cache_install calls_case_prod calls_give

text \<open>What getting the runner onto the VM reports.\<close>

definition install_reports :: "job_call list \<Rightarrow> bool" where
  "install_reports cs \<longleftrightarrow> (\<exists>src. cs = [JobStep phase_install, InstallSource src, JobStep phase_setup])"

definition install_partial :: "job_call list \<Rightarrow> bool" where
  "install_partial cs \<longleftrightarrow> cs = [] \<or> cs = [JobStep phase_install] \<or> (\<exists>src. cs = [JobStep phase_install, InstallSource src])"

lemma calls_install_github: "calls install_reports install_partial (install_github_runner k shell v)"
  unfolding install_github_runner_def Let_def
  by (intro calls_intros still_intros) (auto simp: install_reports_def install_partial_def)

lemma calls_install_forgejo: "calls install_reports install_partial (install_forgejo_runner k shell v)"
  unfolding install_forgejo_runner_def Let_def
  by (intro calls_intros still_intros) (auto simp: install_reports_def install_partial_def)

definition ready_reports :: "job_call list \<Rightarrow> bool" where
  "ready_reports cs \<longleftrightarrow> job_reports (cs @ [RunnerStarted])"

lemma ready_iff: "ready_reports cs \<longleftrightarrow> install_reports cs \<or> cs = [SkipJobStep phase_install]"
  by (auto simp: ready_reports_def job_reports_def install_reports_def)

lemma partial_take: "job_reports full \<Longrightarrow> partial_reports (take n full)"
  by (auto simp: partial_reports_def)

lemma partials:
  "partial_reports []" "install_partial cs \<Longrightarrow> partial_reports cs" "ready_reports cs \<Longrightarrow> partial_reports cs"
  "job_reports cs \<Longrightarrow> partial_reports cs"
proof -
  have skip: "job_reports [SkipJobStep phase_install, RunnerStarted]" by (simp add: job_reports_def)
  have full: "job_reports [JobStep phase_install, InstallSource src, JobStep phase_setup, RunnerStarted]" for src
    by (simp add: job_reports_def)
  show "partial_reports []" using partial_take [OF skip, of 0] by simp
  show "install_partial cs \<Longrightarrow> partial_reports cs"
    using partial_take [OF full, of 0] partial_take [OF full, of 1] partial_take [OF full, of 2]
    by (auto simp: install_partial_def numeral_2_eq_2)
  show "ready_reports cs \<Longrightarrow> partial_reports cs"
    using partial_take [of "cs @ [RunnerStarted]" "length cs"] by (simp add: ready_reports_def)
  show "job_reports cs \<Longrightarrow> partial_reports cs"
    using partial_take [of cs "length cs"] by simp
qed

lemma calls_ready:
  assumes "calls install_reports install_partial m" "\<And>a. still (f a)"
  shows "calls ready_reports partial_reports (try_bind (if b then m else do { report_call (SkipJobStep phase_install); give () }) f)"
proof (rule calls_try [where ?P1.0 = ready_reports])
  show "calls ready_reports partial_reports (if b then m else do { report_call (SkipJobStep phase_install); give () })"
  proof (cases b)
    case True
    then show ?thesis using calls_weaken [OF assms(1), of ready_reports partial_reports] partials(2) ready_iff by simp
  next
    case False
    have "calls ready_reports partial_reports (do { report_call (SkipJobStep phase_install); give () })"
      by (rule calls_report_call, rule calls_give) (simp add: ready_iff)
    then show ?thesis using False by simp
  qed
  fix a cs assume "ready_reports cs"
  then show "calls (\<lambda>ds. ready_reports (cs @ ds)) (\<lambda>ds. partial_reports (cs @ ds)) (f a)"
    using assms(2) by (auto intro!: calls_still partials(3))
qed

lemma still_case_sum: "(\<And>e. still (f e)) \<Longrightarrow> (\<And>a. still (g a)) \<Longrightarrow> still (case x of Inl e \<Rightarrow> f e | Inr a \<Rightarrow> g a)"
  by (cases x) simp_all

lemma calls_prepare: "calls ready_reports partial_reports (guest_prepare k shell job v)"
proof -
  have "calls ready_reports partial_reports (prepare_github k shell job v)"
    unfolding prepare_github_def Let_def
    by (rule calls_still_try [where Q = partial_reports, OF _ partials(1)], intro still_intros, rule calls_ready [OF calls_install_github])
      (intro still_intros)
  moreover have "calls ready_reports partial_reports (prepare_forgejo k shell f ls v)" for f ls
    unfolding prepare_forgejo_def Let_def
    by (rule calls_still_try [where Q = partial_reports, OF _ partials(1)], intro still_intros, rule calls_ready [OF calls_install_forgejo])
      (intro still_intros still_case_sum)
  ultimately show ?thesis by (simp add: guest_prepare_def split: option.split)
qed

lemma calls_session: "calls job_reports partial_reports (guest_session_run k job v)"
  unfolding guest_session_run_def
proof (rule calls_still_try [where Q = partial_reports, OF _ partials(1)])
  show "still (detect_shell k)" by (intro still_intros)
  fix shell
  have "calls job_reports partial_reports (try_bind (guest_prepare k shell job v) (\<lambda>runner. do {
       report_call RunnerStarted;
       try_bind (guest_run k shell runner) (\<lambda>_. case gk_close k of None \<Rightarrow> give () | Some e \<Rightarrow> fail_with (SshFailed e)) }))"
  proof (rule calls_try [OF calls_prepare])
    fix runner cs assume "ready_reports cs"
    then have full: "job_reports (cs @ [RunnerStarted])" by (simp add: ready_reports_def)
    show "calls (\<lambda>ds. job_reports (cs @ ds)) (\<lambda>ds. partial_reports (cs @ ds)) (do {
       report_call RunnerStarted;
       try_bind (guest_run k shell runner) (\<lambda>_. case gk_close k of None \<Rightarrow> give () | Some e \<Rightarrow> fail_with (SshFailed e)) })"
      using full by (auto intro!: calls_report_call calls_still still_intros partials(4))
  qed
  then show "calls job_reports partial_reports (do {
     sync_clock k shell;
     try_bind (guest_prepare k shell job v) (\<lambda>runner. do {
       report_call RunnerStarted;
       try_bind (guest_run k shell runner) (\<lambda>_. case gk_close k of None \<Rightarrow> give () | Some e \<Rightarrow> fail_with (SshFailed e)) }) })"
    by (rule calls_still_bind [OF still_detect(2)])
qed

lemma calls_configure: "calls job_reports partial_reports (configure_and_run k net client retries job v)"
  unfolding configure_and_run_def by (auto intro: calls_session calls_fail partials(1) split: sum.split)

section \<open>Properties\<close>


text \<open>A Linux VM that has the runner, and two jobs whose tokens differ.\<close>

definition sample_kit :: guest_kit where
  "sample_kit = \<lparr>gk_channel = \<lambda>n _. Inr [ChData (if n = 3 then ''Linux'' else if n = 4 then ''installed'' else []), ChExitStatus 0, ChClose],
     gk_elapsed = \<lambda>_. 60000, gk_upload = \<lambda>_ _ _. False, gk_close = None, gk_b64 = \<lambda>_. [], gk_sha = id, gk_unix_script = [],
     gk_windows_script = [], gk_forgejo_script = [], gk_api = \<lambda>_. None, gk_http = \<lambda>_. None, gk_text = \<lambda>_. None,
     gk_io = \<lparr>df_reads = True, df_budget = 0, df_torn = None\<rparr>, gk_times = \<lparr>jt_queued = 0, jt_locked = 0, jt_ended = 0\<rparr>, gk_saves = False\<rparr>"

definition token_job :: "string \<Rightarrow> guest_job" where
  "token_job token = \<lparr>gj_registration_token = token, gj_labels = [''linux''], gj_runner_scope_url = ''https://github.com/o'',
     gj_runner_name = ''r'', gj_jit_config = [], gj_forgejo = None\<rparr>"

definition sample_versions :: runner_versions where
  "sample_versions = \<lparr>rv_github = ''latest'', rv_forgejo = ''latest'', rv_forgejo_url = DEFAULT_URL_TEMPLATE\<rparr>"

definition fresh_session :: guest_session where
  "fresh_session = \<lparr>gu_sent = [], gu_calls = [], gu_cache = new_cache default_cache_config None []\<rparr>"



text \<open>A job that ran reported that its runner started exactly once, after the step that installs the runner was
  skipped or timed with where the runner came from; a job that failed made a beginning of these reports.\<close>

theorem job_reports_in_order:
  assumes "run_state (configure_and_run k net client retries job v) s = (r, t)" "gu_calls s = []"
  shows "case r of Inr _ \<Rightarrow> job_reports (gu_calls t) | Inl _ \<Rightarrow> partial_reports (gu_calls t)"
  using calls_configure [of k net client retries job v] assms
  unfolding calls_def by (metis append_Nil fst_conv snd_conv)

definition sample_net :: ssh_net where
  "sample_net = \<lparr>sn_tcp = \<lambda>n. if n = 1 then TimedOut else Finished (), sn_handshake = \<lambda>_. Finished (),
     sn_key = \<lambda>_. Finished True, sn_password = \<lambda>_. TimedOut\<rparr>"

lemma sample_run_ok: "fst (run_state (configure_and_run sample_kit sample_net (new_ssh_client ''ci'' (KeyAuth ''k'')) 2
    (token_job ''t'') sample_versions) fresh_session) = Inr ()"
proof -
  have "fst (connect_with_retries sample_net (new_ssh_client ''ci'' (KeyAuth ''k'')) 2) = Inr ()"
    unfolding connect_with_retries_def connect_attempts_result
    by (rule exI [of _ 1]) (simp add: ssh_connect_def sample_net_def new_ssh_client_def ssh_authenticate_def auth_key_def)
  moreover have "fst (run_state (guest_session_run sample_kit (token_job ''t'') sample_versions) fresh_session) = Inr ()"
    by (simp add: guest_session_run_def detect_shell_def sync_clock_def guest_prepare_def prepare_github_def guest_run_def
      run_github_def try_bind_def execute_def execute_secret_def guest_send_def ssh_run_def output_of_def sample_kit_def
      fresh_session_def token_job_def give_def report_call_def Let_def str_trim_def is_white_def)
  ultimately show ?thesis by (simp add: configure_and_run_def)
qed

theorem job_reports_in_order_witness:
  "job_reports (gu_calls (snd (run_state (configure_and_run sample_kit sample_net (new_ssh_client ''ci'' (KeyAuth ''k'')) 2
     (token_job ''t'') sample_versions) fresh_session)))"
proof -
  let ?m = "configure_and_run sample_kit sample_net (new_ssh_client ''ci'' (KeyAuth ''k'')) 2 (token_job ''t'') sample_versions"
  have "run_state ?m fresh_session = (Inr (), snd (run_state ?m fresh_session))"
    using sample_run_ok by (metis prod.collapse)
  from job_reports_in_order [OF this] show ?thesis by (simp add: fresh_session_def)
qed

text \<open>C36: A runner's command whose channel ends without an exit status, as it does when the session breaks off because
  the VM died, counts as a runner that ended well.\<close>

theorem lost_session_counts_as_success:
  assumes "gk_channel k (length (gu_sent s)) (pp_command runner) = Inr ms" "\<forall>m \<in> set ms. \<forall>c. m \<noteq> ChExitStatus c"
  shows "fst (run_state (guest_run k shell runner) s) = Inr ()"
proof -
  have "co_exit_code (output_of ms) = 0" using assms(2) by (intro no_status_reads_zero) (auto simp: list_all_iff)
  then show ?thesis
    using assms(1)
    by (cases "pp_kind runner")
      (auto simp: guest_run_def run_github_def run_forgejo_def try_bind_def execute_def guest_send_def ssh_run_def give_def
        split: prod.split)
qed

definition dying_kit :: guest_kit where
  "dying_kit = sample_kit\<lparr>gk_channel := \<lambda>_ _. Inr [ChData ''Running job'']\<rparr>"

theorem lost_session_counts_as_success_witness:
  "fst (run_state (guest_run dying_kit ShellLinux \<lparr>pp_kind = PreparedForgejo ''h'', pp_command = forgejo_run_command\<rparr>) fresh_session) =
     Inr ()"
proof (rule lost_session_counts_as_success)
  show "gk_channel dying_kit (length (gu_sent fresh_session)) (pp_command \<lparr>pp_kind = PreparedForgejo ''h'', pp_command = forgejo_run_command\<rparr>) =
      Inr [ChData ''Running job'']"
    by (simp add: dying_kit_def)
qed simp

end
