(* ===== verification/Tart_Host.thy ===== *)
theory Tart_Host
  imports Tart Agent_Updates
begin

text \<open>
  The host of a tart agent: the checks of \<^verbatim>\<open>kuiper-tart-agent/src/host_checks.rs\<close> with their use in \<^verbatim>\<open>main.rs\<close>, the
  LaunchAgent's commands of \<^verbatim>\<open>install.rs\<close>, and the update of the agent by itself, \<^verbatim>\<open>update.rs\<close>. What commands, file
  operations and GitHub come to is an argument; so are SHA-256, the contents of an archive and the crate \<^verbatim>\<open>semver\<close>,
  whose versions are a linear order. A file's contents are a byte string.
\<close>

section \<open>Checks of the host\<close>

definition REQUIRED_TART_MAJOR :: nat where "REQUIRED_TART_MAJOR = 2"

definition EXPECTED_LEASE_SECS :: nat where "EXPECTED_LEASE_SECS = 600"

definition PLIST_PATH :: string where
  "PLIST_PATH = ''/Library/Preferences/SystemConfiguration/com.apple.InternetSharing.default.plist''"

text \<open>What a command comes to: it can't be started, or it ended with an output.\<close>

type_synonym ran = "string + cmd_output"

definition starts_with_digit :: "string \<Rightarrow> bool" where
  "starts_with_digit s = (case s of [] \<Rightarrow> False | c # _ \<Rightarrow> is_digit c)"

definition version_word :: "string \<Rightarrow> string" where
  "version_word version = (case List.find starts_with_digit (split_white version) of Some s \<Rightarrow> s | None \<Rightarrow> version)"

definition check_tart_version :: "ran \<Rightarrow> string + string" where
  "check_tart_version r = (case r of
     Inl e \<Rightarrow> Inl (''Tart CLI not found: '' @ e @ ''. Install from https://github.com/cirruslabs/tart'')
   | Inr out \<Rightarrow>
       if \<not> cd_success out then Inl ''Tart CLI failed to report version''
       else (let version = str_trim (cd_stdout out); word = version_word version in
         (case parse_u32 (hd (split_on (CHR ''.'') word)) of
           Some v \<Rightarrow>
             if v = REQUIRED_TART_MAJOR then Inr word
             else Inl (''Tart version '' @ word @ '' not supported (found major version '' @ nat_to_string v @
               '', require '' @ nat_to_string REQUIRED_TART_MAJOR @ ''.x)'')
         | None \<Rightarrow> Inl (''Could not parse Tart version from: '' @ version))))"

text \<open>\<open>names\<close> stands for reading the JSON.\<close>

definition list_images :: "(string \<Rightarrow> string + string list) \<Rightarrow> ran \<Rightarrow> string + string list" where
  "list_images names r = (case r of
     Inl e \<Rightarrow> Inl (''Failed to run 'tart list': '' @ e)
   | Inr out \<Rightarrow>
       if \<not> cd_success out then Inl (''Failed to list tart images: '' @ cd_stderr out)
       else (case names (cd_stdout out) of
         Inl e \<Rightarrow> Inl (''Failed to parse tart list output: '' @ e)
       | Inr ns \<Rightarrow> Inr ns))"

definition check_local_images :: "(string \<Rightarrow> string + string list) \<Rightarrow> ran \<Rightarrow> string list \<Rightarrow> string + unit" where
  "check_local_images names r images = (case list_images names r of
     Inl e \<Rightarrow> Inl e
   | Inr local_images \<Rightarrow>
       (let missing = filter (\<lambda>img. \<not> is_oci_image img \<and> img \<notin> set local_images) images in
        if missing = [] then Inr ()
        else Inl (''Local image(s) not found: '' @ join '', '' missing @
          ''. Pull with 'tart pull <image>' or use OCI URLs.'')))"

definition trim_end_semicolons :: "string \<Rightarrow> string" where
  "trim_end_semicolons s = rev (dropWhile (\<lambda>c. c = CHR '';'') (rev s))"

fun lease_of_lines :: "string list \<Rightarrow> nat option" where
  "lease_of_lines [] = None"
| "lease_of_lines (line # lines) =
     (if is_prefix_of ''DHCPLeaseTimeSecs'' (str_trim line)
      then (case split_once (CHR ''='') (str_trim line) of
          Some (_, value) \<Rightarrow> parse_u32 (str_trim (trim_end_semicolons (str_trim value)))
        | None \<Rightarrow> lease_of_lines lines)
      else lease_of_lines lines)"

definition parse_dhcp_lease_time :: "string \<Rightarrow> nat option" where
  "parse_dhcp_lease_time output = lease_of_lines (str_lines output)"

definition check_dhcp_lease_time :: "ran \<Rightarrow> string + unit" where
  "check_dhcp_lease_time r = (case r of
     Inl e \<Rightarrow> Inl (''Failed to run 'defaults' command: '' @ e)
   | Inr out \<Rightarrow>
       if \<not> cd_success out
       then Inl (''DHCP lease time not configured. Internet Sharing bootpd settings not found at '' @ PLIST_PATH)
       else (case parse_dhcp_lease_time (cd_stdout out) of
         Some t \<Rightarrow>
           if t \<le> EXPECTED_LEASE_SECS then Inr ()
           else Inl (''DHCP lease time is '' @ nat_to_string t @ ''s, should be <= '' @
             nat_to_string EXPECTED_LEASE_SECS @ ''s for reliable VM IP acquisition'')
       | None \<Rightarrow> Inl (''DHCPLeaseTimeSecs not set in Internet Sharing configuration (expected <= '' @
           nat_to_string EXPECTED_LEASE_SECS @ ''s)'')))"

definition dhcp_lease_fix_args :: "string list" where
  "dhcp_lease_fix_args = [''defaults'', ''write'', PLIST_PATH, ''bootpd'', ''-dict'', ''DHCPLeaseTimeSecs'', ''-int'',
     nat_to_string EXPECTED_LEASE_SECS]"

definition dhcp_lease_fix_command :: string where
  "dhcp_lease_fix_command = ''sudo '' @ join '' '' dhcp_lease_fix_args"

text \<open>The checks of a starting agent: it exits with what it logged as an error, or goes on with its warnings.\<close>

record host_answers =
  ha_version :: ran
  ha_list :: ran
  ha_names :: "string \<Rightarrow> string + string list"
  ha_lease :: ran

datatype host_verdict = HostExits "string list" | HostStarts "string list"

definition lease_verdict :: "host_answers \<Rightarrow> string \<Rightarrow> host_verdict" where
  "lease_verdict h mode =
     (if mode = ''ignore'' then HostStarts []
      else (case check_dhcp_lease_time (ha_lease h) of
        Inr _ \<Rightarrow> HostStarts []
      | Inl msg \<Rightarrow>
          (let said = [msg, ''Fix with: '' @ dhcp_lease_fix_command] in
           if mode = ''error'' then HostExits said else HostStarts said)))"

definition host_environment_checks :: "host_answers \<Rightarrow> tart_config \<Rightarrow> string \<Rightarrow> bool \<Rightarrow> host_verdict" where
  "host_environment_checks h c mode skip =
     (if skip then HostStarts [''Skipping host environment checks (--skip-host-checks)'']
      else (case check_tart_version (ha_version h) of
        Inl msg \<Rightarrow> HostExits [msg]
      | Inr _ \<Rightarrow> (case check_local_images (ha_names h) (ha_list h) (tc_base_image c # map tp_image (tc_image_mappings c)) of
          Inl msg \<Rightarrow> HostExits [msg]
        | Inr _ \<Rightarrow> lease_verdict h mode)))"

section \<open>The state of an update\<close>

text \<open>A download's answer, the files of a release, and the release. An answer of the API is an error of the client,
  or a status and a body that may fail to decode.\<close>

record asset =
  as_name :: string
  as_url :: string

record tart_release =
  tr_tag_name :: string
  tr_draft :: bool
  tr_prerelease :: bool
  tr_assets :: "asset list"

type_synonym 'a api_answer = "string + nat \<times> (string + 'a)"

text \<open>What \<^verbatim>\<open>fs::copy\<close> to the staged file comes to; a failed copy may leave part of it.\<close>

datatype copy_outcome = Copied | CopyDenied | CopyFailed string "string option"

record 'v update_env =
  ue_semver :: "'v semver"
  ue_pkg_version :: string
  ue_arch :: string
  ue_page :: "string \<Rightarrow> tart_release list api_answer"
  ue_tag :: "string \<Rightarrow> tart_release api_answer"
  ue_file :: "string \<Rightarrow> string api_answer"
  ue_is_utf8 :: "string \<Rightarrow> bool"
  ue_sha256 :: "string \<Rightarrow> string"
  ue_tmp :: string
  ue_mkdir :: "string option"
  ue_write_archive :: "string option"
  ue_unpack :: "string \<Rightarrow> string option"
  ue_rmdir :: bool
  ue_ran :: "nat \<Rightarrow> string list \<Rightarrow> ran"
  ue_exe :: "string + string"
  ue_copy :: "string \<Rightarrow> copy_outcome"
  ue_chmod :: "string option"
  ue_rename :: "string option"
  ue_sudo_leaves :: "string \<Rightarrow> string option"
  ue_confirm :: bool
  ue_uid :: "nat option"

text \<open>The commands that were run, the binary the agent is installed as, the staged file next to it, the binary in the
  directory for unpacking, what was printed, the LaunchAgent's file, the settings and whether there is a data directory.\<close>

record update_state =
  us_commands :: "string list list"
  us_binary :: "string option"
  us_staged :: "string option"
  us_unpacked :: "string option"
  us_said :: "string list"
  us_plist :: "string option"
  us_config :: "string option"
  us_data :: bool

type_synonym 'a updating = "(update_state, string + 'a) state"

definition say :: "string \<Rightarrow> unit updating" where
  "say line = State (\<lambda>s. (Inr (), s\<lparr>us_said := us_said s @ [line]\<rparr>))"

definition host_cmd :: "'v update_env \<Rightarrow> string list \<Rightarrow> (update_state, ran) state" where
  "host_cmd e args = State (\<lambda>s. (ue_ran e (length (us_commands s)) args, s\<lparr>us_commands := us_commands s @ [args]\<rparr>))"

definition from_result :: "string + 'a \<Rightarrow> 'a updating" where
  "from_result r = ret r"

definition io_step :: "string option \<Rightarrow> unit updating" where
  "io_step failed = ret (case failed of Some e \<Rightarrow> Inl e | None \<Rightarrow> Inr ())"

definition ensure :: "bool \<Rightarrow> string \<Rightarrow> unit updating" where
  "ensure b msg = ret (if b then Inr () else Inl msg)"

section \<open>The LaunchAgent\<close>

definition SERVICE_LABEL :: string where "SERVICE_LABEL = ''com.astropad.kuiper-tart-agent''"

text \<open>The user's id is that of the home directory, 501 when it can't be read.\<close>

definition domain_target :: "nat option \<Rightarrow> string" where
  "domain_target uid = ''gui/'' @ nat_to_string (case uid of Some u \<Rightarrow> u | None \<Rightarrow> 501)"

definition service_target :: "nat option \<Rightarrow> string" where
  "service_target uid = domain_target uid @ ''/'' @ SERVICE_LABEL"

definition load_service :: "'v update_env \<Rightarrow> string \<Rightarrow> unit updating" where
  "load_service e plist = do {
     r \<leftarrow> host_cmd e [''launchctl'', ''bootstrap'', domain_target (ue_uid e), plist];
     case r of
       Inl m \<Rightarrow> fail_with (''Failed to run launchctl: '' @ m)
     | Inr out \<Rightarrow>
         if cd_success out then give ()
         else do {
           r \<leftarrow> host_cmd e [''launchctl'', ''load'', plist];
           case r of
             Inl m \<Rightarrow> fail_with (''Failed to run launchctl load: '' @ m)
           | Inr out \<Rightarrow>
               if cd_success out then give () else fail_with (''launchctl load failed: '' @ cd_stderr out) } }"

definition unload_service :: "'v update_env \<Rightarrow> string \<Rightarrow> unit updating" where
  "unload_service e plist = do {
     r \<leftarrow> host_cmd e [''launchctl'', ''bootout'', service_target (ue_uid e)];
     case r of
       Inl m \<Rightarrow> fail_with (''Failed to run launchctl: '' @ m)
     | Inr out \<Rightarrow>
         if cd_success out then give ()
         else do { _ \<leftarrow> host_cmd e [''launchctl'', ''unload'', plist]; give () } }"

definition is_service_running :: "'v update_env \<Rightarrow> (update_state, bool) state" where
  "is_service_running e = do {
     r \<leftarrow> host_cmd e [''launchctl'', ''print'', service_target (ue_uid e)];
     ret (case r of Inl _ \<Rightarrow> False | Inr out \<Rightarrow> cd_success out) }"

definition kickstart_service :: "'v update_env \<Rightarrow> unit updating" where
  "kickstart_service e = do {
     r \<leftarrow> host_cmd e [''launchctl'', ''kickstart'', ''-k'', service_target (ue_uid e)];
     case r of
       Inl m \<Rightarrow> fail_with (''Failed to run launchctl: '' @ m)
     | Inr out \<Rightarrow> if cd_success out then give () else fail_with (''launchctl kickstart failed: '' @ cd_stderr out) }"

definition restart_after_update :: "'v update_env \<Rightarrow> bool \<Rightarrow> unit updating" where
  "restart_after_update e yes = do {
     running \<leftarrow> is_service_running e;
     if \<not> running then give ()
     else if yes \<or> ue_confirm e
     then try_bind (kickstart_service e) (\<lambda>_. say ''Service restarted'')
     else try_bind (say ''The service still runs the old version until it restarts:'') (\<lambda>_.
       say (''  launchctl kickstart -k '' @ service_target (ue_uid e))) }"

section \<open>Choosing a release\<close>

definition BIN :: string where "BIN = ''kuiper-tart-agent''"

definition TAG_PREFIX :: string where "TAG_PREFIX = ''kuiper-tart-agent-v''"

definition release_version :: "'v semver \<Rightarrow> tart_release \<Rightarrow> 'v option" where
  "release_version sv r =
     (if is_prefix_of TAG_PREFIX (tr_tag_name r) then sv_parse sv (drop (length TAG_PREFIX) (tr_tag_name r)) else None)"

definition release_asset :: "tart_release \<Rightarrow> string \<Rightarrow> asset option" where
  "release_asset r name = List.find (\<lambda>a. as_name a = name) (tr_assets r)"

definition error_for_status :: "nat \<Rightarrow> string option" where
  "error_for_status n = (if 400 \<le> n \<and> n < 600 then Some (''HTTP status '' @ nat_to_string n) else None)"

definition answer_body :: "'a api_answer \<Rightarrow> string + 'a" where
  "answer_body a = (case a of
     Inl e \<Rightarrow> Inl e
   | Inr (status, body) \<Rightarrow> (case error_for_status status of Some e \<Rightarrow> Inl e | None \<Rightarrow> body))"

text \<open>The released versions of a page, and \<^verbatim>\<open>max_by\<close>, which keeps the last of several equal ones.\<close>

definition released :: "'v semver \<Rightarrow> tart_release list \<Rightarrow> ('v \<times> tart_release) list" where
  "released sv rs =
     filter (\<lambda>(v, _). \<not> sv_is_pre sv v)
       (List.map_filter (\<lambda>r. map_option (\<lambda>v. (v, r)) (release_version sv r))
         (filter (\<lambda>r. \<not> tr_draft r \<and> \<not> tr_prerelease r) rs))"

fun max_version :: "('v::linorder \<times> 'a) list \<Rightarrow> ('v \<times> 'a) option" where
  "max_version [] = None"
| "max_version (x # xs) = (case max_version xs of
     None \<Rightarrow> Some x | Some y \<Rightarrow> if fst x \<le> fst y then Some y else Some x)"

definition page_url :: "nat \<Rightarrow> string" where
  "page_url page = ''https://api.github.com/repos/AstroHQ/kuiper-forge/releases?per_page=100&page='' @ nat_to_string page"

fun latest_from :: "'v::linorder update_env \<Rightarrow> nat list \<Rightarrow> string + tart_release" where
  "latest_from e [] = Inl ''no kuiper-tart-agent release found in AstroHQ/kuiper-forge''"
| "latest_from e (page # pages) = (case answer_body (ue_page e (page_url page)) of
     Inl err \<Rightarrow> Inl err
   | Inr rs \<Rightarrow>
       if rs = [] then Inl ''no kuiper-tart-agent release found in AstroHQ/kuiper-forge''
       else (case max_version (released (ue_semver e) rs) of
         Some (_, r) \<Rightarrow> Inr r
       | None \<Rightarrow> latest_from e pages))"

definition fetch_latest :: "'v::linorder update_env \<Rightarrow> string + tart_release" where
  "fetch_latest e = latest_from e [1, 2, 3, 4, 5]"

definition tag_url :: "string \<Rightarrow> string" where
  "tag_url version = ''https://api.github.com/repos/AstroHQ/kuiper-forge/releases/tags/'' @ TAG_PREFIX @ version"

definition fetch_tag :: "'v update_env \<Rightarrow> 'v \<Rightarrow> string + tart_release" where
  "fetch_tag e v = (let version = sv_text (ue_semver e) v in
     (case ue_tag e (tag_url version) of
       Inl err \<Rightarrow> Inl err
     | Inr (status, body) \<Rightarrow>
         if status = 404 then Inl (''no release for kuiper-tart-agent '' @ version)
         else answer_body (Inr (status, body))))"

definition download_file :: "'v update_env \<Rightarrow> string \<Rightarrow> string + string" where
  "download_file e url = answer_body (ue_file e url)"

section \<open>Installing\<close>

text \<open>The directory of an absolute path.\<close>

definition parent_dir :: "string \<Rightarrow> string option" where
  "parent_dir path = (if path = ''/'' then None else map_option fst (rsplit_once ''/'' path))"

text \<open>\<^verbatim>\<open>sudo install\<close> that fails may have removed or written part of the binary.\<close>

definition sudo_install :: "'v update_env \<Rightarrow> string \<Rightarrow> string \<Rightarrow> string \<Rightarrow> unit updating" where
  "sudo_install e new_path new exe = do {
     r \<leftarrow> host_cmd e [''sudo'', ''install'', ''-m'', ''755'', new_path, exe];
     case r of
       Inl m \<Rightarrow> fail_with (''failed to run sudo: '' @ m)
     | Inr out \<Rightarrow>
         if cd_success out then do { modify (\<lambda>s. s\<lparr>us_binary := Some new\<rparr>); give () }
         else do { modify (\<lambda>s. s\<lparr>us_binary := ue_sudo_leaves e new\<rparr>); fail_with ''sudo install failed'' } }"

definition replace_binary :: "'v update_env \<Rightarrow> string \<Rightarrow> string \<Rightarrow> string \<Rightarrow> unit updating" where
  "replace_binary e new_path new exe = (case parent_dir exe of
     None \<Rightarrow> fail_with ''binary has no parent dir''
   | Some dir \<Rightarrow> (case ue_copy e new of
       Copied \<Rightarrow> do {
         modify (\<lambda>s. s\<lparr>us_staged := Some new\<rparr>);
         try_bind (io_step (ue_chmod e)) (\<lambda>_.
         try_bind (io_step (ue_rename e)) (\<lambda>_. do {
           modify (\<lambda>s. s\<lparr>us_binary := Some new, us_staged := None\<rparr>);
           give () })) }
     | CopyDenied \<Rightarrow>
         try_bind (say (dir @ '' isn't writable, using sudo'')) (\<lambda>_. sudo_install e new_path new exe)
     | CopyFailed err part \<Rightarrow> do {
         modify (\<lambda>s. s\<lparr>us_staged := part\<rparr>);
         fail_with (''failed to write '' @ dir @ ''/.kuiper-tart-agent.new: '' @ err) }))"

definition checked_run :: "'v update_env \<Rightarrow> string list \<Rightarrow> string \<Rightarrow> string \<Rightarrow> unit updating" where
  "checked_run e args not_started failed = do {
     r \<leftarrow> host_cmd e args;
     case r of
       Inl _ \<Rightarrow> fail_with not_started
     | Inr out \<Rightarrow> ensure (cd_success out) failed }"

text \<open>Unpacking adds the archive's binary to the directory, which may hold one of an earlier update that was broken
  off and had the same process id.\<close>

definition install_from_archive :: "'v update_env \<Rightarrow> string \<Rightarrow> string updating" where
  "install_from_archive e bytes = (let archive = ue_tmp e @ ''/agent.tar.gz''; new_path = ue_tmp e @ ''/'' @ BIN in
     try_bind (io_step (ue_write_archive e)) (\<lambda>_.
     try_bind (checked_run e [''tar'', ''xzf'', archive, ''-C'', ue_tmp e] ''failed to run tar'' ''failed to extract archive'') (\<lambda>_. do {
       modify (\<lambda>s. s\<lparr>us_unpacked := case ue_unpack e bytes of Some b \<Rightarrow> Some b | None \<Rightarrow> us_unpacked s\<rparr>);
       found \<leftarrow> gets us_unpacked;
       case found of
         None \<Rightarrow> fail_with (''archive didn't contain '' @ BIN)
       | Some new \<Rightarrow>
           try_bind (checked_run e [new_path, ''--version''] ''downloaded binary failed to run'' ''downloaded binary failed to run'') (\<lambda>_.
           try_bind (from_result (ue_exe e)) (\<lambda>exe.
           try_bind (replace_binary e new_path new exe) (\<lambda>_. give exe))) })))"

section \<open>The update\<close>

definition update_archive_name :: "'v update_env \<Rightarrow> 'v \<Rightarrow> string" where
  "update_archive_name e new =
     BIN @ ''-v'' @ sv_text (ue_semver e) new @ ''-'' @ ue_arch e @ ''-apple-darwin.tar.gz''"

definition expected_sum :: "string \<Rightarrow> string" where
  "expected_sum text = to_lowercase (case split_white text of w # _ \<Rightarrow> w | [] \<Rightarrow> [])"

definition verify_download :: "'v update_env \<Rightarrow> tart_release \<Rightarrow> string \<Rightarrow> string \<Rightarrow> unit updating" where
  "verify_download e r name bytes = (case release_asset r (name @ ''.sha256'') of
     None \<Rightarrow> say (''Warning: no checksum published for '' @ name @ '', skipping verification'')
   | Some checksum \<Rightarrow>
       try_bind (from_result (download_file e (as_url checksum))) (\<lambda>text.
       try_bind (ensure (ue_is_utf8 e text) ''invalid utf-8'') (\<lambda>_.
       try_bind (ensure (expected_sum text = ue_sha256 e bytes)
         (''checksum mismatch for '' @ name @ '': expected '' @ expected_sum text @ '', got '' @ ue_sha256 e bytes)) (\<lambda>_.
       say ''Checksum OK''))))"

text \<open>\<^verbatim>\<open>None\<close>: the newest release is not newer than the agent.\<close>

definition choose_release :: "'v::linorder update_env \<Rightarrow> string option \<Rightarrow> string + (tart_release \<times> 'v) option" where
  "choose_release e version = (case sv_parse (ue_semver e) (ue_pkg_version e) of
     None \<Rightarrow> Inl ''invalid package version''
   | Some current \<Rightarrow> (case version of
       Some text \<Rightarrow> (case sv_parse (ue_semver e) (dropWhile (\<lambda>c. c = CHR ''v'') text) of
         None \<Rightarrow> Inl ''invalid version''
       | Some v \<Rightarrow> (case fetch_tag e v of Inl err \<Rightarrow> Inl err | Inr r \<Rightarrow> Inr (Some (r, v))))
     | None \<Rightarrow> (case fetch_latest e of
         Inl err \<Rightarrow> Inl err
       | Inr r \<Rightarrow> (case release_version (ue_semver e) r of
           None \<Rightarrow> Inl ''filtered on parse''
         | Some new \<Rightarrow> Inr (if new \<le> current then None else Some (r, new))))))"

definition install_release :: "'v update_env \<Rightarrow> tart_release \<Rightarrow> 'v \<Rightarrow> bool \<Rightarrow> unit updating" where
  "install_release e r new yes = (let name = update_archive_name e new in
     (case release_asset r name of
       None \<Rightarrow> fail_with (''release '' @ tr_tag_name r @ '' has no '' @ name)
     | Some archive \<Rightarrow>
         try_bind (say (''Downloading '' @ name @ ''...'')) (\<lambda>_.
         try_bind (from_result (download_file e (as_url archive))) (\<lambda>bytes.
         try_bind (verify_download e r name bytes) (\<lambda>_.
         try_bind (io_step (ue_mkdir e)) (\<lambda>_. do {
           result \<leftarrow> install_from_archive e bytes;
           modify (\<lambda>s. if ue_rmdir e then s\<lparr>us_unpacked := None\<rparr> else s);
           try_bind (from_result result) (\<lambda>exe.
           try_bind (say (''Updated '' @ exe @ '' from '' @ ue_pkg_version e @ '' to '' @ sv_text (ue_semver e) new)) (\<lambda>_.
           restart_after_update e yes)) }))))))"

definition run_update :: "'v::linorder update_env \<Rightarrow> string option \<Rightarrow> bool \<Rightarrow> bool \<Rightarrow> unit updating" where
  "run_update e version check yes =
     try_bind (from_result (choose_release e version)) (\<lambda>chosen. (case chosen of
       None \<Rightarrow> say (''kuiper-tart-agent '' @ ue_pkg_version e @ '' is up to date'')
     | Some (r, new) \<Rightarrow>
         if check
         then try_bind (say (''kuiper-tart-agent '' @ sv_text (ue_semver e) new @ '' is available (installed: '' @
           ue_pkg_version e @ '')'')) (\<lambda>_. say ''Run `kuiper-tart-agent update` to install it'')
         else install_release e r new yes))"

end
