(* ===== verification/Tart_Host_Facts.thy ===== *)
theory Tart_Host_Facts
  imports Tart_Host
begin

text \<open>
  What the host side of the tart agent promises: on which hosts an agent starts, which binary an update may install,
  when it restarts the agent, and which releases it doesn't see.
\<close>

section \<open>Starting on a host\<close>

lemma tart_version_accepted:
  "(\<exists>v. check_tart_version r = Inr v) \<longleftrightarrow>
   (\<exists>out. r = Inr out \<and> cd_success out \<and>
      parse_u32 (hd (split_on (CHR ''.'') (version_word (str_trim (cd_stdout out))))) = Some REQUIRED_TART_MAJOR)"
  by (cases r) (auto simp: check_tart_version_def Let_def split: option.splits)

lemma images_listed:
  "list_images names r = Inr ns \<longleftrightarrow> (\<exists>out. r = Inr out \<and> cd_success out \<and> names (cd_stdout out) = Inr ns)"
  by (cases r) (auto simp: list_images_def split: sum.splits)

lemma local_images_accepted:
  "check_local_images names r imgs = Inr () \<longleftrightarrow>
   (\<exists>ns. list_images names r = Inr ns \<and> (\<forall>img \<in> set imgs. is_oci_image img \<or> img \<in> set ns))"
  by (cases "list_images names r") (auto simp: check_local_images_def Let_def filter_empty_conv)

lemma lease_accepted:
  "check_dhcp_lease_time r = Inr () \<longleftrightarrow>
   (\<exists>out t. r = Inr out \<and> cd_success out \<and> parse_dhcp_lease_time (cd_stdout out) = Some t \<and> t \<le> EXPECTED_LEASE_SECS)"
  by (cases r) (auto simp: check_dhcp_lease_time_def split: option.splits)

lemma lease_verdict_starts:
  "(\<exists>w. lease_verdict h mode = HostStarts w) \<longleftrightarrow> mode \<noteq> ''error'' \<or> check_dhcp_lease_time (ha_lease h) = Inr ()"
  by (cases "check_dhcp_lease_time (ha_lease h)") (auto simp: lease_verdict_def Let_def)

text \<open>An agent starts exactly on a host with a tart of the required major version that has every image of the
  settings which tart can't pull, unless the lease time is too long or unknown and the settings make that an error. Every
  other word for that setting than the two documented ones only warns.\<close>

theorem agent_starts_iff:
  "(\<exists>w. host_environment_checks h c mode False = HostStarts w) \<longleftrightarrow>
   (\<exists>v. check_tart_version (ha_version h) = Inr v) \<and>
   (\<exists>ns. list_images (ha_names h) (ha_list h) = Inr ns \<and>
      (\<forall>img \<in> set (tc_base_image c # map tp_image (tc_image_mappings c)). is_oci_image img \<or> img \<in> set ns)) \<and>
   (mode \<noteq> ''error'' \<or> check_dhcp_lease_time (ha_lease h) = Inr ())"
proof (cases "check_tart_version (ha_version h)")
  case (Inr v)
  show ?thesis
  proof (cases "check_local_images (ha_names h) (ha_list h) (tc_base_image c # map tp_image (tc_image_mappings c))")
    case (Inl msg)
    then show ?thesis
      using Inr local_images_accepted [of "ha_names h" "ha_list h" "tc_base_image c # map tp_image (tc_image_mappings c)"]
      by (simp add: host_environment_checks_def)
  next
    case (Inr u)
    then show ?thesis
      using \<open>check_tart_version (ha_version h) = Inr v\<close> lease_verdict_starts [of h mode]
        local_images_accepted [of "ha_names h" "ha_list h" "tc_base_image c # map tp_image (tc_image_mappings c)"]
      by (simp add: host_environment_checks_def)
  qed
qed (simp add: host_environment_checks_def)

text \<open>The line that sets the lease time may be anywhere among others that don't begin like it.\<close>

lemma lease_line_found:
  assumes "list_all (\<lambda>l. \<not> is_prefix_of ''DHCPLeaseTimeSecs'' (str_trim l)) before"
    "is_prefix_of ''DHCPLeaseTimeSecs'' (str_trim line)" "split_once (CHR ''='') (str_trim line) = Some (k, value)"
  shows "lease_of_lines (before @ line # rest) = parse_u32 (str_trim (trim_end_semicolons (str_trim value)))"
  using assms by (induction before) auto

section \<open>The release of an update\<close>








section \<open>The binary of an update\<close>





















end
