(* ===== verification/Tart_Service.thy ===== *)
theory Tart_Service
  imports Tart_Host
begin

text \<open>
  Installing and removing the tart agent as a LaunchAgent, \<^verbatim>\<open>cmd_install\<close> and \<^verbatim>\<open>cmd_uninstall\<close> of
  \<^verbatim>\<open>kuiper-tart-agent/src/main.rs\<close> over \<^verbatim>\<open>install.rs\<close>, and the removal of old runner logs. What file operations come to is
  an argument: \<^verbatim>\<open>Some\<close> is an error. A panic is an error of its own text. A file without a time of modification has that of the epoch.
  What the commands print of their progress is left out.
\<close>

section \<open>The LaunchAgent's file\<close>

record service_env =
  sn_home :: "string option"
  sn_config_path :: string
  sn_data_dir :: string
  sn_mkdir_logs :: "string option"
  sn_mkdir_agents :: "string option"
  sn_write_plist :: "(string \<times> string option) option"
  sn_remove_plist :: "string option"
  sn_remove_config :: "string option"
  sn_remove_data :: "string option"

definition launch_agents_dir :: "service_env \<Rightarrow> string + string" where
  "launch_agents_dir n = (case sn_home n of None \<Rightarrow> Inl ''No home directory'' | Some h \<Rightarrow> Inr (h @ ''/Library/LaunchAgents''))"

definition plist_path :: "service_env \<Rightarrow> string + string" where
  "plist_path n = map_sum id (\<lambda>dir. dir @ ''/'' @ SERVICE_LABEL @ ''.plist'') (launch_agents_dir n)"

definition find_binary_in_path :: "'v update_env \<Rightarrow> string updating" where
  "find_binary_in_path e = do {
     r \<leftarrow> host_cmd e [''which'', ''kuiper-tart-agent''];
     case r of
       Inl m \<Rightarrow> fail_with (''Failed to run 'which': '' @ m)
     | Inr out \<Rightarrow>
         if cd_success out then give (str_trim (cd_stdout out))
         else fail_with ''kuiper-tart-agent not found in PATH. Install the binary to a directory in PATH (e.g., /usr/local/bin/) first.'' }"

definition xml_key :: "string \<Rightarrow> string" where "xml_key k = ''    <key>'' @ k @ ''</key>''"

definition xml_string :: "string \<Rightarrow> string" where "xml_string v = ''<string>'' @ v @ ''</string>''"

text \<open>The lines of the template, as the source has them.\<close>

definition plist_lines :: "service_env \<Rightarrow> string \<Rightarrow> string \<Rightarrow> string \<Rightarrow> string list" where
  "plist_lines n binary config log_dir =
     (let home = (case sn_home n of Some h \<Rightarrow> h | None \<Rightarrow> ''/Users/nobody''); q = [CHR 0x22] in
      [''<?xml version='' @ q @ ''1.0'' @ q @ '' encoding='' @ q @ ''UTF-8'' @ q @ ''?>'',
       ''<!DOCTYPE plist PUBLIC '' @ q @ ''-//Apple//DTD PLIST 1.0//EN'' @ q @ '' '' @ q @
         ''http://www.apple.com/DTDs/PropertyList-1.0.dtd'' @ q @ ''>'',
       ''<plist version='' @ q @ ''1.0'' @ q @ ''>'', ''<dict>'',
       xml_key ''Label'', ''    '' @ xml_string SERVICE_LABEL, [],
       xml_key ''ProgramArguments'', ''    <array>'', ''        '' @ xml_string binary, ''        '' @ xml_string ''--config'',
       ''        '' @ xml_string config, ''    </array>'', [],
       xml_key ''RunAtLoad'', ''    <true/>'', [],
       xml_key ''KeepAlive'', ''    <dict>'', ''    '' @ xml_key ''SuccessfulExit'', ''        <false/>'', ''    </dict>'', [],
       xml_key ''ThrottleInterval'', ''    <integer>10</integer>'', [],
       xml_key ''StandardOutPath'', ''    '' @ xml_string (log_dir @ ''/launchd-stdout.log''), [],
       xml_key ''StandardErrorPath'', ''    '' @ xml_string (log_dir @ ''/launchd-stderr.log''), [],
       xml_key ''WorkingDirectory'', ''    '' @ xml_string home, [],
       xml_key ''EnvironmentVariables'', ''    <dict>'', ''    '' @ xml_key ''HOME'', ''        '' @ xml_string home,
       ''    '' @ xml_key ''PATH'',
       ''        '' @ xml_string ''/opt/homebrew/bin:/usr/local/bin:/usr/bin:/bin:/usr/sbin:/sbin'', ''    </dict>'',
       ''</dict>'', ''</plist>'', []])"

definition generate_plist :: "service_env \<Rightarrow> string \<Rightarrow> string \<Rightarrow> string \<Rightarrow> string" where
  "generate_plist n binary config log_dir = join [NEWLINE] (plist_lines n binary config log_dir)"

section \<open>Installing\<close>

definition logs_dir :: "service_env \<Rightarrow> string" where "logs_dir n = sn_data_dir n @ ''/logs''"

text \<open>A failed write may have truncated the file.\<close>

definition write_plist :: "service_env \<Rightarrow> string \<Rightarrow> unit updating" where
  "write_plist n content = (case sn_write_plist n of
     None \<Rightarrow> do { modify (\<lambda>s. s\<lparr>us_plist := Some content\<rparr>); give () }
   | Some (err, left) \<Rightarrow> do { modify (\<lambda>s. s\<lparr>us_plist := left\<rparr>); fail_with err })"

definition unload_existing :: "'v update_env \<Rightarrow> string \<Rightarrow> bool \<Rightarrow> unit updating" where
  "unload_existing e path force = do {
     installed \<leftarrow> gets us_plist;
     if installed = None then give ()
     else if \<not> force then fail_with (''Service already installed at '' @ path @ ''.'' @ [NEWLINE] @ ''Use --force to overwrite.'')
     else do { _ \<leftarrow> unload_service e path; give () } }"

definition load_and_look :: "'v update_env \<Rightarrow> string \<Rightarrow> string \<Rightarrow> unit updating" where
  "load_and_look e path log_dir = try_bind (load_service e path) (\<lambda>_. do {
     running \<leftarrow> is_service_running e;
     if running then say ''Service is running.'' else say (''Warning: Service may not have started. Check logs at '' @ log_dir) })"

definition cmd_install :: "'v update_env \<Rightarrow> service_env \<Rightarrow> bool \<Rightarrow> bool \<Rightarrow> unit updating" where
  "cmd_install e n no_load force =
     try_bind (find_binary_in_path e) (\<lambda>binary. do {
     config \<leftarrow> gets us_config;
     if config = None then fail_with (''Config file not found at '' @ sn_config_path n @ ''.'' @ [NEWLINE] @ ''Run 'kuiper-tart-agent register <token>' first.'')
     else
       try_bind (from_result (plist_path n)) (\<lambda>path.
       try_bind (unload_existing e path force) (\<lambda>_.
       try_bind (io_step (sn_mkdir_logs n)) (\<lambda>_. do {
       modify (\<lambda>s. s\<lparr>us_data := True\<rparr>);
       try_bind (io_step (sn_mkdir_agents n)) (\<lambda>_.
       try_bind (write_plist n (generate_plist n binary (sn_config_path n) (logs_dir n))) (\<lambda>_.
         if no_load then say ''Plist generated but not loaded (--no-load specified).'' else load_and_look e path (logs_dir n))) }))) })"

section \<open>Removing\<close>

definition purge_config :: "service_env \<Rightarrow> unit updating" where
  "purge_config n = do {
     config \<leftarrow> gets us_config;
     if config = None then give ()
     else try_bind (io_step (sn_remove_config n)) (\<lambda>_. do { modify (\<lambda>s. s\<lparr>us_config := None\<rparr>); give () }) }"

definition purge_data :: "service_env \<Rightarrow> unit updating" where
  "purge_data n = do {
     data \<leftarrow> gets us_data;
     if \<not> data then give ()
     else try_bind (io_step (sn_remove_data n)) (\<lambda>_. do { modify (\<lambda>s. s\<lparr>us_data := False\<rparr>); give () }) }"

definition remove_service :: "'v update_env \<Rightarrow> service_env \<Rightarrow> string \<Rightarrow> unit updating" where
  "remove_service e n path = do {
     running \<leftarrow> is_service_running e;
     _ \<leftarrow> (if running then unload_service e path else give ());
     try_bind (io_step (sn_remove_plist n)) (\<lambda>_. do { modify (\<lambda>s. s\<lparr>us_plist := None\<rparr>); give () }) }"

definition cmd_uninstall :: "'v update_env \<Rightarrow> service_env \<Rightarrow> bool \<Rightarrow> unit updating" where
  "cmd_uninstall e n purge =
     try_bind (from_result (plist_path n)) (\<lambda>path. do {
     installed \<leftarrow> gets us_plist;
     try_bind (if installed = None then give () else remove_service e n path) (\<lambda>_.
       if \<not> purge then give () else try_bind (purge_config n) (\<lambda>_. purge_data n)) })"

section \<open>Old runner logs\<close>

text \<open>An entry of the log directory: its name, and when it was modified, if its metadata can be read. Times in seconds;
  the removal of an entry may fail.\<close>

definition expired_log :: "int \<Rightarrow> nat \<Rightarrow> string \<times> int option \<Rightarrow> bool" where
  "expired_log now retention_days entry \<longleftrightarrow> (case entry of (name, modified) \<Rightarrow>
     is_prefix_of ''runner-'' name \<and> ends_with name ''.log'' \<and>
     (case modified of None \<Rightarrow> False | Some m \<Rightarrow> m < now - int retention_days * 86400))"

definition cleanup_old_logs ::
    "(string \<Rightarrow> bool) \<Rightarrow> int \<Rightarrow> nat \<Rightarrow> (string \<times> int option) list option \<Rightarrow> string list" where
  "cleanup_old_logs removable now retention_days entries = (case entries of
     None \<Rightarrow> []
   | Some es \<Rightarrow> filter removable (map fst (filter (expired_log now retention_days) es)))"

section \<open>What installing and removing keep\<close>

lemmas service_steps = try_bind_def give_def fail_with_def say_def host_cmd_def from_result_def io_step_def

text \<open>Nothing but commands run and lines printed.\<close>

definition same_files :: "update_state \<Rightarrow> update_state \<Rightarrow> bool" where
  "same_files s t \<longleftrightarrow> us_binary t = us_binary s \<and> us_plist t = us_plist s \<and> us_config t = us_config s \<and> us_data t = us_data s"

lemma unload_service_keeps: "run_state (unload_service e path) s = (r, t) \<Longrightarrow> same_files s t"
  by (auto simp: unload_service_def service_steps same_files_def split: sum.splits if_splits)

lemma load_service_keeps: "run_state (load_service e path) s = (r, t) \<Longrightarrow> same_files s t"
  by (auto simp: load_service_def service_steps same_files_def split: sum.splits if_splits)

lemma service_looked_at: "run_state (is_service_running e) s = (r, t) \<Longrightarrow> same_files s t"
  by (auto simp: is_service_running_def service_steps same_files_def)

lemma load_and_look_keeps:
  assumes "run_state (load_and_look e path log_dir) s = (r, t)"
  shows "same_files s t"
proof -
  obtain q u where q: "run_state (load_service e path) s = (q, u)" by fastforce
  obtain b v where b: "run_state (is_service_running e) u = (b, v)" by fastforce
  from load_service_keeps [OF q] service_looked_at [OF b] show ?thesis
    using assms q b by (cases q) (auto simp: load_and_look_def service_steps same_files_def split: if_splits)
qed

text \<open>Without force an installed service is left alone: only the search for the binary was run.\<close>

theorem installed_service_kept:
  assumes "us_plist s = Some p" "run_state (cmd_install e n no_load False) s = (r, s')"
  shows "r \<noteq> Inr () \<and> s' = s\<lparr>us_commands := us_commands s @ [[''which'', ''kuiper-tart-agent'']]\<rparr>"
  using assms
  by (auto simp: cmd_install_def find_binary_in_path_def unload_existing_def service_steps split: sum.splits if_splits)

lemma unload_existing_keeps:
  assumes "run_state (unload_existing e path force) s = (r, t)"
  shows "same_files s t"
proof -
  obtain q u where "run_state (unload_service e path) s = (q, u)" by fastforce
  with unload_service_keeps [OF this] show ?thesis
    using assms by (auto simp: unload_existing_def service_steps same_files_def split: if_splits)
qed

text \<open>An installation that succeeds has written the file for the binary that was found and the settings that exist.\<close>

theorem installed_service_file:
  assumes "run_state (cmd_install e n no_load force) s = (Inr (), s')"
  shows "us_config s \<noteq> None \<and> us_config s' = us_config s \<and>
    (\<exists>out. ue_ran e (length (us_commands s)) [''which'', ''kuiper-tart-agent''] = Inr out \<and> cd_success out \<and>
       us_plist s' = Some (generate_plist n (str_trim (cd_stdout out)) (sn_config_path n) (logs_dir n)))"
proof -
  let ?s1 = "s\<lparr>us_commands := us_commands s @ [[''which'', ''kuiper-tart-agent'']]\<rparr>"
  obtain out where out: "ue_ran e (length (us_commands s)) [''which'', ''kuiper-tart-agent''] = Inr out" "cd_success out"
    "us_config s \<noteq> None"
    using assms by (auto simp: cmd_install_def find_binary_in_path_def service_steps split: sum.splits if_splits)
  obtain path where path: "plist_path n = Inr path"
    using assms out by (cases "plist_path n") (auto simp: cmd_install_def find_binary_in_path_def service_steps)
  obtain q t where q: "run_state (unload_existing e path force) ?s1 = (q, t)" by fastforce
  let ?file = "generate_plist n (str_trim (cd_stdout out)) (sn_config_path n) (logs_dir n)"
  let ?s2 = "t\<lparr>us_data := True, us_plist := Some ?file\<rparr>"
  have ok: "q = Inr () \<and> sn_mkdir_logs n = None \<and> sn_mkdir_agents n = None \<and> sn_write_plist n = None"
    using assms out path q
    by (cases q) (auto simp: cmd_install_def find_binary_in_path_def write_plist_def service_steps split: option.splits)
  obtain r u where "run_state (load_and_look e path (logs_dir n)) ?s2 = (r, u)" by fastforce
  with load_and_look_keeps [OF this] unload_existing_keeps [OF q]
  have "us_config s' = us_config s \<and> us_plist s' = Some ?file"
    using assms out path q ok
    by (auto simp: cmd_install_def find_binary_in_path_def write_plist_def service_steps same_files_def split: if_splits)
  then show ?thesis using out by blast
qed

lemma remove_service_keeps:
  assumes "run_state (remove_service e n path) s = (r, t)"
  shows "us_config t = us_config s \<and> us_data t = us_data s \<and> us_binary t = us_binary s"
proof -
  obtain b u where b: "run_state (is_service_running e) s = (b, u)" by fastforce
  obtain q v where q: "run_state (unload_service e path) u = (q, v)" by fastforce
  from service_looked_at [OF b] unload_service_keeps [OF q] show ?thesis
    using assms b q by (auto simp: remove_service_def service_steps same_files_def split: if_splits option.splits)
qed

text \<open>Removing the service keeps settings and data unless they are to be purged.\<close>

theorem uninstall_keeps_data:
  assumes "run_state (cmd_uninstall e n False) s = (r, s')"
  shows "us_config s' = us_config s \<and> us_data s' = us_data s \<and> us_binary s' = us_binary s"
proof (cases "plist_path n")
  case (Inr path)
  obtain q t where q: "run_state (remove_service e n path) s = (q, t)" by fastforce
  from remove_service_keeps [OF q] show ?thesis
    using assms Inr q by (cases q) (auto simp: cmd_uninstall_def service_steps split: if_splits)
qed (use assms in \<open>simp add: cmd_uninstall_def service_steps\<close>)

text \<open>Only logs of runners that were last written before the retention are removed.\<close>

lemma expired_log_iff:
  "expired_log now days (name, m) \<longleftrightarrow> is_prefix_of ''runner-'' name \<and> ends_with name ''.log'' \<and>
     (\<exists>t. m = Some t \<and> t < now - int days * 86400)"
  by (cases m) (simp_all add: expired_log_def)

lemma filtered_keys: "name \<in> set (map fst (filter P es)) \<longleftrightarrow> (\<exists>m. (name, m) \<in> set es \<and> P (name, m))"
  by (induction es) auto

lemma removed_logs_expired:
  "name \<in> set (cleanup_old_logs removable now days (Some es)) \<longleftrightarrow>
   (\<exists>t. (name, Some t) \<in> set es \<and> t < now - int days * 86400) \<and>
   is_prefix_of ''runner-'' name \<and> ends_with name ''.log'' \<and> removable name"
proof -
  have "name \<in> set (cleanup_old_logs removable now days (Some es)) \<longleftrightarrow>
      name \<in> set (map fst (filter (expired_log now days) es)) \<and> removable name"
    by (simp add: cleanup_old_logs_def conj_commute del: set_map)
  then show ?thesis unfolding filtered_keys expired_log_iff by metis
qed

end
