(* ===== verification/Spec2Isabelle.thy ===== *)
theory Spec2Isabelle
  imports Labels Forge Tracker Vm_Agent_Facts Registration Agent_Session Admin_Facts Agent_Logs Fleet_Guarantees
    Metrics_Facts Agent_Updates Proxy_Protocol Runner_Cache_Facts Github_Facts Libvirt_Facts Proxmox_Facts Tart_Facts
    Tart_Host_Facts Tart_Service
begin

text \<open>
  kuiper-forge runs the CI jobs of GitHub and Forgejo in throw-away VMs. A coordinator (\<^verbatim>\<open>kuiper-forge/src\<close>) learns
  of queued jobs from webhooks and by scanning the forges, and asks agents for VMs over a stream of messages. Agents
  (\<^verbatim>\<open>kuiper-agent-lib/src\<close> with a backend each: Tart, Proxmox, libvirt) make a VM, run one job's runner on it and
  destroy it. This development models both sides and the messages between them.

  How the code is modelled

  A struct is a record, an enum a datatype, a fallible function returns a sum, with the error on the left. A
  \<^verbatim>\<open>String\<close> is the list of its UTF-8 bytes. A \<^verbatim>\<open>HashMap\<close> is an association list: what is proved of it
  holds in any order of iteration. Everything a function asks of the outside (a query, a clock, a fresh id, an HTTP
  request, a command, a file) is answered by an argument at the index of the question, so every theorem is about all
  answers the outside can give. Stateful code is a state monad over the component's state, with its rules of
  preservation collected per component (\<open>keeps\<close>, \<open>own_intros\<close>, \<open>still_intros\<close> and others). Tasks that run at
  the same time are steps of an inductive relation or of a list of choices: what runs under one lock, and a handler of
  the fleet manager, is one step; between two steps anything else may happen. Times and durations are numbers. Numbers
  that only count or compare are \<open>nat\<close>; pool sizes, which the code adds up as \<^verbatim>\<open>u32\<close>, are 32-bit words.

  Shared

  \<open>Prelude\<close> has strings, hash maps, numbers as text and the monad; \<open>Store\<close> the database and the environment that
  answers queries; \<open>Slots\<close> the locale of counting slots within limits, which the agent's tracker and the
  coordinator's view of an agent interpret; \<open>Proto\<close> the messages of \<^verbatim>\<open>agent.proto\<close>; \<open>Labels\<close>
  (\<^verbatim>\<open>labels.rs\<close>) how jobs are matched to resources; \<open>Forge\<close> (\<^verbatim>\<open>forge.rs\<close>) job keys and the registry of
  forges.

  The coordinator

  \<^item> \<open>Connected_Agent\<close>, \<open>Agent_Labels\<close>, \<open>Agent_Registry\<close>, \<open>Registry_Facts\<close>: \<^verbatim>\<open>agent_registry.rs\<close>. An agent's
    limits and reservations, choosing an agent, connections and failover. Shown: the coordinator's choice agrees with
    the agent's, reservations never overbook an agent, the least loaded agent is taken, the three maps stay in step.
  \<^item> \<open>Run_History\<close>, \<open>Pending_Jobs\<close>, \<open>Runner_State\<close>: the tables of \<^verbatim>\<open>metrics/mod.rs\<close>, \<^verbatim>\<open>agent_failures.rs\<close>,
    \<^verbatim>\<open>pending_jobs.rs\<close> and \<^verbatim>\<open>runner_state.rs\<close> with their statements. The locale \<open>written_once\<close> is the contract of
    a time that is set once.
  \<^item> \<open>Webhook\<close>, \<open>Config\<close>: \<^verbatim>\<open>webhook.rs\<close> and \<^verbatim>\<open>config.rs\<close>. Signatures, filters, scopes, the checks of the configured
    forges. Shown: a queued webhook keeps its job, every key of a configured forge finds it again.
  \<^item> \<open>Fleet_World\<close>, \<open>Fleet_On_Demand\<close>, \<open>Fleet_Events\<close>, \<open>Fleet_Pools\<close>: the fleet manager of \<^verbatim>\<open>fleet.rs\<close>; \<open>Server\<close>:
    the agents' streams of \<^verbatim>\<open>server.rs\<close>; \<open>Tables\<close> proves once, in the locales \<open>deletable\<close> and \<open>provisioning\<close>,
    which invariants of the two tables every handler keeps; \<open>Coordinator\<close> interleaves all handlers and tasks;
    \<open>Coordinator_Facts\<close>, \<open>Fleet_Facts\<close> and \<open>Fleet_Guarantees\<close> interpret the locales and state what holds: one runner
    per job, bounded retries, slots given back on every path, no busy runner drained, pools not overfilled, and the
    behaviours found to be faults.
  \<^item> \<open>Registration\<close>, \<open>Auth_Store\<close>: registration tokens, agents and certificates of \<^verbatim>\<open>auth.rs\<close>, \<^verbatim>\<open>tls.rs\<close> and
    \<^verbatim>\<open>server.rs\<close>. \<open>Proxy_Protocol\<close>: the header in front of TLS. \<open>Admin_Auth\<close>, \<open>Admin_Facts\<close>: users, sessions and API
    tokens of \<^verbatim>\<open>admin/\<close>. \<open>Metrics_Summary\<close>, \<open>Metrics_Facts\<close>: the metrics page. \<open>Agent_Logs\<close>, \<open>Agent_Updates\<close>: the logs
    kept of agents, and the releases offered to them.
  \<^item> \<open>Forgejo_Client\<close>, \<open>Forgejo_Facts\<close>, \<open>Github_Client\<close>, \<open>Github_Facts\<close>: \<^verbatim>\<open>forgejo.rs\<close> and \<^verbatim>\<open>github.rs\<close>. Shown: the scans
    read all pages and find exactly the waiting jobs, a busy runner is not deleted.

  The agents

  \<^item> \<open>Tracker\<close>, \<open>Phase_Clock\<close>, \<open>Vm_Agent\<close>, \<open>Vm_Agent_Facts\<close>: \<^verbatim>\<open>vm_agent/\<close>. The tracked VMs and their limits, and
    the tasks of the agent as steps over them; the backend is a parameter. Shown: limits hold, one destroyer per VM,
    every task ends (by a measure, no fuel), each lifecycle reports once, a settled agent holds no VM.
  \<^item> \<open>Agent_Session\<close>, \<open>Agent_Connection\<close>, \<open>Log_Upload\<close>: \<^verbatim>\<open>runtime.rs\<close>, \<^verbatim>\<open>connector.rs\<close>, \<^verbatim>\<open>certs.rs\<close> and
    \<^verbatim>\<open>log_upload.rs\<close>. Shown: events arrive in order, log lines are all accounted for.
  \<^item> \<open>Shell_Quoting\<close>, \<open>Runner_Commands\<close>: \<^verbatim>\<open>shell.rs\<close>, \<^verbatim>\<open>github_runner.rs\<close>, \<^verbatim>\<open>forgejo_runner.rs\<close>, next to reference
    readers of a POSIX shell and of PowerShell strings. \<open>Runner_Cache\<close>, \<open>Runner_Cache_Facts\<close>: \<^verbatim>\<open>runner_cache.rs\<close> with
    torn and failing file operations.
  \<^item> \<open>Ssh\<close>, \<open>Guest\<close>, \<open>Guest_Facts\<close>: \<^verbatim>\<open>ssh.rs\<close> and \<^verbatim>\<open>guest.rs\<close>, running a job's runner on a VM. Shown: secrets stay out
    of the log, reports come in order; a session that breaks off reads as success.
  \<^item> \<open>Libvirt_Config\<close>, \<open>Libvirt\<close>, \<open>Libvirt_Facts\<close>: \<^verbatim>\<open>kuiper-libvirt-agent/src\<close>. Settings, domain XML, overlays, virsh. Shown:
    only the agent's own domains are destroyed, every domain it writes carries its marker, files outlive domains.
  \<^item> \<open>Proxmox_Config\<close>, \<open>Proxmox\<close>, \<open>Proxmox_Facts\<close>: \<^verbatim>\<open>kuiper-proxmox-agent/src\<close> over the requests of
    \<^verbatim>\<open>kuiper-proxmox-api/src\<close>. Shown: waiting for a task ends after a bounded number of requests, a renamed VM is left
    alone; a clone that fails late is left behind.
  \<^item> \<open>Tart\<close>, \<open>Tart_Run\<close>, \<open>Tart_Facts\<close>: \<^verbatim>\<open>kuiper-tart-agent/src/backend.rs\<close>, \<^verbatim>\<open>ssh.rs\<close> and the limits of \<^verbatim>\<open>config.rs\<close>. Shown:
    macOS guests stay within what macOS allows, the log of a runner is copied byte for byte.
  \<^item> \<open>Tart_Host\<close>, \<open>Tart_Host_Facts\<close>, \<open>Tart_Service\<close>: \<^verbatim>\<open>host_checks.rs\<close>, \<^verbatim>\<open>update.rs\<close> and \<^verbatim>\<open>install.rs\<close> of the tart agent with
    their use in \<^verbatim>\<open>main.rs\<close>, over failing commands and file operations. Shown: on which hosts an agent starts, an update
    installs only what it verified, an installed service is not overwritten, removing it keeps the data.

  Bounds

  Loops over pages stop at the code's own limits (\<open>MAX_PAGES\<close>, a hundred pages of runners); the list of an
  installation's repositories, which the code follows as long as there are pages, has fuel, and the scan is shown to end
  when the list does. Polling loops (a port, an address, a task) are recursive functions whose termination follows from
  their deadlines. The fleet manager and the agents run forever: they are step relations, and what is shown holds in
  every reachable state.

  Parameters

  What the code does not compute itself is an argument: the crates ppp, semver, base64, SHA-256, HMAC, argon2, the
  signing of JWTs and certificates, JSON and TOML readers, RFC 3339, what HTTP servers, virsh, qemu-img, SSH channels
  and the database answer, which file operations fail, and the clocks. No hypothesis says more of them than that a
  versions' order is linear, that the database answers, or that a clock does not run backwards, where a theorem needs it.

  Not modelled

  The setup wizards and command lines of all programs (\<^verbatim>\<open>setup.rs\<close>, \<^verbatim>\<open>main.rs\<close> but for what \<open>Tart_Host\<close> and
  \<open>Tart_Service\<close> take of it), the management socket and the database's migrations: dialogues, process and file handling
  around the parts above. The HTML pages and handlers of the admin interface beyond logins, tokens, errors and metrics: templates over
  queries that are modelled. Certificate checks of rustls and x509-parser: third-party code behind a parameter. The SFTP
  upload and russh. The text of log messages, except where a theorem is about what the log shows.
\<close>

end
